(* ===== verification/Prelude_AE.thy ===== *)
theory Prelude_AE
  imports Main "HOL-Library.AList"
begin

text \<open>
  What every component of the agent economy shares: the errors the services raise, Python's
  insertion-ordered dictionaries as association lists, and the two effects every service has
  besides its own state: reading the clock (\<^verbatim>\<open>datetime.now(UTC)\<close>) and drawing a fresh
  identifier (\<^verbatim>\<open>uuid.uuid4()\<close>).
\<close>

section \<open>Errors as values\<close>

text \<open>
  \<^verbatim>\<open>ServiceError(error, message, status_code, details)\<close> keeps the machine-readable error code and
  the HTTP status; the human-readable message and the details dictionary are not modelled. Every other
  exception that escapes a handler (Python's own \<^verbatim>\<open>OverflowError\<close>, \<^verbatim>\<open>TypeError\<close>,
  \<^verbatim>\<open>RuntimeError\<close>, \dots) is a \<open>PyError\<close> with the class name; the services answer it
  with status 500.
\<close>

datatype exn = ServiceError (error_code: string) (http_status: nat) | PyError (class_name: string)

type_synonym 'a result = "exn + 'a"

fun is_ok :: "'a result \<Rightarrow> bool" where
  "is_ok (Inl _) = False"
| "is_ok (Inr _) = True"

lemma is_ok_iff: "is_ok r \<longleftrightarrow> (\<exists>x. r = Inr x)"
  by (cases r) auto

lemma not_is_ok_iff: "\<not> is_ok r \<longleftrightarrow> (\<exists>e. r = Inl e)"
  by (cases r) auto

section \<open>Dictionaries\<close>

text \<open>
  A Python dictionary keeps insertion order: assigning an existing key changes the entry in place,
  a new key goes to the end. This is exactly \<open>AList.update\<close>.
\<close>

type_synonym ('k, 'v) dict = "('k \<times> 'v) list"

abbreviation dget :: "('k, 'v) dict \<Rightarrow> 'k \<Rightarrow> 'v option" where
  "dget d k \<equiv> map_of d k"

abbreviation dput :: "('k, 'v) dict \<Rightarrow> 'k \<Rightarrow> 'v \<Rightarrow> ('k, 'v) dict" where
  "dput d k v \<equiv> AList.update k v d"

abbreviation dpop :: "('k, 'v) dict \<Rightarrow> 'k \<Rightarrow> ('k, 'v) dict" where
  "dpop d k \<equiv> AList.delete k d"

abbreviation dvals :: "('k, 'v) dict \<Rightarrow> 'v list" where
  "dvals d \<equiv> map snd d"

definition dget_or :: "('k, 'v) dict \<Rightarrow> 'k \<Rightarrow> 'v \<Rightarrow> 'v" where
  "dget_or d k v = (case dget d k of None \<Rightarrow> v | Some x \<Rightarrow> x)"

definition dict_ok :: "('k, 'v) dict \<Rightarrow> bool" where
  "dict_ok d \<longleftrightarrow> distinct (map fst d)"

definition dsum :: "('v \<Rightarrow> int) \<Rightarrow> ('k, 'v) dict \<Rightarrow> int" where
  "dsum f d = sum_list (map f (dvals d))"

named_theorems dict_simps \<open>lookup, update and sums of dictionaries\<close>

lemma dget_dput [dict_simps, simp]: "dget (dput d k v) k' = (if k' = k then Some v else dget d k')"
  by (simp add: update_conv)

lemma dget_dpop [dict_simps, simp]: "dget (dpop d k) k' = (if k' = k then None else dget d k')"
  by (simp add: AList.delete_conv)

lemma dict_ok_Nil [simp]: "dict_ok []"
  by (simp add: dict_ok_def)

lemma dict_ok_dput [simp, intro]: "dict_ok d \<Longrightarrow> dict_ok (dput d k v)"
  by (simp add: dict_ok_def distinct_update)

lemma dict_ok_dpop [simp, intro]: "dict_ok d \<Longrightarrow> dict_ok (dpop d k)"
  by (simp add: dict_ok_def distinct_delete)

lemma dget_or_dput [dict_simps, simp]:
  "dget_or (dput d k v) k' w = (if k' = k then v else dget_or d k' w)"
  by (simp add: dget_or_def)

lemma dput_new: "dget d k = None \<Longrightarrow> dput d k v = d @ [(k, v)]"
  by (induction d) (auto split: if_splits)

lemma dget_None_keys: "dget d k = None \<longleftrightarrow> k \<notin> fst ` set d"
  by (simp add: map_of_eq_None_iff)

lemma dget_Some_set: "dict_ok d \<Longrightarrow> (k, v) \<in> set d \<longleftrightarrow> dget d k = Some v"
  by (auto simp: dict_ok_def map_of_eq_Some_iff)

lemma dsum_Nil [simp]: "dsum f [] = 0"
  by (simp add: dsum_def)

lemma dsum_Cons [simp]: "dsum f ((k, v) # d) = f v + dsum f d"
  by (simp add: dsum_def)

lemma dsum_put_new [dict_simps]: "dget d k = None \<Longrightarrow> dsum f (dput d k v) = dsum f d + f v"
  by (simp add: dput_new dsum_def)

lemma dsum_put_old [dict_simps]:
  "dict_ok d \<Longrightarrow> dget d k = Some w \<Longrightarrow> dsum f (dput d k v) = dsum f d - f w + f v"
  by (induction d) (auto simp: dict_ok_def split: if_splits)

lemma dsum_nonneg: "(\<And>v. v \<in> snd ` set d \<Longrightarrow> 0 \<le> f v) \<Longrightarrow> 0 \<le> dsum f d"
  by (induction d) auto

lemma dvals_dget: "dict_ok d \<Longrightarrow> v \<in> snd ` set d \<longleftrightarrow> (\<exists>k. dget d k = Some v)"
  by (force simp: dget_Some_set [symmetric])

lemma dsum_ge_entry:
  assumes "dict_ok d" and "dget d k = Some v" and "\<And>v. v \<in> snd ` set d \<Longrightarrow> 0 \<le> f v"
  shows "f v \<le> dsum f d"
  using assms
proof (induction d)
  case Nil
  then show ?case by simp
next
  case (Cons p d)
  obtain k' v' where p: "p = (k', v')" by (cases p)
  have rest: "0 \<le> dsum f d"
    using Cons.prems(3) by (intro dsum_nonneg) auto
  show ?case
  proof (cases "k' = k")
    case True
    with Cons.prems p rest show ?thesis by simp
  next
    case False
    then have "f v \<le> dsum f d"
      using Cons.prems p by (intro Cons.IH) (auto simp: dict_ok_def)
    moreover have "0 \<le> f v'"
      using Cons.prems(3) p by simp
    ultimately show ?thesis using p by simp
  qed
qed

lemma length_dput: "length (dput d k v) = (if dget d k = None then Suc (length d) else length d)"
  by (induction d) auto

section \<open>Sorting as Python sorts\<close>

text \<open>
  \<^verbatim>\<open>rows.sort(key=f)\<close> is a stable insertion into ascending order, \<open>sort_key f\<close>. With
  \<^verbatim>\<open>reverse=True\<close> Python keeps the order of equal elements too, which is a stable sort by the
  negated key.
\<close>

definition sort_desc :: "('a \<Rightarrow> int) \<Rightarrow> 'a list \<Rightarrow> 'a list" where
  "sort_desc f xs = sort_key (\<lambda>x. - f x) xs"

lemma set_sort_desc [simp]: "set (sort_desc f xs) = set xs"
  by (simp add: sort_desc_def)

lemma length_sort_desc [simp]: "length (sort_desc f xs) = length xs"
  by (simp add: sort_desc_def)

lemma sorted_sort_desc: "sorted (map (\<lambda>x. - f x) (sort_desc f xs))"
  by (simp add: sort_desc_def)

section \<open>The host: clock and identifiers\<close>

text \<open>
  A service reads the clock and draws identifiers from its host. The readings and the identifiers
  are functions of how many were taken before, so a model state stays executable; times are
  microseconds since the epoch. What is assumed of them is named: \<open>clock_mono\<close> (the clock does not
  go backwards) and \<open>uuid_unique\<close> (a \<^verbatim>\<open>uuid4\<close> is never drawn twice).
\<close>

record host =
  clock :: "nat \<Rightarrow> int"
  ticks :: nat
  uuid_src :: "nat \<Rightarrow> string"
  uuids :: nat

definition read_clock :: "'a host_scheme \<Rightarrow> int \<times> 'a host_scheme" where
  "read_clock h = (clock h (ticks h), h\<lparr>ticks := Suc (ticks h)\<rparr>)"

definition new_uuid :: "'a host_scheme \<Rightarrow> string \<times> 'a host_scheme" where
  "new_uuid h = (uuid_src h (uuids h), h\<lparr>uuids := Suc (uuids h)\<rparr>)"

text \<open>f-strings of the form \<^verbatim>\<open>f"tx-{uuid}"\<close> or \<^verbatim>\<open>f"escrow_lock:{task_id}"\<close>.\<close>

definition prefixed :: "string \<Rightarrow> string \<Rightarrow> string" where
  "prefixed p u = p @ u"

lemma prefixed_inject [simp]: "prefixed p u = prefixed p v \<longleftrightarrow> u = v"
  by (simp add: prefixed_def)

definition clock_mono :: "'a host_scheme \<Rightarrow> bool" where
  "clock_mono h \<longleftrightarrow> (\<forall>i j. i \<le> j \<longrightarrow> clock h i \<le> clock h j)"

definition uuid_unique :: "'a host_scheme \<Rightarrow> bool" where
  "uuid_unique h \<longleftrightarrow> inj (uuid_src h)"

text \<open>A host for the concrete inputs of the witnesses: it ticks once a second.\<close>

definition demo_host :: host where
  "demo_host = \<lparr>clock = (\<lambda>i. int i * 1000000), ticks = 0,
                uuid_src = (\<lambda>i. replicate i CHR ''u''), uuids = 0\<rparr>"

lemma demo_host_unique [simp]: "uuid_unique demo_host"
proof -
  have "inj (\<lambda>i. replicate i CHR ''u'')"
    by (rule inj_on_inverseI [where g = length]) simp
  then show ?thesis by (simp add: uuid_unique_def demo_host_def)
qed

lemma demo_host_mono [simp]: "clock_mono demo_host"
  by (simp add: clock_mono_def demo_host_def)

text \<open>\<^verbatim>\<open>isoformat(timespec="seconds")\<close> drops the microseconds.\<close>

definition to_seconds :: "int \<Rightarrow> int" where
  "to_seconds t = t - t mod 1000000"

lemma to_seconds_le: "to_seconds t \<le> t"
  by (simp add: to_seconds_def)

lemma to_seconds_gt: "t - 1000000 < to_seconds t"
  by (simp add: to_seconds_def)

lemma to_seconds_mono: "s \<le> t \<Longrightarrow> to_seconds s \<le> to_seconds t"
  by (simp add: to_seconds_def minus_mod_eq_mult_div zdiv_mono1)

lemma to_seconds_idem [simp]: "to_seconds (to_seconds t) = to_seconds t"
  by (simp add: to_seconds_def minus_mod_eq_mult_div)

text \<open>
  \<^verbatim>\<open>datetime\<close> covers the years 1 to 9999; a sum outside raises \<^verbatim>\<open>OverflowError\<close> (so does
  a \<^verbatim>\<open>timedelta\<close> of more than 999999999 days, whose sum with a representable time is outside too).
\<close>

definition min_time :: int where
  "min_time = - 62135596800 * 1000000"

definition max_time :: int where
  "max_time = 253402300800 * 1000000"

end
