(* ===== verification/Json.thy ===== *)
theory Json
  imports Prelude_AE
begin

text \<open>
  JSON values as Python sees them after \<^verbatim>\<open>json.loads\<close>, with the conversions the handlers use:
  \<^verbatim>\<open>dict.get\<close>, \<^verbatim>\<open>isinstance(x, int)\<close> (true for a bool), comparison with a string
  or an integer (\<^verbatim>\<open>True == 1\<close>, \<^verbatim>\<open>10.0 == 10\<close>), and what an HTTP call made with
  \<^verbatim>\<open>httpx\<close> ends in. Parsing bytes is left to the host: a body enters as the outcome of
  \<^verbatim>\<open>json.loads\<close>, \<open>None\<close> when it raises \<^verbatim>\<open>JSONDecodeError\<close> or
  \<^verbatim>\<open>UnicodeDecodeError\<close>.
\<close>

section \<open>Values\<close>

text \<open>A finite double is mantissa times two to the exponent; NaN and the infinities are \<open>NonFinite\<close>.\<close>

datatype pyfloat = Finite int int | NonFinite

datatype json =
    JNull
  | JBool bool
  | JInt int
  | JFloat pyfloat
  | JStr string
  | JList "json list"
  | JObj "(string \<times> json) list"

type_synonym payload = "(string, json) dict"

text \<open>\<^verbatim>\<open>d.get(k)\<close>: a missing key reads as \<^verbatim>\<open>None\<close>.\<close>

definition jget :: "payload \<Rightarrow> string \<Rightarrow> json" where
  "jget o' k = dget_or o' k JNull"

definition has_key :: "payload \<Rightarrow> string \<Rightarrow> bool" where
  "has_key o' k \<longleftrightarrow> dget o' k \<noteq> None"

text \<open>\<^verbatim>\<open>isinstance(x, int)\<close> holds of bools, whose values are 0 and 1.\<close>

fun as_int :: "json \<Rightarrow> int option" where
  "as_int (JInt n) = Some n"
| "as_int (JBool b) = Some (if b then 1 else 0)"
| "as_int _ = None"

text \<open>An \<^verbatim>\<open>int\<close> that is not a \<^verbatim>\<open>bool\<close>.\<close>

fun strict_int :: "json \<Rightarrow> int option" where
  "strict_int (JInt n) = Some n"
| "strict_int _ = None"

fun as_str :: "json \<Rightarrow> string option" where
  "as_str (JStr s) = Some s"
| "as_str _ = None"

text \<open>\<^verbatim>\<open>not x or not isinstance(x, str)\<close> refuses everything but a non-empty string.\<close>

definition nonempty_str :: "json \<Rightarrow> string option" where
  "nonempty_str j = (case as_str j of Some s \<Rightarrow> if s = '''' then None else Some s | None \<Rightarrow> None)"

fun truthy :: "json \<Rightarrow> bool" where
  "truthy JNull = False"
| "truthy (JBool b) = b"
| "truthy (JInt n) = (n \<noteq> 0)"
| "truthy (JFloat (Finite m e)) = (m \<noteq> 0)"
| "truthy (JFloat NonFinite) = True"
| "truthy (JStr s) = (s \<noteq> '''')"
| "truthy (JList xs) = (xs \<noteq> [])"
| "truthy (JObj kvs) = (kvs \<noteq> [])"

text \<open>\<^verbatim>\<open>x == n\<close> for an integer \<^verbatim>\<open>n\<close>.\<close>

fun eq_int :: "json \<Rightarrow> int \<Rightarrow> bool" where
  "eq_int (JInt k) n = (k = n)"
| "eq_int (JBool b) n = ((if b then 1 else 0) = n)"
| "eq_int (JFloat (Finite m e)) n =
     (if 0 \<le> e then m * 2 ^ nat e = n else m = n * 2 ^ nat (- e))"
| "eq_int _ n = False"

text \<open>Lists and dictionaries cannot be hashed, so \<^verbatim>\<open>x in {...}\<close> raises on them.\<close>

fun hashable :: "json \<Rightarrow> bool" where
  "hashable (JList _) = False"
| "hashable (JObj _) = False"
| "hashable _ = True"

lemma nonempty_str_iff [simp]: "nonempty_str j = Some s \<longleftrightarrow> j = JStr s \<and> s \<noteq> ''''"
  by (cases j) (auto simp: nonempty_str_def)

lemma as_str_iff [simp]: "as_str j = Some s \<longleftrightarrow> j = JStr s"
  by (cases j) auto

lemma strict_int_iff [simp]: "strict_int j = Some n \<longleftrightarrow> j = JInt n"
  by (cases j) auto

lemma strict_int_as_int: "strict_int j = Some n \<Longrightarrow> as_int j = Some n"
  by simp

lemma eq_int_as_int: "as_int j = Some k \<Longrightarrow> eq_int j n \<longleftrightarrow> k = n"
  by (cases j) auto

section \<open>Chaining fallible steps\<close>

abbreviation fail :: "string \<Rightarrow> nat \<Rightarrow> 'a result" where
  "fail code st \<equiv> Inl (ServiceError code st)"

definition and_then :: "'a result \<Rightarrow> ('a \<Rightarrow> 'b result) \<Rightarrow> 'b result" where
  "and_then r f = (case r of Inl e \<Rightarrow> Inl e | Inr x \<Rightarrow> f x)"

text \<open>The same for a step that may also change the state; what it changed before raising stays.\<close>

definition chain :: "'a result \<times> 'w \<Rightarrow> ('a \<Rightarrow> 'w \<Rightarrow> 'b result \<times> 'w) \<Rightarrow> 'b result \<times> 'w" where
  "chain m f = (case m of (Inl e, w) \<Rightarrow> (Inl e, w) | (Inr x, w) \<Rightarrow> f x w)"

lemma and_then_Inr_iff [simp]: "and_then r f = Inr y \<longleftrightarrow> (\<exists>x. r = Inr x \<and> f x = Inr y)"
  by (cases r) (auto simp: and_then_def)

lemma and_then_simps [simp]: "and_then (Inl e) f = Inl e" "and_then (Inr x) f = f x"
  by (simp_all add: and_then_def)

lemma chain_simps [simp]: "chain (Inl e, w) f = (Inl e, w)" "chain (Inr x, w) f = f x w"
  by (simp_all add: chain_def)

lemma chain_Inr_iff: "chain m f = (Inr y, w') \<longleftrightarrow> (\<exists>x w. m = (Inr x, w) \<and> f x w = (Inr y, w'))"
  by (cases m; cases "fst m") (auto simp: chain_def)

lemma snd_chain: "snd (chain m f) = (case fst m of Inl e \<Rightarrow> snd m | Inr x \<Rightarrow> snd (f x (snd m)))"
  by (cases m) (auto simp: chain_def split: sum.splits)

text \<open>A successful outcome of a check is its condition and what follows.\<close>

named_theorems inr_iffs \<open>when a chain of checks succeeds\<close>

lemma if_fail_Inr [inr_iffs]: "(if c then Inl e else r) = Inr y \<longleftrightarrow> \<not> c \<and> r = Inr y"
  by simp

lemma option_fail_Inr [inr_iffs]:
  "(case x of None \<Rightarrow> Inl e | Some v \<Rightarrow> f v) = Inr y \<longleftrightarrow> (\<exists>v. x = Some v \<and> f v = Inr y)"
  by (cases x) auto

lemma prod_case_Inr [inr_iffs]:
  "(case p of (a, b) \<Rightarrow> f a b) = Inr y \<longleftrightarrow> (\<exists>a b. p = (a, b) \<and> f a b = Inr y)"
  by (cases p) auto

section \<open>HTTP\<close>

text \<open>
  What \<^verbatim>\<open>await client.post(...)\<close> ends in: \<^verbatim>\<open>httpx.ConnectError\<close>,
  \<^verbatim>\<open>httpx.TimeoutException\<close>, another \<^verbatim>\<open>httpx.HTTPError\<close>, or a response with a status
  and what \<^verbatim>\<open>response.json()\<close> gives (\<open>None\<close> when it raises).
\<close>

datatype http_outcome = ConnectFailed | TimedOut | TransportError | Response nat "json option"

definition response_json :: "json option \<Rightarrow> json result" where
  "response_json body = (case body of None \<Rightarrow> Inl (PyError ''JSONDecodeError'') | Some j \<Rightarrow> Inr j)"

text \<open>\<^verbatim>\<open>x.get\<close>, \<^verbatim>\<open>x[...]\<close> on something that is no dictionary.\<close>

definition as_dict :: "json \<Rightarrow> payload result" where
  "as_dict j = (case j of JObj kvs \<Rightarrow> Inr kvs | _ \<Rightarrow> Inl (PyError ''AttributeError''))"

definition subscript :: "payload \<Rightarrow> string \<Rightarrow> json result" where
  "subscript d k = (case dget d k of None \<Rightarrow> Inl (PyError ''KeyError'') | Some v \<Rightarrow> Inr v)"

text \<open>
  Values the code annotates as strings without checking: the services only ever send strings there, anything else
  is kept as one fixed text. So is the error code \<^verbatim>\<open>error_body.get("error", default)\<close>.
\<close>

definition text_of :: "json \<Rightarrow> string" where
  "text_of j = (case as_str j of Some s \<Rightarrow> s | None \<Rightarrow> ''<not a string>'')"

definition error_code_of :: "payload \<Rightarrow> string \<Rightarrow> string" where
  "error_code_of d dflt = (case dget d ''error'' of None \<Rightarrow> dflt | Some v \<Rightarrow> text_of v)"

lemma text_of_JStr [simp]: "text_of (JStr s) = s"
  by (simp add: text_of_def)

lemma as_dict_Inr [simp]: "as_dict j = Inr d \<longleftrightarrow> j = JObj d"
  by (cases j) (auto simp: as_dict_def)

lemma response_json_Inr [simp]: "response_json b = Inr j \<longleftrightarrow> b = Some j"
  by (cases b) (auto simp: response_json_def)

lemma subscript_Inr [simp]: "subscript d k = Inr v \<longleftrightarrow> dget d k = Some v"
  by (cases "dget d k") (auto simp: subscript_def)

text \<open>The exception handlers of the services; message and details are not modelled.\<close>

fun error_response :: "exn \<Rightarrow> nat \<times> json option" where
  "error_response (ServiceError code st) = (st, Some (JObj [(''error'', JStr code)]))"
| "error_response (PyError _) = (500, Some (JObj [(''error'', JStr ''internal_error'')]))"

definition response_of :: "nat \<Rightarrow> ('a \<Rightarrow> payload) \<Rightarrow> 'a result \<Rightarrow> nat \<times> json option" where
  "response_of st enc r = (case r of Inl e \<Rightarrow> error_response e | Inr x \<Rightarrow> (st, Some (JObj (enc x))))"

text \<open>
  \<^verbatim>\<open>PlatformAgent.validate_certificate\<close> returns the payload, raises
  \<^verbatim>\<open>InvalidSignature\<close> or \<^verbatim>\<open>ValueError\<close>, or raises something else.
\<close>

datatype certificate = CertPayload json | CertRejected | CertError

section \<open>Request bodies\<close>

definition parse_json_body :: "json option \<Rightarrow> payload result" where
  "parse_json_body body =
     (case body of
        None \<Rightarrow> fail ''invalid_json'' 400
      | Some j \<Rightarrow> (case j of JObj d \<Rightarrow> Inr d | _ \<Rightarrow> fail ''invalid_json'' 400))"

lemma parse_json_body_Inr [simp]: "parse_json_body b = Inr d \<longleftrightarrow> b = Some (JObj d)"
  by (cases b) (auto simp: parse_json_body_def split: json.splits)

text \<open>\<^verbatim>\<open>s.startswith(p)\<close> and \<^verbatim>\<open>s[len(p):]\<close>.\<close>

definition strip_prefix :: "string \<Rightarrow> string \<Rightarrow> string option" where
  "strip_prefix p s = (if take (length p) s = p then Some (drop (length p) s) else None)"

lemma strip_prefix_iff: "strip_prefix p s = Some t \<longleftrightarrow> s = p @ t"
  unfolding strip_prefix_def by (metis append_eq_conv_conj append_take_drop_id option.inject option.simps(3))

text \<open>\<^verbatim>\<open>s.split(c)\<close>: the pieces between the separators, at least one.\<close>

fun split_on :: "char \<Rightarrow> string \<Rightarrow> string list" where
  "split_on c [] = [[]]"
| "split_on c (x # xs) =
     (if x = c then [] # split_on c xs
      else (case split_on c xs of [] \<Rightarrow> [[x]] | p # ps \<Rightarrow> (x # p) # ps))"

lemma split_on_nonempty [simp]: "split_on c s \<noteq> []"
  by (induction c s rule: split_on.induct) (auto split: list.splits)

lemma split_on_none: "c \<notin> set s \<Longrightarrow> split_on c s = [s]"
  by (induction c s rule: split_on.induct) auto

lemma length_split_on: "length (split_on c s) = Suc (length (filter (\<lambda>x. x = c) s))"
  by (induction c s rule: split_on.induct) (auto split: list.splits)

end
