(* ===== verification/Task_Store.thy ===== *)
theory Task_Store
  imports Json
begin

text \<open>
  The Task Board's storage, \<^verbatim>\<open>services/in_memory_task_store.py\<close>, and its protocol
  (\<^verbatim>\<open>services/protocol.py\<close>) as the record \<open>store_ops\<close>. A row of the task table is a
  record, a timestamp is the number of microseconds it stands for (the fixed-width ISO strings the code
  stores sort like the times they name). The dictionaries of column updates become lists of typed column
  updates, so an unknown column cannot be written.
\<close>

section \<open>Rows\<close>

datatype task_status = Open | Accepted | Submitted | Approved | Cancelled | Disputed | Ruled | Expired

fun status_text :: "task_status \<Rightarrow> string" where
  "status_text Open = ''open''"
| "status_text Accepted = ''accepted''"
| "status_text Submitted = ''submitted''"
| "status_text Approved = ''approved''"
| "status_text Cancelled = ''cancelled''"
| "status_text Disputed = ''disputed''"
| "status_text Ruled = ''ruled''"
| "status_text Expired = ''expired''"

lemma status_text_inject [simp]: "status_text a = status_text b \<longleftrightarrow> a = b"
  by (cases a; cases b) simp_all

record task =
  t_id :: string
  t_poster_id :: string
  t_title :: string
  t_spec :: string
  t_reward :: int
  t_bidding_deadline_seconds :: int
  t_deadline_seconds :: int
  t_review_deadline_seconds :: int
  t_status :: task_status
  t_escrow_id :: string
  t_bid_count :: nat
  t_worker_id :: "string option"
  t_accepted_bid_id :: "string option"
  t_created_at :: int
  t_accepted_at :: "int option"
  t_submitted_at :: "int option"
  t_approved_at :: "int option"
  t_cancelled_at :: "int option"
  t_disputed_at :: "int option"
  t_dispute_reason :: "string option"
  t_ruling_id :: "string option"
  t_ruled_at :: "int option"
  t_worker_pct :: "int option"
  t_ruling_summary :: "string option"
  t_expired_at :: "int option"
  t_escrow_pending :: bool

record bid =
  b_id :: string
  b_task_id :: string
  b_bidder_id :: string
  b_amount :: int
  b_submitted_at :: int

record asset =
  a_id :: string
  a_task_id :: string
  a_uploader_id :: string
  a_filename :: string
  a_content_type :: string
  a_size_bytes :: nat
  a_content_hash :: string
  a_uploaded_at :: int

datatype col_update =
    SetStatus task_status
  | SetWorker string
  | SetAcceptedBid string
  | SetAcceptedAt int
  | SetSubmittedAt int
  | SetApprovedAt int
  | SetCancelledAt int
  | SetDisputedAt int
  | SetDisputeReason string
  | SetRulingId string
  | SetRuledAt int
  | SetWorkerPct int
  | SetRulingSummary string
  | SetExpiredAt int
  | SetEscrowPending bool

fun apply_update :: "col_update \<Rightarrow> task \<Rightarrow> task" where
  "apply_update (SetStatus st) r = r\<lparr>t_status := st\<rparr>"
| "apply_update (SetWorker w) r = r\<lparr>t_worker_id := Some w\<rparr>"
| "apply_update (SetAcceptedBid b) r = r\<lparr>t_accepted_bid_id := Some b\<rparr>"
| "apply_update (SetAcceptedAt x) r = r\<lparr>t_accepted_at := Some x\<rparr>"
| "apply_update (SetSubmittedAt x) r = r\<lparr>t_submitted_at := Some x\<rparr>"
| "apply_update (SetApprovedAt x) r = r\<lparr>t_approved_at := Some x\<rparr>"
| "apply_update (SetCancelledAt x) r = r\<lparr>t_cancelled_at := Some x\<rparr>"
| "apply_update (SetDisputedAt x) r = r\<lparr>t_disputed_at := Some x\<rparr>"
| "apply_update (SetDisputeReason x) r = r\<lparr>t_dispute_reason := Some x\<rparr>"
| "apply_update (SetRulingId x) r = r\<lparr>t_ruling_id := Some x\<rparr>"
| "apply_update (SetRuledAt x) r = r\<lparr>t_ruled_at := Some x\<rparr>"
| "apply_update (SetWorkerPct x) r = r\<lparr>t_worker_pct := Some x\<rparr>"
| "apply_update (SetRulingSummary x) r = r\<lparr>t_ruling_summary := Some x\<rparr>"
| "apply_update (SetExpiredAt x) r = r\<lparr>t_expired_at := Some x\<rparr>"
| "apply_update (SetEscrowPending x) r = r\<lparr>t_escrow_pending := x\<rparr>"

definition apply_updates :: "col_update list \<Rightarrow> task \<Rightarrow> task" where
  "apply_updates us r = fold apply_update us r"

lemma apply_updates_simps [simp]:
  "apply_updates [] r = r" "apply_updates (u # us) r = apply_updates us (apply_update u r)"
  by (simp_all add: apply_updates_def)

section \<open>The in-memory store\<close>

record task_db =
  db_tasks :: "(string, task) dict"
  db_bids :: "(string, bid) dict"
  db_bid_index :: "(string \<times> string, string) dict"
  db_assets :: "(string, asset) dict"

definition empty_task_db :: task_db where
  "empty_task_db = \<lparr>db_tasks = [], db_bids = [], db_bid_index = [], db_assets = []\<rparr>"

definition mem_insert_task :: "task \<Rightarrow> task_db \<Rightarrow> unit result \<times> task_db" where
  "mem_insert_task r s =
     (if dget (db_tasks s) (t_id r) \<noteq> None then (Inl (PyError ''DuplicateTaskError''), s)
      else (Inr (), s\<lparr>db_tasks := dput (db_tasks s) (t_id r) r\<rparr>))"

definition mem_get_task :: "string \<Rightarrow> task_db \<Rightarrow> task option" where
  "mem_get_task tid s = dget (db_tasks s) tid"

definition mem_update_task ::
    "string \<Rightarrow> col_update list \<Rightarrow> task_status option \<Rightarrow> task_db \<Rightarrow> nat \<times> task_db" where
  "mem_update_task tid updates expected_status s =
     (if length updates = 0 then (0, s)
      else case dget (db_tasks s) tid of
        None \<Rightarrow> (0, s)
      | Some row \<Rightarrow>
          if expected_status \<noteq> None \<and> expected_status \<noteq> Some (t_status row) then (0, s)
          else (1, s\<lparr>db_tasks := dput (db_tasks s) tid (apply_updates updates row)\<rparr>))"

text \<open>\<^verbatim>\<open>str(None)\<close> is \<^verbatim>\<open>"None"\<close>, so the filter \<^verbatim>\<open>worker_id=None\<close> selects the unassigned tasks.\<close>

definition none_text :: "string option \<Rightarrow> string" where
  "none_text x = (case x of None \<Rightarrow> ''None'' | Some s \<Rightarrow> s)"

definition keep_if :: "string option \<Rightarrow> ('a \<Rightarrow> string) \<Rightarrow> 'a list \<Rightarrow> 'a list" where
  "keep_if wanted f rows = (case wanted of None \<Rightarrow> rows | Some v \<Rightarrow> filter (\<lambda>r. f r = v) rows)"

definition mem_list_tasks ::
    "string option \<Rightarrow> string option \<Rightarrow> string option \<Rightarrow> nat option \<Rightarrow> nat option \<Rightarrow> task_db \<Rightarrow> task list" where
  "mem_list_tasks status poster worker limit offset s =
     (let rows = dvals (db_tasks s);
          rows = keep_if status (\<lambda>r. status_text (t_status r)) rows;
          rows = keep_if poster t_poster_id rows;
          rows = keep_if worker (\<lambda>r. none_text (t_worker_id r)) rows;
          rows = sort_desc t_created_at rows;
          rows = (case offset of None \<Rightarrow> rows | Some n \<Rightarrow> drop n rows)
      in case limit of None \<Rightarrow> rows | Some n \<Rightarrow> take n rows)"

definition mem_count_tasks :: "task_db \<Rightarrow> nat" where
  "mem_count_tasks s = length (db_tasks s)"

fun count_statuses :: "task list \<Rightarrow> (string, nat) dict \<Rightarrow> (string, nat) dict" where
  "count_statuses [] counts = counts"
| "count_statuses (r # rs) counts =
     count_statuses rs (dput counts (status_text (t_status r))
                          (dget_or counts (status_text (t_status r)) 0 + 1))"

definition mem_count_by_status :: "task_db \<Rightarrow> (string, nat) dict" where
  "mem_count_by_status s = count_statuses (dvals (db_tasks s)) []"

definition mem_insert_bid :: "bid \<Rightarrow> task_db \<Rightarrow> unit result \<times> task_db" where
  "mem_insert_bid b s =
     (case dget (db_tasks s) (b_task_id b) of
        None \<Rightarrow> (Inr (), s)
      | Some row \<Rightarrow>
          if dget (db_bid_index s) (b_task_id b, b_bidder_id b) \<noteq> None
          then (Inl (PyError ''DuplicateBidError''), s)
          else (Inr (), s\<lparr>db_bids := dput (db_bids s) (b_id b) b,
                 db_bid_index := dput (db_bid_index s) (b_task_id b, b_bidder_id b) (b_id b),
                 db_tasks := dput (db_tasks s) (b_task_id b) (row\<lparr>t_bid_count := t_bid_count row + 1\<rparr>)\<rparr>))"

definition mem_get_bid :: "string \<Rightarrow> string \<Rightarrow> task_db \<Rightarrow> bid option" where
  "mem_get_bid bid_id tid s =
     (case dget (db_bids s) bid_id of
        None \<Rightarrow> None
      | Some b \<Rightarrow> if b_task_id b \<noteq> tid then None else Some b)"

definition mem_get_bids_for_task :: "string \<Rightarrow> task_db \<Rightarrow> bid list" where
  "mem_get_bids_for_task tid s =
     sort_key b_submitted_at (filter (\<lambda>b. b_task_id b = tid) (dvals (db_bids s)))"

definition mem_insert_asset :: "asset \<Rightarrow> task_db \<Rightarrow> task_db" where
  "mem_insert_asset a s = s\<lparr>db_assets := dput (db_assets s) (a_id a) a\<rparr>"

definition mem_get_asset :: "string \<Rightarrow> string \<Rightarrow> task_db \<Rightarrow> asset option" where
  "mem_get_asset aid tid s =
     (case dget (db_assets s) aid of
        None \<Rightarrow> None
      | Some a \<Rightarrow> if a_task_id a \<noteq> tid then None else Some a)"

definition mem_get_assets_for_task :: "string \<Rightarrow> task_db \<Rightarrow> asset list" where
  "mem_get_assets_for_task tid s =
     sort_key a_uploaded_at (filter (\<lambda>a. a_task_id a = tid) (dvals (db_assets s)))"

definition mem_count_assets :: "string \<Rightarrow> task_db \<Rightarrow> nat" where
  "mem_count_assets tid s = length (filter (\<lambda>a. a_task_id a = tid) (dvals (db_assets s)))"

section \<open>The storage protocol\<close>

record 's store_ops =
  so_insert_task :: "task \<Rightarrow> 's \<Rightarrow> unit result \<times> 's"
  so_get_task :: "string \<Rightarrow> 's \<Rightarrow> task option"
  so_update_task :: "string \<Rightarrow> col_update list \<Rightarrow> task_status option \<Rightarrow> 's \<Rightarrow> nat \<times> 's"
  so_list_tasks ::
    "string option \<Rightarrow> string option \<Rightarrow> string option \<Rightarrow> nat option \<Rightarrow> nat option \<Rightarrow> 's \<Rightarrow> task list"
  so_count_tasks :: "'s \<Rightarrow> nat"
  so_count_by_status :: "'s \<Rightarrow> (string, nat) dict"
  so_insert_bid :: "bid \<Rightarrow> 's \<Rightarrow> unit result \<times> 's"
  so_get_bid :: "string \<Rightarrow> string \<Rightarrow> 's \<Rightarrow> bid option"
  so_get_bids_for_task :: "string \<Rightarrow> 's \<Rightarrow> bid list"
  so_insert_asset :: "asset \<Rightarrow> 's \<Rightarrow> 's"
  so_get_asset :: "string \<Rightarrow> string \<Rightarrow> 's \<Rightarrow> asset option"
  so_get_assets_for_task :: "string \<Rightarrow> 's \<Rightarrow> asset list"
  so_count_assets :: "string \<Rightarrow> 's \<Rightarrow> nat"

definition memory_store :: "task_db store_ops" where
  "memory_store =
     \<lparr>so_insert_task = mem_insert_task, so_get_task = mem_get_task, so_update_task = mem_update_task,
      so_list_tasks = mem_list_tasks, so_count_tasks = mem_count_tasks,
      so_count_by_status = mem_count_by_status, so_insert_bid = mem_insert_bid, so_get_bid = mem_get_bid,
      so_get_bids_for_task = mem_get_bids_for_task, so_insert_asset = mem_insert_asset,
      so_get_asset = mem_get_asset, so_get_assets_for_task = mem_get_assets_for_task,
      so_count_assets = mem_count_assets\<rparr>"

text \<open>
  What the Task Board relies on: \<open>good\<close> is the store's own invariant, under which a listing shows rows as
  they are, and which holds on as long as nobody bids on his own task and workers come from stored bids; the rows behave like one table under \<open>get\<close>, \<open>insert\<close> and the conditional
  \<open>update\<close>; storing a bid changes nothing of a row but, where it keeps one, the bid counter; storing an
  asset changes no row.
\<close>

locale task_storage =
  fixes ops :: "'s store_ops" and rows :: "'s \<Rightarrow> string \<Rightarrow> task option" and good :: "'s \<Rightarrow> bool"
  assumes get_row: "so_get_task ops tid s = rows s tid"
    and insert_fresh: "rows s (t_id r) = None \<Longrightarrow>
          so_insert_task ops r s = (Inr (), snd (so_insert_task ops r s)) \<and>
          rows (snd (so_insert_task ops r s)) = (rows s)(t_id r \<mapsto> r)"
    and insert_duplicate: "rows s (t_id r) \<noteq> None \<Longrightarrow>
          so_insert_task ops r s = (Inl (PyError ''DuplicateTaskError''), s)"
    and update_hit: "rows s tid = Some r \<Longrightarrow> us \<noteq> [] \<Longrightarrow> expected = None \<or> expected = Some (t_status r) \<Longrightarrow>
          fst (so_update_task ops tid us expected s) = 1 \<and>
          rows (snd (so_update_task ops tid us expected s)) = (rows s)(tid \<mapsto> apply_updates us r)"
    and update_missing: "rows s tid = None \<Longrightarrow> so_update_task ops tid us expected s = (0, s)"
    and update_refused: "rows s tid = Some r \<Longrightarrow> expected \<noteq> None \<Longrightarrow> expected \<noteq> Some (t_status r) \<Longrightarrow>
          so_update_task ops tid us expected s = (0, s)"
    and insert_bid_rows: "rows (snd (so_insert_bid ops b s)) = rows s \<or>
          (\<exists>r. rows s (b_task_id b) = Some r \<and>
            rows (snd (so_insert_bid ops b s)) = (rows s)(b_task_id b \<mapsto> r\<lparr>t_bid_count := t_bid_count r + 1\<rparr>))"
    and insert_asset_rows: "rows (so_insert_asset ops a s) = rows s"
    and list_rows: "good s \<Longrightarrow> r \<in> set (so_list_tasks ops status poster worker limit offset s) \<Longrightarrow>
          rows s (t_id r) = Some r"
    and good_insert: "good s \<Longrightarrow> t_worker_id r = None \<Longrightarrow> good (snd (so_insert_task ops r s))"
    and good_update: "good s \<Longrightarrow>
          (\<forall>wk. SetWorker wk \<in> set us \<longrightarrow> (\<exists>k b. so_get_bid ops k tid s = Some b \<and> b_bidder_id b = wk)) \<Longrightarrow>
          good (snd (so_update_task ops tid us expected s))"
    and good_bid: "good s \<Longrightarrow> (\<forall>r. rows s (b_task_id b) = Some r \<longrightarrow> t_poster_id r \<noteq> b_bidder_id b) \<Longrightarrow>
          good (snd (so_insert_bid ops b s))"
    and good_asset: "good s \<Longrightarrow> good (so_insert_asset ops a s)"
    and good_finite: "good s \<Longrightarrow> finite (dom (rows s))"
    and good_worker: "good s \<Longrightarrow> rows s tid = Some r \<Longrightarrow> t_worker_id r \<noteq> Some (t_poster_id r)"

lemma memory_store_sel [simp]:
  "so_insert_task memory_store = mem_insert_task" "so_get_task memory_store = mem_get_task"
  "so_update_task memory_store = mem_update_task" "so_list_tasks memory_store = mem_list_tasks"
  "so_count_tasks memory_store = mem_count_tasks" "so_count_by_status memory_store = mem_count_by_status"
  "so_insert_bid memory_store = mem_insert_bid" "so_get_bid memory_store = mem_get_bid"
  "so_get_bids_for_task memory_store = mem_get_bids_for_task"
  "so_insert_asset memory_store = mem_insert_asset" "so_get_asset memory_store = mem_get_asset"
  "so_get_assets_for_task memory_store = mem_get_assets_for_task"
  "so_count_assets memory_store = mem_count_assets"
  by (simp_all add: memory_store_def)

definition task_rows :: "task_db \<Rightarrow> string \<Rightarrow> task option" where
  "task_rows s = dget (db_tasks s)"

lemma map_of_dput [simp]: "map_of (AList.update k v d) = (map_of d)(k \<mapsto> v)"
  by (simp add: update_conv')

definition task_db_ok :: "task_db \<Rightarrow> bool" where
  "task_db_ok s \<longleftrightarrow> dict_ok (db_tasks s) \<and> dict_ok (db_bids s) \<and>
     (\<forall>tid r. dget (db_tasks s) tid = Some r \<longrightarrow> t_id r = tid \<and> t_worker_id r \<noteq> Some (t_poster_id r)) \<and>
     (\<forall>k b. dget (db_bids s) k = Some b \<longrightarrow>
        (\<exists>r. dget (db_tasks s) (b_task_id b) = Some r \<and> t_poster_id r \<noteq> b_bidder_id b))"

lemma apply_updates_id [simp]: "t_id (apply_updates us r) = t_id r" "t_poster_id (apply_updates us r) = t_poster_id r"
proof (induction us arbitrary: r)
  case (Cons u us)
  { case 1 show ?case using Cons by (cases u) simp_all }
  { case 2 show ?case using Cons by (cases u) simp_all }
qed simp_all

lemma apply_updates_worker:
  "t_worker_id (apply_updates us r) = t_worker_id r \<or>
   (\<exists>wk. SetWorker wk \<in> set us \<and> t_worker_id (apply_updates us r) = Some wk)"
proof (induction us arbitrary: r)
  case (Cons u us)
  from Cons [of "apply_update u r"] show ?case by (cases u) auto
qed simp

lemma set_keep_if: "set (keep_if v f xs) \<subseteq> set xs"
  by (auto simp: keep_if_def split: option.splits)

lemma mem_list_tasks_subset: "set (mem_list_tasks status poster worker limit offset s) \<subseteq> set (dvals (db_tasks s))"
  unfolding mem_list_tasks_def Let_def
  using set_keep_if set_take_subset set_drop_subset
  by (auto split: option.splits dest!: set_mp [OF set_take_subset] set_mp [OF set_drop_subset]
      set_mp [OF set_keep_if])

lemma mem_list_tasks_rows:
  assumes "task_db_ok s" "r \<in> set (mem_list_tasks status poster worker limit offset s)"
  shows "task_rows s (t_id r) = Some r"
proof -
  have "r \<in> snd ` set (db_tasks s)"
    using assms(2) mem_list_tasks_subset by fastforce
  then obtain k where "dget (db_tasks s) k = Some r"
    using assms(1) dvals_dget unfolding task_db_ok_def by metis
  with assms(1) show ?thesis by (auto simp: task_db_ok_def task_rows_def)
qed

lemma mem_update_ok:
  assumes "task_db_ok s"
    and "\<forall>wk. SetWorker wk \<in> set us \<longrightarrow> (\<exists>k b. mem_get_bid k tid s = Some b \<and> b_bidder_id b = wk)"
  shows "task_db_ok (snd (mem_update_task tid us expected s))"
proof (cases "dget (db_tasks s) tid")
  case None
  then show ?thesis using assms(1) by (simp add: mem_update_task_def)
next
  case (Some r)
  have "t_worker_id (apply_updates us r) \<noteq> Some (t_poster_id r)"
    using apply_updates_worker [of us r]
  proof (elim disjE exE conjE)
    assume "t_worker_id (apply_updates us r) = t_worker_id r"
    then show ?thesis using assms(1) Some by (auto simp: task_db_ok_def)
  next
    fix wk assume wk: "SetWorker wk \<in> set us" "t_worker_id (apply_updates us r) = Some wk"
    then obtain k b where "mem_get_bid k tid s = Some b" "b_bidder_id b = wk" using assms(2) by blast
    then have "dget (db_bids s) k = Some b" "b_task_id b = tid"
      by (auto simp: mem_get_bid_def split: option.splits if_splits)
    with assms(1) Some have "t_poster_id r \<noteq> b_bidder_id b" unfolding task_db_ok_def by fastforce
    then show ?thesis using wk(2) \<open>b_bidder_id b = wk\<close> by auto
  qed
  then show ?thesis
    using assms(1) Some by (fastforce simp: mem_update_task_def task_db_ok_def)
qed

lemma mem_insert_bid_ok:
  assumes "task_db_ok s" and "\<forall>r. task_rows s (b_task_id b) = Some r \<longrightarrow> t_poster_id r \<noteq> b_bidder_id b"
  shows "task_db_ok (snd (mem_insert_bid b s))"
proof (cases "dget (db_tasks s) (b_task_id b)")
  case None
  then show ?thesis using assms(1) by (simp add: mem_insert_bid_def)
next
  case (Some r)
  with assms show ?thesis by (fastforce simp: mem_insert_bid_def task_db_ok_def task_rows_def)
qed

interpretation mem_store: task_storage memory_store task_rows task_db_ok
proof (unfold_locales, goal_cases)
  case (9 s r status poster worker limit offset)
  then show ?case by (simp add: mem_list_tasks_rows)
next
  case (10 s r)
  then show ?case by (fastforce simp: mem_insert_task_def task_db_ok_def)
next
  case (11 s us tid expected)
  then show ?case by (simp add: mem_update_ok)
next
  case (12 s b)
  then show ?case by (simp add: mem_insert_bid_ok)
next
  case (13 s a)
  then show ?case by (simp add: mem_insert_asset_def task_db_ok_def)
next
  case (14 s)
  then show ?case by (simp add: task_rows_def finite_dom_map_of)
next
  case (15 s tid r)
  then show ?case by (simp add: task_db_ok_def task_rows_def)
qed (auto simp: mem_get_task_def task_rows_def mem_insert_task_def mem_update_task_def mem_insert_bid_def
    mem_insert_asset_def fun_eq_iff split: option.splits if_splits)

section \<open>Bids and pages of the in-memory store\<close>

text \<open>The index lists exactly the stored bids, one per task and bidder.\<close>

definition bids_ok :: "task_db \<Rightarrow> bool" where
  "bids_ok s \<longleftrightarrow>
     (\<forall>k b. dget (db_bids s) k = Some b \<longrightarrow> b_id b = k \<and> dget (db_bid_index s) (b_task_id b, b_bidder_id b) = Some k)"

lemma bids_ok_insert:
  assumes "bids_ok s" and "dget (db_bids s) (b_id b) = None"
  shows "bids_ok (snd (mem_insert_bid b s))"
  using assms
  by (auto simp: bids_ok_def mem_insert_bid_def split: option.splits) (metis option.distinct(1))

lemma bids_ok_one_each:
  assumes "bids_ok s" "mem_get_bid k1 tid s = Some b1" "mem_get_bid k2 tid s = Some b2"
    and "b_bidder_id b1 = b_bidder_id b2"
  shows "b1 = b2"
proof -
  have "dget (db_bids s) k1 = Some b1" "dget (db_bids s) k2 = Some b2" "b_task_id b1 = b_task_id b2"
    using assms(2,3) by (auto simp: mem_get_bid_def split: option.splits if_splits)
  with assms(1,4) have "k1 = k2" unfolding bids_ok_def by (metis option.inject)
  with assms(2,3) show ?thesis by simp
qed

lemma bids_ok_same:
  assumes "db_bids s' = db_bids s" "db_bid_index s' = db_bid_index s"
  shows "bids_ok s' = bids_ok s"
  by (simp add: bids_ok_def assms)

text \<open>The pages of a listing, one after the other, are the whole listing.\<close>

fun pages :: "nat \<Rightarrow> nat \<Rightarrow> string option \<Rightarrow> string option \<Rightarrow> string option \<Rightarrow> task_db \<Rightarrow> task list" where
  "pages n 0 status poster worker s = []"
| "pages n (Suc k) status poster worker s =
     pages n k status poster worker s @ mem_list_tasks status poster worker (Some n) (Some (k * n)) s"

lemma pages_take: "pages n k status poster worker s = take (k * n) (mem_list_tasks status poster worker None None s)"
  by (induction k) (simp_all add: mem_list_tasks_def Let_def take_add [symmetric] add.commute)

end
