(* ===== verification/Tokens.thy ===== *)
theory Tokens
  imports Task_Store
begin

text \<open>
  The Task Board's environment and its token validation, \<^verbatim>\<open>services/token_validator.py\<close> and
  \<^verbatim>\<open>services/identity_client.py\<close>. What the services are constructed with is the record
  \<open>board_env\<close>: the store, the Central Bank client, the Identity client (what a POST with a token ends in),
  the platform agent's local certificate check, the decoding of one token part, whether the text of an
  exception mentions \<^verbatim>\<open>insufficient_funds\<close>, and the asset storage (its resolved root, the two
  limits, the hash, and which files the operating system lets the service write).
\<close>

section \<open>Environment and state\<close>

text \<open>The Central Bank client: a lock answers with the bank's JSON, release and split with nothing used.\<close>

record 'b bank_ops =
  bo_lock :: "string \<Rightarrow> 'b \<Rightarrow> json result \<times> 'b"
  bo_release :: "string \<Rightarrow> string option \<Rightarrow> 'b \<Rightarrow> unit result \<times> 'b"
  bo_split :: "string \<Rightarrow> string option \<Rightarrow> string \<Rightarrow> int \<Rightarrow> 'b \<Rightarrow> unit result \<times> 'b"

text \<open>\<^verbatim>\<open>urlsafe_b64decode\<close> of the padded part, then \<^verbatim>\<open>json.loads\<close>.\<close>

datatype part_outcome = BadBase64 | BadJson | Decoded json

record ('s, 'b) board_env =
  be_store :: "'s store_ops"
  be_bank :: "'b bank_ops"
  be_identity :: "(string \<Rightarrow> http_outcome) option"
  be_certificate :: "string \<Rightarrow> certificate"
  be_decode :: "string \<Rightarrow> part_outcome"
  be_platform_id :: string
  be_mentions_funds :: "string \<Rightarrow> bool"
  be_storage_root :: "string list"
  be_max_file_size :: nat
  be_max_files_per_task :: nat
  be_sha256 :: "string \<Rightarrow> string"
  be_can_write :: "string list \<Rightarrow> bool"

text \<open>The disk holds file contents by their resolved path.\<close>

record ('s, 'b) board = host +
  db :: 's
  bank :: 'b
  disk :: "(string list, string) dict"

section \<open>Decoding\<close>

definition decode_base64url_json :: "('s, 'b) board_env \<Rightarrow> string \<Rightarrow> payload result" where
  "decode_base64url_json E part =
     (case be_decode E part of
        BadBase64 \<Rightarrow> fail ''invalid_jws'' 400
      | BadJson \<Rightarrow> fail ''invalid_jws'' 400
      | Decoded j \<Rightarrow> (case j of JObj d \<Rightarrow> Inr d | _ \<Rightarrow> fail ''invalid_jws'' 400))"

definition decode_escrow_token_payload :: "('s, 'b) board_env \<Rightarrow> string \<Rightarrow> payload result" where
  "decode_escrow_token_payload E escrow_token =
     (let parts = split_on CHR ''.'' escrow_token
      in if length parts \<noteq> 3 then fail ''invalid_jws'' 400
         else case be_decode E (parts ! 1) of
           BadBase64 \<Rightarrow> fail ''invalid_jws'' 400
         | BadJson \<Rightarrow> fail ''invalid_jws'' 400
         | Decoded j \<Rightarrow> (case j of JObj d \<Rightarrow> Inr d | _ \<Rightarrow> fail ''invalid_jws'' 400))"

section \<open>Verification\<close>

fun board_verify_jws :: "http_outcome \<Rightarrow> json result" where
  "board_verify_jws (Response st body) =
     (if st = 200 then response_json body
      else case body of
        Some (JObj d) \<Rightarrow> fail (error_code_of d ''identity_service_error'') st
      | _ \<Rightarrow> fail ''identity_service_error'' st)"
| "board_verify_jws _ = fail ''identity_service_unavailable'' 502"

text \<open>Both ways end with the tests' marker for a tampered token.\<close>

definition not_tampered :: "payload \<Rightarrow> string \<Rightarrow> (payload \<times> string) result" where
  "not_tampered p agent =
     (if jget p ''_tampered'' = JBool True then fail ''forbidden'' 403 else Inr (p, agent))"

definition verify_via_identity_service ::
    "(string \<Rightarrow> http_outcome) \<Rightarrow> string \<Rightarrow> (payload \<times> string) result" where
  "verify_via_identity_service identity token =
     and_then (board_verify_jws (identity token)) (\<lambda>j.
     and_then (as_dict j) (\<lambda>answer.
       if \<not> truthy (jget answer ''valid'') then fail ''forbidden'' 403
       else (case jget answer ''payload'' of
           JObj p \<Rightarrow>
             (case nonempty_str (jget answer ''agent_id'') of
               None \<Rightarrow> fail ''invalid_jws'' 400
             | Some agent \<Rightarrow> not_tampered p agent)
         | _ \<Rightarrow> fail ''invalid_jws'' 400)))"

definition verify_via_platform_agent ::
    "('s, 'b) board_env \<Rightarrow> string \<Rightarrow> string list \<Rightarrow> (payload \<times> string) result" where
  "verify_via_platform_agent E token parts =
     (case be_certificate E token of
        CertRejected \<Rightarrow> fail ''forbidden'' 403
      | CertError \<Rightarrow> fail ''identity_service_unavailable'' 502
      | CertPayload j \<Rightarrow>
          (case j of
            JObj p \<Rightarrow>
              and_then (decode_base64url_json E (parts ! 0)) (\<lambda>header.
                (case nonempty_str (jget header ''kid'') of
                  None \<Rightarrow> fail ''invalid_jws'' 400
                | Some kid \<Rightarrow> not_tampered p kid))
          | _ \<Rightarrow> fail ''invalid_jws'' 400))"

text \<open>The payload with \<^verbatim>\<open>_signer_id\<close> added, and that signer.\<close>

definition validate_jws_token ::
    "('s, 'b) board_env \<Rightarrow> string \<Rightarrow> string list \<Rightarrow> (payload \<times> string) result" where
  "validate_jws_token E token allowed_actions =
     (if token = [] then fail ''invalid_jws'' 400
      else
        let parts = split_on CHR ''.'' token
        in if length parts \<noteq> 3 then fail ''invalid_jws'' 400
           else
             and_then (case be_identity E of
                 Some identity \<Rightarrow> verify_via_identity_service identity token
               | None \<Rightarrow> verify_via_platform_agent E token parts) (\<lambda>(p, agent).
               (case dget p ''action'' of
                  None \<Rightarrow> fail ''invalid_payload'' 400
                | Some action \<Rightarrow>
                    if \<not> hashable action then Inl (PyError ''TypeError'')
                    else if action \<notin> set (map JStr allowed_actions) then fail ''invalid_payload'' 400
                    else Inr (dput p ''_signer_id'' (JStr agent), agent))))"

text \<open>The token was verified for this signer: the Identity service or the local check vouches for it.\<close>

definition verified_signer :: "('s, 'b) board_env \<Rightarrow> string \<Rightarrow> payload \<Rightarrow> string \<Rightarrow> bool" where
  "verified_signer E token p i \<longleftrightarrow>
     (case be_identity E of
        Some identity \<Rightarrow> verify_via_identity_service identity token = Inr (p, i)
      | None \<Rightarrow> verify_via_platform_agent E token (split_on CHR ''.'' token) = Inr (p, i))"

lemma validate_jws_token_Inr:
  "validate_jws_token E token acts = Inr (p', i) \<longleftrightarrow>
     token \<noteq> [] \<and> length (split_on CHR ''.'' token) = 3 \<and>
     (\<exists>p a. verified_signer E token p i \<and> dget p ''action'' = Some (JStr a) \<and> a \<in> set acts \<and>
          p' = dput p ''_signer_id'' (JStr i))"
  by (auto simp: validate_jws_token_def verified_signer_def inr_iffs Let_def split: option.splits)

end
