(* ===== verification/Deadlines.thy ===== *)
theory Deadlines
  imports Tokens
begin

text \<open>
  The escrow coordinator and the deadline evaluator of the Task Board,
  \<^verbatim>\<open>services/escrow_coordinator.py\<close> and \<^verbatim>\<open>services/deadline_evaluator.py\<close>: a task
  whose bidding, execution or review deadline has passed is moved on when it is next read, and its escrow
  released.
\<close>

section \<open>Escrow coordinator\<close>

text \<open>Every exception of the bank client that is no \<^verbatim>\<open>ServiceError\<close> becomes one.\<close>

fun bank_unavailable :: "exn \<Rightarrow> exn" where
  "bank_unavailable (ServiceError c n) = ServiceError c n"
| "bank_unavailable (PyError _) = ServiceError ''central_bank_unavailable'' 502"

definition release_escrow ::
    "('s, 'b) board_env \<Rightarrow> string \<Rightarrow> string option \<Rightarrow> ('s, 'b) board \<Rightarrow> unit result \<times> ('s, 'b) board" where
  "release_escrow E eid recipient w =
     (let (r, b') = bo_release (be_bank E) eid recipient (bank w)
      in (map_sum bank_unavailable id r, w\<lparr>bank := b'\<rparr>))"

definition split_escrow ::
    "('s, 'b) board_env \<Rightarrow> string \<Rightarrow> string option \<Rightarrow> string \<Rightarrow> int \<Rightarrow> ('s, 'b) board \<Rightarrow>
     unit result \<times> ('s, 'b) board" where
  "split_escrow E eid worker poster pct w =
     (let (r, b') = bo_split (be_bank E) eid worker poster pct (bank w)
      in (map_sum bank_unavailable id r, w\<lparr>bank := b'\<rparr>))"

definition store_update ::
    "('s, 'b) board_env \<Rightarrow> string \<Rightarrow> col_update list \<Rightarrow> task_status option \<Rightarrow> ('s, 'b) board \<Rightarrow>
     nat \<times> ('s, 'b) board" where
  "store_update E tid us expected w =
     (let (n, s') = so_update_task (be_store E) tid us expected (db w) in (n, w\<lparr>db := s'\<rparr>))"

text \<open>Never raises: \<^verbatim>\<open>release_escrow\<close> raises nothing but \<^verbatim>\<open>ServiceError\<close>.\<close>

definition try_release_escrow ::
    "('s, 'b) board_env \<Rightarrow> string \<Rightarrow> string \<Rightarrow> string option \<Rightarrow> ('s, 'b) board \<Rightarrow> ('s, 'b) board" where
  "try_release_escrow E tid eid recipient w =
     (case release_escrow E eid recipient w of
        (Inr _, w1) \<Rightarrow> snd (store_update E tid [SetEscrowPending False] None w1)
      | (Inl _, w1) \<Rightarrow> snd (store_update E tid [SetEscrowPending True] None w1))"

definition retry_pending_escrow ::
    "('s, 'b) board_env \<Rightarrow> task \<Rightarrow> ('s, 'b) board \<Rightarrow> task \<times> ('s, 'b) board" where
  "retry_pending_escrow E task w =
     (if \<not> t_escrow_pending task then (task, w)
      else if t_status task \<noteq> Expired \<and> t_status task \<noteq> Approved then (task, w)
      else
        let recipient = (if t_status task = Expired then Some (t_poster_id task) else t_worker_id task)
        in case release_escrow E (t_escrow_id task) recipient w of
             (Inr _, w1) \<Rightarrow>
               (task\<lparr>t_escrow_pending := False\<rparr>,
                snd (store_update E (t_id task) [SetEscrowPending False] None w1))
           | (Inl _, w1) \<Rightarrow> (task, w1))"

section \<open>Deadlines\<close>

definition compute_deadline :: "int option \<Rightarrow> int \<Rightarrow> int option result" where
  "compute_deadline base seconds =
     (case base of
        None \<Rightarrow> Inr None
      | Some t \<Rightarrow>
          let d = t + seconds * 1000000
          in if d < min_time \<or> max_time \<le> d then Inl (PyError ''OverflowError'')
             else Inr (Some (to_seconds d)))"

definition terminal :: "task_status \<Rightarrow> bool" where
  "terminal st \<longleftrightarrow> st \<in> {Approved, Cancelled, Ruled, Expired}"

definition board_now :: "('s, 'b) board \<Rightarrow> int \<times> ('s, 'b) board" where
  "board_now w = read_clock w"

text \<open>
  The transition a passed deadline makes, the same in the three branches: move the row on if it still has the
  status it was read with, release the escrow, and read the row again.
\<close>

definition deadline_passed ::
    "('s, 'b) board_env \<Rightarrow> task \<Rightarrow> task_status \<Rightarrow> (int \<Rightarrow> col_update) \<Rightarrow> string option \<Rightarrow>
     ('s, 'b) board \<Rightarrow> task \<times> ('s, 'b) board" where
  "deadline_passed E task st stamp recipient w =
     (let (now, w1) = board_now w;
          us = [SetStatus st, stamp now, SetEscrowPending True];
          (changed, w2) = store_update E (t_id task) us (Some (t_status task)) w1
      in if changed > 0 then
           let task1 = apply_updates us task;
               w3 = try_release_escrow E (t_id task) (t_escrow_id task) recipient w2
           in (case so_get_task (be_store E) (t_id task) (db w3) of
                 Some refreshed \<Rightarrow> (refreshed, w3)
               | None \<Rightarrow> (task1, w3))
         else (task, w2))"

definition evaluate_deadline ::
    "('s, 'b) board_env \<Rightarrow> task \<Rightarrow> ('s, 'b) board \<Rightarrow> task result \<times> ('s, 'b) board" where
  "evaluate_deadline E task0 w0 =
     (if terminal (t_status task0) then (Inr task0, w0)
      else
        let (task, w1) = retry_pending_escrow E task0 w0;
            (now, w) = board_now w1
        in case t_status task of
             Open \<Rightarrow>
               (case compute_deadline (Some (t_created_at task)) (t_bidding_deadline_seconds task) of
                 Inl e \<Rightarrow> (Inl e, w)
               | Inr None \<Rightarrow> (Inr task, w)
               | Inr (Some d) \<Rightarrow>
                   if d \<le> now \<and> t_bid_count task = 0
                   then apfst Inr (deadline_passed E task Expired SetExpiredAt (Some (t_poster_id task)) w)
                   else (Inr task, w))
           | Accepted \<Rightarrow>
               (case compute_deadline (t_accepted_at task) (t_deadline_seconds task) of
                 Inl e \<Rightarrow> (Inl e, w)
               | Inr None \<Rightarrow> (Inr task, w)
               | Inr (Some d) \<Rightarrow>
                   if d \<le> now
                   then apfst Inr (deadline_passed E task Expired SetExpiredAt (Some (t_poster_id task)) w)
                   else (Inr task, w))
           | Submitted \<Rightarrow>
               (case compute_deadline (t_submitted_at task) (t_review_deadline_seconds task) of
                 Inl e \<Rightarrow> (Inl e, w)
               | Inr None \<Rightarrow> (Inr task, w)
               | Inr (Some d) \<Rightarrow>
                   if d \<le> now
                   then apfst Inr (deadline_passed E task Approved SetApprovedAt (t_worker_id task) w)
                   else (Inr task, w))
           | _ \<Rightarrow> (Inr task, w))"

fun evaluate_deadlines_batch ::
    "('s, 'b) board_env \<Rightarrow> task list \<Rightarrow> ('s, 'b) board \<Rightarrow> task list result \<times> ('s, 'b) board" where
  "evaluate_deadlines_batch E [] w = (Inr [], w)"
| "evaluate_deadlines_batch E (t # ts) w =
     chain (evaluate_deadline E t w) (\<lambda>t' w1.
     chain (evaluate_deadlines_batch E ts w1) (\<lambda>ts' w2. (Inr (t' # ts'), w2)))"

section \<open>Facts\<close>

lemma compute_deadline_Some:
  "compute_deadline base n = Inr (Some d) \<longleftrightarrow>
     (\<exists>t. base = Some t \<and> d = to_seconds (t + n * 1000000) \<and>
          min_time \<le> t + n * 1000000 \<and> t + n * 1000000 < max_time)"
  by (auto simp: compute_deadline_def Let_def split: option.splits)

lemma compute_deadline_late:
  "max_time \<le> t + n * 1000000 \<Longrightarrow> compute_deadline (Some t) n = Inl (PyError ''OverflowError'')"
  by (simp add: compute_deadline_def Let_def)

lemma release_escrow_db [simp]: "db (snd (release_escrow E eid r w)) = db w"
  by (simp add: release_escrow_def split: prod.splits)

lemma split_escrow_db [simp]: "db (snd (split_escrow E eid wk p pct w)) = db w"
  by (simp add: split_escrow_def split: prod.splits)

lemma release_escrow_eq:
  "release_escrow E eid r w = (x, w') \<longleftrightarrow>
     x = map_sum bank_unavailable id (fst (bo_release (be_bank E) eid r (bank w))) \<and>
     w' = w\<lparr>bank := snd (bo_release (be_bank E) eid r (bank w))\<rparr>"
  by (auto simp: release_escrow_def split: prod.splits)

lemma retry_pending_escrow_active:
  "\<not> terminal (t_status task) \<Longrightarrow> retry_pending_escrow E task w = (task, w)"
  by (auto simp: retry_pending_escrow_def terminal_def)

end
