(* ===== verification/Task_Manager.thy ===== *)
theory Task_Manager
  imports Deadlines
begin

text \<open>
  The task lifecycle, \<^verbatim>\<open>services/task_manager.py\<close>. A handler that awaits the Central Bank is
  written as the code up to that call (\<open>_prepare\<close>), the call, and the code after it (\<open>_commit\<close>), so that
  what other requests do in between can be put between the parts.
\<close>

section \<open>Checks\<close>

definition is_positive_int :: "json \<Rightarrow> bool" where
  "is_positive_int j = (case strict_int j of None \<Rightarrow> False | Some n \<Rightarrow> 0 < n)"

definition is_valid_worker_pct :: "json \<Rightarrow> bool" where
  "is_valid_worker_pct j = (case strict_int j of None \<Rightarrow> False | Some n \<Rightarrow> 0 \<le> n \<and> n \<le> 100)"

definition is_hex :: "char \<Rightarrow> bool" where
  "is_hex c \<longleftrightarrow> c \<in> set ''0123456789abcdefABCDEF''"

text \<open>Groups of hexadecimal digits of the given lengths, joined by hyphens.\<close>

fun hex_groups :: "nat list \<Rightarrow> string \<Rightarrow> bool" where
  "hex_groups [] s = (s = [])"
| "hex_groups [n] s = (length s = n \<and> list_all is_hex s)"
| "hex_groups (n # ns) s =
     (length (take n s) = n \<and> list_all is_hex (take n s) \<and>
      (case drop n s of [] \<Rightarrow> False | c # rest \<Rightarrow> c = CHR ''-'' \<and> hex_groups ns rest))"

text \<open>
  \<^verbatim>\<open>^t-[0-9a-f]{8}-[0-9a-f]{4}-...$\<close>, ignoring case; the dollar also matches before a final
  newline.
\<close>

definition task_id_ok :: "string \<Rightarrow> bool" where
  "task_id_ok s =
     (case s of
        c # d # rest \<Rightarrow>
          (c = CHR ''t'' \<or> c = CHR ''T'') \<and> d = CHR ''-'' \<and>
          (hex_groups [8, 4, 4, 4, 12] rest \<or>
           rest \<noteq> [] \<and> last rest = CHR 0x0A \<and> hex_groups [8, 4, 4, 4, 12] (butlast rest))
      | _ \<Rightarrow> False)"

section \<open>Responses\<close>

record task_response =
  resp_row :: task
  resp_bidding_deadline :: "int option"
  resp_execution_deadline :: "int option"
  resp_review_deadline :: "int option"

record task_summary =
  sum_id :: string
  sum_poster_id :: string
  sum_title :: string
  sum_reward :: int
  sum_status :: task_status
  sum_bid_count :: nat
  sum_worker_id :: "string option"
  sum_created_at :: int
  sum_bidding_deadline :: "int option"
  sum_execution_deadline :: "int option"
  sum_review_deadline :: "int option"

definition task_to_response :: "task \<Rightarrow> task_response result" where
  "task_to_response r =
     and_then (compute_deadline (Some (t_created_at r)) (t_bidding_deadline_seconds r)) (\<lambda>b.
     and_then (compute_deadline (t_accepted_at r) (t_deadline_seconds r)) (\<lambda>x.
     and_then (compute_deadline (t_submitted_at r) (t_review_deadline_seconds r)) (\<lambda>v.
       Inr \<lparr>resp_row = r, resp_bidding_deadline = b, resp_execution_deadline = x,
            resp_review_deadline = v\<rparr>)))"

definition task_to_summary :: "task \<Rightarrow> task_summary result" where
  "task_to_summary r =
     and_then (compute_deadline (Some (t_created_at r)) (t_bidding_deadline_seconds r)) (\<lambda>b.
     and_then (compute_deadline (t_accepted_at r) (t_deadline_seconds r)) (\<lambda>x.
     and_then (compute_deadline (t_submitted_at r) (t_review_deadline_seconds r)) (\<lambda>v.
       Inr \<lparr>sum_id = t_id r, sum_poster_id = t_poster_id r, sum_title = t_title r, sum_reward = t_reward r,
            sum_status = t_status r, sum_bid_count = t_bid_count r, sum_worker_id = t_worker_id r,
            sum_created_at = t_created_at r, sum_bidding_deadline = b, sum_execution_deadline = x,
            sum_review_deadline = v\<rparr>)))"

fun summaries :: "task list \<Rightarrow> task_summary list result" where
  "summaries [] = Inr []"
| "summaries (r # rs) =
     and_then (task_to_summary r) (\<lambda>x. and_then (summaries rs) (\<lambda>xs. Inr (x # xs)))"

text \<open>How every handler ends that has updated a task: read it again and answer with it.\<close>

definition reread ::
    "('s, 'b) board_env \<Rightarrow> string \<Rightarrow> ('s, 'b) board \<Rightarrow> task_response result \<times> ('s, 'b) board" where
  "reread E tid w =
     (case so_get_task (be_store E) tid (db w) of
        None \<Rightarrow> (Inl (PyError ''RuntimeError''), w)
      | Some r \<Rightarrow> (task_to_response r, w))"

definition update_and_reread ::
    "('s, 'b) board_env \<Rightarrow> string \<Rightarrow> col_update list \<Rightarrow> ('s, 'b) board \<Rightarrow>
     task_response result \<times> ('s, 'b) board" where
  "update_and_reread E tid us w = reread E tid (snd (store_update E tid us None w))"

text \<open>How every handler loads its task: the row, with its deadlines evaluated.\<close>

definition load_task ::
    "('s, 'b) board_env \<Rightarrow> string \<Rightarrow> ('s, 'b) board \<Rightarrow> task result \<times> ('s, 'b) board" where
  "load_task E tid w =
     (case so_get_task (be_store E) tid (db w) of
        None \<Rightarrow> (fail ''task_not_found'' 404, w)
      | Some r \<Rightarrow> evaluate_deadline E r w)"

definition require_field :: "payload \<Rightarrow> string \<Rightarrow> unit result" where
  "require_field p k = (if \<not> has_key p k then fail ''invalid_payload'' 400 else Inr ())"

fun require_fields :: "payload \<Rightarrow> string list \<Rightarrow> unit result" where
  "require_fields p [] = Inr ()"
| "require_fields p (k # ks) = and_then (require_field p k) (\<lambda>_. require_fields p ks)"

definition require_url :: "payload \<Rightarrow> string \<Rightarrow> string \<Rightarrow> unit result" where
  "require_url p k url_value =
     (if jget p k \<noteq> JStr url_value then fail ''invalid_payload'' 400 else Inr ())"

definition require_signer :: "payload \<Rightarrow> string \<Rightarrow> string \<Rightarrow> unit result" where
  "require_signer p k signer = (if jget p k \<noteq> JStr signer then fail ''forbidden'' 403 else Inr ())"

text \<open>
  The opening of cancel, submit, approve and dispute: verify the token, require \<open>task_id\<close> and the role's
  field, the task of the URL, and the signer in that role.
\<close>

definition role_token ::
    "('s, 'b) board_env \<Rightarrow> string \<Rightarrow> string list \<Rightarrow> string \<Rightarrow> string \<Rightarrow> (payload \<times> string) result" where
  "role_token E token actions role tid =
     and_then (validate_jws_token E token actions) (\<lambda>(p, signer).
     and_then (require_fields p [''task_id'', role]) (\<lambda>_.
     and_then (require_url p ''task_id'' tid) (\<lambda>_.
     and_then (require_signer p role signer) (\<lambda>_. Inr (p, signer)))))"

section \<open>Creation\<close>

record task_request =
  tq_id :: string
  tq_poster_id :: string
  tq_title :: string
  tq_spec :: string
  tq_reward :: int
  tq_bidding_deadline_seconds :: int
  tq_deadline_seconds :: int
  tq_review_deadline_seconds :: int

fun require_positive :: "json list \<Rightarrow> int list result" where
  "require_positive [] = Inr []"
| "require_positive (j # js) =
     (case strict_int j of
        None \<Rightarrow> fail ''invalid_deadline'' 400
      | Some n \<Rightarrow> if n \<le> 0 then fail ''invalid_deadline'' 400
                  else and_then (require_positive js) (\<lambda>ns. Inr (n # ns)))"

text \<open>Steps 4 to 7: the payload of the task token.\<close>

definition create_task_request ::
    "('s, 'b) board_env \<Rightarrow> string \<Rightarrow> (task_request \<times> string) result" where
  "create_task_request E task_token =
     and_then (validate_jws_token E task_token [''create_task'']) (\<lambda>(p, signer).
     and_then (require_fields p [''task_id'', ''poster_id'', ''title'', ''spec'', ''reward'',
         ''bidding_deadline_seconds'', ''review_deadline_seconds'']) (\<lambda>_.
     and_then (if has_key p ''deadline_seconds'' then Inr ''deadline_seconds''
               else if has_key p ''execution_deadline_seconds'' then Inr ''execution_deadline_seconds''
               else fail ''invalid_payload'' 400) (\<lambda>deadline_field.
     and_then (require_signer p ''poster_id'' signer) (\<lambda>_.
       (case as_str (jget p ''task_id'') of
          None \<Rightarrow> fail ''invalid_task_id'' 400
        | Some tid \<Rightarrow>
            if \<not> task_id_ok tid then fail ''invalid_task_id'' 400
            else (case nonempty_str (jget p ''title'') of
              None \<Rightarrow> fail ''invalid_payload'' 400
            | Some title \<Rightarrow>
                if length title > 200 then fail ''title_too_long'' 400
                else (case nonempty_str (jget p ''spec'') of
                  None \<Rightarrow> fail ''invalid_payload'' 400
                | Some spec \<Rightarrow>
                    if length spec > 10000 then fail ''invalid_payload'' 400
                    else if \<not> is_positive_int (jget p ''reward'') then fail ''invalid_reward'' 400
                    else
                      and_then (require_positive [jget p ''bidding_deadline_seconds'',
                          jget p deadline_field, jget p ''review_deadline_seconds'']) (\<lambda>ds.
                        Inr (\<lparr>tq_id = tid, tq_poster_id = signer, tq_title = title, tq_spec = spec,
                              tq_reward = the (strict_int (jget p ''reward'')),
                              tq_bidding_deadline_seconds = ds ! 0, tq_deadline_seconds = ds ! 1,
                              tq_review_deadline_seconds = ds ! 2\<rparr>, signer)))))))))"

text \<open>Step 8: the escrow token must be for the same task, amount and signer.\<close>

definition cross_validate ::
    "('s, 'b) board_env \<Rightarrow> task_request \<Rightarrow> string \<Rightarrow> string \<Rightarrow> unit result" where
  "cross_validate E q signer escrow_token =
     and_then (decode_escrow_token_payload E escrow_token) (\<lambda>ep.
     and_then (decode_base64url_json E (hd (split_on CHR ''.'' escrow_token))) (\<lambda>header.
       if jget ep ''task_id'' = JNull \<or> jget ep ''amount'' = JNull then fail ''token_mismatch'' 400
       else if jget ep ''task_id'' \<noteq> JStr (tq_id q) then fail ''token_mismatch'' 400
       else if \<not> eq_int (jget ep ''amount'') (tq_reward q) then fail ''token_mismatch'' 400
       else if jget header ''kid'' \<noteq> JStr signer then fail ''token_mismatch'' 400
       else (case as_str (jget ep ''agent_id'') of
           Some a \<Rightarrow> if a \<noteq> tq_poster_id q then fail ''token_mismatch'' 400 else Inr ()
         | None \<Rightarrow> Inr ())))"

definition create_task_prepare ::
    "('s, 'b) board_env \<Rightarrow> string \<Rightarrow> string \<Rightarrow> ('s, 'b) board \<Rightarrow> task_request result" where
  "create_task_prepare E task_token escrow_token w =
     and_then (create_task_request E task_token) (\<lambda>(q, signer).
     and_then (cross_validate E q signer escrow_token) (\<lambda>_.
       if so_get_task (be_store E) (tq_id q) (db w) \<noteq> None then fail ''task_already_exists'' 409
       else Inr q))"

text \<open>Step 13: the lock, with the exceptions of the bank client turned into service errors.\<close>

fun lock_error :: "('s, 'b) board_env \<Rightarrow> exn \<Rightarrow> exn" where
  "lock_error E (ServiceError c n) = ServiceError c n"
| "lock_error E (PyError c) =
     (if be_mentions_funds E c then ServiceError ''insufficient_funds'' 402
      else ServiceError ''central_bank_unavailable'' 502)"

definition lock_escrow ::
    "('s, 'b) board_env \<Rightarrow> string \<Rightarrow> ('s, 'b) board \<Rightarrow> string result \<times> ('s, 'b) board" where
  "lock_escrow E escrow_token w =
     (let (r, b') = bo_lock (be_bank E) escrow_token (bank w)
      in (and_then (map_sum (lock_error E) id r) (\<lambda>j.
            (case j of
               JObj answer \<Rightarrow> and_then (subscript answer ''escrow_id'') (\<lambda>v. Inr (text_of v))
             | _ \<Rightarrow> Inl (PyError ''TypeError''))),
          w\<lparr>bank := b'\<rparr>))"

definition new_task :: "task_request \<Rightarrow> string \<Rightarrow> int \<Rightarrow> task" where
  "new_task q eid now =
     \<lparr>t_id = tq_id q, t_poster_id = tq_poster_id q, t_title = tq_title q, t_spec = tq_spec q,
      t_reward = tq_reward q, t_bidding_deadline_seconds = tq_bidding_deadline_seconds q,
      t_deadline_seconds = tq_deadline_seconds q, t_review_deadline_seconds = tq_review_deadline_seconds q,
      t_status = Open, t_escrow_id = eid, t_bid_count = 0, t_worker_id = None, t_accepted_bid_id = None,
      t_created_at = now, t_accepted_at = None, t_submitted_at = None, t_approved_at = None,
      t_cancelled_at = None, t_disputed_at = None, t_dispute_reason = None, t_ruling_id = None,
      t_ruled_at = None, t_worker_pct = None, t_ruling_summary = None, t_expired_at = None,
      t_escrow_pending = False\<rparr>"

definition create_task_commit ::
    "('s, 'b) board_env \<Rightarrow> task_request \<Rightarrow> string \<Rightarrow> ('s, 'b) board \<Rightarrow>
     task_response result \<times> ('s, 'b) board" where
  "create_task_commit E q eid w =
     (let (now, w1) = board_now w
      in case so_insert_task (be_store E) (new_task q eid now) (db w1) of
           (Inl e, s') \<Rightarrow>
             (if e = PyError ''DuplicateTaskError''
              then (fail ''task_already_exists'' 409,
                    snd (release_escrow E eid (Some (tq_poster_id q)) (w1\<lparr>db := s'\<rparr>)))
              else (Inl e, w1\<lparr>db := s'\<rparr>))
         | (Inr _, s') \<Rightarrow> reread E (tq_id q) (w1\<lparr>db := s'\<rparr>))"

definition create_task ::
    "('s, 'b) board_env \<Rightarrow> string \<Rightarrow> string \<Rightarrow> ('s, 'b) board \<Rightarrow>
     task_response result \<times> ('s, 'b) board" where
  "create_task E task_token escrow_token w =
     chain (create_task_prepare E task_token escrow_token w, w) (\<lambda>q w1.
     chain (lock_escrow E escrow_token w1) (\<lambda>eid w2. create_task_commit E q eid w2))"

section \<open>Reading\<close>

definition get_task ::
    "('s, 'b) board_env \<Rightarrow> string \<Rightarrow> ('s, 'b) board \<Rightarrow> task_response result \<times> ('s, 'b) board" where
  "get_task E tid w = chain (load_task E tid w) (\<lambda>r w1. (task_to_response r, w1))"

definition list_tasks ::
    "('s, 'b) board_env \<Rightarrow> string option \<Rightarrow> string option \<Rightarrow> string option \<Rightarrow> nat option \<Rightarrow> nat option \<Rightarrow>
     ('s, 'b) board \<Rightarrow> task_summary list result \<times> ('s, 'b) board" where
  "list_tasks E status poster worker offset limit w =
     chain (evaluate_deadlines_batch E
              (so_list_tasks (be_store E) status poster worker limit offset (db w)) w) (\<lambda>rs w1.
       (summaries rs, w1))"

section \<open>Cancellation\<close>

definition cancel_prepare ::
    "('s, 'b) board_env \<Rightarrow> string \<Rightarrow> string \<Rightarrow> ('s, 'b) board \<Rightarrow> task result \<times> ('s, 'b) board" where
  "cancel_prepare E tid token w =
     chain (role_token E token [''cancel_task''] ''poster_id'' tid, w) (\<lambda>(p, signer) w.
     chain (load_task E tid w) (\<lambda>task w.
       if t_status task \<noteq> Open then (fail ''invalid_status'' 409, w)
       else if signer \<noteq> t_poster_id task then (fail ''forbidden'' 403, w)
       else (Inr task, w)))"

definition cancel_commit ::
    "('s, 'b) board_env \<Rightarrow> string \<Rightarrow> ('s, 'b) board \<Rightarrow> task_response result \<times> ('s, 'b) board" where
  "cancel_commit E tid w =
     (let (now, w1) = board_now w
      in update_and_reread E tid [SetStatus Cancelled, SetCancelledAt now] w1)"

definition cancel_task ::
    "('s, 'b) board_env \<Rightarrow> string \<Rightarrow> string \<Rightarrow> ('s, 'b) board \<Rightarrow>
     task_response result \<times> ('s, 'b) board" where
  "cancel_task E tid token w =
     chain (cancel_prepare E tid token w) (\<lambda>task w1.
     chain (release_escrow E (t_escrow_id task) (Some (t_poster_id task)) w1) (\<lambda>_ w2.
       cancel_commit E tid w2))"

section \<open>Bids\<close>

definition bid_request ::
    "('s, 'b) board_env \<Rightarrow> string \<Rightarrow> string \<Rightarrow> (int \<times> string) result" where
  "bid_request E tid token =
     and_then (validate_jws_token E token [''submit_bid'']) (\<lambda>(p, signer).
     and_then (require_fields p [''task_id'', ''bidder_id'']) (\<lambda>_.
     and_then (require_url p ''task_id'' tid) (\<lambda>_.
     and_then (require_field p ''amount'') (\<lambda>_.
       if \<not> is_positive_int (jget p ''amount'') then fail ''invalid_reward'' 400
       else and_then (require_signer p ''bidder_id'' signer) (\<lambda>_.
         Inr (the (strict_int (jget p ''amount'')), signer))))))"

text \<open>A second look at the bidding deadline, which the evaluation leaves alone once there are bids.\<close>

definition bidding_open :: "task \<Rightarrow> ('s, 'b) board \<Rightarrow> unit result \<times> ('s, 'b) board" where
  "bidding_open task w =
     (case compute_deadline (Some (t_created_at task)) (t_bidding_deadline_seconds task) of
        Inl e \<Rightarrow> (Inl e, w)
      | Inr None \<Rightarrow> (Inr (), w)
      | Inr (Some d) \<Rightarrow>
          (let (now, w1) = board_now w
           in if d \<le> now then (fail ''invalid_status'' 409, w1) else (Inr (), w1)))"

definition place_bid ::
    "('s, 'b) board_env \<Rightarrow> string \<Rightarrow> string \<Rightarrow> int \<Rightarrow> ('s, 'b) board \<Rightarrow> bid result \<times> ('s, 'b) board" where
  "place_bid E tid bidder amount w =
     (let (u, w1) = new_uuid w;
          (submitted_at, w2) = board_now w1;
          b = \<lparr>b_id = prefixed ''bid-'' u, b_task_id = tid, b_bidder_id = bidder, b_amount = amount,
               b_submitted_at = submitted_at\<rparr>
      in (case so_insert_bid (be_store E) b (db w2) of
            (Inl e, s') \<Rightarrow>
              (if e = PyError ''DuplicateBidError'' then fail ''bid_already_exists'' 409 else Inl e, w2\<lparr>db := s'\<rparr>)
          | (Inr _, s') \<Rightarrow> (Inr b, w2\<lparr>db := s'\<rparr>)))"

definition submit_bid ::
    "('s, 'b) board_env \<Rightarrow> string \<Rightarrow> string \<Rightarrow> ('s, 'b) board \<Rightarrow> bid result \<times> ('s, 'b) board" where
  "submit_bid E tid token w =
     chain (bid_request E tid token, w) (\<lambda>(amount, bidder) w.
     chain (load_task E tid w) (\<lambda>task w.
       if t_status task \<noteq> Open then (fail ''invalid_status'' 409, w)
       else chain (bidding_open task w) (\<lambda>_ w.
         if bidder = t_poster_id task then (fail ''self_bid'' 400, w)
         else place_bid E tid bidder amount w)))"

text \<open>While the task is open the bids are sealed: only its poster may list them.\<close>

definition list_bids_auth ::
    "('s, 'b) board_env \<Rightarrow> task \<Rightarrow> string \<Rightarrow> string option \<Rightarrow> unit result" where
  "list_bids_auth E task tid auth_token =
     (if t_status task \<noteq> Open then Inr ()
      else if auth_token = None \<or> auth_token = Some [] then fail ''invalid_jws'' 400
      else
        and_then (validate_jws_token E (the auth_token) [''list_bids'']) (\<lambda>(p, signer).
          if has_key p ''task_id'' \<and> jget p ''task_id'' \<noteq> JStr tid then fail ''invalid_payload'' 400
          else if has_key p ''poster_id'' \<and> jget p ''poster_id'' \<noteq> JStr signer then fail ''forbidden'' 403
          else if signer \<noteq> t_poster_id task then fail ''forbidden'' 403
          else Inr ()))"

definition list_bids ::
    "('s, 'b) board_env \<Rightarrow> string \<Rightarrow> string option \<Rightarrow> ('s, 'b) board \<Rightarrow>
     (string \<times> bid list) result \<times> ('s, 'b) board" where
  "list_bids E tid auth_token w =
     chain (load_task E tid w) (\<lambda>task w.
     chain (list_bids_auth E task tid auth_token, w) (\<lambda>_ w.
       (Inr (tid, so_get_bids_for_task (be_store E) tid (db w)), w)))"

definition accept_bid ::
    "('s, 'b) board_env \<Rightarrow> string \<Rightarrow> string \<Rightarrow> string \<Rightarrow> ('s, 'b) board \<Rightarrow>
     task_response result \<times> ('s, 'b) board" where
  "accept_bid E tid bid_id token w =
     chain (and_then (validate_jws_token E token [''accept_bid'']) (\<lambda>(p, signer).
            and_then (require_fields p [''task_id'', ''bid_id'', ''poster_id'']) (\<lambda>_.
            and_then (require_url p ''task_id'' tid) (\<lambda>_.
            and_then (require_url p ''bid_id'' bid_id) (\<lambda>_.
            and_then (require_signer p ''poster_id'' signer) (\<lambda>_. Inr signer))))), w) (\<lambda>signer w.
     chain (load_task E tid w) (\<lambda>task w.
       if t_status task \<noteq> Open then (fail ''invalid_status'' 409, w)
       else if signer \<noteq> t_poster_id task then (fail ''forbidden'' 403, w)
       else (case so_get_bid (be_store E) bid_id tid (db w) of
           None \<Rightarrow> (fail ''bid_not_found'' 404, w)
         | Some b \<Rightarrow>
             (let (now, w1) = board_now w
              in update_and_reread E tid [SetStatus Accepted, SetWorker (b_bidder_id b),
                   SetAcceptedBid bid_id, SetAcceptedAt now] w1))))"

section \<open>Deliverables\<close>

definition submit_deliverable ::
    "('s, 'b) board_env \<Rightarrow> string \<Rightarrow> string \<Rightarrow> ('s, 'b) board \<Rightarrow>
     task_response result \<times> ('s, 'b) board" where
  "submit_deliverable E tid token w =
     chain (role_token E token [''submit_deliverable''] ''worker_id'' tid, w) (\<lambda>(p, signer) w.
     chain (load_task E tid w) (\<lambda>task w.
       if t_status task \<noteq> Accepted then (fail ''invalid_status'' 409, w)
       else if Some signer \<noteq> t_worker_id task then (fail ''forbidden'' 403, w)
       else if so_count_assets (be_store E) tid (db w) = 0 then (fail ''no_assets'' 400, w)
       else
         let (now, w1) = board_now w
         in update_and_reread E tid [SetStatus Submitted, SetSubmittedAt now] w1))"

section \<open>Review\<close>

definition approve_prepare ::
    "('s, 'b) board_env \<Rightarrow> string \<Rightarrow> string \<Rightarrow> ('s, 'b) board \<Rightarrow> task result \<times> ('s, 'b) board" where
  "approve_prepare E tid token w =
     chain (role_token E token [''approve_task''] ''poster_id'' tid, w) (\<lambda>(p, signer) w.
     chain (load_task E tid w) (\<lambda>task w.
       if t_status task \<noteq> Submitted then (fail ''invalid_status'' 409, w)
       else if signer \<noteq> t_poster_id task then (fail ''forbidden'' 403, w)
       else (Inr task, w)))"

definition approve_commit ::
    "('s, 'b) board_env \<Rightarrow> string \<Rightarrow> ('s, 'b) board \<Rightarrow> task_response result \<times> ('s, 'b) board" where
  "approve_commit E tid w =
     (let (now, w1) = board_now w
      in update_and_reread E tid [SetStatus Approved, SetApprovedAt now] w1)"

definition approve_task ::
    "('s, 'b) board_env \<Rightarrow> string \<Rightarrow> string \<Rightarrow> ('s, 'b) board \<Rightarrow>
     task_response result \<times> ('s, 'b) board" where
  "approve_task E tid token w =
     chain (approve_prepare E tid token w) (\<lambda>task w1.
     chain (release_escrow E (t_escrow_id task) (t_worker_id task) w1) (\<lambda>_ w2.
       approve_commit E tid w2))"

definition dispute_task ::
    "('s, 'b) board_env \<Rightarrow> string \<Rightarrow> string \<Rightarrow> ('s, 'b) board \<Rightarrow>
     task_response result \<times> ('s, 'b) board" where
  "dispute_task E tid token w =
     chain (role_token E token [''dispute_task'', ''file_dispute''] ''poster_id'' tid, w) (\<lambda>(p, signer) w.
     chain (load_task E tid w) (\<lambda>task w.
       if t_status task \<noteq> Submitted then (fail ''invalid_status'' 409, w)
       else if signer \<noteq> t_poster_id task then (fail ''forbidden'' 403, w)
       else (case nonempty_str (jget p ''reason'') of
           None \<Rightarrow> (fail ''invalid_reason'' 400, w)
         | Some reason \<Rightarrow>
             if length reason > 10000 then (fail ''invalid_reason'' 400, w)
             else
               let (now, w1) = board_now w
               in update_and_reread E tid [SetStatus Disputed, SetDisputedAt now,
                    SetDisputeReason reason] w1)))"

section \<open>Rulings\<close>

text \<open>Steps 7 and 9a; a missing ruling id of a \<open>submit_ruling\<close> is drawn here.\<close>

definition ruling_id_of ::
    "payload \<Rightarrow> ('s, 'b) board \<Rightarrow> string result \<times> ('s, 'b) board" where
  "ruling_id_of p w =
     (if jget p ''action'' = JStr ''record_ruling'' then
        (if \<not> has_key p ''ruling_id'' then (fail ''invalid_payload'' 400, w)
         else case nonempty_str (jget p ''ruling_id'') of
           None \<Rightarrow> (fail ''invalid_payload'' 400, w)
         | Some i \<Rightarrow> (Inr i, w))
      else if jget p ''ruling_id'' = JNull then
        (let (u, w1) = new_uuid w in (Inr (prefixed ''rul-'' u), w1))
      else case nonempty_str (jget p ''ruling_id'') of
        None \<Rightarrow> (fail ''invalid_payload'' 400, w)
      | Some i \<Rightarrow> (Inr i, w))"

definition ruling_prepare ::
    "('s, 'b) board_env \<Rightarrow> string \<Rightarrow> string \<Rightarrow> ('s, 'b) board \<Rightarrow>
     (task \<times> string \<times> string \<times> int) result \<times> ('s, 'b) board" where
  "ruling_prepare E tid token w =
     chain (and_then (validate_jws_token E token [''record_ruling'', ''submit_ruling'']) (\<lambda>(p, signer).
            and_then (require_field p ''task_id'') (\<lambda>_.
            and_then (require_url p ''task_id'' tid) (\<lambda>_. Inr (p, signer)))), w) (\<lambda>(p, signer) w.
     chain (ruling_id_of p w) (\<lambda>ruling_id w.
       if \<not> has_key p ''ruling_summary'' then (fail ''invalid_payload'' 400, w)
       else case nonempty_str (jget p ''ruling_summary'') of
         None \<Rightarrow> (fail ''invalid_payload'' 400, w)
       | Some ruling_summary \<Rightarrow>
           if \<not> has_key p ''worker_pct'' then (fail ''invalid_payload'' 400, w)
           else if signer \<noteq> be_platform_id E then (fail ''forbidden'' 403, w)
           else case so_get_task (be_store E) tid (db w) of
             None \<Rightarrow> (fail ''task_not_found'' 404, w)
           | Some task \<Rightarrow>
               if t_status task \<noteq> Disputed then (fail ''invalid_status'' 409, w)
               else if \<not> is_valid_worker_pct (jget p ''worker_pct'') then (fail ''invalid_worker_pct'' 400, w)
               else (Inr (task, ruling_id, ruling_summary, the (strict_int (jget p ''worker_pct''))), w)))"

definition pay_ruling ::
    "('s, 'b) board_env \<Rightarrow> task \<Rightarrow> int \<Rightarrow> ('s, 'b) board \<Rightarrow> unit result \<times> ('s, 'b) board" where
  "pay_ruling E task pct w =
     (if pct = 0 then release_escrow E (t_escrow_id task) (Some (t_poster_id task)) w
      else if pct = 100 then release_escrow E (t_escrow_id task) (t_worker_id task) w
      else split_escrow E (t_escrow_id task) (t_worker_id task) (t_poster_id task) pct w)"

definition ruling_commit ::
    "('s, 'b) board_env \<Rightarrow> string \<Rightarrow> string \<Rightarrow> string \<Rightarrow> int \<Rightarrow> ('s, 'b) board \<Rightarrow>
     task_response result \<times> ('s, 'b) board" where
  "ruling_commit E tid ruling_id ruling_summary pct w =
     (let (now, w1) = board_now w
      in update_and_reread E tid [SetStatus Ruled, SetRuledAt now, SetRulingId ruling_id,
           SetWorkerPct pct, SetRulingSummary ruling_summary] w1)"

definition record_ruling ::
    "('s, 'b) board_env \<Rightarrow> string \<Rightarrow> string \<Rightarrow> ('s, 'b) board \<Rightarrow>
     task_response result \<times> ('s, 'b) board" where
  "record_ruling E tid token w =
     chain (ruling_prepare E tid token w) (\<lambda>(task, ruling_id, ruling_summary, pct) w1.
     chain (pay_ruling E task pct w1) (\<lambda>_ w2. ruling_commit E tid ruling_id ruling_summary pct w2))"

section \<open>Statistics\<close>

definition all_statuses :: "string list" where
  "all_statuses = [''open'', ''accepted'', ''submitted'', ''approved'', ''cancelled'', ''disputed'',
     ''ruled'', ''expired'']"

fun overwrite_counts :: "(string, nat) dict \<Rightarrow> (string, nat) dict \<Rightarrow> (string, nat) dict" where
  "overwrite_counts counts [] = counts"
| "overwrite_counts counts ((st, n) # rest) =
     overwrite_counts (if dget counts st \<noteq> None then dput counts st n else counts) rest"

definition count_tasks_by_status :: "('s, 'b) board_env \<Rightarrow> ('s, 'b) board \<Rightarrow> (string, nat) dict" where
  "count_tasks_by_status E w =
     overwrite_counts (map (\<lambda>st. (st, 0)) all_statuses) (so_count_by_status (be_store E) (db w))"

definition get_stats :: "('s, 'b) board_env \<Rightarrow> ('s, 'b) board \<Rightarrow> nat \<times> (string, nat) dict" where
  "get_stats E w = (so_count_tasks (be_store E) (db w), count_tasks_by_status E w)"

end
