(* ===== verification/Task_Spec.thy ===== *)
theory Task_Spec
  imports Task_Manager
begin

text \<open>
  The abstract specification of the Task Board: which changes of a row are transitions of the lifecycle
  (\<open>task_edge\<close>), and how rows and bank move together (\<open>board_step\<close>). The handlers refine it
  (theory \<^verbatim>\<open>Task_Props\<close>); what holds of every path of the specification then holds of them.
\<close>

section \<open>The lifecycle\<close>

fun may_become :: "task_status \<Rightarrow> task_status \<Rightarrow> bool" where
  "may_become Open st = (st \<in> {Accepted, Cancelled, Expired})"
| "may_become Accepted st = (st \<in> {Submitted, Expired})"
| "may_become Submitted st = (st \<in> {Approved, Disputed})"
| "may_become Disputed st = (st = Ruled)"
| "may_become _ st = False"

inductive task_edge :: "task \<Rightarrow> task \<Rightarrow> bool" where
  bid_edge: "t_status r = Open \<Longrightarrow> task_edge r (r\<lparr>t_bid_count := t_bid_count r + 1\<rparr>)"
| accept_edge: "t_status r = Open \<Longrightarrow>
    task_edge r (apply_updates [SetStatus Accepted, SetWorker wk, SetAcceptedBid k, SetAcceptedAt now] r)"
| cancel_edge: "t_status r = Open \<Longrightarrow> task_edge r (apply_updates [SetStatus Cancelled, SetCancelledAt now] r)"
| submit_edge: "t_status r = Accepted \<Longrightarrow>
    task_edge r (apply_updates [SetStatus Submitted, SetSubmittedAt now] r)"
| approve_edge: "t_status r = Submitted \<Longrightarrow>
    task_edge r (apply_updates [SetStatus Approved, SetApprovedAt now] r)"
| dispute_edge: "t_status r = Submitted \<Longrightarrow>
    task_edge r (apply_updates [SetStatus Disputed, SetDisputedAt now, SetDisputeReason why] r)"
| rule_edge: "t_status r = Disputed \<Longrightarrow> 0 \<le> pct \<Longrightarrow> pct \<le> 100 \<Longrightarrow>
    task_edge r (apply_updates [SetStatus Ruled, SetRuledAt now, SetRulingId i, SetWorkerPct pct,
      SetRulingSummary text] r)"
| expire_edge: "t_status r = Open \<or> t_status r = Accepted \<Longrightarrow>
    task_edge r (apply_updates [SetStatus Expired, SetExpiredAt now, SetEscrowPending p] r)"
| auto_approve_edge: "t_status r = Submitted \<Longrightarrow>
    task_edge r (apply_updates [SetStatus Approved, SetApprovedAt now, SetEscrowPending p] r)"

text \<open>The columns fixed at creation.\<close>

definition fixed_columns :: "task \<Rightarrow> string \<times> string \<times> string \<times> string \<times> int \<times> int \<times> int \<times> int \<times> string \<times> int" where
  "fixed_columns r = (t_id r, t_poster_id r, t_title r, t_spec r, t_reward r, t_bidding_deadline_seconds r,
     t_deadline_seconds r, t_review_deadline_seconds r, t_escrow_id r, t_created_at r)"

lemma task_edge_fixed: "task_edge r r' \<Longrightarrow> fixed_columns r' = fixed_columns r"
  by (induction rule: task_edge.induct) (simp_all add: fixed_columns_def)

lemma task_edge_status: "task_edge r r' \<Longrightarrow> t_status r' = t_status r \<or> may_become (t_status r) (t_status r')"
  by (induction rule: task_edge.induct) auto

lemma task_edge_active: "task_edge r r' \<Longrightarrow> \<not> terminal (t_status r)"
  by (induction rule: task_edge.induct) (auto simp: terminal_def)

lemma task_edge_worker: "task_edge r r' \<Longrightarrow> t_status r \<noteq> Open \<Longrightarrow> t_worker_id r' = t_worker_id r"
  by (induction rule: task_edge.induct) auto

text \<open>The columns that may be empty: which of them are filled.\<close>

definition filled_columns :: "task \<Rightarrow> (string \<times> bool) list" where
  "filled_columns r =
     [(''worker_id'', t_worker_id r \<noteq> None), (''accepted_bid_id'', t_accepted_bid_id r \<noteq> None),
      (''accepted_at'', t_accepted_at r \<noteq> None), (''submitted_at'', t_submitted_at r \<noteq> None),
      (''approved_at'', t_approved_at r \<noteq> None), (''cancelled_at'', t_cancelled_at r \<noteq> None),
      (''disputed_at'', t_disputed_at r \<noteq> None), (''dispute_reason'', t_dispute_reason r \<noteq> None),
      (''ruling_id'', t_ruling_id r \<noteq> None), (''ruled_at'', t_ruled_at r \<noteq> None),
      (''worker_pct'', t_worker_pct r \<noteq> None), (''ruling_summary'', t_ruling_summary r \<noteq> None),
      (''expired_at'', t_expired_at r \<noteq> None)]"

definition has_columns :: "string list \<Rightarrow> task \<Rightarrow> bool" where
  "has_columns cs r = list_all (\<lambda>(c, filled). filled = (c \<in> set cs)) (filled_columns r)"

text \<open>What the columns of a row have to be in each status.\<close>

definition assignment :: "string list" where
  "assignment = [''worker_id'', ''accepted_bid_id'', ''accepted_at'']"

definition dispute_columns :: "string list" where
  "dispute_columns = assignment @ [''submitted_at'', ''disputed_at'', ''dispute_reason'']"

fun columns_ok :: "task_status \<Rightarrow> task \<Rightarrow> bool" where
  "columns_ok Open r = (has_columns [] r \<and> \<not> t_escrow_pending r)"
| "columns_ok Accepted r = (has_columns assignment r \<and> \<not> t_escrow_pending r)"
| "columns_ok Submitted r = (has_columns (assignment @ [''submitted_at'']) r \<and> \<not> t_escrow_pending r)"
| "columns_ok Approved r = has_columns (assignment @ [''submitted_at'', ''approved_at'']) r"
| "columns_ok Cancelled r = (has_columns [''cancelled_at''] r \<and> \<not> t_escrow_pending r)"
| "columns_ok Disputed r = (has_columns dispute_columns r \<and> \<not> t_escrow_pending r)"
| "columns_ok Ruled r =
     (has_columns (dispute_columns @ [''ruling_id'', ''ruled_at'', ''worker_pct'', ''ruling_summary'']) r \<and>
      \<not> t_escrow_pending r \<and> (\<exists>pct \<in> set_option (t_worker_pct r). 0 \<le> pct \<and> pct \<le> 100))"
| "columns_ok Expired r = (has_columns [''expired_at''] r \<or> has_columns (assignment @ [''expired_at'']) r)"

lemmas column_defs = has_columns_def filled_columns_def assignment_def dispute_columns_def

definition row_ok :: "string \<Rightarrow> task \<Rightarrow> bool" where
  "row_ok tid r \<longleftrightarrow> t_id r = tid \<and> 0 < t_reward r \<and> 0 < t_bidding_deadline_seconds r \<and>
     0 < t_deadline_seconds r \<and> 0 < t_review_deadline_seconds r \<and> columns_ok (t_status r) r"

lemma task_edge_row_ok: "task_edge r r' \<Longrightarrow> row_ok tid r \<Longrightarrow> row_ok tid r'"
  by (induction rule: task_edge.induct) (auto simp: row_ok_def column_defs)

definition fresh_task :: "task \<Rightarrow> bool" where
  "fresh_task r \<longleftrightarrow> t_status r = Open \<and> t_bid_count r = 0 \<and> row_ok (t_id r) r"

section \<open>Rows and bank together\<close>

type_synonym row_map = "string \<Rightarrow> task option"

definition rows_ok :: "row_map \<Rightarrow> bool" where
  "rows_ok R \<longleftrightarrow> (\<forall>tid r. R tid = Some r \<longrightarrow> row_ok tid r)"

text \<open>The escrow token as the board read it: for this task, with its reward as amount.\<close>

definition escrow_token_for :: "('s, 'b) board_env \<Rightarrow> string \<Rightarrow> task \<Rightarrow> bool" where
  "escrow_token_for E token r \<longleftrightarrow>
     (\<exists>p. decode_escrow_token_payload E token = Inr p \<and> jget p ''task_id'' = JStr (t_id r) \<and>
          eq_int (jget p ''amount'') (t_reward r))"

text \<open>Who is paid when a row reaches a terminal status by one release.\<close>

definition pays_to :: "task \<Rightarrow> task \<Rightarrow> string option \<Rightarrow> bool" where
  "pays_to r r' recipient \<longleftrightarrow>
     (case t_status r' of
        Cancelled \<Rightarrow> recipient = Some (t_poster_id r)
      | Expired \<Rightarrow> recipient = Some (t_poster_id r)
      | Approved \<Rightarrow> recipient = t_worker_id r
      | Ruled \<Rightarrow> t_worker_pct r' = Some 0 \<and> recipient = Some (t_poster_id r) \<or>
                t_worker_pct r' = Some 100 \<and> recipient = t_worker_id r
      | _ \<Rightarrow> False)"

inductive board_step :: "('s, 'b) board_env \<Rightarrow> row_map \<times> 'b \<Rightarrow> row_map \<times> 'b \<Rightarrow> bool"
  for E :: "('s, 'b) board_env" where
  work_step: "board_step E (R, b) (R(tid \<mapsto> r'), b)"
  if "R tid = Some r" "task_edge r r'" "\<not> terminal (t_status r')"
| create_step: "board_step E (R, b) (R(t_id r \<mapsto> r), b')"
  if "R (t_id r) = None" "fresh_task r" "escrow_token_for E token r"
    "bo_lock (be_bank E) token b = (Inr (JObj answer), b')" "dget answer ''escrow_id'' = Some v"
    "t_escrow_id r = text_of v"
| lock_failed: "board_step E (R, b) (R, b')"
  if "bo_lock (be_bank E) token b = (Inl e, b')"
| lock_unreadable: "board_step E (R, b) (R, b')"
  if "bo_lock (be_bank E) token b = (Inr j, b')" "\<forall>answer. j = JObj answer \<longrightarrow> dget answer ''escrow_id'' = None"
| release_failed: "board_step E (R, b) (R, b')"
  if "R tid = Some r" "\<not> terminal (t_status r)" "bo_release (be_bank E) (t_escrow_id r) recipient b = (Inl e, b')"
| split_failed: "board_step E (R, b) (R, b')"
  if "R tid = Some r" "\<not> terminal (t_status r)"
    "bo_split (be_bank E) (t_escrow_id r) wk poster pct b = (Inl e, b')"
| settle_step: "board_step E (R, b) (R(tid \<mapsto> r'), b')"
  if "R tid = Some r" "task_edge r r'" "terminal (t_status r')" "\<not> t_escrow_pending r'"
    "pays_to r r' recipient"
    "bo_release (be_bank E) (t_escrow_id r) recipient b = (Inr (), b')"
| split_step: "board_step E (R, b) (R(tid \<mapsto> r'), b')"
  if "R tid = Some r" "task_edge r r'" "t_status r' = Ruled" "t_worker_pct r' = Some pct" "0 < pct" "pct < 100"
    "\<not> t_escrow_pending r'"
    "bo_split (be_bank E) (t_escrow_id r) (t_worker_id r) (t_poster_id r) pct b = (Inr (), b')"
| pending_step: "board_step E (R, b) (R(tid \<mapsto> r'), b')"
  if "R tid = Some r" "task_edge r r'" "terminal (t_status r')" "t_escrow_pending r'"
    "pays_to r r' recipient" "bo_release (be_bank E) (t_escrow_id r) recipient b = (Inl e, b')"

abbreviation board_path :: "('s, 'b) board_env \<Rightarrow> row_map \<times> 'b \<Rightarrow> row_map \<times> 'b \<Rightarrow> bool" where
  "board_path E \<equiv> (board_step E)\<^sup>*\<^sup>*"

section \<open>What every path keeps\<close>

definition row_evolves :: "row_map \<Rightarrow> row_map \<Rightarrow> bool" where
  "row_evolves R R' \<longleftrightarrow> (\<forall>tid r. R tid = Some r \<longrightarrow> (\<exists>r'. R' tid = Some r' \<and> task_edge\<^sup>*\<^sup>* r r'))"

lemma row_evolves_refl [simp]: "row_evolves R R"
  by (auto simp: row_evolves_def)

lemma row_evolves_trans: "row_evolves R R' \<Longrightarrow> row_evolves R' R'' \<Longrightarrow> row_evolves R R''"
  unfolding row_evolves_def by (meson rtranclp_trans)

lemma row_evolves_put: "R tid = Some r \<Longrightarrow> task_edge r r' \<Longrightarrow> row_evolves R (R(tid \<mapsto> r'))"
  by (auto simp: row_evolves_def)

lemma row_evolves_new: "R tid = None \<Longrightarrow> row_evolves R (R(tid \<mapsto> r'))"
  by (auto simp: row_evolves_def)

lemma board_step_evolves: "board_step E (R, b) (R', b') \<Longrightarrow> row_evolves R R'"
  by (erule board_step.cases) (auto intro: row_evolves_put row_evolves_new)

lemma board_step_rows_ok: "board_step E (R, b) (R', b') \<Longrightarrow> rows_ok R \<Longrightarrow> rows_ok R'"
  by (erule board_step.cases) (auto simp: rows_ok_def fresh_task_def dest: task_edge_row_ok)

lemma board_path_evolves: "board_path E s s' \<Longrightarrow> row_evolves (fst s) (fst s')"
proof (induction rule: rtranclp_induct)
  case (step s' s'')
  then show ?case
    by (cases s'; cases s'') (auto dest: board_step_evolves row_evolves_trans)
qed simp

lemma board_path_rows_ok: "board_path E s s' \<Longrightarrow> rows_ok (fst s) \<Longrightarrow> rows_ok (fst s')"
proof (induction rule: rtranclp_induct)
  case (step s' s'')
  then show ?case by (cases s'; cases s'') (auto dest: board_step_rows_ok)
qed simp

lemma edges_fixed: "task_edge\<^sup>*\<^sup>* r r' \<Longrightarrow> fixed_columns r' = fixed_columns r"
  by (induction rule: rtranclp_induct) (simp_all add: task_edge_fixed)

lemma edges_terminal: "task_edge\<^sup>*\<^sup>* r r' \<Longrightarrow> terminal (t_status r) \<Longrightarrow> r' = r"
  by (induction rule: converse_rtranclp_induct) (auto dest: task_edge_active)

lemma edges_status: "task_edge\<^sup>*\<^sup>* r r' \<Longrightarrow> may_become\<^sup>*\<^sup>* (t_status r) (t_status r')"
proof (induction rule: rtranclp_induct)
  case (step r' r'')
  from task_edge_status [OF step(2)] step(3) show ?case
    by (auto intro: rtranclp.rtrancl_into_rtrancl)
qed simp

lemma edges_worker:
  "task_edge\<^sup>*\<^sup>* r r' \<Longrightarrow> t_worker_id r = Some wk \<Longrightarrow> row_ok tid r \<Longrightarrow> t_worker_id r' = Some wk"
proof (induction rule: converse_rtranclp_induct)
  case (step r r1)
  have "t_status r \<noteq> Open" using step(4,5) by (cases "t_status r") (auto simp: row_ok_def column_defs)
  with step task_edge_worker [OF step(1)] task_edge_row_ok [OF step(1)] show ?case by auto
qed simp

text \<open>A row that has kept its status has at most gained bids.\<close>

fun stage :: "task_status \<Rightarrow> nat" where
  "stage Open = 0"
| "stage Accepted = 1"
| "stage Submitted = 2"
| "stage Disputed = 3"
| "stage _ = 4"

lemma task_edge_stage: "task_edge r r' \<Longrightarrow> stage (t_status r) < stage (t_status r') \<or>
    (t_status r' = t_status r \<and> r' = r\<lparr>t_bid_count := t_bid_count r + 1\<rparr>)"
  by (induction rule: task_edge.induct) auto

lemma edges_stage: "task_edge\<^sup>*\<^sup>* r r' \<Longrightarrow> stage (t_status r) < stage (t_status r') \<or>
    (t_status r' = t_status r \<and> (\<exists>n. r' = r\<lparr>t_bid_count := n\<rparr>))"
proof (induction rule: rtranclp_induct)
  case base
  have "r = r\<lparr>t_bid_count := t_bid_count r\<rparr>" by simp
  then show ?case by blast
next
  case (step r' r'')
  consider "stage (t_status r') < stage (t_status r'')"
    | "t_status r'' = t_status r'" "r'' = r'\<lparr>t_bid_count := t_bid_count r' + 1\<rparr>"
    using task_edge_stage [OF step(2)] by blast
  then show ?case
  proof cases
    case 1
    then show ?thesis using step(3) by (elim disjE conjE) simp_all
  next
    case 2
    from step(3) show ?thesis
    proof (elim disjE conjE exE)
      fix n assume n: "t_status r' = t_status r" "r' = r\<lparr>t_bid_count := n\<rparr>"
      have "r'' = r\<lparr>t_bid_count := n + 1\<rparr>" unfolding 2(2) n(2) by simp
      moreover have "t_status r'' = t_status r" using 2(1) n(1) by (rule trans)
      ultimately show ?thesis by (intro disjI2 conjI exI)
    qed (use 2(1) in simp)
  qed
qed

lemma edges_same_status:
  assumes "task_edge\<^sup>*\<^sup>* r r'" "t_status r' = t_status r"
  shows "\<exists>n. r' = r\<lparr>t_bid_count := n\<rparr>"
  using edges_stage [OF assms(1)] unfolding assms(2) by (elim disjE conjE) simp_all

end
