(* ===== verification/Task_Props.thy ===== *)
theory Task_Props
  imports Task_Spec
begin

text \<open>
  The handlers of the Task Board refine its specification, for every store that keeps the storage
  protocol's laws and every bank client.
\<close>

locale task_board = task_storage ops rows good
  for ops :: "'s store_ops" and rows :: "'s \<Rightarrow> string \<Rightarrow> task option" and good :: "'s \<Rightarrow> bool" +
  fixes E :: "('s, 'b) board_env"
  assumes store_is [simp]: "be_store E = ops"
begin

section \<open>Paths of the concrete state\<close>

abbreviation view :: "('s, 'b) board \<Rightarrow> 's \<times> 'b" where
  "view w \<equiv> (db w, bank w)"

text \<open>
  A step of the specification on the rows of two stores, or none that the rows show; the second store is as
  good as the first.
\<close>

definition refines :: "'s \<times> 'b \<Rightarrow> 's \<times> 'b \<Rightarrow> bool" where
  "refines x y \<longleftrightarrow>
     (board_step E (rows (fst x), snd x) (rows (fst y), snd y) \<or> rows (fst y) = rows (fst x) \<and> snd y = snd x) \<and>
     (good (fst x) \<longrightarrow> good (fst y))"

abbreviation path :: "'s \<times> 'b \<Rightarrow> 's \<times> 'b \<Rightarrow> bool" where
  "path \<equiv> refines\<^sup>*\<^sup>*"

lemma path_board_path: "path x y \<Longrightarrow> board_path E (rows (fst x), snd x) (rows (fst y), snd y)"
proof (induction rule: rtranclp_induct)
  case (step y z)
  from step(2,3) show ?case
    by (auto simp: refines_def intro: rtranclp.rtrancl_into_rtrancl)
qed simp

lemma path_good: "path x y \<Longrightarrow> good (fst x) \<Longrightarrow> good (fst y)"
  by (induction rule: rtranclp_induct) (auto simp: refines_def)

lemma path_rows_ok: "path x y \<Longrightarrow> rows_ok (rows (fst x)) \<Longrightarrow> rows_ok (rows (fst y))"
  using board_path_rows_ok [OF path_board_path] by fastforce

lemma path_evolves: "path x y \<Longrightarrow> row_evolves (rows (fst x)) (rows (fst y))"
  using board_path_evolves [OF path_board_path] by fastforce

lemma one_step:
  assumes "board_step E (rows s, b) (rows s', b')" "good s \<Longrightarrow> good s'"
  shows "path (s, b) (s', b')"
  using assms by (intro r_into_rtranclp) (simp add: refines_def)

lemma invisible_step:
  assumes "rows s' = rows s" "good s \<Longrightarrow> good s'"
  shows "path (s, b) (s', b)"
  using assms by (intro r_into_rtranclp) (simp add: refines_def)

lemma board_now_fields [simp]:
  "db (snd (board_now w)) = db w" "bank (snd (board_now w)) = bank w"
  by (simp_all add: board_now_def read_clock_def)

lemma board_now_eq: "board_now w = (now, w1) \<Longrightarrow> db w1 = db w \<and> bank w1 = bank w"
  using board_now_fields [of w] by simp

lemma chain_path:
  assumes "m = (res, w1)" "path s (view w1)"
    "\<And>x. res = Inr x \<Longrightarrow> path (view w1) (view (snd (f x w1)))"
  shows "path s (view (snd (chain m f)))"
  using assms by (cases res) (auto intro: rtranclp_trans)

lemma chain_pure_path:
  assumes "\<And>x. r = Inr x \<Longrightarrow> path s (view (snd (f x w)))" "s = view w"
  shows "path s (view (snd (chain (r, w) f)))"
  using assms by (cases r) auto

section \<open>Store calls\<close>

lemma store_update_hit:
  assumes "rows (db w) tid = Some r" "us \<noteq> []" "expected = None \<or> expected = Some (t_status r)"
  shows "fst (store_update E tid us expected w) = 1"
    "rows (db (snd (store_update E tid us expected w))) = (rows (db w))(tid \<mapsto> apply_updates us r)"
    "bank (snd (store_update E tid us expected w)) = bank w"
  using update_hit [OF assms] by (auto simp: store_update_def split: prod.splits)

text \<open>A worker is only ever taken from a stored bid on the task.\<close>

definition workers_from_bids :: "string \<Rightarrow> col_update list \<Rightarrow> 's \<Rightarrow> bool" where
  "workers_from_bids tid us s \<longleftrightarrow>
     (\<forall>wk. SetWorker wk \<in> set us \<longrightarrow> (\<exists>k b. so_get_bid ops k tid s = Some b \<and> b_bidder_id b = wk))"

lemma no_worker_set [simp]: "\<forall>u \<in> set us. \<forall>wk. u \<noteq> SetWorker wk \<Longrightarrow> workers_from_bids tid us s"
  by (auto simp: workers_from_bids_def)

lemma store_update_good:
  "good (db w) \<Longrightarrow> workers_from_bids tid us (db w) \<Longrightarrow> good (db (snd (store_update E tid us expected w)))"
  using good_update [of "db w" us tid expected] by (simp add: store_update_def split_beta workers_from_bids_def)

lemma store_update_missed:
  assumes "rows (db w) tid = Some r" "expected = Some st" "st \<noteq> t_status r"
  shows "store_update E tid us expected w = (0, w)"
  using update_refused [of "db w" tid r expected us] assms by (simp add: store_update_def)

lemma update_and_reread_view:
  assumes "rows (db w) tid = Some r" "us \<noteq> []"
  shows "rows (db (snd (update_and_reread E tid us w))) = (rows (db w))(tid \<mapsto> apply_updates us r)"
    "bank (snd (update_and_reread E tid us w)) = bank w"
    "fst (update_and_reread E tid us w) = task_to_response (apply_updates us r)"
    "good (db w) \<Longrightarrow> workers_from_bids tid us (db w) \<Longrightarrow> good (db (snd (update_and_reread E tid us w)))"
  using store_update_hit [of w tid r us None] store_update_good [of w tid us None] assms
  by (auto simp: update_and_reread_def reread_def get_row)

lemma update_step:
  assumes "rows (db w) tid = Some r" "us \<noteq> []" "task_edge r (apply_updates us r)"
    "\<not> terminal (t_status (apply_updates us r))" "workers_from_bids tid us (db w)"
  shows "path (view w) (view (snd (update_and_reread E tid us w)))"
  by (rule one_step)
    (use assms update_and_reread_view [OF assms(1,2)] work_step [of "rows (db w)" tid r] in auto)

section \<open>Deadlines\<close>

lemma try_release_view:
  assumes "rows (db w) tid = Some r"
  shows "rows (db (try_release_escrow E tid eid recipient w)) =
      (rows (db w))(tid \<mapsto> r\<lparr>t_escrow_pending := \<not> is_ok (fst (bo_release (be_bank E) eid recipient (bank w)))\<rparr>)"
    "bank (try_release_escrow E tid eid recipient w) = snd (bo_release (be_bank E) eid recipient (bank w))"
    "good (db w) \<Longrightarrow> good (db (try_release_escrow E tid eid recipient w))"
proof -
  obtain x b' where x: "bo_release (be_bank E) eid recipient (bank w) = (x, b')" by fastforce
  have "rows (db (w\<lparr>bank := b'\<rparr>)) tid = Some r" using assms by simp
  note u = store_update_hit [OF this, of "[SetEscrowPending p]" None for p]
  have e: "try_release_escrow E tid eid recipient w =
      snd (store_update E tid [SetEscrowPending (\<not> is_ok x)] None (w\<lparr>bank := b'\<rparr>))"
    by (cases x) (simp_all add: try_release_escrow_def release_escrow_def x)
  then show "rows (db (try_release_escrow E tid eid recipient w)) =
      (rows (db w))(tid \<mapsto> r\<lparr>t_escrow_pending := \<not> is_ok (fst (bo_release (be_bank E) eid recipient (bank w)))\<rparr>)"
    "bank (try_release_escrow E tid eid recipient w) = snd (bo_release (be_bank E) eid recipient (bank w))"
    using u(2,3) [of "\<not> is_ok x"] by (simp_all add: x)
  show "good (db w) \<Longrightarrow> good (db (try_release_escrow E tid eid recipient w))"
    unfolding e by (rule store_update_good) simp_all
qed

text \<open>
  The task a handler evaluates may be a reading from before other requests ran; its row has then gone on along
  the lifecycle. If the row still has the status that was read, it has at most gained bids.
\<close>

lemma deadline_passed_view:
  assumes row: "rows (db w) (t_id task) = Some r" "t_status r = t_status task"
    and ok: "ok = is_ok (fst (bo_release (be_bank E) (t_escrow_id task) recipient (bank w)))"
  obtains now where
    "fst (deadline_passed E task st stamp recipient w) =
       apply_updates [SetStatus st, stamp now, SetEscrowPending (\<not> ok)] r"
    "rows (db (snd (deadline_passed E task st stamp recipient w))) =
       (rows (db w))(t_id task \<mapsto> apply_updates [SetStatus st, stamp now, SetEscrowPending (\<not> ok)] r)"
    "bank (snd (deadline_passed E task st stamp recipient w)) =
       snd (bo_release (be_bank E) (t_escrow_id task) recipient (bank w))"
    "\<forall>wk now. stamp now \<noteq> SetWorker wk \<Longrightarrow> good (db w) \<Longrightarrow>
       good (db (snd (deadline_passed E task st stamp recipient w)))"
proof -
  obtain now w1 where n: "board_now w = (now, w1)" by fastforce
  have w1: "db w1 = db w" "bank w1 = bank w" using board_now_eq [OF n] by simp_all
  let ?us = "[SetStatus st, stamp now, SetEscrowPending True]"
  obtain c w2 where u: "store_update E (t_id task) ?us (Some (t_status task)) w1 = (c, w2)" by fastforce
  have r2: "c = 1" "rows (db w2) = (rows (db w))(t_id task \<mapsto> apply_updates ?us r)" "bank w2 = bank w"
    using store_update_hit [of w1 "t_id task" r ?us "Some (t_status task)"] row u w1 by simp_all
  have g2: "\<forall>wk now. stamp now \<noteq> SetWorker wk \<Longrightarrow> good (db w) \<Longrightarrow> good (db w2)"
    using store_update_good [of w1 "t_id task" ?us "Some (t_status task)"] u w1 by simp
  let ?w3 = "try_release_escrow E (t_id task) (t_escrow_id task) recipient w2"
  let ?task' = "apply_updates [SetStatus st, stamp now, SetEscrowPending (\<not> ok)] r"
  have row2: "rows (db w2) (t_id task) = Some (apply_updates ?us r)" using r2 by simp
  from try_release_view [OF row2, of "t_escrow_id task" recipient]
  have r3: "rows (db ?w3) = (rows (db w))(t_id task \<mapsto> ?task')"
      "bank ?w3 = snd (bo_release (be_bank E) (t_escrow_id task) recipient (bank w))"
      "\<forall>wk now. stamp now \<noteq> SetWorker wk \<Longrightarrow> good (db w) \<Longrightarrow> good (db ?w3)"
    using g2 by (simp_all add: r2 ok)
  have "deadline_passed E task st stamp recipient w = (?task', ?w3)"
    by (simp add: deadline_passed_def n u r2(1) get_row r3(1))
  with r3 show thesis by (intro that [of now]) simp_all
qed

lemma deadline_missed:
  assumes "rows (db w) (t_id task) = Some r" "t_status r \<noteq> t_status task"
  shows "fst (deadline_passed E task st stamp recipient w) = task"
    "view (snd (deadline_passed E task st stamp recipient w)) = view w"
  using store_update_missed [of "snd (board_now w)" "t_id task" r "Some (t_status task)" "t_status task"] assms
  by (auto simp: deadline_passed_def split_beta Let_def)

lemma deadline_step:
  assumes row: "rows (db w) (t_id task) = Some r" "t_status r = t_status task"
      "t_escrow_id r = t_escrow_id task"
    and edge: "\<And>now p. task_edge r (apply_updates [SetStatus st, stamp now, SetEscrowPending p] r)"
    and st: "\<And>now p. t_status (apply_updates [SetStatus st, stamp now, SetEscrowPending p] r) = st" "terminal st"
    and pay: "\<And>now p. pays_to r (apply_updates [SetStatus st, stamp now, SetEscrowPending p] r) recipient"
    and stamp: "\<And>now wk. stamp now \<noteq> SetWorker wk"
  shows "path (view w) (view (snd (deadline_passed E task st stamp recipient w)))"
    "rows (db (snd (deadline_passed E task st stamp recipient w))) (t_id task) =
       Some (fst (deadline_passed E task st stamp recipient w))"
proof -
  obtain x b' where x: "bo_release (be_bank E) (t_escrow_id task) recipient (bank w) = (x, b')" by fastforce
  obtain now where n:
    "fst (deadline_passed E task st stamp recipient w) =
       apply_updates [SetStatus st, stamp now, SetEscrowPending (\<not> is_ok x)] r"
    "rows (db (snd (deadline_passed E task st stamp recipient w))) =
       (rows (db w))(t_id task \<mapsto> apply_updates [SetStatus st, stamp now, SetEscrowPending (\<not> is_ok x)] r)"
    "bank (snd (deadline_passed E task st stamp recipient w)) = b'"
    "good (db w) \<Longrightarrow> good (db (snd (deadline_passed E task st stamp recipient w)))"
    using deadline_passed_view [OF row(1,2), of "is_ok x" recipient st stamp] x stamp by auto
  let ?task' = "apply_updates [SetStatus st, stamp now, SetEscrowPending (\<not> is_ok x)] r"
  have e: "task_edge r ?task'" "terminal (t_status ?task')" "pays_to r ?task' recipient"
    using edge st pay by simp_all
  have p: "t_escrow_pending ?task' = (\<not> is_ok x)" by simp
  have "board_step E (rows (db w), bank w)
      (rows (db (snd (deadline_passed E task st stamp recipient w))),
       bank (snd (deadline_passed E task st stamp recipient w)))"
  proof (cases x)
    case (Inl err)
    show ?thesis unfolding n(2,3)
      by (rule pending_step [of _ _ r]) (use row e p x Inl in auto)
  next
    case (Inr u)
    show ?thesis unfolding n(2,3)
      by (rule settle_step [of _ _ r]) (use row e p x Inr in auto)
  qed
  then show "path (view w) (view (snd (deadline_passed E task st stamp recipient w)))"
    by (rule one_step) (rule n(4))
  show "rows (db (snd (deadline_passed E task st stamp recipient w))) (t_id task) =
       Some (fst (deadline_passed E task st stamp recipient w))"
    by (simp add: n)
qed

lemma expire_path:
  assumes "rows (db w) (t_id task) = Some r" "task_edge\<^sup>*\<^sup>* task r" "t_status task = Open \<or> t_status task = Accepted"
  shows "path (view w) (view (snd (deadline_passed E task Expired SetExpiredAt (Some (t_poster_id task)) w)))"
    "r = task \<Longrightarrow> rows (db (snd (deadline_passed E task Expired SetExpiredAt (Some (t_poster_id task)) w))) (t_id task) =
       Some (fst (deadline_passed E task Expired SetExpiredAt (Some (t_poster_id task)) w))"
proof (atomize (full), cases "t_status r = t_status task")
  case True
  obtain n where r: "r = task\<lparr>t_bid_count := n\<rparr>" using edges_same_status [OF assms(2) True] by blast
  then have "t_status r = Open \<or> t_status r = Accepted" using assms(3) by simp
  note d = deadline_step [OF assms(1) True, of Expired SetExpiredAt "Some (t_poster_id task)",
      OF _ expire_edge [OF this]]
  show "path (view w) (view (snd (deadline_passed E task Expired SetExpiredAt (Some (t_poster_id task)) w))) \<and>
    (r = task \<longrightarrow> rows (db (snd (deadline_passed E task Expired SetExpiredAt (Some (t_poster_id task)) w))) (t_id task) =
       Some (fst (deadline_passed E task Expired SetExpiredAt (Some (t_poster_id task)) w)))"
    using d by (simp add: pays_to_def terminal_def r)
qed (use deadline_missed [OF assms(1)] in auto)

lemma auto_approve_path:
  assumes "rows (db w) (t_id task) = Some r" "task_edge\<^sup>*\<^sup>* task r" "t_status task = Submitted"
  shows "path (view w) (view (snd (deadline_passed E task Approved SetApprovedAt (t_worker_id task) w)))"
    "r = task \<Longrightarrow> rows (db (snd (deadline_passed E task Approved SetApprovedAt (t_worker_id task) w))) (t_id task) =
       Some (fst (deadline_passed E task Approved SetApprovedAt (t_worker_id task) w))"
proof (atomize (full), cases "t_status r = t_status task")
  case True
  obtain n where r: "r = task\<lparr>t_bid_count := n\<rparr>" using edges_same_status [OF assms(2) True] by blast
  then have "t_status r = Submitted" using assms(3) by simp
  note d = deadline_step [OF assms(1) True, of Approved SetApprovedAt "t_worker_id task",
      OF _ auto_approve_edge [OF this]]
  show "path (view w) (view (snd (deadline_passed E task Approved SetApprovedAt (t_worker_id task) w))) \<and>
    (r = task \<longrightarrow> rows (db (snd (deadline_passed E task Approved SetApprovedAt (t_worker_id task) w))) (t_id task) =
       Some (fst (deadline_passed E task Approved SetApprovedAt (t_worker_id task) w)))"
    using d by (simp add: pays_to_def terminal_def r)
qed (use deadline_missed [OF assms(1)] in auto)

lemma evaluate_view:
  assumes "rows (db w) (t_id task) = Some r" "task_edge\<^sup>*\<^sup>* task r" and "evaluate_deadline E task w = (res, w')"
  shows "path (view w) (view w')" "res = Inr t \<Longrightarrow> r = task \<Longrightarrow> rows (db w') (t_id task) = Some t"
proof -
  obtain now w1 where n: "board_now w = (now, w1)" by fastforce
  have w1: "db w1 = db w" "bank w1 = bank w" using board_now_eq [OF n] by simp_all
  have r1: "rows (db w1) (t_id task) = Some r" by (simp add: w1 assms(1))
  note ex = expire_path [OF r1 assms(2)] and ap = auto_approve_path [OF r1 assms(2)]
  consider "w' = w" "res = Inr task" | "w' = w1" "\<forall>t. res = Inr t \<longrightarrow> t = task"
    | "t_status task = Open \<or> t_status task = Accepted" "(res, w') =
        apfst Inr (deadline_passed E task Expired SetExpiredAt (Some (t_poster_id task)) w1)"
    | "t_status task = Submitted" "(res, w') =
        apfst Inr (deadline_passed E task Approved SetApprovedAt (t_worker_id task) w1)"
    using assms(3)
    by (cases "t_status task")
      (auto simp: evaluate_deadline_def retry_pending_escrow_active n Let_def terminal_def
        split: if_splits sum.splits option.splits)
  then have "path (view w) (view w') \<and> (\<forall>t. res = Inr t \<longrightarrow> r = task \<longrightarrow> rows (db w') (t_id task) = Some t)"
  proof cases
    case 3
    with ex w1 show ?thesis by (cases "deadline_passed E task Expired SetExpiredAt (Some (t_poster_id task)) w1") auto
  next
    case 4
    with ap w1 show ?thesis by (cases "deadline_passed E task Approved SetApprovedAt (t_worker_id task) w1") auto
  qed (use assms(1) w1 in auto)
  then show "path (view w) (view w')" "res = Inr t \<Longrightarrow> r = task \<Longrightarrow> rows (db w') (t_id task) = Some t"
    by auto
qed

section \<open>Handlers that only touch the store\<close>

lemma load_task_view:
  assumes "rows_ok (rows (db w))" and "load_task E tid w = (res, w')"
  shows "path (view w) (view w')"
    "res = Inr t \<Longrightarrow> rows (db w') tid = Some t \<and> row_ok tid t"
proof -
  have "path (view w) (view w') \<and> (\<forall>t. res = Inr t \<longrightarrow> rows (db w') tid = Some t)"
  proof (cases "rows (db w) tid")
    case None
    with assms(2) show ?thesis by (auto simp: load_task_def get_row)
  next
    case (Some r)
    with assms(1) have "t_id r = tid" by (auto simp: rows_ok_def row_ok_def)
    with Some assms(2) evaluate_view [of w r r res w'] show ?thesis
      by (auto simp: load_task_def get_row)
  qed
  with path_rows_ok [of "view w" "view w'"] assms(1)
  show "path (view w) (view w')" "res = Inr t \<Longrightarrow> rows (db w') tid = Some t \<and> row_ok tid t"
    by (auto simp: rows_ok_def)
qed

text \<open>A handler that loads its task and goes on with it.\<close>

lemma load_chain_path:
  assumes "rows_ok (rows (db w))" "s = view w"
    "\<And>t w1. rows (db w1) tid = Some t \<Longrightarrow> row_ok tid t \<Longrightarrow> path (view w1) (view (snd (f t w1)))"
  shows "path s (view (snd (chain (load_task E tid w) f)))"
proof -
  obtain res w1 where l: "load_task E tid w = (res, w1)" by fastforce
  show ?thesis unfolding assms(2)
    by (rule chain_path [OF l load_task_view(1) [OF assms(1) l]])
      (use load_task_view(2) [OF assms(1) l] assms(3) in auto)
qed

lemma get_task_path:
  assumes "rows_ok (rows (db w))"
  shows "path (view w) (view (snd (get_task E tid w)))"
  unfolding get_task_def by (rule load_chain_path [OF assms]) auto

lemma accept_bid_path:
  assumes "rows_ok (rows (db w))"
  shows "path (view w) (view (snd (accept_bid E tid k token w)))"
  unfolding accept_bid_def
proof (rule chain_pure_path [OF _ refl], rule load_chain_path [OF assms refl], goal_cases)
  case (1 signer t w1)
  obtain now w2 where n: "board_now w1 = (now, w2)" by fastforce
  have w2: "db w2 = db w1" "bank w2 = bank w1" using board_now_eq [OF n] by simp_all
  have "path (view w1) (view (snd (update_and_reread E tid
      [SetStatus Accepted, SetWorker (b_bidder_id b), SetAcceptedBid k, SetAcceptedAt now] w2)))"
    if "t_status t = Open" "so_get_bid ops k tid (db w1) = Some b" for b
    by (rule update_step [of w2 tid t, OF _ _ accept_edge [OF that(1)], unfolded w2])
      (use 1(2) w2 that(2) in \<open>auto simp: terminal_def workers_from_bids_def\<close>)
  then show ?case by (auto simp: n split: option.splits)
qed

lemma submit_deliverable_path:
  assumes "rows_ok (rows (db w))"
  shows "path (view w) (view (snd (submit_deliverable E tid token w)))"
  unfolding submit_deliverable_def split_beta
proof (rule chain_pure_path [OF _ refl], rule load_chain_path [OF assms refl], goal_cases)
  case (1 x t w1)
  obtain now w2 where n: "board_now w1 = (now, w2)" by fastforce
  have w2: "db w2 = db w1" "bank w2 = bank w1" using board_now_eq [OF n] by simp_all
  have "path (view w1) (view (snd (update_and_reread E tid [SetStatus Submitted, SetSubmittedAt now] w2)))"
    if "t_status t = Accepted"
    using update_step [of w2 tid t, OF _ _ submit_edge [OF that]] 1(2) w2
    by (simp add: terminal_def)
  then show ?case by (simp add: n)
qed

lemma dispute_task_path:
  assumes "rows_ok (rows (db w))"
  shows "path (view w) (view (snd (dispute_task E tid token w)))"
  unfolding dispute_task_def split_beta
proof (rule chain_pure_path [OF _ refl], rule load_chain_path [OF assms refl], goal_cases)
  case (1 x t w1)
  obtain now w2 where n: "board_now w1 = (now, w2)" by fastforce
  have w2: "db w2 = db w1" "bank w2 = bank w1" using board_now_eq [OF n] by simp_all
  have "path (view w1) (view (snd (update_and_reread E tid
      [SetStatus Disputed, SetDisputedAt now, SetDisputeReason why] w2)))" if "t_status t = Submitted" for why
    using update_step [of w2 tid t, OF _ _ dispute_edge [OF that]] 1(2) w2
    by (simp add: terminal_def)
  then show ?case by (simp add: n split: option.splits)
qed

lemma list_bids_path:
  assumes "rows_ok (rows (db w))"
  shows "path (view w) (view (snd (list_bids E tid tok w)))"
  unfolding list_bids_def
  by (rule load_chain_path [OF assms refl], rule chain_pure_path) auto

lemma place_bid_view:
  obtains s' b where "db (snd (place_bid E tid wk n w)) = s'" "bank (snd (place_bid E tid wk n w)) = bank w"
    "b_task_id b = tid" "b_bidder_id b = wk" "b_amount b = n" "s' = snd (so_insert_bid ops b (db w))"
    "\<And>b'. fst (place_bid E tid wk n w) = Inr b' \<Longrightarrow> b' = b \<and> fst (so_insert_bid ops b (db w)) = Inr ()"
proof -
  obtain now w2 where n: "board_now (snd (new_uuid w)) = (now, w2)" by fastforce
  have w2: "db w2 = db w" "bank w2 = bank w"
    using board_now_eq [OF n] by (simp_all add: new_uuid_def)
  let ?b = "\<lparr>b_id = prefixed ''bid-'' (fst (new_uuid w)), b_task_id = tid, b_bidder_id = wk, b_amount = n,
    b_submitted_at = now\<rparr>"
  obtain x s' where x: "so_insert_bid ops ?b (db w) = (x, s')" by fastforce
  have "place_bid E tid wk n w = (case x of
      Inl e \<Rightarrow> if e = PyError ''DuplicateBidError'' then fail ''bid_already_exists'' 409 else Inl e
    | Inr _ \<Rightarrow> Inr ?b, w2\<lparr>db := s'\<rparr>)"
    using x n w2 by (cases "new_uuid w") (simp add: place_bid_def split: sum.splits)
  then show thesis by (intro that [of s' ?b]) (auto simp: x w2 split: sum.splits if_splits)
qed

lemma place_bid_path:
  assumes "rows (db w) tid = Some r" "t_status r = Open" "wk \<noteq> t_poster_id r"
  shows "path (view w) (view (snd (place_bid E tid wk n w)))"
proof (rule place_bid_view [of tid wk n w])
  fix s' b
  assume *: "db (snd (place_bid E tid wk n w)) = s'" "bank (snd (place_bid E tid wk n w)) = bank w"
    "b_task_id b = tid" "s' = snd (so_insert_bid ops b (db w))"
  have "board_step E (rows (db w), bank w) (rows s', bank w) \<or> rows s' = rows (db w)"
    using insert_bid_rows [of b "db w"] * assms
      work_step [of "rows (db w)" tid r _ E "bank w", OF _ bid_edge]
    by (auto simp: terminal_def)
  moreover assume "b_bidder_id b = wk"
  then have good: "good (db w) \<Longrightarrow> good s'" using good_bid [of "db w" b] assms * by simp
  ultimately show ?thesis
  proof (elim disjE)
    assume "board_step E (rows (db w), bank w) (rows s', bank w)"
    then show ?thesis unfolding *(1,2) by (rule one_step) (rule good)
  next
    assume same: "rows s' = rows (db w)"
    show ?thesis unfolding *(1,2) by (rule invisible_step [OF same]) (rule good)
  qed
qed

lemma bidding_open_view: "bidding_open t w = (res, w') \<Longrightarrow> db w' = db w \<and> bank w' = bank w"
  by (auto simp: bidding_open_def dest: board_now_eq split: sum.splits option.splits prod.splits if_splits)

lemma submit_bid_path:
  assumes "rows_ok (rows (db w))"
  shows "path (view w) (view (snd (submit_bid E tid token w)))"
  unfolding submit_bid_def split_beta
proof (rule chain_pure_path [OF _ refl], rule load_chain_path [OF assms refl], goal_cases)
  case (1 x t w1)
  obtain res w2 where o: "bidding_open t w1 = (res, w2)" by fastforce
  note w2 = bidding_open_view [OF o]
  have "path (view w1) (view (snd (chain (bidding_open t w1) (\<lambda>_ w.
      if snd x = t_poster_id t then (fail ''self_bid'' 400, w) else place_bid E tid (snd x) (fst x) w))))"
    if "t_status t = Open"
    by (rule chain_path [OF o]) (use w2 1(2) place_bid_path [of w2 tid t, OF _ that] in auto)
  then show ?case by simp
qed

text \<open>Reading a list: each reading is the row or an earlier state of it.\<close>

lemma batch_path:
  assumes "\<forall>r \<in> set rs. \<exists>r'. rows (db w) (t_id r) = Some r' \<and> task_edge\<^sup>*\<^sup>* r r'"
  shows "path (view w) (view (snd (evaluate_deadlines_batch E rs w)))"
  using assms
proof (induction rs arbitrary: w)
  case (Cons r rs)
  obtain res w1 where e: "evaluate_deadline E r w = (res, w1)" by fastforce
  obtain r' where r': "rows (db w) (t_id r) = Some r'" "task_edge\<^sup>*\<^sup>* r r'"
    using Cons.prems by auto
  note p = evaluate_view(1) [OF r' e]
  have later: "\<exists>x'. rows (db w1) (t_id x) = Some x' \<and> task_edge\<^sup>*\<^sup>* x x'" if "x \<in> set rs" for x
  proof -
    obtain x' where x': "rows (db w) (t_id x) = Some x'" "task_edge\<^sup>*\<^sup>* x x'"
      using Cons.prems \<open>x \<in> set rs\<close> by auto
    obtain x'' where "rows (db w1) (t_id x) = Some x''" "task_edge\<^sup>*\<^sup>* x' x''"
      using path_evolves [OF p] x'(1) by (auto simp: row_evolves_def)
    with x'(2) show ?thesis by (meson rtranclp_trans)
  qed
  obtain res2 w2 where b: "evaluate_deadlines_batch E rs w1 = (res2, w2)" by fastforce
  have "path (view w1) (view w2)"
    using Cons.IH [of w1] later b by auto
  then show ?case
    unfolding evaluate_deadlines_batch.simps
    by (intro chain_path [OF e p], intro chain_path [OF b]) auto
qed simp

lemma list_tasks_path:
  assumes "good (db w)"
  shows "path (view w) (view (snd (list_tasks E status poster worker offset limit w)))"
proof -
  let ?rs = "so_list_tasks ops status poster worker limit offset (db w)"
  obtain res w1 where b: "evaluate_deadlines_batch E ?rs w = (res, w1)" by fastforce
  have "path (view w) (view w1)"
    using batch_path [of ?rs w] list_rows [OF assms] b by auto
  then show ?thesis
    unfolding list_tasks_def store_is by (intro chain_path [OF b]) auto
qed

section \<open>Handlers that pay\<close>

lemma release_then_update_path:
  assumes row: "rows (db w) tid = Some r" "\<not> terminal (t_status r)"
    and edge: "\<And>now. task_edge r (apply_updates (us now) r)" "\<And>now. terminal (t_status (apply_updates (us now) r))"
      "\<And>now. t_escrow_pending (apply_updates (us now) r) = False" "\<And>now. us now \<noteq> []"
      "\<And>now. \<forall>u \<in> set (us now). \<forall>wk. u \<noteq> SetWorker wk"
    and pay: "\<And>now. pays_to r (apply_updates (us now) r) recipient"
  shows "path (view w) (view (snd (chain (release_escrow E (t_escrow_id r) recipient w) (\<lambda>_ w2.
           (let (now, w3) = board_now w2 in update_and_reread E tid (us now) w3)))))"
proof -
  obtain x b' where x: "bo_release (be_bank E) (t_escrow_id r) recipient (bank w) = (x, b')" by fastforce
  show ?thesis
  proof (cases x)
    case (Inl e)
    have "path (view w) (db w, b')"
      by (rule one_step, rule release_failed [of _ tid r]) (use row x Inl in auto)
    then show ?thesis by (simp add: release_escrow_def x Inl)
  next
    case (Inr u)
    obtain now w3 where n: "board_now (w\<lparr>bank := b'\<rparr>) = (now, w3)" by fastforce
    have w3: "db w3 = db w" "bank w3 = b'" using board_now_eq [OF n] by simp_all
    note v = update_and_reread_view [of w3 tid r "us now", unfolded w3, OF row(1) edge(4)]
    have "path (view w) (view (snd (update_and_reread E tid (us now) w3)))"
    proof (rule one_step)
      show "board_step E (rows (db w), bank w) (rows (db (snd (update_and_reread E tid (us now) w3))),
          bank (snd (update_and_reread E tid (us now) w3)))"
        unfolding v(1,2)
        by (rule settle_step [of _ _ r _ recipient]) (use row edge(1-3) pay x Inr in auto)
    qed (use v(4) no_worker_set [OF edge(5)] in simp)
    then show ?thesis by (simp add: release_escrow_def x Inr n)
  qed
qed

lemma load_then_check:
  assumes "rows_ok (rows (db w))" "chain (load_task E tid w) f = (res, w1)" "\<And>t v. snd (f t v) = v"
  shows "path (view w) (view w1)"
    "res = Inr x \<Longrightarrow> \<exists>t. rows (db w1) tid = Some t \<and> row_ok tid t \<and> f t w1 = (Inr x, w1)"
proof -
  obtain r v where l: "load_task E tid w = (r, v)" by fastforce
  note lv = load_task_view [OF assms(1) l]
  have "v = w1"
    using assms(2,3) by (cases r) (auto simp: l, metis snd_conv)
  with lv(1) show "path (view w) (view w1)" by simp
  show "res = Inr x \<Longrightarrow> \<exists>t. rows (db w1) tid = Some t \<and> row_ok tid t \<and> f t w1 = (Inr x, w1)"
    using assms(2) lv(2) \<open>v = w1\<close> by (cases r) (auto simp: l)
qed

lemma cancel_prepare_view:
  assumes "rows_ok (rows (db w))" "cancel_prepare E tid token w = (res, w1)"
  shows "path (view w) (view w1)"
    "res = Inr t \<Longrightarrow> rows (db w1) tid = Some t \<and> row_ok tid t \<and> t_status t = Open \<and>
       (\<exists>p. role_token E token [''cancel_task''] ''poster_id'' tid = Inr (p, t_poster_id t))"
proof -
  have "path (view w) (view w1) \<and>
    (\<forall>t. res = Inr t \<longrightarrow> rows (db w1) tid = Some t \<and> row_ok tid t \<and> t_status t = Open \<and>
       (\<exists>p. role_token E token [''cancel_task''] ''poster_id'' tid = Inr (p, t_poster_id t)))"
  proof (cases "role_token E token [''cancel_task''] ''poster_id'' tid")
    case (Inr pi)
    obtain p i where pi: "pi = (p, i)" by fastforce
    from assms(2) have c: "chain (load_task E tid w) (\<lambda>task w.
        if t_status task \<noteq> Open then (fail ''invalid_status'' 409, w)
        else if i \<noteq> t_poster_id task then (fail ''forbidden'' 403, w) else (Inr task, w)) = (res, w1)"
      by (simp add: cancel_prepare_def Inr pi)
    from load_then_check [OF assms(1) c] show ?thesis
      by (fastforce simp: Inr pi split: if_splits)
  qed (use assms(2) in \<open>auto simp: cancel_prepare_def\<close>)
  then show "path (view w) (view w1)"
    "res = Inr t \<Longrightarrow> rows (db w1) tid = Some t \<and> row_ok tid t \<and> t_status t = Open \<and>
       (\<exists>p. role_token E token [''cancel_task''] ''poster_id'' tid = Inr (p, t_poster_id t))"
    by auto
qed

lemma approve_prepare_view:
  assumes "rows_ok (rows (db w))" "approve_prepare E tid token w = (res, w1)"
  shows "path (view w) (view w1)"
    "res = Inr t \<Longrightarrow> rows (db w1) tid = Some t \<and> row_ok tid t \<and> t_status t = Submitted \<and>
       (\<exists>p. role_token E token [''approve_task''] ''poster_id'' tid = Inr (p, t_poster_id t))"
proof -
  have "path (view w) (view w1) \<and>
    (\<forall>t. res = Inr t \<longrightarrow> rows (db w1) tid = Some t \<and> row_ok tid t \<and> t_status t = Submitted \<and>
       (\<exists>p. role_token E token [''approve_task''] ''poster_id'' tid = Inr (p, t_poster_id t)))"
  proof (cases "role_token E token [''approve_task''] ''poster_id'' tid")
    case (Inr pi)
    obtain p i where pi: "pi = (p, i)" by fastforce
    from assms(2) have c: "chain (load_task E tid w) (\<lambda>task w.
        if t_status task \<noteq> Submitted then (fail ''invalid_status'' 409, w)
        else if i \<noteq> t_poster_id task then (fail ''forbidden'' 403, w) else (Inr task, w)) = (res, w1)"
      by (simp add: approve_prepare_def Inr pi)
    from load_then_check [OF assms(1) c] show ?thesis
      by (fastforce simp: Inr pi split: if_splits)
  qed (use assms(2) in \<open>auto simp: approve_prepare_def\<close>)
  then show "path (view w) (view w1)"
    "res = Inr t \<Longrightarrow> rows (db w1) tid = Some t \<and> row_ok tid t \<and> t_status t = Submitted \<and>
       (\<exists>p. role_token E token [''approve_task''] ''poster_id'' tid = Inr (p, t_poster_id t))"
    by auto
qed

lemma cancel_task_path:
  assumes "rows_ok (rows (db w))"
  shows "path (view w) (view (snd (cancel_task E tid token w)))"
proof -
  obtain res w1 where c: "cancel_prepare E tid token w = (res, w1)" by fastforce
  show ?thesis
    unfolding cancel_task_def
  proof (rule chain_path [OF c cancel_prepare_view(1) [OF assms c]])
    fix t assume "res = Inr t"
    then have t: "rows (db w1) tid = Some t" "row_ok tid t" "t_status t = Open"
      using cancel_prepare_view(2) [OF assms c] by auto
    show "path (view w1) (view (snd (chain (release_escrow E (t_escrow_id t) (Some (t_poster_id t)) w1)
        (\<lambda>_. cancel_commit E tid))))"
      unfolding cancel_commit_def
      by (rule release_then_update_path [OF t(1) _ cancel_edge [OF t(3)]])
        (use t in \<open>auto simp: terminal_def pays_to_def row_ok_def\<close>)
  qed
qed

lemma approve_task_path:
  assumes "rows_ok (rows (db w))"
  shows "path (view w) (view (snd (approve_task E tid token w)))"
proof -
  obtain res w1 where c: "approve_prepare E tid token w = (res, w1)" by fastforce
  show ?thesis
    unfolding approve_task_def
  proof (rule chain_path [OF c approve_prepare_view(1) [OF assms c]])
    fix t assume "res = Inr t"
    then have t: "rows (db w1) tid = Some t" "row_ok tid t" "t_status t = Submitted"
      using approve_prepare_view(2) [OF assms c] by auto
    show "path (view w1) (view (snd (chain (release_escrow E (t_escrow_id t) (t_worker_id t) w1)
        (\<lambda>_. approve_commit E tid))))"
      unfolding approve_commit_def
      by (rule release_then_update_path [OF t(1) _ approve_edge [OF t(3)]])
        (use t in \<open>auto simp: terminal_def pays_to_def row_ok_def\<close>)
  qed
qed

lemma ruling_id_view: "ruling_id_of p w = (res, w1) \<Longrightarrow> db w1 = db w \<and> bank w1 = bank w"
  by (auto simp: ruling_id_of_def new_uuid_def split: if_splits option.splits)

lemma ruling_prepare_view:
  assumes "ruling_prepare E tid token w = (res, w1)"
  shows "db w1 = db w \<and> bank w1 = bank w"
    "res = Inr (t, i, smry, pct) \<Longrightarrow> rows (db w1) tid = Some t \<and> t_status t = Disputed \<and> 0 \<le> pct \<and> pct \<le> 100 \<and>
       (\<exists>p. validate_jws_token E token [''record_ruling'', ''submit_ruling''] = Inr (p, be_platform_id E))"
proof -
  have "db w1 = db w \<and> bank w1 = bank w \<and>
    (\<forall>t i smry pct. res = Inr (t, i, smry, pct) \<longrightarrow>
       rows (db w1) tid = Some t \<and> t_status t = Disputed \<and> 0 \<le> pct \<and> pct \<le> 100 \<and>
       (\<exists>p. validate_jws_token E token [''record_ruling'', ''submit_ruling''] = Inr (p, be_platform_id E)))"
  proof (cases "validate_jws_token E token [''record_ruling'', ''submit_ruling'']")
    case (Inl e)
    then show ?thesis using assms by (auto simp: ruling_prepare_def)
  next
    case (Inr ps)
    obtain p sg where ps: "ps = (p, sg)" by fastforce
    obtain r v where rv: "ruling_id_of p w = (r, v)" by fastforce
    note v = ruling_id_view [OF rv]
    show ?thesis
    proof (cases "and_then (require_field p ''task_id'') (\<lambda>_. and_then (require_url p ''task_id'' tid) (\<lambda>_. Inr (p, sg)))")
      case (Inl e)
      then show ?thesis using assms by (auto simp: ruling_prepare_def \<open>validate_jws_token _ _ _ = _\<close> ps)
    next
      case c: (Inr x)
      then have x: "x = (p, sg)" by (auto simp: require_field_def require_url_def split: if_splits)
      show ?thesis
      proof (cases r)
        case (Inl e)
        then show ?thesis
          using assms v by (auto simp: ruling_prepare_def \<open>validate_jws_token _ _ _ = _\<close> ps c x rv)
      next
        case (Inr i)
        then show ?thesis
          using assms v
          by (auto simp: ruling_prepare_def \<open>validate_jws_token _ _ _ = _\<close> ps c x rv get_row is_valid_worker_pct_def
              split: if_splits option.splits)
      qed
    qed
  qed
  then show "db w1 = db w \<and> bank w1 = bank w"
    "res = Inr (t, i, smry, pct) \<Longrightarrow> rows (db w1) tid = Some t \<and> t_status t = Disputed \<and> 0 \<le> pct \<and> pct \<le> 100 \<and>
       (\<exists>p. validate_jws_token E token [''record_ruling'', ''submit_ruling''] = Inr (p, be_platform_id E))"
    by auto
qed

lemma split_then_update_path:
  assumes row: "rows (db w) tid = Some r" "t_status r = Disputed" "\<not> t_escrow_pending r" and pct: "0 < pct" "pct < 100"
  shows "path (view w) (view (snd (chain (split_escrow E (t_escrow_id r) (t_worker_id r) (t_poster_id r) pct w)
           (\<lambda>_ w2. ruling_commit E tid i smry pct w2))))"
proof -
  obtain x b' where x: "bo_split (be_bank E) (t_escrow_id r) (t_worker_id r) (t_poster_id r) pct (bank w) = (x, b')"
    by fastforce
  show ?thesis
  proof (cases x)
    case (Inl e)
    have "path (view w) (db w, b')"
      by (rule one_step, rule split_failed [of _ tid r]) (use row x Inl in \<open>auto simp: terminal_def\<close>)
    then show ?thesis by (simp add: split_escrow_def x Inl)
  next
    case (Inr u)
    obtain now w3 where n: "board_now (w\<lparr>bank := b'\<rparr>) = (now, w3)" by fastforce
    have w3: "db w3 = db w" "bank w3 = b'" using board_now_eq [OF n] by simp_all
    let ?us = "[SetStatus Ruled, SetRuledAt now, SetRulingId i, SetWorkerPct pct, SetRulingSummary smry]"
    note v = update_and_reread_view [of w3 tid r ?us, unfolded w3, OF row(1)]
    have e: "task_edge r (apply_updates ?us r)"
      using rule_edge [OF row(2), of pct now i smry] pct by simp
    have "path (view w) (view (snd (update_and_reread E tid ?us w3)))"
    proof (rule one_step)
      show "board_step E (rows (db w), bank w) (rows (db (snd (update_and_reread E tid ?us w3))),
          bank (snd (update_and_reread E tid ?us w3)))"
        unfolding v(1) [OF list.distinct(2)] v(2) [OF list.distinct(2)]
        by (rule split_step [of _ _ r _ pct]) (use row e pct x Inr in auto)
    qed (use v(4) in simp)
    then show ?thesis by (simp add: split_escrow_def x Inr n ruling_commit_def)
  qed
qed

lemma record_ruling_path:
  assumes "rows_ok (rows (db w))"
  shows "path (view w) (view (snd (record_ruling E tid token w)))"
proof -
  obtain res w1 where c: "ruling_prepare E tid token w = (res, w1)" by fastforce
  note w1 = ruling_prepare_view(1) [OF c]
  have "path (view w) (view (snd (chain (ruling_prepare E tid token w) (\<lambda>x w1.
      chain (pay_ruling E (fst x) (snd (snd (snd x))) w1) (\<lambda>_ w2.
        ruling_commit E tid (fst (snd x)) (fst (snd (snd x))) (snd (snd (snd x))) w2)))))"
  proof (rule chain_path [OF c])
    fix x assume "res = Inr x"
    obtain t i smry pct where x: "x = (t, i, smry, pct)" by (cases x)
    from \<open>res = Inr x\<close> x ruling_prepare_view(2) [OF c]
    have t: "rows (db w1) tid = Some t" "t_status t = Disputed" "0 \<le> pct" "pct \<le> 100" by auto
    have pend: "\<not> t_escrow_pending t"
      using assms t(1,2) w1 by (force simp: rows_ok_def row_ok_def)
    have one: "path (view w1) (view (snd (chain (release_escrow E (t_escrow_id t) rcp w1)
        (\<lambda>_. ruling_commit E tid i smry pct))))"
      if "pct = 0 \<and> rcp = Some (t_poster_id t) \<or> pct = 100 \<and> rcp = t_worker_id t" for rcp
      unfolding ruling_commit_def
      by (rule release_then_update_path [OF t(1) _ rule_edge [OF t(2-4)]])
        (use t that pend in \<open>auto simp: terminal_def pays_to_def\<close>)
    show "path (view w1) (view (snd (chain (pay_ruling E (fst x) (snd (snd (snd x))) w1) (\<lambda>_ w2.
        ruling_commit E tid (fst (snd x)) (fst (snd (snd x))) (snd (snd (snd x))) w2))))"
      using one [of "Some (t_poster_id t)"] one [of "t_worker_id t"]
        split_then_update_path [OF t(1,2) pend, of pct i smry] t(3,4)
      by (auto simp: x pay_ruling_def)
  qed (use w1 in simp)
  then show ?thesis by (simp add: record_ruling_def case_prod_unfold)
qed

lemma require_positive_Inr:
  "require_positive js = Inr ns \<Longrightarrow> length ns = length js \<and> (\<forall>n \<in> set ns. 0 < n)"
  by (induction js arbitrary: ns rule: require_positive.induct) (auto split: option.splits if_splits)

lemma create_request_ok:
  assumes "create_task_request E token = Inr (q, i)"
  shows "0 < tq_reward q" "0 < tq_bidding_deadline_seconds q" "0 < tq_deadline_seconds q"
    "0 < tq_review_deadline_seconds q" "tq_poster_id q = i" "task_id_ok (tq_id q)"
    "\<exists>p. validate_jws_token E token [''create_task''] = Inr (p, i)"
proof -
  obtain p k ds where *: "validate_jws_token E token [''create_task''] = Inr (p, i)"
      "require_positive [jget p ''bidding_deadline_seconds'', jget p k, jget p ''review_deadline_seconds''] = Inr ds"
      "is_positive_int (jget p ''reward'')" "tq_reward q = the (strict_int (jget p ''reward''))"
      "tq_poster_id q = i" "tq_bidding_deadline_seconds q = ds ! 0" "tq_deadline_seconds q = ds ! 1"
      "tq_review_deadline_seconds q = ds ! 2" "task_id_ok (tq_id q)"
    using assms by (auto simp: create_task_request_def inr_iffs simp del: require_positive.simps)
  from require_positive_Inr [OF *(2)] have "length ds = 3" "\<forall>n \<in> set ds. 0 < n" by simp_all
  then have "0 < ds ! 0" "0 < ds ! 1" "0 < ds ! 2" by (simp_all add: nth_mem)
  with * show "0 < tq_reward q" "0 < tq_bidding_deadline_seconds q" "0 < tq_deadline_seconds q"
    "0 < tq_review_deadline_seconds q" "tq_poster_id q = i" "task_id_ok (tq_id q)"
    "\<exists>p. validate_jws_token E token [''create_task''] = Inr (p, i)"
    by (auto simp: is_positive_int_def split: option.splits)
qed

lemma new_task_fresh:
  assumes "create_task_request E token = Inr (q, i)"
  shows "fresh_task (new_task q eid now)"
  using create_request_ok [OF assms] by (simp add: fresh_task_def new_task_def row_ok_def column_defs)

lemma cross_validate_token:
  assumes "cross_validate E q i token = Inr ()"
  shows "escrow_token_for E token (new_task q eid now)"
  using assms by (auto simp: cross_validate_def escrow_token_for_def new_task_def inr_iffs)

lemma create_commit_fresh:
  assumes "rows (db w) (tq_id q) = None"
  obtains now s' where "rows s' = (rows (db w))(tq_id q \<mapsto> new_task q eid now)"
    "view (snd (create_task_commit E q eid w)) = (s', bank w)" "good (db w) \<Longrightarrow> good s'"
    "fst (create_task_commit E q eid w) = task_to_response (new_task q eid now)"
proof -
  obtain now w1 where n: "board_now w = (now, w1)" by fastforce
  have w1: "db w1 = db w" "bank w1 = bank w" using board_now_eq [OF n] by simp_all
  have k: "t_id (new_task q eid now) = tq_id q" by (simp add: new_task_def)
  obtain x s' where x: "so_insert_task ops (new_task q eid now) (db w) = (x, s')" by fastforce
  have i: "x = Inr ()" "rows s' = (rows (db w))(tq_id q \<mapsto> new_task q eid now)"
    using insert_fresh [of "db w" "new_task q eid now"] assms k x by auto
  have "create_task_commit E q eid w = (task_to_response (new_task q eid now), w1\<lparr>db := s'\<rparr>)"
    by (simp add: create_task_commit_def n w1 reread_def get_row x i)
  moreover have "t_worker_id (new_task q eid now) = None" by (simp add: new_task_def)
  ultimately show thesis using i(2) w1 good_insert [of "db w" "new_task q eid now"] x
    by (intro that [of s' now]) auto
qed

lemma create_task_path:
  "path (view w) (view (snd (create_task E task_token token w)))"
proof (cases "create_task_prepare E task_token token w")
  case (Inl e)
  then show ?thesis by (simp add: create_task_def)
next
  case (Inr q)
  then obtain i where q: "create_task_request E task_token = Inr (q, i)" "cross_validate E q i token = Inr ()"
    "rows (db w) (tq_id q) = None"
    by (auto simp: create_task_prepare_def get_row inr_iffs)
  obtain r b' where b: "bo_lock (be_bank E) token (bank w) = (r, b')" by fastforce
  have failed: "path (view w) (db w, b')"
    if "\<forall>answer v. r = Inr (JObj answer) \<longrightarrow> dget answer ''escrow_id'' = None"
  proof (rule one_step)
    show "board_step E (rows (db w), bank w) (rows (db w), b')"
      using lock_failed [of E token "bank w" _ b'] lock_unreadable [of E token "bank w" _ b'] b that
      by (cases r) auto
  qed simp
  show ?thesis
  proof (cases "\<exists>answer v. r = Inr (JObj answer) \<and> dget answer ''escrow_id'' = Some v")
    case False
    then have "\<not> is_ok (fst (lock_escrow E token w))"
      by (cases r) (auto simp: lock_escrow_def b is_ok_iff split: json.splits)
    moreover have "view (snd (lock_escrow E token w)) = (db w, b')"
      by (simp add: lock_escrow_def b)
    ultimately have "path (view w) (view (snd (create_task E task_token token w)))" if "path (view w) (db w, b')"
      using that Inr
      by (cases "lock_escrow E token w"; cases "fst (lock_escrow E token w)") (auto simp: create_task_def)
    with failed False show ?thesis by auto
  next
    case True
    then obtain answer v where r: "r = Inr (JObj answer)" "dget answer ''escrow_id'' = Some v" by auto
    have l: "lock_escrow E token w = (Inr (text_of v), w\<lparr>bank := b'\<rparr>)"
      using r by (simp add: lock_escrow_def b)
    obtain now s' where c: "rows s' = (rows (db w))(tq_id q \<mapsto> new_task q (text_of v) now)"
      "view (snd (create_task_commit E q (text_of v) (w\<lparr>bank := b'\<rparr>))) = (s', b')" "good (db w) \<Longrightarrow> good s'"
      by (rule create_commit_fresh [of "w\<lparr>bank := b'\<rparr>" q "text_of v"]) (use q(3) in auto)
    have "path (view w) (s', b')"
    proof (rule one_step)
      have k: "t_id (new_task q (text_of v) now) = tq_id q" "t_escrow_id (new_task q (text_of v) now) = text_of v"
        by (simp_all add: new_task_def)
      show "board_step E (rows (db w), bank w) (rows s', b')"
        unfolding c(1) k(1) [symmetric]
        by (rule create_step [where answer = answer and v = v and token = token])
          (use q k r b new_task_fresh [OF q(1)] cross_validate_token [OF q(2)] in auto)
    qed (rule c(3))
    with c(2) l Inr show ?thesis by (simp add: create_task_def)
  qed
qed

end

end
