(* ===== verification/Assets.thy ===== *)
theory Assets
  imports Task_Props
begin

text \<open>
  Deliverables, \<^verbatim>\<open>services/asset_manager.py\<close>: upload, listing and download. A path is the list
  of its components; the file system has no symbolic links, so resolving a path is lexical.
\<close>

section \<open>Paths\<close>

text \<open>\<^verbatim>\<open>pathlib\<close> drops empty components and dots, and keeps dot-dots until a path is resolved.\<close>

definition path_parts :: "string \<Rightarrow> string list" where
  "path_parts s = filter (\<lambda>p. p \<noteq> [] \<and> p \<noteq> ''.'') (split_on CHR ''/'' s)"

text \<open>\<^verbatim>\<open>base / s\<close>: an absolute right operand replaces the base.\<close>

definition path_join :: "string list \<Rightarrow> string \<Rightarrow> string list" where
  "path_join base s =
     (if s \<noteq> [] \<and> hd s = CHR ''/'' then path_parts s else base @ path_parts s)"

fun resolve_parts :: "string list \<Rightarrow> string list \<Rightarrow> string list" where
  "resolve_parts acc [] = rev acc"
| "resolve_parts acc (p # ps) =
     (if p = ''..'' then resolve_parts (case acc of [] \<Rightarrow> [] | a # as \<Rightarrow> as) ps
      else resolve_parts (p # acc) ps)"

definition path_resolve :: "string list \<Rightarrow> string list" where
  "path_resolve ps = resolve_parts [] ps"

definition path_text :: "string list \<Rightarrow> string" where
  "path_text ps = (if ps = [] then ''/'' else concat (map (\<lambda>p. CHR ''/'' # p) ps))"

definition asset_file_path :: "('s, 'b) board_env \<Rightarrow> string \<Rightarrow> string \<Rightarrow> string \<Rightarrow> string list" where
  "asset_file_path E tid aid filename =
     path_resolve (path_join (path_join (path_join (be_storage_root E) tid) aid) filename)"

section \<open>Operations\<close>

definition upload_request ::
    "('s, 'b) board_env \<Rightarrow> string \<Rightarrow> string \<Rightarrow> string result" where
  "upload_request E tid token =
     and_then (validate_jws_token E token [''upload_asset'']) (\<lambda>(p, signer).
     and_then (require_field p ''task_id'') (\<lambda>_.
     and_then (require_url p ''task_id'' tid) (\<lambda>_.
       if has_key p ''worker_id'' \<and> jget p ''worker_id'' \<noteq> JStr signer then fail ''forbidden'' 403
       else Inr signer)))"

definition store_asset ::
    "('s, 'b) board_env \<Rightarrow> string \<Rightarrow> string \<Rightarrow> string \<Rightarrow> string \<Rightarrow> string \<Rightarrow> ('s, 'b) board \<Rightarrow>
     asset result \<times> ('s, 'b) board" where
  "store_asset E tid signer file_content filename content_type w =
     (let (u, w1) = new_uuid w;
          aid = prefixed ''asset-'' u;
          (uploaded_at, w2) = board_now w1;
          path = asset_file_path E tid aid filename
      in if \<not> be_can_write E path then (Inl (PyError ''OSError''), w2)
         else
           let a = \<lparr>a_id = aid, a_task_id = tid, a_uploader_id = signer, a_filename = filename,
                    a_content_type = content_type, a_size_bytes = length file_content,
                    a_content_hash = be_sha256 E file_content, a_uploaded_at = uploaded_at\<rparr>
           in (Inr a, w2\<lparr>disk := dput (disk w2) path file_content,
                        db := so_insert_asset (be_store E) a (db w2)\<rparr>))"

definition upload_asset ::
    "('s, 'b) board_env \<Rightarrow> string \<Rightarrow> string \<Rightarrow> string \<Rightarrow> string \<Rightarrow> string \<Rightarrow> ('s, 'b) board \<Rightarrow>
     asset result \<times> ('s, 'b) board" where
  "upload_asset E tid token file_content filename content_type w =
     chain (upload_request E tid token, w) (\<lambda>signer w.
     chain (load_task E tid w) (\<lambda>task w.
       if t_status task \<noteq> Accepted then (fail ''invalid_status'' 409, w)
       else if Some signer \<noteq> t_worker_id task then (fail ''forbidden'' 403, w)
       else if length file_content > be_max_file_size E then (fail ''file_too_large'' 413, w)
       else if so_count_assets (be_store E) tid (db w) \<ge> be_max_files_per_task E
       then (fail ''too_many_assets'' 409, w)
       else store_asset E tid signer file_content filename content_type w))"

definition list_assets ::
    "('s, 'b) board_env \<Rightarrow> string \<Rightarrow> ('s, 'b) board \<Rightarrow> (string \<times> asset list) result" where
  "list_assets E tid w =
     (case so_get_task (be_store E) tid (db w) of
        None \<Rightarrow> fail ''task_not_found'' 404
      | Some _ \<Rightarrow> Inr (tid, so_get_assets_for_task (be_store E) tid (db w)))"

definition download_asset ::
    "('s, 'b) board_env \<Rightarrow> string \<Rightarrow> string \<Rightarrow> ('s, 'b) board \<Rightarrow> (string \<times> string \<times> string) result" where
  "download_asset E tid aid w =
     (case so_get_task (be_store E) tid (db w) of
        None \<Rightarrow> fail ''task_not_found'' 404
      | Some _ \<Rightarrow>
          (case so_get_asset (be_store E) aid tid (db w) of
            None \<Rightarrow> fail ''asset_not_found'' 404
          | Some a \<Rightarrow>
              let file_path = asset_file_path E tid aid (a_filename a);
                  storage_root = path_resolve (be_storage_root E)
              in if strip_prefix (path_text storage_root) (path_text file_path) = None
                 then fail ''asset_not_found'' 404
                 else case dget (disk w) file_path of
                   None \<Rightarrow> fail ''asset_not_found'' 404
                 | Some file_content \<Rightarrow> Inr (file_content, a_content_type a, a_filename a)))"

definition resolve_storage_path :: "('s, 'b) board_env \<Rightarrow> string \<Rightarrow> string \<Rightarrow> string \<Rightarrow> string" where
  "resolve_storage_path E tid aid filename = path_text (asset_file_path E tid aid filename)"

section \<open>Paths inside one directory\<close>

definition plain_name :: "string \<Rightarrow> bool" where
  "plain_name s \<longleftrightarrow> s \<noteq> [] \<and> s \<noteq> ''.'' \<and> s \<noteq> ''..'' \<and> CHR ''/'' \<notin> set s"

lemma path_parts_plain: "plain_name s \<Longrightarrow> path_parts s = [s]"
  by (simp add: plain_name_def path_parts_def split_on_none)

lemma path_join_plain: "plain_name s \<Longrightarrow> path_join base s = base @ [s]"
  by (auto simp: path_join_def path_parts_plain) (auto simp: plain_name_def dest: hd_in_set)

lemma resolve_parts_plain: "''..'' \<notin> set ps \<Longrightarrow> resolve_parts acc ps = rev acc @ ps"
  by (induction acc ps rule: resolve_parts.induct) auto

lemma path_text_append: "ps \<noteq> [] \<Longrightarrow> path_text (ps @ qs) = path_text ps @ concat (map (\<lambda>p. CHR ''/'' # p) qs)"
  by (simp add: path_text_def)

lemma asset_path_plain:
  assumes "''..'' \<notin> set (be_storage_root E)" "plain_name tid" "plain_name aid" "plain_name f"
  shows "asset_file_path E tid aid f = be_storage_root E @ [tid, aid, f]"
proof -
  have "''..'' \<notin> set (be_storage_root E @ [tid, aid, f])"
    using assms by (auto simp: plain_name_def)
  from resolve_parts_plain [OF this, of "[]"] assms show ?thesis
    by (simp add: asset_file_path_def path_join_plain path_resolve_def)
qed

section \<open>The task board with assets\<close>

context task_board
begin

lemma upload_asset_path:
  assumes "rows_ok (rows (db w))"
  shows "path (view w) (view (snd (upload_asset E tid token c f ct w)))"
  unfolding upload_asset_def
proof (rule chain_pure_path [OF _ refl], rule load_chain_path [OF assms refl], goal_cases)
  case (1 i t w1)
  obtain now w2 where n: "board_now (snd (new_uuid w1)) = (now, w2)" by fastforce
  have w2: "db w2 = db w1" "bank w2 = bank w1"
    using board_now_eq [OF n] by (simp_all add: new_uuid_def)
  have "path (view w1) (view (snd (store_asset E tid i c f ct w1)))"
    using n w2 by (cases "new_uuid w1")
      (auto simp: store_asset_def Let_def intro!: invisible_step insert_asset_rows good_asset)
  then show ?case by simp
qed

end

section \<open>Every request, and what it can reach\<close>

datatype board_request =
    CreateTask string string
  | GetTask string
  | ListTasks "string option" "string option" "string option" "nat option" "nat option"
  | CancelTask string string
  | SubmitBid string string
  | ListBids string "string option"
  | AcceptBid string string string
  | SubmitDeliverable string string
  | ApproveTask string string
  | DisputeTask string string
  | RecordRuling string string
  | UploadAsset string string string string string

fun board_serve :: "('s, 'b) board_env \<Rightarrow> board_request \<Rightarrow> ('s, 'b) board \<Rightarrow> ('s, 'b) board" where
  "board_serve E (CreateTask t e) w = snd (create_task E t e w)"
| "board_serve E (GetTask tid) w = snd (get_task E tid w)"
| "board_serve E (ListTasks st p wk off lim) w = snd (list_tasks E st p wk off lim w)"
| "board_serve E (CancelTask tid t) w = snd (cancel_task E tid t w)"
| "board_serve E (SubmitBid tid t) w = snd (submit_bid E tid t w)"
| "board_serve E (ListBids tid t) w = snd (list_bids E tid t w)"
| "board_serve E (AcceptBid tid k t) w = snd (accept_bid E tid k t w)"
| "board_serve E (SubmitDeliverable tid t) w = snd (submit_deliverable E tid t w)"
| "board_serve E (ApproveTask tid t) w = snd (approve_task E tid t w)"
| "board_serve E (DisputeTask tid t) w = snd (dispute_task E tid t w)"
| "board_serve E (RecordRuling tid t) w = snd (record_ruling E tid t w)"
| "board_serve E (UploadAsset tid t c f ct) w = snd (upload_asset E tid t c f ct w)"

text \<open>
  Requests one after the other, each with its own answers of the Identity service and of the token
  decoding; the store and the bank client are the ones the service was started with.
\<close>

inductive board_run :: "('s, 'b) board_env \<Rightarrow> ('s, 'b) board \<Rightarrow> ('s, 'b) board \<Rightarrow> bool"
  for E :: "('s, 'b) board_env" where
  run_start: "board_run E w w"
| run_request: "board_run E w (board_serve E' req w')"
  if "board_run E w w'" "be_store E' = be_store E" "be_bank E' = be_bank E"

context task_board
begin

lemma board_serve_path:
  assumes "rows_ok (rows (db w))" "good (db w)"
  shows "path (view w) (view (board_serve E req w))"
  using assms
  by (cases req)
    (simp_all add: create_task_path get_task_path list_tasks_path cancel_task_path submit_bid_path
      list_bids_path accept_bid_path submit_deliverable_path approve_task_path dispute_task_path
      record_ruling_path upload_asset_path)

lemma board_serve_rows:
  assumes "rows_ok (rows (db w))" "good (db w)"
  shows "rows_ok (rows (db (board_serve E req w)))" "good (db (board_serve E req w))"
    "row_evolves (rows (db w)) (rows (db (board_serve E req w)))"
    "board_path E (rows (db w), bank w) (rows (db (board_serve E req w)), bank (board_serve E req w))"
  using path_rows_ok [OF board_serve_path [OF assms]] path_good [OF board_serve_path [OF assms]]
    path_evolves [OF board_serve_path [OF assms]] path_board_path [OF board_serve_path [OF assms]] assms
  by auto

end

end
