(* ===== verification/Task_Auth.thy ===== *)
theory Task_Auth
  imports Assets
begin

text \<open>
  Who may do what on the Task Board, and what a successful handler answers: facts about each handler's success
  branch, for every store and bank.
\<close>

text \<open>The token was verified for this agent and orders this action on this task.\<close>

definition signed_action :: "('s, 'b) board_env \<Rightarrow> string \<Rightarrow> string \<Rightarrow> string list \<Rightarrow> string \<Rightarrow> bool" where
  "signed_action E token i actions tid \<longleftrightarrow>
     (\<exists>q a. verified_signer E token q i \<and> dget q ''action'' = Some (JStr a) \<and> a \<in> set actions \<and>
            jget q ''task_id'' = JStr tid)"

lemma jget_signer [simp]: "k \<noteq> ''_signer_id'' \<Longrightarrow> jget (dput q ''_signer_id'' v) k = jget q k"
  by (simp add: jget_def)

lemma require_url_Inr [simp]: "require_url p k v = Inr u \<longleftrightarrow> jget p k = JStr v"
  by (simp add: require_url_def)

lemma require_signer_Inr [simp]: "require_signer p k v = Inr u \<longleftrightarrow> jget p k = JStr v"
  by (simp add: require_signer_def)

lemma signed_actionI:
  assumes "validate_jws_token E token acts = Inr (p, i)" "jget p ''task_id'' = JStr tid"
  shows "signed_action E token i acts tid"
  using assms by (fastforce simp: validate_jws_token_Inr signed_action_def)

lemma role_token_signed:
  "role_token E token acts role tid = Inr (p, i) \<Longrightarrow> signed_action E token i acts tid"
  by (auto simp: role_token_def inr_iffs intro: signed_actionI)

lemma task_to_response_row: "task_to_response r = Inr resp \<Longrightarrow> resp_row resp = r"
  by (auto simp: task_to_response_def)

context task_board
begin

lemma update_answer:
  assumes "update_and_reread E tid us w = (Inr resp, w')" "rows (db w) tid = Some r" "us \<noteq> []"
  shows "resp_row resp = apply_updates us r" "rows (db w') tid = Some (resp_row resp)" "bank w' = bank w"
  using update_and_reread_view [OF assms(2,3)] assms(1) by (auto dest!: task_to_response_row [OF sym])

lemma release_then_update_answer:
  assumes "chain (release_escrow E k recipient w) (\<lambda>_ w2.
      (let (now, w3) = board_now w2 in update_and_reread E tid (us now) w3)) = (Inr resp, w')"
    and "rows (db w) tid = Some r" "\<And>now. us now \<noteq> []"
  shows "\<exists>now. resp_row resp = apply_updates (us now) r" "rows (db w') tid = Some (resp_row resp)"
    "bo_release (be_bank E) k recipient (bank w) = (Inr (), bank w')"
proof -
  obtain x b' where x: "bo_release (be_bank E) k recipient (bank w) = (x, b')" by fastforce
  have xr: "x = Inr ()" using assms(1) by (cases x) (auto simp: release_escrow_def x)
  obtain now w3 where n: "board_now (w\<lparr>bank := b'\<rparr>) = (now, w3)" by fastforce
  have w3: "db w3 = db w" "bank w3 = b'" using board_now_eq [OF n] by simp_all
  have "update_and_reread E tid (us now) w3 = (Inr resp, w')"
    using assms(1) by (simp add: release_escrow_def x xr n)
  from update_answer [OF this, of r] assms(2,3) w3 x xr
  show "\<exists>now. resp_row resp = apply_updates (us now) r" "rows (db w') tid = Some (resp_row resp)"
    "bo_release (be_bank E) k recipient (bank w) = (Inr (), bank w')"
    by auto
qed

lemma cancel_answer:
  assumes "rows_ok (rows (db w))" "cancel_task E tid token w = (Inr resp, w')"
  shows "signed_action E token (t_poster_id (resp_row resp)) [''cancel_task''] tid"
    "t_status (resp_row resp) = Cancelled" "rows (db w') tid = Some (resp_row resp)"
    "\<exists>b. bo_release (be_bank E) (t_escrow_id (resp_row resp)) (Some (t_poster_id (resp_row resp))) b = (Inr (), bank w')"
proof -
  obtain res w1 where c: "cancel_prepare E tid token w = (res, w1)" by fastforce
  obtain t where t: "res = Inr t" using assms(2) c by (cases res) (auto simp: cancel_task_def)
  note p = cancel_prepare_view(2) [OF assms(1) c t]
  then have row: "rows (db w1) tid = Some t" by simp
  have ch: "chain (release_escrow E (t_escrow_id t) (Some (t_poster_id t)) w1) (\<lambda>_ w2.
      (let (now, w3) = board_now w2 in update_and_reread E tid [SetStatus Cancelled, SetCancelledAt now] w3))
      = (Inr resp, w')"
    using assms(2) by (simp add: cancel_task_def c t cancel_commit_def)
  note a = release_then_update_answer [OF ch row]
  from a(1) obtain now where n: "resp_row resp = apply_updates [SetStatus Cancelled, SetCancelledAt now] t" by auto
  show "signed_action E token (t_poster_id (resp_row resp)) [''cancel_task''] tid"
    using p by (auto simp: n dest: role_token_signed)
  show "t_status (resp_row resp) = Cancelled" by (simp add: n)
  show "rows (db w') tid = Some (resp_row resp)" using a(2) by simp
  show "\<exists>b. bo_release (be_bank E) (t_escrow_id (resp_row resp)) (Some (t_poster_id (resp_row resp))) b = (Inr (), bank w')"
    using a(3) by (auto simp: n)
qed

lemma approve_answer:
  assumes "rows_ok (rows (db w))" "approve_task E tid token w = (Inr resp, w')"
  shows "signed_action E token (t_poster_id (resp_row resp)) [''approve_task''] tid"
    "t_status (resp_row resp) = Approved" "rows (db w') tid = Some (resp_row resp)"
    "\<exists>b. bo_release (be_bank E) (t_escrow_id (resp_row resp)) (t_worker_id (resp_row resp)) b = (Inr (), bank w')"
proof -
  obtain res w1 where c: "approve_prepare E tid token w = (res, w1)" by fastforce
  obtain t where t: "res = Inr t" using assms(2) c by (cases res) (auto simp: approve_task_def)
  note p = approve_prepare_view(2) [OF assms(1) c t]
  then have row: "rows (db w1) tid = Some t" by simp
  have ch: "chain (release_escrow E (t_escrow_id t) (t_worker_id t) w1) (\<lambda>_ w2.
      (let (now, w3) = board_now w2 in update_and_reread E tid [SetStatus Approved, SetApprovedAt now] w3))
      = (Inr resp, w')"
    using assms(2) by (simp add: approve_task_def c t approve_commit_def)
  note a = release_then_update_answer [OF ch row]
  from a(1) obtain now where n: "resp_row resp = apply_updates [SetStatus Approved, SetApprovedAt now] t" by auto
  show "signed_action E token (t_poster_id (resp_row resp)) [''approve_task''] tid"
    using p by (auto simp: n dest: role_token_signed)
  show "t_status (resp_row resp) = Approved" by (simp add: n)
  show "rows (db w') tid = Some (resp_row resp)" using a(2) by simp
  show "\<exists>b. bo_release (be_bank E) (t_escrow_id (resp_row resp)) (t_worker_id (resp_row resp)) b = (Inr (), bank w')"
    using a(3) by (auto simp: n)
qed

text \<open>The handlers without a bank call: they load, check, and update.\<close>

lemma load_chain_answer:
  assumes "rows_ok (rows (db w))" "chain (load_task E tid w) f = (Inr x, w')"
  obtains t w1 where "rows (db w1) tid = Some t" "row_ok tid t" "f t w1 = (Inr x, w')"
proof -
  obtain r v where l: "load_task E tid w = (r, v)" by fastforce
  with assms(2) load_task_view(2) [OF assms(1) l] show thesis
    by (cases r) (auto intro: that)
qed

lemma accept_answer:
  assumes "rows_ok (rows (db w))" "accept_bid E tid k token w = (Inr resp, w')"
  shows "signed_action E token (t_poster_id (resp_row resp)) [''accept_bid''] tid"
    "t_status (resp_row resp) = Accepted" "rows (db w') tid = Some (resp_row resp)"
    "\<exists>s b. so_get_bid ops k tid s = Some b \<and> t_worker_id (resp_row resp) = Some (b_bidder_id b)"
proof -
  obtain i p where i: "validate_jws_token E token [''accept_bid''] = Inr (p, i)" "jget p ''task_id'' = JStr tid"
    and c: "chain (load_task E tid w) (\<lambda>task w.
       if t_status task \<noteq> Open then (fail ''invalid_status'' 409, w)
       else if i \<noteq> t_poster_id task then (fail ''forbidden'' 403, w)
       else (case so_get_bid ops k tid (db w) of
           None \<Rightarrow> (fail ''bid_not_found'' 404, w)
         | Some b \<Rightarrow>
             (let (now, w1) = board_now w
              in update_and_reread E tid [SetStatus Accepted, SetWorker (b_bidder_id b),
                   SetAcceptedBid k, SetAcceptedAt now] w1))) = (Inr resp, w')"
    using assms(2) unfolding accept_bid_def store_is by (auto simp: chain_Inr_iff inr_iffs)
  obtain t w1 where t: "rows (db w1) tid = Some t" and f: "(if t_status t \<noteq> Open then (fail ''invalid_status'' 409, w1)
       else if i \<noteq> t_poster_id t then (fail ''forbidden'' 403, w1)
       else (case so_get_bid ops k tid (db w1) of
           None \<Rightarrow> (fail ''bid_not_found'' 404, w1)
         | Some b \<Rightarrow>
             (let (now, w1) = board_now w1
              in update_and_reread E tid [SetStatus Accepted, SetWorker (b_bidder_id b),
                   SetAcceptedBid k, SetAcceptedAt now] w1))) = (Inr resp, w')"
    by (rule load_chain_answer [OF assms(1) c])
  obtain now w2 where n: "board_now w1 = (now, w2)" by fastforce
  have w2: "db w2 = db w1" "bank w2 = bank w1" using board_now_eq [OF n] by simp_all
  obtain b where b: "so_get_bid ops k tid (db w1) = Some b" "i = t_poster_id t"
    and u: "update_and_reread E tid [SetStatus Accepted, SetWorker (b_bidder_id b),
                   SetAcceptedBid k, SetAcceptedAt now] w2 = (Inr resp, w')"
    using f by (auto simp: n split: if_splits option.splits)
  note a = update_answer [OF u, of t]
  show "signed_action E token (t_poster_id (resp_row resp)) [''accept_bid''] tid"
    using signed_actionI [OF i] a(1) t w2 b by simp
  show "t_status (resp_row resp) = Accepted" "rows (db w') tid = Some (resp_row resp)"
    using a t w2 by auto
  show "\<exists>s b. so_get_bid ops k tid s = Some b \<and> t_worker_id (resp_row resp) = Some (b_bidder_id b)"
    using a(1) t w2 b by auto
qed

lemma submit_answer:
  assumes "rows_ok (rows (db w))" "submit_deliverable E tid token w = (Inr resp, w')"
  shows "\<exists>wk. t_worker_id (resp_row resp) = Some wk \<and> signed_action E token wk [''submit_deliverable''] tid"
    "t_status (resp_row resp) = Submitted" "rows (db w') tid = Some (resp_row resp)"
    "\<exists>s. so_count_assets ops tid s \<noteq> 0"
proof -
  obtain p i where i: "role_token E token [''submit_deliverable''] ''worker_id'' tid = Inr (p, i)"
    and c: "chain (load_task E tid w) (\<lambda>task w.
       if t_status task \<noteq> Accepted then (fail ''invalid_status'' 409, w)
       else if Some i \<noteq> t_worker_id task then (fail ''forbidden'' 403, w)
       else if so_count_assets ops tid (db w) = 0 then (fail ''no_assets'' 400, w)
       else
         let (now, w1) = board_now w
         in update_and_reread E tid [SetStatus Submitted, SetSubmittedAt now] w1) = (Inr resp, w')"
    using assms(2) unfolding submit_deliverable_def store_is by (auto simp: chain_Inr_iff)
  obtain t w1 where t: "rows (db w1) tid = Some t" and f: "(if t_status t \<noteq> Accepted then (fail ''invalid_status'' 409, w1)
       else if Some i \<noteq> t_worker_id t then (fail ''forbidden'' 403, w1)
       else if so_count_assets ops tid (db w1) = 0 then (fail ''no_assets'' 400, w1)
       else
         let (now, w1) = board_now w1
         in update_and_reread E tid [SetStatus Submitted, SetSubmittedAt now] w1) = (Inr resp, w')"
    by (rule load_chain_answer [OF assms(1) c])
  obtain now w2 where n: "board_now w1 = (now, w2)" by fastforce
  have w2: "db w2 = db w1" "bank w2 = bank w1" using board_now_eq [OF n] by simp_all
  have u: "update_and_reread E tid [SetStatus Submitted, SetSubmittedAt now] w2 = (Inr resp, w')"
      "t_worker_id t = Some i" "so_count_assets ops tid (db w1) \<noteq> 0"
    using f by (auto simp: n split: if_splits)
  note a = update_answer [OF u(1), of t]
  show "\<exists>wk. t_worker_id (resp_row resp) = Some wk \<and> signed_action E token wk [''submit_deliverable''] tid"
    using role_token_signed [OF i] a(1) t w2 u(2) by simp
  show "t_status (resp_row resp) = Submitted" "rows (db w') tid = Some (resp_row resp)"
    "\<exists>s. so_count_assets ops tid s \<noteq> 0"
    using a t w2 u(3) by auto
qed

lemma dispute_answer:
  assumes "rows_ok (rows (db w))" "dispute_task E tid token w = (Inr resp, w')"
  shows "signed_action E token (t_poster_id (resp_row resp)) [''dispute_task'', ''file_dispute''] tid"
    "t_status (resp_row resp) = Disputed"
proof -
  obtain p i where i: "role_token E token [''dispute_task'', ''file_dispute''] ''poster_id'' tid = Inr (p, i)"
    and c: "chain (load_task E tid w) (\<lambda>task w.
       if t_status task \<noteq> Submitted then (fail ''invalid_status'' 409, w)
       else if i \<noteq> t_poster_id task then (fail ''forbidden'' 403, w)
       else (case nonempty_str (jget p ''reason'') of
           None \<Rightarrow> (fail ''invalid_reason'' 400, w)
         | Some reason \<Rightarrow>
             if length reason > 10000 then (fail ''invalid_reason'' 400, w)
             else
               let (now, w1) = board_now w
               in update_and_reread E tid [SetStatus Disputed, SetDisputedAt now,
                    SetDisputeReason reason] w1)) = (Inr resp, w')"
    using assms(2) unfolding dispute_task_def store_is by (auto simp: chain_Inr_iff)
  obtain t w1 where t: "rows (db w1) tid = Some t" and f: "(if t_status t \<noteq> Submitted then (fail ''invalid_status'' 409, w1)
       else if i \<noteq> t_poster_id t then (fail ''forbidden'' 403, w1)
       else (case nonempty_str (jget p ''reason'') of
           None \<Rightarrow> (fail ''invalid_reason'' 400, w1)
         | Some reason \<Rightarrow>
             if length reason > 10000 then (fail ''invalid_reason'' 400, w1)
             else
               let (now, w1) = board_now w1
               in update_and_reread E tid [SetStatus Disputed, SetDisputedAt now,
                    SetDisputeReason reason] w1)) = (Inr resp, w')"
    by (rule load_chain_answer [OF assms(1) c])
  obtain now w2 where n: "board_now w1 = (now, w2)" by fastforce
  have w2: "db w2 = db w1" "bank w2 = bank w1" using board_now_eq [OF n] by simp_all
  obtain reason where u: "update_and_reread E tid [SetStatus Disputed, SetDisputedAt now,
      SetDisputeReason reason] w2 = (Inr resp, w')" "i = t_poster_id t"
    using f by (auto simp: n split: if_splits option.splits)
  note a = update_answer [OF u(1), of t]
  show "signed_action E token (t_poster_id (resp_row resp)) [''dispute_task'', ''file_dispute''] tid"
    "t_status (resp_row resp) = Disputed"
    using role_token_signed [OF i] a(1) t w2 u(2) by simp_all
qed

lemma ruling_answer:
  assumes "record_ruling E tid token w = (Inr resp, w')"
  shows "\<exists>p. validate_jws_token E token [''record_ruling'', ''submit_ruling''] = Inr (p, be_platform_id E)"
    "\<exists>r. rows (db w) tid = Some r \<and> t_status r = Disputed"
proof -
  obtain res w1 where c: "ruling_prepare E tid token w = (res, w1)" by fastforce
  obtain x where x: "res = Inr x" using assms c by (cases res) (auto simp: record_ruling_def)
  obtain t i s pct where "x = (t, i, s, pct)" by (cases x)
  with ruling_prepare_view [OF c] x
  show "\<exists>p. validate_jws_token E token [''record_ruling'', ''submit_ruling''] = Inr (p, be_platform_id E)"
    "\<exists>r. rows (db w) tid = Some r \<and> t_status r = Disputed"
    by auto
qed

text \<open>Evaluating a deadline that leaves the task active touches neither store nor bank.\<close>

lemma evaluate_quiet:
  assumes "rows (db w) (t_id task) = Some task" "evaluate_deadline E task w = (Inr t, w')" "\<not> terminal (t_status t)"
  shows "t = task" "view w' = view w"
proof -
  obtain now w1 where n: "board_now w = (now, w1)" by fastforce
  have w1: "db w1 = db w" "bank w1 = bank w" using board_now_eq [OF n] by simp_all
  have r1: "rows (db w1) (t_id task) = Some task" by (simp add: w1 assms(1))
  have moved: "terminal (t_status (fst (deadline_passed E task st stamp rc w1)))"
    if "terminal st" "\<And>now r. t_status (apply_update (stamp now) r) = t_status r" for st stamp rc
    by (rule deadline_passed_view [OF r1 refl refl, of st stamp rc]) (use that in auto)
  consider "w' = w" "t = task" | "w' = w1" "t = task"
    | "(t, w') = deadline_passed E task Expired SetExpiredAt (Some (t_poster_id task)) w1"
    | "(t, w') = deadline_passed E task Approved SetApprovedAt (t_worker_id task) w1"
    using assms(2)
    by (cases "t_status task")
      (auto simp: evaluate_deadline_def retry_pending_escrow_active n Let_def terminal_def apfst_def map_prod_def
        split: if_splits sum.splits option.splits prod.splits)
  then have "t = task \<and> view w' = view w"
  proof cases
    case 3
    then have "t = fst (deadline_passed E task Expired SetExpiredAt (Some (t_poster_id task)) w1)"
      by (simp only: fst_conv flip: 3)
    with moved [of Expired SetExpiredAt "Some (t_poster_id task)"] assms(3) show ?thesis
      by (simp add: terminal_def)
  next
    case 4
    then have "t = fst (deadline_passed E task Approved SetApprovedAt (t_worker_id task) w1)"
      by (simp only: fst_conv flip: 4)
    with moved [of Approved SetApprovedAt "t_worker_id task"] assms(3) show ?thesis
      by (simp add: terminal_def)
  qed (use w1 in auto)
  then show "t = task" "view w' = view w" by auto
qed

lemma load_quiet:
  assumes "rows_ok (rows (db w))" "load_task E tid w = (Inr t, w')" "\<not> terminal (t_status t)"
  shows "rows (db w) tid = Some t" "view w' = view w"
proof -
  obtain r where r: "rows (db w) tid = Some r" "evaluate_deadline E r w = (Inr t, w')"
    using assms(2) by (auto simp: load_task_def get_row split: option.splits)
  then have "t_id r = tid" using assms(1) by (auto simp: rows_ok_def row_ok_def)
  with r evaluate_quiet [of w r t w'] assms(3) show "rows (db w) tid = Some t" "view w' = view w" by simp_all
qed

text \<open>A handler that pays does so with row and bank as it found them.\<close>

lemma prepare_quiet:
  assumes "rows_ok (rows (db w))" "cancel_prepare E tid token w = (Inr t, w') \<or> approve_prepare E tid token w = (Inr t, w')"
  shows "rows (db w) tid = Some t" "view w' = view w"
proof -
  have "load_task E tid w = (Inr t, w')" "\<not> terminal (t_status t)"
    using assms(2)
    by (auto simp: cancel_prepare_def approve_prepare_def chain_Inr_iff terminal_def split: if_splits)
  from load_quiet [OF assms(1) this] show "rows (db w) tid = Some t" "view w' = view w" .
qed

lemma paid_Inr: "map_sum f id x = Inr u \<longleftrightarrow> x = Inr u"
  by (cases x) auto

lemma update_bank: "update_and_reread E tid us w = (x, w') \<Longrightarrow> bank w' = bank w"
  by (auto simp: update_and_reread_def reread_def store_update_def split: prod.splits option.splits)

lemma handlers_pay:
  assumes "rows_ok (rows (db w))"
    and "cancel_task E tid token w = (Inr resp, w') \<or> approve_task E tid token w = (Inr resp, w') \<or>
      record_ruling E tid token w = (Inr resp, w')"
  shows "\<exists>r p pct. rows (db w) tid = Some r \<and>
    (bo_release (be_bank E) (t_escrow_id r) p (bank w) = (Inr (), bank w') \<or>
     bo_split (be_bank E) (t_escrow_id r) (t_worker_id r) (t_poster_id r) pct (bank w) = (Inr (), bank w'))"
  using assms(2)
proof (elim disjE)
  assume a: "cancel_task E tid token w = (Inr resp, w')"
  then obtain t w1 where c: "cancel_prepare E tid token w = (Inr t, w1)"
      "chain (release_escrow E (t_escrow_id t) (Some (t_poster_id t)) w1) (\<lambda>_ w2.
         (let (now, w3) = board_now w2 in update_and_reread E tid [SetStatus Cancelled, SetCancelledAt now] w3))
       = (Inr resp, w')"
    by (auto simp: cancel_task_def cancel_commit_def chain_Inr_iff)
  note q = prepare_quiet [OF assms(1) disjI1 [OF c(1)]]
  then have "rows (db w1) tid = Some t" by simp
  from release_then_update_answer(3) [OF c(2) this] q show ?thesis by auto
next
  assume a: "approve_task E tid token w = (Inr resp, w')"
  then obtain t w1 where c: "approve_prepare E tid token w = (Inr t, w1)"
      "chain (release_escrow E (t_escrow_id t) (t_worker_id t) w1) (\<lambda>_ w2.
         (let (now, w3) = board_now w2 in update_and_reread E tid [SetStatus Approved, SetApprovedAt now] w3))
       = (Inr resp, w')"
    by (auto simp: approve_task_def approve_commit_def chain_Inr_iff)
  note q = prepare_quiet [OF assms(1) disjI2 [OF c(1)]]
  then have "rows (db w1) tid = Some t" by simp
  from release_then_update_answer(3) [OF c(2) this] q show ?thesis by auto
next
  assume a: "record_ruling E tid token w = (Inr resp, w')"
  then obtain t i smry pct w1 w2 where c: "ruling_prepare E tid token w = (Inr (t, i, smry, pct), w1)"
      "pay_ruling E t pct w1 = (Inr (), w2)" "ruling_commit E tid i smry pct w2 = (Inr resp, w')"
    by (auto simp: record_ruling_def chain_Inr_iff)
  have "bank w' = bank w2" using c(3) by (auto simp: ruling_commit_def split: prod.splits dest!: update_bank board_now_eq)
  with c(2) ruling_prepare_view [OF c(1)] show ?thesis
    by (auto simp: pay_ruling_def release_escrow_def split_escrow_def paid_Inr split: if_splits prod.splits)
qed

end

end
