(* ===== verification/Ledger.thy ===== *)
theory Ledger
  imports Prelude_AE
begin

text \<open>
  The Central Bank's ledger, \<^verbatim>\<open>services/in_memory_ledger_store.py\<close>: accounts,
  transaction histories, credit references, escrows and the index of locked escrows. The state record
  holds the five dictionaries of \<^verbatim>\<open>_DatabaseState\<close>; each method is one definition that
  returns its result or its error together with the new state. The lock (\<^verbatim>\<open>RLock\<close>) makes a
  method one atomic step.
\<close>

section \<open>State\<close>

record account =
  account_id :: string
  balance :: int
  created_at :: int

datatype tx_type = Credit | Debit

record transaction =
  tx_id :: string
  tx_type :: tx_type
  tx_amount :: int
  balance_after :: int
  reference :: string
  timestamp :: int

datatype escrow_status = Locked | Released | Split

record escrow =
  escrow_id :: string
  payer_account_id :: string
  escrow_amount :: int
  escrow_task_id :: string
  escrow_status :: escrow_status
  escrow_created_at :: int
  resolved_at :: "int option"

record ledger = host +
  accounts :: "(string, account) dict"
  transactions :: "(string, transaction list) dict"
  credit_refs :: "(string \<times> string, transaction) dict"
  escrows :: "(string, escrow) dict"
  locked_escrow_by_task :: "(string \<times> string, string) dict"

record credit_receipt =
  cr_tx_id :: string
  cr_balance_after :: int

record lock_receipt =
  lk_escrow_id :: string
  lk_amount :: int
  lk_task_id :: string
  lk_status :: escrow_status

record release_receipt =
  rl_escrow_id :: string
  rl_status :: escrow_status
  rl_amount :: int
  rl_recipient :: string

record split_receipt =
  sp_escrow_id :: string
  sp_status :: escrow_status
  sp_worker_amount :: int
  sp_poster_amount :: int
  sp_worker_pct :: int

section \<open>Operations\<close>

definition ledger_now :: "ledger \<Rightarrow> int \<times> ledger" where
  "ledger_now s = (let (t, s1) = read_clock s in (to_seconds t, s1))"

definition new_tx_id :: "ledger \<Rightarrow> string \<times> ledger" where
  "new_tx_id s = (let (u, s1) = new_uuid s in (prefixed ''tx-'' u, s1))"

definition new_escrow_id :: "ledger \<Rightarrow> string \<times> ledger" where
  "new_escrow_id s = (let (u, s1) = new_uuid s in (prefixed ''esc-'' u, s1))"

definition append_tx :: "string \<Rightarrow> transaction \<Rightarrow> ledger \<Rightarrow> ledger" where
  "append_tx a tx s =
     s\<lparr>transactions := dput (transactions s) a (dget_or (transactions s) a [] @ [tx])\<rparr>"

definition set_balance :: "string \<Rightarrow> account \<Rightarrow> int \<Rightarrow> ledger \<Rightarrow> ledger" where
  "set_balance a acc b s = s\<lparr>accounts := dput (accounts s) a (acc\<lparr>balance := b\<rparr>)\<rparr>"

definition create_account :: "string \<Rightarrow> int \<Rightarrow> ledger \<Rightarrow> account result \<times> ledger" where
  "create_account a initial_balance s =
     (if initial_balance < 0 then (Inl (ServiceError ''invalid_amount'' 400), s)
      else if dget (accounts s) a \<noteq> None then (Inl (ServiceError ''account_exists'' 409), s)
      else
        let (now, s1) = ledger_now s;
            acc = \<lparr>account_id = a, balance = initial_balance, created_at = now\<rparr>;
            s2 = s1\<lparr>accounts := dput (accounts s1) a acc\<rparr>;
            s3 = (if dget (transactions s2) a = None
                  then s2\<lparr>transactions := dput (transactions s2) a []\<rparr> else s2);
            s5 = (if initial_balance > 0
                  then (let (tid, s4) = new_tx_id s3
                        in append_tx a \<lparr>tx_id = tid, tx_type = Credit, tx_amount = initial_balance,
                             balance_after = initial_balance, reference = ''initial_balance'',
                             timestamp = now\<rparr> s4)
                  else s3)
        in (Inr acc, s5))"

definition get_account :: "string \<Rightarrow> ledger \<Rightarrow> account option" where
  "get_account a s = dget (accounts s) a"

definition credit :: "string \<Rightarrow> int \<Rightarrow> string \<Rightarrow> ledger \<Rightarrow> credit_receipt result \<times> ledger" where
  "credit a amount ref s =
     (if amount \<le> 0 then (Inl (ServiceError ''invalid_amount'' 400), s)
      else case dget (accounts s) a of
        None \<Rightarrow> (Inl (ServiceError ''account_not_found'' 404), s)
      | Some acc \<Rightarrow>
          (case dget (credit_refs s) (a, ref) of
            Some existing \<Rightarrow>
              if tx_amount existing \<noteq> amount then (Inl (ServiceError ''payload_mismatch'' 400), s)
              else (Inr \<lparr>cr_tx_id = tx_id existing, cr_balance_after = balance_after existing\<rparr>, s)
          | None \<Rightarrow>
              let new_balance = balance acc + amount;
                  s1 = set_balance a acc new_balance s;
                  (tid, s2) = new_tx_id s1;
                  (now, s3) = ledger_now s2;
                  tx = \<lparr>tx_id = tid, tx_type = Credit, tx_amount = amount,
                        balance_after = new_balance, reference = ref, timestamp = now\<rparr>;
                  s4 = append_tx a tx s3;
                  s5 = s4\<lparr>credit_refs := dput (credit_refs s4) (a, ref) tx\<rparr>
              in (Inr \<lparr>cr_tx_id = tid, cr_balance_after = new_balance\<rparr>, s5)))"

definition get_transactions :: "string \<Rightarrow> ledger \<Rightarrow> transaction list result" where
  "get_transactions a s =
     (if dget (accounts s) a = None then Inl (ServiceError ''account_not_found'' 404)
      else Inr (dget_or (transactions s) a []))"

definition escrow_lock :: "string \<Rightarrow> int \<Rightarrow> string \<Rightarrow> ledger \<Rightarrow> lock_receipt result \<times> ledger" where
  "escrow_lock payer_id amount task_id s =
     (if amount \<le> 0 then (Inl (ServiceError ''invalid_amount'' 400), s)
      else case dget (accounts s) payer_id of
        None \<Rightarrow> (Inl (ServiceError ''account_not_found'' 404), s)
      | Some payer \<Rightarrow>
          (case dget (locked_escrow_by_task s) (payer_id, task_id) of
            Some existing_id \<Rightarrow>
              (case dget (escrows s) existing_id of
                None \<Rightarrow> (Inl (PyError ''KeyError''), s)
              | Some existing \<Rightarrow>
                  if escrow_amount existing \<noteq> amount
                  then (Inl (ServiceError ''escrow_already_locked'' 409), s)
                  else (Inr \<lparr>lk_escrow_id = escrow_id existing, lk_amount = escrow_amount existing,
                             lk_task_id = escrow_task_id existing,
                             lk_status = escrow_status existing\<rparr>, s))
          | None \<Rightarrow>
              if balance payer < amount then (Inl (ServiceError ''insufficient_funds'' 402), s)
              else
                let s1 = set_balance payer_id payer (balance payer - amount) s;
                    (eid, s2) = new_escrow_id s1;
                    (now1, s3) = ledger_now s2;
                    e = \<lparr>escrow_id = eid, payer_account_id = payer_id, escrow_amount = amount,
                         escrow_task_id = task_id, escrow_status = Locked,
                         escrow_created_at = now1, resolved_at = None\<rparr>;
                    s4 = s3\<lparr>escrows := dput (escrows s3) eid e,
                            locked_escrow_by_task :=
                              dput (locked_escrow_by_task s3) (payer_id, task_id) eid\<rparr>;
                    (tid, s5) = new_tx_id s4;
                    (now2, s6) = ledger_now s5;
                    tx = \<lparr>tx_id = tid, tx_type = Debit, tx_amount = amount,
                          balance_after = balance payer - amount,
                          reference = prefixed ''escrow_lock:'' task_id, timestamp = now2\<rparr>;
                    s7 = append_tx payer_id tx s6
                in (Inr \<lparr>lk_escrow_id = eid, lk_amount = amount, lk_task_id = task_id,
                         lk_status = Locked\<rparr>, s7)))"

text \<open>The last statements of release and split: resolve the escrow and drop its index entry.\<close>

definition resolve_escrow :: "string \<Rightarrow> escrow \<Rightarrow> escrow_status \<Rightarrow> ledger \<Rightarrow> ledger" where
  "resolve_escrow eid e st s =
     (let (now, s1) = ledger_now s
      in s1\<lparr>escrows := dput (escrows s1) eid (e\<lparr>escrow_status := st, resolved_at := Some now\<rparr>),
            locked_escrow_by_task :=
              dpop (locked_escrow_by_task s1) (payer_account_id e, escrow_task_id e)\<rparr>)"

definition escrow_release :: "string \<Rightarrow> string \<Rightarrow> ledger \<Rightarrow> release_receipt result \<times> ledger" where
  "escrow_release eid recipient_id s =
     (case dget (escrows s) eid of
       None \<Rightarrow> (Inl (ServiceError ''escrow_not_found'' 404), s)
     | Some e \<Rightarrow>
         (case dget (accounts s) recipient_id of
           None \<Rightarrow> (Inl (ServiceError ''account_not_found'' 404), s)
         | Some recipient \<Rightarrow>
             if escrow_status e \<noteq> Locked
             then (Inl (ServiceError ''escrow_already_resolved'' 409), s)
             else
               let amount = escrow_amount e;
                   new_balance = balance recipient + amount;
                   s1 = set_balance recipient_id recipient new_balance s;
                   (tid, s2) = new_tx_id s1;
                   (now, s3) = ledger_now s2;
                   tx = \<lparr>tx_id = tid, tx_type = Credit, tx_amount = amount,
                         balance_after = new_balance, reference = prefixed ''escrow_release:'' eid,
                         timestamp = now\<rparr>;
                   s4 = append_tx recipient_id tx s3;
                   s5 = resolve_escrow eid e Released s4
               in (Inr \<lparr>rl_escrow_id = eid, rl_status = Released, rl_amount = amount,
                        rl_recipient = recipient_id\<rparr>, s5)))"

definition split_amount :: "int \<Rightarrow> int \<Rightarrow> int" where
  "split_amount amount worker_pct = amount * worker_pct div 100"

text \<open>
  Both balances are read before either is written, so with one account as worker and poster the second
  write wins; \<open>set_balance\<close> on the account as read keeps that.
\<close>

definition escrow_split ::
    "string \<Rightarrow> string \<Rightarrow> int \<Rightarrow> string \<Rightarrow> ledger \<Rightarrow> split_receipt result \<times> ledger" where
  "escrow_split eid worker_id worker_pct poster_id s =
     (if worker_pct < 0 \<or> worker_pct > 100 then (Inl (ServiceError ''invalid_payload'' 400), s)
      else case dget (escrows s) eid of
        None \<Rightarrow> (Inl (ServiceError ''escrow_not_found'' 404), s)
      | Some e \<Rightarrow>
          if escrow_status e \<noteq> Locked then (Inl (ServiceError ''escrow_already_resolved'' 409), s)
          else
            (case (dget (accounts s) worker_id, dget (accounts s) poster_id) of
              (Some worker, Some poster) \<Rightarrow>
                let amount = escrow_amount e;
                    worker_amount = split_amount amount worker_pct;
                    poster_amount = amount - worker_amount;
                    worker_new = balance worker + worker_amount;
                    poster_new = balance poster + poster_amount;
                    s1 = set_balance worker_id worker worker_new s;
                    s2 = set_balance poster_id poster poster_new s1;
                    (tid1, s3) = new_tx_id s2;
                    (now1, s4) = ledger_now s3;
                    worker_tx = \<lparr>tx_id = tid1, tx_type = Credit, tx_amount = worker_amount,
                                 balance_after = worker_new,
                                 reference = prefixed ''escrow_split_worker:'' eid, timestamp = now1\<rparr>;
                    (tid2, s5) = new_tx_id s4;
                    (now2, s6) = ledger_now s5;
                    poster_tx = \<lparr>tx_id = tid2, tx_type = Credit, tx_amount = poster_amount,
                                 balance_after = poster_new,
                                 reference = prefixed ''escrow_split_poster:'' eid, timestamp = now2\<rparr>;
                    s7 = append_tx poster_id poster_tx (append_tx worker_id worker_tx s6);
                    s8 = resolve_escrow eid e Split s7
                in (Inr \<lparr>sp_escrow_id = eid, sp_status = Split, sp_worker_amount = worker_amount,
                         sp_poster_amount = poster_amount, sp_worker_pct = worker_pct\<rparr>, s8)
            | _ \<Rightarrow> (Inl (ServiceError ''account_not_found'' 404), s)))"

definition count_accounts :: "ledger \<Rightarrow> nat" where
  "count_accounts s = length (accounts s)"

fun total_escrowed_loop :: "escrow list \<Rightarrow> int \<Rightarrow> int" where
  "total_escrowed_loop [] acc = acc"
| "total_escrowed_loop (e # es) acc =
     total_escrowed_loop es (if escrow_status e = Locked then acc + escrow_amount e else acc)"

definition total_escrowed :: "ledger \<Rightarrow> int" where
  "total_escrowed s = total_escrowed_loop (dvals (escrows s)) 0"

section \<open>Empty ledger and runs\<close>

definition empty_ledger :: "host \<Rightarrow> ledger" where
  "empty_ledger h = host.extend h
     \<lparr>accounts = [], transactions = [], credit_refs = [], escrows = [], locked_escrow_by_task = []\<rparr>"

text \<open>One call of a state-changing method of the store, as a step of the ledger.\<close>

datatype ledger_op =
    CreateAccount string int
  | CreditAccount string int string
  | LockEscrow string int string
  | ReleaseEscrow string string
  | SplitEscrow string string int string

fun ledger_exec :: "ledger_op \<Rightarrow> ledger \<Rightarrow> ledger" where
  "ledger_exec (CreateAccount a b) s = snd (create_account a b s)"
| "ledger_exec (CreditAccount a n r) s = snd (credit a n r s)"
| "ledger_exec (LockEscrow p n t) s = snd (escrow_lock p n t s)"
| "ledger_exec (ReleaseEscrow e r) s = snd (escrow_release e r s)"
| "ledger_exec (SplitEscrow e w pct p) s = snd (escrow_split e w pct p s)"

inductive ledger_reach :: "host \<Rightarrow> ledger \<Rightarrow> bool" for h where
  ledger_init: "ledger_reach h (empty_ledger h)"
| ledger_call: "ledger_reach h s \<Longrightarrow> ledger_reach h (ledger_exec op s)"

section \<open>Frames\<close>

lemmas ledger_effects =
  ledger_now_def new_tx_id_def new_escrow_id_def read_clock_def new_uuid_def append_tx_def
  set_balance_def resolve_escrow_def Let_def

lemmas ledger_defs =
  create_account_def credit_def escrow_lock_def escrow_release_def escrow_split_def

text \<open>A method that raises leaves the ledger as it was.\<close>

lemma create_account_error: "create_account a b s = (Inl e, s') \<Longrightarrow> s' = s"
  by (auto simp: create_account_def ledger_effects split: if_splits)

lemma credit_error: "credit a n r s = (Inl e, s') \<Longrightarrow> s' = s"
  by (auto simp: credit_def ledger_effects split: if_splits option.splits)

lemma escrow_lock_error: "escrow_lock p n t s = (Inl e, s') \<Longrightarrow> s' = s"
  by (auto simp: escrow_lock_def ledger_effects split: if_splits option.splits)

lemma escrow_release_error: "escrow_release eid r s = (Inl e, s') \<Longrightarrow> s' = s"
  by (auto simp: escrow_release_def ledger_effects split: if_splits option.splits)

lemma escrow_split_error: "escrow_split eid w pct p s = (Inl e, s') \<Longrightarrow> s' = s"
  by (auto simp: escrow_split_def ledger_effects split: if_splits option.splits)

text \<open>The host's clock and identifier source are never replaced; the counters only grow.\<close>

lemma ledger_exec_host [simp]:
  "clock (ledger_exec op s) = clock s" "uuid_src (ledger_exec op s) = uuid_src s"
  by (cases op; auto simp: ledger_defs ledger_effects split: if_splits option.splits)+

lemma ledger_exec_uuids: "uuids s \<le> uuids (ledger_exec op s)"
  by (cases op) (auto simp: ledger_defs ledger_effects split: if_splits option.splits)

end
