(* ===== verification/Ledger_Props.thy ===== *)
theory Ledger_Props
  imports Ledger
begin

text \<open>
  What makes the ledger correct: its invariant and that every method keeps it, conservation of
  money, the audit trail (replaying an account's transactions gives its balance), idempotent credits
  and locks, and that an escrow is resolved at most once.
\<close>

section \<open>What a successful call writes\<close>

abbreviation fresh_escrow_id :: "ledger \<Rightarrow> string" where
  "fresh_escrow_id s \<equiv> prefixed ''esc-'' (uuid_src s (uuids s))"

lemma create_account_ok:
  assumes "create_account a b s = (Inr acc, s')"
  shows "0 \<le> b" "dget (accounts s) a = None" "account_id acc = a" "balance acc = b"
    "accounts s' = dput (accounts s) a acc" "escrows s' = escrows s"
    "locked_escrow_by_task s' = locked_escrow_by_task s" "credit_refs s' = credit_refs s"
    "dget_or (transactions s') x [] =
       (if x = a \<and> 0 < b
        then dget_or (transactions s) a [] @
          [\<lparr>tx_id = prefixed ''tx-'' (uuid_src s (uuids s)), tx_type = Credit, tx_amount = b, balance_after = b,
            reference = ''initial_balance'', timestamp = created_at acc\<rparr>]
        else dget_or (transactions s) x [])"
  using assms
  by (auto simp: create_account_def ledger_effects dget_or_def split: if_splits option.splits)

lemma credit_ok:
  assumes "credit a n r s = (Inr rc, s')" and "dget (credit_refs s) (a, r) = None"
  obtains acc tx where "0 < n" "dget (accounts s) a = Some acc" "cr_balance_after rc = balance acc + n"
    "cr_tx_id rc = tx_id tx" "tx_type tx = Credit" "tx_amount tx = n"
    "balance_after tx = balance acc + n" "reference tx = r"
    "accounts s' = dput (accounts s) a (acc\<lparr>balance := balance acc + n\<rparr>)"
    "transactions s' = dput (transactions s) a (dget_or (transactions s) a [] @ [tx])"
    "credit_refs s' = dput (credit_refs s) (a, r) tx" "escrows s' = escrows s"
    "locked_escrow_by_task s' = locked_escrow_by_task s"
proof -
  let ?t = "\<lparr>tx_id = prefixed ''tx-'' (uuid_src s (uuids s)), tx_type = Credit, tx_amount = n,
    balance_after = balance (the (dget (accounts s) a)) + n, reference = r,
    timestamp = to_seconds (clock s (ticks s))\<rparr>"
  show thesis
    by (rule that [of "the (dget (accounts s) a)" ?t]; use assms in
      \<open>force simp: credit_def ledger_effects split: if_splits option.splits\<close>)
qed

lemma credit_ok_again:
  assumes "credit a n r s = (Inr rc, s')" and "dget (credit_refs s) (a, r) = Some tx"
  shows "s' = s" "tx_amount tx = n" "rc = \<lparr>cr_tx_id = tx_id tx, cr_balance_after = balance_after tx\<rparr>"
  using assms by (auto simp: credit_def ledger_effects split: if_splits option.splits)

lemma escrow_lock_ok:
  assumes "escrow_lock p n t s = (Inr rc, s')" and "dget (locked_escrow_by_task s) (p, t) = None"
  obtains acc e tx where "0 < n" "dget (accounts s) p = Some acc" "n \<le> balance acc"
    "rc = \<lparr>lk_escrow_id = fresh_escrow_id s, lk_amount = n, lk_task_id = t, lk_status = Locked\<rparr>"
    "escrow_id e = fresh_escrow_id s" "payer_account_id e = p" "escrow_amount e = n"
    "escrow_task_id e = t" "escrow_status e = Locked" "resolved_at e = None"
    "tx_type tx = Debit" "tx_amount tx = n" "balance_after tx = balance acc - n"
    "accounts s' = dput (accounts s) p (acc\<lparr>balance := balance acc - n\<rparr>)"
    "transactions s' = dput (transactions s) p (dget_or (transactions s) p [] @ [tx])"
    "escrows s' = dput (escrows s) (fresh_escrow_id s) e" "credit_refs s' = credit_refs s"
    "locked_escrow_by_task s' = dput (locked_escrow_by_task s) (p, t) (fresh_escrow_id s)"
    "uuids s < uuids s'"
proof -
  let ?e = "\<lparr>escrow_id = fresh_escrow_id s, payer_account_id = p, escrow_amount = n,
    escrow_task_id = t, escrow_status = Locked,
    escrow_created_at = to_seconds (clock s (ticks s)), resolved_at = None\<rparr>"
  let ?t = "\<lparr>tx_id = prefixed ''tx-'' (uuid_src s (Suc (uuids s))), tx_type = Debit, tx_amount = n,
    balance_after = balance (the (dget (accounts s) p)) - n, reference = prefixed ''escrow_lock:'' t,
    timestamp = to_seconds (clock s (Suc (ticks s)))\<rparr>"
  show thesis
    by (rule that [of "the (dget (accounts s) p)" ?e ?t]; use assms in
      \<open>force simp: escrow_lock_def ledger_effects split: if_splits option.splits\<close>)
qed

lemma escrow_lock_ok_again:
  assumes "escrow_lock p n t s = (Inr rc, s')" and "dget (locked_escrow_by_task s) (p, t) = Some k"
  shows "s' = s" "\<exists>e. dget (escrows s) k = Some e \<and> escrow_amount e = n \<and> lk_escrow_id rc = escrow_id e"
  using assms by (auto simp: escrow_lock_def ledger_effects split: if_splits option.splits)

lemma escrow_release_ok:
  assumes "escrow_release eid r s = (Inr rc, s')"
  obtains e acc tx now where "dget (escrows s) eid = Some e" "escrow_status e = Locked"
    "dget (accounts s) r = Some acc"
    "rc = \<lparr>rl_escrow_id = eid, rl_status = Released, rl_amount = escrow_amount e, rl_recipient = r\<rparr>"
    "tx_type tx = Credit" "tx_amount tx = escrow_amount e" "balance_after tx = balance acc + escrow_amount e"
    "accounts s' = dput (accounts s) r (acc\<lparr>balance := balance acc + escrow_amount e\<rparr>)"
    "transactions s' = dput (transactions s) r (dget_or (transactions s) r [] @ [tx])"
    "escrows s' = dput (escrows s) eid (e\<lparr>escrow_status := Released, resolved_at := Some now\<rparr>)"
    "credit_refs s' = credit_refs s"
    "locked_escrow_by_task s' = dpop (locked_escrow_by_task s) (payer_account_id e, escrow_task_id e)"
proof -
  let ?e = "the (dget (escrows s) eid)"
  let ?t = "\<lparr>tx_id = prefixed ''tx-'' (uuid_src s (uuids s)), tx_type = Credit, tx_amount = escrow_amount ?e,
    balance_after = balance (the (dget (accounts s) r)) + escrow_amount ?e,
    reference = prefixed ''escrow_release:'' eid, timestamp = to_seconds (clock s (ticks s))\<rparr>"
  show thesis
    by (rule that [of ?e "the (dget (accounts s) r)" ?t
                    "to_seconds (clock s (Suc (ticks s)))"]; use assms in
      \<open>force simp: escrow_release_def ledger_effects split: if_splits option.splits\<close>)
qed

lemma escrow_split_ok:
  assumes "escrow_split eid w pct p s = (Inr rc, s')"
  obtains e wacc pacc wa pa wtx ptx now where "0 \<le> pct" "pct \<le> 100"
    "dget (escrows s) eid = Some e" "escrow_status e = Locked"
    "dget (accounts s) w = Some wacc" "dget (accounts s) p = Some pacc"
    "wa = split_amount (escrow_amount e) pct" "pa = escrow_amount e - wa"
    "rc = \<lparr>sp_escrow_id = eid, sp_status = Split, sp_worker_amount = wa, sp_poster_amount = pa,
           sp_worker_pct = pct\<rparr>"
    "tx_type wtx = Credit" "tx_amount wtx = wa" "balance_after wtx = balance wacc + wa"
    "tx_type ptx = Credit" "tx_amount ptx = pa" "balance_after ptx = balance pacc + pa"
    "accounts s' = dput (dput (accounts s) w (wacc\<lparr>balance := balance wacc + wa\<rparr>))
                     p (pacc\<lparr>balance := balance pacc + pa\<rparr>)"
    "transactions s' =
       (let ts = dput (transactions s) w (dget_or (transactions s) w [] @ [wtx])
        in dput ts p (dget_or ts p [] @ [ptx]))"
    "escrows s' = dput (escrows s) eid (e\<lparr>escrow_status := Split, resolved_at := Some now\<rparr>)"
    "credit_refs s' = credit_refs s"
    "locked_escrow_by_task s' = dpop (locked_escrow_by_task s) (payer_account_id e, escrow_task_id e)"
proof -
  let ?e = "the (dget (escrows s) eid)"
  let ?wa = "split_amount (escrow_amount ?e) pct"
  let ?pa = "escrow_amount ?e - ?wa"
  let ?w = "\<lparr>tx_id = prefixed ''tx-'' (uuid_src s (uuids s)), tx_type = Credit, tx_amount = ?wa,
    balance_after = balance (the (dget (accounts s) w)) + ?wa,
    reference = prefixed ''escrow_split_worker:'' eid, timestamp = to_seconds (clock s (ticks s))\<rparr>"
  let ?p = "\<lparr>tx_id = prefixed ''tx-'' (uuid_src s (Suc (uuids s))), tx_type = Credit, tx_amount = ?pa,
    balance_after = balance (the (dget (accounts s) p)) + ?pa,
    reference = prefixed ''escrow_split_poster:'' eid, timestamp = to_seconds (clock s (Suc (ticks s)))\<rparr>"
  show thesis
    by (rule that [of ?e "the (dget (accounts s) w)" "the (dget (accounts s) p)" ?wa ?pa ?w ?p
                    "to_seconds (clock s (Suc (Suc (ticks s))))"];
        use assms in \<open>force simp: escrow_split_def ledger_effects split: if_splits option.splits\<close>)
qed

section \<open>The invariant\<close>

definition accounts_ok :: "ledger \<Rightarrow> bool" where
  "accounts_ok s \<longleftrightarrow> dict_ok (accounts s) \<and>
     (\<forall>a acc. dget (accounts s) a = Some acc \<longrightarrow> account_id acc = a \<and> 0 \<le> balance acc)"

definition escrows_ok :: "ledger \<Rightarrow> bool" where
  "escrows_ok s \<longleftrightarrow> dict_ok (escrows s) \<and>
     (\<forall>k e. dget (escrows s) k = Some e \<longrightarrow> escrow_id e = k \<and> 0 < escrow_amount e \<and>
        (\<exists>i<uuids s. k = prefixed ''esc-'' (uuid_src s i)))"

text \<open>The index lists exactly the locked escrows, by payer and task.\<close>

definition index_ok :: "ledger \<Rightarrow> bool" where
  "index_ok s \<longleftrightarrow>
     (\<forall>p t k. dget (locked_escrow_by_task s) (p, t) = Some k \<longleftrightarrow>
        (\<exists>e. dget (escrows s) k = Some e \<and> escrow_status e = Locked \<and>
             payer_account_id e = p \<and> escrow_task_id e = t))"

lemma index_okD:
  "index_ok s \<Longrightarrow> dget (escrows s) k = Some e \<Longrightarrow> escrow_status e = Locked \<Longrightarrow>
   payer_account_id e = p \<Longrightarrow> escrow_task_id e = t \<Longrightarrow>
   dget (locked_escrow_by_task s) (p, t) = Some k"
  by (auto simp: index_ok_def)

definition ledger_inv :: "ledger \<Rightarrow> bool" where
  "ledger_inv s \<longleftrightarrow> accounts_ok s \<and> escrows_ok s \<and> index_ok s"

lemma split_amount_bounds:
  assumes "0 \<le> n" "0 \<le> pct" "pct \<le> 100"
  shows "0 \<le> split_amount n pct" "split_amount n pct \<le> n"
proof -
  show "0 \<le> split_amount n pct"
    using assms by (simp add: split_amount_def pos_imp_zdiv_nonneg_iff)
  have "n * pct div 100 \<le> n * 100 div 100"
    using assms by (intro zdiv_mono1 mult_left_mono) auto
  then show "split_amount n pct \<le> n"
    by (simp add: split_amount_def)
qed

lemma fresh_escrow_id_new:
  assumes "uuid_unique s" and "escrows_ok s"
  shows "dget (escrows s) (fresh_escrow_id s) = None"
proof (rule ccontr)
  assume "dget (escrows s) (fresh_escrow_id s) \<noteq> None"
  then obtain e where "dget (escrows s) (fresh_escrow_id s) = Some e" by auto
  with assms(2) have "\<exists>i<uuids s. fresh_escrow_id s = prefixed ''esc-'' (uuid_src s i)"
    by (simp only: escrows_ok_def)
  then obtain i where "i < uuids s" "uuid_src s (uuids s) = uuid_src s i" by auto
  with assms(1) show False
    by (auto simp: uuid_unique_def dest: injD)
qed

section \<open>The ledger's transitions\<close>

text \<open>
  The specification of the ledger: which fields each kind of step changes and how. A call either leaves the
  state alone (it raised, or it was a repeated request) or makes exactly one of these steps;
  \<open>ledger_exec_trans\<close> is the refinement.
\<close>

definition account_is :: "account \<Rightarrow> string \<Rightarrow> int \<Rightarrow> bool" where
  "account_is acc a b \<longleftrightarrow> account_id acc = a \<and> balance acc = b"

definition tx_is :: "transaction \<Rightarrow> tx_type \<Rightarrow> int \<Rightarrow> int \<Rightarrow> bool" where
  "tx_is tx ty n after \<longleftrightarrow> tx_type tx = ty \<and> tx_amount tx = n \<and> balance_after tx = after"

definition locked_escrow_is :: "escrow \<Rightarrow> string \<Rightarrow> string \<Rightarrow> int \<Rightarrow> string \<Rightarrow> bool" where
  "locked_escrow_is e k p n t \<longleftrightarrow> escrow_id e = k \<and> payer_account_id e = p \<and> escrow_amount e = n \<and>
     escrow_task_id e = t \<and> escrow_status e = Locked"

inductive ledger_trans :: "ledger \<Rightarrow> ledger_op \<Rightarrow> ledger \<Rightarrow> bool" where
  stutter: "ledger_trans s op s"
| opened: "ledger_trans s (CreateAccount a b) s'"
  if "0 \<le> b" "dget (accounts s) a = None" "account_is acc a b" "tx_is tx Credit b b"
    "accounts s' = dput (accounts s) a acc" "escrows s' = escrows s"
    "locked_escrow_by_task s' = locked_escrow_by_task s" "credit_refs s' = credit_refs s"
    "\<forall>x. dget_or (transactions s') x [] =
       (if x = a \<and> 0 < b then dget_or (transactions s) a [] @ [tx] else dget_or (transactions s) x [])"
    "uuid_src s' = uuid_src s" "uuids s \<le> uuids s'"
| credited: "ledger_trans s (CreditAccount a n r) s'"
  if "dget (credit_refs s) (a, r) = None" "0 < n" "dget (accounts s) a = Some acc"
    "tx_is tx Credit n (balance acc + n)"
    "accounts s' = dput (accounts s) a (acc\<lparr>balance := balance acc + n\<rparr>)"
    "transactions s' = dput (transactions s) a (dget_or (transactions s) a [] @ [tx])"
    "credit_refs s' = dput (credit_refs s) (a, r) tx" "escrows s' = escrows s"
    "locked_escrow_by_task s' = locked_escrow_by_task s"
    "uuid_src s' = uuid_src s" "uuids s \<le> uuids s'"
| locked: "ledger_trans s (LockEscrow p n t) s'"
  if "dget (locked_escrow_by_task s) (p, t) = None" "0 < n" "dget (accounts s) p = Some acc"
    "n \<le> balance acc" "locked_escrow_is e (fresh_escrow_id s) p n t"
    "tx_is tx Debit n (balance acc - n)"
    "accounts s' = dput (accounts s) p (acc\<lparr>balance := balance acc - n\<rparr>)"
    "transactions s' = dput (transactions s) p (dget_or (transactions s) p [] @ [tx])"
    "escrows s' = dput (escrows s) (fresh_escrow_id s) e" "credit_refs s' = credit_refs s"
    "locked_escrow_by_task s' = dput (locked_escrow_by_task s) (p, t) (fresh_escrow_id s)"
    "uuid_src s' = uuid_src s" "uuids s < uuids s'"
| released: "ledger_trans s (ReleaseEscrow eid r) s'"
  if "dget (escrows s) eid = Some e" "escrow_status e = Locked" "dget (accounts s) r = Some acc"
    "tx_is tx Credit (escrow_amount e) (balance acc + escrow_amount e)"
    "accounts s' = dput (accounts s) r (acc\<lparr>balance := balance acc + escrow_amount e\<rparr>)"
    "transactions s' = dput (transactions s) r (dget_or (transactions s) r [] @ [tx])"
    "escrows s' = dput (escrows s) eid (e\<lparr>escrow_status := Released, resolved_at := Some now\<rparr>)"
    "credit_refs s' = credit_refs s"
    "locked_escrow_by_task s' = dpop (locked_escrow_by_task s) (payer_account_id e, escrow_task_id e)"
    "uuid_src s' = uuid_src s" "uuids s \<le> uuids s'"
| split_up: "ledger_trans s (SplitEscrow eid w pct p) s'"
  if "0 \<le> pct" "pct \<le> 100" "dget (escrows s) eid = Some e" "escrow_status e = Locked"
    "dget (accounts s) w = Some wacc" "dget (accounts s) p = Some pacc"
    "tx_is wtx Credit (split_amount (escrow_amount e) pct)
       (balance wacc + split_amount (escrow_amount e) pct)"
    "tx_is ptx Credit (escrow_amount e - split_amount (escrow_amount e) pct)
       (balance pacc + (escrow_amount e - split_amount (escrow_amount e) pct))"
    "accounts s' =
       dput (dput (accounts s) w
              (wacc\<lparr>balance := balance wacc + split_amount (escrow_amount e) pct\<rparr>))
         p (pacc\<lparr>balance := balance pacc + (escrow_amount e - split_amount (escrow_amount e) pct)\<rparr>)"
    "transactions s' =
       (let ts = dput (transactions s) w (dget_or (transactions s) w [] @ [wtx])
        in dput ts p (dget_or ts p [] @ [ptx]))"
    "escrows s' = dput (escrows s) eid (e\<lparr>escrow_status := Split, resolved_at := Some now\<rparr>)"
    "credit_refs s' = credit_refs s"
    "locked_escrow_by_task s' = dpop (locked_escrow_by_task s) (payer_account_id e, escrow_task_id e)"
    "uuid_src s' = uuid_src s" "uuids s \<le> uuids s'"

inductive_cases opened_cases: "ledger_trans s (CreateAccount a b) s'"
inductive_cases credited_cases: "ledger_trans s (CreditAccount a n r) s'"
inductive_cases locked_cases: "ledger_trans s (LockEscrow p n t) s'"
inductive_cases released_cases: "ledger_trans s (ReleaseEscrow eid r) s'"
inductive_cases split_up_cases: "ledger_trans s (SplitEscrow eid w pct p) s'"

lemma create_account_trans: "ledger_trans s (CreateAccount a b) (snd (create_account a b s))"
proof (cases "fst (create_account a b s)")
  case (Inl e)
  then have "create_account a b s = (Inl e, snd (create_account a b s))"
    by (cases "create_account a b s") auto
  from create_account_error [OF this] show ?thesis
    by (simp add: ledger_trans.stutter)
next
  case (Inr acc)
  then have c: "create_account a b s = (Inr acc, snd (create_account a b s))"
    by (cases "create_account a b s") auto
  show ?thesis
    by (rule ledger_trans.opened [where acc = acc and
          tx = "\<lparr>tx_id = prefixed ''tx-'' (uuid_src s (uuids s)), tx_type = Credit, tx_amount = b,
            balance_after = b, reference = ''initial_balance'', timestamp = created_at acc\<rparr>"])
      (use create_account_ok [OF c] ledger_exec_host(2) [of "CreateAccount a b" s]
           ledger_exec_uuids [of s "CreateAccount a b"] in \<open>simp_all add: account_is_def tx_is_def\<close>)
qed

lemma credit_trans: "ledger_trans s (CreditAccount a n r) (snd (credit a n r s))"
proof (cases "\<exists>rc. fst (credit a n r s) = Inr rc \<and> dget (credit_refs s) (a, r) = None")
  case True
  then obtain rc where c: "credit a n r s = (Inr rc, snd (credit a n r s))"
      and none: "dget (credit_refs s) (a, r) = None"
    by (cases "credit a n r s") auto
  show ?thesis
    by (rule credit_ok [OF c none]; rule ledger_trans.credited)
      (use none ledger_exec_host(2) [of "CreditAccount a n r" s]
           ledger_exec_uuids [of s "CreditAccount a n r"] in \<open>simp_all add: tx_is_def\<close>)
next
  case False
  then have "snd (credit a n r s) = s"
    by (auto simp: credit_def ledger_effects split: if_splits option.splits)
  then show ?thesis by (simp add: ledger_trans.stutter)
qed

lemma lock_trans: "ledger_trans s (LockEscrow p n t) (snd (escrow_lock p n t s))"
proof (cases "\<exists>rc. fst (escrow_lock p n t s) = Inr rc \<and> dget (locked_escrow_by_task s) (p, t) = None")
  case True
  then obtain rc where c: "escrow_lock p n t s = (Inr rc, snd (escrow_lock p n t s))"
      and none: "dget (locked_escrow_by_task s) (p, t) = None"
    by (cases "escrow_lock p n t s") auto
  show ?thesis
    by (rule escrow_lock_ok [OF c none]; rule ledger_trans.locked)
      (use none ledger_exec_host(2) [of "LockEscrow p n t" s] in \<open>simp_all add: tx_is_def locked_escrow_is_def\<close>)
next
  case False
  then have "snd (escrow_lock p n t s) = s"
    by (auto simp: escrow_lock_def ledger_effects split: if_splits option.splits)
  then show ?thesis by (simp add: ledger_trans.stutter)
qed

lemma release_trans: "ledger_trans s (ReleaseEscrow eid r) (snd (escrow_release eid r s))"
proof (cases "fst (escrow_release eid r s)")
  case (Inl e)
  then have "escrow_release eid r s = (Inl e, snd (escrow_release eid r s))"
    by (cases "escrow_release eid r s") auto
  from escrow_release_error [OF this] show ?thesis
    by (simp add: ledger_trans.stutter)
next
  case (Inr rc)
  then have c: "escrow_release eid r s = (Inr rc, snd (escrow_release eid r s))"
    by (cases "escrow_release eid r s") auto
  show ?thesis
    by (rule escrow_release_ok [OF c]; rule ledger_trans.released)
      (use ledger_exec_host(2) [of "ReleaseEscrow eid r" s]
           ledger_exec_uuids [of s "ReleaseEscrow eid r"] in \<open>simp_all add: tx_is_def\<close>)
qed

lemma split_trans: "ledger_trans s (SplitEscrow eid w pct p) (snd (escrow_split eid w pct p s))"
proof (cases "fst (escrow_split eid w pct p s)")
  case (Inl e)
  then have "escrow_split eid w pct p s = (Inl e, snd (escrow_split eid w pct p s))"
    by (cases "escrow_split eid w pct p s") auto
  from escrow_split_error [OF this] show ?thesis
    by (simp add: ledger_trans.stutter)
next
  case (Inr rc)
  then have c: "escrow_split eid w pct p s = (Inr rc, snd (escrow_split eid w pct p s))"
    by (cases "escrow_split eid w pct p s") auto
  show ?thesis
    by (rule escrow_split_ok [OF c]; rule ledger_trans.split_up)
      (use ledger_exec_host(2) [of "SplitEscrow eid w pct p" s]
           ledger_exec_uuids [of s "SplitEscrow eid w pct p"] in \<open>simp_all add: tx_is_def Let_def\<close>)
qed

lemma ledger_exec_trans: "ledger_trans s op (ledger_exec op s)"
  by (cases op)
    (simp_all add: create_account_trans credit_trans lock_trans release_trans split_trans)

section \<open>Invariant of every step\<close>

lemma trans_accounts_ok:
  "ledger_trans s op s' \<Longrightarrow> accounts_ok s \<Longrightarrow> escrows_ok s \<Longrightarrow> accounts_ok s'"
proof (induction rule: ledger_trans.induct)
  case (split_up pct s eid e w wacc p pacc wtx ptx s' now)
  then have "0 < escrow_amount e" by (auto simp: escrows_ok_def)
  then show ?case
    using split_up split_amount_bounds [of "escrow_amount e" pct] by (auto simp: accounts_ok_def)
next
  case (released s eid e r acc tx s' now)
  then show ?case by (force simp: accounts_ok_def escrows_ok_def)
qed (auto simp: accounts_ok_def account_is_def)

lemma escrows_ok_put:
  assumes "escrows_ok s" "escrows s' = dput (escrows s) k e'" "escrow_id e' = k" "0 < escrow_amount e'"
    "k = prefixed ''esc-'' (uuid_src s i)" "i < uuids s'" "uuid_src s' = uuid_src s" "uuids s \<le> uuids s'"
  shows "escrows_ok s'"
  unfolding escrows_ok_def
proof (intro conjI allI impI)
  show "dict_ok (escrows s')" using assms by (simp add: escrows_ok_def)
  fix k' e assume e: "dget (escrows s') k' = Some e"
  show "escrow_id e = k'" "0 < escrow_amount e"
    using e assms by (auto simp: escrows_ok_def split: if_splits)
  show "\<exists>i<uuids s'. k' = prefixed ''esc-'' (uuid_src s' i)"
  proof (cases "k' = k")
    case True
    then show ?thesis using assms by auto
  next
    case False
    with e assms obtain j where "j < uuids s" "k' = prefixed ''esc-'' (uuid_src s j)"
      by (auto simp: escrows_ok_def)
    with assms show ?thesis by (auto intro: exI [of _ j])
  qed
qed

lemma escrows_ok_entry:
  assumes "escrows_ok s" "dget (escrows s) k = Some e"
  obtains i where "escrow_id e = k" "0 < escrow_amount e" "i < uuids s"
    "k = prefixed ''esc-'' (uuid_src s i)"
  using assms by (auto simp: escrows_ok_def)

lemma escrows_ok_same:
  "escrows_ok s \<Longrightarrow> escrows s' = escrows s \<Longrightarrow> uuid_src s' = uuid_src s \<Longrightarrow> uuids s \<le> uuids s' \<Longrightarrow>
   escrows_ok s'"
  unfolding escrows_ok_def by (metis less_le_trans)

lemma trans_escrows_ok: "ledger_trans s op s' \<Longrightarrow> escrows_ok s \<Longrightarrow> escrows_ok s'"
proof (induction rule: ledger_trans.induct)
  case (locked s p t n acc e tx s')
  then show ?case
    by (intro escrows_ok_put [of s s' "fresh_escrow_id s" e "uuids s"]) (auto simp: locked_escrow_is_def)
next
  case (released s eid e r acc tx s' now)
  then obtain i where "escrow_id e = eid" "0 < escrow_amount e" "i < uuids s"
      "eid = prefixed ''esc-'' (uuid_src s i)"
    by (blast elim: escrows_ok_entry)
  with released show ?case
    by (intro escrows_ok_put [of s s' eid "e\<lparr>escrow_status := Released, resolved_at := Some now\<rparr>" i])
      simp_all
next
  case (split_up pct s eid e w wacc p pacc wtx ptx s' now)
  then obtain i where "escrow_id e = eid" "0 < escrow_amount e" "i < uuids s"
      "eid = prefixed ''esc-'' (uuid_src s i)"
    by (blast elim: escrows_ok_entry)
  with split_up show ?case
    by (intro escrows_ok_put [of s s' eid "e\<lparr>escrow_status := Split, resolved_at := Some now\<rparr>" i])
      simp_all
qed (auto intro: escrows_ok_same)

text \<open>At most one locked escrow per payer and task.\<close>

lemma locked_escrow_unique:
  assumes "index_ok s" "dget (escrows s) k = Some e" "escrow_status e = Locked"
    and "dget (escrows s) k' = Some e'" "escrow_status e' = Locked"
    and "payer_account_id e' = payer_account_id e" "escrow_task_id e' = escrow_task_id e"
  shows "k' = k"
  using index_okD [OF assms(1-3) refl refl] index_okD [OF assms(1,4,5) assms(6,7)] by simp

lemma index_ok_resolve:
  assumes "index_ok s" "dget (escrows s) eid = Some e" "escrow_status e = Locked"
    "escrows s' = dput (escrows s) eid e'" "escrow_status e' \<noteq> Locked"
    "locked_escrow_by_task s' = dpop (locked_escrow_by_task s) (payer_account_id e, escrow_task_id e)"
  shows "index_ok s'"
  unfolding index_ok_def
proof (intro allI)
  fix p t k
  show "dget (locked_escrow_by_task s') (p, t) = Some k \<longleftrightarrow>
    (\<exists>e. dget (escrows s') k = Some e \<and> escrow_status e = Locked \<and> payer_account_id e = p \<and>
         escrow_task_id e = t)"
  proof (cases "k = eid")
    case True
    with assms index_okD [OF assms(1,2,3) refl refl] show ?thesis
      by (auto simp: index_ok_def)
  next
    case False
    with assms locked_escrow_unique [OF assms(1,2,3), of k] show ?thesis
      by (auto simp: index_ok_def)
  qed
qed

lemma trans_index_ok:
  assumes "ledger_trans s op s'" and "index_ok s" and "escrows_ok s" and "uuid_unique s"
  shows "index_ok s'"
  using assms
proof (induction rule: ledger_trans.induct)
  case (locked s p t n acc e tx s')
  note fresh = fresh_escrow_id_new [OF \<open>uuid_unique s\<close> \<open>escrows_ok s\<close>]
  show ?case
    unfolding index_ok_def
  proof (intro allI)
    fix p' t' k
    show "dget (locked_escrow_by_task s') (p', t') = Some k \<longleftrightarrow>
      (\<exists>e. dget (escrows s') k = Some e \<and> escrow_status e = Locked \<and> payer_account_id e = p' \<and>
           escrow_task_id e = t')"
    proof (cases "k = fresh_escrow_id s")
      case True
      with locked fresh show ?thesis
        by (auto simp: locked_escrow_is_def index_ok_def)
    next
      case False
      with locked show ?thesis
        using index_okD [OF \<open>index_ok s\<close>, of k _ p t] by (auto simp: index_ok_def)
    qed
  qed
next
  case (released s eid e r acc tx s' now)
  then show ?case by (intro index_ok_resolve [of s eid e s']) auto
next
  case (split_up pct s eid e w wacc p pacc wtx ptx s' now)
  then show ?case by (intro index_ok_resolve [of s eid e s']) auto
qed (auto simp: index_ok_def)

lemma ledger_exec_uuid_unique [simp]: "uuid_unique (ledger_exec op s) = uuid_unique s"
  by (simp add: uuid_unique_def)

lemma ledger_inv_exec: "ledger_inv s \<Longrightarrow> uuid_unique s \<Longrightarrow> ledger_inv (ledger_exec op s)"
  using ledger_exec_trans [of s op]
  by (auto simp: ledger_inv_def intro: trans_accounts_ok trans_escrows_ok trans_index_ok)

lemma empty_ledger_fields [simp]:
  "accounts (empty_ledger h) = []" "transactions (empty_ledger h) = []"
  "credit_refs (empty_ledger h) = []" "escrows (empty_ledger h) = []"
  "locked_escrow_by_task (empty_ledger h) = []" "uuid_src (empty_ledger h) = uuid_src h"
  by (simp_all add: empty_ledger_def host.extend_def)

lemma ledger_inv_empty: "ledger_inv (empty_ledger h)"
  by (simp add: ledger_inv_def accounts_ok_def escrows_ok_def index_ok_def)

lemma ledger_reach_uuid_src: "ledger_reach h s \<Longrightarrow> uuid_src s = uuid_src h"
  by (induction rule: ledger_reach.induct) simp_all

lemma ledger_reach_inv:
  assumes "uuid_unique h" and "ledger_reach h s"
  shows "ledger_inv s"
  using assms(2)
proof (induction rule: ledger_reach.induct)
  case ledger_init
  show ?case by (rule ledger_inv_empty)
next
  case (ledger_call s op)
  then have "uuid_unique s"
    using assms(1) ledger_reach_uuid_src by (simp add: uuid_unique_def)
  with ledger_call.IH show ?case by (rule ledger_inv_exec)
qed

section \<open>Money\<close>

definition held :: "escrow \<Rightarrow> int" where
  "held e = (if escrow_status e = Locked then escrow_amount e else 0)"

definition money :: "ledger \<Rightarrow> int" where
  "money s = dsum balance (accounts s) + dsum held (escrows s)"

text \<open>What a call issues: only opening an account and crediting one create money.\<close>

fun issued :: "ledger_op \<Rightarrow> ledger \<Rightarrow> int" where
  "issued (CreateAccount a b) s = (if is_ok (fst (create_account a b s)) then b else 0)"
| "issued (CreditAccount a n r) s =
     (if is_ok (fst (credit a n r s)) \<and> dget (credit_refs s) (a, r) = None then n else 0)"
| "issued _ s = 0"

fun self_split :: "ledger_op \<Rightarrow> bool" where
  "self_split (SplitEscrow e w pct p) = (w = p)"
| "self_split _ = False"

lemma total_escrowed_loop_sum:
  "total_escrowed_loop es acc = acc + sum_list (map held es)"
  by (induction es acc rule: total_escrowed_loop.induct) (auto simp: held_def)

lemma total_escrowed_eq: "total_escrowed s = dsum held (escrows s)"
  by (simp add: total_escrowed_def total_escrowed_loop_sum dsum_def)

lemma money_step_opened:
  assumes "create_account a b s = (Inr acc, s')"
  shows "money s' = money s + b"
  using create_account_ok [OF assms] by (simp add: money_def dsum_put_new)

lemma money_step_credited:
  assumes "credit a n r s = (Inr rc, s')" "dget (credit_refs s) (a, r) = None" "accounts_ok s"
  shows "money s' = money s + n"
  by (rule credit_ok [OF assms(1,2)])
    (use assms(3) in \<open>simp add: money_def dsum_put_old accounts_ok_def\<close>)

lemma money_step_locked:
  assumes "escrow_lock p n t s = (Inr rc, s')" "dget (locked_escrow_by_task s) (p, t) = None"
    "ledger_inv s" "uuid_unique s"
  shows "money s' = money s"
proof (rule escrow_lock_ok [OF assms(1,2)])
  fix acc e tx
  assume a: "dget (accounts s) p = Some acc"
    "accounts s' = dput (accounts s) p (acc\<lparr>balance := balance acc - n\<rparr>)"
    "escrows s' = dput (escrows s) (fresh_escrow_id s) e" "escrow_amount e = n" "escrow_status e = Locked"
  have "dget (escrows s) (fresh_escrow_id s) = None"
    using assms(3,4) by (simp add: fresh_escrow_id_new ledger_inv_def)
  then show ?thesis
    using a assms(3)
    by (simp add: money_def dsum_put_old dsum_put_new held_def ledger_inv_def accounts_ok_def)
qed

lemma money_step_released:
  assumes "escrow_release eid r s = (Inr rc, s')" "ledger_inv s"
  shows "money s' = money s"
  by (rule escrow_release_ok [OF assms(1)])
    (use assms(2) in \<open>simp add: money_def dsum_put_old held_def ledger_inv_def accounts_ok_def escrows_ok_def\<close>)

lemma money_step_split:
  assumes "escrow_split eid w pct p s = (Inr rc, s')" "ledger_inv s"
  shows "money s' = money s - (if w = p then sp_worker_amount rc else 0)"
  by (rule escrow_split_ok [OF assms(1)])
    (use assms(2) in \<open>auto simp: money_def dsum_put_old held_def ledger_inv_def accounts_ok_def
       escrows_ok_def dict_ok_dput\<close>)

lemma money_exec:
  assumes "ledger_inv s" and "uuid_unique s" and "\<not> self_split op"
  shows "money (ledger_exec op s) = money s + issued op s"
proof (cases op)
  case (CreateAccount a b)
  obtain r s' where "create_account a b s = (r, s')" by fastforce
  then show ?thesis
    using CreateAccount by (cases r) (auto dest: create_account_error money_step_opened)
next
  case (CreditAccount a n ref)
  obtain r s' where c: "credit a n ref s = (r, s')" by fastforce
  then show ?thesis
    using CreditAccount assms
    by (cases r; cases "dget (credit_refs s) (a, ref)")
      (auto simp: ledger_inv_def dest: credit_error credit_ok_again(1) money_step_credited)
next
  case (LockEscrow p n t)
  obtain r s' where c: "escrow_lock p n t s = (r, s')" by fastforce
  then show ?thesis
    using LockEscrow assms
    by (cases r; cases "dget (locked_escrow_by_task s) (p, t)")
      (auto dest: escrow_lock_error escrow_lock_ok_again(1) money_step_locked)
next
  case (ReleaseEscrow eid rcp)
  obtain r s' where c: "escrow_release eid rcp s = (r, s')" by fastforce
  then show ?thesis
    using ReleaseEscrow assms by (cases r) (auto dest: escrow_release_error money_step_released)
next
  case (SplitEscrow eid w pct p)
  obtain r s' where c: "escrow_split eid w pct p s = (r, s')" by fastforce
  then show ?thesis
    using SplitEscrow assms by (cases r) (auto dest: escrow_split_error money_step_split)
qed

section \<open>Sequences of calls\<close>

fun ledger_run :: "ledger_op list \<Rightarrow> ledger \<Rightarrow> ledger" where
  "ledger_run [] s = s"
| "ledger_run (op # ops) s = ledger_run ops (ledger_exec op s)"

fun issued_run :: "ledger_op list \<Rightarrow> ledger \<Rightarrow> int" where
  "issued_run [] s = 0"
| "issued_run (op # ops) s = issued op s + issued_run ops (ledger_exec op s)"

lemma ledger_run_uuid_src [simp]: "uuid_src (ledger_run ops s) = uuid_src s"
  by (induction ops arbitrary: s) simp_all

lemma ledger_run_inv: "ledger_inv s \<Longrightarrow> uuid_unique s \<Longrightarrow> ledger_inv (ledger_run ops s)"
  by (induction ops arbitrary: s) (simp_all add: ledger_inv_exec)

lemma money_run:
  "ledger_inv s \<Longrightarrow> uuid_unique s \<Longrightarrow> \<forall>op \<in> set ops. \<not> self_split op \<Longrightarrow>
   money (ledger_run ops s) = money s + issued_run ops s"
  by (induction ops arbitrary: s) (simp_all add: ledger_inv_exec money_exec)

lemma money_empty [simp]: "money (empty_ledger h) = 0"
  by (simp add: money_def)

lemma ledger_reach_run: "ledger_reach h s \<Longrightarrow> ledger_reach h (ledger_run ops s)"
  by (induction ops arbitrary: s) (simp_all add: ledger_reach.ledger_call)

text \<open>An invariant of single steps holds along a run.\<close>

lemma ledger_run_keeps:
  assumes "\<And>s op. P s \<Longrightarrow> ledger_trans s op (ledger_exec op s) \<Longrightarrow> P (ledger_exec op s)" and "P s"
  shows "P (ledger_run ops s)"
  using assms(2) by (induction ops arbitrary: s) (simp_all add: assms(1) ledger_exec_trans)

section \<open>The audit trail\<close>

definition signed_amount :: "transaction \<Rightarrow> int" where
  "signed_amount t = (case tx_type t of Credit \<Rightarrow> tx_amount t | Debit \<Rightarrow> - tx_amount t)"

text \<open>Replay a history from a balance; \<open>None\<close> where a recorded balance does not follow.\<close>

fun replay :: "int \<Rightarrow> transaction list \<Rightarrow> int option" where
  "replay b [] = Some b"
| "replay b (t # ts) =
     (if balance_after t = b + signed_amount t then replay (balance_after t) ts else None)"

definition audit_ok :: "ledger \<Rightarrow> bool" where
  "audit_ok s \<longleftrightarrow>
     (\<forall>a. replay 0 (dget_or (transactions s) a []) =
            Some (case dget (accounts s) a of None \<Rightarrow> 0 | Some acc \<Rightarrow> balance acc))"

lemma replay_append:
  "replay b (ts @ us) = (case replay b ts of None \<Rightarrow> None | Some c \<Rightarrow> replay c us)"
  by (induction ts arbitrary: b) auto

lemma trans_audit_ok:
  "ledger_trans s op s' \<Longrightarrow> \<not> self_split op \<Longrightarrow> audit_ok s \<Longrightarrow> audit_ok s'"
proof (induction rule: ledger_trans.induct)
  case (opened b s a acc tx s')
  then have "replay 0 (dget_or (transactions s) a []) = Some 0"
    by (simp add: audit_ok_def)
  with opened show ?case
    by (auto simp: audit_ok_def account_is_def tx_is_def replay_append signed_amount_def)
next
  case (credited s a r n acc tx s')
  then have "replay 0 (dget_or (transactions s) a []) = Some (balance acc)"
    by (simp add: audit_ok_def)
  with credited show ?case
    by (auto simp: audit_ok_def tx_is_def replay_append signed_amount_def)
next
  case (locked s p t n acc e tx s')
  then have "replay 0 (dget_or (transactions s) p []) = Some (balance acc)"
    by (simp add: audit_ok_def)
  with locked show ?case
    by (auto simp: audit_ok_def tx_is_def replay_append signed_amount_def)
next
  case (released s eid e r acc tx s' now)
  then have "replay 0 (dget_or (transactions s) r []) = Some (balance acc)"
    by (simp add: audit_ok_def)
  with released show ?case
    by (auto simp: audit_ok_def tx_is_def replay_append signed_amount_def)
next
  case (split_up pct s eid e w wacc p pacc wtx ptx s' now)
  then have "replay 0 (dget_or (transactions s) w []) = Some (balance wacc)"
      "replay 0 (dget_or (transactions s) p []) = Some (balance pacc)"
    by (simp_all add: audit_ok_def)
  with split_up show ?case
    by (auto simp: audit_ok_def tx_is_def replay_append signed_amount_def Let_def)
qed simp

lemma audit_ok_run:
  "audit_ok s \<Longrightarrow> \<forall>op \<in> set ops. \<not> self_split op \<Longrightarrow> audit_ok (ledger_run ops s)"
  by (induction ops arbitrary: s) (auto intro: trans_audit_ok [OF ledger_exec_trans])

lemma audit_ok_empty: "audit_ok (empty_ledger h)"
  by (simp add: audit_ok_def dget_or_def)

section \<open>What later calls never undo\<close>

definition resolved_in :: "string \<Rightarrow> ledger \<Rightarrow> bool" where
  "resolved_in eid s \<longleftrightarrow> (\<exists>e. dget (escrows s) eid = Some e \<and> escrow_status e \<noteq> Locked)"

lemma trans_resolved_in:
  "ledger_trans s op s' \<Longrightarrow> resolved_in eid s \<Longrightarrow> escrows_ok s \<Longrightarrow> uuid_unique s \<Longrightarrow> resolved_in eid s'"
proof (induction rule: ledger_trans.induct)
  case (locked s p t n acc e tx s')
  then show ?case
    using fresh_escrow_id_new [of s] by (auto simp: resolved_in_def)
qed (auto simp: resolved_in_def)

lemma run_resolved_in:
  "resolved_in eid s \<Longrightarrow> ledger_inv s \<Longrightarrow> uuid_unique s \<Longrightarrow> resolved_in eid (ledger_run ops s)"
proof (induction ops arbitrary: s)
  case (Cons op ops)
  then have "resolved_in eid (ledger_exec op s)"
    by (intro trans_resolved_in [OF ledger_exec_trans]) (auto simp: ledger_inv_def)
  with Cons show ?case by (simp add: ledger_inv_exec)
qed simp

lemma resolved_in_fails:
  assumes "resolved_in eid s"
  shows "\<not> is_ok (fst (escrow_release eid r s))" "\<not> is_ok (fst (escrow_split eid w pct p s))"
  using assms
  by (auto simp: resolved_in_def escrow_release_def escrow_split_def split: option.splits)

definition credited_with :: "string \<Rightarrow> string \<Rightarrow> transaction \<Rightarrow> ledger \<Rightarrow> bool" where
  "credited_with a r tx s \<longleftrightarrow> dget (credit_refs s) (a, r) = Some tx \<and> dget (accounts s) a \<noteq> None"

lemma trans_credited_with: "ledger_trans s op s' \<Longrightarrow> credited_with a r tx s \<Longrightarrow> credited_with a r tx s'"
  by (induction rule: ledger_trans.induct) (auto simp: credited_with_def)

lemma run_credited_with: "credited_with a r tx s \<Longrightarrow> credited_with a r tx (ledger_run ops s)"
  by (rule ledger_run_keeps) (auto dest: trans_credited_with)

lemma credit_credited_with:
  assumes "credit a n r s = (Inr rc, s')"
  obtains tx where "credited_with a r tx s'" "tx_amount tx = n" "0 < n"
    "rc = \<lparr>cr_tx_id = tx_id tx, cr_balance_after = balance_after tx\<rparr>"
proof (cases "dget (credit_refs s) (a, r)")
  case None
  show thesis
    by (rule credit_ok [OF assms None]; rule that) (auto simp: credited_with_def)
next
  case (Some tx)
  have "0 < n" "dget (accounts s) a \<noteq> None"
    using assms by (auto simp: credit_def split: if_splits option.splits)
  with credit_ok_again [OF assms Some] Some show thesis
    by (intro that [of tx]) (auto simp: credited_with_def)
qed

lemma credit_when_credited:
  assumes "credited_with a r tx s" "0 < m"
  shows "credit a m r s =
    (if tx_amount tx = m then (Inr \<lparr>cr_tx_id = tx_id tx, cr_balance_after = balance_after tx\<rparr>, s)
     else (Inl (ServiceError ''payload_mismatch'' 400), s))"
  using assms by (auto simp: credited_with_def credit_def)

definition locked_at :: "string \<Rightarrow> string \<Rightarrow> int \<Rightarrow> string \<Rightarrow> ledger \<Rightarrow> bool" where
  "locked_at k p n t s \<longleftrightarrow> (\<exists>e. dget (escrows s) k = Some e \<and> locked_escrow_is e k p n t) \<and>
     dget (locked_escrow_by_task s) (p, t) = Some k \<and> dget (accounts s) p \<noteq> None"

fun resolves :: "string \<Rightarrow> ledger_op \<Rightarrow> bool" where
  "resolves k (ReleaseEscrow e r) = (e = k)"
| "resolves k (SplitEscrow e w pct p) = (e = k)"
| "resolves k _ = False"

lemma locked_atD:
  assumes "locked_at k p n t s" "index_ok s" "dget (escrows s) k' = Some e" "escrow_status e = Locked" "k' \<noteq> k"
  shows "(payer_account_id e, escrow_task_id e) \<noteq> (p, t)"
  using assms by (auto simp: locked_at_def dest: index_okD)

lemma trans_locked_at:
  "ledger_trans s op s' \<Longrightarrow> locked_at k p n t s \<Longrightarrow> ledger_inv s \<Longrightarrow> uuid_unique s \<Longrightarrow> \<not> resolves k op \<Longrightarrow>
   locked_at k p n t s'"
proof (induction rule: ledger_trans.induct)
  case (locked s p' t' n' acc e tx s')
  then show ?case
    using fresh_escrow_id_new [of s] by (auto simp: locked_at_def ledger_inv_def)
next
  case (released s eid e r acc tx s' now)
  then show ?case
    using locked_atD [of k p n t s eid e] by (auto simp: locked_at_def ledger_inv_def)
next
  case (split_up pct s eid e w wacc p' pacc wtx ptx s' now)
  then show ?case
    using locked_atD [of k p n t s eid e] by (auto simp: locked_at_def ledger_inv_def)
qed (auto simp: locked_at_def)

lemma trans_keeps_locked:
  "ledger_trans s op s' \<Longrightarrow> \<not> resolves k op \<Longrightarrow> escrows_ok s \<Longrightarrow> uuid_unique s \<Longrightarrow>
   dget (escrows s) k = Some e \<Longrightarrow> dget (escrows s') k = Some e"
proof (induction rule: ledger_trans.induct)
  case (locked s p' t' n' acc e' tx s')
  then show ?case
    using fresh_escrow_id_new [of s] by auto
qed auto

lemma run_locked_at:
  "locked_at k p n t s \<Longrightarrow> ledger_inv s \<Longrightarrow> uuid_unique s \<Longrightarrow> \<forall>op \<in> set ops. \<not> resolves k op \<Longrightarrow>
   locked_at k p n t (ledger_run ops s)"
proof (induction ops arbitrary: s)
  case (Cons op ops)
  then have "locked_at k p n t (ledger_exec op s)"
    by (intro trans_locked_at [OF ledger_exec_trans]) auto
  with Cons show ?case by (simp add: ledger_inv_exec)
qed simp

lemma escrow_lock_locked_at:
  assumes "escrow_lock p n t s = (Inr rc, s')" "ledger_inv s"
  shows "locked_at (lk_escrow_id rc) p n t s'"
    "rc = \<lparr>lk_escrow_id = lk_escrow_id rc, lk_amount = n, lk_task_id = t, lk_status = Locked\<rparr>"
proof (atomize (full), cases "dget (locked_escrow_by_task s) (p, t)")
  case None
  show "locked_at (lk_escrow_id rc) p n t s' \<and>
    rc = \<lparr>lk_escrow_id = lk_escrow_id rc, lk_amount = n, lk_task_id = t, lk_status = Locked\<rparr>"
    by (rule escrow_lock_ok [OF assms(1) None]) (auto simp: locked_at_def locked_escrow_is_def)
next
  case (Some k)
  have "\<exists>e. dget (escrows s) k = Some e \<and> escrow_status e = Locked \<and> payer_account_id e = p \<and>
      escrow_task_id e = t \<and> escrow_id e = k"
    using assms(2) Some by (fastforce simp: ledger_inv_def index_ok_def escrows_ok_def)
  moreover have "s' = s" "dget (accounts s) p \<noteq> None"
    using assms(1) escrow_lock_ok_again [OF assms(1) Some]
    by (auto simp: escrow_lock_def split: if_splits option.splits)
  ultimately show "locked_at (lk_escrow_id rc) p n t s' \<and>
    rc = \<lparr>lk_escrow_id = lk_escrow_id rc, lk_amount = n, lk_task_id = t, lk_status = Locked\<rparr>"
    using assms(1) Some
    by (auto simp: locked_at_def locked_escrow_is_def escrow_lock_def split: if_splits)
qed

lemma escrow_lock_when_locked:
  assumes "locked_at k p n t s" "0 < m"
  shows "escrow_lock p m t s =
    (if m = n then (Inr \<lparr>lk_escrow_id = k, lk_amount = n, lk_task_id = t, lk_status = Locked\<rparr>, s)
     else (Inl (ServiceError ''escrow_already_locked'' 409), s))"
  using assms by (auto simp: locked_at_def locked_escrow_is_def escrow_lock_def)

lemma split_amount_floor:
  "100 * split_amount n pct \<le> n * pct" "n * pct < 100 * split_amount n pct + 100"
  by (simp_all add: split_amount_def)

section \<open>Properties\<close>

definition demo_ops :: "ledger_op list" where
  "demo_ops = [CreateAccount ''p'' 100, CreateAccount ''w'' 0, CreditAccount ''p'' 50 ''salary'',
     LockEscrow ''p'' 70 ''t'']"

definition demo_ledger :: ledger where
  "demo_ledger = ledger_run demo_ops (empty_ledger demo_host)"

lemma demo_ledger_reach: "ledger_reach demo_host demo_ledger"
  by (simp add: demo_ledger_def ledger_reach_run ledger_reach.ledger_init)

text \<open>
  C1: Conservation. Starting from the empty ledger, after any sequence of store calls in which no split
  names one account as both worker and poster, the balances plus the money held in locked escrows equal
  exactly what account openings and credits issued: locks, releases and splits neither create nor destroy
  money, and calls that raise or repeat a request issue nothing.
\<close>
theorem ledger_conserves_money:
  assumes "uuid_unique h" and "\<forall>op \<in> set ops. \<not> self_split op"
  shows "money (ledger_run ops (empty_ledger h)) = issued_run ops (empty_ledger h)"
  using money_run [OF ledger_inv_empty, of h ops] assms by (simp add: uuid_unique_def)

theorem ledger_conserves_money_witness:
  "money (ledger_run (demo_ops @ [SplitEscrow ''esc-uu'' ''w'' 33 ''p'']) (empty_ledger demo_host)) = 150"
proof -
  have "\<forall>op \<in> set (demo_ops @ [SplitEscrow ''esc-uu'' ''w'' 33 ''p'']). \<not> self_split op"
    by (simp add: demo_ops_def)
  moreover have "issued_run (demo_ops @ [SplitEscrow ''esc-uu'' ''w'' 33 ''p'']) (empty_ledger demo_host) = 150"
    by code_simp
  ultimately show ?thesis
    using ledger_conserves_money [of demo_host "demo_ops @ [SplitEscrow ''esc-uu'' ''w'' 33 ''p'']"] by simp
qed

text \<open>
  C2: Solvency. In every ledger the store's methods can reach, no balance is negative, every escrow's amount is
  positive, the figure \<^verbatim>\<open>total_escrowed\<close> reports is the sum of the locked escrows, and a payer has at
  most one locked escrow for a task, the one the index names.
\<close>
theorem ledger_reach_solvent:
  assumes "uuid_unique h" and "ledger_reach h s"
  shows "(\<forall>a acc. dget (accounts s) a = Some acc \<longrightarrow> 0 \<le> balance acc) \<and>
    (\<forall>k e. dget (escrows s) k = Some e \<longrightarrow> 0 < escrow_amount e) \<and>
    total_escrowed s = dsum held (escrows s) \<and>
    (\<forall>k e. dget (escrows s) k = Some e \<and> escrow_status e = Locked \<longrightarrow>
       dget (locked_escrow_by_task s) (payer_account_id e, escrow_task_id e) = Some k)"
  using ledger_reach_inv [OF assms]
  by (auto simp: ledger_inv_def accounts_ok_def escrows_ok_def index_ok_def total_escrowed_eq)

theorem ledger_reach_solvent_witness:
  "ledger_reach demo_host demo_ledger \<and> total_escrowed demo_ledger = 70 \<and>
   dsum held (escrows demo_ledger) = 70"
proof -
  have "total_escrowed demo_ledger = dsum held (escrows demo_ledger)"
    using ledger_reach_solvent [OF demo_host_unique demo_ledger_reach] by blast
  moreover have "total_escrowed demo_ledger = 70" by code_simp
  ultimately show ?thesis using demo_ledger_reach by simp
qed

text \<open>
  C3: Audit trail. After any sequence of calls without a self-split, replaying an account's recorded
  transactions from zero, credits up and debits down, reproduces every recorded \<^verbatim>\<open>balance_after\<close>
  and ends in the account's balance.
\<close>
theorem ledger_audit_trail:
  assumes "\<forall>op \<in> set ops. \<not> self_split op"
    and "get_account a (ledger_run ops (empty_ledger h)) = Some acc"
    and "get_transactions a (ledger_run ops (empty_ledger h)) = Inr txs"
  shows "replay 0 txs = Some (balance acc)"
  using audit_ok_run [OF audit_ok_empty assms(1), of h] assms(2,3)
  by (auto simp: audit_ok_def get_account_def get_transactions_def split: if_splits)

theorem ledger_audit_trail_witness:
  "\<exists>acc txs. get_account ''p'' (ledger_run demo_ops (empty_ledger demo_host)) = Some acc \<and>
     get_transactions ''p'' (ledger_run demo_ops (empty_ledger demo_host)) = Inr txs \<and>
     length txs = 3 \<and> balance acc = 80 \<and> replay 0 txs = Some (balance acc)"
proof -
  obtain acc where a: "get_account ''p'' (ledger_run demo_ops (empty_ledger demo_host)) = Some acc" "balance acc = 80"
  proof -
    have "map_option balance (get_account ''p'' (ledger_run demo_ops (empty_ledger demo_host))) = Some 80"
      by code_simp
    then show thesis using that by auto
  qed
  obtain txs where t: "get_transactions ''p'' (ledger_run demo_ops (empty_ledger demo_host)) = Inr txs" "length txs = 3"
  proof -
    have "(case get_transactions ''p'' (ledger_run demo_ops (empty_ledger demo_host)) of
             Inl e \<Rightarrow> False | Inr txs \<Rightarrow> length txs = 3)"
      by code_simp
    then show thesis using that by (auto split: sum.splits)
  qed
  have "\<forall>op \<in> set demo_ops. \<not> self_split op" by (simp add: demo_ops_def)
  from ledger_audit_trail [OF this a(1) t(1)] a t show ?thesis by auto
qed

text \<open>
  C4: An escrow pays out once. When a release of an escrow has succeeded, then after any further calls every
  release and every split of it fails, whoever is named as recipient. The same holds after a successful split
  (the second conjunct).
\<close>
theorem escrow_resolved_once:
  assumes "ledger_inv s" and "uuid_unique s"
    and "op = ReleaseEscrow eid r \<and> is_ok (fst (escrow_release eid r s)) \<or>
         op = SplitEscrow eid w pct p \<and> is_ok (fst (escrow_split eid w pct p s))"
  shows "\<not> is_ok (fst (escrow_release eid r' (ledger_run ops (ledger_exec op s)))) \<and>
         \<not> is_ok (fst (escrow_split eid w' pct' p' (ledger_run ops (ledger_exec op s))))"
proof -
  have "resolved_in eid (ledger_exec op s)"
    using assms(3)
  proof (elim disjE conjE)
    assume "op = ReleaseEscrow eid r" "is_ok (fst (escrow_release eid r s))"
    then obtain rc s' where "escrow_release eid r s = (Inr rc, s')" "ledger_exec op s = s'"
      by (cases "escrow_release eid r s"; cases "fst (escrow_release eid r s)") auto
    then show ?thesis by (auto elim!: escrow_release_ok simp: resolved_in_def)
  next
    assume "op = SplitEscrow eid w pct p" "is_ok (fst (escrow_split eid w pct p s))"
    then obtain rc s' where "escrow_split eid w pct p s = (Inr rc, s')" "ledger_exec op s = s'"
      by (cases "escrow_split eid w pct p s"; cases "fst (escrow_split eid w pct p s)") auto
    then show ?thesis by (auto elim!: escrow_split_ok simp: resolved_in_def)
  qed
  then show ?thesis
    using assms(1,2) by (intro conjI resolved_in_fails run_resolved_in) (simp_all add: ledger_inv_exec)
qed

theorem escrow_resolved_once_witness:
  "is_ok (fst (escrow_release ''esc-uu'' ''w'' demo_ledger)) \<and>
   \<not> is_ok (fst (escrow_release ''esc-uu'' ''w''
        (ledger_run [] (ledger_exec (ReleaseEscrow ''esc-uu'' ''w'') demo_ledger))))"
proof -
  have ok: "is_ok (fst (escrow_release ''esc-uu'' ''w'' demo_ledger))" by code_simp
  have inv: "ledger_inv demo_ledger" by (rule ledger_reach_inv [OF demo_host_unique demo_ledger_reach])
  have uniq: "uuid_unique demo_ledger"
    using ledger_reach_uuid_src [OF demo_ledger_reach] demo_host_unique by (simp add: uuid_unique_def)
  show ?thesis
    using ok escrow_resolved_once [OF inv uniq, of "ReleaseEscrow ''esc-uu'' ''w''" "''esc-uu''" "''w''"
        undefined undefined undefined "''w''" "[]"] by simp
qed

text \<open>
  Credits are idempotent. Once a credit of an account under a reference has succeeded, then after any further
  calls repeating it returns the very same receipt and changes nothing, and crediting another positive amount
  under the reference is refused with \<^verbatim>\<open>payload_mismatch\<close>, again changing nothing.
\<close>
theorem credit_idempotent:
  assumes "credit a n r s = (Inr rc, s')" and "0 < m"
  shows "credit a m r (ledger_run ops s') =
    (if m = n then (Inr rc, ledger_run ops s')
     else (Inl (ServiceError ''payload_mismatch'' 400), ledger_run ops s'))"
  by (rule credit_credited_with [OF assms(1)])
    (use assms(2) in \<open>simp add: credit_when_credited [OF run_credited_with]\<close>)

theorem credit_idempotent_witness:
  "\<exists>rc s'. credit ''p'' 5 ''bonus'' demo_ledger = (Inr rc, s') \<and> cr_balance_after rc = 85 \<and>
     credit ''p'' 5 ''bonus'' (ledger_run [ReleaseEscrow ''esc-uu'' ''p''] s') =
       (Inr rc, ledger_run [ReleaseEscrow ''esc-uu'' ''p''] s')"
proof -
  have ok: "(case credit ''p'' 5 ''bonus'' demo_ledger of
          (Inr rc, s') \<Rightarrow> cr_balance_after rc = 85 | _ \<Rightarrow> False)"
    by code_simp
  obtain rc s' where c: "credit ''p'' 5 ''bonus'' demo_ledger = (Inr rc, s')" "cr_balance_after rc = 85"
    using ok by (auto split: prod.splits sum.splits)
  from credit_idempotent [OF c(1), of 5 "[ReleaseEscrow ''esc-uu'' ''p'']"] c show ?thesis by auto
qed

text \<open>
  Locks are idempotent while they last. When a lock succeeded, then after any further calls that do not
  resolve that escrow, the same payer locking the same amount for the same task gets the same escrow back and is
  not debited again, and another positive amount is refused with \<^verbatim>\<open>escrow_already_locked\<close>.
\<close>
theorem escrow_lock_idempotent:
  assumes "ledger_inv s" and "uuid_unique s" and "escrow_lock p n t s = (Inr rc, s')"
    and "\<forall>op \<in> set ops. \<not> resolves (lk_escrow_id rc) op" and "0 < m"
  shows "escrow_lock p m t (ledger_run ops s') =
    (if m = n then (Inr rc, ledger_run ops s')
     else (Inl (ServiceError ''escrow_already_locked'' 409), ledger_run ops s'))"
proof -
  have s': "s' = ledger_exec (LockEscrow p n t) s" using assms(3) by simp
  have "ledger_inv s'" "uuid_unique s'"
    using assms(1,2) unfolding s' by (simp_all only: ledger_inv_exec ledger_exec_uuid_unique)
  then have "locked_at (lk_escrow_id rc) p n t (ledger_run ops s')"
    using escrow_lock_locked_at(1) [OF assms(3,1)] assms(4) by (intro run_locked_at)
  from escrow_lock_when_locked [OF this assms(5)] escrow_lock_locked_at(2) [OF assms(3,1)]
  show ?thesis by simp
qed

theorem escrow_lock_idempotent_witness:
  "\<exists>rc s'. escrow_lock ''p'' 10 ''t2'' demo_ledger = (Inr rc, s') \<and>
     escrow_lock ''p'' 10 ''t2'' (ledger_run [ReleaseEscrow ''esc-uu'' ''w''] s') =
       (Inr rc, ledger_run [ReleaseEscrow ''esc-uu'' ''w''] s')"
proof -
  have ok: "(case escrow_lock ''p'' 10 ''t2'' demo_ledger of
          (Inr rc, s') \<Rightarrow> lk_escrow_id rc \<noteq> ''esc-uu'' | _ \<Rightarrow> False)"
    by code_simp
  obtain rc s' where c: "escrow_lock ''p'' 10 ''t2'' demo_ledger = (Inr rc, s')" "lk_escrow_id rc \<noteq> ''esc-uu''"
    using ok by (auto split: prod.splits sum.splits)
  have inv: "ledger_inv demo_ledger" by (rule ledger_reach_inv [OF demo_host_unique demo_ledger_reach])
  have uniq: "uuid_unique demo_ledger"
    using ledger_reach_uuid_src [OF demo_ledger_reach] demo_host_unique by (simp add: uuid_unique_def)
  from escrow_lock_idempotent [OF inv uniq c(1), of "[ReleaseEscrow ''esc-uu'' ''w'']" 10] c
  show ?thesis by auto
qed

text \<open>
  C5: Splits are exact. A successful split of a locked escrow between two different accounts pays the worker the
  floor of the percentage and the poster everything else, so the two shares add up to the escrowed amount, and
  exactly these shares are added to the two balances.
\<close>
theorem escrow_split_exact:
  assumes "escrow_split eid w pct p s = (Inr rc, s')" and "w \<noteq> p"
  shows "\<exists>e wacc pacc. dget (escrows s) eid = Some e \<and> dget (accounts s) w = Some wacc \<and>
    dget (accounts s) p = Some pacc \<and> sp_worker_amount rc + sp_poster_amount rc = escrow_amount e \<and>
    100 * sp_worker_amount rc \<le> escrow_amount e * pct \<and>
    escrow_amount e * pct < 100 * (sp_worker_amount rc + 1) \<and>
    map_option balance (get_account w s') = Some (balance wacc + sp_worker_amount rc) \<and>
    map_option balance (get_account p s') = Some (balance pacc + sp_poster_amount rc)"
  by (rule escrow_split_ok [OF assms(1)])
    (use assms(2) split_amount_floor in \<open>simp add: get_account_def\<close>)

theorem escrow_split_exact_witness:
  "\<exists>rc s'. escrow_split ''esc-uu'' ''w'' 33 ''p'' demo_ledger = (Inr rc, s') \<and>
     sp_worker_amount rc = 23 \<and> sp_poster_amount rc = 47 \<and>
     (\<exists>e. dget (escrows demo_ledger) ''esc-uu'' = Some e \<and> escrow_amount e = 70)"
proof -
  have ok: "(case escrow_split ''esc-uu'' ''w'' 33 ''p'' demo_ledger of
          (Inr rc, s') \<Rightarrow> sp_worker_amount rc = 23 \<and> sp_poster_amount rc = 47 | _ \<Rightarrow> False)"
    by code_simp
  obtain rc s' where c: "escrow_split ''esc-uu'' ''w'' 33 ''p'' demo_ledger = (Inr rc, s')"
    "sp_worker_amount rc = 23" "sp_poster_amount rc = 47"
    using ok by (auto split: prod.splits sum.splits)
  from escrow_split_exact [OF c(1)] c show ?thesis by auto
qed

text \<open>
  C6: The exception to conservation. A split that names one account as worker and as poster writes the two
  balances computed from the same reading one after the other: the worker's share is lost, and the total of
  balances and locked escrows shrinks by exactly that share.
\<close>
theorem self_split_loses_worker_share:
  assumes "ledger_inv s" and "escrow_split eid p pct p s = (Inr rc, s')"
  shows "money s' = money s - sp_worker_amount rc"
  using money_step_split [OF assms(2,1)] by simp

theorem self_split_loses_worker_share_witness:
  "\<exists>rc s'. escrow_split ''esc-uu'' ''p'' 50 ''p'' demo_ledger = (Inr rc, s') \<and>
     sp_worker_amount rc = 35 \<and> money demo_ledger = 150 \<and> money s' = 115"
proof -
  have ok: "(case escrow_split ''esc-uu'' ''p'' 50 ''p'' demo_ledger of
          (Inr rc, s') \<Rightarrow> sp_worker_amount rc = 35 | _ \<Rightarrow> False)"
    by code_simp
  obtain rc s' where c: "escrow_split ''esc-uu'' ''p'' 50 ''p'' demo_ledger = (Inr rc, s')"
    "sp_worker_amount rc = 35"
    using ok by (auto split: prod.splits sum.splits)
  have m: "money demo_ledger = 150" by code_simp
  have inv: "ledger_inv demo_ledger" by (rule ledger_reach_inv [OF demo_host_unique demo_ledger_reach])
  from self_split_loses_worker_share [OF inv c(1)] c m show ?thesis by simp
qed

end
