(* ===== verification/Bank_Api.thy ===== *)
theory Bank_Api
  imports Json Ledger_Props
begin

text \<open>
  The Central Bank's HTTP endpoints, \<^verbatim>\<open>routers/helpers.py\<close>, \<^verbatim>\<open>routers/accounts.py\<close>
  and \<^verbatim>\<open>routers/escrow.py\<close>: who may call what, in which order the checks are made, and which ledger
  method runs. The ledger is reached through the storage protocol, the record \<open>ledger_store\<close>; the Identity
  service is what its two calls end in.
\<close>

section \<open>The storage protocol\<close>

record 's ledger_store =
  ls_create_account :: "string \<Rightarrow> int \<Rightarrow> 's \<Rightarrow> account result \<times> 's"
  ls_get_account :: "string \<Rightarrow> 's \<Rightarrow> account option"
  ls_credit :: "string \<Rightarrow> int \<Rightarrow> string \<Rightarrow> 's \<Rightarrow> credit_receipt result \<times> 's"
  ls_get_transactions :: "string \<Rightarrow> 's \<Rightarrow> transaction list result"
  ls_escrow_lock :: "string \<Rightarrow> int \<Rightarrow> string \<Rightarrow> 's \<Rightarrow> lock_receipt result \<times> 's"
  ls_escrow_release :: "string \<Rightarrow> string \<Rightarrow> 's \<Rightarrow> release_receipt result \<times> 's"
  ls_escrow_split :: "string \<Rightarrow> string \<Rightarrow> int \<Rightarrow> string \<Rightarrow> 's \<Rightarrow> split_receipt result \<times> 's"
  ls_count_accounts :: "'s \<Rightarrow> nat"
  ls_total_escrowed :: "'s \<Rightarrow> int"

definition memory_ledger :: "ledger ledger_store" where
  "memory_ledger =
     \<lparr>ls_create_account = create_account, ls_get_account = get_account, ls_credit = credit,
      ls_get_transactions = get_transactions, ls_escrow_lock = escrow_lock,
      ls_escrow_release = escrow_release, ls_escrow_split = escrow_split,
      ls_count_accounts = count_accounts, ls_total_escrowed = total_escrowed\<rparr>"

section \<open>The application state and the Identity client\<close>

text \<open>
  \<open>identity_client\<close> is \<open>None\<close> before start-up has finished; otherwise what the POST to the Identity
  service with a token and the GET of an agent end in.
\<close>

record bank_app =
  bank_identity :: "((string \<Rightarrow> http_outcome) \<times> (string \<Rightarrow> http_outcome)) option"
  live_platform_id :: "string option"
  configured_platform_id :: string

fun bank_get_agent :: "http_outcome \<Rightarrow> json option result" where
  "bank_get_agent (Response st body) =
     (if st = 200 then and_then (response_json body) (\<lambda>j. Inr (if j = JNull then None else Some j))
      else if st = 404 then Inr None
      else fail ''IDENTITY_SERVICE_ERROR'' 502)"
| "bank_get_agent _ = fail ''IDENTITY_SERVICE_UNAVAILABLE'' 502"

fun bank_verify_jws :: "http_outcome \<Rightarrow> json result" where
  "bank_verify_jws (Response st body) =
     (if st = 200 then response_json body
      else case body of
        Some (JObj d) \<Rightarrow> fail (error_code_of d ''IDENTITY_SERVICE_ERROR'') st
      | _ \<Rightarrow> fail ''IDENTITY_SERVICE_ERROR'' st)"
| "bank_verify_jws _ = fail ''IDENTITY_SERVICE_UNAVAILABLE'' 502"

section \<open>Helpers\<close>

definition verify_jws_token :: "bank_app \<Rightarrow> string \<Rightarrow> (json \<times> json) result" where
  "verify_jws_token app token =
     (case bank_identity app of
        None \<Rightarrow> fail ''service_not_ready'' 503
      | Some (verify, _) \<Rightarrow>
          and_then (bank_verify_jws (verify token)) (\<lambda>j.
          and_then (as_dict j) (\<lambda>answer.
            if \<not> truthy (jget answer ''valid'') then fail ''forbidden'' 403
            else
              and_then (subscript answer ''agent_id'') (\<lambda>agent.
              and_then (subscript answer ''payload'') (\<lambda>payload.
                Inr (agent, payload))))))"

definition require_platform :: "json \<Rightarrow> string \<Rightarrow> unit result" where
  "require_platform agent_id platform_agent_id =
     (if agent_id \<noteq> JStr platform_agent_id then fail ''forbidden'' 403 else Inr ())"

definition get_platform_agent_id :: "bank_app \<Rightarrow> string result" where
  "get_platform_agent_id app =
     (case live_platform_id app of
        Some i \<Rightarrow> Inr i
      | None \<Rightarrow> if configured_platform_id app \<noteq> '''' then Inr (configured_platform_id app)
                else fail ''service_not_ready'' 503)"

definition require_account_owner :: "json \<Rightarrow> string \<Rightarrow> unit result" where
  "require_account_owner verified_agent_id account =
     (if verified_agent_id \<noteq> JStr account then fail ''forbidden'' 403 else Inr ())"

definition body_token :: "json option \<Rightarrow> string result" where
  "body_token body =
     and_then (parse_json_body body) (\<lambda>data.
       (case as_str (jget data ''token'') of
          None \<Rightarrow> fail ''invalid_jws'' 400
        | Some token \<Rightarrow> Inr token))"

definition header_token :: "string \<Rightarrow> string result" where
  "header_token auth_header =
     (case strip_prefix ''Bearer '' auth_header of
        None \<Rightarrow> fail ''invalid_jws'' 400
      | Some token \<Rightarrow> Inr token)"

definition require_ledger :: "'s option \<Rightarrow> 's result" where
  "require_ledger st = (case st of None \<Rightarrow> fail ''service_not_ready'' 503 | Some s \<Rightarrow> Inr s)"

text \<open>\<^verbatim>\<open>payload.get("action")\<close> compared with the endpoint's action.\<close>

definition action_payload :: "string \<Rightarrow> json \<Rightarrow> payload result" where
  "action_payload action j =
     and_then (as_dict j) (\<lambda>p.
       if jget p ''action'' \<noteq> JStr action then fail ''invalid_payload'' 400 else Inr p)"

definition same_or_absent :: "payload \<Rightarrow> string \<Rightarrow> string \<Rightarrow> unit result" where
  "same_or_absent p k url_value =
     (if jget p k \<noteq> JNull \<and> jget p k \<noteq> JStr url_value then fail ''payload_mismatch'' 400 else Inr ())"

section \<open>Escrow endpoints\<close>

text \<open>
  Each endpoint is the checks that do not touch the ledger, which end in the arguments of the ledger call,
  and the call.
\<close>

definition escrow_lock_args :: "bank_app \<Rightarrow> json option \<Rightarrow> (string \<times> int \<times> string) result" where
  "escrow_lock_args app body =
     and_then (body_token body) (\<lambda>token.
     and_then (verify_jws_token app token) (\<lambda>(signer, payload).
     and_then (action_payload ''escrow_lock'' payload) (\<lambda>p.
       (case nonempty_str (jget p ''agent_id'') of
          None \<Rightarrow> fail ''invalid_payload'' 400
        | Some agent_id \<Rightarrow>
            if signer \<noteq> JStr agent_id then fail ''forbidden'' 403
            else (case as_int (jget p ''amount'') of
                None \<Rightarrow> fail ''invalid_amount'' 400
              | Some amount \<Rightarrow>
                  if amount \<le> 0 then fail ''invalid_amount'' 400
                  else (case nonempty_str (jget p ''task_id'') of
                      None \<Rightarrow> fail ''invalid_payload'' 400
                    | Some task_id \<Rightarrow> Inr (agent_id, amount, task_id)))))))"

definition post_escrow_lock ::
    "bank_app \<Rightarrow> 's ledger_store \<Rightarrow> json option \<Rightarrow> 's option \<Rightarrow> lock_receipt result \<times> 's option" where
  "post_escrow_lock app store body st =
     (case escrow_lock_args app body of
        Inl e \<Rightarrow> (Inl e, st)
      | Inr (agent_id, amount, task_id) \<Rightarrow>
          (case require_ledger st of
            Inl e \<Rightarrow> (Inl e, st)
          | Inr s \<Rightarrow> apsnd Some (ls_escrow_lock store agent_id amount task_id s)))"

text \<open>The checks every platform-signed escrow endpoint starts with.\<close>

definition platform_payload :: "bank_app \<Rightarrow> string \<Rightarrow> string \<Rightarrow> payload result" where
  "platform_payload app action token =
     and_then (verify_jws_token app token) (\<lambda>(signer, payload).
     and_then (get_platform_agent_id app) (\<lambda>platform.
     and_then (require_platform signer platform) (\<lambda>_.
       action_payload action payload)))"

definition escrow_release_args :: "bank_app \<Rightarrow> json option \<Rightarrow> string \<Rightarrow> string result" where
  "escrow_release_args app body eid =
     and_then (body_token body) (\<lambda>token.
     and_then (platform_payload app ''escrow_release'' token) (\<lambda>p.
       (case nonempty_str (jget p ''recipient_account_id'') of
          None \<Rightarrow> fail ''invalid_payload'' 400
        | Some recipient \<Rightarrow> and_then (same_or_absent p ''escrow_id'' eid) (\<lambda>_. Inr recipient))))"

definition post_escrow_release ::
    "bank_app \<Rightarrow> 's ledger_store \<Rightarrow> json option \<Rightarrow> string \<Rightarrow> 's option \<Rightarrow>
     release_receipt result \<times> 's option" where
  "post_escrow_release app store body eid st =
     (case escrow_release_args app body eid of
        Inl e \<Rightarrow> (Inl e, st)
      | Inr recipient \<Rightarrow>
          (case require_ledger st of
            Inl e \<Rightarrow> (Inl e, st)
          | Inr s \<Rightarrow> apsnd Some (ls_escrow_release store eid recipient s)))"

definition escrow_split_args ::
    "bank_app \<Rightarrow> json option \<Rightarrow> string \<Rightarrow> (string \<times> int \<times> string) result" where
  "escrow_split_args app body eid =
     and_then (body_token body) (\<lambda>token.
     and_then (platform_payload app ''escrow_split'' token) (\<lambda>p.
       (case nonempty_str (jget p ''worker_account_id'') of
          None \<Rightarrow> fail ''invalid_payload'' 400
        | Some worker \<Rightarrow>
            (case nonempty_str (jget p ''poster_account_id'') of
              None \<Rightarrow> fail ''invalid_payload'' 400
            | Some poster \<Rightarrow>
                (case as_int (jget p ''worker_pct'') of
                  None \<Rightarrow> fail ''invalid_payload'' 400
                | Some pct \<Rightarrow>
                    and_then (same_or_absent p ''escrow_id'' eid) (\<lambda>_. Inr (worker, pct, poster)))))))"

definition post_escrow_split ::
    "bank_app \<Rightarrow> 's ledger_store \<Rightarrow> json option \<Rightarrow> string \<Rightarrow> 's option \<Rightarrow>
     split_receipt result \<times> 's option" where
  "post_escrow_split app store body eid st =
     (case escrow_split_args app body eid of
        Inl e \<Rightarrow> (Inl e, st)
      | Inr (worker, pct, poster) \<Rightarrow>
          (case require_ledger st of
            Inl e \<Rightarrow> (Inl e, st)
          | Inr s \<Rightarrow> apsnd Some (ls_escrow_split store eid worker pct poster s)))"

section \<open>Account endpoints\<close>

text \<open>\<^verbatim>\<open>POST /accounts\<close>: here the ledger is required before the token is verified.\<close>

definition create_account_args :: "bank_app \<Rightarrow> string \<Rightarrow> (string \<times> int) result" where
  "create_account_args app token =
     and_then (verify_jws_token app token) (\<lambda>(caller, payload).
     and_then (get_platform_agent_id app) (\<lambda>platform.
     and_then (action_payload ''create_account'' payload) (\<lambda>p.
       (case nonempty_str (jget p ''agent_id'') of
          None \<Rightarrow> fail ''invalid_payload'' 400
        | Some agent_id \<Rightarrow>
            if caller \<noteq> JStr platform \<and> caller \<noteq> JStr agent_id then fail ''forbidden'' 403
            else if jget p ''initial_balance'' = JNull then fail ''invalid_payload'' 400
            else (case as_int (jget p ''initial_balance'') of
                None \<Rightarrow> fail ''invalid_amount'' 400
              | Some initial \<Rightarrow>
                  if initial < 0 then fail ''invalid_amount'' 400
                  else if caller \<noteq> JStr platform \<and> initial \<noteq> 0 then fail ''forbidden'' 403
                  else (case bank_identity app of
                      None \<Rightarrow> fail ''service_not_ready'' 503
                    | Some (_, agent_lookup) \<Rightarrow>
                        and_then (bank_get_agent (agent_lookup agent_id)) (\<lambda>agent.
                          if agent = None then fail ''agent_not_found'' 404
                          else Inr (agent_id, initial))))))))"

definition post_accounts ::
    "bank_app \<Rightarrow> 's ledger_store \<Rightarrow> json option \<Rightarrow> 's option \<Rightarrow> account result \<times> 's option" where
  "post_accounts app store body st =
     (case body_token body of
        Inl e \<Rightarrow> (Inl e, st)
      | Inr token \<Rightarrow>
          (case require_ledger st of
            Inl e \<Rightarrow> (Inl e, st)
          | Inr s \<Rightarrow>
              (case create_account_args app token of
                Inl e \<Rightarrow> (Inl e, st)
              | Inr (agent_id, initial) \<Rightarrow> apsnd Some (ls_create_account store agent_id initial s))))"

definition credit_args :: "bank_app \<Rightarrow> string \<Rightarrow> string \<Rightarrow> (int \<times> string) result" where
  "credit_args app token account =
     and_then (platform_payload app ''credit'' token) (\<lambda>p.
     and_then (same_or_absent p ''account_id'' account) (\<lambda>_.
       (case as_int (jget p ''amount'') of
          None \<Rightarrow> fail ''invalid_amount'' 400
        | Some amount \<Rightarrow>
            if amount \<le> 0 then fail ''invalid_amount'' 400
            else (case as_str (jget p ''reference'') of
                None \<Rightarrow> fail ''invalid_payload'' 400
              | Some ref \<Rightarrow> Inr (amount, ref)))))"

definition post_credit ::
    "bank_app \<Rightarrow> 's ledger_store \<Rightarrow> json option \<Rightarrow> string \<Rightarrow> 's option \<Rightarrow>
     credit_receipt result \<times> 's option" where
  "post_credit app store body account st =
     (case body_token body of
        Inl e \<Rightarrow> (Inl e, st)
      | Inr token \<Rightarrow>
          (case require_ledger st of
            Inl e \<Rightarrow> (Inl e, st)
          | Inr s \<Rightarrow>
              (case credit_args app token account of
                Inl e \<Rightarrow> (Inl e, st)
              | Inr (amount, ref) \<Rightarrow> apsnd Some (ls_credit store account amount ref s))))"

definition own_account_args :: "bank_app \<Rightarrow> string \<Rightarrow> string \<Rightarrow> string \<Rightarrow> unit result" where
  "own_account_args app action auth_header account =
     and_then (header_token auth_header) (\<lambda>token.
     and_then (verify_jws_token app token) (\<lambda>(signer, payload).
     and_then (require_account_owner signer account) (\<lambda>_.
     and_then (action_payload action payload) (\<lambda>p.
       same_or_absent p ''account_id'' account))))"

definition get_balance ::
    "bank_app \<Rightarrow> 's ledger_store \<Rightarrow> string \<Rightarrow> string \<Rightarrow> 's option \<Rightarrow> account result" where
  "get_balance app store auth_header account st =
     and_then (own_account_args app ''get_balance'' auth_header account) (\<lambda>_.
     and_then (require_ledger st) (\<lambda>s.
       (case ls_get_account store account s of
          None \<Rightarrow> fail ''account_not_found'' 404
        | Some acc \<Rightarrow> Inr acc)))"

definition get_transaction_history ::
    "bank_app \<Rightarrow> 's ledger_store \<Rightarrow> string \<Rightarrow> string \<Rightarrow> 's option \<Rightarrow> transaction list result" where
  "get_transaction_history app store auth_header account st =
     and_then (own_account_args app ''get_transactions'' auth_header account) (\<lambda>_.
     and_then (require_ledger st) (\<lambda>s. ls_get_transactions store account s))"

definition bank_health :: "'s ledger_store \<Rightarrow> 's option \<Rightarrow> nat \<times> int" where
  "bank_health store st =
     (case st of None \<Rightarrow> (0, 0) | Some s \<Rightarrow> (ls_count_accounts store s, ls_total_escrowed store s))"

section \<open>Requests\<close>

text \<open>One request that may change the ledger; reads cannot.\<close>

datatype bank_request =
    PostAccounts "json option"
  | PostCredit "json option" string
  | PostEscrowLock "json option"
  | PostEscrowRelease "json option" string
  | PostEscrowSplit "json option" string

fun bank_serve :: "bank_app \<Rightarrow> 's ledger_store \<Rightarrow> bank_request \<Rightarrow> 's option \<Rightarrow> unit result \<times> 's option" where
  "bank_serve app store (PostAccounts body) st = apfst (map_sum id (\<lambda>_. ())) (post_accounts app store body st)"
| "bank_serve app store (PostCredit body a) st = apfst (map_sum id (\<lambda>_. ())) (post_credit app store body a st)"
| "bank_serve app store (PostEscrowLock body) st =
     apfst (map_sum id (\<lambda>_. ())) (post_escrow_lock app store body st)"
| "bank_serve app store (PostEscrowRelease body eid) st =
     apfst (map_sum id (\<lambda>_. ())) (post_escrow_release app store body eid st)"
| "bank_serve app store (PostEscrowSplit body eid) st =
     apfst (map_sum id (\<lambda>_. ())) (post_escrow_split app store body eid st)"

end
