(* ===== verification/Bank_Api_Props.thy ===== *)
theory Bank_Api_Props
  imports Bank_Api
begin

text \<open>
  What the Central Bank's endpoints promise, whatever the storage behind them: the contract of the storage
  protocol is the locale \<open>ledger_storage\<close>, interpreted on the in-memory ledger.
\<close>

section \<open>The contract of the storage protocol\<close>

definition no_balance_falls :: "('s \<Rightarrow> string \<Rightarrow> int option) \<Rightarrow> 's \<Rightarrow> 's \<Rightarrow> bool" where
  "no_balance_falls bal s s' \<longleftrightarrow>
     (\<forall>a b. bal s a = Some b \<longrightarrow> (\<exists>b'. bal s' a = Some b' \<and> b \<le> b'))"

lemma no_balance_falls_refl [simp]: "no_balance_falls bal s s"
  by (simp add: no_balance_falls_def)

lemma no_balance_fallsD:
  "no_balance_falls bal s s' \<Longrightarrow> bal s a = Some b \<Longrightarrow>
   (case bal s' a of None \<Rightarrow> True | Some b' \<Rightarrow> b' < b) \<Longrightarrow> P"
  by (force simp: no_balance_falls_def)

locale ledger_storage =
  fixes store :: "'s ledger_store"
    and inv :: "'s \<Rightarrow> bool"
    and bal :: "'s \<Rightarrow> string \<Rightarrow> int option"
    and worth :: "'s \<Rightarrow> int"
  assumes create_err: "ls_create_account store a n s = (Inl e, s') \<Longrightarrow> s' = s"
    and credit_err: "ls_credit store a n ref s = (Inl e, s') \<Longrightarrow> s' = s"
    and lock_err: "ls_escrow_lock store p n t s = (Inl e, s') \<Longrightarrow> s' = s"
    and release_err: "ls_escrow_release store k r s = (Inl e, s') \<Longrightarrow> s' = s"
    and split_err: "ls_escrow_split store k w pct p s = (Inl e, s') \<Longrightarrow> s' = s"
    and create_law: "inv s \<Longrightarrow> ls_create_account store a n s = (Inr acc, s') \<Longrightarrow>
          inv s' \<and> no_balance_falls bal s s' \<and> worth s' = worth s + n"
    and credit_law: "inv s \<Longrightarrow> ls_credit store a n ref s = (Inr cr, s') \<Longrightarrow>
          inv s' \<and> no_balance_falls bal s s' \<and> worth s \<le> worth s' \<and> worth s' \<le> worth s + n"
    and lock_law: "inv s \<Longrightarrow> ls_escrow_lock store p n t s = (Inr lk, s') \<Longrightarrow>
          inv s' \<and> (\<forall>a. a \<noteq> p \<longrightarrow> bal s' a = bal s a) \<and> worth s' = worth s"
    and release_law: "inv s \<Longrightarrow> ls_escrow_release store k r s = (Inr rl, s') \<Longrightarrow>
          inv s' \<and> no_balance_falls bal s s' \<and> worth s' = worth s"
    and split_law: "inv s \<Longrightarrow> ls_escrow_split store k w pct p s = (Inr sp, s') \<Longrightarrow>
          inv s' \<and> no_balance_falls bal s s' \<and> worth s' \<le> worth s"

fun request_body :: "bank_request \<Rightarrow> json option" where
  "request_body (PostAccounts body) = body"
| "request_body (PostCredit body a) = body"
| "request_body (PostEscrowLock body) = body"
| "request_body (PostEscrowRelease body k) = body"
| "request_body (PostEscrowSplit body k) = body"

text \<open>The request carries a token the Identity service verified for this signer.\<close>

definition signed_by :: "bank_app \<Rightarrow> bank_request \<Rightarrow> string \<Rightarrow> payload \<Rightarrow> bool" where
  "signed_by app req i p \<longleftrightarrow>
     (\<exists>token. body_token (request_body req) = Inr token \<and>
              verify_jws_token app token = Inr (JStr i, JObj p))"

lemma body_token_Inr [simp]:
  "body_token b = Inr t \<longleftrightarrow> (\<exists>d. b = Some (JObj d) \<and> jget d ''token'' = JStr t)"
  by (auto simp: body_token_def split: option.splits)

lemma action_payload_Inr [simp]:
  "action_payload a j = Inr p \<longleftrightarrow> j = JObj p \<and> jget p ''action'' = JStr a"
  by (auto simp: action_payload_def)

lemma require_platform_Inr [simp]: "require_platform j i = Inr u \<longleftrightarrow> j = JStr i"
  by (simp add: require_platform_def)

lemma platform_payload_Inr:
  "platform_payload app act token = Inr p \<longleftrightarrow>
     (\<exists>i. get_platform_agent_id app = Inr i \<and> verify_jws_token app token = Inr (JStr i, JObj p) \<and>
          jget p ''action'' = JStr act)"
  by (auto simp: platform_payload_def split: prod.splits)

lemma lock_args_signed:
  assumes "escrow_lock_args app body = Inr (a, n, t)"
  shows "\<exists>p. signed_by app (PostEscrowLock body) a p \<and> jget p ''action'' = JStr ''escrow_lock'' \<and>
    jget p ''agent_id'' = JStr a \<and> as_int (jget p ''amount'') = Some n \<and> jget p ''task_id'' = JStr t \<and> 0 < n"
  using assms
  by (force simp: escrow_lock_args_def signed_by_def inr_iffs)

lemma release_args_signed:
  assumes "escrow_release_args app body k = Inr r"
  shows "\<exists>i p. get_platform_agent_id app = Inr i \<and> signed_by app (PostEscrowRelease body k) i p \<and>
    jget p ''action'' = JStr ''escrow_release'' \<and> jget p ''recipient_account_id'' = JStr r"
  using assms
  by (force simp: escrow_release_args_def signed_by_def platform_payload_Inr inr_iffs)

lemma split_args_signed:
  assumes "escrow_split_args app body k = Inr (w, pct, p)"
  shows "\<exists>i d. get_platform_agent_id app = Inr i \<and> signed_by app (PostEscrowSplit body k) i d \<and>
    jget d ''action'' = JStr ''escrow_split''"
  using assms
  by (force simp: escrow_split_args_def signed_by_def platform_payload_Inr inr_iffs)

lemma credit_args_signed:
  assumes "body_token body = Inr token" "credit_args app token a = Inr (n, ref)"
  shows "\<exists>i d. get_platform_agent_id app = Inr i \<and> signed_by app (PostCredit body a) i d \<and>
    jget d ''action'' = JStr ''credit'' \<and> 0 < n"
  using assms
  by (force simp: credit_args_def signed_by_def platform_payload_Inr inr_iffs)

lemma create_args_signed:
  assumes "body_token body = Inr token" "create_account_args app token = Inr (a, n)" "n \<noteq> 0"
  shows "\<exists>i d. get_platform_agent_id app = Inr i \<and> signed_by app (PostAccounts body) i d \<and>
    jget d ''action'' = JStr ''create_account''"
  using assms
  by (force simp: create_account_args_def signed_by_def inr_iffs)

lemma create_args_nonneg: "create_account_args app token = Inr (a, n) \<Longrightarrow> 0 \<le> n"
  by (auto simp: create_account_args_def inr_iffs)

text \<open>A request is refused before the ledger is reached, or is one call of the store.\<close>

inductive serves :: "bank_app \<Rightarrow> 's ledger_store \<Rightarrow> bank_request \<Rightarrow> 's \<Rightarrow> unit result \<Rightarrow> 's \<Rightarrow> bool"
  for app store where
  refused: "serves app store req s (Inl e) s"
| created: "serves app store (PostAccounts body) s (map_sum id (\<lambda>_. ()) r) s'"
  if "body_token body = Inr token" "create_account_args app token = Inr (a, n)"
    "ls_create_account store a n s = (r, s')"
| credits: "serves app store (PostCredit body a) s (map_sum id (\<lambda>_. ()) r) s'"
  if "body_token body = Inr token" "credit_args app token a = Inr (n, ref)"
    "ls_credit store a n ref s = (r, s')"
| locks: "serves app store (PostEscrowLock body) s (map_sum id (\<lambda>_. ()) r) s'"
  if "escrow_lock_args app body = Inr (p, n, t)" "ls_escrow_lock store p n t s = (r, s')"
| releases: "serves app store (PostEscrowRelease body k) s (map_sum id (\<lambda>_. ()) r) s'"
  if "escrow_release_args app body k = Inr rcpt" "ls_escrow_release store k rcpt s = (r, s')"
| splits: "serves app store (PostEscrowSplit body k) s (map_sum id (\<lambda>_. ()) r) s'"
  if "escrow_split_args app body k = Inr (w, pct, p)" "ls_escrow_split store k w pct p s = (r, s')"

lemma bank_serve_serves:
  assumes "bank_serve app store req (Some s) = (r, st')"
  shows "\<exists>s'. st' = Some s' \<and> serves app store req s r s'"
proof (cases req)
  case (PostAccounts body)
  then have *: "post_accounts app store body (Some s) = (q, st') \<Longrightarrow>
      \<exists>s'. st' = Some s' \<and> serves app store req s (map_sum id (\<lambda>_. ()) q) s'" for q
    by (cases "body_token body"; cases "create_account_args app (projr (body_token body))")
      (auto simp: post_accounts_def require_ledger_def apsnd_def map_prod_def serves.refused
        dest: serves.created split: prod.splits simp del: body_token_Inr)
  show ?thesis
    using assms * [of "fst (post_accounts app store body (Some s))"]
    by (cases "post_accounts app store body (Some s)") (simp add: PostAccounts)
next
  case (PostCredit body a)
  then have *: "post_credit app store body a (Some s) = (q, st') \<Longrightarrow>
      \<exists>s'. st' = Some s' \<and> serves app store req s (map_sum id (\<lambda>_. ()) q) s'" for q
    by (cases "body_token body"; cases "credit_args app (projr (body_token body)) a")
      (auto simp: post_credit_def require_ledger_def apsnd_def map_prod_def serves.refused
        dest: serves.credits split: prod.splits simp del: body_token_Inr)
  show ?thesis
    using assms * [of "fst (post_credit app store body a (Some s))"]
    by (cases "post_credit app store body a (Some s)") (simp add: PostCredit)
next
  case (PostEscrowLock body)
  then have *: "post_escrow_lock app store body (Some s) = (q, st') \<Longrightarrow>
      \<exists>s'. st' = Some s' \<and> serves app store req s (map_sum id (\<lambda>_. ()) q) s'" for q
    by (cases "escrow_lock_args app body")
      (auto simp: post_escrow_lock_def require_ledger_def apsnd_def map_prod_def serves.refused
        dest: serves.locks split: prod.splits)
  show ?thesis
    using assms * [of "fst (post_escrow_lock app store body (Some s))"]
    by (cases "post_escrow_lock app store body (Some s)") (simp add: PostEscrowLock)
next
  case (PostEscrowRelease body k)
  then have *: "post_escrow_release app store body k (Some s) = (q, st') \<Longrightarrow>
      \<exists>s'. st' = Some s' \<and> serves app store req s (map_sum id (\<lambda>_. ()) q) s'" for q
    by (cases "escrow_release_args app body k")
      (auto simp: post_escrow_release_def require_ledger_def apsnd_def map_prod_def serves.refused
        dest: serves.releases split: prod.splits)
  show ?thesis
    using assms * [of "fst (post_escrow_release app store body k (Some s))"]
    by (cases "post_escrow_release app store body k (Some s)") (simp add: PostEscrowRelease)
next
  case (PostEscrowSplit body k)
  then have *: "post_escrow_split app store body k (Some s) = (q, st') \<Longrightarrow>
      \<exists>s'. st' = Some s' \<and> serves app store req s (map_sum id (\<lambda>_. ()) q) s'" for q
    by (cases "escrow_split_args app body k")
      (auto simp: post_escrow_split_def require_ledger_def apsnd_def map_prod_def serves.refused
        dest: serves.splits split: prod.splits)
  show ?thesis
    using assms * [of "fst (post_escrow_split app store body k (Some s))"]
    by (cases "post_escrow_split app store body k (Some s)") (simp add: PostEscrowSplit)
qed

context ledger_storage
begin

lemma serves_error: "serves app store req s (Inl e) s' \<Longrightarrow> s' = s"
  by (erule serves.cases)
    (auto simp: map_sum_def split: sum.splits dest: create_err credit_err lock_err release_err split_err)

text \<open>The laws of a call, whether it succeeds or raises.\<close>

lemma create_step:
  assumes "inv s" "ls_create_account store a n s = (r, s')" "0 \<le> n"
  shows "inv s'" "no_balance_falls bal s s'" "worth s' \<le> worth s + n"
  using assms create_err [of a n s] create_law [of s a n] by (atomize (full), cases r) auto

lemma credit_step:
  assumes "inv s" "ls_credit store a n ref s = (r, s')"
  shows "inv s'" "no_balance_falls bal s s'"
  using assms credit_err [of a n ref s] credit_law [of s a n ref] by (atomize (full), cases r) auto

lemma lock_step:
  assumes "inv s" "ls_escrow_lock store p n t s = (r, s')"
  shows "inv s'" "a \<noteq> p \<Longrightarrow> bal s' a = bal s a" "worth s' = worth s"
  using assms lock_err [of p n t s] lock_law [of s p n t] by (atomize (full), cases r) auto

lemma release_step:
  assumes "inv s" "ls_escrow_release store k rcpt s = (r, s')"
  shows "inv s'" "no_balance_falls bal s s'" "worth s' = worth s"
  using assms release_err [of k rcpt s] release_law [of s k rcpt] by (atomize (full), cases r) auto

lemma split_step:
  assumes "inv s" "ls_escrow_split store k w pct p s = (r, s')"
  shows "inv s'" "no_balance_falls bal s s'" "worth s' \<le> worth s"
  using assms split_err [of k w pct p s] split_law [of s k w pct p] by (atomize (full), cases r) auto

lemma serves_keeps_inv: "serves app store req s r s' \<Longrightarrow> inv s \<Longrightarrow> inv s'"
  by (induction rule: serves.induct)
    (auto intro: create_step(1) credit_step(1) lock_step(1) release_step(1) split_step(1)
      dest: create_args_nonneg)

lemma serves_no_fall:
  "serves app store req s r s' \<Longrightarrow> inv s \<Longrightarrow> bal s a = Some b \<Longrightarrow>
   (case bal s' a of None \<Rightarrow> True | Some b' \<Rightarrow> b' < b) \<Longrightarrow>
   \<exists>p. signed_by app req a p \<and> jget p ''action'' = JStr ''escrow_lock'' \<and> jget p ''agent_id'' = JStr a"
proof (induction rule: serves.induct)
  case (created body token a' n s r s')
  from create_step(2) [OF _ created(3) create_args_nonneg [OF created(2)]] created(4-)
  show ?case by (auto dest: no_balance_fallsD)
next
  case (credits body token a' n ref s r s')
  from credit_step(2) [OF _ credits(3)] credits(4-) show ?case by (auto dest: no_balance_fallsD)
next
  case (locks body p n t s r s')
  then have "a = p" using lock_step(2) [OF locks(3,2), of a] by (cases "a = p") auto
  with lock_args_signed [OF locks(1)] show ?case by auto
next
  case (releases body k rcpt s r s')
  from release_step(2) [OF _ releases(2)] releases(3-) show ?case by (auto dest: no_balance_fallsD)
next
  case (splits body k w pct p s r s')
  from split_step(2) [OF _ splits(2)] splits(3-) show ?case by (auto dest: no_balance_fallsD)
qed auto

lemma serves_no_issue:
  "serves app store req s r s' \<Longrightarrow> inv s \<Longrightarrow> worth s < worth s' \<Longrightarrow>
   \<exists>i p. get_platform_agent_id app = Inr i \<and> signed_by app req i p \<and>
     (jget p ''action'' = JStr ''create_account'' \<or> jget p ''action'' = JStr ''credit'')"
proof (induction rule: serves.induct)
  case (created body token a n s r s')
  have "n \<noteq> 0"
    using create_step(3) [OF created(4,3) create_args_nonneg [OF created(2)]] created(5) by auto
  from create_args_signed [OF created(1,2) this] show ?case by blast
next
  case (credits body token a n ref s r s')
  from credit_args_signed [OF credits(1,2)] show ?case by blast
next
  case (locks body p n t s r s')
  from lock_step(3) [OF locks(3,2)] locks(4) show ?case by simp
next
  case (releases body k rcpt s r s')
  from release_step(3) [OF releases(3,2)] releases(4) show ?case by simp
next
  case (splits body k w pct p s r s')
  from split_step(3) [OF splits(3,2)] splits(4) show ?case by simp
qed simp

end

section \<open>The in-memory ledger keeps the contract\<close>

definition ledger_safe :: "ledger \<Rightarrow> bool" where
  "ledger_safe s \<longleftrightarrow> ledger_inv s \<and> uuid_unique s"

definition balance_of :: "ledger \<Rightarrow> string \<Rightarrow> int option" where
  "balance_of s a = map_option balance (get_account a s)"

lemma ledger_safe_exec: "ledger_safe s \<Longrightarrow> ledger_safe (ledger_exec op s)"
  by (simp add: ledger_safe_def ledger_inv_exec)

lemma ledger_safe_call:
  assumes "ledger_safe s"
  shows "create_account a n s = (x1, s') \<Longrightarrow> ledger_safe s'"
    "credit a n r s = (x2, s') \<Longrightarrow> ledger_safe s'"
    "escrow_lock a n r s = (x3, s') \<Longrightarrow> ledger_safe s'"
    "escrow_release k a s = (x4, s') \<Longrightarrow> ledger_safe s'"
    "escrow_split k a n r s = (x5, s') \<Longrightarrow> ledger_safe s'"
  using ledger_safe_exec [OF assms, of "CreateAccount a n"] ledger_safe_exec [OF assms, of "CreditAccount a n r"]
    ledger_safe_exec [OF assms, of "LockEscrow a n r"] ledger_safe_exec [OF assms, of "ReleaseEscrow k a"]
    ledger_safe_exec [OF assms, of "SplitEscrow k a n r"]
  by simp_all

lemma created_no_fall:
  "create_account a n s = (Inr acc, s') \<Longrightarrow> no_balance_falls balance_of s s'"
  using create_account_ok [of a n s acc s']
  by (auto simp: no_balance_falls_def balance_of_def get_account_def)

lemma credited_no_fall:
  assumes "credit a n r s = (Inr cr, s')"
  shows "no_balance_falls balance_of s s'"
proof (cases "dget (credit_refs s) (a, r)")
  case None
  show ?thesis
    by (rule credit_ok [OF assms None]) (auto simp: no_balance_falls_def balance_of_def get_account_def)
qed (simp add: credit_ok_again [OF assms])

lemma credited_worth:
  assumes "ledger_safe s" "credit a n r s = (Inr cr, s')"
  shows "money s \<le> money s' \<and> money s' \<le> money s + n"
proof (cases "dget (credit_refs s) (a, r)")
  case None
  have "0 < n" using assms(2) by (auto simp: credit_def split: if_splits)
  with money_step_credited [OF assms(2) None] assms(1) show ?thesis
    by (simp add: ledger_safe_def ledger_inv_def)
next
  case (Some tx)
  have "0 < n" using assms(2) by (auto simp: credit_def split: if_splits)
  with credit_ok_again [OF assms(2) Some] show ?thesis by simp
qed

lemma locked_worth:
  assumes "ledger_safe s" "escrow_lock p n t s = (Inr lk, s')"
  shows "(\<forall>a. a \<noteq> p \<longrightarrow> balance_of s' a = balance_of s a) \<and> money s' = money s"
proof (cases "dget (locked_escrow_by_task s) (p, t)")
  case None
  have "\<forall>a. a \<noteq> p \<longrightarrow> balance_of s' a = balance_of s a"
    by (rule escrow_lock_ok [OF assms(2) None]) (auto simp: balance_of_def get_account_def)
  with money_step_locked [OF assms(2) None] assms(1) show ?thesis
    by (simp add: ledger_safe_def)
qed (simp add: escrow_lock_ok_again [OF assms(2)])

lemma released_no_fall:
  assumes "ledger_safe s" "escrow_release k r s = (Inr rl, s')"
  shows "no_balance_falls balance_of s s'"
  by (rule escrow_release_ok [OF assms(2)])
    (use assms(1) in \<open>force simp: no_balance_falls_def balance_of_def get_account_def ledger_safe_def
        ledger_inv_def escrows_ok_def\<close>)

lemma released_worth: "ledger_safe s \<Longrightarrow> escrow_release k r s = (Inr rl, s') \<Longrightarrow> money s' = money s"
  by (rule money_step_released) (simp_all add: ledger_safe_def)

lemma split_no_fall:
  assumes "ledger_safe s" "escrow_split k w pct p s = (Inr sp, s')"
  shows "no_balance_falls balance_of s s' \<and> money s' \<le> money s"
proof (rule escrow_split_ok [OF assms(2)])
  fix e wacc pacc wa pa
  assume *: "0 \<le> pct" "pct \<le> 100" "dget (escrows s) k = Some e" "dget (accounts s) w = Some wacc"
    "dget (accounts s) p = Some pacc" "wa = split_amount (escrow_amount e) pct" "pa = escrow_amount e - wa"
    "accounts s' = dput (dput (accounts s) w (wacc\<lparr>balance := balance wacc + wa\<rparr>))
       p (pacc\<lparr>balance := balance pacc + pa\<rparr>)" "sp = \<lparr>sp_escrow_id = k, sp_status = Split,
       sp_worker_amount = wa, sp_poster_amount = pa, sp_worker_pct = pct\<rparr>"
  have "0 < escrow_amount e"
    using * assms(1) by (auto simp: ledger_safe_def ledger_inv_def escrows_ok_def)
  then have wa: "0 \<le> wa" "wa \<le> escrow_amount e"
    using * split_amount_bounds [of "escrow_amount e" pct] by auto
  then have "no_balance_falls balance_of s s'"
    using * by (auto simp: no_balance_falls_def balance_of_def get_account_def)
  with wa money_step_split [OF assms(2)] assms(1) * show ?thesis
    by (simp add: ledger_safe_def)
qed

lemma memory_ledger_sel [simp]:
  "ls_create_account memory_ledger = create_account" "ls_get_account memory_ledger = get_account"
  "ls_credit memory_ledger = credit" "ls_get_transactions memory_ledger = get_transactions"
  "ls_escrow_lock memory_ledger = escrow_lock" "ls_escrow_release memory_ledger = escrow_release"
  "ls_escrow_split memory_ledger = escrow_split"
  by (simp_all add: memory_ledger_def)

interpretation memory: ledger_storage memory_ledger ledger_safe balance_of money
proof (unfold_locales, unfold memory_ledger_sel)
  show "create_account a n s = (Inl e, s') \<Longrightarrow> s' = s" for a n s e s'
    by (rule create_account_error)
  show "credit a n ref s = (Inl e, s') \<Longrightarrow> s' = s" for a n ref s e s'
    by (rule credit_error)
  show "escrow_lock p n t s = (Inl e, s') \<Longrightarrow> s' = s" for p n t s e s'
    by (rule escrow_lock_error)
  show "escrow_release k r s = (Inl e, s') \<Longrightarrow> s' = s" for k r s e s'
    by (rule escrow_release_error)
  show "escrow_split k w pct p s = (Inl e, s') \<Longrightarrow> s' = s" for k w pct p s e s'
    by (rule escrow_split_error)
  show "ledger_safe s \<Longrightarrow> create_account a n s = (Inr acc, s') \<Longrightarrow>
      ledger_safe s' \<and> no_balance_falls balance_of s s' \<and> money s' = money s + n" for s a n acc s'
    using ledger_safe_call(1) created_no_fall money_step_opened by blast
  show "ledger_safe s \<Longrightarrow> credit a n ref s = (Inr cr, s') \<Longrightarrow>
      ledger_safe s' \<and> no_balance_falls balance_of s s' \<and> money s \<le> money s' \<and> money s' \<le> money s + n"
    for s a n ref cr s'
    using ledger_safe_call(2) credited_no_fall credited_worth by blast
  show "ledger_safe s \<Longrightarrow> escrow_lock p n t s = (Inr lk, s') \<Longrightarrow>
      ledger_safe s' \<and> (\<forall>a. a \<noteq> p \<longrightarrow> balance_of s' a = balance_of s a) \<and> money s' = money s"
    for s p n t lk s'
    using ledger_safe_call(3) locked_worth by blast
  show "ledger_safe s \<Longrightarrow> escrow_release k r s = (Inr rl, s') \<Longrightarrow>
      ledger_safe s' \<and> no_balance_falls balance_of s s' \<and> money s' = money s" for s k r rl s'
    using ledger_safe_call(4) released_no_fall released_worth by blast
  show "ledger_safe s \<Longrightarrow> escrow_split k w pct p s = (Inr sp, s') \<Longrightarrow>
      ledger_safe s' \<and> no_balance_falls balance_of s s' \<and> money s' \<le> money s" for s k w pct p sp s'
    using ledger_safe_call(5) split_no_fall by blast
qed

text \<open>What a served request does to the in-memory ledger is nothing or one call of it.\<close>

lemma serves_ledger_exec:
  "serves app memory_ledger req s r s' \<Longrightarrow>
   s' = s \<or> (\<exists>op. s' = ledger_exec op s \<and> (\<forall>k. resolves k op \<longrightarrow>
      (\<exists>i p. get_platform_agent_id app = Inr i \<and> signed_by app req i p)))"
proof (induction rule: serves.induct)
  case (created body token a n s r s')
  then show ?case by (intro disjI2 exI [of _ "CreateAccount a n"]) simp
next
  case (credits body token a n ref s r s')
  then show ?case by (intro disjI2 exI [of _ "CreditAccount a n ref"]) simp
next
  case (locks body p n t s r s')
  then show ?case by (intro disjI2 exI [of _ "LockEscrow p n t"]) simp
next
  case (releases body k rcpt s r s')
  with release_args_signed [OF releases(1)] show ?case
    by (intro disjI2 exI [of _ "ReleaseEscrow k rcpt"]) auto
next
  case (splits body k w pct p s r s')
  with split_args_signed [OF splits(1)] show ?case
    by (intro disjI2 exI [of _ "SplitEscrow k w pct p"]) auto
qed simp

section \<open>Properties\<close>

text \<open>An Identity service for concrete inputs: it verifies exactly the listed tokens.\<close>

definition verified_as :: "string \<Rightarrow> payload \<Rightarrow> http_outcome" where
  "verified_as agent p = Response 200 (Some (JObj
     [(''valid'', JBool True), (''agent_id'', JStr agent), (''payload'', JObj p)]))"

definition demo_identity :: "(string \<times> string \<times> payload) list \<Rightarrow> string \<Rightarrow> http_outcome" where
  "demo_identity toks token =
     (case map_of toks token of
        None \<Rightarrow> Response 200 (Some (JObj [(''valid'', JBool False)]))
      | Some (agent, p) \<Rightarrow> verified_as agent p)"

definition demo_bank_tokens :: "(string \<times> string \<times> payload) list" where
  "demo_bank_tokens =
     [(''lock'', ''p'', [(''action'', JStr ''escrow_lock''), (''agent_id'', JStr ''p''), (''amount'', JInt 30),
        (''task_id'', JStr ''t2'')]),
      (''pay'', ''plat'', [(''action'', JStr ''escrow_release''), (''recipient_account_id'', JStr ''w'')]),
      (''forged'', ''w'', [(''action'', JStr ''escrow_release''), (''recipient_account_id'', JStr ''w'')]),
      (''mint'', ''plat'', [(''action'', JStr ''credit''), (''amount'', JBool True), (''reference'', JStr ''r'')])]"

definition demo_bank_app :: bank_app where
  "demo_bank_app = \<lparr>bank_identity = Some (demo_identity demo_bank_tokens, \<lambda>a. Response 404 None),
     live_platform_id = Some ''plat'', configured_platform_id = []\<rparr>"

definition token_body :: "string \<Rightarrow> json option" where
  "token_body t = Some (JObj [(''token'', JStr t)])"

lemma demo_ledger_safe: "ledger_safe demo_ledger"
  using ledger_reach_inv [OF demo_host_unique demo_ledger_reach] ledger_reach_uuid_src [OF demo_ledger_reach]
    demo_host_unique by (simp add: ledger_safe_def uuid_unique_def)

text \<open>
  C7: A request the Central Bank answers with an error leaves the ledger exactly as it was, whichever check or
  ledger method raised it.
\<close>
theorem bank_errors_change_nothing:
  assumes "bank_serve app memory_ledger req st = (Inl e, st')"
  shows "st' = st"
proof (cases st)
  case None
  with assms show ?thesis
    by (cases req)
      (auto simp: post_accounts_def post_credit_def post_escrow_lock_def post_escrow_release_def
        post_escrow_split_def require_ledger_def split: sum.splits prod.splits)
next
  case (Some s)
  from bank_serve_serves [OF assms [unfolded Some]] obtain s' where
    "st' = Some s'" "serves app memory_ledger req s (Inl e) s'" by blast
  with memory.serves_error Some show ?thesis by blast
qed

theorem bank_errors_change_nothing_witness:
  "bank_serve demo_bank_app memory_ledger (PostEscrowRelease (token_body ''forged'') ''esc-uu'') (Some demo_ledger)
     = (Inl (ServiceError ''forbidden'' 403), Some demo_ledger)"
proof -
  have "fst (bank_serve demo_bank_app memory_ledger (PostEscrowRelease (token_body ''forged'') ''esc-uu'')
      (Some demo_ledger)) = Inl (ServiceError ''forbidden'' 403)"
    by code_simp
  then obtain st' where st': "bank_serve demo_bank_app memory_ledger
      (PostEscrowRelease (token_body ''forged'') ''esc-uu'') (Some demo_ledger)
      = (Inl (ServiceError ''forbidden'' 403), st')"
    by (metis prod.collapse)
  with bank_errors_change_nothing [OF this] show ?thesis by simp
qed

text \<open>
  C8: Nobody but its owner can lower a balance. If a request lowers the balance of an account, it is a request
  whose token the Identity service verified for exactly that account's agent and whose payload says
  \<^verbatim>\<open>escrow_lock\<close> for that agent.
\<close>
theorem only_owner_loses_balance:
  assumes "ledger_safe s" and "bank_serve app memory_ledger req (Some s) = (r, Some s')"
    and "balance_of s a = Some b" and "\<forall>b'. balance_of s' a = Some b' \<longrightarrow> b' < b"
  shows "\<exists>p. signed_by app req a p \<and> jget p ''action'' = JStr ''escrow_lock'' \<and> jget p ''agent_id'' = JStr a"
proof -
  from bank_serve_serves [OF assms(2)] have "serves app memory_ledger req s r s'" by auto
  from memory.serves_no_fall [OF this assms(1,3)] assms(4) show ?thesis
    by (auto split: option.splits)
qed

theorem only_owner_loses_balance_witness:
  "\<exists>r s'. bank_serve demo_bank_app memory_ledger (PostEscrowLock (token_body ''lock'')) (Some demo_ledger)
      = (r, Some s') \<and> balance_of demo_ledger ''p'' = Some 80 \<and> balance_of s' ''p'' = Some 50 \<and>
    (\<exists>p. signed_by demo_bank_app (PostEscrowLock (token_body ''lock'')) ''p'' p)"
proof -
  have ok: "(case bank_serve demo_bank_app memory_ledger (PostEscrowLock (token_body ''lock'')) (Some demo_ledger)
      of (r, Some s') \<Rightarrow> balance_of s' ''p'' = Some 50 | _ \<Rightarrow> False)"
    by code_simp
  obtain r s' where c: "bank_serve demo_bank_app memory_ledger (PostEscrowLock (token_body ''lock''))
      (Some demo_ledger) = (r, Some s')" "balance_of s' ''p'' = Some 50"
    using ok by (auto split: prod.splits option.splits)
  have b: "balance_of demo_ledger ''p'' = Some 80" by code_simp
  from only_owner_loses_balance [OF demo_ledger_safe c(1) b] c b show ?thesis by auto
qed

text \<open>
  C9: Only the platform issues money. If a request raises the total of balances and locked escrows, its token was
  verified for the platform agent and orders an account opening or a credit.
\<close>
theorem only_platform_issues_money:
  assumes "ledger_safe s" and "bank_serve app memory_ledger req (Some s) = (r, Some s')"
    and "money s < money s'"
  shows "\<exists>i p. get_platform_agent_id app = Inr i \<and> signed_by app req i p \<and>
    (jget p ''action'' = JStr ''create_account'' \<or> jget p ''action'' = JStr ''credit'')"
proof -
  from bank_serve_serves [OF assms(2)] have "serves app memory_ledger req s r s'" by auto
  from memory.serves_no_issue [OF this assms(1,3)] show ?thesis .
qed

text \<open>The credit of the witness has \<^verbatim>\<open>"amount": true\<close>, which the endpoint takes for 1.\<close>

theorem only_platform_issues_money_witness:
  "\<exists>r s'. bank_serve demo_bank_app memory_ledger (PostCredit (token_body ''mint'') ''w'') (Some demo_ledger)
      = (r, Some s') \<and> money demo_ledger = 150 \<and> money s' = 151 \<and>
    (\<exists>p. signed_by demo_bank_app (PostCredit (token_body ''mint'') ''w'') ''plat'' p)"
proof -
  have ok: "(case bank_serve demo_bank_app memory_ledger (PostCredit (token_body ''mint'') ''w'') (Some demo_ledger)
      of (r, Some s') \<Rightarrow> money s' = 151 | _ \<Rightarrow> False)"
    by code_simp
  obtain r s' where c: "bank_serve demo_bank_app memory_ledger (PostCredit (token_body ''mint'') ''w'')
      (Some demo_ledger) = (r, Some s')" "money s' = 151"
    using ok by (auto split: prod.splits option.splits)
  have m: "money demo_ledger = 150" by code_simp
  have i: "get_platform_agent_id demo_bank_app = Inr ''plat''" by code_simp
  from only_platform_issues_money [OF demo_ledger_safe c(1)] c m i show ?thesis by auto
qed

text \<open>
  C10: Only the platform resolves an escrow. If an escrow changes in any way while a request is served, the
  request's token was verified for the platform agent.
\<close>
theorem only_platform_resolves_escrow:
  assumes "ledger_safe s" and "bank_serve app memory_ledger req (Some s) = (r, Some s')"
    and "dget (escrows s) k = Some e" and "dget (escrows s') k \<noteq> Some e"
  shows "\<exists>i p. get_platform_agent_id app = Inr i \<and> signed_by app req i p"
proof -
  from bank_serve_serves [OF assms(2)] have "serves app memory_ledger req s r s'" by auto
  then obtain op where "s' = ledger_exec op s"
    and *: "\<forall>k. resolves k op \<longrightarrow> (\<exists>i p. get_platform_agent_id app = Inr i \<and> signed_by app req i p)"
    using serves_ledger_exec assms(3,4) by blast
  then have "resolves k op"
    using trans_keeps_locked [OF ledger_exec_trans, of k op s e] assms
    by (auto simp: ledger_safe_def ledger_inv_def)
  with * show ?thesis by blast
qed

theorem only_platform_resolves_escrow_witness:
  "\<exists>r s'. bank_serve demo_bank_app memory_ledger (PostEscrowRelease (token_body ''pay'') ''esc-uu'')
      (Some demo_ledger) = (r, Some s') \<and> balance_of s' ''w'' = Some 70 \<and>
    (\<exists>p. signed_by demo_bank_app (PostEscrowRelease (token_body ''pay'') ''esc-uu'') ''plat'' p)"
proof -
  have ok: "(case bank_serve demo_bank_app memory_ledger (PostEscrowRelease (token_body ''pay'') ''esc-uu'')
      (Some demo_ledger) of (r, Some s') \<Rightarrow> balance_of s' ''w'' = Some 70 \<and>
         map_option escrow_status (dget (escrows s') ''esc-uu'') = Some Released | _ \<Rightarrow> False)"
    by code_simp
  obtain r s' where c: "bank_serve demo_bank_app memory_ledger (PostEscrowRelease (token_body ''pay'') ''esc-uu'')
      (Some demo_ledger) = (r, Some s')" "balance_of s' ''w'' = Some 70"
      "map_option escrow_status (dget (escrows s') ''esc-uu'') = Some Released"
    using ok by (auto split: prod.splits option.splits)
  have "map_option escrow_status (dget (escrows demo_ledger) ''esc-uu'') = Some Locked" by code_simp
  then obtain e where e: "dget (escrows demo_ledger) ''esc-uu'' = Some e" "escrow_status e = Locked" by auto
  have i: "get_platform_agent_id demo_bank_app = Inr ''plat''" by code_simp
  have "dget (escrows s') ''esc-uu'' \<noteq> Some e" using c(3) e(2) by auto
  from only_platform_resolves_escrow [OF demo_ledger_safe c(1) e(1) this] c i show ?thesis by auto
qed

end
