(* ===== verification/Task_Board.thy ===== *)
theory Task_Board
  imports Task_Auth Bank_Api_Props
begin

text \<open>
  The properties of the Task Board on its in-memory store, whatever the Central Bank client and the Identity
  service do.
\<close>

interpretation mem_board: task_board memory_store task_rows task_db_ok "E\<lparr>be_store := memory_store\<rparr>"
  for E :: "(task_db, 'b) board_env"
  by unfold_locales simp

lemma memory_env: "be_store E = memory_store \<Longrightarrow> E\<lparr>be_store := memory_store\<rparr> = E"
  by simp

lemmas mem_serve_rows = mem_board.board_serve_rows

section \<open>Runs\<close>

definition board_ok :: "(task_db, 'b) board \<Rightarrow> bool" where
  "board_ok w \<longleftrightarrow> task_db_ok (db w) \<and> rows_ok (task_rows (db w))"

lemma serve_ok:
  assumes "be_store E = memory_store" "board_ok w"
  shows "board_ok (board_serve E req w)"
    "row_evolves (task_rows (db w)) (task_rows (db (board_serve E req w)))"
    "board_path E (task_rows (db w), bank w) (task_rows (db (board_serve E req w)), bank (board_serve E req w))"
  using mem_serve_rows [of w E req] assms(2) unfolding memory_env [OF assms(1)] board_ok_def by auto

lemma run_ok:
  assumes "board_run E w w'" "be_store E = memory_store" "board_ok w"
  shows "board_ok w'" "row_evolves (task_rows (db w)) (task_rows (db w'))"
proof -
  have "board_ok w' \<and> row_evolves (task_rows (db w)) (task_rows (db w'))"
    using assms
  proof (induction rule: board_run.induct)
    case (run_request w w' E' req)
    then show ?case using serve_ok [of E' w' req] row_evolves_trans by auto
  qed simp
  then show "board_ok w'" "row_evolves (task_rows (db w)) (task_rows (db w'))" by auto
qed

definition start_board :: "host \<Rightarrow> 'b \<Rightarrow> (task_db, 'b) board" where
  "start_board h b = host.extend h \<lparr>db = empty_task_db, bank = b, disk = []\<rparr>"

lemma start_board_fields [simp]:
  "db (start_board h b) = empty_task_db" "bank (start_board h b) = b"
  by (simp_all add: start_board_def host.defs)

lemma board_ok_start: "board_ok (start_board h b)"
  by (simp add: board_ok_def task_db_ok_def rows_ok_def task_rows_def empty_task_db_def)

section \<open>A board for concrete inputs\<close>

text \<open>A bank that locks under one id and pays everything.\<close>

definition demo_bank :: "string list bank_ops" where
  "demo_bank = \<lparr>bo_lock = (\<lambda>tok b. (Inr (JObj [(''escrow_id'', JStr ''esc-1'')]), b)),
     bo_release = (\<lambda>k r b. (Inr (), b @ [k])), bo_split = (\<lambda>k w p pct b. (Inr (), b @ [k]))\<rparr>"

definition demo_tid :: string where
  "demo_tid = ''t-00000000-0000-4000-8000-000000000000''"

definition demo_claims :: "(string \<times> json) list \<Rightarrow> payload" where
  "demo_claims xs = (''task_id'', JStr demo_tid) # xs"

definition demo_board_tokens :: "(string \<times> string \<times> payload) list" where
  "demo_board_tokens =
     [(''new.t.s'', ''p'', demo_claims [(''action'', JStr ''create_task''), (''poster_id'', JStr ''p''),
        (''title'', JStr ''add''), (''spec'', JStr ''1+1''), (''reward'', JInt 10),
        (''bidding_deadline_seconds'', JInt 60), (''deadline_seconds'', JInt 60),
        (''review_deadline_seconds'', JInt 60)]),
      (''far.t.s'', ''p'', demo_claims [(''action'', JStr ''create_task''), (''poster_id'', JStr ''p''),
        (''title'', JStr ''add''), (''spec'', JStr ''1+1''), (''reward'', JInt 10),
        (''bidding_deadline_seconds'', JInt (10 ^ 12)), (''deadline_seconds'', JInt 60),
        (''review_deadline_seconds'', JInt 60)]),
      (''cancel.t.s'', ''p'', demo_claims [(''action'', JStr ''cancel_task''), (''poster_id'', JStr ''p'')]),
      (''bid.t.s'', ''w'', demo_claims [(''action'', JStr ''submit_bid''), (''bidder_id'', JStr ''w''),
        (''amount'', JInt 9)]),
      (''list.t.s'', ''p'', [(''action'', JStr ''list_bids'')]),
      (''accept.t.s'', ''p'', demo_claims [(''action'', JStr ''accept_bid''), (''poster_id'', JStr ''p''),
        (''bid_id'', JStr ''bid-'')]),
      (''upload.t.s'', ''w'', demo_claims [(''action'', JStr ''upload_asset'')]),
      (''submit.t.s'', ''w'', demo_claims [(''action'', JStr ''submit_deliverable''), (''worker_id'', JStr ''w'')]),
      (''approve.t.s'', ''p'', demo_claims [(''action'', JStr ''approve_task''), (''poster_id'', JStr ''p'')])]"

definition demo_env :: "(task_db, string list) board_env" where
  "demo_env =
     \<lparr>be_store = memory_store, be_bank = demo_bank, be_identity = Some (demo_identity demo_board_tokens),
      be_certificate = (\<lambda>t. CertRejected),
      be_decode = (\<lambda>part. if part = ''h'' then Decoded (JObj [(''kid'', JStr ''p'')])
                    else if part = ''e'' then Decoded (JObj [(''task_id'', JStr demo_tid), (''amount'', JInt 10)])
                    else BadBase64),
      be_platform_id = ''plat'', be_mentions_funds = (\<lambda>c. False), be_storage_root = [''data''],
      be_max_file_size = 100, be_max_files_per_task = 2, be_sha256 = (\<lambda>s. ''hash''),
      be_can_write = (\<lambda>p. True)\<rparr>"

lemma demo_env_store [simp]: "be_store demo_env = memory_store"
  by (simp add: demo_env_def)

definition demo_start :: "(task_db, string list) board" where
  "demo_start = start_board demo_host []"

text \<open>Created, then with one bid, then accepted.\<close>

definition demo_open :: "(task_db, string list) board" where
  "demo_open = board_serve demo_env (CreateTask ''new.t.s'' ''h.e.s'') demo_start"

definition demo_bid :: "(task_db, string list) board" where
  "demo_bid = board_serve demo_env (SubmitBid demo_tid ''bid.t.s'') demo_open"

definition demo_accepted :: "(task_db, string list) board" where
  "demo_accepted = board_serve demo_env (AcceptBid demo_tid ''bid-'' ''accept.t.s'') demo_bid"

lemma demo_runs: "board_ok demo_open" "board_ok demo_bid" "board_ok demo_accepted"
  unfolding demo_accepted_def demo_bid_def demo_open_def demo_start_def
  by (rule serve_ok(1) [OF demo_env_store] board_ok_start)+

lemma demo_statuses:
  "map_option t_status (task_rows (db demo_open) demo_tid) = Some Open"
  "map_option t_bid_count (task_rows (db demo_bid) demo_tid) = Some 1"
  "map_option t_status (task_rows (db demo_accepted) demo_tid) = Some Accepted"
  by code_simp+

lemma demo_run: "board_run demo_env demo_open demo_accepted"
  unfolding demo_accepted_def demo_bid_def
  by (intro run_request run_start) simp_all

section \<open>Properties\<close>

text \<open>
  C11: The lifecycle. Whatever sequence of requests the board serves, a task stays in the store; its status only
  moves along the lifecycle's edges; what was fixed at creation (its identity, poster, reward, escrow, deadlines)
  never changes, an assigned worker stays assigned, and a row that has reached a terminal status never changes
  again.
\<close>
theorem task_lifecycle:
  assumes "be_store E = memory_store" and "board_ok w" and "board_run E w w'"
    and "mem_get_task tid (db w) = Some r"
  shows "\<exists>r'. mem_get_task tid (db w') = Some r' \<and> may_become\<^sup>*\<^sup>* (t_status r) (t_status r') \<and>
    fixed_columns r' = fixed_columns r \<and> (\<forall>wk. t_worker_id r = Some wk \<longrightarrow> t_worker_id r' = Some wk) \<and>
    (terminal (t_status r) \<longrightarrow> r' = r)"
proof -
  have r: "task_rows (db w) tid = Some r" using assms(4) by (simp add: mem_get_task_def task_rows_def)
  with assms(2) have ok: "row_ok tid r" by (simp add: board_ok_def rows_ok_def)
  obtain r' where r': "task_rows (db w') tid = Some r'" "task_edge\<^sup>*\<^sup>* r r'"
    using run_ok(2) [OF assms(3,1,2)] r unfolding row_evolves_def by blast
  show ?thesis
  proof (intro exI conjI allI impI)
    show "mem_get_task tid (db w') = Some r'" using r'(1) by (simp add: mem_get_task_def task_rows_def)
    show "may_become\<^sup>*\<^sup>* (t_status r) (t_status r')" by (rule edges_status [OF r'(2)])
    show "fixed_columns r' = fixed_columns r" by (rule edges_fixed [OF r'(2)])
    show "t_worker_id r' = Some wk" if "t_worker_id r = Some wk" for wk
      by (rule edges_worker [OF r'(2) that ok])
    show "r' = r" if "terminal (t_status r)" by (rule edges_terminal [OF r'(2) that])
  qed
qed

theorem task_lifecycle_witness:
  "\<exists>r r'. mem_get_task demo_tid (db demo_open) = Some r \<and> t_status r = Open \<and>
     mem_get_task demo_tid (db demo_accepted) = Some r' \<and> fixed_columns r' = fixed_columns r"
proof -
  obtain r where r: "mem_get_task demo_tid (db demo_open) = Some r" "t_status r = Open"
    using demo_statuses(1) by (auto simp: mem_get_task_def task_rows_def)
  from task_lifecycle [OF demo_env_store demo_runs(1) demo_run r(1)] r show ?thesis by blast
qed

text \<open>
  C12: Rows are well-formed. Every row of a board that was started empty and has served any requests is stored
  under its own task id, has a positive reward and positive deadlines, and of the columns that may be empty exactly
  those filled that its status calls for: none while open; worker, bid and time when accepted; from there on also
  the time of submission; the time of approval when approved; time and reason of the dispute when disputed; these
  and ruling, its time, summary and percentage, between 0 and 100, when ruled; the time of cancellation, or of
  expiry with the assignment or without it. An escrow is pending only when approved or expired.
\<close>
theorem rows_well_formed:
  assumes "be_store E = memory_store" and "board_run E (start_board h b) w"
    and "mem_get_task tid (db w) = Some r"
  shows "row_ok tid r"
  using run_ok(1) [OF assms(2,1) board_ok_start] assms(3)
  by (simp add: board_ok_def rows_ok_def mem_get_task_def task_rows_def)

theorem rows_well_formed_witness:
  "\<exists>r. mem_get_task demo_tid (db demo_accepted) = Some r \<and> row_ok demo_tid r \<and> t_worker_id r = Some ''w''"
proof -
  have "board_run demo_env (start_board demo_host []) demo_accepted"
    unfolding demo_accepted_def demo_bid_def demo_open_def demo_start_def
    by (intro run_request run_start) simp_all
  moreover have "map_option t_worker_id (mem_get_task demo_tid (db demo_accepted)) = Some (Some ''w'')"
    by code_simp
  ultimately show ?thesis
    using rows_well_formed [OF demo_env_store, of demo_host "[]" demo_accepted demo_tid] by auto
qed

text \<open>
  C13: Authorisation. A task is cancelled, approved, disputed, or a bid on it accepted, only with a token that was
  verified for the task's own poster and orders that action on that task; a deliverable is submitted only with
  one verified for the assigned worker; a ruling is recorded only with one verified for the platform.
\<close>
theorem board_authorisation:
  assumes "be_store E = memory_store" and "board_ok w"
  shows "(cancel_task E tid token w = (Inr resp, w') \<longrightarrow>
      signed_action E token (t_poster_id (resp_row resp)) [''cancel_task''] tid) \<and>
    (approve_task E tid token w = (Inr resp, w') \<longrightarrow>
      signed_action E token (t_poster_id (resp_row resp)) [''approve_task''] tid) \<and>
    (dispute_task E tid token w = (Inr resp, w') \<longrightarrow>
      signed_action E token (t_poster_id (resp_row resp)) [''dispute_task'', ''file_dispute''] tid) \<and>
    (accept_bid E tid k token w = (Inr resp, w') \<longrightarrow>
      signed_action E token (t_poster_id (resp_row resp)) [''accept_bid''] tid) \<and>
    (submit_deliverable E tid token w = (Inr resp, w') \<longrightarrow>
      (\<exists>wk. t_worker_id (resp_row resp) = Some wk \<and> signed_action E token wk [''submit_deliverable''] tid)) \<and>
    (record_ruling E tid token w = (Inr resp, w') \<longrightarrow>
      (\<exists>p. validate_jws_token E token [''record_ruling'', ''submit_ruling''] = Inr (p, be_platform_id E)))"
proof -
  have ok: "rows_ok (task_rows (db w))" using assms(2) by (simp add: board_ok_def)
  note a = mem_board.cancel_answer(1) [OF ok, of E, unfolded memory_env [OF assms(1)]]
    mem_board.approve_answer(1) [OF ok, of E, unfolded memory_env [OF assms(1)]]
    mem_board.dispute_answer(1) [OF ok, of E, unfolded memory_env [OF assms(1)]]
    mem_board.accept_answer(1) [OF ok, of E, unfolded memory_env [OF assms(1)]]
    mem_board.submit_answer(1) [OF ok, of E, unfolded memory_env [OF assms(1)]]
    mem_board.ruling_answer(1) [of E, unfolded memory_env [OF assms(1)]]
  show ?thesis by (intro conjI impI a) 
qed

theorem board_authorisation_witness:
  "\<exists>resp w'. cancel_task demo_env demo_tid ''cancel.t.s'' demo_open = (Inr resp, w') \<and>
     signed_action demo_env ''cancel.t.s'' (t_poster_id (resp_row resp)) [''cancel_task''] demo_tid"
proof -
  have "is_ok (fst (cancel_task demo_env demo_tid ''cancel.t.s'' demo_open))" by code_simp
  then obtain resp w' where "cancel_task demo_env demo_tid ''cancel.t.s'' demo_open = (Inr resp, w')"
    by (cases "cancel_task demo_env demo_tid ''cancel.t.s'' demo_open") (auto simp: is_ok_iff)
  with board_authorisation [OF demo_env_store demo_runs(1), of demo_tid _ resp w'] show ?thesis by blast
qed

end
