(* ===== verification/Board_Cases.thy ===== *)
theory Board_Cases
  imports Task_Board
begin

text \<open>
  The Task Board's harder cases: what deadlines decide, deadlines beyond the calendar, sealed bids, requests that
  interleave with a cancellation, the files of the deliverables, statistics and paging.
\<close>

section \<open>What a deadline decides\<close>

text \<open>The status a row has when it is read at a time.\<close>

definition passed :: "int option \<Rightarrow> int \<Rightarrow> int \<Rightarrow> bool" where
  "passed base seconds now = (case base of None \<Rightarrow> False | Some t \<Rightarrow> to_seconds (t + seconds * 1000000) \<le> now)"

definition due_status :: "task \<Rightarrow> int \<Rightarrow> task_status" where
  "due_status r now =
     (case t_status r of
        Open \<Rightarrow> if t_bid_count r = 0 \<and> passed (Some (t_created_at r)) (t_bidding_deadline_seconds r) now
                then Expired else Open
      | Accepted \<Rightarrow> if passed (t_accepted_at r) (t_deadline_seconds r) now then Expired else Accepted
      | Submitted \<Rightarrow> if passed (t_submitted_at r) (t_review_deadline_seconds r) now then Approved else Submitted
      | st \<Rightarrow> st)"

text \<open>The bidding deadline of a task lies beyond the years \<^verbatim>\<open>datetime\<close> can hold.\<close>

definition beyond_calendar :: "task \<Rightarrow> bool" where
  "beyond_calendar r \<longleftrightarrow> max_time \<le> t_created_at r + t_bidding_deadline_seconds r * 1000000"

context task_board
begin

lemma deadline_passed_status:
  assumes "rows (db w) (t_id task) = Some task"
  shows "\<exists>p now. fst (deadline_passed E task st stamp recipient w) =
    apply_updates [SetStatus st, stamp now, SetEscrowPending p] task"
  by (rule deadline_passed_view [OF assms refl refl, where recipient = recipient and st = st and stamp = stamp]) blast

lemma evaluate_status:
  assumes "rows (db w) (t_id task) = Some task" "evaluate_deadline E task w = (Inr t, w')"
  shows "t_status t = due_status task (clock w (ticks w))"
proof (cases "terminal (t_status task)")
  case True
  with assms(2) show ?thesis by (auto simp: evaluate_deadline_def terminal_def due_status_def)
next
  case False
  obtain w1 where n: "board_now w = (clock w (ticks w), w1)"
    by (simp add: board_now_def read_clock_def)
  have row: "rows (db w1) (t_id task) = Some task"
    using board_now_eq [OF n] assms(1) by simp
  obtain p1 now1 where d1: "fst (deadline_passed E task Expired SetExpiredAt (Some (t_poster_id task)) w1) =
      apply_updates [SetStatus Expired, SetExpiredAt now1, SetEscrowPending p1] task"
    using deadline_passed_status [OF row] by blast
  obtain p2 now2 where d2: "fst (deadline_passed E task Approved SetApprovedAt (t_worker_id task) w1) =
      apply_updates [SetStatus Approved, SetApprovedAt now2, SetEscrowPending p2] task"
    using deadline_passed_status [OF row] by blast
  have e: "t_status (fst (deadline_passed E task Expired SetExpiredAt (Some (t_poster_id task)) w1)) = Expired"
    "t_status (fst (deadline_passed E task Approved SetApprovedAt (t_worker_id task) w1)) = Approved"
    by (simp_all add: d1 d2)
  show ?thesis
    using assms(2) False e
    by (cases "t_status task")
      (auto simp: evaluate_deadline_def retry_pending_escrow_active n terminal_def due_status_def passed_def
        compute_deadline_Some compute_deadline_def apfst_def map_prod_def Let_def
        split: if_splits option.splits prod.splits)
qed

lemma beyond_calendar_fails:
  assumes "t_status task = Open" "beyond_calendar task"
  shows "\<exists>w1. evaluate_deadline E task w = (Inl (PyError ''OverflowError''), w1) \<and> view w1 = view w"
proof -
  obtain now w1 where n: "board_now w = (now, w1)" by fastforce
  have "view w1 = view w" using board_now_eq [OF n] by simp
  moreover have "evaluate_deadline E task w = (Inl (PyError ''OverflowError''), w1)"
    using assms compute_deadline_late
    by (simp add: evaluate_deadline_def retry_pending_escrow_active terminal_def n beyond_calendar_def)
  ultimately show ?thesis by blast
qed

lemma beyond_calendar_load:
  assumes "rows (db w) tid = Some r" "t_status r = Open" "beyond_calendar r"
  shows "\<exists>w1. load_task E tid w = (Inl (PyError ''OverflowError''), w1) \<and> view w1 = view w"
  using beyond_calendar_fails [OF assms(2,3), of w] assms(1) by (simp add: load_task_def get_row)

lemma beyond_calendar_batch:
  "t_status r = Open \<Longrightarrow> beyond_calendar r \<Longrightarrow> r \<in> set rs \<Longrightarrow> \<not> is_ok (fst (evaluate_deadlines_batch E rs w))"
proof (induction rs arbitrary: w)
  case (Cons x xs)
  obtain res w1 where e: "evaluate_deadline E x w = (res, w1)" by fastforce
  show ?case
  proof (cases res)
    case (Inr x')
    then have "x \<noteq> r" using beyond_calendar_fails [OF Cons.prems(1,2), of w] e by auto
    with Cons have "\<not> is_ok (fst (evaluate_deadlines_batch E xs w1))" by simp
    then show ?thesis
      by (cases "evaluate_deadlines_batch E xs w1"; cases "fst (evaluate_deadlines_batch E xs w1)")
        (auto simp: e Inr)
  qed (simp add: e)
qed simp

lemma chain_pure_fails:
  "(\<And>x. \<not> is_ok (fst (f x w))) \<Longrightarrow> \<not> is_ok (fst (chain (r, w) f))"
  by (cases r) auto

lemma beyond_calendar_handlers:
  assumes "rows (db w) tid = Some r" "t_status r = Open" "beyond_calendar r"
  shows "\<not> is_ok (fst (cancel_task E tid token w))" "\<not> is_ok (fst (accept_bid E tid k token w))"
    "\<not> is_ok (fst (submit_bid E tid token w))" "fst (get_task E tid w) = Inl (PyError ''OverflowError'')"
proof -
  obtain w1 where l: "load_task E tid w = (Inl (PyError ''OverflowError''), w1)"
    using beyond_calendar_load [OF assms] by blast
  have "\<not> is_ok (fst (cancel_prepare E tid token w))"
    unfolding cancel_prepare_def split_beta by (rule chain_pure_fails) (simp add: l)
  then show "\<not> is_ok (fst (cancel_task E tid token w))"
    by (cases "cancel_prepare E tid token w"; cases "fst (cancel_prepare E tid token w)")
      (auto simp: cancel_task_def)
  show "\<not> is_ok (fst (accept_bid E tid k token w))"
    unfolding accept_bid_def by (rule chain_pure_fails) (simp add: l)
  show "\<not> is_ok (fst (submit_bid E tid token w))"
    unfolding submit_bid_def split_beta by (rule chain_pure_fails) (simp add: l)
  show "fst (get_task E tid w) = Inl (PyError ''OverflowError'')"
    by (simp add: get_task_def l)
qed

end

lemma list_all_rows:
  "dget (db_tasks s) tid = Some r \<Longrightarrow> r \<in> set (mem_list_tasks None None None None None s)"
  by (force simp: mem_list_tasks_def keep_if_def dest: map_of_SomeD)

section \<open>Properties\<close>

text \<open>
  C14: Deadlines decide. Reading a task answers with the status its row and the clock call for: open tasks without
  bids expire at the bidding deadline, accepted ones at the execution deadline, submitted ones are approved at the
  review deadline (all three rounded down to the second), everything else keeps its status. The specification of
  the service (\<^verbatim>\<open>docs/specifications/service-api/task-board-service-specs.md\<close>) expires every open task at its bidding
  deadline; the code keeps those that have bids open.
\<close>
theorem deadlines_decide:
  assumes "be_store E = memory_store" and "board_ok w"
    and "mem_get_task tid (db w) = Some r" and "get_task E tid w = (Inr resp, w')"
  shows "t_status (resp_row resp) = due_status r (clock w (ticks w))"
proof -
  have row: "task_rows (db w) tid = Some r" using assms(3) by (simp add: mem_get_task_def task_rows_def)
  with assms(2) have tid: "t_id r = tid" by (simp add: board_ok_def rows_ok_def row_ok_def)
  obtain t where t: "evaluate_deadline E r w = (Inr t, w')" "resp_row resp = t"
    using assms(3,4)
    by (auto simp: get_task_def load_task_def assms(1) chain_Inr_iff task_to_response_row)
  from mem_board.evaluate_status [of w r E t w', unfolded memory_env [OF assms(1)]] row tid t
  show ?thesis by simp
qed

text \<open>An hour later: the clock of the same host, read after 3600 ticks.\<close>

theorem deadlines_decide_witness:
  "\<exists>r resp w'. mem_get_task demo_tid (db demo_open) = Some r \<and> t_status r = Open \<and>
     get_task demo_env demo_tid (demo_open\<lparr>ticks := 3600\<rparr>) = (Inr resp, w') \<and>
     t_status (resp_row resp) = Expired \<and> bank w' = [''esc-1'']"
proof -
  have ok: "(case get_task demo_env demo_tid (demo_open\<lparr>ticks := 3600\<rparr>) of
      (Inr resp, w') \<Rightarrow> bank w' = [''esc-1''] | _ \<Rightarrow> False)" by code_simp
  obtain resp w' where g: "get_task demo_env demo_tid (demo_open\<lparr>ticks := 3600\<rparr>) = (Inr resp, w')"
    "bank w' = [''esc-1'']"
    using ok by (auto split: prod.splits sum.splits)
  have due: "map_option (\<lambda>r. (t_status r, due_status r (clock demo_open 3600))) (mem_get_task demo_tid (db demo_open))
      = Some (Open, Expired)" by code_simp
  then obtain r where r: "mem_get_task demo_tid (db demo_open) = Some r" "t_status r = Open"
      "due_status r (clock demo_open 3600) = Expired"
    by auto
  have b: "board_ok (demo_open\<lparr>ticks := 3600\<rparr>)" using demo_runs(1) by (simp add: board_ok_def)
  from deadlines_decide [OF demo_env_store b _ g(1), of r] r g show ?thesis by auto
qed

text \<open>
  A task whose bidding deadline lies beyond the calendar is stuck. Creation accepts any positive number of
  seconds; once such a task is stored and open, reading it, cancelling it, bidding on it and accepting a bid all
  fail, and so does every unfiltered listing of the whole board.
\<close>
theorem beyond_calendar_stuck:
  assumes "be_store E = memory_store" and "mem_get_task tid (db w) = Some r"
    and "t_status r = Open" and "beyond_calendar r"
  shows "fst (get_task E tid w) = Inl (PyError ''OverflowError'') \<and>
    \<not> is_ok (fst (cancel_task E tid token w)) \<and> \<not> is_ok (fst (submit_bid E tid token w)) \<and>
    \<not> is_ok (fst (accept_bid E tid k token w)) \<and>
    \<not> is_ok (fst (list_tasks E None None None None None w))"
proof -
  have row: "task_rows (db w) tid = Some r" using assms(2) by (simp add: mem_get_task_def task_rows_def)
  note h = mem_board.beyond_calendar_handlers [OF row assms(3,4), of E, unfolded memory_env [OF assms(1)]]
  have "r \<in> set (mem_list_tasks None None None None None (db w))"
    using list_all_rows assms(2) by (simp add: mem_get_task_def)
  from mem_board.beyond_calendar_batch [OF assms(3,4) this, of E w, unfolded memory_env [OF assms(1)]]
  have "\<not> is_ok (fst (list_tasks E None None None None None w))"
    by (cases "evaluate_deadlines_batch E (mem_list_tasks None None None None None (db w)) w";
        cases "fst (evaluate_deadlines_batch E (mem_list_tasks None None None None None (db w)) w)")
      (auto simp: list_tasks_def assms(1))
  with h show ?thesis by blast
qed

definition demo_far :: "(task_db, string list) board" where
  "demo_far = board_serve demo_env (CreateTask ''far.t.s'' ''h.e.s'') demo_start"

theorem beyond_calendar_stuck_witness:
  "\<exists>r. mem_get_task demo_tid (db demo_far) = Some r \<and> t_status r = Open \<and>
     \<not> is_ok (fst (list_tasks demo_env None None None None None demo_far)) \<and>
     \<not> is_ok (fst (cancel_task demo_env demo_tid ''cancel.t.s'' demo_far))"
proof -
  have "map_option (\<lambda>r. (t_status r, beyond_calendar r)) (mem_get_task demo_tid (db demo_far)) = Some (Open, True)"
    by code_simp
  then obtain r where "mem_get_task demo_tid (db demo_far) = Some r" "t_status r = Open" "beyond_calendar r"
    by auto
  with beyond_calendar_stuck [OF demo_env_store this] show ?thesis by blast
qed

text \<open>
  C15: Sealed bids. If a listing of a task's bids succeeds and the task is open, the request carried a token that
  was verified for the task's poster and orders the listing.
\<close>
theorem sealed_bids:
  assumes "be_store E = memory_store" and "board_ok w"
    and "list_bids E tid auth w = (Inr bids, w')" and "mem_get_task tid (db w') = Some r" and "t_status r = Open"
  shows "\<exists>token q. auth = Some token \<and> verified_signer E token q (t_poster_id r) \<and>
    dget q ''action'' = Some (JStr ''list_bids'')"
proof -
  obtain t where t: "load_task E tid w = (Inr t, w')" "list_bids_auth E t tid auth = Inr ()"
    using assms(3) by (auto simp: list_bids_def chain_Inr_iff)
  have "task_rows (db w') tid = Some t"
    using mem_board.load_task_view(2) [of w E tid _ w' t, unfolded memory_env [OF assms(1)]] t(1) assms(2)
    by (simp add: board_ok_def)
  with assms(4) have "t = r" by (simp add: mem_get_task_def task_rows_def)
  with t(2) assms(5) have "\<exists>token p. auth = Some token \<and>
      validate_jws_token E token [''list_bids''] = Inr (p, t_poster_id r)"
    by (auto simp: list_bids_auth_def inr_iffs split: if_splits)
  then show ?thesis by (auto simp: validate_jws_token_Inr)
qed

theorem sealed_bids_witness:
  "\<exists>bids w' q. list_bids demo_env demo_tid (Some ''list.t.s'') demo_bid = (Inr bids, w') \<and>
     map b_bidder_id (snd bids) = [''w''] \<and> verified_signer demo_env ''list.t.s'' q ''p''"
proof -
  have ok: "(case list_bids demo_env demo_tid (Some ''list.t.s'') demo_bid of
      (Inr bids, w') \<Rightarrow> map b_bidder_id (snd bids) = [''w''] \<and>
         map_option (\<lambda>r. (t_status r, t_poster_id r)) (mem_get_task demo_tid (db w')) = Some (Open, ''p'')
      | _ \<Rightarrow> False)" by code_simp
  obtain bids w' where l: "list_bids demo_env demo_tid (Some ''list.t.s'') demo_bid = (Inr bids, w')"
    "map b_bidder_id (snd bids) = [''w'']"
    "map_option (\<lambda>r. (t_status r, t_poster_id r)) (mem_get_task demo_tid (db w')) = Some (Open, ''p'')"
    using ok by (auto split: prod.splits sum.splits)
  from l(3) obtain r where r: "mem_get_task demo_tid (db w') = Some r" "t_status r = Open" "t_poster_id r = ''p''"
    by auto
  from sealed_bids [OF demo_env_store demo_runs(2) l(1) r(1,2)] l r show ?thesis by auto
qed

text \<open>
  A cancellation writes without looking. The part of a cancellation after the bank's answer sets the row to
  cancelled whatever its status is by then. If another request accepted a bid while the bank was being asked, the
  accepted task becomes cancelled with its worker assigned (the witness); its escrow has gone back to the poster.
\<close>
theorem cancel_commit_overwrites:
  assumes "be_store E = memory_store" and "mem_get_task tid (db w) = Some r"
    and "cancel_commit E tid w = (res, w')"
  shows "\<exists>now. mem_get_task tid (db w') = Some (r\<lparr>t_status := Cancelled, t_cancelled_at := Some now\<rparr>)"
proof -
  obtain now w1 where n: "board_now w = (now, w1)" by fastforce
  have w1: "db w1 = db w" using board_now_def n by (metis mem_board.board_now_eq)
  have "task_rows (db w1) tid = Some r" using assms(2) w1 by (simp add: mem_get_task_def task_rows_def)
  from mem_board.update_and_reread_view(1) [OF this, of "[SetStatus Cancelled, SetCancelledAt now]" E,
      unfolded memory_env [OF assms(1)]] assms(3)
  show ?thesis by (auto simp: cancel_commit_def n mem_get_task_def task_rows_def)
qed

text \<open>Cancel up to the bank's answer, then accept the bid, then the rest of the cancellation.\<close>

definition demo_race :: "(task_db, string list) board" where
  "demo_race =
     (case cancel_prepare demo_env demo_tid ''cancel.t.s'' demo_bid of
        (Inr t, w1) \<Rightarrow>
          (let (_, w2) = release_escrow demo_env (t_escrow_id t) (Some (t_poster_id t)) w1
           in board_serve demo_env (AcceptBid demo_tid ''bid-'' ''accept.t.s'') w2)
      | (Inl _, w1) \<Rightarrow> w1)"

theorem cancel_commit_overwrites_witness:
  "\<exists>r r' w'. mem_get_task demo_tid (db demo_race) = Some r \<and> t_status r = Accepted \<and>
     snd (cancel_commit demo_env demo_tid demo_race) = w' \<and> mem_get_task demo_tid (db w') = Some r' \<and>
     t_status r' = Cancelled \<and> t_worker_id r' = Some ''w'' \<and> bank w' = [''esc-1'']"
proof -
  have "map_option (\<lambda>r. (t_status r, t_worker_id r)) (mem_get_task demo_tid (db demo_race))
      = Some (Accepted, Some ''w'')" by code_simp
  then obtain r where r: "mem_get_task demo_tid (db demo_race) = Some r" "t_status r = Accepted"
      "t_worker_id r = Some ''w''" by auto
  have b: "bank (snd (cancel_commit demo_env demo_tid demo_race)) = [''esc-1'']" by code_simp
  obtain res w' where c: "cancel_commit demo_env demo_tid demo_race = (res, w')" by fastforce
  from cancel_commit_overwrites [OF demo_env_store r(1) c] b c r show ?thesis by auto
qed

section \<open>Files\<close>

lemma upload_answer:
  assumes "be_store E = memory_store" "board_ok w"
    and "upload_asset E tid token c f ct w = (Inr a, w')"
  obtains w1 i where "store_asset E tid i c f ct w1 = (Inr a, w')" "mem_get_task tid (db w1) \<noteq> None"
    "length c \<le> be_max_file_size E" "mem_count_assets tid (db w1) < be_max_files_per_task E"
proof -
  obtain i where i: "upload_request E tid token = Inr i"
    and ch: "chain (load_task E tid w) (\<lambda>task w.
       if t_status task \<noteq> Accepted then (fail ''invalid_status'' 409, w)
       else if Some i \<noteq> t_worker_id task then (fail ''forbidden'' 403, w)
       else if length c > be_max_file_size E then (fail ''file_too_large'' 413, w)
       else if so_count_assets (be_store E) tid (db w) \<ge> be_max_files_per_task E
       then (fail ''too_many_assets'' 409, w)
       else store_asset E tid i c f ct w) = (Inr a, w')"
    using assms(3) unfolding upload_asset_def by (auto simp: chain_Inr_iff)
  have ok: "rows_ok (task_rows (db w))" using assms(2) by (simp add: board_ok_def)
  obtain t w1 where "task_rows (db w1) tid = Some t" and x: "(if t_status t \<noteq> Accepted then (fail ''invalid_status'' 409, w1)
       else if Some i \<noteq> t_worker_id t then (fail ''forbidden'' 403, w1)
       else if length c > be_max_file_size E then (fail ''file_too_large'' 413, w1)
       else if so_count_assets (be_store E) tid (db w1) \<ge> be_max_files_per_task E
       then (fail ''too_many_assets'' 409, w1)
       else store_asset E tid i c f ct w1) = (Inr a, w')"
    by (rule mem_board.load_chain_answer [OF ok, of E tid, unfolded memory_env [OF assms(1)], OF ch])
  moreover have "store_asset E tid i c f ct w1 = (Inr a, w')" "length c \<le> be_max_file_size E"
      "mem_count_assets tid (db w1) < be_max_files_per_task E"
    using x by (auto simp: assms(1) split: if_splits)
  ultimately show thesis by (intro that) (auto simp: mem_get_task_def task_rows_def)
qed

text \<open>What storing an asset writes.\<close>

lemma store_asset_writes:
  assumes "be_store E = memory_store" "store_asset E tid i c f ct w = (Inr a, w')"
  shows "dget (disk w') (asset_file_path E tid (a_id a) f) = Some c"
    "db w' = mem_insert_asset a (db w)" "a_task_id a = tid" "a_filename a = f" "a_content_type a = ct"
    "a_size_bytes a = length c" "a_content_hash a = be_sha256 E c"
proof -
  obtain now w2 where n: "board_now (snd (new_uuid w)) = (now, w2)" by fastforce
  have w2: "db w2 = db w"
    using mem_board.board_now_eq [OF n] by (simp add: new_uuid_def)
  show "dget (disk w') (asset_file_path E tid (a_id a) f) = Some c"
    "db w' = mem_insert_asset a (db w)" "a_task_id a = tid" "a_filename a = f" "a_content_type a = ct"
    "a_size_bytes a = length c" "a_content_hash a = be_sha256 E c"
    using assms n w2 by (auto simp: store_asset_def split_beta Let_def split: if_splits)
qed

text \<open>
  C16: Upload and download. A deliverable uploaded under a plain file name (no slash, no dot-dot) can be downloaded
  at once under the asset id of the answer, with the same bytes, content type and name; the answer reports its size
  and hash, which is within the configured limit.
\<close>
theorem upload_download:
  assumes "be_store E = memory_store" and "board_ok w"
    and "upload_asset E tid token c f ct w = (Inr a, w')"
    and "plain_name f" and "plain_name tid" and "plain_name (a_id a)"
    and "be_storage_root E \<noteq> []" and "''..'' \<notin> set (be_storage_root E)"
  shows "download_asset E tid (a_id a) w' = Inr (c, ct, f) \<and> a_size_bytes a = length c \<and>
    a_content_hash a = be_sha256 E c \<and> length c \<le> be_max_file_size E"
proof -
  obtain w1 i where s: "store_asset E tid i c f ct w1 = (Inr a, w')" "mem_get_task tid (db w1) \<noteq> None"
    "length c \<le> be_max_file_size E"
    by (rule upload_answer [OF assms(1-3)])
  note x = store_asset_writes [OF assms(1) s(1)]
  have p: "asset_file_path E tid (a_id a) f = be_storage_root E @ [tid, a_id a, f]"
    by (rule asset_path_plain) (use assms in auto)
  have r: "path_resolve (be_storage_root E) = be_storage_root E"
    using resolve_parts_plain [OF assms(8), of "[]"] by (simp add: path_resolve_def)
  have "strip_prefix (path_text (be_storage_root E)) (path_text (asset_file_path E tid (a_id a) f)) \<noteq> None"
    using path_text_append [OF assms(7)] by (auto simp: p strip_prefix_iff)
  then have "download_asset E tid (a_id a) w' = Inr (c, ct, f)"
    using s(2) x
    by (auto simp: download_asset_def assms(1) mem_get_asset_def mem_insert_asset_def mem_get_task_def r
        split: option.splits)
  with x s(3) show ?thesis by simp
qed

theorem upload_download_witness:
  "\<exists>a w'. upload_asset demo_env demo_tid ''upload.t.s'' ''42'' ''out.txt'' ''text/plain'' demo_accepted = (Inr a, w') \<and>
     download_asset demo_env demo_tid (a_id a) w' = Inr (''42'', ''text/plain'', ''out.txt'')"
proof -
  have ok: "(case upload_asset demo_env demo_tid ''upload.t.s'' ''42'' ''out.txt'' ''text/plain'' demo_accepted of
      (Inr a, w') \<Rightarrow> plain_name (a_id a) | _ \<Rightarrow> False)" by code_simp
  obtain a w' where u: "upload_asset demo_env demo_tid ''upload.t.s'' ''42'' ''out.txt'' ''text/plain'' demo_accepted
      = (Inr a, w')" "plain_name (a_id a)"
    using ok by (auto split: prod.splits sum.splits)
  have n: "plain_name ''out.txt''" "plain_name demo_tid" by code_simp+
  from upload_download [OF demo_env_store demo_runs(3) u(1) n u(2)] u show ?thesis
    by (simp add: demo_env_def)
qed

text \<open>
  C17: The file name is not checked on upload. A deliverable uploaded under an absolute file name is written to
  exactly that place in the file system, wherever the storage root is.
\<close>
theorem upload_writes_anywhere:
  assumes "be_store E = memory_store" and "board_ok w"
    and "upload_asset E tid token c (CHR ''/'' # f) ct w = (Inr a, w')"
  shows "dget (disk w') (path_resolve (path_parts f)) = Some c"
proof -
  obtain w1 i where "store_asset E tid i c (CHR ''/'' # f) ct w1 = (Inr a, w')"
    by (rule upload_answer [OF assms])
  from store_asset_writes(1) [OF assms(1) this] show ?thesis
    by (simp add: asset_file_path_def path_join_def path_parts_def)
qed

theorem upload_writes_anywhere_witness:
  "\<exists>a w'. upload_asset demo_env demo_tid ''upload.t.s'' ''42'' ''/etc/passwd'' ''text/plain'' demo_accepted = (Inr a, w') \<and>
     dget (disk w') [''etc'', ''passwd''] = Some ''42''"
proof -
  have "is_ok (fst (upload_asset demo_env demo_tid ''upload.t.s'' ''42'' ''/etc/passwd'' ''text/plain'' demo_accepted))"
    by code_simp
  then obtain a w' where u: "upload_asset demo_env demo_tid ''upload.t.s'' ''42'' (CHR ''/'' # ''etc/passwd'') ''text/plain''
      demo_accepted = (Inr a, w')"
    by (cases "upload_asset demo_env demo_tid ''upload.t.s'' ''42'' ''/etc/passwd'' ''text/plain'' demo_accepted")
      (auto simp: is_ok_iff)
  have "path_resolve (path_parts ''etc/passwd'') = [''etc'', ''passwd'']" by code_simp
  with upload_writes_anywhere [OF demo_env_store demo_runs(3) u] u show ?thesis by auto
qed

section \<open>Statistics and pages\<close>

lemma dget_or_count:
  "dget_or (count_statuses rs c) st 0 = dget_or c st 0 + length (filter (\<lambda>r. status_text (t_status r) = st) rs)"
  by (induction rs arbitrary: c) auto

lemma count_statuses_ok: "dict_ok c \<Longrightarrow> dict_ok (count_statuses rs c)"
  by (induction rs arbitrary: c) auto

lemma overwrite_keys: "map fst (overwrite_counts c0 c) = map fst c0"
  by (induction c arbitrary: c0 rule: list.induct) (auto simp: dget_None_keys update_keys split: prod.splits)

lemma overwrite_get:
  "dict_ok c \<Longrightarrow> dget c0 st \<noteq> None \<Longrightarrow> dget_or (overwrite_counts c0 c) st 0 =
     (case dget c st of None \<Rightarrow> dget_or c0 st 0 | Some n \<Rightarrow> n)"
proof (induction c arbitrary: c0)
  case (Cons p c)
  obtain k n where p: "p = (k, n)" by (cases p)
  have "dict_ok c" "dget c k = None"
    using Cons.prems(1) p by (auto simp: dict_ok_def dget_None_keys)
  with Cons p show ?case by (auto split: option.splits)
qed simp

lemma sum_indicator:
  "distinct ks \<Longrightarrow> (\<Sum>k\<leftarrow>ks. if v = k then 1 else 0) = (if v \<in> set ks then 1 else (0 :: nat))"
  by (induction ks) auto

lemma sum_by_key:
  "distinct ks \<Longrightarrow> \<forall>r \<in> set rs. f r \<in> set ks \<Longrightarrow> (\<Sum>k\<leftarrow>ks. length (filter (\<lambda>r. f r = k) rs)) = length rs"
proof (induction rs)
  case (Cons r rs)
  have "(\<Sum>k\<leftarrow>ks. length (filter (\<lambda>r. f r = k) (r # rs))) =
      (\<Sum>k\<leftarrow>ks. (if f r = k then 1 else 0) + length (filter (\<lambda>r. f r = k) rs))"
    by (intro arg_cong [where f = sum_list] map_cong) auto
  then show ?case using Cons by (simp add: sum_list_addf sum_indicator)
qed simp

lemma all_statuses_all: "status_text st \<in> set all_statuses"
  unfolding all_statuses_def by (cases st) (simp_all only: status_text.simps list.set insert_iff simp_thms)

lemma distinct_all_statuses: "distinct all_statuses"
  by code_simp

lemma sum_by_status:
  "(\<Sum>st\<leftarrow>all_statuses. length (filter (\<lambda>r. status_text (t_status r) = st) rs)) = length rs"
  by (rule sum_by_key) (simp_all add: distinct_all_statuses all_statuses_all)

lemma dict_vals_by_get: "dict_ok d \<Longrightarrow> dvals d = map (\<lambda>k. dget_or d k x) (map fst d)"
  unfolding map_map
  by (rule map_cong) (auto simp: dget_or_def dget_Some_set)

text \<open>
  Statistics add up. The eight counts the health endpoint reports are, for each status, the number of tasks
  that have it, and their sum is the reported number of tasks.
\<close>
theorem stats_add_up:
  assumes "be_store E = memory_store"
  shows "dvals (count_tasks_by_status E w) =
      map (\<lambda>st. length (filter (\<lambda>r. status_text (t_status r) = st) (dvals (db_tasks (db w))))) all_statuses \<and>
    sum_list (dvals (count_tasks_by_status E w)) = fst (get_stats E w)"
proof -
  let ?rs = "dvals (db_tasks (db w))" and ?zeros = "map (\<lambda>st. (st, 0 :: nat)) all_statuses"
  let ?counted = "count_statuses ?rs []"
  have c: "count_tasks_by_status E w = overwrite_counts ?zeros ?counted"
    by (simp add: count_tasks_by_status_def assms mem_count_by_status_def)
  have keys: "map fst (overwrite_counts ?zeros ?counted) = all_statuses"
    by (simp add: overwrite_keys comp_def)
  have d: "dict_ok (overwrite_counts ?zeros ?counted)"
    unfolding dict_ok_def keys by (rule distinct_all_statuses)
  have get: "dget_or (overwrite_counts ?zeros ?counted) st 0 = length (filter (\<lambda>r. status_text (t_status r) = st) ?rs)"
    if "st \<in> set all_statuses" for st
  proof -
    have "dget ?zeros st = Some 0" using that by (simp add: map_of_map_restrict restrict_map_def)
    with overwrite_get [of ?counted ?zeros st] count_statuses_ok [of "[]" ?rs] dget_or_count [of ?rs "[]" st]
    show ?thesis by (auto simp: dget_or_def split: option.splits)
  qed
  have v: "dvals (count_tasks_by_status E w) =
      map (\<lambda>st. length (filter (\<lambda>r. status_text (t_status r) = st) ?rs)) all_statuses"
    unfolding c dict_vals_by_get [OF d, of 0] keys by (simp add: get)
  moreover have "sum_list (dvals (count_tasks_by_status E w)) = length ?rs"
    unfolding v by (rule sum_by_status)
  ultimately show ?thesis by (simp add: get_stats_def assms mem_count_tasks_def)
qed

theorem stats_add_up_witness:
  "count_tasks_by_status demo_env demo_open = map (\<lambda>st. (st, if st = ''open'' then 1 else 0)) all_statuses \<and>
   fst (get_stats demo_env demo_open) = 1"
proof -
  have "count_tasks_by_status demo_env demo_open = map (\<lambda>st. (st, if st = ''open'' then 1 else 0)) all_statuses"
    by code_simp
  with stats_add_up [OF demo_env_store, of demo_open] show ?thesis by (simp add: all_statuses_def)
qed

text \<open>
  Pages. Listing tasks page by page with a fixed page size gives, one page after the other, the beginning of
  the unpaged listing, so with enough pages every task appears exactly as often as without paging.
\<close>
theorem pages_are_the_list:
  assumes "length (mem_list_tasks status poster worker None None s) \<le> k * n"
  shows "pages n k status poster worker s = mem_list_tasks status poster worker None None s"
  using assms by (simp add: pages_take)

theorem pages_are_the_list_witness:
  "pages 1 2 None None None (db demo_open) = mem_list_tasks None None None None None (db demo_open) \<and>
   length (pages 1 2 None None None (db demo_open)) = 1"
proof -
  have "length (mem_list_tasks None None None None None (db demo_open)) = 1" by code_simp
  with pages_are_the_list [of None None None "db demo_open" 2 1] show ?thesis by simp
qed

end
