(* ===== verification/Bank_Client.thy ===== *)
theory Bank_Client
  imports Tokens Bank_Api_Props
begin

text \<open>
  The Task Board's client of the Central Bank, \<^verbatim>\<open>clients/central_bank_client.py\<close>, and the
  network between them. The client turns what its POST ends in into JSON or an error; the bank at the other
  end is the endpoints of theory \<^verbatim>\<open>Bank_Api\<close>. A request is delivered, is lost, or is served
  with its response lost. What the board relies on is the locale \<open>escrow_bank\<close>, interpreted on the
  in-memory ledger behind a network that loses no responses.
\<close>

section \<open>Reading the bank's answers\<close>

text \<open>
  \<^verbatim>\<open>error_body = response.json()\<close>, then
  \<^verbatim>\<open>raise ServiceError(error_body.get("error", default), ..., status)\<close>.
\<close>

definition client_error :: "string \<Rightarrow> nat \<Rightarrow> json option \<Rightarrow> json result" where
  "client_error dflt st body =
     and_then (response_json body) (\<lambda>j. and_then (as_dict j) (\<lambda>d. fail (error_code_of d dflt) st))"

fun read_lock_answer :: "http_outcome \<Rightarrow> json result" where
  "read_lock_answer (Response st body) =
     (if st = 201 then response_json body
      else if st = 402 then and_then (response_json body) (\<lambda>_. fail ''insufficient_funds'' 402)
      else if st = 404 then client_error ''account_not_found'' 404 body
      else if st = 403 then client_error ''forbidden'' 403 body
      else if st = 409 then client_error ''conflict'' 409 body
      else fail ''central_bank_unavailable'' 502)"
| "read_lock_answer _ = fail ''central_bank_unavailable'' 502"

text \<open>The same for release and split.\<close>

fun read_platform_answer :: "http_outcome \<Rightarrow> json result" where
  "read_platform_answer (Response st body) =
     (if st = 200 then response_json body
      else if st = 404 then client_error ''not_found'' 404 body
      else if st = 403 then client_error ''forbidden'' 403 body
      else if st = 409 then client_error ''conflict'' 409 body
      else if st = 400 then client_error ''bad_request'' 400 body
      else fail ''central_bank_unavailable'' 502)"
| "read_platform_answer _ = fail ''central_bank_unavailable'' 502"

section \<open>The bank's responses\<close>

fun escrow_status_text :: "escrow_status \<Rightarrow> string" where
  "escrow_status_text Locked = ''locked''"
| "escrow_status_text Released = ''released''"
| "escrow_status_text Split = ''split''"

definition lock_json :: "lock_receipt \<Rightarrow> payload" where
  "lock_json r = [(''escrow_id'', JStr (lk_escrow_id r)), (''amount'', JInt (lk_amount r)),
     (''task_id'', JStr (lk_task_id r)), (''status'', JStr (escrow_status_text (lk_status r)))]"

definition release_json :: "release_receipt \<Rightarrow> payload" where
  "release_json r = [(''escrow_id'', JStr (rl_escrow_id r)), (''status'', JStr (escrow_status_text (rl_status r))),
     (''amount'', JInt (rl_amount r)), (''recipient'', JStr (rl_recipient r))]"

definition split_json :: "split_receipt \<Rightarrow> payload" where
  "split_json r = [(''escrow_id'', JStr (sp_escrow_id r)), (''status'', JStr (escrow_status_text (sp_status r))),
     (''worker_amount'', JInt (sp_worker_amount r)), (''poster_amount'', JInt (sp_poster_amount r)),
     (''worker_pct'', JInt (sp_worker_pct r))]"

section \<open>The network\<close>

datatype net_failure = NoConnection | NoAnswerInTime | OtherFailure

fun failure_outcome :: "net_failure \<Rightarrow> http_outcome" where
  "failure_outcome NoConnection = ConnectFailed"
| "failure_outcome NoAnswerInTime = TimedOut"
| "failure_outcome OtherFailure = TransportError"

datatype fate = Delivered | RequestLost net_failure | ResponseLost net_failure

text \<open>The fate of the n-th request, how many were sent, and the ledger of the bank at the other end.\<close>

record 's bank_link =
  fates :: "nat \<Rightarrow> fate"
  sent :: nat
  remote :: "'s option"

definition http_call ::
    "('s option \<Rightarrow> (nat \<times> json option) \<times> 's option) \<Rightarrow> 's bank_link \<Rightarrow> http_outcome \<times> 's bank_link" where
  "http_call serve l =
     (let l1 = l\<lparr>sent := Suc (sent l)\<rparr>
      in case fates l (sent l) of
           Delivered \<Rightarrow> (let ((st, body), s') = serve (remote l) in (Response st body, l1\<lparr>remote := s'\<rparr>))
         | RequestLost f \<Rightarrow> (failure_outcome f, l1)
         | ResponseLost f \<Rightarrow> (failure_outcome f, l1\<lparr>remote := snd (serve (remote l))\<rparr>))"

section \<open>The client\<close>

text \<open>
  \<^verbatim>\<open>PlatformSigner.sign\<close> is a parameter. The escrow id fills the path template and is what the
  bank's router reads from the path.
\<close>

record bank_client =
  cl_sign :: "payload \<Rightarrow> string"
  cl_split_configured :: bool

definition opt_str :: "string option \<Rightarrow> json" where
  "opt_str x = (case x of None \<Rightarrow> JNull | Some s \<Rightarrow> JStr s)"

definition release_claims :: "string \<Rightarrow> string option \<Rightarrow> payload" where
  "release_claims eid recipient = [(''action'', JStr ''escrow_release''), (''escrow_id'', JStr eid),
     (''recipient_account_id'', opt_str recipient)]"

definition split_claims :: "string \<Rightarrow> string option \<Rightarrow> string \<Rightarrow> int \<Rightarrow> payload" where
  "split_claims eid worker poster pct = [(''action'', JStr ''escrow_split''), (''escrow_id'', JStr eid),
     (''worker_account_id'', opt_str worker), (''poster_account_id'', JStr poster), (''worker_pct'', JInt pct)]"

definition with_token :: "string \<Rightarrow> json option" where
  "with_token token = Some (JObj [(''token'', JStr token)])"

definition client_lock ::
    "(nat \<Rightarrow> bank_app) \<Rightarrow> 's ledger_store \<Rightarrow> string \<Rightarrow> 's bank_link \<Rightarrow> json result \<times> 's bank_link" where
  "client_lock apps store escrow_token l =
     apfst read_lock_answer (http_call
       (\<lambda>st. apfst (response_of 201 lock_json) (post_escrow_lock (apps (sent l)) store (with_token escrow_token) st)) l)"

definition client_release ::
    "bank_client \<Rightarrow> (nat \<Rightarrow> bank_app) \<Rightarrow> 's ledger_store \<Rightarrow> string \<Rightarrow> string option \<Rightarrow> 's bank_link \<Rightarrow>
     json result \<times> 's bank_link" where
  "client_release cl apps store eid recipient l =
     (let signed_token = cl_sign cl (release_claims eid recipient)
      in apfst read_platform_answer (http_call
           (\<lambda>st. apfst (response_of 200 release_json)
              (post_escrow_release (apps (sent l)) store (with_token signed_token) eid st)) l))"

definition client_split ::
    "bank_client \<Rightarrow> (nat \<Rightarrow> bank_app) \<Rightarrow> 's ledger_store \<Rightarrow> string \<Rightarrow> string option \<Rightarrow> string \<Rightarrow> int \<Rightarrow>
     's bank_link \<Rightarrow> json result \<times> 's bank_link" where
  "client_split cl apps store eid worker poster pct l =
     (if \<not> cl_split_configured cl then (fail ''central_bank_unavailable'' 502, l)
      else
        let signed_token = cl_sign cl (split_claims eid worker poster pct)
        in apfst read_platform_answer (http_call
             (\<lambda>st. apfst (response_of 200 split_json)
                (post_escrow_split (apps (sent l)) store (with_token signed_token) eid st)) l))"

text \<open>The client as the Task Board's services call it; they ignore the JSON of a release or split.\<close>

definition http_bank ::
    "bank_client \<Rightarrow> (nat \<Rightarrow> bank_app) \<Rightarrow> 's ledger_store \<Rightarrow> 's bank_link bank_ops" where
  "http_bank cl apps store =
     \<lparr>bo_lock = client_lock apps store,
      bo_release = (\<lambda>eid r l. apfst (map_sum id (\<lambda>_. ())) (client_release cl apps store eid r l)),
      bo_split = (\<lambda>eid wk p pct l. apfst (map_sum id (\<lambda>_. ())) (client_split cl apps store eid wk p pct l))\<rparr>"

section \<open>What the Task Board relies on\<close>

text \<open>
  An escrow seen from outside is its task, its amount and its status; \<open>claims\<close> is what a token says
  according to the Identity service, \<open>funds\<close> the balances, and \<open>pledged\<close> what an agent has put into escrows,
  resolved ones included.
\<close>

locale escrow_bank =
  fixes ops :: "'b bank_ops"
    and inv :: "'b \<Rightarrow> bool"
    and claims :: "string \<Rightarrow> payload \<Rightarrow> bool"
    and held :: "'b \<Rightarrow> string \<Rightarrow> (string \<times> int \<times> escrow_status) option"
    and funds :: "'b \<Rightarrow> string \<Rightarrow> int option"
    and pledged :: "'b \<Rightarrow> string \<Rightarrow> int"
  assumes lock_inv: "inv b \<Longrightarrow> inv (snd (bo_lock ops tok b))"
    and release_inv: "inv b \<Longrightarrow> inv (snd (bo_release ops k r b))"
    and split_inv: "inv b \<Longrightarrow> inv (snd (bo_split ops k wk p pct b))"
    and lock_keeps: "inv b \<Longrightarrow> held b k = Some x \<Longrightarrow> held (snd (bo_lock ops tok b)) k = Some x"
    and lock_gives: "inv b \<Longrightarrow> bo_lock ops tok b = (Inr (JObj answer), b') \<Longrightarrow>
          dget answer ''escrow_id'' = Some v \<Longrightarrow>
          \<exists>d t n. claims tok d \<and> jget d ''task_id'' = JStr t \<and> as_int (jget d ''amount'') = Some n \<and>
                  held b' (text_of v) = Some (t, n, Locked)"
    and lock_pledges: "inv b \<Longrightarrow> funds b a = Some m \<Longrightarrow>
          funds (snd (bo_lock ops tok b)) a = Some (m - (pledged (snd (bo_lock ops tok b)) a - pledged b a))"
    and lock_spares: "inv b \<Longrightarrow> \<forall>d. claims tok d \<longrightarrow> jget d ''agent_id'' \<noteq> JStr a \<Longrightarrow>
          pledged (snd (bo_lock ops tok b)) a = pledged b a"
    and release_pledged: "inv b \<Longrightarrow> pledged (snd (bo_release ops k r b)) = pledged b"
    and split_pledged: "inv b \<Longrightarrow> pledged (snd (bo_split ops k wk p pct b)) = pledged b"
    and release_keeps: "inv b \<Longrightarrow> k' \<noteq> k \<Longrightarrow> held b k' = Some x \<Longrightarrow> held (snd (bo_release ops k r b)) k' = Some x"
    and split_keeps: "inv b \<Longrightarrow> k' \<noteq> k \<Longrightarrow> held b k' = Some x \<Longrightarrow> held (snd (bo_split ops k wk p pct b)) k' = Some x"
    and release_refused: "inv b \<Longrightarrow> bo_release ops k r b = (Inl e, b') \<Longrightarrow> held b' = held b \<and> funds b' = funds b"
    and split_refused: "inv b \<Longrightarrow> bo_split ops k wk p pct b = (Inl e, b') \<Longrightarrow> held b' = held b \<and> funds b' = funds b"
    and release_pays: "inv b \<Longrightarrow> bo_release ops k r b = (Inr (), b') \<Longrightarrow>
          \<exists>a t n m. r = Some a \<and> held b k = Some (t, n, Locked) \<and> held b' k = Some (t, n, Released) \<and>
                    funds b a = Some m \<and> funds b' = (funds b)(a \<mapsto> m + n)"
    and split_pays: "inv b \<Longrightarrow> bo_split ops k wk p pct b = (Inr (), b') \<Longrightarrow> wk \<noteq> Some p \<Longrightarrow>
          \<exists>a t n m m'. wk = Some a \<and> held b k = Some (t, n, Locked) \<and> held b' k = Some (t, n, Split) \<and>
                    funds b a = Some m \<and> funds b p = Some m' \<and>
                    funds b' = (funds b)(a \<mapsto> m + split_amount n pct, p \<mapsto> m' + (n - split_amount n pct))"

section \<open>The in-memory ledger over HTTP\<close>

definition held_in :: "ledger bank_link \<Rightarrow> string \<Rightarrow> (string \<times> int \<times> escrow_status) option" where
  "held_in l k = (case remote l of None \<Rightarrow> None | Some s \<Rightarrow>
     map_option (\<lambda>e. (escrow_task_id e, escrow_amount e, escrow_status e)) (dget (escrows s) k))"

definition funds_in :: "ledger bank_link \<Rightarrow> string \<Rightarrow> int option" where
  "funds_in l a = (case remote l of None \<Rightarrow> None | Some s \<Rightarrow> balance_of s a)"

definition claims_of :: "(nat \<Rightarrow> bank_app) \<Rightarrow> string \<Rightarrow> payload \<Rightarrow> bool" where
  "claims_of apps token d \<longleftrightarrow> (\<exists>n i. verify_jws_token (apps n) token = Inr (JStr i, JObj d))"

text \<open>What an account has put into escrows as their payer, locked or resolved.\<close>

definition pledge_of :: "string \<Rightarrow> escrow \<Rightarrow> int" where
  "pledge_of a e = (if payer_account_id e = a then escrow_amount e else 0)"

definition pledged_by :: "ledger \<Rightarrow> string \<Rightarrow> int" where
  "pledged_by s a = dsum (pledge_of a) (escrows s)"

definition pledged_in :: "ledger bank_link \<Rightarrow> string \<Rightarrow> int" where
  "pledged_in l a = (case remote l of None \<Rightarrow> 0 | Some s \<Rightarrow> pledged_by s a)"

text \<open>
  What is assumed of the parts outside the repository: a token the platform signed is verified, if at all, with
  the claims that were signed; and no response of the bank is lost (requests may be).
\<close>

definition signer_faithful :: "bank_client \<Rightarrow> (nat \<Rightarrow> bank_app) \<Rightarrow> bool" where
  "signer_faithful cl apps \<longleftrightarrow>
     (\<forall>n c i d. verify_jws_token (apps n) (cl_sign cl c) = Inr (JStr i, JObj d) \<longrightarrow> (\<forall>k. jget d k = jget c k))"

definition answers_arrive :: "'s bank_link \<Rightarrow> bool" where
  "answers_arrive l \<longleftrightarrow> (\<forall>n f. fates l n \<noteq> ResponseLost f)"

definition link_inv :: "bank_client \<Rightarrow> (nat \<Rightarrow> bank_app) \<Rightarrow> ledger bank_link \<Rightarrow> bool" where
  "link_inv cl apps l \<longleftrightarrow> signer_faithful cl apps \<and> answers_arrive l \<and> (\<exists>s. remote l = Some s \<and> ledger_safe s)"

lemma http_call_arrives:
  assumes "http_call serve l = (out, l')" "answers_arrive l"
  obtains (served) st body where "serve (remote l) = ((st, body), remote l')" "out = Response st body"
      "fates l' = fates l"
    | (lost) f where "out = failure_outcome f" "remote l' = remote l" "fates l' = fates l"
proof (cases "fates l (sent l)")
  case Delivered
  then show ?thesis
    using assms(1) by (intro served [of "fst (fst (serve (remote l)))" "snd (fst (serve (remote l)))"])
      (auto simp: http_call_def Let_def split: prod.splits)
next
  case (RequestLost f)
  then show ?thesis using assms(1) by (intro lost) (auto simp: http_call_def Let_def)
next
  case (ResponseLost f)
  with assms(2) show ?thesis by (simp add: answers_arrive_def)
qed

lemma answers_arrive_fates: "fates l' = fates l \<Longrightarrow> answers_arrive l' = answers_arrive l"
  by (simp add: answers_arrive_def)

lemma client_error_not_Inr [simp]: "client_error dflt st body \<noteq> Inr j"
  by (auto simp: client_error_def)

lemma read_lock_answer_Inr [simp]:
  "read_lock_answer out = Inr j \<longleftrightarrow> out = Response 201 (Some j)"
  by (cases out) auto

lemma read_platform_answer_Inr [simp]:
  "read_platform_answer out = Inr j \<longleftrightarrow> out = Response 200 (Some j)"
  by (cases out) auto

lemma failure_not_response [simp]: "failure_outcome f \<noteq> Response st b"
  by (cases f) auto

text \<open>An endpoint refuses before the ledger is reached, or makes one call of it.\<close>

lemma post_lock_cases:
  assumes "post_escrow_lock app store body (Some s) = (r, st')"
  obtains (refused) e where "escrow_lock_args app body = Inl e" "r = Inl e" "st' = Some s"
    | (called) p n t s' where "escrow_lock_args app body = Inr (p, n, t)" "ls_escrow_lock store p n t s = (r, s')"
      "st' = Some s'"
  using assms
  by (cases "escrow_lock_args app body")
    (auto simp: post_escrow_lock_def require_ledger_def apsnd_def map_prod_def split: prod.splits)

lemma post_release_cases:
  assumes "post_escrow_release app store body k (Some s) = (r, st')"
  obtains (refused) e where "escrow_release_args app body k = Inl e" "r = Inl e" "st' = Some s"
    | (called) a s' where "escrow_release_args app body k = Inr a" "ls_escrow_release store k a s = (r, s')"
      "st' = Some s'"
  using assms
  by (cases "escrow_release_args app body k")
    (auto simp: post_escrow_release_def require_ledger_def apsnd_def map_prod_def split: prod.splits)

lemma post_split_cases:
  assumes "post_escrow_split app store body k (Some s) = (r, st')"
  obtains (refused) e where "escrow_split_args app body k = Inl e" "r = Inl e" "st' = Some s"
    | (called) w pct p s' where "escrow_split_args app body k = Inr (w, pct, p)"
      "ls_escrow_split store k w pct p s = (r, s')" "st' = Some s'"
  using assms
  by (cases "escrow_split_args app body k")
    (auto simp: post_escrow_split_def require_ledger_def apsnd_def map_prod_def split: prod.splits)

text \<open>No refusal of the bank has the status of a success.\<close>

lemma verify_not_200: "verify_jws_token app token \<noteq> Inl (ServiceError c 200)"
proof -
  have "bank_verify_jws out \<noteq> Inl (ServiceError c 200)" for out
    by (cases out) (auto simp: response_json_def split: option.splits json.splits)
  then show ?thesis
    by (auto simp: verify_jws_token_def and_then_def as_dict_def subscript_def
        split: option.splits sum.splits json.splits prod.splits)
qed

lemma platform_payload_not_200: "platform_payload app act token \<noteq> Inl (ServiceError c 200)"
  using verify_not_200 [of app token c]
  by (auto simp: platform_payload_def and_then_def get_platform_agent_id_def require_platform_def
      action_payload_def as_dict_def split: option.splits sum.splits json.splits prod.splits if_splits)

lemma body_token_not_200: "body_token body \<noteq> Inl (ServiceError c 200)"
  by (auto simp: body_token_def and_then_def parse_json_body_def split: option.splits json.splits sum.splits)

lemma release_args_not_200: "escrow_release_args app body k \<noteq> Inl (ServiceError c 200)"
  using platform_payload_not_200 [of app "''escrow_release''" _ c] body_token_not_200 [of body c]
  by (auto simp: escrow_release_args_def and_then_def same_or_absent_def
      split: option.splits sum.splits if_splits)

lemma split_args_not_200: "escrow_split_args app body k \<noteq> Inl (ServiceError c 200)"
  using platform_payload_not_200 [of app "''escrow_split''" _ c] body_token_not_200 [of body c]
  by (auto simp: escrow_split_args_def and_then_def same_or_absent_def
      split: option.splits sum.splits if_splits)

lemma escrow_release_not_200: "escrow_release k a s \<noteq> (Inl (ServiceError c 200), s')"
  by (auto simp: escrow_release_def ledger_effects split: if_splits option.splits)

lemma escrow_split_not_200: "escrow_split k w pct p s \<noteq> (Inl (ServiceError c 200), s')"
  by (auto simp: escrow_split_def ledger_effects split: if_splits option.splits)


section \<open>One call of the client\<close>

lemma read_lost [simp]:
  "read_lock_answer (failure_outcome f) = fail ''central_bank_unavailable'' 502"
  "read_platform_answer (failure_outcome f) = fail ''central_bank_unavailable'' 502"
  by (cases f; simp)+

declare read_lock_answer.simps(1) [simp del] read_platform_answer.simps(1) [simp del]

lemma lock_error_answer:
  "response_of 201 enc (Inl e) = (st, body) \<Longrightarrow> read_lock_answer (Response st body) = Inr (JObj answer) \<Longrightarrow>
   dget answer ''escrow_id'' = None"
  by (cases e) (auto simp: response_of_def)

lemma split_args_claims:
  assumes "escrow_split_args app (with_token token) k = Inr (w, pct, p)"
  shows "\<exists>i d. verify_jws_token app token = Inr (JStr i, JObj d) \<and> jget d ''worker_account_id'' = JStr w \<and>
    jget d ''poster_account_id'' = JStr p \<and> as_int (jget d ''worker_pct'') = Some pct"
  using assms
  by (auto simp: escrow_split_args_def with_token_def body_token_def platform_payload_Inr inr_iffs
      jget_def dget_or_def)

lemma platform_error_answer:
  assumes "response_of 200 enc (Inl e) = (st, body)" "\<And>c. e \<noteq> ServiceError c 200"
  obtains e' where "read_platform_answer (Response st body) = Inl e'"
  using assms by (cases "read_platform_answer (Response st body)"; cases e) (auto simp: response_of_def)

text \<open>Through a network that loses no responses a call does nothing at the bank, or one call of its ledger.\<close>

lemma client_lock_cases:
  assumes "client_lock apps memory_ledger tok l = (r, l')" "link_inv cl apps l" "remote l = Some s"
  obtains (nothing) "remote l' = Some s" "link_inv cl apps l'"
      "\<And>answer. r = Inr (JObj answer) \<Longrightarrow> dget answer ''escrow_id'' = None"
    | (locked) p n t lk s' where "escrow_lock_args (apps (sent l)) (with_token tok) = Inr (p, n, t)"
      "escrow_lock p n t s = (Inr lk, s')" "r = Inr (JObj (lock_json lk))" "remote l' = Some s'"
      "link_inv cl apps l'"
proof -
  let ?serve = "\<lambda>st. apfst (response_of 201 lock_json)
      (post_escrow_lock (apps (sent l)) memory_ledger (with_token tok) st)"
  obtain out where out: "http_call ?serve l = (out, l')" "r = read_lock_answer out"
    using assms(1) by (cases "http_call ?serve l") (auto simp: client_lock_def)
  have arr: "answers_arrive l" using assms(2) by (simp add: link_inv_def)
  show thesis
    using out(1) arr
  proof (cases rule: http_call_arrives)
    case (lost f)
    show thesis
      by (rule nothing) (use lost assms(2,3) out(2) in \<open>auto simp: link_inv_def answers_arrive_def\<close>)
  next
    case (served st body)
    obtain q where q: "post_escrow_lock (apps (sent l)) memory_ledger (with_token tok) (Some s) = (q, remote l')"
        "response_of 201 lock_json q = (st, body)"
      using served(1) assms(3) by (auto simp: apfst_def map_prod_def split: prod.splits)
    show thesis
      using q(1)
    proof (cases rule: post_lock_cases)
      case (refused e)
      show thesis
        by (rule nothing)
          (use refused assms(2,3) served out(2) q(2) lock_error_answer [of lock_json e st body] in
            \<open>auto simp: link_inv_def answers_arrive_def\<close>)
    next
      case (called p n t s')
      have safe: "ledger_safe s'"
        using called(2) assms(2,3) ledger_safe_call(3) by (auto simp: link_inv_def)
      show thesis
      proof (cases q)
        case (Inl e)
        then have "s' = s" using called(2) escrow_lock_error by simp
        show thesis
          by (rule nothing)
            (use \<open>s' = s\<close> Inl called assms(2,3) served out(2) q(2) lock_error_answer [of lock_json e st body] in
              \<open>auto simp: link_inv_def answers_arrive_def\<close>)
      next
        case (Inr lk)
        show thesis
          by (rule locked [of p n t lk s'])
            (use Inr called assms(2,3) served out(2) q(2) safe in
              \<open>auto simp: link_inv_def answers_arrive_def response_of_def\<close>)
      qed
    qed
  qed
qed

text \<open>A platform-signed call, whichever endpoint serves it.\<close>

lemma http_platform:
  assumes "http_call (\<lambda>st. apfst (response_of 200 enc) (post st)) l = (out, l')" "answers_arrive l"
    "remote l = Some s"
    "\<forall>e st'. post (Some s) = (Inl e, st') \<longrightarrow> st' = Some s \<and> (\<forall>c. e \<noteq> ServiceError c 200)"
  obtains (unserved) e where "read_platform_answer out = Inl e" "remote l' = Some s" "fates l' = fates l"
    | (performed) x where "post (Some s) = (Inr x, remote l')" "read_platform_answer out = Inr (JObj (enc x))"
      "fates l' = fates l"
  using assms(1,2)
proof (cases rule: http_call_arrives)
  case (lost f)
  show thesis by (rule unserved) (use lost assms(3) in auto)
next
  case (served st body)
  obtain q where q: "post (Some s) = (q, remote l')" "response_of 200 enc q = (st, body)"
    using served(1) assms(3) by (auto simp: apfst_def map_prod_def split: prod.splits)
  show thesis
  proof (cases q)
    case (Inl e)
    obtain e' where e': "read_platform_answer (Response st body) = Inl e'"
      by (rule platform_error_answer [of enc e]) (use q assms(4) Inl in auto)
    show thesis
      by (rule unserved [of e']) (use e' served q(1) assms(4) Inl in auto)
  next
    case (Inr x)
    show thesis
      by (rule performed [of x]) (use q served Inr in \<open>auto simp: response_of_def\<close>)
  qed
qed

lemma link_inv_next:
  "link_inv cl apps l \<Longrightarrow> fates l' = fates l \<Longrightarrow> remote l' = Some s' \<Longrightarrow> ledger_safe s' \<Longrightarrow> link_inv cl apps l'"
  by (simp add: link_inv_def answers_arrive_def)

lemma link_inv_safe: "link_inv cl apps l \<Longrightarrow> remote l = Some s \<Longrightarrow> ledger_safe s"
  by (simp add: link_inv_def)

lemma client_release_cases:
  assumes "client_release cl apps memory_ledger k rcpt l = (r, l')" "link_inv cl apps l" "remote l = Some s"
  obtains (nothing) e where "r = Inl e" "remote l' = Some s" "link_inv cl apps l'"
    | (released) a rl s' where "rcpt = Some a" "escrow_release k a s = (Inr rl, s')"
      "r = Inr (JObj (release_json rl))" "remote l' = Some s'" "link_inv cl apps l'"
proof -
  let ?tok = "cl_sign cl (release_claims k rcpt)"
  let ?post = "post_escrow_release (apps (sent l)) memory_ledger (with_token ?tok) k"
  obtain out where out: "http_call (\<lambda>st. apfst (response_of 200 release_json) (?post st)) l = (out, l')"
      "r = read_platform_answer out"
    using assms(1) by (cases "http_call (\<lambda>st. apfst (response_of 200 release_json) (?post st)) l")
      (auto simp: client_release_def)
  have arr: "answers_arrive l" and faith: "signer_faithful cl apps"
    using assms(2) by (simp_all add: link_inv_def)
  have err: "st' = Some s \<and> (\<forall>c. e \<noteq> ServiceError c 200)" if "?post (Some s) = (Inl e, st')" for e st'
    using that
    by (cases rule: post_release_cases)
      (auto simp: release_args_not_200 escrow_release_not_200 dest: escrow_release_error)
  then have "\<forall>e st'. ?post (Some s) = (Inl e, st') \<longrightarrow> st' = Some s \<and> (\<forall>c. e \<noteq> ServiceError c 200)"
    by blast
  with out(1) arr assms(3) show thesis
  proof (cases rule: http_platform)
    case (unserved e)
    show thesis
      by (rule that(1) [of e])
        (use unserved out(2) link_inv_next [OF assms(2) unserved(3,2)] link_inv_safe [OF assms(2,3)] in auto)
  next
    case (performed rl)
    from performed(1) show thesis
    proof (cases rule: post_release_cases)
      case (called a s')
      obtain i d where d: "verify_jws_token (apps (sent l)) ?tok = Inr (JStr i, JObj d)"
          "jget d ''recipient_account_id'' = JStr a"
        using release_args_signed [OF called(1)] by (auto simp: signed_by_def with_token_def jget_def dget_or_def)
      then have "opt_str rcpt = JStr a"
        using faith by (simp add: signer_faithful_def release_claims_def jget_def dget_or_def)
      then have a: "rcpt = Some a" by (cases rcpt) (auto simp: opt_str_def)
      have "ledger_safe s'"
        using called(2) ledger_safe_call(4) [OF link_inv_safe [OF assms(2,3)]] by simp
      then show thesis
        using that(2) [of a rl s'] a called performed out(2) link_inv_next [OF assms(2) performed(3)] by simp
    qed simp
  qed
qed

lemma client_split_cases:
  assumes "client_split cl apps memory_ledger k wk p pct l = (r, l')" "link_inv cl apps l" "remote l = Some s"
  obtains (nothing) e where "r = Inl e" "remote l' = Some s" "link_inv cl apps l'"
    | (divided) a sp s' where "wk = Some a" "escrow_split k a pct p s = (Inr sp, s')"
      "r = Inr (JObj (split_json sp))" "remote l' = Some s'" "link_inv cl apps l'"
proof (cases "cl_split_configured cl")
  case False
  then show thesis using assms that(1) by (auto simp: client_split_def)
next
  case True
  let ?tok = "cl_sign cl (split_claims k wk p pct)"
  let ?post = "post_escrow_split (apps (sent l)) memory_ledger (with_token ?tok) k"
  obtain out where out: "http_call (\<lambda>st. apfst (response_of 200 split_json) (?post st)) l = (out, l')"
      "r = read_platform_answer out"
    using assms(1) True by (cases "http_call (\<lambda>st. apfst (response_of 200 split_json) (?post st)) l")
      (auto simp: client_split_def)
  have arr: "answers_arrive l" and faith: "signer_faithful cl apps"
    using assms(2) by (simp_all add: link_inv_def)
  have err: "st' = Some s \<and> (\<forall>c. e \<noteq> ServiceError c 200)" if "?post (Some s) = (Inl e, st')" for e st'
    using that
    by (cases rule: post_split_cases)
      (auto simp: split_args_not_200 escrow_split_not_200 dest: escrow_split_error)
  then have "\<forall>e st'. ?post (Some s) = (Inl e, st') \<longrightarrow> st' = Some s \<and> (\<forall>c. e \<noteq> ServiceError c 200)"
    by blast
  with out(1) arr assms(3) show thesis
  proof (cases rule: http_platform)
    case (unserved e)
    show thesis
      by (rule that(1) [of e])
        (use unserved out(2) link_inv_next [OF assms(2) unserved(3,2)] link_inv_safe [OF assms(2,3)] in auto)
  next
    case (performed sp)
    from performed(1) show thesis
    proof (cases rule: post_split_cases)
      case (called a n q s')
      obtain i d where d: "verify_jws_token (apps (sent l)) ?tok = Inr (JStr i, JObj d)"
          "jget d ''worker_account_id'' = JStr a" "jget d ''poster_account_id'' = JStr q"
          "as_int (jget d ''worker_pct'') = Some n"
        using split_args_claims [OF called(1)] by (auto simp: with_token_def jget_def dget_or_def)
      then have "opt_str wk = JStr a" "q = p" "n = pct"
        using faith by (simp_all add: signer_faithful_def split_claims_def jget_def dget_or_def)
      moreover from this(1) have "wk = Some a" by (cases wk) (auto simp: opt_str_def)
      moreover have "ledger_safe s'"
        using called(2) ledger_safe_call(5) [OF link_inv_safe [OF assms(2,3)]] by simp
      ultimately show thesis
        using that(2) [of a sp s'] called performed out(2) link_inv_next [OF assms(2) performed(3)] by simp
    qed simp
  qed
qed

text \<open>Whatever the network does, a payment the client reports was made from a locked escrow.\<close>

lemma http_call_Inr:
  assumes "apfst read_platform_answer (http_call (\<lambda>st. apfst (response_of 200 enc) (post st)) l) = (Inr j, l')"
    "\<forall>st' c. post (remote l) \<noteq> (Inl (ServiceError c 200), st')"
  shows "\<exists>x. post (remote l) = (Inr x, remote l')"
proof -
  obtain r st' where p: "post (remote l) = (r, st')" by fastforce
  show ?thesis
  proof (cases r)
    case (Inl e)
    then have "e \<noteq> ServiceError c 200" for c using assms(2) p by auto
    moreover obtain st body where o: "response_of 200 enc (Inl e) = (st, body)" by fastforce
    ultimately obtain e' where "read_platform_answer (Response st body) = Inl e'"
      using platform_error_answer [of enc e st body] by blast
    then show ?thesis using assms(1) p Inl o by (cases "fates l (sent l)") (auto simp: http_call_def)
  next
    case (Inr x)
    then show ?thesis
      using assms(1) p by (cases "fates l (sent l)") (auto simp: http_call_def response_of_def)
  qed
qed

lemma client_pays_locked:
  assumes "remote l = Some s"
    and "client_release cl apps memory_ledger k r l = (Inr j, l') \<or> client_split cl apps memory_ledger k wk p pct l = (Inr j, l')"
  shows "\<exists>e. dget (escrows s) k = Some e \<and> escrow_status e = Locked"
  using assms(2)
proof
  assume c: "client_release cl apps memory_ledger k r l = (Inr j, l')"
  obtain rl where "post_escrow_release (apps (sent l)) memory_ledger (with_token (cl_sign cl (release_claims k r))) k (Some s)
      = (Inr rl, remote l')"
    using http_call_Inr [OF c [unfolded client_release_def Let_def]] assms(1)
      release_args_not_200 escrow_release_not_200 by (fastforce elim!: post_release_cases)
  then show ?thesis
    by (cases rule: post_release_cases) (auto elim: escrow_release_ok)
next
  assume c: "client_split cl apps memory_ledger k wk p pct l = (Inr j, l')"
  then have "cl_split_configured cl" by (cases "cl_split_configured cl") (simp_all add: client_split_def)
  with c have c': "apfst read_platform_answer (http_call (\<lambda>st. apfst (response_of 200 split_json)
     (post_escrow_split (apps (sent l)) memory_ledger (with_token (cl_sign cl (split_claims k wk p pct))) k st)) l) = (Inr j, l')"
    by (simp add: client_split_def)
  obtain sp where "post_escrow_split (apps (sent l)) memory_ledger (with_token (cl_sign cl (split_claims k wk p pct))) k (Some s)
      = (Inr sp, remote l')"
    using http_call_Inr [OF c'] assms(1)
      split_args_not_200 escrow_split_not_200 by (fastforce elim!: post_split_cases)
  then show ?thesis
    by (cases rule: post_split_cases) (auto elim: escrow_split_ok)
qed

lemma http_bank_sel [simp]:
  "bo_lock (http_bank cl apps store) = client_lock apps store"
  "bo_release (http_bank cl apps store) k r l = apfst (map_sum id (\<lambda>_. ())) (client_release cl apps store k r l)"
  "bo_split (http_bank cl apps store) k w p pct l = apfst (map_sum id (\<lambda>_. ())) (client_split cl apps store k w p pct l)"
  by (simp_all add: http_bank_def)

lemma link_remote: "link_inv cl apps l \<Longrightarrow> \<exists>s. remote l = Some s \<and> ledger_inv s \<and> uuid_unique s"
  by (auto simp: link_inv_def ledger_safe_def)

lemma held_in_Some: "remote l = Some s \<Longrightarrow>
    held_in l k = map_option (\<lambda>e. (escrow_task_id e, escrow_amount e, escrow_status e)) (dget (escrows s) k)"
  by (simp add: held_in_def)

lemma funds_in_Some: "remote l = Some s \<Longrightarrow> funds_in l = balance_of s"
  by (auto simp: funds_in_def)

lemma pledged_in_Some: "remote l = Some s \<Longrightarrow> pledged_in l = pledged_by s"
  by (auto simp: pledged_in_def)

text \<open>A lock moves from the payer's balance to what he has pledged; resolving an escrow leaves the pledge.\<close>

lemma locked_pledge:
  assumes "escrow_lock p n t s = (Inr lk, s')" "ledger_inv s" "uuid_unique s"
  shows "balance_of s a = Some m \<Longrightarrow> balance_of s' a = Some (m - (pledged_by s' a - pledged_by s a))"
    and "a \<noteq> p \<Longrightarrow> pledged_by s' a = pledged_by s a"
proof -
  have "(balance_of s a = Some m \<longrightarrow> balance_of s' a = Some (m - (pledged_by s' a - pledged_by s a))) \<and>
      (a \<noteq> p \<longrightarrow> pledged_by s' a = pledged_by s a)"
  proof (cases "dget (locked_escrow_by_task s) (p, t)")
    case None
    have new: "dget (escrows s) (fresh_escrow_id s) = None"
      using assms(2,3) by (simp add: fresh_escrow_id_new ledger_inv_def)
    show ?thesis
      by (rule escrow_lock_ok [OF assms(1) None])
        (auto simp: balance_of_def get_account_def pledged_by_def dsum_put_new [OF new] pledge_of_def)
  next
    case (Some k)
    then show ?thesis by (simp add: escrow_lock_ok_again [OF assms(1)])
  qed
  then show "balance_of s a = Some m \<Longrightarrow> balance_of s' a = Some (m - (pledged_by s' a - pledged_by s a))"
    and "a \<noteq> p \<Longrightarrow> pledged_by s' a = pledged_by s a" by blast+
qed

lemma resolved_pledge:
  assumes "ledger_inv s" "dget (escrows s) k = Some e"
    "escrows s' = dput (escrows s) k (e\<lparr>escrow_status := st, resolved_at := at\<rparr>)"
  shows "pledged_by s' = pledged_by s"
proof -
  have "dict_ok (escrows s)" using assms(1) by (simp add: ledger_inv_def escrows_ok_def)
  then show ?thesis
    using assms(2-) by (auto simp: pledged_by_def dsum_put_old pledge_of_def)
qed

lemma released_pledge: "escrow_release k r s = (Inr rl, s') \<Longrightarrow> ledger_inv s \<Longrightarrow> pledged_by s' = pledged_by s"
  by (rule escrow_release_ok, assumption, rule resolved_pledge)

lemma split_pledge: "escrow_split k w pct p s = (Inr sp, s') \<Longrightarrow> ledger_inv s \<Longrightarrow> pledged_by s' = pledged_by s"
  by (rule escrow_split_ok, assumption, rule resolved_pledge)

text \<open>A call that leaves an escrow alone, seen from the link.\<close>

lemma exec_keeps_held:
  assumes "remote l = Some s" "remote l' = Some (ledger_exec op s)" "\<not> resolves k op" "ledger_inv s" "uuid_unique s"
    "held_in l k = Some x"
  shows "held_in l' k = Some x"
  using assms trans_keeps_locked [OF ledger_exec_trans, of k op s]
  by (auto simp: held_in_def ledger_inv_def)

lemma locked_escrow_view:
  assumes "escrow_lock p n t s = (Inr lk, s')" "ledger_inv s" "uuid_unique s"
  shows "\<exists>e. dget (escrows s') (lk_escrow_id lk) = Some e \<and> escrow_task_id e = t \<and> escrow_amount e = n \<and>
    escrow_status e = Locked"
proof (cases "dget (locked_escrow_by_task s) (p, t)")
  case None
  obtain e where "lk_escrow_id lk = fresh_escrow_id s" "escrows s' = dput (escrows s) (fresh_escrow_id s) e"
      "escrow_task_id e = t" "escrow_amount e = n" "escrow_status e = Locked"
    by (rule escrow_lock_ok [OF assms(1) None]) simp
  then show ?thesis by simp
next
  case (Some k)
  then obtain e where e: "dget (escrows s) k = Some e" "escrow_status e = Locked" "escrow_task_id e = t"
    using assms(2) by (auto simp: ledger_inv_def index_ok_def)
  moreover have "escrow_id e = k" using e(1) assms(2) by (auto simp: ledger_inv_def escrows_ok_def)
  ultimately show ?thesis using escrow_lock_ok_again [OF assms(1) Some] by auto
qed

lemma lock_args_claims:
  assumes "escrow_lock_args (apps n) (with_token tok) = Inr (p, a, t)"
  shows "\<exists>d. claims_of apps tok d \<and> jget d ''agent_id'' = JStr p \<and> jget d ''task_id'' = JStr t \<and>
    as_int (jget d ''amount'') = Some a"
  using lock_args_signed [OF assms]
  by (auto simp: signed_by_def claims_of_def with_token_def jget_def dget_or_def)

lemma release_view:
  assumes "escrow_release k a s = (Inr rl, s')" "remote l = Some s" "remote l' = Some s'"
  shows "\<exists>t n m. held_in l k = Some (t, n, Locked) \<and> held_in l' k = Some (t, n, Released) \<and>
    funds_in l a = Some m \<and> funds_in l' = (funds_in l)(a \<mapsto> m + n)"
proof -
  obtain e acc now where "dget (escrows s) k = Some e" "escrow_status e = Locked" "dget (accounts s) a = Some acc"
      "accounts s' = dput (accounts s) a (acc\<lparr>balance := balance acc + escrow_amount e\<rparr>)"
      "escrows s' = dput (escrows s) k (e\<lparr>escrow_status := Released, resolved_at := Some now\<rparr>)"
    by (rule escrow_release_ok [OF assms(1)]) blast
  then show ?thesis
    by (simp add: held_in_Some [OF assms(2)] held_in_Some [OF assms(3)] funds_in_Some [OF assms(2)]
        funds_in_Some [OF assms(3)] fun_eq_iff balance_of_def get_account_def)
qed

lemma split_view:
  assumes "escrow_split k a pct p s = (Inr sp, s')" "remote l = Some s" "remote l' = Some s'" "a \<noteq> p"
  shows "\<exists>t n m m'. held_in l k = Some (t, n, Locked) \<and> held_in l' k = Some (t, n, Split) \<and>
    funds_in l a = Some m \<and> funds_in l p = Some m' \<and>
    funds_in l' = (funds_in l)(a \<mapsto> m + split_amount n pct, p \<mapsto> m' + (n - split_amount n pct))"
proof -
  obtain e acc pacc now where "dget (escrows s) k = Some e" "escrow_status e = Locked"
      "dget (accounts s) a = Some acc" "dget (accounts s) p = Some pacc"
      "accounts s' = dput (dput (accounts s) a (acc\<lparr>balance := balance acc + split_amount (escrow_amount e) pct\<rparr>))
         p (pacc\<lparr>balance := balance pacc + (escrow_amount e - split_amount (escrow_amount e) pct)\<rparr>)"
      "escrows s' = dput (escrows s) k (e\<lparr>escrow_status := Split, resolved_at := Some now\<rparr>)"
    by (rule escrow_split_ok [OF assms(1)]) blast
  then show ?thesis using assms(4)
    by (simp add: held_in_Some [OF assms(2)] held_in_Some [OF assms(3)] funds_in_Some [OF assms(2)]
        funds_in_Some [OF assms(3)] fun_eq_iff balance_of_def get_account_def)
qed

text \<open>The laws, call by call.\<close>

lemma client_lock_link: "link_inv cl apps b \<Longrightarrow> link_inv cl apps (snd (client_lock apps memory_ledger tok b))"
proof -
  assume inv: "link_inv cl apps b"
  then obtain s where s: "remote b = Some s" using link_remote by blast
  obtain j l where call: "client_lock apps memory_ledger tok b = (j, l)" by fastforce
  from call inv s show ?thesis by (cases rule: client_lock_cases) (use call in simp_all)
qed

lemma client_lock_keeps:
  assumes inv: "link_inv cl apps b" and x: "held_in b k = Some x"
  shows "held_in (snd (client_lock apps memory_ledger tok b)) k = Some x"
proof -
  obtain s where s: "remote b = Some s" "ledger_inv s" "uuid_unique s" using link_remote [OF inv] by blast
  obtain j l where call: "client_lock apps memory_ledger tok b = (j, l)" by fastforce
  from call inv s(1) show ?thesis
  proof (cases rule: client_lock_cases)
    case nothing
    then show ?thesis using x s(1) call by (simp add: held_in_def)
  next
    case (locked p n t lk s')
    then show ?thesis using exec_keeps_held [of b s l "LockEscrow p n t" k x] x s call by simp
  qed
qed

lemma client_lock_gives:
  assumes inv: "link_inv cl apps b" and call: "client_lock apps memory_ledger tok b = (Inr (JObj answer), b')"
    and v: "dget answer ''escrow_id'' = Some v"
  shows "\<exists>d t n. claims_of apps tok d \<and> jget d ''task_id'' = JStr t \<and> as_int (jget d ''amount'') = Some n \<and>
    held_in b' (text_of v) = Some (t, n, Locked)"
proof -
  obtain s where s: "remote b = Some s" "ledger_inv s" "uuid_unique s" using link_remote [OF inv] by blast
  from call inv s(1) show ?thesis
  proof (cases rule: client_lock_cases)
    case nothing
    then show ?thesis using v by simp
  next
    case (locked p n t lk s')
    moreover have "v = JStr (lk_escrow_id lk)" using locked v by (simp add: lock_json_def)
    moreover obtain e where "dget (escrows s') (lk_escrow_id lk) = Some e" "escrow_task_id e = t"
        "escrow_amount e = n" "escrow_status e = Locked"
      using locked_escrow_view [OF locked(2) s(2,3)] by blast
    ultimately show ?thesis
      using lock_args_claims [of apps "sent b" tok p n t] by (auto simp: held_in_Some)
  qed
qed

lemma client_lock_pledges:
  assumes inv: "link_inv cl apps b" and m: "funds_in b a = Some m"
  shows "funds_in (snd (client_lock apps memory_ledger tok b)) a =
    Some (m - (pledged_in (snd (client_lock apps memory_ledger tok b)) a - pledged_in b a))"
proof -
  obtain s where s: "remote b = Some s" "ledger_inv s" "uuid_unique s" using link_remote [OF inv] by blast
  obtain j l where call: "client_lock apps memory_ledger tok b = (j, l)" by fastforce
  from call inv s(1) show ?thesis
  proof (cases rule: client_lock_cases)
    case nothing
    then show ?thesis using s(1) call m by (simp add: funds_in_Some pledged_in_Some)
  next
    case (locked p n t lk s')
    then show ?thesis
      using locked_pledge(1) [OF locked(2) s(2,3), of a m] s(1) call m by (simp add: funds_in_Some pledged_in_Some)
  qed
qed

lemma client_lock_spares:
  assumes inv: "link_inv cl apps b" and a: "\<forall>d. claims_of apps tok d \<longrightarrow> jget d ''agent_id'' \<noteq> JStr a"
  shows "pledged_in (snd (client_lock apps memory_ledger tok b)) a = pledged_in b a"
proof -
  obtain s where s: "remote b = Some s" "ledger_inv s" "uuid_unique s" using link_remote [OF inv] by blast
  obtain j l where call: "client_lock apps memory_ledger tok b = (j, l)" by fastforce
  from call inv s(1) show ?thesis
  proof (cases rule: client_lock_cases)
    case nothing
    then show ?thesis using s(1) call by (simp add: pledged_in_Some)
  next
    case (locked p n t lk s')
    have "a \<noteq> p" using lock_args_claims [of apps "sent b" tok p n t] locked(1) a by auto
    then show ?thesis
      using locked_pledge(2) [OF locked(2) s(2,3)] locked s(1) call by (simp add: pledged_in_Some)
  qed
qed

lemma client_release_link:
  "link_inv cl apps b \<Longrightarrow> link_inv cl apps (snd (client_release cl apps memory_ledger k r b))"
proof -
  assume inv: "link_inv cl apps b"
  then obtain s where s: "remote b = Some s" using link_remote by blast
  obtain j l where call: "client_release cl apps memory_ledger k r b = (j, l)" by fastforce
  from call inv s show ?thesis by (cases rule: client_release_cases) (use call in simp_all)
qed

lemma client_release_keeps:
  assumes inv: "link_inv cl apps b" and x: "k' \<noteq> k" "held_in b k' = Some x"
  shows "held_in (snd (client_release cl apps memory_ledger k r b)) k' = Some x"
proof -
  obtain s where s: "remote b = Some s" "ledger_inv s" "uuid_unique s" using link_remote [OF inv] by blast
  obtain j l where call: "client_release cl apps memory_ledger k r b = (j, l)" by fastforce
  from call inv s(1) show ?thesis
  proof (cases rule: client_release_cases)
    case (nothing e)
    then show ?thesis using x s(1) call by (simp add: held_in_def)
  next
    case (released a rl s')
    then show ?thesis using exec_keeps_held [of b s l "ReleaseEscrow k a" k' x] x s call by simp
  qed
qed

lemma client_release_refused:
  assumes inv: "link_inv cl apps b" and call: "client_release cl apps memory_ledger k r b = (Inl e, b')"
  shows "held_in b' = held_in b \<and> funds_in b' = funds_in b"
proof -
  obtain s where s: "remote b = Some s" using link_remote [OF inv] by blast
  from call inv s show ?thesis
    by (cases rule: client_release_cases) (use s in \<open>auto simp: held_in_def funds_in_def fun_eq_iff\<close>)
qed

lemma client_release_pays:
  assumes inv: "link_inv cl apps b" and call: "client_release cl apps memory_ledger k r b = (Inr j, b')"
  shows "\<exists>a t n m. r = Some a \<and> held_in b k = Some (t, n, Locked) \<and> held_in b' k = Some (t, n, Released) \<and>
    funds_in b a = Some m \<and> funds_in b' = (funds_in b)(a \<mapsto> m + n)"
proof -
  obtain s where s: "remote b = Some s" using link_remote [OF inv] by blast
  from call inv s show ?thesis
  proof (cases rule: client_release_cases)
    case (released a rl s')
    then show ?thesis using release_view [OF released(2) s released(4)] by blast
  qed simp
qed

lemma client_release_pledged:
  assumes inv: "link_inv cl apps b"
  shows "pledged_in (snd (client_release cl apps memory_ledger k r b)) = pledged_in b"
proof -
  obtain s where s: "remote b = Some s" "ledger_inv s" using link_remote [OF inv] by blast
  obtain j l where call: "client_release cl apps memory_ledger k r b = (j, l)" by fastforce
  from call inv s(1) show ?thesis
    by (cases rule: client_release_cases) (use s call released_pledge in \<open>auto simp: pledged_in_Some\<close>)
qed

lemma client_split_pledged:
  assumes inv: "link_inv cl apps b"
  shows "pledged_in (snd (client_split cl apps memory_ledger k wk p pct b)) = pledged_in b"
proof -
  obtain s where s: "remote b = Some s" "ledger_inv s" using link_remote [OF inv] by blast
  obtain j l where call: "client_split cl apps memory_ledger k wk p pct b = (j, l)" by fastforce
  from call inv s(1) show ?thesis
    by (cases rule: client_split_cases) (use s call split_pledge in \<open>auto simp: pledged_in_Some\<close>)
qed

lemma client_split_link:
  "link_inv cl apps b \<Longrightarrow> link_inv cl apps (snd (client_split cl apps memory_ledger k wk p pct b))"
proof -
  assume inv: "link_inv cl apps b"
  then obtain s where s: "remote b = Some s" using link_remote by blast
  obtain j l where call: "client_split cl apps memory_ledger k wk p pct b = (j, l)" by fastforce
  from call inv s show ?thesis by (cases rule: client_split_cases) (use call in simp_all)
qed

lemma client_split_keeps:
  assumes inv: "link_inv cl apps b" and x: "k' \<noteq> k" "held_in b k' = Some x"
  shows "held_in (snd (client_split cl apps memory_ledger k wk p pct b)) k' = Some x"
proof -
  obtain s where s: "remote b = Some s" "ledger_inv s" "uuid_unique s" using link_remote [OF inv] by blast
  obtain j l where call: "client_split cl apps memory_ledger k wk p pct b = (j, l)" by fastforce
  from call inv s(1) show ?thesis
  proof (cases rule: client_split_cases)
    case (nothing e)
    then show ?thesis using x s(1) call by (simp add: held_in_def)
  next
    case (divided a sp s')
    then show ?thesis using exec_keeps_held [of b s l "SplitEscrow k a pct p" k' x] x s call by simp
  qed
qed

lemma client_split_refused:
  assumes inv: "link_inv cl apps b" and call: "client_split cl apps memory_ledger k wk p pct b = (Inl e, b')"
  shows "held_in b' = held_in b \<and> funds_in b' = funds_in b"
proof -
  obtain s where s: "remote b = Some s" using link_remote [OF inv] by blast
  from call inv s show ?thesis
    by (cases rule: client_split_cases) (use s in \<open>auto simp: held_in_def funds_in_def fun_eq_iff\<close>)
qed

lemma client_split_pays:
  assumes inv: "link_inv cl apps b" and w: "wk \<noteq> Some p"
    and call: "client_split cl apps memory_ledger k wk p pct b = (Inr j, b')"
  shows "\<exists>a t n m m'. wk = Some a \<and> held_in b k = Some (t, n, Locked) \<and> held_in b' k = Some (t, n, Split) \<and>
    funds_in b a = Some m \<and> funds_in b p = Some m' \<and>
    funds_in b' = (funds_in b)(a \<mapsto> m + split_amount n pct, p \<mapsto> m' + (n - split_amount n pct))"
proof -
  obtain s where s: "remote b = Some s" using link_remote [OF inv] by blast
  from call inv s show ?thesis
  proof (cases rule: client_split_cases)
    case (divided a sp s')
    then show ?thesis using split_view [OF divided(2) s divided(4)] w by blast
  qed simp
qed

lemma drop_answer_Inl: "apfst (map_sum id (\<lambda>_. ())) c = (Inl e, b') \<longleftrightarrow> c = (Inl e, b')"
  by (cases c; cases "fst c") auto

lemma drop_answer_Inr: "apfst (map_sum id (\<lambda>_. ())) c = (Inr (), b') \<longleftrightarrow> (\<exists>j. c = (Inr j, b'))"
  by (cases c; cases "fst c") auto

interpretation http: escrow_bank "http_bank cl apps memory_ledger" "link_inv cl apps" "claims_of apps" held_in
    funds_in pledged_in
  for cl apps
  by unfold_locales
    (simp_all only: http_bank_sel snd_apfst drop_answer_Inl drop_answer_Inr,
      (rule client_lock_link client_release_link client_split_link client_lock_keeps client_lock_gives
        client_lock_pledges client_lock_spares client_release_pledged client_split_pledged client_release_keeps client_split_keeps client_release_refused client_split_refused; assumption)+,
      (elim exE, rule client_release_pays client_split_pays; assumption)+)

end
