(* ===== verification/Economy.thy ===== *)
theory Economy
  imports Task_Board Bank_Client
begin

text \<open>
  Task Board and Central Bank together: the board's handlers with the HTTP client as their bank, other
  requests to the bank in between. What the two keep between them: every task that is not finished has its
  reward locked in an escrow of its own (\<open>backed\<close>), and a finished one has paid exactly what its row
  says (\<open>payout\<close>).
\<close>

section \<open>Backing and income\<close>

definition backed :: "('b \<Rightarrow> string \<Rightarrow> (string \<times> int \<times> escrow_status) option) \<Rightarrow> row_map \<Rightarrow> 'b \<Rightarrow> bool" where
  "backed esc R b \<longleftrightarrow>
     (\<forall>tid r. R tid = Some r \<longrightarrow> \<not> terminal (t_status r) \<longrightarrow> esc b (t_escrow_id r) = Some (tid, t_reward r, Locked))"

text \<open>What a row has paid to an agent: nothing while it is active or its release is pending.\<close>

definition payout :: "task \<Rightarrow> string \<Rightarrow> int" where
  "payout r a =
     (if t_escrow_pending r then 0
      else case t_status r of
        Cancelled \<Rightarrow> if a = t_poster_id r then t_reward r else 0
      | Expired \<Rightarrow> if a = t_poster_id r then t_reward r else 0
      | Approved \<Rightarrow> if Some a = t_worker_id r then t_reward r else 0
      | Ruled \<Rightarrow>
          (let w = split_amount (t_reward r) (the (t_worker_pct r))
           in if Some a = t_worker_id r then w else if a = t_poster_id r then t_reward r - w else 0)
      | _ \<Rightarrow> 0)"

definition income :: "row_map \<Rightarrow> string \<Rightarrow> int" where
  "income R a = (\<Sum>tid \<in> dom R. payout (the (R tid)) a)"

text \<open>The tokens mean the same to both services: what the board decodes is what the bank has verified.\<close>

definition tokens_faithful :: "(string \<Rightarrow> payload \<Rightarrow> bool) \<Rightarrow> ('s, 'b) board_env \<Rightarrow> bool" where
  "tokens_faithful claims E \<longleftrightarrow>
     (\<forall>tok d p k. claims tok d \<longrightarrow> decode_escrow_token_payload E tok = Inr p \<longrightarrow> jget p k = jget d k)"

text \<open>The agent has signed no escrow token.\<close>

definition locks_nothing :: "(string \<Rightarrow> payload \<Rightarrow> bool) \<Rightarrow> string \<Rightarrow> bool" where
  "locks_nothing claims a \<longleftrightarrow> (\<forall>tok d. claims tok d \<longrightarrow> jget d ''agent_id'' \<noteq> JStr a)"

lemma payout_active [simp]: "\<not> terminal (t_status r) \<Longrightarrow> payout r a = 0"
  by (cases "t_status r") (auto simp: payout_def terminal_def)

lemma payout_pending [simp]: "t_escrow_pending r \<Longrightarrow> payout r a = 0"
  by (simp add: payout_def)

lemma income_put:
  assumes "finite (dom R)" "R tid = Some r"
  shows "income (R(tid \<mapsto> r')) a = income R a - payout r a + payout r' a"
proof -
  define f where "f S = (\<lambda>k. payout (the (S k)) a)" for S :: row_map
  have "sum (f R') (dom R') = f R' tid + sum (f R') (dom R' - {tid})" if "dom R' = dom R" for R'
    using sum.remove [of "dom R'" tid "f R'"] assms that by (auto simp: dom_def)
  moreover have "dom (R(tid \<mapsto> r')) = dom R" using assms(2) by auto
  moreover have "sum (f (R(tid \<mapsto> r'))) (dom R - {tid}) = sum (f R) (dom R - {tid})"
    by (rule sum.cong) (auto simp: f_def)
  ultimately have "sum (f (R(tid \<mapsto> r'))) (dom (R(tid \<mapsto> r'))) = sum (f R) (dom R) - f R tid + f (R(tid \<mapsto> r')) tid"
    by (metis add.commute add_diff_cancel_left')
  then show ?thesis using assms(2) by (simp add: income_def f_def del: dom_fun_upd)
qed

lemma income_new:
  assumes "finite (dom R)" "R tid = None"
  shows "income (R(tid \<mapsto> r')) a = income R a + payout r' a"
proof -
  have "tid \<notin> dom R" using assms(2) by auto
  moreover have "(\<Sum>k \<in> dom R. payout (the ((R(tid \<mapsto> r')) k)) a) = (\<Sum>k \<in> dom R. payout (the (R k)) a)"
    by (rule sum.cong) (use assms(2) in auto)
  ultimately show ?thesis using assms(1) by (simp add: income_def)
qed

lemma split_amount_ends [simp]: "split_amount n 0 = 0" "split_amount n 100 = n"
  by (simp_all add: split_amount_def)

text \<open>One release or split pays out exactly what the settled row says.\<close>

lemma payout_settled:
  assumes "task_edge r r'" "terminal (t_status r')" "\<not> t_escrow_pending r'" "pays_to r r' (Some p)"
    "t_worker_id r' \<noteq> Some (t_poster_id r')"
  shows "payout r' a = (if a = p then t_reward r else 0)"
proof -
  have f: "t_poster_id r' = t_poster_id r" "t_reward r' = t_reward r"
    using task_edge_fixed [OF assms(1)] by (simp_all add: fixed_columns_def)
  have w: "t_status r' \<in> {Approved, Ruled} \<Longrightarrow> t_worker_id r' = t_worker_id r"
    using task_edge_worker [OF assms(1)] task_edge_status [OF assms(1)] by (cases "t_status r = Open") auto
  show ?thesis
    using assms(2-5) w f
    by (cases "t_status r'"; cases "t_worker_id r") (auto simp: payout_def pays_to_def terminal_def Let_def)
qed

lemma payout_split:
  assumes "task_edge r r'" "t_status r' = Ruled" "\<not> t_escrow_pending r'" "t_worker_pct r' = Some pct"
    "t_worker_id r = Some wk" "wk \<noteq> t_poster_id r"
  shows "payout r' a = (if a = wk then split_amount (t_reward r) pct
    else if a = t_poster_id r then t_reward r - split_amount (t_reward r) pct else 0)"
proof -
  have f: "t_poster_id r' = t_poster_id r" "t_reward r' = t_reward r"
    using task_edge_fixed [OF assms(1)] by (simp_all add: fixed_columns_def)
  have "t_worker_id r' = Some wk"
    using task_edge_worker [OF assms(1)] task_edge_status [OF assms(1)] assms(2,5)
    by (cases "t_status r = Open") auto
  then show ?thesis using assms f by (simp add: payout_def)
qed

section \<open>A board on a bank that keeps its promises\<close>

locale board_and_bank = task_board ops rows good E + escrow_bank "be_bank E" inv claims seen funds pledged
  for ops :: "'s store_ops" and rows :: "'s \<Rightarrow> string \<Rightarrow> task option" and good :: "'s \<Rightarrow> bool"
    and E :: "('s, 'b) board_env"
    and inv :: "'b \<Rightarrow> bool" and claims :: "string \<Rightarrow> payload \<Rightarrow> bool"
    and seen :: "'b \<Rightarrow> string \<Rightarrow> (string \<times> int \<times> escrow_status) option" and funds :: "'b \<Rightarrow> string \<Rightarrow> int option"
    and pledged :: "'b \<Rightarrow> string \<Rightarrow> int"
begin

text \<open>
  What holds between two states of board and bank: the rows are backed, a balance has grown by what the rows have
  paid since and fallen by what its owner has put into escrows, and only who signs locks puts anything there.
\<close>

definition books :: "row_map \<times> 'b \<Rightarrow> row_map \<times> 'b \<Rightarrow> bool" where
  "books x y \<longleftrightarrow> inv (snd y) \<and> backed seen (fst y) (snd y) \<and>
     (\<forall>a m. funds (snd x) a = Some m \<longrightarrow>
        funds (snd y) a = Some (m + (income (fst y) a - income (fst x) a) - (pledged (snd y) a - pledged (snd x) a))) \<and>
     (\<forall>a. locks_nothing claims a \<longrightarrow> pledged (snd y) a = pledged (snd x) a)"

lemma books_refl: "inv b \<Longrightarrow> backed seen R b \<Longrightarrow> books (R, b) (R, b)"
  by (simp add: books_def)

lemma books_trans: "books x y \<Longrightarrow> books y z \<Longrightarrow> books x z"
  by (simp add: books_def)

lemma active_escrow:
  "backed seen R b \<Longrightarrow> R tid = Some r \<Longrightarrow> task_edge r r' \<Longrightarrow> seen b (t_escrow_id r) = Some (tid, t_reward r, Locked)"
  using task_edge_active by (auto simp: backed_def)

text \<open>Moving one row on, with the other escrows as they were.\<close>

lemma backed_put:
  assumes "backed seen R b" "R tid = Some r" "task_edge r r'"
    and keeps: "\<And>k x. k \<noteq> t_escrow_id r \<Longrightarrow> seen b k = Some x \<Longrightarrow> seen b' k = Some x"
    and self: "\<not> terminal (t_status r') \<Longrightarrow> seen b' = seen b"
  shows "backed seen (R(tid \<mapsto> r')) b'"
  unfolding backed_def
proof (intro allI impI)
  fix k q assume q: "(R(tid \<mapsto> r')) k = Some q" "\<not> terminal (t_status q)"
  note esc = active_escrow [OF assms(1-3)]
  show "seen b' (t_escrow_id q) = Some (k, t_reward q, Locked)"
  proof (cases "k = tid")
    case True
    with q have "q = r'" by simp
    then show ?thesis
      using True q(2) self esc task_edge_fixed [OF assms(3)] by (simp add: fixed_columns_def)
  next
    case False
    with q have "R k = Some q" by simp
    with assms(1) q(2) have "seen b (t_escrow_id q) = Some (k, t_reward q, Locked)" by (simp add: backed_def)
    moreover from this esc False have "t_escrow_id q \<noteq> t_escrow_id r" by auto
    ultimately show ?thesis using keeps by blast
  qed
qed

lemma backed_same: "backed seen R b \<Longrightarrow> seen b' = seen b \<Longrightarrow> backed seen R b'"
  by (simp add: backed_def)

lemma backed_keeps: "backed seen R b \<Longrightarrow> (\<And>k x. seen b k = Some x \<Longrightarrow> seen b' k = Some x) \<Longrightarrow> backed seen R b'"
  by (simp add: backed_def)

lemma books_lock:
  assumes "inv b" "backed seen R b" "bo_lock (be_bank E) token b = (j, b')"
  shows "books (R, b) (R, b')"
  unfolding books_def
proof (intro conjI allI impI; simp)
  show "inv b'" using lock_inv [OF assms(1), of token] assms(3) by simp
  show "backed seen R b'"
    by (rule backed_keeps [OF assms(2)]) (use lock_keeps [OF assms(1), of _ _ token] assms(3) in simp)
  show "funds b' a = Some (m - (pledged b' a - pledged b a))" if "funds b a = Some m" for a m
    using lock_pledges [OF assms(1) that, of token] assms(3) by simp
  show "pledged b' a = pledged b a" if "locks_nothing claims a" for a
    using lock_spares [OF assms(1), of token a] that assms(3) by (auto simp: locks_nothing_def)
qed

lemma books_create:
  assumes "inv b" "backed seen R b" "tokens_faithful claims E" "finite (dom R)" "R (t_id r) = None"
    "fresh_task r" "escrow_token_for E token r" "bo_lock (be_bank E) token b = (Inr (JObj answer), b')"
    "dget answer ''escrow_id'' = Some v" "t_escrow_id r = text_of v"
  shows "books (R, b) (R(t_id r \<mapsto> r), b')"
proof -
  note l = books_lock [OF assms(1,2,8)]
  obtain d t n where d: "claims token d" "jget d ''task_id'' = JStr t" "as_int (jget d ''amount'') = Some n"
      "seen b' (text_of v) = Some (t, n, Locked)"
    using lock_gives [OF assms(1,8,9)] by blast
  obtain p where p: "decode_escrow_token_payload E token = Inr p" "jget p ''task_id'' = JStr (t_id r)"
      "eq_int (jget p ''amount'') (t_reward r)"
    using assms(7) by (auto simp: escrow_token_for_def)
  have "jget p k = jget d k" for k
    using assms(3) d(1) p(1) by (simp add: tokens_faithful_def)
  then have "t = t_id r" "n = t_reward r"
    using d p eq_int_as_int [OF d(3), of "t_reward r"] by simp_all
  then have "seen b' (t_escrow_id r) = Some (t_id r, t_reward r, Locked)"
    using d(4) assms(10) by simp
  moreover have "backed seen R b'" using l by (simp add: books_def)
  ultimately have "backed seen (R(t_id r \<mapsto> r)) b'" by (auto simp: backed_def)
  moreover have "payout r a = 0" for a
    using assms(6) by (simp add: fresh_task_def terminal_def)
  ultimately show ?thesis
    using l income_new [OF assms(4,5), of r] by (simp add: books_def del: fun_upd_apply)
qed

lemma books_refused:
  assumes "inv b'" "backed seen R b" "seen b' = seen b" "funds b' = funds b" "pledged b' = pledged b"
  shows "books (R, b) (R, b')"
  using assms backed_same [OF assms(2,3)] by (simp add: books_def)

end

context board_and_bank
begin

lemma books_work:
  assumes "inv b" "backed seen R b" "finite (dom R)" "R tid = Some r" "task_edge r r'"
    "payout r' = (\<lambda>a. 0)" "\<not> terminal (t_status r') \<Longrightarrow> b' = b" "inv b'" "seen b' = seen b" "funds b' = funds b"
    "pledged b' = pledged b"
  shows "books (R, b) (R(tid \<mapsto> r'), b')"
proof -
  have "backed seen (R(tid \<mapsto> r')) b'"
    by (rule backed_put [OF assms(2,4,5)]) (use assms in auto)
  moreover have "income (R(tid \<mapsto> r')) a = income R a" for a
    using income_put [OF assms(3,4)] task_edge_active [OF assms(5)] by (simp add: assms(6))
  ultimately show ?thesis using assms by (simp add: books_def)
qed

lemma books_settle:
  assumes "inv b" "backed seen R b" "finite (dom R)" "R tid = Some r" "task_edge r r'"
    "terminal (t_status r')" "\<not> t_escrow_pending r'" "pays_to r r' recipient"
    "bo_release (be_bank E) (t_escrow_id r) recipient b = (Inr (), b')"
    "t_worker_id r' \<noteq> Some (t_poster_id r')"
  shows "books (R, b) (R(tid \<mapsto> r'), b')"
proof -
  obtain p t n m where p: "recipient = Some p" "seen b (t_escrow_id r) = Some (t, n, Locked)"
      "funds b p = Some m" "funds b' = (funds b)(p \<mapsto> m + n)"
    using release_pays [OF assms(1,9)] by blast
  have n: "n = t_reward r" using active_escrow [OF assms(2,4,5)] p(2) by simp
  have "backed seen (R(tid \<mapsto> r')) b'"
    by (rule backed_put [OF assms(2,4,5)])
      (use release_keeps [OF assms(1), of _ "t_escrow_id r" _ recipient] assms(6,9) in auto)
  moreover have "income (R(tid \<mapsto> r')) a = income R a + (if a = p then t_reward r else 0)" for a
    using income_put [OF assms(3,4), of r' a] task_edge_active [OF assms(5)] assms(8)
      payout_settled [OF assms(5,6,7) _ assms(10), of p a] by (simp add: p(1))
  moreover have "inv b'" "pledged b' = pledged b"
    using release_inv [OF assms(1), of "t_escrow_id r" recipient]
      release_pledged [OF assms(1), of "t_escrow_id r" recipient] assms(9) by simp_all
  ultimately show ?thesis using p(3,4) n by (auto simp: books_def)
qed

lemma books_split:
  assumes "inv b" "backed seen R b" "finite (dom R)" "R tid = Some r" "task_edge r r'"
    "t_status r' = Ruled" "t_worker_pct r' = Some pct" "\<not> t_escrow_pending r'"
    "bo_split (be_bank E) (t_escrow_id r) (t_worker_id r) (t_poster_id r) pct b = (Inr (), b')"
    "t_worker_id r \<noteq> Some (t_poster_id r)"
  shows "books (R, b) (R(tid \<mapsto> r'), b')"
proof -
  obtain wk t n m m' where p: "t_worker_id r = Some wk" "seen b (t_escrow_id r) = Some (t, n, Locked)"
      "funds b wk = Some m" "funds b (t_poster_id r) = Some m'"
      "funds b' = (funds b)(wk \<mapsto> m + split_amount n pct, t_poster_id r \<mapsto> m' + (n - split_amount n pct))"
    using split_pays [OF assms(1,9,10)] by blast
  have n: "n = t_reward r" using active_escrow [OF assms(2,4,5)] p(2) by simp
  have wk: "wk \<noteq> t_poster_id r" using assms(10) p(1) by simp
  have "backed seen (R(tid \<mapsto> r')) b'"
    by (rule backed_put [OF assms(2,4,5)])
      (use split_keeps [OF assms(1), of _ "t_escrow_id r" _ "t_worker_id r" "t_poster_id r" pct] assms(6,9) in
        \<open>auto simp: terminal_def\<close>)
  moreover have "income (R(tid \<mapsto> r')) a = income R a + payout r' a" for a
    using income_put [OF assms(3,4), of r' a] task_edge_active [OF assms(5)] by simp
  moreover have "inv b'" "pledged b' = pledged b"
    using split_inv [OF assms(1), of "t_escrow_id r" "t_worker_id r" "t_poster_id r" pct]
      split_pledged [OF assms(1), of "t_escrow_id r" "t_worker_id r" "t_poster_id r" pct] assms(9) by simp_all
  ultimately show ?thesis
    using p(3,4,5) n wk by (auto simp: books_def payout_split [OF assms(5,6,8,7) p(1) wk])
qed

lemma books_step:
  assumes "board_step E (R, b) (R', b')" "inv b" "backed seen R b" "tokens_faithful claims E" "finite (dom R)"
    "\<And>tid r. R tid = Some r \<Longrightarrow> t_worker_id r \<noteq> Some (t_poster_id r)"
    "\<And>tid r. R' tid = Some r \<Longrightarrow> t_worker_id r \<noteq> Some (t_poster_id r)"
  shows "books (R, b) (R', b')"
  using assms(1)
proof (cases rule: board_step.cases)
  case (work_step tid r r')
  have "books (R, b) (R(tid \<mapsto> r'), b)"
    by (rule books_work [OF assms(2,3,5), of tid r]) (use work_step assms(2) in \<open>auto simp: fun_eq_iff\<close>)
  with work_step show ?thesis by simp
next
  case (create_step r token answer v)
  with books_create [OF assms(2,3,4,5)] show ?thesis by blast
next
  case (lock_failed token e)
  with books_lock [OF assms(2,3)] show ?thesis by blast
next
  case (lock_unreadable token j)
  with books_lock [OF assms(2,3)] show ?thesis by blast
next
  case (release_failed tid r recipient e)
  with release_refused [OF assms(2)] release_inv [OF assms(2), of "t_escrow_id r" recipient]
    release_pledged [OF assms(2), of "t_escrow_id r" recipient]
  show ?thesis using books_refused [OF _ assms(3), of b'] by auto
next
  case (split_failed tid r wk poster pct e)
  with split_refused [OF assms(2)] split_inv [OF assms(2), of "t_escrow_id r" wk poster pct]
    split_pledged [OF assms(2), of "t_escrow_id r" wk poster pct]
  show ?thesis using books_refused [OF _ assms(3), of b'] by auto
next
  case (settle_step tid r r' recipient)
  then have "R' tid = Some r'" by simp
  then have "t_worker_id r' \<noteq> Some (t_poster_id r')" by (rule assms(7))
  with settle_step books_settle [OF assms(2,3,5), of tid r r' recipient b'] show ?thesis by blast
next
  case (split_step tid r r' pct)
  with assms(6) have "t_worker_id r \<noteq> Some (t_poster_id r)" by auto
  with split_step books_split [OF assms(2,3,5), of tid r r' pct b'] show ?thesis by blast
next
  case (pending_step tid r r' recipient e)
  have "books (R, b) (R(tid \<mapsto> r'), b')"
    by (rule books_work [OF assms(2,3,5), of tid r])
      (use pending_step release_refused [OF assms(2), of "t_escrow_id r" recipient e b']
        release_inv [OF assms(2), of "t_escrow_id r" recipient]
        release_pledged [OF assms(2), of "t_escrow_id r" recipient] in \<open>auto simp: fun_eq_iff\<close>)
  with pending_step show ?thesis by simp
qed

lemma books_refines:
  assumes "refines x y" "good (fst x)" "inv (snd x)" "backed seen (rows (fst x)) (snd x)" "tokens_faithful claims E"
  shows "books (rows (fst x), snd x) (rows (fst y), snd y)"
proof -
  have g: "good (fst y)" using assms(1,2) by (simp add: refines_def)
  from assms(1) show ?thesis
    unfolding refines_def
  proof (elim conjE disjE)
    assume "board_step E (rows (fst x), snd x) (rows (fst y), snd y)"
    then show ?thesis
      by (rule books_step [OF _ assms(3,4,5) good_finite [OF assms(2)]])
        (use good_worker assms(2) g in blast)+
  next
    assume "rows (fst y) = rows (fst x)" "snd y = snd x"
    then show ?thesis using books_refl [OF assms(3,4)] by simp
  qed
qed

lemma books_path:
  assumes "path x y" "good (fst x)" "inv (snd x)" "backed seen (rows (fst x)) (snd x)" "tokens_faithful claims E"
  shows "books (rows (fst x), snd x) (rows (fst y), snd y)"
  using assms(1)
proof (induction rule: rtranclp_induct)
  case base
  show ?case by (rule books_refl [OF assms(3,4)])
next
  case (step y z)
  have "good (fst y)" using path_good [OF step(1) assms(2)] .
  with step(3) books_refines [OF step(2)] assms(5) books_trans [OF step(3)] show ?case
    by (simp add: books_def)
qed

lemma books_serve:
  assumes "rows_ok (rows (db w))" "good (db w)" "inv (bank w)" "backed seen (rows (db w)) (bank w)"
    "tokens_faithful claims E"
  shows "books (rows (db w), bank w) (rows (db (board_serve E req w)), bank (board_serve E req w))"
  using books_path [OF board_serve_path [OF assms(1,2), of req]] assms by simp

end

section \<open>The in-memory board on the in-memory ledger\<close>

interpretation mem_economy: board_and_bank memory_store task_rows task_db_ok
    "E\<lparr>be_store := memory_store, be_bank := http_bank cl apps memory_ledger\<rparr>"
    "link_inv cl apps" "claims_of apps" held_in funds_in pledged_in
  for E :: "(task_db, ledger bank_link) board_env" and cl apps
proof (intro board_and_bank.intro)
  show "task_board memory_store task_rows task_db_ok
      (E\<lparr>be_store := memory_store, be_bank := http_bank cl apps memory_ledger\<rparr>)"
    by unfold_locales simp
  show "escrow_bank (be_bank (E\<lparr>be_store := memory_store, be_bank := http_bank cl apps memory_ledger\<rparr>))
      (link_inv cl apps) (claims_of apps) held_in funds_in pledged_in"
    using http.escrow_bank_axioms by simp
qed

section \<open>Runs of the two services\<close>

text \<open>
  The services are started on an empty board and a safe ledger. From then on the board serves requests with the
  client as its bank, and others call the bank themselves; releases and splits are ordered by the board alone
  (the platform signs them with its own key).
\<close>

definition runs_on :: "bank_client \<Rightarrow> (nat \<Rightarrow> bank_app) \<Rightarrow> (task_db, ledger bank_link) board_env \<Rightarrow> bool" where
  "runs_on cl apps E \<longleftrightarrow> be_store E = memory_store \<and> be_bank E = http_bank cl apps memory_ledger \<and>
     tokens_faithful (claims_of apps) E"

fun pays_nobody :: "bank_request \<Rightarrow> bool" where
  "pays_nobody (PostEscrowRelease body eid) = False"
| "pays_nobody (PostEscrowSplit body eid) = False"
| "pays_nobody _ = True"

inductive economy :: "bank_client \<Rightarrow> (nat \<Rightarrow> bank_app) \<Rightarrow> (task_db, ledger bank_link) board \<Rightarrow> bool"
  for cl apps where
  economy_start: "link_inv cl apps l \<Longrightarrow> economy cl apps (start_board h l)"
| economy_board: "economy cl apps w \<Longrightarrow> runs_on cl apps E \<Longrightarrow> economy cl apps (board_serve E req w)"
| economy_other: "economy cl apps w \<Longrightarrow> pays_nobody req \<Longrightarrow>
    bank_serve app memory_ledger req (remote (bank w)) = (r, st) \<Longrightarrow>
    economy cl apps (w\<lparr>bank := (bank w)\<lparr>remote := st\<rparr>\<rparr>)"

lemma serves_pays_nobody:
  "serves app memory_ledger req s r s' \<Longrightarrow> pays_nobody req \<Longrightarrow>
   s' = s \<or> (\<exists>op. s' = ledger_exec op s \<and> (\<forall>k. \<not> resolves k op))"
proof (induction rule: serves.induct)
  case (created body token a n s r s')
  then show ?case by (intro disjI2 exI [of _ "CreateAccount a n"]) simp
next
  case (credits body token a n ref s r s')
  then show ?case by (intro disjI2 exI [of _ "CreditAccount a n ref"]) simp
next
  case (locks body p n t s r s')
  then show ?case by (intro disjI2 exI [of _ "LockEscrow p n t"]) simp
qed simp_all

lemma runs_on_env:
  "runs_on cl apps E \<Longrightarrow> E\<lparr>be_store := memory_store, be_bank := http_bank cl apps memory_ledger\<rparr> = E"
  by (simp add: runs_on_def)

lemma economy_other_keeps:
  assumes "link_inv cl apps l" "pays_nobody req" "bank_serve app memory_ledger req (remote l) = (r, st)"
  shows "link_inv cl apps (l\<lparr>remote := st\<rparr>)" "held_in l k = Some x \<Longrightarrow> held_in (l\<lparr>remote := st\<rparr>) k = Some x"
proof -
  obtain s where s: "remote l = Some s" "ledger_inv s" "uuid_unique s" using link_remote [OF assms(1)] by blast
  then obtain s' where s': "st = Some s'" "serves app memory_ledger req s r s'"
    using bank_serve_serves [of app memory_ledger req s r st] assms(3) by auto
  have "ledger_safe s'"
    using serves_pays_nobody [OF s'(2) assms(2)] ledger_safe_exec [of s] s by (auto simp: ledger_safe_def)
  then show "link_inv cl apps (l\<lparr>remote := st\<rparr>)"
    using assms(1) s'(1) by (simp add: link_inv_def answers_arrive_def)
  show "held_in (l\<lparr>remote := st\<rparr>) k = Some x" if "held_in l k = Some x"
    using serves_pays_nobody [OF s'(2) assms(2)]
      exec_keeps_held [of l s "l\<lparr>remote := st\<rparr>" _ k x] that s s'(1) by (auto simp: held_in_def)
qed

lemma serve_books:
  assumes "runs_on cl apps E" "board_ok w" "link_inv cl apps (bank w)" "backed held_in (task_rows (db w)) (bank w)"
  shows "link_inv cl apps (bank (board_serve E req w))"
    "backed held_in (task_rows (db (board_serve E req w))) (bank (board_serve E req w))"
    "funds_in (bank w) a = Some m \<Longrightarrow>
     funds_in (bank (board_serve E req w)) a =
       Some (m + (income (task_rows (db (board_serve E req w))) a - income (task_rows (db w)) a)
         - (pledged_in (bank (board_serve E req w)) a - pledged_in (bank w) a))"
    "locks_nothing (claims_of apps) a \<Longrightarrow> pledged_in (bank (board_serve E req w)) a = pledged_in (bank w) a"
proof -
  have "mem_economy.books cl apps (task_rows (db w), bank w)
      (task_rows (db (board_serve E req w)), bank (board_serve E req w))"
    using mem_economy.books_serve [of w cl apps E req, unfolded runs_on_env [OF assms(1)]] assms
    by (simp add: board_ok_def runs_on_def)
  then show "link_inv cl apps (bank (board_serve E req w))"
    "backed held_in (task_rows (db (board_serve E req w))) (bank (board_serve E req w))"
    "funds_in (bank w) a = Some m \<Longrightarrow>
     funds_in (bank (board_serve E req w)) a =
       Some (m + (income (task_rows (db (board_serve E req w))) a - income (task_rows (db w)) a)
         - (pledged_in (bank (board_serve E req w)) a - pledged_in (bank w) a))"
    "locks_nothing (claims_of apps) a \<Longrightarrow> pledged_in (bank (board_serve E req w)) a = pledged_in (bank w) a"
    by (simp_all add: mem_economy.books_def)
qed

lemma economy_inv:
  "economy cl apps w \<Longrightarrow> board_ok w \<and> link_inv cl apps (bank w) \<and> backed held_in (task_rows (db w)) (bank w)"
proof (induction rule: economy.induct)
  case (economy_start l h)
  then show ?case
    using board_ok_start [of h l] by (simp add: backed_def task_rows_def empty_task_db_def)
next
  case (economy_board w E req)
  then have "be_store E = memory_store" by (simp add: runs_on_def)
  with economy_board serve_books(1,2) [OF economy_board(2)] serve_ok(1) [of E w req] show ?case by blast
next
  case (economy_other w req app r st)
  then show ?case
    using economy_other_keeps [of cl apps "bank w" req app r st] by (auto simp: backed_def board_ok_def)
qed

text \<open>What the rows of the board have paid to an agent.\<close>

definition paid_by_rows :: "task_db \<Rightarrow> string \<Rightarrow> int" where
  "paid_by_rows s a = sum_list (map (\<lambda>r. payout r a) (dvals (db_tasks s)))"

lemma income_list: "dict_ok d \<Longrightarrow> income (map_of d) a = sum_list (map (\<lambda>r. payout r a) (dvals d))"
proof (induction d)
  case Nil
  then show ?case by (simp add: income_def)
next
  case (Cons p d)
  obtain k r where p: "p = (k, r)" by fastforce
  have "map_of d k = None" "dict_ok d" using Cons.prems by (auto simp: dict_ok_def p map_of_eq_None_iff)
  then show ?case
    using Cons.IH income_new [of "map_of d" k r a] by (simp add: p finite_dom_map_of del: fun_upd_apply)
qed

lemma income_rows: "task_db_ok s \<Longrightarrow> income (task_rows s) a = paid_by_rows s a"
  by (simp add: task_rows_def paid_by_rows_def income_list task_db_ok_def)

end
