(* ===== verification/Economy_Props.thy ===== *)
theory Economy_Props
  imports Economy
begin

text \<open>The properties of Task Board and Central Bank together, with a concrete run for their witnesses.\<close>

section \<open>A run for concrete inputs\<close>

text \<open>Poster \<open>p\<close> with 100 coins and worker \<open>w\<close> with none; the lock will get the id \<open>esc-u\<close>.\<close>

definition econ_ledger :: ledger where
  "econ_ledger = snd (create_account ''w'' 0 (snd (create_account ''p'' 100 (empty_ledger demo_host))))"

definition econ_lock_claims :: payload where
  "econ_lock_claims = [(''action'', JStr ''escrow_lock''), (''agent_id'', JStr ''p''),
     (''task_id'', JStr demo_tid), (''amount'', JInt 10)]"

text \<open>The platform signs the one release of this run; nothing else it signs is ever verified.\<close>

definition econ_pay :: payload where
  "econ_pay = release_claims ''esc-u'' (Some ''w'')"

definition econ_client :: bank_client where
  "econ_client = \<lparr>cl_sign = (\<lambda>c. if c = econ_pay then ''pay'' else ''unknown''), cl_split_configured = True\<rparr>"

definition econ_app :: bank_app where
  "econ_app = \<lparr>bank_identity = Some (demo_identity [(''h.e.s'', ''p'', econ_lock_claims), (''pay'', ''plat'', econ_pay)],
     \<lambda>a. Response 404 None), live_platform_id = Some ''plat'', configured_platform_id = []\<rparr>"

abbreviation econ_apps :: "nat \<Rightarrow> bank_app" where
  "econ_apps \<equiv> (\<lambda>n. econ_app)"

definition econ_env :: "(task_db, ledger bank_link) board_env" where
  "econ_env =
     \<lparr>be_store = memory_store, be_bank = http_bank econ_client econ_apps memory_ledger,
      be_identity = Some (demo_identity demo_board_tokens), be_certificate = (\<lambda>t. CertRejected),
      be_decode = (\<lambda>part. if part = ''h'' then Decoded (JObj [(''kid'', JStr ''p'')])
                    else if part = ''e'' then Decoded (JObj econ_lock_claims) else BadBase64),
      be_platform_id = ''plat'', be_mentions_funds = (\<lambda>c. False), be_storage_root = [''data''],
      be_max_file_size = 100, be_max_files_per_task = 2, be_sha256 = (\<lambda>s. ''hash''),
      be_can_write = (\<lambda>p. True)\<rparr>"

lemma econ_env_store: "be_store econ_env = memory_store"
  by (simp add: econ_env_def)

definition econ_link :: "(nat \<Rightarrow> fate) \<Rightarrow> ledger bank_link" where
  "econ_link f = \<lparr>fates = f, sent = 0, remote = Some econ_ledger\<rparr>"

fun econ_serve :: "board_request list \<Rightarrow> (task_db, ledger bank_link) board \<Rightarrow> (task_db, ledger bank_link) board" where
  "econ_serve [] w = w"
| "econ_serve (req # reqs) w = econ_serve reqs (board_serve econ_env req w)"

text \<open>Created, bid on, accepted, delivered; the next request is the approval.\<close>

definition econ_submitted :: "(nat \<Rightarrow> fate) \<Rightarrow> (task_db, ledger bank_link) board" where
  "econ_submitted f = econ_serve [CreateTask ''new.t.s'' ''h.e.s'', SubmitBid demo_tid ''bid.t.s'',
     AcceptBid demo_tid ''bid-'' ''accept.t.s'', UploadAsset demo_tid ''upload.t.s'' ''bytes'' ''f.txt'' ''text'',
     SubmitDeliverable demo_tid ''submit.t.s''] (start_board demo_host (econ_link f))"

lemma econ_verify: "verify_jws_token (econ_apps n) tok = Inr (JStr i, JObj d) \<longleftrightarrow>
    tok = ''h.e.s'' \<and> i = ''p'' \<and> d = econ_lock_claims \<or> tok = ''pay'' \<and> i = ''plat'' \<and> d = econ_pay"
  by (auto simp: verify_jws_token_def econ_app_def demo_identity_def verified_as_def response_json_def as_dict_def
      jget_def dget_or_def subscript_def split: if_splits)

lemma econ_faithful: "signer_faithful econ_client econ_apps"
  by (auto simp: signer_faithful_def econ_verify econ_client_def split: if_splits)

lemma econ_claims: "claims_of econ_apps tok d \<longleftrightarrow> tok = ''h.e.s'' \<and> d = econ_lock_claims \<or> tok = ''pay'' \<and> d = econ_pay"
  by (auto simp: claims_of_def econ_verify)

lemma econ_runs_on: "runs_on econ_client econ_apps econ_env"
  by (auto simp: runs_on_def econ_env_def tokens_faithful_def econ_claims decode_escrow_token_payload_def)

lemma econ_safe: "ledger_safe econ_ledger"
proof -
  have "ledger_safe (empty_ledger demo_host)"
    using ledger_inv_empty [of demo_host] demo_host_unique
    by (simp add: ledger_safe_def uuid_unique_def empty_ledger_def host.defs)
  then have "ledger_safe (ledger_exec (CreateAccount ''w'' 0) (ledger_exec (CreateAccount ''p'' 100) (empty_ledger demo_host)))"
    by (intro ledger_safe_exec)
  then show ?thesis by (simp add: econ_ledger_def)
qed

lemma econ_link_inv: "link_inv econ_client econ_apps (econ_link (\<lambda>n. Delivered))"
  by (simp add: link_inv_def econ_faithful answers_arrive_def econ_link_def econ_safe)

lemma econ_serve_runs: "economy econ_client econ_apps w \<Longrightarrow> economy econ_client econ_apps (econ_serve reqs w)"
  by (induction reqs w rule: econ_serve.induct) (simp_all add: economy_board [OF _ econ_runs_on])

lemma econ_run: "economy econ_client econ_apps (econ_submitted (\<lambda>n. Delivered))"
  unfolding econ_submitted_def by (intro econ_serve_runs economy_start econ_link_inv)

lemma econ_submitted_facts:
  "map_option t_status (mem_get_task demo_tid (db (econ_submitted (\<lambda>n. Delivered)))) = Some Submitted"
  "map_option t_escrow_id (mem_get_task demo_tid (db (econ_submitted (\<lambda>n. Delivered)))) = Some ''esc-u''"
  "map_option (\<lambda>s. balance_of s ''w'') (remote (bank (econ_submitted (\<lambda>n. Delivered)))) = Some (Some 0)"
  "paid_by_rows (db (econ_submitted (\<lambda>n. Delivered))) ''w'' = 0"
  "paid_by_rows (db (board_serve econ_env (ApproveTask demo_tid ''approve.t.s'') (econ_submitted (\<lambda>n. Delivered)))) ''w'' = 10"
  by code_simp+

section \<open>Properties\<close>

text \<open>
  C18: Tasks are backed. On a board started empty over an in-memory ledger, as long as the network loses no response
  of the bank, requests are served one after another, tokens say the same to board and bank, and nobody but
  the board orders releases or splits: whatever requests the board has served and whatever else others have asked
  of the bank, every task that is open, accepted, submitted or disputed has its own escrow - locked, for that task,
  with exactly its reward. (Where a response is lost this fails: C20.)
\<close>
theorem escrows_backed:
  assumes "economy cl apps w" and "mem_get_task tid (db w) = Some r" and "\<not> terminal (t_status r)"
  shows "\<exists>s e. remote (bank w) = Some s \<and> dget (escrows s) (t_escrow_id r) = Some e \<and> escrow_status e = Locked \<and>
    escrow_task_id e = tid \<and> escrow_amount e = t_reward r"
proof -
  have b: "held_in (bank w) (t_escrow_id r) = Some (tid, t_reward r, Locked)"
    using economy_inv [OF assms(1)] assms(2,3) by (simp add: backed_def task_rows_def mem_get_task_def)
  then show ?thesis by (auto simp: held_in_def split: option.splits)
qed

theorem escrows_backed_witness:
  "\<exists>s e. remote (bank (econ_submitted (\<lambda>n. Delivered))) = Some s \<and> dget (escrows s) ''esc-u'' = Some e \<and>
     escrow_status e = Locked \<and> escrow_amount e = 10"
proof -
  obtain r where r: "mem_get_task demo_tid (db (econ_submitted (\<lambda>n. Delivered))) = Some r" "t_status r = Submitted"
      "t_escrow_id r = ''esc-u''"
    using econ_submitted_facts(1,2) by auto
  have "map_option t_reward (mem_get_task demo_tid (db (econ_submitted (\<lambda>n. Delivered)))) = Some 10" by code_simp
  with r escrows_backed [OF econ_run r(1)] show ?thesis by (auto simp: terminal_def)
qed

text \<open>
  C19: Every request pays exactly. On a board started empty over an in-memory ledger, reached by requests served one
  after another through a network that loses no response of the bank, with releases and splits ordered by the board
  alone: serving a request changes the balance of every agent, poster or worker, by exactly what the rows it
  settles owe him - the reward of an approved task to its worker, of a cancelled or expired one to its poster, the
  two shares of a ruling to worker and poster, nothing where the release is still pending or the request fails -
  less what the request has put into escrows in his name; and nothing is put there for an agent who signed no lock.
\<close>
theorem requests_pay_exactly:
  assumes "economy cl apps w" and "runs_on cl apps E"
    and "remote (bank w) = Some s" and "balance_of s a = Some m"
  shows "\<exists>s'. remote (bank (board_serve E req w)) = Some s' \<and>
    balance_of s' a = Some (m + (paid_by_rows (db (board_serve E req w)) a - paid_by_rows (db w) a)
      - (pledged_by s' a - pledged_by s a)) \<and>
    (locks_nothing (claims_of apps) a \<longrightarrow> pledged_by s' a = pledged_by s a)"
proof -
  note i = economy_inv [OF assms(1)]
  have w: "board_ok w" "board_ok (board_serve E req w)"
    using i serve_ok(1) [of E w req] assms(2) by (simp_all add: runs_on_def)
  obtain s' where s': "remote (bank (board_serve E req w)) = Some s'"
    using serve_books(1) [OF assms(2)] i link_remote by blast
  have "funds_in (bank w) a = Some m" using assms(3,4) by (simp add: funds_in_def)
  then show ?thesis
    using serve_books(3) [OF assms(2) w(1), of a m req] serve_books(4) [OF assms(2) w(1), of a req] i s' w
    by (auto simp: income_rows board_ok_def funds_in_Some pledged_in_Some assms(3))
qed

theorem requests_pay_exactly_witness:
  "(\<exists>s'. remote (bank (board_serve econ_env (CreateTask ''new.t.s'' ''h.e.s'') (start_board demo_host (econ_link (\<lambda>n. Delivered))))) = Some s' \<and>
      balance_of s' ''p'' = Some 90 \<and> pledged_by s' ''p'' = 10) \<and>
   (\<exists>s'. remote (bank (board_serve econ_env (ApproveTask demo_tid ''approve.t.s'') (econ_submitted (\<lambda>n. Delivered)))) = Some s' \<and>
      balance_of s' ''w'' = Some 10)"
proof
  let ?w = "start_board demo_host (econ_link (\<lambda>n. Delivered))"
  have f: "map_option (\<lambda>s. pledged_by s ''p'') (remote (bank (board_serve econ_env (CreateTask ''new.t.s'' ''h.e.s'') ?w))) = Some 10"
    "paid_by_rows (db (board_serve econ_env (CreateTask ''new.t.s'' ''h.e.s'') ?w)) ''p'' = 0"
    "paid_by_rows (db ?w) ''p'' = 0" "balance_of econ_ledger ''p'' = Some 100" "pledged_by econ_ledger ''p'' = 0"
    by code_simp+
  have "remote (bank ?w) = Some econ_ledger" by (simp add: econ_link_def)
  from requests_pay_exactly [OF economy_start [OF econ_link_inv] econ_runs_on this f(4), of "CreateTask ''new.t.s'' ''h.e.s''"]
  show "\<exists>s'. remote (bank (board_serve econ_env (CreateTask ''new.t.s'' ''h.e.s'') ?w)) = Some s' \<and>
      balance_of s' ''p'' = Some 90 \<and> pledged_by s' ''p'' = 10"
    using f by auto
next
  have l: "locks_nothing (claims_of econ_apps) ''w''"
    by (auto simp: locks_nothing_def econ_claims econ_lock_claims_def econ_pay_def release_claims_def jget_def dget_or_def)
  obtain s where s: "remote (bank (econ_submitted (\<lambda>n. Delivered))) = Some s" "balance_of s ''w'' = Some 0"
    using econ_submitted_facts(3) by auto
  show "\<exists>s'. remote (bank (board_serve econ_env (ApproveTask demo_tid ''approve.t.s'') (econ_submitted (\<lambda>n. Delivered)))) = Some s' \<and>
     balance_of s' ''w'' = Some 10"
    using requests_pay_exactly [OF econ_run econ_runs_on s, of "ApproveTask demo_tid ''approve.t.s''"] l
    unfolding econ_submitted_facts(4,5) by auto
qed

text \<open>
  C20: A lost answer strands the task. Whatever the network does: once the escrow of a row is no longer locked at
  the bank - the bank has released or split it, but its response did not arrive - the board can neither approve,
  cancel nor rule on the task; every attempt ends in an error, though the money has been paid.
\<close>
theorem lost_answer_strands:
  assumes "be_store E = memory_store" and "be_bank E = http_bank cl apps memory_ledger" and "board_ok w"
    and "mem_get_task tid (db w) = Some r" and "remote (bank w) = Some s"
    and "\<forall>e. dget (escrows s) (t_escrow_id r) = Some e \<longrightarrow> escrow_status e \<noteq> Locked"
  shows "\<not> is_ok (fst (approve_task E tid token w)) \<and> \<not> is_ok (fst (cancel_task E tid token w)) \<and>
    \<not> is_ok (fst (record_ruling E tid token w))"
proof -
  have "False" if h: "cancel_task E tid token w = (Inr resp, w') \<or> approve_task E tid token w = (Inr resp, w') \<or>
      record_ruling E tid token w = (Inr resp, w')" for resp w'
  proof -
    obtain r0 p pct where r0: "task_rows (db w) tid = Some r0"
      "bo_release (be_bank E) (t_escrow_id r0) p (bank w) = (Inr (), bank w') \<or>
       bo_split (be_bank E) (t_escrow_id r0) (t_worker_id r0) (t_poster_id r0) pct (bank w) = (Inr (), bank w')"
      using mem_board.handlers_pay [of w E tid token resp w', unfolded memory_env [OF assms(1)]] h assms(3)
      by (auto simp: board_ok_def)
    then obtain j where "client_release cl apps memory_ledger (t_escrow_id r0) p (bank w) = (Inr j, bank w') \<or>
        client_split cl apps memory_ledger (t_escrow_id r0) (t_worker_id r0) (t_poster_id r0) pct (bank w) = (Inr j, bank w')"
      by (auto simp: assms(2) drop_answer_Inr)
    from client_pays_locked [OF assms(5) this] r0(1) assms(4,6) show False
      by (auto simp: mem_get_task_def task_rows_def)
  qed
  then show ?thesis
    by (metis is_ok_iff prod.collapse)
qed

theorem lost_answer_strands_witness:
  "\<exists>w s. w = snd (approve_task econ_env demo_tid ''approve.t.s'' (econ_submitted (\<lambda>n. if n = 1 then ResponseLost NoConnection else Delivered))) \<and>
     remote (bank w) = Some s \<and> balance_of s ''w'' = Some 10 \<and>
     map_option t_status (mem_get_task demo_tid (db w)) = Some Submitted \<and>
     \<not> is_ok (fst (approve_task econ_env demo_tid ''approve.t.s'' w))"
proof -
  let ?start = "econ_submitted (\<lambda>n. if n = 1 then ResponseLost NoConnection else Delivered)"
  let ?w = "snd (approve_task econ_env demo_tid ''approve.t.s'' ?start)"
  have f: "map_option t_status (mem_get_task demo_tid (db ?w)) = Some Submitted"
      "map_option t_escrow_id (mem_get_task demo_tid (db ?w)) = Some ''esc-u''"
      "map_option (\<lambda>s. (balance_of s ''w'', map_option escrow_status (dget (escrows s) ''esc-u''))) (remote (bank ?w))
        = Some (Some 10, Some Released)"
    by code_simp+
  have "board_ok ?start"
    unfolding econ_submitted_def econ_serve.simps by (intro serve_ok(1) board_ok_start econ_env_store)
  then have ok: "board_ok ?w"
    using serve_ok(1) [OF econ_env_store, of ?start "ApproveTask demo_tid ''approve.t.s''"] by simp
  obtain r where r: "mem_get_task demo_tid (db ?w) = Some r" "t_escrow_id r = ''esc-u''" using f(2) by auto
  obtain s e where s: "remote (bank ?w) = Some s" "balance_of s ''w'' = Some 10" "dget (escrows s) ''esc-u'' = Some e"
      "escrow_status e = Released"
    using f(3) by auto
  have "\<not> is_ok (fst (approve_task econ_env demo_tid ''approve.t.s'' ?w))"
    using lost_answer_strands [OF _ _ ok r(1) s(1), of econ_env econ_client econ_apps "''approve.t.s''"] r(2) s(3,4)
    by (simp add: econ_env_def)
  with f(1) s show ?thesis by blast
qed

text \<open>
  C21: No self-dealing. On a board that was started empty, whatever it has served, no task's worker is its poster
  and every stored bid is on a stored task of somebody else: the split of an escrow between one account and
  itself never arises from a task.
\<close>
theorem no_self_dealing:
  assumes "be_store E = memory_store" and "board_run E (start_board h b) w"
    and "mem_get_task tid (db w) = Some r"
  shows "t_worker_id r \<noteq> Some (t_poster_id r) \<and>
    list_all (\<lambda>x. b_bidder_id x \<noteq> t_poster_id r) (mem_get_bids_for_task tid (db w))"
proof -
  have ok: "task_db_ok (db w)"
    using run_ok(1) [OF assms(2,1) board_ok_start] by (simp add: board_ok_def)
  have r: "dget (db_tasks (db w)) tid = Some r" using assms(3) by (simp add: mem_get_task_def)
  have "b_bidder_id x \<noteq> t_poster_id r" if "x \<in> set (mem_get_bids_for_task tid (db w))" for x
  proof -
    from that obtain k where "(k, x) \<in> set (db_bids (db w))" "b_task_id x = tid"
      by (auto simp: mem_get_bids_for_task_def)
    then obtain k where k: "dget (db_bids (db w)) k = Some x" "b_task_id x = tid"
      using ok by (auto simp: task_db_ok_def dget_Some_set)
    then show ?thesis using ok r by (fastforce simp: task_db_ok_def)
  qed
  then show ?thesis using ok r by (auto simp: task_db_ok_def list_all_iff)
qed

theorem no_self_dealing_witness:
  "\<exists>r. mem_get_task demo_tid (db demo_accepted) = Some r \<and> t_worker_id r = Some ''w'' \<and> t_poster_id r \<noteq> ''w''"
proof -
  have "board_run demo_env (start_board demo_host []) demo_accepted"
    unfolding demo_accepted_def demo_bid_def demo_open_def demo_start_def
    by (intro run_request run_start) simp_all
  moreover obtain r where r: "mem_get_task demo_tid (db demo_accepted) = Some r" "t_worker_id r = Some ''w''"
  proof -
    have "map_option t_worker_id (mem_get_task demo_tid (db demo_accepted)) = Some (Some ''w'')" by code_simp
    then show thesis using that by auto
  qed
  ultimately show ?thesis
    using no_self_dealing [OF demo_env_store, of demo_host "[]" demo_accepted demo_tid r] by auto
qed

end
