(* ===== verification/Dispute_Store.thy ===== *)
theory Dispute_Store
  imports Json
begin

text \<open>
  The Court's storage, \<^verbatim>\<open>services/in_memory_dispute_store.py\<close>: disputes with their votes, one
  dispute per task. The interface the Court's services rely on (\<^verbatim>\<open>services/protocol.py\<close>) is the record
  \<open>dispute_ops\<close> with the laws of the locale \<open>dispute_storage\<close>, interpreted on the in-memory store.
\<close>

section \<open>Rows\<close>

text \<open>\<^verbatim>\<open>rebuttal_submitted\<close> is a status the code tests for and never sets.\<close>

datatype dispute_status = Rebuttal_Pending | Rebuttal_Submitted | Judging | Dispute_Ruled

fun dispute_status_text :: "dispute_status \<Rightarrow> string" where
  "dispute_status_text Rebuttal_Pending = ''rebuttal_pending''"
| "dispute_status_text Rebuttal_Submitted = ''rebuttal_submitted''"
| "dispute_status_text Judging = ''judging''"
| "dispute_status_text Dispute_Ruled = ''ruled''"

text \<open>The time of a vote is the judge's own text or a clock reading formatted by the Court.\<close>

datatype time_text = Written string | Clocked int

record judge_vote =
  jv_judge_id :: string
  jv_worker_pct :: int
  jv_reasoning :: string
  jv_voted_at :: time_text

record vote =
  v_id :: string
  v_dispute_id :: string
  v_judge_id :: string
  v_worker_pct :: int
  v_reasoning :: string
  v_voted_at :: time_text

record dispute =
  d_id :: string
  d_task_id :: string
  d_claimant_id :: string
  d_respondent_id :: string
  d_claim :: string
  d_rebuttal :: "string option"
  d_status :: dispute_status
  d_rebuttal_deadline :: int
  d_worker_pct :: "int option"
  d_ruling_summary :: "string option"
  d_escrow_id :: string
  d_filed_at :: int
  d_rebutted_at :: "int option"
  d_ruled_at :: "int option"

text \<open>What the interface calls a dispute: the row with its votes.\<close>

type_synonym dispute_view = "dispute \<times> vote list"

record dispute_summary =
  ds_id :: string
  ds_task_id :: string
  ds_claimant_id :: string
  ds_respondent_id :: string
  ds_status :: dispute_status
  ds_worker_pct :: "int option"
  ds_filed_at :: int
  ds_ruled_at :: "int option"

record dispute_db = host +
  disputes :: "(string, dispute) dict"
  dispute_id_by_task :: "(string, string) dict"
  votes_by_dispute :: "(string, vote list) dict"

section \<open>Operations\<close>

definition dispute_now :: "dispute_db \<Rightarrow> int \<times> dispute_db" where
  "dispute_now s = read_clock s"

definition new_dispute_id :: "dispute_db \<Rightarrow> string \<times> dispute_db" where
  "new_dispute_id s = apfst (prefixed ''disp-'') (new_uuid s)"

definition new_vote_id :: "dispute_db \<Rightarrow> string \<times> dispute_db" where
  "new_vote_id s = apfst (prefixed ''vote-'') (new_uuid s)"

definition mem_get_dispute_row :: "string \<Rightarrow> dispute_db \<Rightarrow> dispute option" where
  "mem_get_dispute_row k s = dget (disputes s) k"

definition mem_get_votes :: "string \<Rightarrow> dispute_db \<Rightarrow> vote list" where
  "mem_get_votes k s = dget_or (votes_by_dispute s) k []"

definition mem_get_dispute :: "string \<Rightarrow> dispute_db \<Rightarrow> dispute_view option" where
  "mem_get_dispute k s =
     (case dget (disputes s) k of None \<Rightarrow> None | Some row \<Rightarrow> Some (row, mem_get_votes k s))"

definition mem_insert_dispute ::
    "string \<Rightarrow> string \<Rightarrow> string \<Rightarrow> string \<Rightarrow> string \<Rightarrow> int \<Rightarrow> dispute_db \<Rightarrow> dispute_view result \<times> dispute_db" where
  "mem_insert_dispute task_id claimant respondent claim eid deadline s =
     (if dget (dispute_id_by_task s) task_id \<noteq> None then (Inl (PyError ''DuplicateDisputeError''), s)
      else
        let (k, s1) = new_dispute_id s;
            (filed_at, s2) = dispute_now s1;
            row = \<lparr>d_id = k, d_task_id = task_id, d_claimant_id = claimant, d_respondent_id = respondent,
                   d_claim = claim, d_rebuttal = None, d_status = Rebuttal_Pending, d_rebuttal_deadline = deadline,
                   d_worker_pct = None, d_ruling_summary = None, d_escrow_id = eid, d_filed_at = filed_at,
                   d_rebutted_at = None, d_ruled_at = None\<rparr>
        in (Inr (row, []),
            s2\<lparr>disputes := dput (disputes s2) k row,
               dispute_id_by_task := dput (dispute_id_by_task s2) task_id k,
               votes_by_dispute := dput (votes_by_dispute s2) k []\<rparr>))"

definition mem_update_rebuttal :: "string \<Rightarrow> string \<Rightarrow> dispute_db \<Rightarrow> dispute_db" where
  "mem_update_rebuttal k rebuttal s =
     (case dget (disputes s) k of
        None \<Rightarrow> s
      | Some row \<Rightarrow>
          let (now, s1) = dispute_now s
          in s1\<lparr>disputes := dput (disputes s1) k (row\<lparr>d_rebuttal := Some rebuttal, d_rebutted_at := Some now\<rparr>)\<rparr>)"

definition mem_set_status :: "string \<Rightarrow> dispute_status \<Rightarrow> dispute_db \<Rightarrow> dispute_db" where
  "mem_set_status k st s =
     (case dget (disputes s) k of
        None \<Rightarrow> s
      | Some row \<Rightarrow> s\<lparr>disputes := dput (disputes s) k (row\<lparr>d_status := st\<rparr>)\<rparr>)"

definition mem_revert :: "string \<Rightarrow> dispute_db \<Rightarrow> dispute_db" where
  "mem_revert k s =
     (case dget (disputes s) k of
        None \<Rightarrow> s
      | Some row \<Rightarrow>
          s\<lparr>disputes := dput (disputes s) k (row\<lparr>d_status := Rebuttal_Pending, d_worker_pct := None,
               d_ruling_summary := None, d_ruled_at := None\<rparr>),
            votes_by_dispute := dput (votes_by_dispute s) k []\<rparr>)"

fun persist_votes :: "string \<Rightarrow> judge_vote list \<Rightarrow> dispute_db \<Rightarrow> vote list \<times> dispute_db" where
  "persist_votes k [] s = ([], s)"
| "persist_votes k (v # vs) s =
     (let (vid, s1) = new_vote_id s;
          (rest, s2) = persist_votes k vs s1
      in (\<lparr>v_id = vid, v_dispute_id = k, v_judge_id = jv_judge_id v, v_worker_pct = jv_worker_pct v,
           v_reasoning = jv_reasoning v, v_voted_at = jv_voted_at v\<rparr> # rest, s2))"

definition mem_persist_ruling :: "string \<Rightarrow> int \<Rightarrow> string \<Rightarrow> judge_vote list \<Rightarrow> dispute_db \<Rightarrow> dispute_db" where
  "mem_persist_ruling k pct summary vs s =
     (case dget (disputes s) k of
        None \<Rightarrow> s
      | Some row \<Rightarrow>
          let (now, s1) = dispute_now s;
              s2 = s1\<lparr>disputes := dput (disputes s1) k (row\<lparr>d_status := Dispute_Ruled, d_worker_pct := Some pct,
                        d_ruling_summary := Some summary, d_ruled_at := Some now\<rparr>)\<rparr>;
              (persisted, s3) = persist_votes k vs s2
          in s3\<lparr>votes_by_dispute := dput (votes_by_dispute s3) k persisted\<rparr>)"

definition summary_of :: "dispute \<Rightarrow> dispute_summary" where
  "summary_of r =
     \<lparr>ds_id = d_id r, ds_task_id = d_task_id r, ds_claimant_id = d_claimant_id r,
      ds_respondent_id = d_respondent_id r, ds_status = d_status r, ds_worker_pct = d_worker_pct r,
      ds_filed_at = d_filed_at r, ds_ruled_at = d_ruled_at r\<rparr>"

definition mem_list_disputes :: "string option \<Rightarrow> string option \<Rightarrow> dispute_db \<Rightarrow> dispute_summary list" where
  "mem_list_disputes task_id status s =
     (let rows = dvals (disputes s);
          rows = (case task_id of None \<Rightarrow> rows | Some t \<Rightarrow> filter (\<lambda>r. d_task_id r = t) rows);
          rows = (case status of None \<Rightarrow> rows | Some st \<Rightarrow> filter (\<lambda>r. dispute_status_text (d_status r) = st) rows)
      in map summary_of (sort_key d_filed_at rows))"

definition mem_count_disputes :: "dispute_db \<Rightarrow> nat" where
  "mem_count_disputes s = length (disputes s)"

definition mem_count_active :: "dispute_db \<Rightarrow> nat" where
  "mem_count_active s = length (filter (\<lambda>r. d_status r \<noteq> Dispute_Ruled) (dvals (disputes s)))"

definition empty_dispute_db :: "host \<Rightarrow> dispute_db" where
  "empty_dispute_db h = host.extend h \<lparr>disputes = [], dispute_id_by_task = [], votes_by_dispute = []\<rparr>"

section \<open>The interface\<close>

record 's dispute_ops =
  di_insert :: "string \<Rightarrow> string \<Rightarrow> string \<Rightarrow> string \<Rightarrow> string \<Rightarrow> int \<Rightarrow> 's \<Rightarrow> dispute_view result \<times> 's"
  di_get :: "string \<Rightarrow> 's \<Rightarrow> dispute_view option"
  di_update_rebuttal :: "string \<Rightarrow> string \<Rightarrow> 's \<Rightarrow> 's"
  di_set_status :: "string \<Rightarrow> dispute_status \<Rightarrow> 's \<Rightarrow> 's"
  di_revert :: "string \<Rightarrow> 's \<Rightarrow> 's"
  di_persist :: "string \<Rightarrow> int \<Rightarrow> string \<Rightarrow> judge_vote list \<Rightarrow> 's \<Rightarrow> 's"
  di_list :: "string option \<Rightarrow> string option \<Rightarrow> 's \<Rightarrow> dispute_summary list"
  di_count :: "'s \<Rightarrow> nat"
  di_count_active :: "'s \<Rightarrow> nat"

definition memory_disputes :: "dispute_db dispute_ops" where
  "memory_disputes =
     \<lparr>di_insert = mem_insert_dispute, di_get = mem_get_dispute, di_update_rebuttal = mem_update_rebuttal,
      di_set_status = mem_set_status, di_revert = mem_revert, di_persist = mem_persist_ruling,
      di_list = mem_list_disputes, di_count = mem_count_disputes, di_count_active = mem_count_active\<rparr>"

lemma memory_disputes_sel [simp]:
  "di_insert memory_disputes = mem_insert_dispute" "di_get memory_disputes = mem_get_dispute"
  "di_update_rebuttal memory_disputes = mem_update_rebuttal" "di_set_status memory_disputes = mem_set_status"
  "di_revert memory_disputes = mem_revert" "di_persist memory_disputes = mem_persist_ruling"
  "di_list memory_disputes = mem_list_disputes" "di_count memory_disputes = mem_count_disputes"
  "di_count_active memory_disputes = mem_count_active"
  by (simp_all add: memory_disputes_def)

text \<open>What the operations do to one dispute.\<close>

definition fresh_dispute ::
    "string \<Rightarrow> string \<Rightarrow> string \<Rightarrow> string \<Rightarrow> string \<Rightarrow> string \<Rightarrow> int \<Rightarrow> int \<Rightarrow> dispute" where
  "fresh_dispute k task_id claimant respondent claim eid deadline now =
     \<lparr>d_id = k, d_task_id = task_id, d_claimant_id = claimant, d_respondent_id = respondent,
      d_claim = claim, d_rebuttal = None, d_status = Rebuttal_Pending, d_rebuttal_deadline = deadline,
      d_worker_pct = None, d_ruling_summary = None, d_escrow_id = eid, d_filed_at = now,
      d_rebutted_at = None, d_ruled_at = None\<rparr>"

definition with_rebuttal :: "string \<Rightarrow> int \<Rightarrow> dispute_view \<Rightarrow> dispute_view" where
  "with_rebuttal r now = apfst (\<lambda>d. d\<lparr>d_rebuttal := Some r, d_rebutted_at := Some now\<rparr>)"

definition with_status :: "dispute_status \<Rightarrow> dispute_view \<Rightarrow> dispute_view" where
  "with_status st = apfst (\<lambda>d. d\<lparr>d_status := st\<rparr>)"

definition reverted :: "dispute_view \<Rightarrow> dispute_view" where
  "reverted v = ((fst v)\<lparr>d_status := Rebuttal_Pending, d_worker_pct := None, d_ruling_summary := None,
     d_ruled_at := None\<rparr>, [])"

definition with_ruling :: "int \<Rightarrow> string \<Rightarrow> int \<Rightarrow> vote list \<Rightarrow> dispute_view \<Rightarrow> dispute_view" where
  "with_ruling pct summary now vs v = ((fst v)\<lparr>d_status := Dispute_Ruled, d_worker_pct := Some pct,
     d_ruling_summary := Some summary, d_ruled_at := Some now\<rparr>, vs)"

definition recorded_votes :: "string \<Rightarrow> judge_vote list \<Rightarrow> vote list \<Rightarrow> bool" where
  "recorded_votes k js vs \<longleftrightarrow>
     list_all2 (\<lambda>j v. v_dispute_id v = k \<and> v_judge_id v = jv_judge_id j \<and> v_worker_pct v = jv_worker_pct j \<and>
       v_reasoning v = jv_reasoning j \<and> v_voted_at v = jv_voted_at j) js vs"

text \<open>An update in place of the entry of a key, if there is one.\<close>

definition at_key :: "'k \<Rightarrow> ('v \<Rightarrow> 'v) \<Rightarrow> ('k \<Rightarrow> 'v option) \<Rightarrow> 'k \<Rightarrow> 'v option" where
  "at_key k f m = (case m k of None \<Rightarrow> m | Some v \<Rightarrow> m(k \<mapsto> f v))"

lemma at_key_apply: "at_key k f m k' = (if k' = k then map_option f (m k) else m k')"
  by (auto simp: at_key_def split: option.splits)

locale dispute_storage =
  fixes ops :: "'s dispute_ops" and good :: "'s \<Rightarrow> bool"
  assumes insert_good: "good s \<Longrightarrow> good (snd (di_insert ops t c r cl e dl s))"
    and rebuttal_good: "good s \<Longrightarrow> good (di_update_rebuttal ops k rb s)"
    and status_good: "good s \<Longrightarrow> good (di_set_status ops k st s)"
    and revert_good: "good s \<Longrightarrow> good (di_revert ops k s)"
    and persist_good: "good s \<Longrightarrow> good (di_persist ops k pct sm js s)"
    and key_is_id: "good s \<Longrightarrow> di_get ops k s = Some v \<Longrightarrow> d_id (fst v) = k"
    and insert_taken: "good s \<Longrightarrow> di_get ops k s = Some v \<Longrightarrow>
          di_insert ops (d_task_id (fst v)) c r cl e dl s = (Inl (PyError ''DuplicateDisputeError''), s)"
    and insert_free: "good s \<Longrightarrow> \<forall>k v. di_get ops k s = Some v \<longrightarrow> d_task_id (fst v) \<noteq> t \<Longrightarrow>
          \<exists>k now. di_get ops k s = None \<and>
            fst (di_insert ops t c r cl e dl s) = Inr (fresh_dispute k t c r cl e dl now, []) \<and>
            (\<lambda>k. di_get ops k (snd (di_insert ops t c r cl e dl s))) =
              (\<lambda>k. di_get ops k s)(k \<mapsto> (fresh_dispute k t c r cl e dl now, []))"
    and rebuttal_is: "good s \<Longrightarrow>
          \<exists>now. (\<lambda>k'. di_get ops k' (di_update_rebuttal ops k rb s)) = at_key k (with_rebuttal rb now) (\<lambda>k'. di_get ops k' s)"
    and status_is: "good s \<Longrightarrow>
          (\<lambda>k'. di_get ops k' (di_set_status ops k st s)) = at_key k (with_status st) (\<lambda>k'. di_get ops k' s)"
    and revert_is: "good s \<Longrightarrow>
          (\<lambda>k'. di_get ops k' (di_revert ops k s)) = at_key k reverted (\<lambda>k'. di_get ops k' s)"
    and persist_is: "good s \<Longrightarrow>
          \<exists>now vs. recorded_votes k js vs \<and>
            (\<lambda>k'. di_get ops k' (di_persist ops k pct sm js s)) =
              at_key k (with_ruling pct sm now vs) (\<lambda>k'. di_get ops k' s)"

section \<open>The in-memory store keeps the laws\<close>

definition disputes_ok :: "dispute_db \<Rightarrow> bool" where
  "disputes_ok s \<longleftrightarrow> dict_ok (disputes s) \<and> uuid_unique s \<and>
     (\<forall>k d. dget (disputes s) k = Some d \<longrightarrow> d_id d = k \<and> dget (dispute_id_by_task s) (d_task_id d) = Some k \<and>
        (\<exists>i < uuids s. k = prefixed ''disp-'' (uuid_src s i))) \<and>
     (\<forall>t k. dget (dispute_id_by_task s) t = Some k \<longrightarrow> (\<exists>d. dget (disputes s) k = Some d \<and> d_task_id d = t))"

lemma persist_votes_frame:
  "persist_votes k js s = (vs, s') \<Longrightarrow>
   recorded_votes k js vs \<and> disputes s' = disputes s \<and> dispute_id_by_task s' = dispute_id_by_task s \<and>
   votes_by_dispute s' = votes_by_dispute s \<and> uuid_src s' = uuid_src s \<and> uuids s \<le> uuids s'"
proof (induction k js s arbitrary: vs s' rule: persist_votes.induct)
  case (2 k j js s)
  obtain vid s1 where v: "new_vote_id s = (vid, s1)" by fastforce
  obtain rest s2 where r: "persist_votes k js s1 = (rest, s2)" by fastforce
  have "disputes s1 = disputes s" "dispute_id_by_task s1 = dispute_id_by_task s"
    "votes_by_dispute s1 = votes_by_dispute s" "uuid_src s1 = uuid_src s" "uuids s \<le> uuids s1"
    using v by (auto simp: new_vote_id_def new_uuid_def)
  with 2(1) [OF refl, of vid s1 rest s2] 2(2) show ?case
    by (auto simp: v r recorded_votes_def)
qed (auto simp: recorded_votes_def)

lemma mem_get_shown: "mem_get_dispute k s = map_option (\<lambda>d. (d, mem_get_votes k s)) (dget (disputes s) k)"
  by (simp add: mem_get_dispute_def split: option.splits)

lemma dispute_now_frame:
  "dispute_now s = (t, s') \<Longrightarrow> disputes s' = disputes s \<and> dispute_id_by_task s' = dispute_id_by_task s \<and>
   votes_by_dispute s' = votes_by_dispute s \<and> uuid_src s' = uuid_src s \<and> uuids s' = uuids s"
  by (auto simp: dispute_now_def read_clock_def)

text \<open>Rewriting one row under its id, task kept.\<close>

lemma disputes_ok_row:
  assumes "disputes_ok s" "dget (disputes s) k = Some d" "d_id d' = d_id d" "d_task_id d' = d_task_id d"
    "disputes s' = dput (disputes s) k d'" "dispute_id_by_task s' = dispute_id_by_task s"
    "uuid_src s' = uuid_src s" "uuids s \<le> uuids s'"
  shows "disputes_ok s'"
  using assms
  by (auto simp: disputes_ok_def uuid_unique_def) (meson less_le_trans | fastforce)+

lemma mem_rebuttal_law:
  assumes "disputes_ok s"
  shows "disputes_ok (mem_update_rebuttal k rb s)"
    "\<exists>now. (\<lambda>k'. mem_get_dispute k' (mem_update_rebuttal k rb s)) =
       at_key k (with_rebuttal rb now) (\<lambda>k'. mem_get_dispute k' s)"
proof -
  obtain now s1 where n: "dispute_now s = (now, s1)" by fastforce
  note f = dispute_now_frame [OF n]
  show "disputes_ok (mem_update_rebuttal k rb s)"
  proof (cases "dget (disputes s) k")
    case (Some d)
    show ?thesis
      by (rule disputes_ok_row [OF assms Some, of "d\<lparr>d_rebuttal := Some rb, d_rebutted_at := Some now\<rparr>"])
        (use Some n f in \<open>simp_all add: mem_update_rebuttal_def\<close>)
  qed (simp add: mem_update_rebuttal_def assms)
  show "\<exists>now. (\<lambda>k'. mem_get_dispute k' (mem_update_rebuttal k rb s)) =
       at_key k (with_rebuttal rb now) (\<lambda>k'. mem_get_dispute k' s)"
    using n f by (intro exI [of _ now])
      (auto simp: fun_eq_iff at_key_apply mem_get_shown mem_update_rebuttal_def mem_get_votes_def with_rebuttal_def
        split: option.splits)
qed

lemma mem_status_law:
  assumes "disputes_ok s"
  shows "disputes_ok (mem_set_status k st s)"
    "(\<lambda>k'. mem_get_dispute k' (mem_set_status k st s)) = at_key k (with_status st) (\<lambda>k'. mem_get_dispute k' s)"
proof -
  show "disputes_ok (mem_set_status k st s)"
  proof (cases "dget (disputes s) k")
    case (Some d)
    show ?thesis
      by (rule disputes_ok_row [OF assms Some, of "d\<lparr>d_status := st\<rparr>"]) (simp_all add: mem_set_status_def Some)
  qed (simp add: mem_set_status_def assms)
  show "(\<lambda>k'. mem_get_dispute k' (mem_set_status k st s)) = at_key k (with_status st) (\<lambda>k'. mem_get_dispute k' s)"
    by (auto simp: fun_eq_iff at_key_apply mem_get_shown mem_set_status_def mem_get_votes_def with_status_def
        split: option.splits)
qed

lemma mem_revert_law:
  assumes "disputes_ok s"
  shows "disputes_ok (mem_revert k s)"
    "(\<lambda>k'. mem_get_dispute k' (mem_revert k s)) = at_key k reverted (\<lambda>k'. mem_get_dispute k' s)"
proof -
  show "disputes_ok (mem_revert k s)"
  proof (cases "dget (disputes s) k")
    case (Some d)
    show ?thesis
      by (rule disputes_ok_row [OF assms Some, of "fst (reverted (d, []))"]) (simp_all add: mem_revert_def reverted_def Some)
  qed (simp add: mem_revert_def assms)
  show "(\<lambda>k'. mem_get_dispute k' (mem_revert k s)) = at_key k reverted (\<lambda>k'. mem_get_dispute k' s)"
    by (auto simp: fun_eq_iff at_key_apply mem_get_shown mem_revert_def mem_get_votes_def reverted_def
        split: option.splits)
qed

lemma mem_persist_law:
  assumes "disputes_ok s"
  shows "disputes_ok (mem_persist_ruling k pct sm js s)"
    "\<exists>now vs. recorded_votes k js vs \<and> (\<lambda>k'. mem_get_dispute k' (mem_persist_ruling k pct sm js s)) =
       at_key k (with_ruling pct sm now vs) (\<lambda>k'. mem_get_dispute k' s)"
proof -
  obtain now s1 where n: "dispute_now s = (now, s1)" by fastforce
  note f = dispute_now_frame [OF n]
  let ?row = "\<lambda>d. fst (with_ruling pct sm now [] (d, []))"
  have "disputes_ok (mem_persist_ruling k pct sm js s) \<and>
    (\<exists>now vs. recorded_votes k js vs \<and> (\<lambda>k'. mem_get_dispute k' (mem_persist_ruling k pct sm js s)) =
       at_key k (with_ruling pct sm now vs) (\<lambda>k'. mem_get_dispute k' s))"
  proof (cases "dget (disputes s) k")
    case None
    obtain vs s2 where "persist_votes k js s = (vs, s2)" by fastforce
    then have "recorded_votes k js vs" using persist_votes_frame by blast
    then show ?thesis
      using None assms by (auto simp: mem_persist_ruling_def at_key_def mem_get_dispute_def)
  next
    case (Some d)
    obtain vs s3 where v: "persist_votes k js (s1\<lparr>disputes := dput (disputes s1) k (?row d)\<rparr>) = (vs, s3)" by fastforce
    note p = persist_votes_frame [OF v]
    have eq: "mem_persist_ruling k pct sm js s = s3\<lparr>votes_by_dispute := dput (votes_by_dispute s3) k vs\<rparr>"
      using v by (simp add: mem_persist_ruling_def Some n with_ruling_def)
    have "disputes_ok (mem_persist_ruling k pct sm js s)"
      by (rule disputes_ok_row [OF assms Some, of "?row d"]) (use p f in \<open>simp_all add: eq with_ruling_def\<close>)
    moreover have "(\<lambda>k'. mem_get_dispute k' (mem_persist_ruling k pct sm js s)) =
        at_key k (with_ruling pct sm now vs) (\<lambda>k'. mem_get_dispute k' s)"
      using p f Some by (auto simp: fun_eq_iff at_key_apply mem_get_shown eq mem_get_votes_def with_ruling_def)
    ultimately show ?thesis using p by blast
  qed
  then show "disputes_ok (mem_persist_ruling k pct sm js s)"
    "\<exists>now vs. recorded_votes k js vs \<and> (\<lambda>k'. mem_get_dispute k' (mem_persist_ruling k pct sm js s)) =
       at_key k (with_ruling pct sm now vs) (\<lambda>k'. mem_get_dispute k' s)" by auto
qed

lemma mem_insert_law:
  assumes "disputes_ok s"
  shows "disputes_ok (snd (mem_insert_dispute t c r cl e dl s))"
    "\<forall>k v. mem_get_dispute k s = Some v \<longrightarrow> d_task_id (fst v) \<noteq> t \<Longrightarrow>
     \<exists>k now. mem_get_dispute k s = None \<and>
       fst (mem_insert_dispute t c r cl e dl s) = Inr (fresh_dispute k t c r cl e dl now, []) \<and>
       (\<lambda>k. mem_get_dispute k (snd (mem_insert_dispute t c r cl e dl s))) =
         (\<lambda>k. mem_get_dispute k s)(k \<mapsto> (fresh_dispute k t c r cl e dl now, []))"
    "mem_get_dispute k s = Some v \<Longrightarrow>
     mem_insert_dispute (d_task_id (fst v)) c r cl e dl s = (Inl (PyError ''DuplicateDisputeError''), s)"
proof -
  obtain k s1 where k: "new_dispute_id s = (k, s1)" by fastforce
  obtain now s2 where n: "dispute_now s1 = (now, s2)" by fastforce
  note f = dispute_now_frame [OF n]
  have s1: "disputes s1 = disputes s" "dispute_id_by_task s1 = dispute_id_by_task s"
      "votes_by_dispute s1 = votes_by_dispute s" "uuid_src s1 = uuid_src s" "uuids s1 = Suc (uuids s)"
      "k = prefixed ''disp-'' (uuid_src s (uuids s))"
    using k by (auto simp: new_dispute_id_def new_uuid_def)
  have new: "dget (disputes s) k = None"
  proof (rule ccontr)
    assume "dget (disputes s) k \<noteq> None"
    then obtain i where "i < uuids s" "k = prefixed ''disp-'' (uuid_src s i)"
      using assms by (auto simp: disputes_ok_def)
    then have "uuid_src s i = uuid_src s (uuids s)" using s1(6) by simp
    then show False using \<open>i < uuids s\<close> assms by (auto simp: disputes_ok_def uuid_unique_def dest: injD)
  qed
  have eq: "mem_insert_dispute t c r cl e dl s = (Inr (fresh_dispute k t c r cl e dl now, []),
      s2\<lparr>disputes := dput (disputes s) k (fresh_dispute k t c r cl e dl now),
         dispute_id_by_task := dput (dispute_id_by_task s) t k, votes_by_dispute := dput (votes_by_dispute s) k []\<rparr>)"
    if "dget (dispute_id_by_task s) t = None"
    using that k n f s1 by (simp add: mem_insert_dispute_def fresh_dispute_def Let_def)
  show "disputes_ok (snd (mem_insert_dispute t c r cl e dl s))"
  proof (cases "dget (dispute_id_by_task s) t")
    case None
    have "d_task_id d \<noteq> t" if "dget (disputes s) k' = Some d" for k' d
      using assms that None by (auto simp: disputes_ok_def)
    then show ?thesis
      unfolding eq [OF None] using assms f s1 new None
      by (auto simp: disputes_ok_def uuid_unique_def fresh_dispute_def) (meson less_SucI | force)+
  qed (simp add: mem_insert_dispute_def assms)
  show "\<exists>k now. mem_get_dispute k s = None \<and>
       fst (mem_insert_dispute t c r cl e dl s) = Inr (fresh_dispute k t c r cl e dl now, []) \<and>
       (\<lambda>k. mem_get_dispute k (snd (mem_insert_dispute t c r cl e dl s))) =
         (\<lambda>k. mem_get_dispute k s)(k \<mapsto> (fresh_dispute k t c r cl e dl now, []))"
    if "\<forall>k v. mem_get_dispute k s = Some v \<longrightarrow> d_task_id (fst v) \<noteq> t"
  proof -
    have "dget (dispute_id_by_task s) t = None"
      using assms that by (auto simp: disputes_ok_def mem_get_shown) (metis fst_conv not_None_eq)
    then show ?thesis
      unfolding eq [OF \<open>dget (dispute_id_by_task s) t = None\<close>]
      using new by (intro exI [of _ k] exI [of _ now]) (auto simp: fun_eq_iff mem_get_shown mem_get_votes_def)
  qed
  show "mem_insert_dispute (d_task_id (fst v)) c r cl e dl s = (Inl (PyError ''DuplicateDisputeError''), s)"
    if "mem_get_dispute k s = Some v" for k v
    using assms that by (auto simp: disputes_ok_def mem_get_shown mem_insert_dispute_def)
qed

interpretation mem_disputes: dispute_storage memory_disputes disputes_ok
proof unfold_locales
  fix s :: dispute_db and k v
  assume "disputes_ok s" "di_get memory_disputes k s = Some v"
  then show "d_id (fst v) = k" by (auto simp: disputes_ok_def mem_get_shown)
qed (simp_all only: memory_disputes_sel mem_insert_law mem_rebuttal_law mem_status_law mem_revert_law mem_persist_law)

lemma disputes_ok_empty: "uuid_unique h \<Longrightarrow> disputes_ok (empty_dispute_db h)"
  by (simp add: disputes_ok_def empty_dispute_db_def host.defs uuid_unique_def)

end
