(* ===== verification/Py_Text.thy ===== *)
theory Py_Text
  imports Json
begin

text \<open>
  The string methods and conversions of Python that the services use on request texts. A string is a list of
  characters with codes below 256, so white space and digits are those of this range.
\<close>

section \<open>White space\<close>

definition py_space :: "char \<Rightarrow> bool" where
  "py_space c \<longleftrightarrow>
     (let n = of_char c :: nat in 9 \<le> n \<and> n \<le> 13 \<or> 28 \<le> n \<and> n \<le> 32 \<or> n = 133 \<or> n = 160)"

text \<open>\<^verbatim>\<open>s.strip()\<close>.\<close>

definition strip :: "string \<Rightarrow> string" where
  "strip s = rev (dropWhile py_space (rev (dropWhile py_space s)))"

text \<open>\<^verbatim>\<open>s.strip() == ""\<close>.\<close>

definition blank :: "string \<Rightarrow> bool" where
  "blank s \<longleftrightarrow> strip s = []"

lemma strip_blank: "strip s = [] \<longleftrightarrow> (\<forall>c \<in> set s. py_space c)"
proof
  assume "strip s = []"
  then have "\<forall>c \<in> set (dropWhile py_space s). py_space c" by (simp add: strip_def)
  moreover have "set s = set (takeWhile py_space s) \<union> set (dropWhile py_space s)"
    by (metis set_append takeWhile_dropWhile_id)
  ultimately show "\<forall>c \<in> set s. py_space c" by (auto dest: set_takeWhileD)
qed (auto simp: strip_def dest: set_dropWhileD)

lemma blank_iff: "blank s \<longleftrightarrow> (\<forall>c \<in> set s. py_space c)"
  by (simp add: blank_def strip_blank)

lemma strip_nonspace: "s \<noteq> [] \<Longrightarrow> \<not> py_space (hd s) \<Longrightarrow> \<not> py_space (last s) \<Longrightarrow> strip s = s"
proof -
  assume s: "s \<noteq> []" "\<not> py_space (hd s)" "\<not> py_space (last s)"
  have keep: "xs \<noteq> [] \<Longrightarrow> \<not> py_space (hd xs) \<Longrightarrow> dropWhile py_space xs = xs" for xs by (cases xs) auto
  show ?thesis using keep [of s] keep [of "rev s"] s by (simp add: strip_def hd_rev)
qed

section \<open>Searching and joining\<close>

text \<open>\<^verbatim>\<open>sep.join(parts)\<close>, \<^verbatim>\<open>s.find(c)\<close>, \<^verbatim>\<open>s.rfind(c)\<close> (\<open>None\<close> for -1).\<close>

fun join :: "string \<Rightarrow> string list \<Rightarrow> string" where
  "join sep [] = []"
| "join sep [x] = x"
| "join sep (x # y # xs) = x @ sep @ join sep (y # xs)"

fun find_char :: "char \<Rightarrow> string \<Rightarrow> nat option" where
  "find_char c [] = None"
| "find_char c (x # xs) = (if x = c then Some 0 else map_option Suc (find_char c xs))"

definition rfind_char :: "char \<Rightarrow> string \<Rightarrow> nat option" where
  "rfind_char c s = map_option (\<lambda>i. length s - 1 - i) (find_char c (rev s))"

section \<open>Numbers\<close>

definition digit :: "char \<Rightarrow> bool" where
  "digit c \<longleftrightarrow> (let n = of_char c :: nat in 48 \<le> n \<and> n \<le> 57)"

definition digit_value :: "char \<Rightarrow> int" where
  "digit_value c = int (of_char c - 48)"

text \<open>Digits with single underscores between them.\<close>

fun digits_value :: "bool \<Rightarrow> int \<Rightarrow> string \<Rightarrow> int option" where
  "digits_value after_digit acc [] = (if after_digit then Some acc else None)"
| "digits_value after_digit acc (c # cs) =
     (if digit c then digits_value True (10 * acc + digit_value c) cs
      else if c = CHR ''_'' \<and> after_digit then digits_value False acc cs
      else None)"

text \<open>
  \<^verbatim>\<open>int(s)\<close>, \<open>None\<close> where it raises \<^verbatim>\<open>ValueError\<close>: white space around, a sign, at
  most 4300 digits.
\<close>

definition py_int :: "string \<Rightarrow> int option" where
  "py_int s =
     (let body = strip s
      in if length (filter digit body) > 4300 then None
         else case body of
           [] \<Rightarrow> None
         | c # cs \<Rightarrow>
             if c = CHR ''-'' then map_option uminus (digits_value False 0 cs)
             else if c = CHR ''+'' then digits_value False 0 cs
             else digits_value False 0 body)"

text \<open>The decimal text of a number, as f-strings write it.\<close>

fun nat_text :: "nat \<Rightarrow> string" where
  "nat_text n = (if n < 10 then [char_of (48 + n)] else nat_text (n div 10) @ [char_of (48 + n mod 10)])"

declare nat_text.simps [simp del]

lemma digit_char [simp]: "n < 10 \<Longrightarrow> digit (char_of (48 + n))" "n < 10 \<Longrightarrow> digit_value (char_of (48 + n)) = int n"
  by (simp_all add: digit_def digit_value_def Let_def of_char_of)

lemma digits_value_append:
  "\<forall>c \<in> set xs. digit c \<Longrightarrow> xs \<noteq> [] \<or> b \<Longrightarrow> digit d \<Longrightarrow>
   digits_value b acc (xs @ [d]) = map_option (\<lambda>n. 10 * n + digit_value d) (digits_value b acc xs)"
  by (induction b acc xs rule: digits_value.induct) auto

lemma nat_text_digits: "\<forall>c \<in> set (nat_text n). digit c" "nat_text n \<noteq> []"
  by (induction n rule: nat_text.induct) (subst nat_text.simps, simp)+

lemma digits_value_nat_text: "digits_value False 0 (nat_text n) = Some (int n)"
proof (induction n rule: nat_text.induct)
  case (1 n)
  show ?case
  proof (cases "n < 10")
    case True
    then show ?thesis by (simp add: nat_text.simps [of n])
  next
    case False
    with 1 have "digits_value False 0 (nat_text (n div 10)) = Some (int (n div 10))" by simp
    moreover have "nat_text n = nat_text (n div 10) @ [char_of (48 + n mod 10)]"
      using False by (simp add: nat_text.simps [of n])
    ultimately show ?thesis
      using digits_value_append [of "nat_text (n div 10)" False "char_of (48 + n mod 10)" 0] nat_text_digits
      by (simp add: zdiv_int zmod_int)
  qed
qed

lemma digit_not_space: "digit c \<Longrightarrow> \<not> py_space c"
  by (auto simp: digit_def py_space_def Let_def)

lemma py_int_nat_text: "length (nat_text n) \<le> 4300 \<Longrightarrow> py_int (nat_text n) = Some (int n)"
proof -
  assume len: "length (nat_text n) \<le> 4300"
  have "strip (nat_text n) = nat_text n"
    using nat_text_digits [of n] digit_not_space by (intro strip_nonspace) auto
  moreover obtain c cs where c: "nat_text n = c # cs" using nat_text_digits(2) by (cases "nat_text n") auto
  moreover have "digit c" using nat_text_digits(1) [of n] c by simp
  then have "c \<noteq> CHR ''-''" "c \<noteq> CHR ''+''" by (auto simp: digit_def)
  moreover have "length (filter digit (nat_text n)) \<le> 4300" using len length_filter_le le_trans by blast
  ultimately show ?thesis using digits_value_nat_text [of n] by (simp add: py_int_def)
qed

text \<open>\<^verbatim>\<open>int(x)\<close> on a JSON value; \<open>Inl\<close> is what it raises.\<close>

fun int_of_json :: "json \<Rightarrow> int result" where
  "int_of_json (JInt n) = Inr n"
| "int_of_json (JBool b) = Inr (if b then 1 else 0)"
| "int_of_json (JFloat (Finite m e)) =
     Inr (if 0 \<le> e then m * 2 ^ nat e else sgn m * (\<bar>m\<bar> div 2 ^ nat (- e)))"
| "int_of_json (JFloat NonFinite) = Inl (PyError ''ValueError'')"
| "int_of_json (JStr s) = (case py_int s of None \<Rightarrow> Inl (PyError ''ValueError'') | Some n \<Rightarrow> Inr n)"
| "int_of_json _ = Inl (PyError ''TypeError'')"

section \<open>Times\<close>

text \<open>
  \<^verbatim>\<open>isoformat\<close> of a UTC time with \<^verbatim>\<open>+00:00\<close> replaced by \<^verbatim>\<open>Z\<close>, from
  microseconds since the epoch: years of 365 days with leap days every 4, but not 100, but 400 years, counted from
  the first of March of the year 0.
\<close>

definition pad :: "nat \<Rightarrow> int \<Rightarrow> string" where
  "pad n k = (let t = nat_text (nat k) in replicate (n - length t) CHR ''0'' @ t)"

definition civil_date :: "int \<Rightarrow> int \<times> int \<times> int" where
  "civil_date days =
     (let z = days + 719468;
          era = z div 146097;
          doe = z mod 146097;
          yoe = (doe - doe div 1460 + doe div 36524 - doe div 146096) div 365;
          doy = doe - (365 * yoe + yoe div 4 - yoe div 100);
          mp = (5 * doy + 2) div 153;
          d = doy - (153 * mp + 2) div 5 + 1;
          m = (if mp < 10 then mp + 3 else mp - 9);
          y = yoe + 400 * era + (if m \<le> 2 then 1 else 0)
      in (y, m, d))"

definition iso_time :: "int \<Rightarrow> string" where
  "iso_time seconds =
     (let (y, m, d) = civil_date (seconds div 86400); s = seconds mod 86400
      in pad 4 y @ ''-'' @ pad 2 m @ ''-'' @ pad 2 d @ ''T'' @ pad 2 (s div 3600) @ '':'' @
         pad 2 (s mod 3600 div 60) @ '':'' @ pad 2 (s mod 60))"

definition iso_seconds :: "int \<Rightarrow> string" where
  "iso_seconds t = iso_time (t div 1000000) @ ''Z''"

definition iso_micros :: "int \<Rightarrow> string" where
  "iso_micros t = iso_time (t div 1000000) @ ''.'' @ pad 6 (t mod 1000000) @ ''Z''"

lemma iso_examples:
  "iso_micros 0 = ''1970-01-01T00:00:00.000000Z''"
  "iso_seconds (951782400 * 1000000) = ''2000-02-29T00:00:00Z''"
  "iso_micros (1772368496 * 1000000 + 7) = ''2026-03-01T12:34:56.000007Z''"
  by code_simp+

end
