(* ===== verification/Judges.thy ===== *)
theory Judges
  imports Dispute_Store Py_Text
begin

text \<open>
  The Court's judges, \<^verbatim>\<open>judges/base.py\<close> and \<^verbatim>\<open>judges/llm_judge.py\<close>, and what the
  orchestrator makes of their votes. A judge sees the dispute's context, the clock reading it would stamp its vote
  with, and the world outside the Court (for the language model: the completion service).
\<close>

section \<open>Judges\<close>

record dispute_context =
  dc_task_spec :: string
  dc_deliverables :: "string list"
  dc_claim :: string
  dc_rebuttal :: "string option"
  dc_task_title :: string
  dc_reward :: int

text \<open>What a judge may return: a vote, a dictionary, anything else.\<close>

datatype raw_vote = VoteObject judge_vote | VoteDict payload | OtherVote

type_synonym 'w judge = "dispute_context \<Rightarrow> int \<Rightarrow> 'w \<Rightarrow> raw_vote result \<times> 'w"

definition mock_judge :: "string \<Rightarrow> int \<Rightarrow> string \<Rightarrow> 'w judge" where
  "mock_judge judge_id fixed_worker_pct reasoning ctx now w =
     (Inr (VoteObject \<lparr>jv_judge_id = judge_id, jv_worker_pct = fixed_worker_pct, jv_reasoning = reasoning,
        jv_voted_at = Clocked (to_seconds now)\<rparr>), w)"

section \<open>The language model's answer\<close>

text \<open>The response is a dictionary or an object with the same attributes; anything else has none.\<close>

definition jattr :: "json \<Rightarrow> string \<Rightarrow> json" where
  "jattr j k = (case j of JObj d \<Rightarrow> jget d k | _ \<Rightarrow> JNull)"

definition extract_content :: "json \<Rightarrow> string result" where
  "extract_content response =
     (case jattr response ''choices'' of
        JList (first # rest) \<Rightarrow>
          (let message = jattr first ''message''
           in if message = JNull then Inl (PyError ''ValueError'')
              else case jattr message ''content'' of
                JStr content \<Rightarrow> if blank content then Inl (PyError ''ValueError'') else Inr content
              | _ \<Rightarrow> Inl (PyError ''ValueError''))
      | _ \<Rightarrow> Inl (PyError ''ValueError''))"

definition fence :: string where
  "fence = ''```''"

definition strip_fences :: "string \<Rightarrow> string" where
  "strip_fences stripped =
     (if take 3 stripped = fence then
        (let lines = tl (split_on (CHR 0x0A) stripped);
             lines = (if lines \<noteq> [] \<and> strip (last lines) = fence then butlast lines else lines)
         in strip (join [CHR 0x0A] lines))
      else stripped)"

text \<open>From the first brace to the last; \<^verbatim>\<open>json.loads\<close> is the argument.\<close>

definition json_slice :: "string \<Rightarrow> string option" where
  "json_slice s =
     (case (find_char CHR ''{'' s, rfind_char CHR ''}'' s) of
        (Some i, Some j) \<Rightarrow> if j \<le> i then None else Some (take (j + 1 - i) (drop i s))
      | _ \<Rightarrow> None)"

definition extract_json :: "(string \<Rightarrow> json option) \<Rightarrow> string \<Rightarrow> json result" where
  "extract_json loads answer =
     (case json_slice (strip_fences (strip answer)) of
        None \<Rightarrow> Inl (PyError ''ValueError'')
      | Some s \<Rightarrow> response_json (loads s))"

text \<open>The completion service gets the prompt, which is made of the context.\<close>

definition read_llm_answer :: "(string \<Rightarrow> json option) \<Rightarrow> json \<Rightarrow> (int \<times> string) result" where
  "read_llm_answer loads response =
     and_then (extract_content response) (\<lambda>content.
     and_then (extract_json loads content) (\<lambda>j.
     and_then (as_dict j) (\<lambda>parsed.
       case as_int (jget parsed ''worker_pct'') of
         None \<Rightarrow> Inl (PyError ''ValueError'')
       | Some pct \<Rightarrow>
           if pct < 0 \<or> 100 < pct then Inl (PyError ''ValueError'')
           else case as_str (jget parsed ''reasoning'') of
             None \<Rightarrow> Inl (PyError ''ValueError'')
           | Some reasoning \<Rightarrow> if blank reasoning then Inl (PyError ''ValueError'') else Inr (pct, reasoning))))"

definition llm_judge ::
    "string \<Rightarrow> (dispute_context \<Rightarrow> 'w \<Rightarrow> json result \<times> 'w) \<Rightarrow> (string \<Rightarrow> json option) \<Rightarrow> 'w judge" where
  "llm_judge judge_id acompletion loads ctx now w =
     (let (response, w') = acompletion ctx w
      in case and_then response (read_llm_answer loads) of
           Inl e \<Rightarrow> (fail ''judge_unavailable'' 502, w')
         | Inr (pct, reasoning) \<Rightarrow>
             (Inr (VoteObject \<lparr>jv_judge_id = judge_id, jv_worker_pct = pct, jv_reasoning = reasoning,
                jv_voted_at = Clocked (to_seconds now)\<rparr>), w'))"

section \<open>Votes\<close>

definition no_reasoning :: string where
  "no_reasoning = ''No reasoning provided.''"

definition clamp_pct :: "int \<Rightarrow> int" where
  "clamp_pct pct = (if pct < 0 then 0 else if pct > 100 then 100 else pct)"

text \<open>The fields of a raw vote; a string the judge left out counts as empty, a percentage as 50.\<close>

fun vote_fields :: "raw_vote \<Rightarrow> judge_vote result" where
  "vote_fields (VoteObject v) = Inr v"
| "vote_fields (VoteDict d) =
     Inr \<lparr>jv_judge_id = (case as_str (jget d ''judge_id'') of None \<Rightarrow> [] | Some s \<Rightarrow> s),
          jv_worker_pct = (case as_int (jget d ''worker_pct'') of None \<Rightarrow> 50 | Some n \<Rightarrow> n),
          jv_reasoning = (case as_str (jget d ''reasoning'') of
             None \<Rightarrow> no_reasoning
           | Some s \<Rightarrow> if blank s then no_reasoning else s),
          jv_voted_at = Written (case as_str (jget d ''voted_at'') of None \<Rightarrow> [] | Some s \<Rightarrow> s)\<rparr>"
| "vote_fields OtherVote = Inl (PyError ''ValueError'')"

fun blank_time :: "time_text \<Rightarrow> bool" where
  "blank_time (Written s) = blank s"
| "blank_time (Clocked _) = False"

definition normalize_vote :: "raw_vote \<Rightarrow> nat \<Rightarrow> 'a host_scheme \<Rightarrow> judge_vote result \<times> 'a host_scheme" where
  "normalize_vote raw_vote index h =
     chain (vote_fields raw_vote, h) (\<lambda>v h.
       let pct = clamp_pct (jv_worker_pct v);
           reasoning = (if blank (jv_reasoning v) then no_reasoning else jv_reasoning v);
           judge_id = (if blank (jv_judge_id v) then prefixed ''judge-'' (nat_text index) else jv_judge_id v);
           (voted_at, h1) =
             (if blank_time (jv_voted_at v) then apfst (\<lambda>now. Clocked (to_seconds now)) (read_clock h)
              else (jv_voted_at v, h))
       in (Inr \<lparr>jv_judge_id = judge_id, jv_worker_pct = pct, jv_reasoning = reasoning, jv_voted_at = voted_at\<rparr>, h1))"

text \<open>The median of an odd panel, the upper of the two middle votes of an even one.\<close>

definition compute_ruling :: "judge_vote list \<Rightarrow> (int \<times> string) result" where
  "compute_ruling votes =
     (let sorted_worker_pcts = sort (map jv_worker_pct votes);
          middle = length sorted_worker_pcts div 2
      in if length sorted_worker_pcts \<le> middle then Inl (PyError ''IndexError'')
         else Inr (sorted_worker_pcts ! middle, join [CHR 0x0A, CHR 0x0A] (map jv_reasoning votes)))"

definition delivery_rating :: "int \<Rightarrow> string" where
  "delivery_rating pct =
     (if pct \<ge> 80 then ''extremely_satisfied'' else if pct \<ge> 40 then ''satisfied'' else ''dissatisfied'')"

definition spec_rating :: "int \<Rightarrow> string" where
  "spec_rating pct =
     (if pct \<ge> 80 then ''dissatisfied'' else if pct \<ge> 40 then ''satisfied'' else ''extremely_satisfied'')"

section \<open>Facts\<close>

definition vote_ok :: "judge_vote \<Rightarrow> bool" where
  "vote_ok v \<longleftrightarrow> 0 \<le> jv_worker_pct v \<and> jv_worker_pct v \<le> 100 \<and> \<not> blank (jv_judge_id v) \<and>
     \<not> blank (jv_reasoning v) \<and> \<not> blank_time (jv_voted_at v)"

lemma clamp_pct_range [simp]: "0 \<le> clamp_pct n" "clamp_pct n \<le> 100"
  by (simp_all add: clamp_pct_def)

lemma not_blank_text [simp]: "\<not> blank no_reasoning" "\<not> blank (prefixed ''judge-'' s)"
  by (simp_all add: blank_iff no_reasoning_def prefixed_def py_space_def Let_def)

lemma normalize_vote_ok: "normalize_vote rv i h = (Inr v, h') \<Longrightarrow> vote_ok v"
  by (auto simp: normalize_vote_def chain_Inr_iff vote_ok_def Let_def read_clock_def split: prod.splits if_splits)

text \<open>Half of the panel on either side of the ruling.\<close>

lemma sorted_count_below:
  assumes "sorted xs" "m < length xs"
  shows "m < length (filter (\<lambda>x. x \<le> xs ! m) xs)"
proof -
  have "\<forall>x \<in> set (take (Suc m) xs). x \<le> xs ! m"
    using assms by (auto simp: in_set_conv_nth intro!: sorted_nth_mono)
  then have "filter (\<lambda>x. x \<le> xs ! m) (take (Suc m) xs) = take (Suc m) xs" by simp
  moreover have "length (filter (\<lambda>x. x \<le> xs ! m) (take (Suc m) xs)) \<le> length (filter (\<lambda>x. x \<le> xs ! m) xs)"
    by (metis append_take_drop_id filter_append le_add1 length_append)
  ultimately show ?thesis using assms(2) by simp
qed

lemma sorted_count_above:
  assumes "sorted xs" "m < length xs"
  shows "length xs - m \<le> length (filter (\<lambda>x. xs ! m \<le> x) xs)"
proof -
  have "\<forall>x \<in> set (drop m xs). xs ! m \<le> x"
    using assms by (auto simp: in_set_conv_nth intro!: sorted_nth_mono)
  then have "filter (\<lambda>x. xs ! m \<le> x) (drop m xs) = drop m xs" by simp
  moreover have "length (filter (\<lambda>x. xs ! m \<le> x) (drop m xs)) \<le> length (filter (\<lambda>x. xs ! m \<le> x) xs)"
    by (metis append_take_drop_id filter_append le_add2 length_append)
  ultimately show ?thesis by simp
qed

lemma length_filter_sort: "length (filter P (sort xs)) = length (filter P xs)"
  by (simp add: filter_sort)

lemma compute_ruling_median:
  assumes "compute_ruling votes = Inr (pct, summary)"
  shows "\<exists>v \<in> set votes. jv_worker_pct v = pct"
    "length votes < 2 * length (filter (\<lambda>v. jv_worker_pct v \<le> pct) votes)"
    "length votes \<le> 2 * length (filter (\<lambda>v. pct \<le> jv_worker_pct v) votes)"
    "summary = join [CHR 0x0A, CHR 0x0A] (map jv_reasoning votes)"
proof -
  let ?xs = "sort (map jv_worker_pct votes)" and ?m = "length votes div 2"
  have m: "?m < length ?xs" "pct = ?xs ! ?m" "summary = join [CHR 0x0A, CHR 0x0A] (map jv_reasoning votes)"
    using assms by (auto simp: compute_ruling_def Let_def split: if_splits)
  have "pct \<in> set ?xs" using m by (metis nth_mem)
  then show "\<exists>v \<in> set votes. jv_worker_pct v = pct" by auto
  have cnt: "length (filter P ?xs) = length (filter (P \<circ> jv_worker_pct) votes)" for P
    by (simp only: length_filter_sort filter_map length_map)
  show "length votes < 2 * length (filter (\<lambda>v. jv_worker_pct v \<le> pct) votes)"
    using sorted_count_below [of ?xs ?m] m cnt [of "\<lambda>x. x \<le> pct"] by (simp add: comp_def)
  show "length votes \<le> 2 * length (filter (\<lambda>v. pct \<le> jv_worker_pct v) votes)"
    using sorted_count_above [of ?xs ?m] m cnt [of "\<lambda>x. pct \<le> x"] by (simp add: comp_def)
  show "summary = join [CHR 0x0A, CHR 0x0A] (map jv_reasoning votes)" by (rule m(3))
qed

lemma compute_ruling_total: "votes \<noteq> [] \<Longrightarrow> is_ok (compute_ruling votes)"
  by (auto simp: compute_ruling_def Let_def not_le intro!: div_less_dividend)

end
