(* ===== verification/Court.thy ===== *)
theory Court
  imports Judges
begin

text \<open>
  The Court: \<^verbatim>\<open>services/ruling_orchestrator.py\<close>, \<^verbatim>\<open>services/dispute_service.py\<close>,
  \<^verbatim>\<open>routers/validation.py\<close> and \<^verbatim>\<open>routers/disputes.py\<close>, over any dispute storage. The
  state has the Court's clock, its docket (the storage) and the world outside, which the platform agent's calls
  and the judges act on. A ruling awaits those calls, so its three parts (\<open>begin_ruling\<close>,
  \<open>deliberate\<close>, \<open>conclude_ruling\<close>) are definitions of their own.
\<close>

section \<open>The platform agent\<close>

text \<open>
  What a call of the platform agent ends in: an answer, \<^verbatim>\<open>httpx.HTTPStatusError\<close> with the status, or
  another exception.
\<close>

datatype 'a agent_call = Answered 'a | StatusError nat | CallRaised exn

record 'w platform =
  pa_agent_id :: "string option"
  pa_get_task :: "string \<Rightarrow> 'w \<Rightarrow> json agent_call \<times> 'w"
  pa_record_ruling :: "string \<Rightarrow> payload \<Rightarrow> 'w \<Rightarrow> json agent_call \<times> 'w"
  pa_submit_feedback :: "payload \<Rightarrow> 'w \<Rightarrow> json agent_call \<times> 'w"
  pa_certificate :: "string \<Rightarrow> certificate"

record ('s, 'w) court = host +
  docket :: 's
  outer :: 'w

text \<open>\<^verbatim>\<open>except HTTPStatusError\<close>, \<^verbatim>\<open>except ServiceError: raise\<close>, \<^verbatim>\<open>except Exception\<close>.\<close>

fun or_unavailable :: "string \<Rightarrow> 'a agent_call \<Rightarrow> 'a result" where
  "or_unavailable code (Answered x) = Inr x"
| "or_unavailable code (StatusError st) = fail code 502"
| "or_unavailable code (CallRaised (ServiceError c st)) = fail c st"
| "or_unavailable code (CallRaised (PyError _)) = fail code 502"

text \<open>A call on the world outside.\<close>

definition call_outer ::
    "('w \<Rightarrow> 'a agent_call \<times> 'w) \<Rightarrow> ('s, 'w) court \<Rightarrow> 'a agent_call \<times> ('s, 'w) court" where
  "call_outer f w = (let (r, x) = f (outer w) in (r, w\<lparr>outer := x\<rparr>))"

section \<open>Rulings\<close>

fun normalize_deliverables :: "json \<Rightarrow> string list" where
  "normalize_deliverables (JList xs) = map text_of xs"
| "normalize_deliverables (JStr s) = [s]"
| "normalize_deliverables _ = []"

definition ruling_preconditions :: "'s dispute_ops \<Rightarrow> string \<Rightarrow> 's \<Rightarrow> dispute_view result" where
  "ruling_preconditions ops k s =
     (case di_get ops k s of
        None \<Rightarrow> fail ''dispute_not_found'' 404
      | Some v \<Rightarrow>
          if d_status (fst v) = Dispute_Ruled \<or> d_ruled_at (fst v) \<noteq> None then fail ''dispute_already_ruled'' 409
          else if d_status (fst v) \<notin> {Rebuttal_Pending, Rebuttal_Submitted} then fail ''dispute_not_ready'' 409
          else Inr v)"

definition text_or :: "payload \<Rightarrow> string \<Rightarrow> string" where
  "text_or d k = (case dget d k of None \<Rightarrow> [] | Some v \<Rightarrow> text_of v)"

definition build_context :: "dispute \<Rightarrow> json \<Rightarrow> dispute_context result" where
  "build_context d task_data =
     and_then (as_dict task_data) (\<lambda>t.
     and_then (case dget t ''reward'' of None \<Rightarrow> Inr 0 | Some v \<Rightarrow> int_of_json v) (\<lambda>reward.
       Inr \<lparr>dc_task_spec = text_or t ''spec'', dc_deliverables = normalize_deliverables (jget t ''deliverables''),
            dc_claim = d_claim d, dc_rebuttal = d_rebuttal d, dc_task_title = text_or t ''title'',
            dc_reward = reward\<rparr>))"

text \<open>One judge after the other; an exception that is no \<^verbatim>\<open>ServiceError\<close> becomes one.\<close>

fun judge_failed :: "exn \<Rightarrow> exn" where
  "judge_failed (ServiceError c st) = ServiceError c st"
| "judge_failed (PyError _) = ServiceError ''judge_unavailable'' 502"

fun evaluate_judges ::
    "dispute_context \<Rightarrow> nat \<Rightarrow> 'w judge list \<Rightarrow> ('s, 'w) court \<Rightarrow> judge_vote list result \<times> ('s, 'w) court" where
  "evaluate_judges ctx index [] w = (Inr [], w)"
| "evaluate_judges ctx index (judge # judges) w =
     (let (now, w1) = read_clock w;
          (raw, x) = judge ctx now (outer w1)
      in chain (map_sum judge_failed id raw, w1\<lparr>outer := x\<rparr>) (\<lambda>raw_vote w2.
         chain (normalize_vote raw_vote index w2) (\<lambda>v w3.
         chain (evaluate_judges ctx (Suc index) judges w3) (\<lambda>vs w4. (Inr (v # vs), w4)))))"

definition record_task_ruling ::
    "'w platform \<Rightarrow> dispute \<Rightarrow> string \<Rightarrow> int \<Rightarrow> string \<Rightarrow> ('s, 'w) court \<Rightarrow> json result \<times> ('s, 'w) court" where
  "record_task_ruling pl d k pct summary w =
     apfst (or_unavailable ''task_board_unavailable'') (call_outer (pa_record_ruling pl (d_task_id d)
       [(''action'', JStr ''record_ruling''), (''task_id'', JStr (d_task_id d)), (''ruling_id'', JStr k),
        (''worker_pct'', JInt pct), (''ruling_summary'', JStr summary)]) w)"

definition max_feedback_comment :: nat where
  "max_feedback_comment = 256"

definition feedback_payload :: "'w platform \<Rightarrow> dispute \<Rightarrow> string \<Rightarrow> string \<Rightarrow> string \<Rightarrow> string \<Rightarrow> payload" where
  "feedback_payload pl d to_agent category rating summary =
     [(''action'', JStr ''submit_feedback''), (''task_id'', JStr (d_task_id d)),
      (''from_agent_id'', JStr (case pa_agent_id pl of None \<Rightarrow> [] | Some i \<Rightarrow> i)), (''to_agent_id'', JStr to_agent),
      (''category'', JStr category), (''rating'', JStr rating),
      (''comment'', JStr (take max_feedback_comment summary))]"

definition record_feedback ::
    "'w platform \<Rightarrow> dispute \<Rightarrow> int \<Rightarrow> string \<Rightarrow> ('s, 'w) court \<Rightarrow> json result \<times> ('s, 'w) court" where
  "record_feedback pl d pct summary w =
     chain (apfst (or_unavailable ''reputation_service_unavailable'') (call_outer (pa_submit_feedback pl
              (feedback_payload pl d (d_claimant_id d) ''spec_quality'' (spec_rating pct) summary)) w)) (\<lambda>_ w1.
     apfst (or_unavailable ''reputation_service_unavailable'') (call_outer (pa_submit_feedback pl
              (feedback_payload pl d (d_respondent_id d) ''delivery_quality'' (delivery_rating pct) summary)) w1))"

definition begin_ruling ::
    "'s dispute_ops \<Rightarrow> string \<Rightarrow> ('s, 'w) court \<Rightarrow> dispute_view result \<times> ('s, 'w) court" where
  "begin_ruling ops k w =
     chain (ruling_preconditions ops k (docket w), w) (\<lambda>v w.
       (Inr v, w\<lparr>docket := di_set_status ops k Judging (docket w)\<rparr>))"

definition deliberate ::
    "'w platform \<Rightarrow> 'w judge list \<Rightarrow> dispute \<Rightarrow> string \<Rightarrow> json \<Rightarrow> ('s, 'w) court \<Rightarrow>
     (judge_vote list \<times> int \<times> string) result \<times> ('s, 'w) court" where
  "deliberate pl judges d k task_data w =
     chain (build_context d task_data, w) (\<lambda>ctx w.
     chain (if judges = [] then (fail ''judge_unavailable'' 502, w) else evaluate_judges ctx 0 judges w) (\<lambda>votes w.
     chain (compute_ruling votes, w) (\<lambda>(pct, summary) w.
     chain (record_task_ruling pl d k pct summary w) (\<lambda>_ w.
     chain (record_feedback pl d pct summary w) (\<lambda>_ w.
       (Inr (votes, pct, summary), w))))))"

definition conclude_ruling ::
    "'s dispute_ops \<Rightarrow> string \<Rightarrow> (judge_vote list \<times> int \<times> string) result \<Rightarrow> ('s, 'w) court \<Rightarrow>
     dispute_view result \<times> ('s, 'w) court" where
  "conclude_ruling ops k r w =
     (case r of
        Inl e \<Rightarrow> (Inl (judge_failed e), w\<lparr>docket := di_revert ops k (docket w)\<rparr>)
      | Inr (votes, pct, summary) \<Rightarrow>
          (let s = di_persist ops k pct summary votes (docket w)
           in (case di_get ops k s of None \<Rightarrow> Inl (PyError ''RuntimeError'') | Some v \<Rightarrow> Inr v, w\<lparr>docket := s\<rparr>)))"

definition execute_ruling ::
    "'s dispute_ops \<Rightarrow> string \<Rightarrow> 'w judge list \<Rightarrow> json \<Rightarrow> 'w platform \<Rightarrow> ('s, 'w) court \<Rightarrow>
     dispute_view result \<times> ('s, 'w) court" where
  "execute_ruling ops k judges task_data pl w =
     chain (begin_ruling ops k w) (\<lambda>v w1.
       let (r, w2) = deliberate pl judges (fst v) k task_data w1
       in conclude_ruling ops k r w2)"

section \<open>The dispute service\<close>

definition file_dispute ::
    "'s dispute_ops \<Rightarrow> string \<Rightarrow> string \<Rightarrow> string \<Rightarrow> string \<Rightarrow> string \<Rightarrow> int \<Rightarrow> ('s, 'w) court \<Rightarrow>
     dispute_view result \<times> ('s, 'w) court" where
  "file_dispute ops task_id claimant respondent claim eid deadline_seconds w =
     (let (now, w1) = read_clock w;
          deadline = now + deadline_seconds * 1000000
      in if deadline < min_time \<or> max_time \<le> deadline then (Inl (PyError ''OverflowError''), w1)
         else
           let (r, s) = di_insert ops task_id claimant respondent claim eid deadline (docket w1);
               w2 = w1\<lparr>docket := s\<rparr>
           in case r of
                Inl e \<Rightarrow>
                  (if e = PyError ''DuplicateDisputeError'' then fail ''dispute_already_exists'' 409 else Inl e, w2)
              | Inr v \<Rightarrow> (Inr v, w2))"

text \<open>
  A rebuttal is handled in a thread of its own: the check reads the dispute, the write is a call of its own, and what
  the others do in between counts.
\<close>

definition admit_rebuttal :: "'s dispute_ops \<Rightarrow> string \<Rightarrow> 's \<Rightarrow> unit result" where
  "admit_rebuttal ops k s =
     (case di_get ops k s of
        None \<Rightarrow> fail ''dispute_not_found'' 404
      | Some v \<Rightarrow>
          if d_status (fst v) \<noteq> Rebuttal_Pending then fail ''invalid_dispute_status'' 409
          else if d_rebuttal (fst v) \<noteq> None then fail ''rebuttal_already_submitted'' 409
          else Inr ())"

text \<open>
  The update of the store; what is read again only makes the answer, so a call in between would change nothing else.
\<close>

definition write_rebuttal ::
    "'s dispute_ops \<Rightarrow> string \<Rightarrow> string \<Rightarrow> ('s, 'w) court \<Rightarrow> dispute_view result \<times> ('s, 'w) court" where
  "write_rebuttal ops k rebuttal w =
     (let s = di_update_rebuttal ops k rebuttal (docket w)
      in (case di_get ops k s of None \<Rightarrow> Inl (PyError ''RuntimeError'') | Some v \<Rightarrow> Inr v, w\<lparr>docket := s\<rparr>))"

text \<open>The whole call, when nothing comes in between.\<close>

definition submit_rebuttal ::
    "'s dispute_ops \<Rightarrow> string \<Rightarrow> string \<Rightarrow> ('s, 'w) court \<Rightarrow> dispute_view result \<times> ('s, 'w) court" where
  "submit_rebuttal ops k rebuttal w = chain (admit_rebuttal ops k (docket w), w) (\<lambda>_. write_rebuttal ops k rebuttal)"

section \<open>Requests\<close>

record 'w court_app =
  ca_ready :: bool
  ca_platform :: "'w platform option"
  ca_judges :: "'w judge list option"
  ca_rebuttal_deadline_seconds :: int
  ca_max_claim_length :: int
  ca_max_rebuttal_length :: int

definition extract_jws_token :: "payload \<Rightarrow> string \<Rightarrow> string result" where
  "extract_jws_token data field =
     (case jget data field of
        JStr token \<Rightarrow>
          if token = [] then fail ''invalid_jws'' 400
          else if length (split_on CHR ''.'' token) \<noteq> 3 then fail ''invalid_jws'' 400
          else Inr token
      | _ \<Rightarrow> fail ''invalid_jws'' 400)"

definition verify_platform_token :: "string \<Rightarrow> 'w platform option \<Rightarrow> payload result" where
  "verify_platform_token token platform =
     (case platform of
        None \<Rightarrow> fail ''service_not_ready'' 503
      | Some pl \<Rightarrow>
          (case pa_certificate pl token of
            CertRejected \<Rightarrow> fail ''forbidden'' 403
          | CertError \<Rightarrow> fail ''identity_service_unavailable'' 502
          | CertPayload j \<Rightarrow> (case j of JObj d \<Rightarrow> Inr d | _ \<Rightarrow> fail ''invalid_payload'' 400)))"

definition require_action :: "payload \<Rightarrow> string \<Rightarrow> unit result" where
  "require_action p expected = (if jget p ''action'' \<noteq> JStr expected then fail ''invalid_payload'' 400 else Inr ())"

definition require_non_empty_string :: "payload \<Rightarrow> string \<Rightarrow> string result" where
  "require_non_empty_string data field =
     (case as_str (jget data field) of
        None \<Rightarrow> fail ''invalid_payload'' 400
      | Some s \<Rightarrow> if blank s then fail ''invalid_payload'' 400 else Inr s)"

text \<open>Both services present, then the signed payload with the action.\<close>

definition court_ready :: "'w court_app \<Rightarrow> 'w platform result" where
  "court_ready app =
     (if \<not> ca_ready app then fail ''service_not_ready'' 503
      else case ca_platform app of None \<Rightarrow> fail ''service_not_ready'' 503 | Some pl \<Rightarrow> Inr pl)"

definition court_payload :: "'w court_app \<Rightarrow> string \<Rightarrow> json option \<Rightarrow> ('w platform \<times> payload) result" where
  "court_payload app action body =
     and_then (court_ready app) (\<lambda>pl.
     and_then (parse_json_body body) (\<lambda>data.
     and_then (extract_jws_token data ''token'') (\<lambda>token.
     and_then (verify_platform_token token (Some pl)) (\<lambda>p.
     and_then (require_action p action) (\<lambda>_. Inr (pl, p))))))"

definition fetch_task :: "'w court_app \<Rightarrow> string \<Rightarrow> ('s, 'w) court \<Rightarrow> json result \<times> ('s, 'w) court" where
  "fetch_task app task_id w =
     (case ca_platform app of
        None \<Rightarrow> (fail ''service_not_ready'' 503, w)
      | Some pl \<Rightarrow>
          (let (r, w1) = call_outer (pa_get_task pl task_id) w
           in (if r = StatusError 404 then fail ''task_not_found'' 404
               else or_unavailable ''task_board_unavailable'' r, w1)))"

definition file_dispute_args ::
    "'w court_app \<Rightarrow> json option \<Rightarrow> (string \<times> string \<times> string \<times> string \<times> string) result" where
  "file_dispute_args app body =
     and_then (court_payload app ''file_dispute'' body) (\<lambda>(pl, p).
     and_then (require_non_empty_string p ''task_id'') (\<lambda>task_id.
     and_then (require_non_empty_string p ''claimant_id'') (\<lambda>claimant.
     and_then (require_non_empty_string p ''respondent_id'') (\<lambda>respondent.
     and_then (require_non_empty_string p ''claim'') (\<lambda>claim.
     and_then (require_non_empty_string p ''escrow_id'') (\<lambda>eid.
       if int (length claim) > ca_max_claim_length app then fail ''invalid_payload'' 400
       else Inr (task_id, claimant, respondent, claim, eid)))))))"

definition post_file_dispute ::
    "'w court_app \<Rightarrow> 's dispute_ops \<Rightarrow> json option \<Rightarrow> ('s, 'w) court \<Rightarrow> dispute_view result \<times> ('s, 'w) court" where
  "post_file_dispute app ops body w =
     chain (file_dispute_args app body, w) (\<lambda>(task_id, claimant, respondent, claim, eid) w.
     chain (fetch_task app task_id w) (\<lambda>_ w.
       file_dispute ops task_id claimant respondent claim eid (ca_rebuttal_deadline_seconds app) w))"

definition same_dispute :: "payload \<Rightarrow> string \<Rightarrow> unit result" where
  "same_dispute p k =
     and_then (require_non_empty_string p ''dispute_id'') (\<lambda>k'.
       if k' \<noteq> k then fail ''invalid_payload'' 400 else Inr ())"

definition rebuttal_args :: "'w court_app \<Rightarrow> string \<Rightarrow> json option \<Rightarrow> string result" where
  "rebuttal_args app k body =
     and_then (court_payload app ''submit_rebuttal'' body) (\<lambda>(pl, p).
     and_then (same_dispute p k) (\<lambda>_.
     and_then (require_non_empty_string p ''rebuttal'') (\<lambda>rebuttal.
       if int (length rebuttal) > ca_max_rebuttal_length app then fail ''invalid_payload'' 400
       else Inr rebuttal)))"

definition post_rebuttal ::
    "'w court_app \<Rightarrow> 's dispute_ops \<Rightarrow> string \<Rightarrow> json option \<Rightarrow> ('s, 'w) court \<Rightarrow>
     dispute_view result \<times> ('s, 'w) court" where
  "post_rebuttal app ops k body w = chain (rebuttal_args app k body, w) (\<lambda>rebuttal w. submit_rebuttal ops k rebuttal w)"

definition trigger_args :: "'w court_app \<Rightarrow> string \<Rightarrow> json option \<Rightarrow> 'w platform result" where
  "trigger_args app k body =
     and_then (court_payload app ''trigger_ruling'' body) (\<lambda>(pl, p).
     and_then (same_dispute p k) (\<lambda>_. Inr pl))"

definition trigger_ruling ::
    "'w court_app \<Rightarrow> 's dispute_ops \<Rightarrow> string \<Rightarrow> json option \<Rightarrow> ('s, 'w) court \<Rightarrow>
     dispute_view result \<times> ('s, 'w) court" where
  "trigger_ruling app ops k body w =
     chain (trigger_args app k body, w) (\<lambda>pl w.
       case di_get ops k (docket w) of
         None \<Rightarrow> (fail ''dispute_not_found'' 404, w)
       | Some v \<Rightarrow>
           chain (fetch_task app (d_task_id (fst v)) w) (\<lambda>task_data w.
             execute_ruling ops k (case ca_judges app of None \<Rightarrow> [] | Some js \<Rightarrow> js) task_data pl w))"

definition get_dispute ::
    "'w court_app \<Rightarrow> 's dispute_ops \<Rightarrow> string \<Rightarrow> ('s, 'w) court \<Rightarrow> dispute_view result" where
  "get_dispute app ops k w =
     (if \<not> ca_ready app then fail ''service_not_ready'' 503
      else case di_get ops k (docket w) of None \<Rightarrow> fail ''dispute_not_found'' 404 | Some v \<Rightarrow> Inr v)"

definition list_disputes ::
    "'w court_app \<Rightarrow> 's dispute_ops \<Rightarrow> string option \<Rightarrow> string option \<Rightarrow> ('s, 'w) court \<Rightarrow>
     dispute_summary list result" where
  "list_disputes app ops task_id status w =
     (if \<not> ca_ready app then fail ''service_not_ready'' 503 else Inr (di_list ops task_id status (docket w)))"

text \<open>Total and active disputes.\<close>

definition court_health :: "'w court_app \<Rightarrow> 's dispute_ops \<Rightarrow> ('s, 'w) court \<Rightarrow> nat \<times> nat" where
  "court_health app ops w =
     (if ca_ready app then (di_count ops (docket w), di_count_active ops (docket w)) else (0, 0))"

datatype court_request =
    PostFileDispute "json option"
  | PostRebuttal string "json option"
  | PostRule string "json option"

fun court_serve ::
    "'w court_app \<Rightarrow> 's dispute_ops \<Rightarrow> court_request \<Rightarrow> ('s, 'w) court \<Rightarrow>
     dispute_view result \<times> ('s, 'w) court" where
  "court_serve app ops (PostFileDispute body) w = post_file_dispute app ops body w"
| "court_serve app ops (PostRebuttal k body) w = post_rebuttal app ops k body w"
| "court_serve app ops (PostRule k body) w = trigger_ruling app ops k body w"

end
