(* ===== verification/Court_Runs.thy ===== *)
theory Court_Runs
  imports Court
begin

text \<open>
  The Court over any storage that keeps the laws: what one dispute may go through (\<open>dispute_edge\<close>), runs in
  which rulings await their calls, and rebuttals their turn, while other requests are served (\<open>court_run\<close>), and their invariant
  (\<open>docket_ok\<close>): a dispute is judging exactly while one ruling of it is in flight.
\<close>

section \<open>What a dispute goes through\<close>

definition ruling_of :: "judge_vote list \<Rightarrow> int \<Rightarrow> string \<Rightarrow> bool" where
  "ruling_of votes pct summary \<longleftrightarrow> votes \<noteq> [] \<and> list_all vote_ok votes \<and> compute_ruling votes = Inr (pct, summary)"

text \<open>The columns a status calls for.\<close>

definition ruled_columns :: "dispute_view \<Rightarrow> bool" where
  "ruled_columns v \<longleftrightarrow>
     (\<exists>votes pct summary now. ruling_of votes pct summary \<and> recorded_votes (d_id (fst v)) votes (snd v) \<and>
        d_worker_pct (fst v) = Some pct \<and> d_ruling_summary (fst v) = Some summary \<and> d_ruled_at (fst v) = Some now)"

definition unruled_columns :: "dispute_view \<Rightarrow> bool" where
  "unruled_columns v \<longleftrightarrow> d_worker_pct (fst v) = None \<and> d_ruling_summary (fst v) = None \<and> d_ruled_at (fst v) = None \<and> snd v = []"

definition dispute_row_ok :: "dispute_view \<Rightarrow> bool" where
  "dispute_row_ok v \<longleftrightarrow>
     (d_rebuttal (fst v) = None) = (d_rebutted_at (fst v) = None) \<and> d_status (fst v) \<noteq> Rebuttal_Submitted \<and>
     (if d_status (fst v) = Dispute_Ruled then ruled_columns v else unruled_columns v)"

definition filed_columns :: "dispute \<Rightarrow> string \<times> string \<times> string \<times> string \<times> string \<times> string \<times> int \<times> int" where
  "filed_columns d = (d_id d, d_task_id d, d_claimant_id d, d_respondent_id d, d_claim d, d_escrow_id d,
     d_rebuttal_deadline d, d_filed_at d)"

text \<open>
  The label says whether a rebuttal may be written: one that was admitted earlier is written whatever became of the
  dispute since.
\<close>

inductive dispute_edge :: "bool \<Rightarrow> dispute_view \<Rightarrow> dispute_view \<Rightarrow> bool" where
  edge_rebuttal: "dispute_edge True v (with_rebuttal r now v)"
| edge_judging: "d_status (fst v) = Rebuttal_Pending \<Longrightarrow> dispute_edge b v (with_status Judging v)"
| edge_reverted: "d_status (fst v) = Judging \<Longrightarrow> dispute_edge b v (reverted v)"
| edge_ruled: "d_status (fst v) = Judging \<Longrightarrow> ruling_of votes pct summary \<Longrightarrow>
    recorded_votes (d_id (fst v)) votes vs \<Longrightarrow> dispute_edge b v (with_ruling pct summary now vs v)"

inductive_cases dispute_edgeE: "dispute_edge b v v'"

lemmas view_changes = with_rebuttal_def with_status_def reverted_def with_ruling_def

text \<open>All but the rebuttal and its time.\<close>

definition without_rebuttal :: "dispute_view \<Rightarrow> dispute_view" where
  "without_rebuttal = apfst (\<lambda>d. d\<lparr>d_rebuttal := None, d_rebutted_at := None\<rparr>)"

lemma edge_filed: "dispute_edge b v v' \<Longrightarrow> filed_columns (fst v') = filed_columns (fst v)"
  by (erule dispute_edgeE) (auto simp: view_changes filed_columns_def)

lemma edge_rebuttal_stays:
  "dispute_edge False v v' \<Longrightarrow> d_rebuttal (fst v') = d_rebuttal (fst v) \<and> d_rebutted_at (fst v') = d_rebutted_at (fst v)"
  by (erule dispute_edgeE) (auto simp: view_changes)

lemma edge_not_ruled: "dispute_edge False v v' \<Longrightarrow> d_status (fst v) \<noteq> Dispute_Ruled"
  by (erule dispute_edgeE) auto

lemma edge_ruled_stays:
  "dispute_edge b v v' \<Longrightarrow> d_status (fst v) = Dispute_Ruled \<Longrightarrow>
   d_status (fst v') = Dispute_Ruled \<and> without_rebuttal v' = without_rebuttal v"
  by (cases v) (erule dispute_edgeE; auto simp: view_changes without_rebuttal_def)

lemma edge_row_ok: "dispute_edge b v v' \<Longrightarrow> dispute_row_ok v \<Longrightarrow> dispute_row_ok v'"
  by (erule dispute_edgeE)
    (auto simp: view_changes dispute_row_ok_def unruled_columns_def ruled_columns_def split: if_splits)

lemma edge_weaken: "dispute_edge b v v' \<Longrightarrow> dispute_edge True v v'"
  by (erule dispute_edgeE) (auto intro: dispute_edge.intros)

lemma edges_keep:
  assumes "(dispute_edge b)\<^sup>*\<^sup>* v v'"
  shows "filed_columns (fst v') = filed_columns (fst v)"
    "d_status (fst v) = Dispute_Ruled \<Longrightarrow> d_status (fst v') = Dispute_Ruled \<and> without_rebuttal v' = without_rebuttal v"
proof -
  show "filed_columns (fst v') = filed_columns (fst v)"
    using assms by (induction rule: rtranclp_induct) (simp_all add: edge_filed)
  show "d_status (fst v) = Dispute_Ruled \<Longrightarrow> d_status (fst v') = Dispute_Ruled \<and> without_rebuttal v' = without_rebuttal v"
    using assms by (induction rule: rtranclp_induct) (auto dest: edge_ruled_stays)
qed

lemma quiet_edges_keep:
  assumes "(dispute_edge False)\<^sup>*\<^sup>* v v'"
  shows "d_rebuttal (fst v') = d_rebuttal (fst v)" "d_status (fst v) = Dispute_Ruled \<Longrightarrow> v' = v"
proof -
  show "d_rebuttal (fst v') = d_rebuttal (fst v)"
    using assms by (induction rule: rtranclp_induct) (simp_all add: edge_rebuttal_stays)
  show "d_status (fst v) = Dispute_Ruled \<Longrightarrow> v' = v"
    using assms by (induction rule: converse_rtranclp_induct) (auto dest: edge_not_ruled)
qed

section \<open>Deliberation\<close>

lemma call_outer_docket [simp]: "docket (snd (call_outer f w)) = docket w"
  by (simp add: call_outer_def split: prod.splits)

lemma docket_record [simp]: "docket (w\<lparr>outer := x\<rparr>) = docket w"
  by simp

lemma read_clock_docket [simp]: "docket (snd (read_clock w)) = docket w"
  by (simp add: read_clock_def)

lemma normalize_vote_docket: "normalize_vote rv i w = (r, w') \<Longrightarrow> docket w' = docket w"
  by (auto simp: normalize_vote_def chain_def Let_def read_clock_def split: sum.splits prod.splits if_splits)

lemma evaluate_judges_votes:
  "evaluate_judges ctx i judges w = (r, w') \<Longrightarrow>
   docket w' = docket w \<and> (\<forall>vs. r = Inr vs \<longrightarrow> length vs = length judges \<and> list_all vote_ok vs)"
proof (induction ctx i judges w arbitrary: r w' rule: evaluate_judges.induct)
  case (2 ctx i judge judges w)
  obtain now w1 where n: "read_clock w = (now, w1)" by fastforce
  obtain raw x where j: "judge ctx now (outer w1) = (raw, x)" by fastforce
  have w1: "docket w1 = docket w" using n by (auto simp: read_clock_def)
  show ?case
  proof (cases raw)
    case (Inl e)
    then show ?thesis using 2(2) w1 by (auto simp: n j)
  next
    case raw: (Inr rv)
    obtain rv' w3 where v: "normalize_vote rv i (w1\<lparr>outer := x\<rparr>) = (rv', w3)" by fastforce
    note w3 = normalize_vote_docket [OF v]
    show ?thesis
    proof (cases rv')
      case (Inl e)
      then show ?thesis using 2(2) w1 w3 by (auto simp: n j raw v)
    next
      case rv': (Inr vote)
      obtain rs w4 where rest: "evaluate_judges ctx (Suc i) judges w3 = (rs, w4)" by fastforce
      have "docket w4 = docket w3 \<and> (\<forall>vs. rs = Inr vs \<longrightarrow> length vs = length judges \<and> list_all vote_ok vs)"
        by (rule 2(1) [OF refl n [symmetric] refl j [symmetric] rest])
      then show ?thesis
        using 2(2) w1 w3 normalize_vote_ok [of rv i _ vote w3] v
        by (cases rs) (auto simp: n j raw rv' rest)
    qed
  qed
qed simp

lemma chain_docket:
  assumes "docket (snd m) = docket w" "\<And>x v. m = (Inr x, v) \<Longrightarrow> docket (snd (f x v)) = docket v"
  shows "docket (snd (chain m f)) = docket w"
  using assms by (cases m; cases "fst m") auto

lemma record_docket [simp]:
  "docket (snd (record_task_ruling pl d k pct summary w)) = docket w"
  "docket (snd (record_feedback pl d pct summary w)) = docket w"
proof -
  show "docket (snd (record_task_ruling pl d k pct summary w)) = docket w"
    by (simp add: record_task_ruling_def)
  show "docket (snd (record_feedback pl d pct summary w)) = docket w"
    unfolding record_feedback_def by (rule chain_docket) simp_all
qed

lemma evaluate_docket [simp]: "docket (snd (evaluate_judges ctx i judges w)) = docket w"
  using evaluate_judges_votes [of ctx i judges w] by (simp add: prod_eq_iff)

lemma deliberate_docket: "docket (snd (deliberate pl judges d k task_data w)) = docket w"
  unfolding deliberate_def
  by (rule chain_docket, simp, rule chain_docket, simp, rule chain_docket, simp, simp only: prod.case split_paired_all,
      rule chain_docket, simp, rule chain_docket, simp, simp)

lemma deliberate_ruling:
  assumes "deliberate pl judges d k task_data w = (Inr (votes, pct, summary), w')"
  shows "ruling_of votes pct summary"
proof -
  obtain ctx w1 where votes: "judges \<noteq> []" "evaluate_judges ctx 0 judges w = (Inr votes, w1)"
      "compute_ruling votes = Inr (pct, summary)"
    using assms by (auto simp: deliberate_def chain_Inr_iff split: if_splits)
  then show ?thesis using evaluate_judges_votes [OF votes(2)] by (auto simp: ruling_of_def)
qed

section \<open>Runs with rulings in flight\<close>

text \<open>
  From a court, with the rulings in flight and the rebuttals admitted but not yet written: filings, rebuttals admitted
  and written, rulings begun and concluded with what some deliberation ended in, and anything that leaves the docket
  alone. The two store calls with which a ruling begins are one step: a write that falls between them changes only
  the rebuttal, and an admission counts as before them.
\<close>

inductive court_run ::
    "'s dispute_ops \<Rightarrow> ('s, 'w) court \<Rightarrow> string list \<Rightarrow> (string \<times> string) list \<Rightarrow> ('s, 'w) court \<Rightarrow> bool"
  for ops and w\<^sub>0 where
  run_start: "court_run ops w\<^sub>0 [] [] w\<^sub>0"
| run_file: "court_run ops w\<^sub>0 R B w \<Longrightarrow> court_run ops w\<^sub>0 R B (snd (file_dispute ops t c r cl e secs w))"
| run_admit: "court_run ops w\<^sub>0 R B w \<Longrightarrow> admit_rebuttal ops k (docket w) = Inr () \<Longrightarrow> court_run ops w\<^sub>0 R ((k, rb) # B) w"
| run_write: "court_run ops w\<^sub>0 R B w \<Longrightarrow> (k, rb) \<in> set B \<Longrightarrow>
    court_run ops w\<^sub>0 R (remove1 (k, rb) B) (snd (write_rebuttal ops k rb w))"
| run_elsewhere: "court_run ops w\<^sub>0 R B w \<Longrightarrow> docket w' = docket w \<Longrightarrow> court_run ops w\<^sub>0 R B w'"
| run_begin: "court_run ops w\<^sub>0 R B w \<Longrightarrow> begin_ruling ops k w = (Inr v, w') \<Longrightarrow> court_run ops w\<^sub>0 (k # R) B w'"
| run_conclude: "court_run ops w\<^sub>0 R B w \<Longrightarrow> k \<in> set R \<Longrightarrow>
    deliberate (pl :: 'w platform) judges d k task_data (u :: ('s, 'w) court) = (x, u') \<Longrightarrow>
    conclude_ruling ops k x w = (res, w') \<Longrightarrow> court_run ops w\<^sub>0 (remove1 k R) B w'"

text \<open>A rebuttal served at once.\<close>

lemma run_rebuttal: "court_run ops w\<^sub>0 R B w \<Longrightarrow> court_run ops w\<^sub>0 R B (snd (submit_rebuttal ops k rb w))"
proof (cases "admit_rebuttal ops k (docket w)")
  case (Inr u)
  assume "court_run ops w\<^sub>0 R B w"
  then have "court_run ops w\<^sub>0 R ((k, rb) # B) w" using Inr by (intro run_admit) auto
  from run_write [OF this, of k rb] show ?thesis by (simp add: submit_rebuttal_def Inr)
qed (simp add: submit_rebuttal_def)

definition docket_ok :: "(string \<Rightarrow> dispute_view option) \<Rightarrow> string list \<Rightarrow> bool" where
  "docket_ok m R \<longleftrightarrow> distinct R \<and>
     (\<forall>k v. m k = Some v \<longrightarrow> d_id (fst v) = k \<and> dispute_row_ok v \<and> (d_status (fst v) = Judging \<longleftrightarrow> k \<in> set R)) \<and>
     (\<forall>k \<in> set R. m k \<noteq> None) \<and>
     (\<forall>k k' v v'. m k = Some v \<longrightarrow> m k' = Some v' \<longrightarrow> d_task_id (fst v) = d_task_id (fst v') \<longrightarrow> k = k')"

definition docket_evolves :: "bool \<Rightarrow> (string \<Rightarrow> dispute_view option) \<Rightarrow> (string \<Rightarrow> dispute_view option) \<Rightarrow> bool" where
  "docket_evolves b m m' \<longleftrightarrow> (\<forall>k v. m k = Some v \<longrightarrow> (\<exists>v'. m' k = Some v' \<and> (dispute_edge b)\<^sup>*\<^sup>* v v'))"

lemma docket_okD:
  "docket_ok m R \<Longrightarrow> m k = Some v \<Longrightarrow>
   d_id (fst v) = k \<and> dispute_row_ok v \<and> (d_status (fst v) = Judging \<longleftrightarrow> k \<in> set R)"
  unfolding docket_ok_def by blast

lemma docket_ok_task:
  "docket_ok m R \<Longrightarrow> m k = Some v \<Longrightarrow> m k' = Some v' \<Longrightarrow> d_task_id (fst v) = d_task_id (fst v') \<Longrightarrow> k = k'"
  unfolding docket_ok_def by blast

lemma docket_ok_distinct: "docket_ok m R \<Longrightarrow> distinct R"
  by (simp add: docket_ok_def)

lemma docket_ok_flight: "docket_ok m R \<Longrightarrow> k \<in> set R \<Longrightarrow> \<exists>v. m k = Some v \<and> d_status (fst v) = Judging \<and> d_id (fst v) = k"
  unfolding docket_ok_def by (metis not_None_eq)

lemma docket_evolves_refl [simp]: "docket_evolves b m m"
  by (auto simp: docket_evolves_def)

lemma docket_evolves_trans: "docket_evolves b m m' \<Longrightarrow> docket_evolves b m' m'' \<Longrightarrow> docket_evolves b m m''"
  unfolding docket_evolves_def by (meson rtranclp_trans)

lemma docket_evolves_edge: "m k = Some v \<Longrightarrow> dispute_edge b v v' \<Longrightarrow> docket_evolves b m (m(k \<mapsto> v'))"
  unfolding docket_evolves_def by (metis fun_upd_apply option.inject r_into_rtranclp rtranclp.rtrancl_refl)

lemma docket_evolves_new: "m k = None \<Longrightarrow> docket_evolves b m (m(k \<mapsto> v))"
  by (auto simp: docket_evolves_def)

lemma docket_evolves_weaken: "docket_evolves b m m' \<Longrightarrow> docket_evolves True m m'"
  unfolding docket_evolves_def by (metis edge_weaken mono_rtranclp)

lemma docket_evolves_then: "docket_evolves True m m' \<Longrightarrow> docket_evolves False m' m'' \<Longrightarrow> docket_evolves True m m''"
  by (rule docket_evolves_trans, assumption, erule docket_evolves_weaken)

text \<open>One dispute moves on; the rulings in flight move with it.\<close>

lemma docket_ok_edge:
  assumes ok: "docket_ok m R" and v: "m k = Some v" "dispute_edge b v v'"
    and R: "distinct R'" "set R' - {k} = set R - {k}" "d_status (fst v') = Judging \<longleftrightarrow> k \<in> set R'"
  shows "docket_ok (m(k \<mapsto> v')) R'"
proof -
  have f: "d_id (fst v') = k" "d_task_id (fst v') = d_task_id (fst v)" "dispute_row_ok v'"
    using edge_filed [OF v(2)] edge_row_ok [OF v(2)] docket_okD [OF ok v(1)] by (simp_all add: filed_columns_def)
  have other: "x \<in> set R' \<longleftrightarrow> x \<in> set R" if "x \<noteq> k" for x using R(2) that by auto
  have base: "\<exists>x. m j = Some x \<and> d_task_id (fst x) = d_task_id (fst u)" if "(m(k \<mapsto> v')) j = Some u" for j u
    using that v(1) f(2) by (cases "j = k") auto
  show ?thesis
    unfolding docket_ok_def
  proof (intro conjI ballI allI impI; (rule R(1))?)
    fix k' u assume u: "(m(k \<mapsto> v')) k' = Some u"
    show "d_id (fst u) = k'" "dispute_row_ok u" "d_status (fst u) = Judging \<longleftrightarrow> k' \<in> set R'"
      using u f R(3) docket_okD [OF ok, of k' u] other by (simp_all split: if_splits)
    fix k'' u' assume u': "(m(k \<mapsto> v')) k'' = Some u'" "d_task_id (fst u) = d_task_id (fst u')"
    show "k' = k''"
      using base [OF u] base [OF u'(1)] u'(2) docket_ok_task [OF ok] by metis
  next
    fix k' assume "k' \<in> set R'"
    then show "(m(k \<mapsto> v')) k' \<noteq> None" using ok other by (auto simp: docket_ok_def)
  qed
qed

lemma docket_ok_new:
  assumes ok: "docket_ok m R" and new: "m k = None" "\<forall>k v. m k = Some v \<longrightarrow> d_task_id (fst v) \<noteq> t"
  shows "docket_ok (m(k \<mapsto> (fresh_dispute k t c r cl e dl now, []))) R"
  unfolding docket_ok_def
proof (intro conjI ballI allI impI; (rule docket_ok_distinct [OF ok])?)
  let ?v = "(fresh_dispute k t c r cl e dl now, [])"
  fix k' u assume u: "(m(k \<mapsto> ?v)) k' = Some u"
  have k: "k \<notin> set R" using new(1) docket_ok_flight [OF ok, of k] by auto
  show "d_id (fst u) = k'" "dispute_row_ok u" "d_status (fst u) = Judging \<longleftrightarrow> k' \<in> set R"
    using u k docket_okD [OF ok, of k' u]
    by (auto simp: fresh_dispute_def dispute_row_ok_def unruled_columns_def split: if_splits)
  fix k'' u' assume u': "(m(k \<mapsto> ?v)) k'' = Some u'" "d_task_id (fst u) = d_task_id (fst u')"
  have t: "d_task_id (fst ?v) = t" by (simp add: fresh_dispute_def)
  then have "k' = k \<longleftrightarrow> k'' = k"
    using u u' new(2) by (metis fun_upd_apply option.inject)
  then show "k' = k''"
    using u u' docket_ok_task [OF ok] by (metis fun_upd_apply)
next
  fix k' assume "k' \<in> set R"
  then show "(m(k \<mapsto> (fresh_dispute k t c r cl e dl now, []))) k' \<noteq> None" using docket_ok_flight [OF ok \<open>k' \<in> set R\<close>] by (auto simp del: split_paired_Ex)
qed

context dispute_storage
begin

abbreviation shown :: "'s \<Rightarrow> string \<Rightarrow> dispute_view option" where
  "shown s \<equiv> (\<lambda>k. di_get ops k s)"

lemma file_effect:
  assumes "good (docket w)" and ok: "docket_ok (shown (docket w)) R"
    and w': "w' = snd (file_dispute ops t c r cl e secs w)"
  shows "good (docket w') \<and> docket_ok (shown (docket w')) R \<and> docket_evolves False (shown (docket w)) (shown (docket w'))"
proof -
  obtain now w1 where n: "read_clock w = (now, w1)" by fastforce
  have w1: "docket w1 = docket w" using n by (auto simp: read_clock_def)
  define dl where "dl = now + secs * 1000000"
  show ?thesis
  proof (cases "dl < min_time \<or> max_time \<le> dl")
    case True
    then have "docket w' = docket w" using w1 by (simp add: w' file_dispute_def n dl_def)
    then show ?thesis using assms(1) ok by simp
  next
    case False
    let ?ins = "di_insert ops t c r cl e dl (docket w)"
    have s': "docket w' = snd ?ins"
      using False w1 unfolding w' file_dispute_def by (cases ?ins; cases "fst ?ins") (auto simp: n dl_def Let_def)
    have g: "good (docket w')" unfolding s' by (rule insert_good [OF assms(1)])
    show ?thesis
    proof (cases "\<exists>k v. shown (docket w) k = Some v \<and> d_task_id (fst v) = t")
      case True
      then have "docket w' = docket w" using insert_taken [OF assms(1)] s' by auto
      then show ?thesis using assms(1) ok by simp
    next
      case free: False
      then have u: "\<forall>k v. shown (docket w) k = Some v \<longrightarrow> d_task_id (fst v) \<noteq> t" by blast
      obtain k now' where k: "shown (docket w) k = None"
          "shown (docket w') = (shown (docket w))(k \<mapsto> (fresh_dispute k t c r cl e dl now', []))"
        using insert_free [OF assms(1) u, of c r cl e dl] s' by auto
      show ?thesis
        using g docket_ok_new [OF ok k(1) u] docket_evolves_new [of "shown (docket w)", OF k(1)] unfolding k(2) by blast
    qed
  qed
qed

lemma write_effect:
  assumes "good (docket w)" and ok: "docket_ok (shown (docket w)) R" and w': "w' = snd (write_rebuttal ops k rb w)"
  shows "good (docket w') \<and> docket_ok (shown (docket w')) R \<and> docket_evolves True (shown (docket w)) (shown (docket w'))"
    "k' \<noteq> k \<Longrightarrow> shown (docket w') k' = shown (docket w) k'"
proof -
  have s': "docket w' = di_update_rebuttal ops k rb (docket w)" by (simp add: w' write_rebuttal_def Let_def)
  obtain now where m: "shown (docket w') = at_key k (with_rebuttal rb now) (shown (docket w))"
    using rebuttal_is [OF assms(1), of k rb] by (auto simp: s')
  show "k' \<noteq> k \<Longrightarrow> shown (docket w') k' = shown (docket w) k'"
    unfolding fun_cong [OF m] by (simp add: at_key_apply)
  have g: "good (docket w')" using rebuttal_good [OF assms(1), of k rb] by (simp add: s')
  show "good (docket w') \<and> docket_ok (shown (docket w')) R \<and> docket_evolves True (shown (docket w)) (shown (docket w'))"
  proof (cases "shown (docket w) k")
    case None
    then have "shown (docket w') = shown (docket w)" unfolding m by (auto simp: fun_eq_iff at_key_apply)
    then show ?thesis using g ok by simp
  next
    case (Some v)
    then have m': "shown (docket w') = (shown (docket w))(k \<mapsto> with_rebuttal rb now v)" unfolding m by (simp add: at_key_def)
    have e: "dispute_edge True v (with_rebuttal rb now v)" by (rule edge_rebuttal)
    have "docket_ok ((shown (docket w))(k \<mapsto> with_rebuttal rb now v)) R"
      by (rule docket_ok_edge [OF ok Some e]) (use docket_ok_distinct [OF ok] docket_okD [OF ok Some] in \<open>simp_all add: with_rebuttal_def\<close>)
    then show ?thesis
      using g docket_evolves_edge [of "shown (docket w)", OF Some e] unfolding m' by blast
  qed
qed

lemma begin_effect:
  assumes "good (docket w)" and ok: "docket_ok (shown (docket w)) R" and b: "begin_ruling ops k w = (Inr v, w')"
  shows "good (docket w') \<and> docket_ok (shown (docket w')) (k # R) \<and> docket_evolves False (shown (docket w)) (shown (docket w'))"
    "shown (docket w) k = Some v" "k \<notin> set R" "shown (docket w') = (shown (docket w))(k \<mapsto> with_status Judging v)"
proof -
  have v: "shown (docket w) k = Some v" "d_status (fst v) = Rebuttal_Pending \<or> d_status (fst v) = Rebuttal_Submitted"
    and s': "docket w' = di_set_status ops k Judging (docket w)"
    using b by (auto simp: begin_ruling_def ruling_preconditions_def chain_Inr_iff split: option.splits if_splits)
  have st: "d_status (fst v) = Rebuttal_Pending" "k \<notin> set R"
    using docket_okD [OF ok v(1)] v(2) by (auto simp: dispute_row_ok_def)
  have m: "shown (docket w') = (shown (docket w))(k \<mapsto> with_status Judging v)"
    using status_is [OF assms(1), of k Judging] v(1) by (simp add: s' at_key_def)
  have e: "dispute_edge False v (with_status Judging v)" using st by (intro edge_judging)
  have "docket_ok ((shown (docket w))(k \<mapsto> with_status Judging v)) (k # R)"
    by (rule docket_ok_edge [OF ok v(1) e]) (use docket_ok_distinct [OF ok] st in \<open>auto simp: with_status_def\<close>)
  then show "good (docket w') \<and> docket_ok (shown (docket w')) (k # R) \<and> docket_evolves False (shown (docket w)) (shown (docket w'))"
    using status_good [OF assms(1), of k Judging, folded s'] docket_evolves_edge [of "shown (docket w)", OF v(1) e]
    unfolding m by blast
  show "shown (docket w) k = Some v" "k \<notin> set R" "shown (docket w') = (shown (docket w))(k \<mapsto> with_status Judging v)"
    using v st m by auto
qed

lemma conclude_effect:
  assumes "good (docket w)" and ok: "docket_ok (shown (docket w)) R" and k: "k \<in> set R"
    and r: "\<forall>votes pct summary. x = Inr (votes, pct, summary) \<longrightarrow> ruling_of votes pct summary"
    and c: "conclude_ruling ops k x w = (res, w')"
  shows "good (docket w') \<and> docket_ok (shown (docket w')) (remove1 k R) \<and> docket_evolves False (shown (docket w)) (shown (docket w'))"
    "x = Inl e \<Longrightarrow> res = Inl (judge_failed e) \<and> (\<exists>v. shown (docket w) k = Some v \<and> shown (docket w') = (shown (docket w))(k \<mapsto> reverted v))"
    "x = Inr (votes, pct, summary) \<Longrightarrow> \<exists>v now vs. shown (docket w) k = Some v \<and> recorded_votes (d_id (fst v)) votes vs \<and>
       res = Inr (with_ruling pct summary now vs v) \<and> shown (docket w') = (shown (docket w))(k \<mapsto> with_ruling pct summary now vs v)"
proof -
  obtain v where v: "shown (docket w) k = Some v" "d_status (fst v) = Judging" "d_id (fst v) = k"
    using docket_ok_flight [OF ok k] by blast
  have step: "docket_ok ((shown (docket w))(k \<mapsto> v')) (remove1 k R)"
    if "dispute_edge False v v'" "d_status (fst v') \<noteq> Judging" for v'
    by (rule docket_ok_edge [OF ok v(1) that(1)]) (use docket_ok_distinct [OF ok] that(2) in auto)
  have "(good (docket w') \<and> docket_ok (shown (docket w')) (remove1 k R) \<and> docket_evolves False (shown (docket w)) (shown (docket w'))) \<and>
    (\<forall>e. x = Inl e \<longrightarrow> res = Inl (judge_failed e) \<and> shown (docket w') = (shown (docket w))(k \<mapsto> reverted v)) \<and>
    (\<forall>votes pct summary. x = Inr (votes, pct, summary) \<longrightarrow> (\<exists>now vs. recorded_votes k votes vs \<and>
       res = Inr (with_ruling pct summary now vs v) \<and> shown (docket w') = (shown (docket w))(k \<mapsto> with_ruling pct summary now vs v)))"
  proof (cases x)
    case (Inl e)
    have m: "shown (docket w') = (shown (docket w))(k \<mapsto> reverted v)" "good (docket w')" "res = Inl (judge_failed e)"
      using c revert_is [OF assms(1), of k] revert_good [OF assms(1), of k] v(1)
      by (auto simp: conclude_ruling_def Inl at_key_def)
    have e: "dispute_edge False v (reverted v)" using v by (intro edge_reverted)
    show ?thesis
      using m step [OF e] docket_evolves_edge [of "shown (docket w)", OF v(1) e] by (simp add: Inl reverted_def)
  next
    case (Inr y)
    obtain votes pct summary where y: "y = (votes, pct, summary)" by (cases y)
    obtain now vs where p: "recorded_votes k votes vs"
        "shown (di_persist ops k pct summary votes (docket w)) = (shown (docket w))(k \<mapsto> with_ruling pct summary now vs v)"
      using persist_is [OF assms(1), of k votes pct summary] v(1) by (auto simp: at_key_def)
    have d': "docket w' = di_persist ops k pct summary votes (docket w)"
        "res = (case shown (docket w') k of None \<Rightarrow> Inl (PyError ''RuntimeError'') | Some v \<Rightarrow> Inr v)"
      using c by (auto simp: conclude_ruling_def Inr y Let_def)
    have e: "dispute_edge False v (with_ruling pct summary now vs v)"
      using v(2,3) r p(1) by (intro edge_ruled [of _ votes]) (auto simp: Inr y)
    have "docket_ok (shown (docket w')) (remove1 k R)"
      unfolding d'(1) p(2) using step [OF e] by (simp add: with_ruling_def)
    moreover have "docket_evolves False (shown (docket w)) (shown (docket w'))"
      unfolding d'(1) p(2) by (rule docket_evolves_edge [of "shown (docket w)", OF v(1) e])
    moreover have "good (docket w')" unfolding d'(1) by (rule persist_good [OF assms(1)])
    moreover have "res = Inr (with_ruling pct summary now vs v)" using d' p(2) by (simp add: fun_upd_def fun_eq_iff)
    ultimately show ?thesis using p d'(1) by (auto simp: Inr y)
  qed
  then show "good (docket w') \<and> docket_ok (shown (docket w')) (remove1 k R) \<and> docket_evolves False (shown (docket w)) (shown (docket w'))"
    "x = Inl e \<Longrightarrow> res = Inl (judge_failed e) \<and> (\<exists>v. shown (docket w) k = Some v \<and> shown (docket w') = (shown (docket w))(k \<mapsto> reverted v))"
    "x = Inr (votes, pct, summary) \<Longrightarrow> \<exists>v now vs. shown (docket w) k = Some v \<and> recorded_votes (d_id (fst v)) votes vs \<and>
       res = Inr (with_ruling pct summary now vs v) \<and> shown (docket w') = (shown (docket w))(k \<mapsto> with_ruling pct summary now vs v)"
    using v by blast+
qed

theorem run_keeps:
  assumes "court_run ops w\<^sub>0 R B w" "good (docket w\<^sub>0)" "docket_ok (shown (docket w\<^sub>0)) []"
  shows "good (docket w) \<and> docket_ok (shown (docket w)) R \<and> docket_evolves True (shown (docket w\<^sub>0)) (shown (docket w))"
  using assms
proof (induction rule: court_run.induct)
  case (run_file R B w t c r cl e secs)
  then show ?case using file_effect [of w R _ t c r cl e secs] docket_evolves_then by blast
next
  case (run_write R B w k rb)
  then show ?case using write_effect(1) [of w R _ k rb] docket_evolves_trans by blast
next
  case (run_begin R B w k v w')
  then show ?case using begin_effect(1) [of w R k v w'] docket_evolves_then by blast
next
  case (run_conclude R B w k pl judges d task_data u x u' res w')
  have "\<forall>votes pct summary. x = Inr (votes, pct, summary) \<longrightarrow> ruling_of votes pct summary"
    using run_conclude(3) deliberate_ruling by blast
  then show ?case
    using run_conclude conclude_effect(1) [of w R k x res w'] docket_evolves_then by blast
qed simp_all

text \<open>
  A dispute that has its rebuttal, or is ruled, while no rebuttal is being served: no later one is admitted.
\<close>

lemma run_keeps_closed:
  assumes "court_run ops w\<^sub>0 R B w" "good (docket w\<^sub>0)" "docket_ok (shown (docket w\<^sub>0)) []"
    and "shown (docket w\<^sub>0) k = Some v" "d_rebuttal (fst v) \<noteq> None \<or> d_status (fst v) = Dispute_Ruled"
  shows "k \<notin> fst ` set B \<and> (\<exists>v'. shown (docket w) k = Some v' \<and> (dispute_edge False)\<^sup>*\<^sup>* v v')"
proof -
  have on: "\<exists>v'. m' k = Some v' \<and> (dispute_edge False)\<^sup>*\<^sup>* v v'"
    if "docket_evolves False m m'" "\<exists>v'. m k = Some v' \<and> (dispute_edge False)\<^sup>*\<^sup>* v v'" for m m'
    using that unfolding docket_evolves_def by (meson rtranclp_trans)
  show ?thesis
    using assms(1)
  proof (induction rule: court_run.induct)
    case (run_file R B w t c r cl e secs)
    then show ?case
      using file_effect [of w R _ t c r cl e secs] run_keeps [OF run_file(1) assms(2,3)] on by blast
  next
    case (run_admit R B w k' rb)
    then obtain v' where v': "shown (docket w) k = Some v'" "(dispute_edge False)\<^sup>*\<^sup>* v v'" by blast
    have "k' \<noteq> k"
      using run_admit(2) v' quiet_edges_keep [OF v'(2)] assms(5) by (auto simp: admit_rebuttal_def split: option.splits if_splits)
    then show ?case using run_admit by simp
  next
    case (run_write R B w k' rb)
    then have "k \<noteq> k'" by force
    then show ?case
      using run_write write_effect(2) [of w R _ k' rb k] run_keeps [OF run_write(1) assms(2,3)] set_remove1_subset [of "(k', rb)" B] by auto
  next
    case (run_begin R B w k' u w')
    then show ?case
      using begin_effect(1) [of w R k' u w'] run_keeps [OF run_begin(1) assms(2,3)] on by blast
  next
    case (run_conclude R B w k' pl judges d task_data u x u' res w')
    have "\<forall>votes pct summary. x = Inr (votes, pct, summary) \<longrightarrow> ruling_of votes pct summary"
      using run_conclude(3) deliberate_ruling by blast
    then show ?case
      using run_conclude conclude_effect(1) [of w R k' x res w'] run_keeps [OF run_conclude(1) assms(2,3)] on by blast
  qed (use assms(4) in auto)
qed

end

section \<open>Requests are runs\<close>

lemma run_chain:
  assumes "court_run ops w\<^sub>0 R B (snd m)" "\<And>x v. m = (Inr x, v) \<Longrightarrow> court_run ops w\<^sub>0 R B v \<Longrightarrow> court_run ops w\<^sub>0 R B (snd (f x v))"
  shows "court_run ops w\<^sub>0 R B (snd (chain m f))"
  using assms by (cases m; cases "fst m") auto

lemma execute_run:
  assumes "court_run ops w\<^sub>0 R B w"
  shows "court_run ops w\<^sub>0 R B (snd (execute_ruling ops k judges task_data pl w))"
proof -
  obtain r w1 where b: "begin_ruling ops k w = (r, w1)" by fastforce
  show ?thesis
  proof (cases r)
    case (Inl e)
    then have "w1 = w"
      using b by (auto simp: begin_ruling_def chain_def split: sum.splits)
    then show ?thesis using assms b Inl by (simp add: execute_ruling_def)
  next
    case (Inr v)
    obtain x w2 where d: "deliberate pl judges (fst v) k task_data w1 = (x, w2)" by fastforce
    obtain res w3 where c: "conclude_ruling ops k x w2 = (res, w3)" by fastforce
    have "court_run ops w\<^sub>0 (k # R) B w1" using run_begin [OF assms b [unfolded Inr]] .
    then have "court_run ops w\<^sub>0 (k # R) B w2"
      by (rule run_elsewhere) (use deliberate_docket [of pl judges "fst v" k task_data w1] d in simp)
    from run_conclude [OF this _ d c] show ?thesis by (simp add: execute_ruling_def b Inr d c)
  qed
qed

lemma fetch_docket [simp]: "docket (snd (fetch_task app t w)) = docket w"
  by (auto simp: fetch_task_def call_outer_def split: option.splits prod.splits)

lemma run_fetch:
  assumes "court_run ops w\<^sub>0 R B w" "\<And>x v. court_run ops w\<^sub>0 R B v \<Longrightarrow> court_run ops w\<^sub>0 R B (snd (f x v))"
  shows "court_run ops w\<^sub>0 R B (snd (chain (fetch_task app t w) f))"
  by (rule run_chain, rule run_elsewhere [OF assms(1)]) (simp_all add: assms(2))

lemma serve_run: "court_run ops w\<^sub>0 R B w \<Longrightarrow> court_run ops w\<^sub>0 R B (snd (court_serve app ops req w))"
proof (induction app ops req w rule: court_serve.induct)
  case (1 app ops body w)
  then show ?case
    unfolding court_serve.simps post_file_dispute_def
    by (intro run_chain) (auto intro!: run_fetch run_file)
next
  case (2 app ops k body w)
  then show ?case
    unfolding court_serve.simps post_rebuttal_def
    by (intro run_chain) (auto intro!: run_rebuttal)
next
  case (3 app ops k body w)
  then show ?case
    unfolding court_serve.simps trigger_ruling_def
    by (intro run_chain) (auto split: option.splits intro!: run_fetch execute_run)
qed

section \<open>What a ruling ends in\<close>

text \<open>A failed ruling puts the dispute back exactly as it was.\<close>

lemma reverted_judging: "dispute_row_ok v \<Longrightarrow> d_status (fst v) = Rebuttal_Pending \<Longrightarrow> reverted (with_status Judging v) = v"
  by (cases v) (auto simp: reverted_def with_status_def dispute_row_ok_def unruled_columns_def)

context dispute_storage
begin

lemma execute_outcome:
  assumes g: "good (docket w)" and ok: "docket_ok (shown (docket w)) R"
    and e: "execute_ruling ops k judges task_data pl w = (res, w')"
  obtains (failed) err where "res = Inl err" "shown (docket w') = shown (docket w)"
    | (ruled) v votes pct summary vs now where "shown (docket w) k = Some v" "ruling_of votes pct summary"
      "length votes = length judges" "recorded_votes k votes vs"
      "res = Inr (with_ruling pct summary now vs (with_status Judging v))" "shown (docket w') k = Some (with_ruling pct summary now vs (with_status Judging v))"
proof -
  obtain r w1 where b: "begin_ruling ops k w = (r, w1)" by fastforce
  show thesis
  proof (cases r)
    case (Inl err)
    then have "w1 = w" using b by (auto simp: begin_ruling_def chain_def split: sum.splits)
    then show thesis using failed [of err] e b Inl by (simp add: execute_ruling_def)
  next
    case (Inr v)
    note be = begin_effect [OF g ok b [unfolded Inr]]
    obtain x w2 where d: "deliberate pl judges (fst v) k task_data w1 = (x, w2)" by fastforce
    have w2: "docket w2 = docket w1" using deliberate_docket [of pl judges "fst v" k task_data w1] d by simp
    have c: "conclude_ruling ops k x w2 = (res, w')" using e by (simp add: execute_ruling_def b Inr d)
    have rul: "\<forall>votes pct summary. x = Inr (votes, pct, summary) \<longrightarrow> ruling_of votes pct summary"
      using d deliberate_ruling by blast
    have g2: "good (docket w2)" "docket_ok (shown (docket w2)) (k # R)" using be(1) unfolding w2 by auto
    note ce = conclude_effect [OF g2 list.set_intros(1) rul c]
    show thesis
    proof (cases x)
      case (Inl err)
      obtain u where u: "shown (docket w2) k = Some u" "shown (docket w') = (shown (docket w2))(k \<mapsto> reverted u)"
          "res = Inl (judge_failed err)"
        using ce(2) [OF Inl] by blast
      have "u = with_status Judging v" using u(1) fun_cong [OF be(4), of k] w2 by simp
      moreover have "d_status (fst v) = Rebuttal_Pending" "dispute_row_ok v"
        using docket_okD [OF ok be(2)] b Inr
        by (auto simp: begin_ruling_def ruling_preconditions_def chain_Inr_iff dispute_row_ok_def split: option.splits if_splits)
      ultimately have "shown (docket w') = shown (docket w)"
        using u(2) be(4) be(2) reverted_judging [of v] unfolding w2 by (simp add: fun_upd_idem)
      then show thesis using failed [of "judge_failed err"] u(3) by blast
    next
      case x: (Inr y)
      obtain votes pct summary where y: "y = (votes, pct, summary)" by (cases y)
      obtain u now vs where u: "shown (docket w2) k = Some u" "recorded_votes (d_id (fst u)) votes vs"
          "res = Inr (with_ruling pct summary now vs u)"
          "shown (docket w') = (shown (docket w2))(k \<mapsto> with_ruling pct summary now vs u)"
        using ce(3) [of votes pct summary] x y by blast
      have "u = with_status Judging v" using u(1) fun_cong [OF be(4), of k] w2 by simp
      moreover have "d_id (fst u) = k" using docket_okD [OF g2(2) u(1)] by simp
      moreover have "length votes = length judges"
        using d evaluate_judges_votes by (fastforce simp: x y deliberate_def chain_Inr_iff split: if_splits)
      ultimately show thesis
        using ruled [of v votes pct summary vs now] be(2) rul x y u by (simp add: fun_eq_iff)
    qed
  qed
qed

end

end
