(* ===== verification/Court_Props.thy ===== *)
theory Court_Props
  imports Court_Runs
begin

text \<open>
  The properties of the Court on its in-memory storage, whatever its judges, the Task Board and the Reputation
  service do, with a concrete court for their witnesses.
\<close>

section \<open>Runs on the in-memory storage\<close>

definition court_start :: "host \<Rightarrow> 'w \<Rightarrow> (dispute_db, 'w) court" where
  "court_start h x = host.extend h \<lparr>docket = empty_dispute_db h, outer = x\<rparr>"

lemma court_start_ok:
  "uuid_unique h \<Longrightarrow> disputes_ok (docket (court_start h x))"
  "docket_ok (\<lambda>k. mem_get_dispute k (docket (court_start h x))) []"
  by (simp_all add: court_start_def host.defs disputes_ok_empty)
    (simp add: docket_ok_def mem_get_dispute_def empty_dispute_db_def host.defs)

lemma court_runs:
  assumes "uuid_unique h" "court_run memory_disputes (court_start h x) R B w"
  shows "disputes_ok (docket w)" "docket_ok (\<lambda>k. mem_get_dispute k (docket w)) R"
  using mem_disputes.run_keeps [OF assms(2)] court_start_ok(1) [OF assms(1), of x] court_start_ok(2) [of h x] by simp_all

lemma failed_execute_docket:
  assumes "uuid_unique h" "court_run memory_disputes (court_start h x) R B w"
    and "execute_ruling memory_disputes k judges task_data pl w = (Inl e, w')"
  shows "(\<lambda>k. mem_get_dispute k (docket w')) = (\<lambda>k. mem_get_dispute k (docket w))"
proof -
  note ok = court_runs [OF assms(1,2)]
  from ok(1) show ?thesis
  proof (rule mem_disputes.execute_outcome [of w R k judges task_data pl "Inl e" w'])
    show "docket_ok (\<lambda>k. di_get memory_disputes k (docket w)) R" using ok(2) by simp
  qed (use assms(3) in auto)
qed

section \<open>A court for concrete inputs\<close>

text \<open>The world is the log of the calls made; every call is answered.\<close>

type_synonym call_log = "string list"

definition demo_court_token :: "string \<Rightarrow> certificate" where
  "demo_court_token token =
     (if token = ''f.f.f'' then CertPayload (JObj [(''action'', JStr ''file_dispute''), (''task_id'', JStr ''t''),
        (''claimant_id'', JStr ''p''), (''respondent_id'', JStr ''w''), (''claim'', JStr ''late''),
        (''escrow_id'', JStr ''e'')])
      else if token = ''r.r.r'' then CertPayload (JObj [(''action'', JStr ''submit_rebuttal''),
        (''dispute_id'', JStr ''disp-''), (''rebuttal'', JStr ''early'')])
      else if token = ''g.g.g'' then CertPayload (JObj [(''action'', JStr ''trigger_ruling''),
        (''dispute_id'', JStr ''disp-'')])
      else CertRejected)"

definition demo_platform :: "bool \<Rightarrow> call_log platform" where
  "demo_platform reputation_up =
     \<lparr>pa_agent_id = Some ''plat'',
      pa_get_task = (\<lambda>t l. (Answered (JObj [(''title'', JStr ''add''), (''reward'', JInt 10)]), l @ [''task''])),
      pa_record_ruling = (\<lambda>t p l. (Answered (JObj []), l @ [''ruling''])),
      pa_submit_feedback = (\<lambda>p l. (if reputation_up then Answered (JObj []) else StatusError 503, l @ [''feedback''])),
      pa_certificate = demo_court_token\<rparr>"

definition demo_judges :: "call_log judge list" where
  "demo_judges = [mock_judge ''a'' 20 ''too late'', mock_judge ''b'' 90 ''good work'', mock_judge ''c'' 70 ''mostly done'']"

definition demo_court_app :: "bool \<Rightarrow> call_log court_app" where
  "demo_court_app up =
     \<lparr>ca_ready = True, ca_platform = Some (demo_platform up), ca_judges = Some demo_judges,
      ca_rebuttal_deadline_seconds = 60, ca_max_claim_length = 100, ca_max_rebuttal_length = 100\<rparr>"

definition token_body :: "string \<Rightarrow> json option" where
  "token_body t = Some (JObj [(''token'', JStr t)])"

text \<open>Filed, and with its rebuttal.\<close>

definition demo_filed :: "(dispute_db, call_log) court" where
  "demo_filed = snd (court_serve (demo_court_app True) memory_disputes (PostFileDispute (token_body ''f.f.f''))
     (court_start demo_host []))"

definition demo_rebutted :: "(dispute_db, call_log) court" where
  "demo_rebutted = snd (court_serve (demo_court_app True) memory_disputes (PostRebuttal ''disp-'' (token_body ''r.r.r'')) demo_filed)"

definition demo_ruled :: "(dispute_db, call_log) court" where
  "demo_ruled = snd (court_serve (demo_court_app True) memory_disputes (PostRule ''disp-'' (token_body ''g.g.g'')) demo_rebutted)"

lemma demo_court_runs:
  "court_run memory_disputes (court_start demo_host []) [] [] demo_filed"
  "court_run memory_disputes (court_start demo_host []) [] [] demo_rebutted"
  "court_run memory_disputes demo_filed [] [] demo_ruled"
  unfolding demo_filed_def demo_rebutted_def demo_ruled_def by (intro serve_run run_start)+

lemma demo_court_facts:
  "map_option (d_status \<circ> fst) (mem_get_dispute ''disp-'' (docket demo_filed)) = Some Rebuttal_Pending"
  "map_option (d_rebuttal \<circ> fst) (mem_get_dispute ''disp-'' (docket demo_ruled)) = Some (Some ''early'')"
  "map_option (d_worker_pct \<circ> fst) (mem_get_dispute ''disp-'' (docket demo_ruled)) = Some (Some 70)"
  "outer demo_ruled = [''task'', ''task'', ''ruling'', ''feedback'', ''feedback'']"
  by code_simp+

section \<open>Properties\<close>

text \<open>
  C22: The dispute lifecycle. From a moment at which the Court serves no request, whatever filings, rebuttals and
  rulings it serves next, rulings awaiting their judges and admitted rebuttals awaiting their write in any order: a
  dispute stays in the docket with the task, parties, claim, escrow and times it was filed with; a rebuttal it has at
  that moment is never replaced; and if it is ruled at that moment it never changes again, votes included.
\<close>
theorem dispute_lifecycle:
  assumes "disputes_ok (docket w\<^sub>0)" and "docket_ok (\<lambda>k. mem_get_dispute k (docket w\<^sub>0)) []"
    and "court_run memory_disputes w\<^sub>0 R B w" and "mem_get_dispute k (docket w\<^sub>0) = Some v"
  shows "\<exists>v'. mem_get_dispute k (docket w) = Some v' \<and> filed_columns (fst v') = filed_columns (fst v) \<and>
    (\<forall>r. d_rebuttal (fst v) = Some r \<longrightarrow> d_rebuttal (fst v') = Some r) \<and>
    (d_status (fst v) = Dispute_Ruled \<longrightarrow> v' = v)"
proof -
  have "docket_evolves True (\<lambda>k. mem_get_dispute k (docket w\<^sub>0)) (\<lambda>k. mem_get_dispute k (docket w))"
    using mem_disputes.run_keeps [OF assms(3)] assms(1,2) by simp
  then obtain v' where v': "mem_get_dispute k (docket w) = Some v'" "(dispute_edge True)\<^sup>*\<^sup>* v v'"
    using assms(4) unfolding docket_evolves_def by blast
  have quiet: "(dispute_edge False)\<^sup>*\<^sup>* v v'" if "d_rebuttal (fst v) \<noteq> None \<or> d_status (fst v) = Dispute_Ruled"
    using mem_disputes.run_keeps_closed [OF assms(3), of k v] that assms(1,2,4) v'(1) by simp
  show ?thesis
    using v' edges_keep(1) [OF v'(2)] quiet quiet_edges_keep [of v v'] by (metis option.distinct(1))
qed

theorem dispute_lifecycle_witness:
  "\<exists>v v'. mem_get_dispute ''disp-'' (docket demo_filed) = Some v \<and> d_status (fst v) = Rebuttal_Pending \<and>
     mem_get_dispute ''disp-'' (docket demo_ruled) = Some v' \<and> filed_columns (fst v') = filed_columns (fst v)"
proof -
  obtain v where v: "mem_get_dispute ''disp-'' (docket demo_filed) = Some v" "d_status (fst v) = Rebuttal_Pending"
    using demo_court_facts(1) by auto
  note ok = court_runs [OF demo_host_unique demo_court_runs(1)]
  from dispute_lifecycle [OF ok demo_court_runs(3) v(1)] v show ?thesis by blast
qed

text \<open>
  C23: Dispute records are typed by their status. In a court started empty, whatever runs: each dispute is stored
  under its own id, at most one per task; it is pending, judging or ruled (never \<open>rebuttal_submitted\<close>); before
  the ruling it has no percentage, summary, time or votes; once ruled it has all of them, the percentage and summary
  being those of its recorded votes, each with a percentage in range and a reason.
\<close>
theorem dispute_records_typed:
  assumes "uuid_unique h" and "court_run memory_disputes (court_start h x) R B w"
    and "mem_get_dispute k (docket w) = Some v"
  shows "d_id (fst v) = k \<and> dispute_row_ok v \<and>
    (\<forall>k' v'. mem_get_dispute k' (docket w) = Some v' \<longrightarrow> d_task_id (fst v') = d_task_id (fst v) \<longrightarrow> k' = k)"
proof -
  note ok = court_runs(2) [OF assms(1,2)]
  show ?thesis using docket_okD [OF ok assms(3)] docket_ok_task [OF ok _ assms(3)] by blast
qed

theorem dispute_records_typed_witness:
  "\<exists>v. mem_get_dispute ''disp-'' (docket demo_rebutted) = Some v \<and> d_id (fst v) = ''disp-'' \<and> dispute_row_ok v"
proof -
  have "map_option (d_id \<circ> fst) (mem_get_dispute ''disp-'' (docket demo_rebutted)) = Some ''disp-''" by code_simp
  then obtain v where v: "mem_get_dispute ''disp-'' (docket demo_rebutted) = Some v" by auto
  from dispute_records_typed [OF demo_host_unique demo_court_runs(2) v] v show ?thesis by blast
qed

text \<open>
  C24: One ruling at a time. While a ruling of a dispute awaits its judges or the other services, no second one of
  the same dispute begins - the attempt is refused with \<open>dispute_not_ready\<close> - and a rebuttal that asks then is refused; and
  outside these times no dispute is left judging.
\<close>
theorem one_ruling_at_a_time:
  assumes "uuid_unique h" and "court_run memory_disputes (court_start h x) R B w"
  shows "distinct R \<and>
    (\<forall>k \<in> set R. begin_ruling memory_disputes k w = (fail ''dispute_not_ready'' 409, w) \<and>
       submit_rebuttal memory_disputes k rb w = (fail ''invalid_dispute_status'' 409, w)) \<and>
    (\<forall>k v. mem_get_dispute k (docket w) = Some v \<longrightarrow> d_status (fst v) = Judging \<longrightarrow> k \<in> set R)"
proof (intro conjI ballI allI impI)
  note ok = court_runs(2) [OF assms]
  show "distinct R" by (rule docket_ok_distinct [OF ok])
  fix k
  show "k \<in> set R" if "mem_get_dispute k (docket w) = Some v" "d_status (fst v) = Judging" for v
    using docket_okD [OF ok that(1)] that(2) by simp
  assume "k \<in> set R"
  then obtain v where v: "mem_get_dispute k (docket w) = Some v" "d_status (fst v) = Judging"
    using docket_ok_flight [OF ok] by blast
  then have "unruled_columns v" using docket_okD [OF ok v(1)] by (simp add: dispute_row_ok_def)
  then show "begin_ruling memory_disputes k w = (fail ''dispute_not_ready'' 409, w)"
    using v by (simp add: begin_ruling_def ruling_preconditions_def unruled_columns_def)
  show "submit_rebuttal memory_disputes k rb w = (fail ''invalid_dispute_status'' 409, w)"
    using v by (simp add: submit_rebuttal_def admit_rebuttal_def)
qed

theorem one_ruling_at_a_time_witness:
  "submit_rebuttal memory_disputes ''disp-'' ''again'' (snd (begin_ruling memory_disputes ''disp-'' demo_rebutted)) =
     (fail ''invalid_dispute_status'' 409, snd (begin_ruling memory_disputes ''disp-'' demo_rebutted))"
proof -
  have "is_ok (fst (begin_ruling memory_disputes ''disp-'' demo_rebutted))" by code_simp
  then obtain v w' where b: "begin_ruling memory_disputes ''disp-'' demo_rebutted = (Inr v, w')"
    by (cases "begin_ruling memory_disputes ''disp-'' demo_rebutted") (auto simp: is_ok_iff)
  have "court_run memory_disputes (court_start demo_host []) [''disp-''] [] w'"
    by (rule run_begin [OF demo_court_runs(2) b])
  from one_ruling_at_a_time [OF demo_host_unique this, of "''again''"] show ?thesis by (simp add: b)
qed

text \<open>
  C25: Rulings are medians. A ruling that succeeds stores a percentage between 0 and 100 that one of the recorded
  votes has, with more than half of the votes at or below it and at least half at or above it; one vote is recorded
  per judge. So no single outlier of a panel of three or more moves the ruling beyond the other votes.
\<close>
theorem ruling_is_median:
  assumes "uuid_unique h" and "court_run memory_disputes (court_start h x) R B w"
    and "execute_ruling memory_disputes k judges task_data pl w = (Inr v, w')"
  shows "\<exists>pct. d_worker_pct (fst v) = Some pct \<and> 0 \<le> pct \<and> pct \<le> 100 \<and>
    mem_get_dispute k (docket w') = Some v \<and> d_status (fst v) = Dispute_Ruled \<and>
    length (snd v) = length judges \<and> pct \<in> set (map v_worker_pct (snd v)) \<and>
    length judges < 2 * length (filter (\<lambda>n. n \<le> pct) (map v_worker_pct (snd v))) \<and>
    length judges \<le> 2 * length (filter (\<lambda>n. pct \<le> n) (map v_worker_pct (snd v)))"
proof -
  note ok = court_runs [OF assms(1,2)]
  from ok(1) show ?thesis
  proof (rule mem_disputes.execute_outcome [of w R k judges task_data pl "Inr v" w'])
    show "docket_ok (\<lambda>k. di_get memory_disputes k (docket w)) R" using ok(2) by simp
    fix u votes pct summary vs now
    assume r: "ruling_of votes pct summary" "length votes = length judges" "recorded_votes k votes vs"
      "Inr v = Inr (with_ruling pct summary now vs (with_status Judging u))"
      "di_get memory_disputes k (docket w') = Some (with_ruling pct summary now vs (with_status Judging u))"
    have c: "compute_ruling votes = Inr (pct, summary)" "list_all vote_ok votes"
      using r(1) by (simp_all add: ruling_of_def)
    have p: "map v_worker_pct vs = map jv_worker_pct votes"
      using r(3) unfolding recorded_votes_def by (induction rule: list_all2_induct) auto
    have f: "length (filter P (map v_worker_pct vs)) = length (filter (\<lambda>v. P (jv_worker_pct v)) votes)" for P
      unfolding p by (simp add: filter_map comp_def)
    obtain y where y: "y \<in> set votes" "jv_worker_pct y = pct" using compute_ruling_median(1) [OF c(1)] by blast
    then have "0 \<le> pct" "pct \<le> 100" using c(2) by (auto simp: list_all_iff vote_ok_def)
    moreover have "pct \<in> set (map v_worker_pct vs)" unfolding p using y by auto
    moreover have "length vs = length judges" using p r(2) by (metis length_map)
    ultimately show ?thesis
      using r(2,4,5) compute_ruling_median(2,3) [OF c(1)] f by (simp add: with_ruling_def del: set_map)
  qed (use assms(3) in auto)
qed

theorem ruling_is_median_witness:
  "\<exists>v w'. execute_ruling memory_disputes ''disp-'' demo_judges (JObj []) (demo_platform True) demo_rebutted = (Inr v, w') \<and>
     d_worker_pct (fst v) = Some 70 \<and> map v_worker_pct (snd v) = [20, 90, 70]"
proof -
  have f: "map_sum id (\<lambda>v. (d_worker_pct (fst v), map v_worker_pct (snd v)))
      (fst (execute_ruling memory_disputes ''disp-'' demo_judges (JObj []) (demo_platform True) demo_rebutted)) =
      Inr (Some 70, [20, 90, 70])"
    by code_simp
  obtain r w' where e: "execute_ruling memory_disputes ''disp-'' demo_judges (JObj []) (demo_platform True) demo_rebutted = (r, w')"
    by fastforce
  with f obtain v where v: "r = Inr v" "d_worker_pct (fst v) = Some 70" "map v_worker_pct (snd v) = [20, 90, 70]"
    by (cases r) auto
  from ruling_is_median [OF demo_host_unique demo_court_runs(2) e [unfolded v(1)]] e v show ?thesis by auto
qed

text \<open>
  C26: A failed ruling leaves the docket as it was. Whatever fails - a judge, the Task Board, the Reputation service
  - the ruling answers with an error and every dispute is again exactly as before, pending and without votes.
\<close>
theorem failed_ruling_leaves_docket:
  assumes "uuid_unique h" and "court_run memory_disputes (court_start h x) R B w"
    and "execute_ruling memory_disputes k judges task_data pl w = (Inl e, w')"
  shows "mem_get_dispute k' (docket w') = mem_get_dispute k' (docket w)"
  using failed_execute_docket [OF assms] by (simp add: fun_eq_iff)

theorem failed_ruling_leaves_docket_witness:
  "\<exists>e w'. execute_ruling memory_disputes ''disp-'' demo_judges (JObj []) (demo_platform False) demo_rebutted = (Inl e, w') \<and>
     outer w' = [''task'', ''ruling'', ''feedback''] \<and>
     mem_get_dispute ''disp-'' (docket w') = mem_get_dispute ''disp-'' (docket demo_rebutted)"
proof -
  let ?m = "execute_ruling memory_disputes ''disp-'' demo_judges (JObj []) (demo_platform False) demo_rebutted"
  have f: "\<not> is_ok (fst ?m)" "outer (snd ?m) = [''task'', ''ruling'', ''feedback'']"
    by code_simp+
  obtain r w' where e: "?m = (r, w')" by fastforce
  with f obtain err where r: "r = Inl err" by (auto simp: not_is_ok_iff)
  from failed_ruling_leaves_docket [OF demo_host_unique demo_court_runs(2) e [unfolded r], of "''disp-''"] e f(2) r
  show ?thesis by auto
qed

section \<open>Rebuttals that come late\<close>

text \<open>
  A rebuttal admitted is written whatever has happened since. Its check and its write are separate calls of the
  storage, so it replaces a rebuttal written in between, and it is added to a dispute that was ruled in between
  without the judges having seen it.
\<close>
theorem late_rebuttal:
  assumes "uuid_unique h" and "court_run memory_disputes (court_start h x) R B w" and "(k, rb) \<in> set B"
    and "mem_get_dispute k (docket w) = Some v"
  shows "\<exists>now w'. write_rebuttal memory_disputes k rb w = (Inr (with_rebuttal rb now v), w') \<and>
    court_run memory_disputes (court_start h x) R (remove1 (k, rb) B) w' \<and>
    mem_get_dispute k (docket w') = Some (with_rebuttal rb now v)"
proof -
  obtain now where "(\<lambda>k'. mem_get_dispute k' (mem_update_rebuttal k rb (docket w))) =
      at_key k (with_rebuttal rb now) (\<lambda>k'. mem_get_dispute k' (docket w))"
    using mem_rebuttal_law(2) [OF court_runs(1) [OF assms(1,2)]] by blast
  then have "mem_get_dispute k (mem_update_rebuttal k rb (docket w)) = Some (with_rebuttal rb now v)"
    using assms(4) by (simp add: fun_eq_iff at_key_apply)
  then show ?thesis
    using run_write [OF assms(2,3)] by (auto simp: write_rebuttal_def Let_def)
qed

text \<open>Two rebuttals pass the check before either is written; one is written, and the dispute is ruled.\<close>

theorem late_rebuttal_witness:
  "court_run memory_disputes (court_start demo_host []) [] [(''disp-'', ''second'')] demo_ruled \<and>
   (\<exists>v now w'. mem_get_dispute ''disp-'' (docket demo_ruled) = Some v \<and> d_status (fst v) = Dispute_Ruled \<and>
      d_rebuttal (fst v) = Some ''early'' \<and>
      write_rebuttal memory_disputes ''disp-'' ''second'' demo_ruled = (Inr (with_rebuttal ''second'' now v), w') \<and>
      mem_get_dispute ''disp-'' (docket w') = Some (with_rebuttal ''second'' now v))"
proof -
  have "admit_rebuttal memory_disputes ''disp-'' (docket demo_filed) = Inr ()" by code_simp
  then have "court_run memory_disputes (court_start demo_host []) [] [(''disp-'', ''second'')] demo_filed"
    using demo_court_runs(1) by (rule run_admit [rotated])
  then have run: "court_run memory_disputes (court_start demo_host []) [] [(''disp-'', ''second'')] demo_ruled"
    unfolding demo_ruled_def demo_rebutted_def by (intro serve_run)
  have "map_option (\<lambda>v. (d_status (fst v), d_rebuttal (fst v))) (mem_get_dispute ''disp-'' (docket demo_ruled)) =
      Some (Dispute_Ruled, Some ''early'')" by code_simp
  then obtain v where v: "mem_get_dispute ''disp-'' (docket demo_ruled) = Some v" "d_status (fst v) = Dispute_Ruled"
      "d_rebuttal (fst v) = Some ''early''" by auto
  from late_rebuttal [OF demo_host_unique run _ v(1), of "''second''"] run v show ?thesis by auto
qed

end
