(* ===== verification/Agent_Client.thy ===== *)
theory Agent_Client
  imports Court
begin

text \<open>
  The agents' client, \<^verbatim>\<open>base_agent/agent.py\<close>, \<^verbatim>\<open>base_agent/mixins\<close> and
  \<^verbatim>\<open>base_agent/platform.py\<close>: every method is one HTTP request with a signed token, whose answer is
  the response's JSON or an exception. Signing, the local certificate check and the network are parameters.
\<close>

section \<open>Requests\<close>

datatype service = IdentityService | BankService | BoardService | ReputationService | CourtService

text \<open>A request has its method, path segments, query parameters, JSON body, bearer token and file.\<close>

record agent_message =
  am_method :: string
  am_service :: service
  am_path :: "string list"
  am_query :: "(string, string) dict"
  am_json :: "json option"
  am_bearer :: "string option"
  am_file :: "(string \<times> string) option"

record 'w agent =
  ag_name :: string
  ag_id :: "string option"
  ag_public_key :: string
  ag_sign :: "payload \<Rightarrow> string"
  ag_http :: "agent_message \<Rightarrow> 'w \<Rightarrow> http_outcome \<times> 'w"
  ag_certificate :: "string \<Rightarrow> certificate"

text \<open>\<^verbatim>\<open>raise_for_status\<close> raises for everything but 2xx.\<close>

fun agent_answer :: "http_outcome \<Rightarrow> json agent_call" where
  "agent_answer ConnectFailed = CallRaised (PyError ''ConnectError'')"
| "agent_answer TimedOut = CallRaised (PyError ''TimeoutException'')"
| "agent_answer TransportError = CallRaised (PyError ''HTTPError'')"
| "agent_answer (Response st body) =
     (if st < 200 \<or> 300 \<le> st then StatusError st
      else case body of None \<Rightarrow> CallRaised (PyError ''JSONDecodeError'') | Some j \<Rightarrow> Answered j)"

definition agent_request :: "'w agent \<Rightarrow> agent_message \<Rightarrow> 'w \<Rightarrow> json agent_call \<times> 'w" where
  "agent_request A m w = apfst agent_answer (ag_http A m w)"

definition agent_id_json :: "'w agent \<Rightarrow> json" where
  "agent_id_json A = (case ag_id A of None \<Rightarrow> JNull | Some i \<Rightarrow> JStr i)"

definition plain_get :: "service \<Rightarrow> string list \<Rightarrow> agent_message" where
  "plain_get sv path =
     \<lparr>am_method = ''GET'', am_service = sv, am_path = path, am_query = [], am_json = None, am_bearer = None, am_file = None\<rparr>"

definition signed_post :: "'w agent \<Rightarrow> service \<Rightarrow> string list \<Rightarrow> payload \<Rightarrow> agent_message" where
  "signed_post A sv path claims =
     \<lparr>am_method = ''POST'', am_service = sv, am_path = path, am_query = [],
      am_json = Some (JObj [(''token'', JStr (ag_sign A claims))]), am_bearer = None, am_file = None\<rparr>"

definition signed_get :: "'w agent \<Rightarrow> service \<Rightarrow> string list \<Rightarrow> payload \<Rightarrow> agent_message" where
  "signed_get A sv path claims = (plain_get sv path)\<lparr>am_bearer := Some (ag_sign A claims)\<rparr>"

text \<open>\<^verbatim>\<open>response["tasks"]\<close>.\<close>

definition answer_field :: "string \<Rightarrow> json agent_call \<Rightarrow> json agent_call" where
  "answer_field k c =
     (case c of
        Answered j \<Rightarrow>
          (case j of
            JObj d \<Rightarrow> (case dget d k of None \<Rightarrow> CallRaised (PyError ''KeyError'') | Some v \<Rightarrow> Answered v)
          | _ \<Rightarrow> CallRaised (PyError ''TypeError''))
      | c \<Rightarrow> c)"

section \<open>Task Board methods\<close>

text \<open>\<^verbatim>\<open>post_task\<close> draws the task id itself.\<close>

definition post_task_claims ::
    "'w agent \<Rightarrow> string \<Rightarrow> string \<Rightarrow> string \<Rightarrow> int \<Rightarrow> int \<Rightarrow> int \<Rightarrow> int \<Rightarrow> payload" where
  "post_task_claims A task_id title spec reward bidding execution review =
     [(''action'', JStr ''create_task''), (''task_id'', JStr task_id), (''poster_id'', agent_id_json A),
      (''title'', JStr title), (''spec'', JStr spec), (''reward'', JInt reward),
      (''bidding_deadline_seconds'', JInt bidding), (''execution_deadline_seconds'', JInt execution),
      (''review_deadline_seconds'', JInt review)]"

definition post_escrow_claims :: "'w agent \<Rightarrow> string \<Rightarrow> int \<Rightarrow> payload" where
  "post_escrow_claims A task_id reward =
     [(''action'', JStr ''escrow_lock''), (''task_id'', JStr task_id), (''amount'', JInt reward),
      (''agent_id'', agent_id_json A)]"

definition agent_post_task ::
    "'w agent \<Rightarrow> string \<Rightarrow> string \<Rightarrow> string \<Rightarrow> int \<Rightarrow> int \<Rightarrow> int \<Rightarrow> int \<Rightarrow> 'w \<Rightarrow> json agent_call \<times> 'w" where
  "agent_post_task A u title spec reward bidding execution review w =
     (let task_id = prefixed ''t-'' u
      in agent_request A
           \<lparr>am_method = ''POST'', am_service = BoardService, am_path = [''tasks''], am_query = [],
            am_json = Some (JObj
              [(''task_token'', JStr (ag_sign A (post_task_claims A task_id title spec reward bidding execution review))),
               (''escrow_token'', JStr (ag_sign A (post_escrow_claims A task_id reward)))]),
            am_bearer = None, am_file = None\<rparr> w)"

definition agent_list_tasks ::
    "'w agent \<Rightarrow> string option \<Rightarrow> string option \<Rightarrow> string option \<Rightarrow> 'w \<Rightarrow> json agent_call \<times> 'w" where
  "agent_list_tasks A status poster worker w =
     (let params = [(''status'', status), (''poster_id'', poster), (''worker_id'', worker)];
          query = map (\<lambda>(k, v). (k, the v)) (filter (\<lambda>(k, v). v \<noteq> None) params)
      in apfst (answer_field ''tasks'') (agent_request A ((plain_get BoardService [''tasks''])\<lparr>am_query := query\<rparr>) w))"

definition agent_get_task :: "'w agent \<Rightarrow> string \<Rightarrow> 'w \<Rightarrow> json agent_call \<times> 'w" where
  "agent_get_task A tid w = agent_request A (plain_get BoardService [''tasks'', tid]) w"

definition cancel_claims :: "'w agent \<Rightarrow> string \<Rightarrow> payload" where
  "cancel_claims A tid = [(''action'', JStr ''cancel_task''), (''task_id'', JStr tid), (''poster_id'', agent_id_json A)]"

definition agent_cancel_task :: "'w agent \<Rightarrow> string \<Rightarrow> 'w \<Rightarrow> json agent_call \<times> 'w" where
  "agent_cancel_task A tid w = agent_request A (signed_post A BoardService [''tasks'', tid, ''cancel''] (cancel_claims A tid)) w"

definition bid_claims :: "'w agent \<Rightarrow> string \<Rightarrow> int \<Rightarrow> payload" where
  "bid_claims A tid amount =
     [(''action'', JStr ''submit_bid''), (''task_id'', JStr tid), (''bidder_id'', agent_id_json A), (''amount'', JInt amount)]"

definition agent_submit_bid :: "'w agent \<Rightarrow> string \<Rightarrow> int \<Rightarrow> 'w \<Rightarrow> json agent_call \<times> 'w" where
  "agent_submit_bid A tid amount w = agent_request A (signed_post A BoardService [''tasks'', tid, ''bids''] (bid_claims A tid amount)) w"

definition list_bids_claims :: "'w agent \<Rightarrow> string \<Rightarrow> payload" where
  "list_bids_claims A tid = [(''action'', JStr ''list_bids''), (''task_id'', JStr tid), (''poster_id'', agent_id_json A)]"

definition agent_list_bids :: "'w agent \<Rightarrow> string \<Rightarrow> 'w \<Rightarrow> json agent_call \<times> 'w" where
  "agent_list_bids A tid w =
     apfst (answer_field ''bids'') (agent_request A (signed_get A BoardService [''tasks'', tid, ''bids''] (list_bids_claims A tid)) w)"

definition accept_claims :: "'w agent \<Rightarrow> string \<Rightarrow> string \<Rightarrow> payload" where
  "accept_claims A tid bid_id =
     [(''action'', JStr ''accept_bid''), (''task_id'', JStr tid), (''bid_id'', JStr bid_id), (''poster_id'', agent_id_json A)]"

definition agent_accept_bid :: "'w agent \<Rightarrow> string \<Rightarrow> string \<Rightarrow> 'w \<Rightarrow> json agent_call \<times> 'w" where
  "agent_accept_bid A tid bid_id w =
     agent_request A (signed_post A BoardService [''tasks'', tid, ''bids'', bid_id, ''accept''] (accept_claims A tid bid_id)) w"

definition upload_claims :: "string \<Rightarrow> payload" where
  "upload_claims tid = [(''action'', JStr ''upload_asset''), (''task_id'', JStr tid)]"

definition agent_upload_asset :: "'w agent \<Rightarrow> string \<Rightarrow> string \<Rightarrow> string \<Rightarrow> 'w \<Rightarrow> json agent_call \<times> 'w" where
  "agent_upload_asset A tid filename content w =
     agent_request A
       \<lparr>am_method = ''POST'', am_service = BoardService, am_path = [''tasks'', tid, ''assets''], am_query = [],
        am_json = None, am_bearer = Some (ag_sign A (upload_claims tid)), am_file = Some (filename, content)\<rparr> w"

definition submit_claims :: "'w agent \<Rightarrow> string \<Rightarrow> payload" where
  "submit_claims A tid = [(''action'', JStr ''submit_deliverable''), (''task_id'', JStr tid), (''worker_id'', agent_id_json A)]"

definition agent_submit_deliverable :: "'w agent \<Rightarrow> string \<Rightarrow> 'w \<Rightarrow> json agent_call \<times> 'w" where
  "agent_submit_deliverable A tid w =
     agent_request A (signed_post A BoardService [''tasks'', tid, ''submit''] (submit_claims A tid)) w"

definition approve_claims :: "'w agent \<Rightarrow> string \<Rightarrow> payload" where
  "approve_claims A tid = [(''action'', JStr ''approve_task''), (''task_id'', JStr tid), (''poster_id'', agent_id_json A)]"

definition agent_approve_task :: "'w agent \<Rightarrow> string \<Rightarrow> 'w \<Rightarrow> json agent_call \<times> 'w" where
  "agent_approve_task A tid w = agent_request A (signed_post A BoardService [''tasks'', tid, ''approve''] (approve_claims A tid)) w"

definition dispute_claims :: "'w agent \<Rightarrow> string \<Rightarrow> string \<Rightarrow> payload" where
  "dispute_claims A tid reason =
     [(''action'', JStr ''dispute_task''), (''task_id'', JStr tid), (''poster_id'', agent_id_json A), (''reason'', JStr reason)]"

definition agent_dispute_task :: "'w agent \<Rightarrow> string \<Rightarrow> string \<Rightarrow> 'w \<Rightarrow> json agent_call \<times> 'w" where
  "agent_dispute_task A tid reason w =
     agent_request A (signed_post A BoardService [''tasks'', tid, ''dispute''] (dispute_claims A tid reason)) w"

section \<open>Bank, Reputation, Court and Identity methods\<close>

definition own_account_claims :: "'w agent \<Rightarrow> string \<Rightarrow> payload" where
  "own_account_claims A action = [(''action'', JStr action), (''account_id'', agent_id_json A)]"

text \<open>The path of one's own account; an unregistered agent writes \<^verbatim>\<open>None\<close> there.\<close>

definition own_path :: "'w agent \<Rightarrow> string" where
  "own_path A = (case ag_id A of None \<Rightarrow> ''None'' | Some i \<Rightarrow> i)"

definition agent_create_account :: "'w agent \<Rightarrow> 'w \<Rightarrow> json agent_call \<times> 'w" where
  "agent_create_account A w =
     agent_request A (signed_post A BankService [''accounts'']
       [(''action'', JStr ''create_account''), (''agent_id'', agent_id_json A), (''initial_balance'', JInt 0)]) w"

definition agent_get_balance :: "'w agent \<Rightarrow> 'w \<Rightarrow> json agent_call \<times> 'w" where
  "agent_get_balance A w =
     agent_request A (signed_get A BankService [''accounts'', own_path A] (own_account_claims A ''get_balance'')) w"

definition agent_get_transactions :: "'w agent \<Rightarrow> 'w \<Rightarrow> json agent_call \<times> 'w" where
  "agent_get_transactions A w =
     apfst (answer_field ''transactions'') (agent_request A
       (signed_get A BankService [''accounts'', own_path A, ''transactions''] (own_account_claims A ''get_transactions'')) w)"

definition agent_lock_escrow :: "'w agent \<Rightarrow> int \<Rightarrow> string \<Rightarrow> 'w \<Rightarrow> json agent_call \<times> 'w" where
  "agent_lock_escrow A amount tid w =
     agent_request A (signed_post A BankService [''escrow'', ''lock'']
       [(''action'', JStr ''escrow_lock''), (''agent_id'', agent_id_json A), (''amount'', JInt amount), (''task_id'', JStr tid)]) w"

definition agent_submit_feedback ::
    "'w agent \<Rightarrow> string \<Rightarrow> string \<Rightarrow> string \<Rightarrow> string \<Rightarrow> string option \<Rightarrow> 'w \<Rightarrow> json agent_call \<times> 'w" where
  "agent_submit_feedback A tid to_agent category rating remark w =
     agent_request A (signed_post A ReputationService [''feedback'']
       ([(''action'', JStr ''submit_feedback''), (''from_agent_id'', agent_id_json A), (''to_agent_id'', JStr to_agent),
         (''task_id'', JStr tid), (''category'', JStr category), (''rating'', JStr rating)] @
        (case remark of None \<Rightarrow> [] | Some c \<Rightarrow> [(''comment'', JStr c)]))) w"

definition agent_task_feedback :: "'w agent \<Rightarrow> string \<Rightarrow> 'w \<Rightarrow> json agent_call \<times> 'w" where
  "agent_task_feedback A tid w =
     apfst (answer_field ''feedback'') (agent_request A (plain_get ReputationService [''feedback'', ''task'', tid]) w)"

definition agent_agent_feedback :: "'w agent \<Rightarrow> string \<Rightarrow> 'w \<Rightarrow> json agent_call \<times> 'w" where
  "agent_agent_feedback A i w =
     apfst (answer_field ''feedback'') (agent_request A (plain_get ReputationService [''feedback'', ''agent'', i]) w)"

definition claim_claims :: "'w agent \<Rightarrow> string \<Rightarrow> string \<Rightarrow> payload" where
  "claim_claims A tid reason =
     [(''action'', JStr ''file_dispute''), (''task_id'', JStr tid), (''claimant_id'', agent_id_json A), (''claim'', JStr reason)]"

definition agent_file_claim :: "'w agent \<Rightarrow> string \<Rightarrow> string \<Rightarrow> 'w \<Rightarrow> json agent_call \<times> 'w" where
  "agent_file_claim A tid reason w =
     agent_request A (signed_post A CourtService [''disputes'', ''file''] (claim_claims A tid reason)) w"

definition agent_get_info :: "'w agent \<Rightarrow> string \<Rightarrow> 'w \<Rightarrow> json agent_call \<times> 'w" where
  "agent_get_info A i w = agent_request A (plain_get IdentityService [''agents'', i]) w"

definition agent_list_agents :: "'w agent \<Rightarrow> 'w \<Rightarrow> json agent_call \<times> 'w" where
  "agent_list_agents A w = apfst (answer_field ''agents'') (agent_request A (plain_get IdentityService [''agents'']) w)"

definition agent_verify_jws :: "'w agent \<Rightarrow> string \<Rightarrow> 'w \<Rightarrow> json agent_call \<times> 'w" where
  "agent_verify_jws A token w =
     agent_request A ((plain_get IdentityService [''agents'', ''verify-jws''])
       \<lparr>am_method := ''POST'', am_json := Some (JObj [(''token'', JStr token)])\<rparr>) w"

section \<open>The platform agent\<close>

definition platform_create_account :: "'w agent \<Rightarrow> string \<Rightarrow> int \<Rightarrow> 'w \<Rightarrow> json agent_call \<times> 'w" where
  "platform_create_account A i initial w =
     agent_request A (signed_post A BankService [''accounts'']
       [(''action'', JStr ''create_account''), (''agent_id'', JStr i), (''initial_balance'', JInt initial)]) w"

definition platform_credit_account :: "'w agent \<Rightarrow> string \<Rightarrow> int \<Rightarrow> string \<Rightarrow> 'w \<Rightarrow> json agent_call \<times> 'w" where
  "platform_credit_account A acc amount ref w =
     agent_request A (signed_post A BankService [''accounts'', acc, ''credit'']
       [(''action'', JStr ''credit''), (''account_id'', JStr acc), (''amount'', JInt amount), (''reference'', JStr ref)]) w"

definition platform_release_escrow :: "'w agent \<Rightarrow> string \<Rightarrow> string \<Rightarrow> 'w \<Rightarrow> json agent_call \<times> 'w" where
  "platform_release_escrow A eid recipient w =
     agent_request A (signed_post A BankService [''escrow'', eid, ''release'']
       [(''action'', JStr ''escrow_release''), (''escrow_id'', JStr eid), (''recipient_account_id'', JStr recipient)]) w"

definition platform_split_escrow :: "'w agent \<Rightarrow> string \<Rightarrow> string \<Rightarrow> string \<Rightarrow> int \<Rightarrow> 'w \<Rightarrow> json agent_call \<times> 'w" where
  "platform_split_escrow A eid worker poster pct w =
     agent_request A (signed_post A BankService [''escrow'', eid, ''split'']
       [(''action'', JStr ''escrow_split''), (''escrow_id'', JStr eid), (''worker_account_id'', JStr worker),
        (''poster_account_id'', JStr poster), (''worker_pct'', JInt pct)]) w"

definition platform_record_ruling :: "'w agent \<Rightarrow> string \<Rightarrow> payload \<Rightarrow> 'w \<Rightarrow> json agent_call \<times> 'w" where
  "platform_record_ruling A tid claims w =
     agent_request A (signed_post A BoardService [''tasks'', tid, ''ruling''] claims) w"

definition platform_submit_feedback :: "'w agent \<Rightarrow> payload \<Rightarrow> 'w \<Rightarrow> json agent_call \<times> 'w" where
  "platform_submit_feedback A claims w = agent_request A (signed_post A ReputationService [''feedback''] claims) w"

text \<open>What the Court uses of it.\<close>

definition platform_of :: "'w agent \<Rightarrow> 'w platform" where
  "platform_of A =
     \<lparr>pa_agent_id = ag_id A, pa_get_task = agent_get_task A, pa_record_ruling = platform_record_ruling A,
      pa_submit_feedback = platform_submit_feedback A, pa_certificate = ag_certificate A\<rparr>"

section \<open>Registration\<close>

text \<open>The agents of the list until one has this agent's key; entries without a string id are passed over.\<close>

fun find_own_record :: "'w agent \<Rightarrow> json list \<Rightarrow> 'w \<Rightarrow> string option agent_call \<times> 'w" where
  "find_own_record A [] w = (Answered None, w)"
| "find_own_record A (j # js) w =
     (case j of
        JObj d \<Rightarrow>
          (case as_str (jget d ''agent_id'') of
            None \<Rightarrow> find_own_record A js w
          | Some i \<Rightarrow>
              (case agent_get_info A i w of
                (Answered full, w1) \<Rightarrow>
                  (case full of
                    JObj r \<Rightarrow>
                      if jget r ''public_key'' = JStr (prefixed ''ed25519:'' (ag_public_key A)) then (Answered (Some i), w1)
                      else find_own_record A js w1
                  | _ \<Rightarrow> (CallRaised (PyError ''AttributeError''), w1))
              | (StatusError st, w1) \<Rightarrow> (StatusError st, w1)
              | (CallRaised e, w1) \<Rightarrow> (CallRaised e, w1)))
      | _ \<Rightarrow> (CallRaised (PyError ''AttributeError''), w))"

definition register_message :: "'w agent \<Rightarrow> agent_message" where
  "register_message A =
     (plain_get IdentityService [''agents'', ''register''])\<lparr>am_method := ''POST'',
       am_json := Some (JObj [(''name'', JStr (ag_name A)),
         (''public_key'', JStr (prefixed ''ed25519:'' (ag_public_key A)))])\<rparr>"

text \<open>The key is taken: the record of whoever has it.\<close>

definition adopt_existing :: "'w agent \<Rightarrow> 'w \<Rightarrow> json agent_call \<times> 'w agent \<times> 'w" where
  "adopt_existing A w =
     (case agent_list_agents A w of
        (Answered agents, w1) \<Rightarrow>
          (case agents of
            JList js \<Rightarrow>
              (case find_own_record A js w1 of
                (Answered None, w2) \<Rightarrow> (CallRaised (PyError ''RuntimeError''), A, w2)
              | (Answered (Some i), w2) \<Rightarrow>
                  (case agent_get_info A i w2 of
                    (Answered full, w3) \<Rightarrow> (Answered full, A\<lparr>ag_id := Some i\<rparr>, w3)
                  | (c, w3) \<Rightarrow> (c, A, w3))
              | (StatusError st, w2) \<Rightarrow> (StatusError st, A, w2)
              | (CallRaised e, w2) \<Rightarrow> (CallRaised e, A, w2))
          | _ \<Rightarrow> (CallRaised (PyError ''TypeError''), A, w1))
      | (c, w1) \<Rightarrow> (c, A, w1))"

definition agent_register :: "'w agent \<Rightarrow> 'w \<Rightarrow> json agent_call \<times> 'w agent \<times> 'w" where
  "agent_register A w =
     (case ag_http A (register_message A) w of
        (Response st body, w1) \<Rightarrow>
          if st = 201 then
            (case agent_answer (Response st body) of
               Answered j \<Rightarrow>
                 (case j of
                   JObj d \<Rightarrow>
                     (case dget d ''agent_id'' of
                        None \<Rightarrow> (CallRaised (PyError ''KeyError''), A, w1)
                      | Some v \<Rightarrow> (Answered j, A\<lparr>ag_id := Some (text_of v)\<rparr>, w1))
                 | _ \<Rightarrow> (CallRaised (PyError ''TypeError''), A, w1))
             | c \<Rightarrow> (c, A, w1))
          else if st = 409 then adopt_existing A w1
          else if st < 200 \<or> 300 \<le> st then (StatusError st, A, w1)
          else (CallRaised (PyError ''RuntimeError''), A, w1)
      | (out, w1) \<Rightarrow> (agent_answer out, A, w1))"

end
