(* ===== verification/Task_Api.thy ===== *)
theory Task_Api
  imports Board_Cases Py_Text
begin

text \<open>
  The Task Board's HTTP interface: \<^verbatim>\<open>core/middleware.py\<close>, \<^verbatim>\<open>routers/tasks.py\<close>,
  \<^verbatim>\<open>routers/bids.py\<close>, \<^verbatim>\<open>routers/assets.py\<close>,
  \<^verbatim>\<open>routers/validation.py\<close> and \<^verbatim>\<open>routers/health.py\<close>, with the JSON of the responses.
  A request has the segments of its path; the parsing of query strings, multipart forms and JSON is the
  framework's. Redirects of trailing slashes and the documentation pages are left out.
\<close>

section \<open>Requests and answers\<close>

datatype form_part = NoPart | TextPart | FilePart "string option" "string option" string

record http_request =
  rq_method :: string
  rq_path :: "string list"
  rq_query :: "(string, string) dict"
  rq_authorization :: "string option"
  rq_content_type :: string
  rq_chunks :: "nat list"
  rq_body :: "json option"
  rq_file :: form_part

datatype http_answer = JsonAnswer nat json | FileAnswer string string string

fun error_answer :: "exn \<Rightarrow> http_answer" where
  "error_answer e = (case error_response e of (st, body) \<Rightarrow> JsonAnswer st (case body of None \<Rightarrow> JNull | Some j \<Rightarrow> j))"

definition answer_of :: "nat \<Rightarrow> ('a \<Rightarrow> payload) \<Rightarrow> 'a result \<Rightarrow> http_answer" where
  "answer_of st enc r = (case r of Inl e \<Rightarrow> error_answer e | Inr x \<Rightarrow> JsonAnswer st (JObj (enc x)))"

section \<open>Middleware\<close>

text \<open>A path ends with a word also when a newline follows it: the dollar of the patterns matches there.\<close>

definition last_word :: "string \<Rightarrow> string \<Rightarrow> bool" where
  "last_word seg word \<longleftrightarrow> seg = word \<or> seg = word @ [CHR 0x0A]"

fun json_endpoint :: "string list \<Rightarrow> bool" where
  "json_endpoint [a] = last_word a ''tasks''"
| "json_endpoint [a, b, c] =
     (a = ''tasks'' \<and> b \<noteq> [] \<and> list_ex (last_word c) [''cancel'', ''submit'', ''approve'', ''dispute'', ''ruling'', ''bids''])"
| "json_endpoint [a, b, c, d, e] = (a = ''tasks'' \<and> b \<noteq> [] \<and> c = ''bids'' \<and> d \<noteq> [] \<and> last_word e ''accept'')"
| "json_endpoint _ = False"

fun multipart_endpoint :: "string list \<Rightarrow> bool" where
  "multipart_endpoint [a, b, c] = (a = ''tasks'' \<and> b \<noteq> [] \<and> last_word c ''assets'')"
| "multipart_endpoint _ = False"

text \<open>The loop over the body's chunks stops at the first that takes it over the limit.\<close>

fun too_large :: "nat \<Rightarrow> nat \<Rightarrow> nat list \<Rightarrow> bool" where
  "too_large limit read [] = False"
| "too_large limit read (n # ns) = (read + n > limit \<or> too_large limit (read + n) ns)"

definition board_middleware :: "nat \<Rightarrow> http_request \<Rightarrow> unit result" where
  "board_middleware max_body_size q =
     (if rq_method q \<notin> {''POST'', ''PUT'', ''PATCH''} then Inr ()
      else
        let expects_multipart = (rq_method q = ''POST'' \<and> multipart_endpoint (rq_path q));
            expects_json = (rq_method q = ''POST'' \<and> json_endpoint (rq_path q))
        in if \<not> expects_multipart \<and> \<not> expects_json then Inr ()
           else if expects_multipart then
             (if rq_content_type q \<noteq> [] \<and> strip_prefix ''multipart/form-data'' (rq_content_type q) = None
              then fail ''unsupported_media_type'' 415 else Inr ())
           else if strip_prefix ''application/json'' (rq_content_type q) = None
           then fail ''unsupported_media_type'' 415
           else if too_large max_body_size 0 (rq_chunks q) then fail ''payload_too_large'' 413
           else Inr ())"

section \<open>Reading a request\<close>

definition extract_token :: "payload \<Rightarrow> string \<Rightarrow> string result" where
  "extract_token data field =
     (case nonempty_str (jget data field) of None \<Rightarrow> fail ''invalid_jws'' 400 | Some token \<Rightarrow> Inr token)"

definition extract_bearer_token :: "string option \<Rightarrow> bool \<Rightarrow> string option result" where
  "extract_bearer_token authorization required =
     (case authorization of
        None \<Rightarrow> if required then fail ''invalid_jws'' 400 else Inr None
      | Some h \<Rightarrow>
          (case strip_prefix ''Bearer '' h of
            None \<Rightarrow> fail ''invalid_jws'' 400
          | Some token \<Rightarrow> if token = [] then fail ''invalid_jws'' 400 else Inr (Some token)))"

definition body_field :: "http_request \<Rightarrow> string \<Rightarrow> string result" where
  "body_field q field = and_then (parse_json_body (rq_body q)) (\<lambda>data. extract_token data field)"

definition bound_param :: "http_request \<Rightarrow> string \<Rightarrow> int \<Rightarrow> nat option result" where
  "bound_param q key least =
     (case dget (rq_query q) key of
        None \<Rightarrow> Inr None
      | Some raw \<Rightarrow>
          (case py_int raw of
            None \<Rightarrow> fail ''invalid_payload'' 400
          | Some n \<Rightarrow> if n < least then fail ''invalid_payload'' 400 else Inr (Some (nat n))))"

section \<open>JSON of the responses\<close>

definition time_json :: "int option \<Rightarrow> json" where
  "time_json t = (case t of None \<Rightarrow> JNull | Some t \<Rightarrow> JStr (iso_micros t))"

definition deadline_json :: "int option \<Rightarrow> json" where
  "deadline_json t = (case t of None \<Rightarrow> JNull | Some t \<Rightarrow> JStr (iso_seconds t))"

definition text_json :: "string option \<Rightarrow> json" where
  "text_json x = (case x of None \<Rightarrow> JNull | Some s \<Rightarrow> JStr s)"

definition task_json :: "task_response \<Rightarrow> payload" where
  "task_json p =
     (let r = resp_row p in
      [(''task_id'', JStr (t_id r)), (''poster_id'', JStr (t_poster_id r)), (''title'', JStr (t_title r)),
       (''spec'', JStr (t_spec r)), (''reward'', JInt (t_reward r)),
       (''bidding_deadline_seconds'', JInt (t_bidding_deadline_seconds r)),
       (''deadline_seconds'', JInt (t_deadline_seconds r)),
       (''review_deadline_seconds'', JInt (t_review_deadline_seconds r)),
       (''status'', JStr (status_text (t_status r))), (''escrow_id'', JStr (t_escrow_id r)),
       (''bid_count'', JInt (int (t_bid_count r))), (''worker_id'', text_json (t_worker_id r)),
       (''accepted_bid_id'', text_json (t_accepted_bid_id r)), (''created_at'', JStr (iso_micros (t_created_at r))),
       (''accepted_at'', time_json (t_accepted_at r)), (''submitted_at'', time_json (t_submitted_at r)),
       (''approved_at'', time_json (t_approved_at r)), (''cancelled_at'', time_json (t_cancelled_at r)),
       (''disputed_at'', time_json (t_disputed_at r)), (''dispute_reason'', text_json (t_dispute_reason r)),
       (''ruling_id'', text_json (t_ruling_id r)), (''ruled_at'', time_json (t_ruled_at r)),
       (''worker_pct'', case t_worker_pct r of None \<Rightarrow> JNull | Some n \<Rightarrow> JInt n),
       (''ruling_summary'', text_json (t_ruling_summary r)), (''expired_at'', time_json (t_expired_at r)),
       (''escrow_pending'', JBool (t_escrow_pending r)), (''bidding_deadline'', deadline_json (resp_bidding_deadline p)),
       (''execution_deadline'', deadline_json (resp_execution_deadline p)),
       (''review_deadline'', deadline_json (resp_review_deadline p))])"

definition summary_json :: "task_summary \<Rightarrow> payload" where
  "summary_json s =
     [(''task_id'', JStr (sum_id s)), (''poster_id'', JStr (sum_poster_id s)), (''title'', JStr (sum_title s)),
      (''reward'', JInt (sum_reward s)), (''status'', JStr (status_text (sum_status s))),
      (''bid_count'', JInt (int (sum_bid_count s))), (''worker_id'', text_json (sum_worker_id s)),
      (''created_at'', JStr (iso_micros (sum_created_at s))),
      (''bidding_deadline'', deadline_json (sum_bidding_deadline s)),
      (''execution_deadline'', deadline_json (sum_execution_deadline s)),
      (''review_deadline'', deadline_json (sum_review_deadline s))]"

definition tasks_json :: "task_summary list \<Rightarrow> payload" where
  "tasks_json xs = [(''tasks'', JList (map (\<lambda>s. JObj (summary_json s)) xs))]"

definition bid_json :: "bid \<Rightarrow> payload" where
  "bid_json b =
     [(''bid_id'', JStr (b_id b)), (''task_id'', JStr (b_task_id b)), (''bidder_id'', JStr (b_bidder_id b)),
      (''amount'', JInt (b_amount b)), (''submitted_at'', JStr (iso_micros (b_submitted_at b)))]"

definition bids_json :: "string \<times> bid list \<Rightarrow> payload" where
  "bids_json x =
     [(''task_id'', JStr (fst x)),
      (''bids'', JList (map (\<lambda>b. JObj [(''bid_id'', JStr (b_id b)), (''bidder_id'', JStr (b_bidder_id b)),
         (''amount'', JInt (b_amount b)), (''submitted_at'', JStr (iso_micros (b_submitted_at b)))]) (snd x)))]"

definition asset_json :: "asset \<Rightarrow> payload" where
  "asset_json a =
     [(''asset_id'', JStr (a_id a)), (''task_id'', JStr (a_task_id a)), (''uploader_id'', JStr (a_uploader_id a)),
      (''filename'', JStr (a_filename a)), (''content_type'', JStr (a_content_type a)),
      (''size_bytes'', JInt (int (a_size_bytes a))), (''content_hash'', JStr (a_content_hash a)),
      (''uploaded_at'', JStr (iso_micros (a_uploaded_at a)))]"

definition assets_json :: "string \<times> asset list \<Rightarrow> payload" where
  "assets_json x =
     [(''task_id'', JStr (fst x)),
      (''assets'', JList (map (\<lambda>a. JObj (filter (\<lambda>(k, v). k \<noteq> ''task_id'') (asset_json a))) (snd x)))]"

section \<open>Endpoints\<close>

text \<open>What the routers ask the state for: the managers, once the service has started.\<close>

definition board_ready :: "bool \<Rightarrow> unit result" where
  "board_ready ready = (if ready then Inr () else fail ''service_not_ready'' 503)"

text \<open>A POST with one token in its body: read the token, look for the manager, call it.\<close>

definition token_endpoint ::
    "bool \<Rightarrow> http_request \<Rightarrow> nat \<Rightarrow> ('a \<Rightarrow> payload) \<Rightarrow> (string \<Rightarrow> 'w \<Rightarrow> 'a result \<times> 'w) \<Rightarrow> 'w \<Rightarrow> http_answer \<times> 'w" where
  "token_endpoint ready q st enc f w =
     apfst (answer_of st enc) (chain (and_then (body_field q ''token'') (\<lambda>token.
       and_then (board_ready ready) (\<lambda>_. Inr token)), w) f)"

definition post_task ::
    "('s, 'b) board_env \<Rightarrow> bool \<Rightarrow> http_request \<Rightarrow> ('s, 'b) board \<Rightarrow> http_answer \<times> ('s, 'b) board" where
  "post_task E ready q w =
     apfst (answer_of 201 task_json) (chain
       (and_then (if sum_list (rq_chunks q) = 0 then Inr [] else parse_json_body (rq_body q)) (\<lambda>data.
        and_then (extract_token data ''task_token'') (\<lambda>task_token.
        and_then (extract_token data ''escrow_token'') (\<lambda>escrow_token.
        and_then (board_ready ready) (\<lambda>_. Inr (task_token, escrow_token))))), w)
       (\<lambda>(task_token, escrow_token) w. create_task E task_token escrow_token w))"

definition get_tasks ::
    "('s, 'b) board_env \<Rightarrow> bool \<Rightarrow> http_request \<Rightarrow> ('s, 'b) board \<Rightarrow> http_answer \<times> ('s, 'b) board" where
  "get_tasks E ready q w =
     apfst (answer_of 200 tasks_json) (chain
       (and_then (bound_param q ''offset'' 0) (\<lambda>offset.
        and_then (bound_param q ''limit'' 1) (\<lambda>limit.
        and_then (board_ready ready) (\<lambda>_. Inr (offset, limit)))), w)
       (\<lambda>(offset, limit) w.
          list_tasks E (dget (rq_query q) ''status'') (dget (rq_query q) ''poster_id'')
            (dget (rq_query q) ''worker_id'') offset limit w))"

definition get_bids ::
    "('s, 'b) board_env \<Rightarrow> bool \<Rightarrow> http_request \<Rightarrow> string \<Rightarrow> ('s, 'b) board \<Rightarrow> http_answer \<times> ('s, 'b) board" where
  "get_bids E ready q tid w =
     apfst (answer_of 200 bids_json) (chain
       (and_then (extract_bearer_token (rq_authorization q) False) (\<lambda>token.
        and_then (board_ready ready) (\<lambda>_. Inr token)), w)
       (\<lambda>token w. list_bids E tid token w))"

definition post_asset ::
    "('s, 'b) board_env \<Rightarrow> bool \<Rightarrow> http_request \<Rightarrow> string \<Rightarrow> ('s, 'b) board \<Rightarrow> http_answer \<times> ('s, 'b) board" where
  "post_asset E ready q tid w =
     apfst (answer_of 201 asset_json) (chain
       (and_then (extract_bearer_token (rq_authorization q) True) (\<lambda>token.
          case token of
            None \<Rightarrow> fail ''unauthorized'' 401
          | Some t \<Rightarrow>
              (case rq_file q of
                FilePart filename content_type content \<Rightarrow>
                  and_then (board_ready ready) (\<lambda>_. Inr (t, content,
                    if filename = None \<or> filename = Some [] then ''unnamed'' else the filename,
                    if content_type = None \<or> content_type = Some [] then ''application/octet-stream''
                    else the content_type))
              | _ \<Rightarrow> fail ''no_file'' 400)), w)
       (\<lambda>(t, content, filename, content_type) w. upload_asset E tid t content filename content_type w))"

definition get_asset ::
    "('s, 'b) board_env \<Rightarrow> bool \<Rightarrow> string \<Rightarrow> string \<Rightarrow> ('s, 'b) board \<Rightarrow> http_answer" where
  "get_asset E ready tid aid w =
     (case and_then (board_ready ready) (\<lambda>_. download_asset E tid aid w) of
        Inl e \<Rightarrow> error_answer e
      | Inr (content, content_type, filename) \<Rightarrow> FileAnswer content content_type filename)"

text \<open>Start time and uptime are left out.\<close>

definition get_health :: "('s, 'b) board_env \<Rightarrow> bool \<Rightarrow> ('s, 'b) board \<Rightarrow> http_answer" where
  "get_health E ready w =
     (let (total, by_status) = (if ready then get_stats E w else (0, []))
      in JsonAnswer 200 (JObj [(''status'', JStr ''ok''), (''total_tasks'', JInt (int total)),
           (''tasks_by_status'', JObj (map (\<lambda>(k, n). (k, JInt (int n))) by_status))]))"

section \<open>Routes\<close>

text \<open>What the framework finds no route for, as \<^verbatim>\<open>http_exception_handler\<close> answers it.\<close>

definition not_found :: http_answer where
  "not_found = error_answer (ServiceError ''http_error'' 404)"

definition wrong_method :: http_answer where
  "wrong_method = error_answer (ServiceError ''method_not_allowed'' 405)"

definition method_not_allowed :: "http_request \<Rightarrow> http_answer" where
  "method_not_allowed q =
     (if rq_method q \<in> {''GET'', ''PUT'', ''PATCH'', ''DELETE''} then error_answer (ServiceError ''method_not_allowed'' 405)
      else wrong_method)"

definition task_action ::
    "('s, 'b) board_env \<Rightarrow> string \<Rightarrow> string \<Rightarrow> (string \<Rightarrow> ('s, 'b) board \<Rightarrow> task_response result \<times> ('s, 'b) board) option" where
  "task_action E tid act =
     (if act = ''cancel'' then Some (cancel_task E tid)
      else if act = ''submit'' then Some (submit_deliverable E tid)
      else if act = ''approve'' then Some (approve_task E tid)
      else if act = ''dispute'' then Some (dispute_task E tid)
      else if act = ''ruling'' then Some (record_ruling E tid)
      else None)"

fun board_route ::
    "('s, 'b) board_env \<Rightarrow> bool \<Rightarrow> http_request \<Rightarrow> string list \<Rightarrow> ('s, 'b) board \<Rightarrow> http_answer \<times> ('s, 'b) board" where
  "board_route E ready q [a] w =
     (if a = ''health'' then (if rq_method q = ''GET'' then get_health E ready w else wrong_method, w)
      else if a = ''tasks'' then
        (if rq_method q = ''POST'' then post_task E ready q w
         else if rq_method q = ''GET'' then get_tasks E ready q w
         else (wrong_method, w))
      else (not_found, w))"
| "board_route E ready q [a, tid] w =
     (if a = ''tasks'' \<and> tid \<noteq> [] then
        (if rq_method q = ''GET'' then
           apfst (answer_of 200 task_json) (chain (board_ready ready, w) (\<lambda>_ w. get_task E tid w))
         else (wrong_method, w))
      else (not_found, w))"
| "board_route E ready q [a, tid, act] w =
     (if a \<noteq> ''tasks'' \<or> tid = [] then (not_found, w)
      else case task_action E tid act of
        Some f \<Rightarrow>
          if rq_method q = ''POST'' then token_endpoint ready q 200 task_json f w else (method_not_allowed q, w)
      | None \<Rightarrow>
          if act = ''bids'' then
            (if rq_method q = ''POST'' then token_endpoint ready q 201 bid_json (submit_bid E tid) w
             else if rq_method q = ''GET'' then get_bids E ready q tid w
             else (wrong_method, w))
          else if act = ''assets'' then
            (if rq_method q = ''POST'' then post_asset E ready q tid w
             else if rq_method q = ''GET'' then
               (answer_of 200 assets_json (and_then (board_ready ready) (\<lambda>_. list_assets E tid w)), w)
             else (wrong_method, w))
          else (not_found, w))"
| "board_route E ready q [a, tid, b, aid] w =
     (if a = ''tasks'' \<and> tid \<noteq> [] \<and> b = ''assets'' \<and> aid \<noteq> [] then
        (if rq_method q = ''GET'' then (get_asset E ready tid aid w, w) else (wrong_method, w))
      else (not_found, w))"
| "board_route E ready q [a, tid, b, bid, c] w =
     (if a = ''tasks'' \<and> tid \<noteq> [] \<and> b = ''bids'' \<and> bid \<noteq> [] \<and> c = ''accept'' then
        (if rq_method q = ''POST'' then token_endpoint ready q 200 task_json (accept_bid E tid bid) w
         else (method_not_allowed q, w))
      else (not_found, w))"
| "board_route E ready q _ w = (not_found, w)"

definition board_http ::
    "('s, 'b) board_env \<Rightarrow> bool \<Rightarrow> nat \<Rightarrow> http_request \<Rightarrow> ('s, 'b) board \<Rightarrow> http_answer \<times> ('s, 'b) board" where
  "board_http E ready max_body_size q w =
     (case board_middleware max_body_size q of
        Inl e \<Rightarrow> (error_answer e, w)
      | Inr _ \<Rightarrow> board_route E ready q (rq_path q) w)"

end
