(* ===== verification/Api_Props.thy ===== *)
theory Api_Props
  imports Task_Api
begin

text \<open>
  Every HTTP request to the Task Board is one request of its managers or changes nothing, so what holds of runs
  of the managers holds of runs over HTTP.
\<close>

section \<open>One HTTP request\<close>

lemma snd_pure_chain: "snd (chain (r, w) f) = (case r of Inl e \<Rightarrow> w | Inr x \<Rightarrow> snd (f x w))"
  by (cases r) simp_all

lemma token_endpoint_serves:
  assumes "\<And>t w. \<exists>r. snd (f t w) = board_serve E r w"
  shows "snd (token_endpoint ready q st enc f w) = w \<or> (\<exists>r. snd (token_endpoint ready q st enc f w) = board_serve E r w)"
  using assms by (auto simp: token_endpoint_def snd_pure_chain split: sum.splits)

lemma manager_serves:
  "\<exists>r. snd (create_task E t e w) = board_serve E r w" "\<exists>r. snd (get_task E tid w) = board_serve E r w"
  "\<exists>r. snd (list_tasks E st p wk off lim w) = board_serve E r w" "\<exists>r. snd (cancel_task E tid t w) = board_serve E r w"
  "\<exists>r. snd (submit_bid E tid t w) = board_serve E r w" "\<exists>r. snd (list_bids E tid at w) = board_serve E r w"
  "\<exists>r. snd (accept_bid E tid k t w) = board_serve E r w" "\<exists>r. snd (submit_deliverable E tid t w) = board_serve E r w"
  "\<exists>r. snd (approve_task E tid t w) = board_serve E r w" "\<exists>r. snd (dispute_task E tid t w) = board_serve E r w"
  "\<exists>r. snd (record_ruling E tid t w) = board_serve E r w"
  "\<exists>r. snd (upload_asset E tid t c f ct w) = board_serve E r w"
  by (metis board_serve.simps)+

lemma task_action_serves: "task_action E tid act = Some f \<Longrightarrow> \<exists>r. snd (f t w) = board_serve E r w"
  by (auto simp: task_action_def manager_serves split: if_splits)

lemma board_route_serves:
  "snd (board_route E ready q path w) = w \<or> (\<exists>r. snd (board_route E ready q path w) = board_serve E r w)"
proof (induction E ready q path w rule: board_route.induct)
  case (1 E ready q a w)
  then show ?case
    by (auto simp: post_task_def get_tasks_def snd_pure_chain manager_serves split: sum.splits prod.splits)
next
  case (2 E ready q a tid w)
  then show ?case by (auto simp: snd_pure_chain manager_serves split: sum.splits)
next
  case (3 E ready q a tid act w)
  show ?case
  proof (cases "task_action E tid act")
    case (Some f)
    then show ?thesis
      using token_endpoint_serves [of f E ready q 200 task_json w] task_action_serves [OF Some] by simp
  next
    case None
    then show ?thesis
      using token_endpoint_serves [of "submit_bid E tid" E ready q 201 bid_json w]
      by (auto simp: get_bids_def post_asset_def snd_pure_chain manager_serves split: sum.splits prod.splits)
  qed
next
  case (5 E ready q a tid b bid c w)
  then show ?case
    using token_endpoint_serves [of "accept_bid E tid bid" E ready q 200 task_json w] by (auto simp: manager_serves)
qed auto

lemma board_http_serves:
  "snd (board_http E ready n q w) = w \<or> (\<exists>r. snd (board_http E ready n q w) = board_serve E r w)"
  using board_route_serves [of E ready q "rq_path q" w] by (auto simp: board_http_def split: sum.splits)

text \<open>Requests over HTTP, one after the other, each with its own answers of the Identity service.\<close>

inductive http_run :: "('s, 'b) board_env \<Rightarrow> ('s, 'b) board \<Rightarrow> ('s, 'b) board \<Rightarrow> bool"
  for E :: "('s, 'b) board_env" and w :: "('s, 'b) board" where
  http_start: "http_run E w w"
| http_next: "http_run E w w' \<Longrightarrow> be_store E' = be_store E \<Longrightarrow> be_bank E' = be_bank E \<Longrightarrow>
    http_run E w (snd (board_http E' ready n q w'))"

lemma http_run_board_run: "http_run E w w' \<Longrightarrow> board_run E w w'"
proof (induction rule: http_run.induct)
  case (http_next w' E' ready n q)
  then show ?case using board_http_serves [of E' ready n q w'] run_request [of E w w' E'] by auto
qed (rule run_start)

section \<open>A request for concrete inputs\<close>

definition demo_post :: "string list \<Rightarrow> string \<Rightarrow> http_request" where
  "demo_post path token =
     \<lparr>rq_method = ''POST'', rq_path = path, rq_query = [], rq_authorization = None,
      rq_content_type = ''application/json'', rq_chunks = [20],
      rq_body = Some (JObj [(''token'', JStr token)]), rq_file = NoPart\<rparr>"

definition demo_get :: "string list \<Rightarrow> (string, string) dict \<Rightarrow> http_request" where
  "demo_get path query =
     \<lparr>rq_method = ''GET'', rq_path = path, rq_query = query, rq_authorization = None, rq_content_type = [],
      rq_chunks = [], rq_body = None, rq_file = NoPart\<rparr>"

definition demo_http_cancelled :: "(task_db, string list) board" where
  "demo_http_cancelled = snd (board_http demo_env True 1000 (demo_post [''tasks'', demo_tid, ''cancel''] ''cancel.t.s'') demo_open)"

section \<open>Properties\<close>

text \<open>
  C27: The HTTP interface adds nothing. What any sequence of HTTP requests - whatever their method, path, headers,
  body or size, refused or not - does to a board whose tables are well formed is what a sequence of requests to its
  managers does, so rows stay well formed and a task only moves along its lifecycle: its fixed columns stay, a
  worker once assigned stays, and a finished task never changes.
\<close>
theorem http_requests_refine:
  assumes "be_store E = memory_store" and "board_ok w" and "http_run E w w'"
    and "mem_get_task tid (db w) = Some r"
  shows "board_run E w w' \<and>
    (\<exists>r'. mem_get_task tid (db w') = Some r' \<and> may_become\<^sup>*\<^sup>* (t_status r) (t_status r') \<and>
      row_ok tid r' \<and> fixed_columns r' = fixed_columns r \<and> (\<forall>wk. t_worker_id r = Some wk \<longrightarrow> t_worker_id r' = Some wk) \<and>
      (terminal (t_status r) \<longrightarrow> r' = r))"
proof -
  note run = http_run_board_run [OF assms(3)]
  have "row_evolves (task_rows (db w)) (task_rows (db w'))" by (rule run_ok(2) [OF run assms(1,2)])
  then obtain r' where r': "task_rows (db w') tid = Some r'" "task_edge\<^sup>*\<^sup>* r r'"
    using assms(4) unfolding row_evolves_def by (auto simp: mem_get_task_def task_rows_def)
  then have "row_ok tid r'"
    using run_ok(1) [OF run assms(1,2)] by (simp add: board_ok_def rows_ok_def)
  moreover have "row_ok tid r" using assms(2,4) by (simp add: board_ok_def rows_ok_def mem_get_task_def task_rows_def)
  ultimately show ?thesis
    using run r' edges_status [of r r'] edges_fixed [of r r'] edges_terminal [of r r'] edges_worker [of r r' _ tid]
    by (auto simp: mem_get_task_def task_rows_def)
qed

theorem http_requests_refine_witness:
  "\<exists>r r'. mem_get_task demo_tid (db demo_open) = Some r \<and> t_status r = Open \<and>
     mem_get_task demo_tid (db demo_http_cancelled) = Some r' \<and> t_status r' = Cancelled \<and>
     fixed_columns r' = fixed_columns r"
proof -
  have run: "http_run demo_env demo_open demo_http_cancelled"
    unfolding demo_http_cancelled_def by (intro http_next http_start) simp_all
  obtain r where r: "mem_get_task demo_tid (db demo_open) = Some r" "t_status r = Open"
    using demo_statuses(1) by (auto simp: mem_get_task_def task_rows_def)
  have "map_option t_status (mem_get_task demo_tid (db demo_http_cancelled)) = Some Cancelled" by code_simp
  then obtain r' where "mem_get_task demo_tid (db demo_http_cancelled) = Some r'" "t_status r' = Cancelled" by auto
  with http_requests_refine [OF demo_env_store demo_runs(1) run r(1)] r show ?thesis by auto
qed

end
