(* ===== verification/Court_Board.thy ===== *)
theory Court_Board
  imports Court_Props Agent_Client Api_Props Economy_Props
begin

text \<open>
  Court and Task Board together: the platform agent's requests reach the board's HTTP interface over a network that
  may lose requests or responses. A ruling that the board has recorded but that failed afterwards in the Court -
  a lost response, or the Reputation service being down - can never be completed.
\<close>

section \<open>The platform agent's board\<close>

text \<open>The body's length is a parameter, as JSON is not encoded to bytes here.\<close>

definition board_message :: "(agent_message \<Rightarrow> nat) \<Rightarrow> agent_message \<Rightarrow> http_request" where
  "board_message body_length m =
     \<lparr>rq_method = am_method m, rq_path = am_path m, rq_query = am_query m,
      rq_authorization = map_option (\<lambda>t. ''Bearer '' @ t) (am_bearer m),
      rq_content_type = (if am_json m \<noteq> None then ''application/json'' else if am_file m \<noteq> None then ''multipart/form-data''
                         else []),
      rq_chunks = [body_length m], rq_body = am_json m,
      rq_file = (case am_file m of None \<Rightarrow> NoPart | Some (f, c) \<Rightarrow> FilePart (Some f) None c)\<rparr>"

fun answer_response :: "http_answer \<Rightarrow> nat \<times> json option" where
  "answer_response (JsonAnswer st j) = (st, Some j)"
| "answer_response (FileAnswer content content_type filename) = (200, None)"

text \<open>The board at the other end, which has its environment for the n-th request; other services only answer.\<close>

definition board_end ::
    "('s, 'b) board_env \<Rightarrow> nat \<Rightarrow> http_request \<Rightarrow> ('s, 'b) board option \<Rightarrow> (nat \<times> json option) \<times> ('s, 'b) board option" where
  "board_end E max_body q st =
     (case st of
        None \<Rightarrow> (answer_response not_found, None)
      | Some w \<Rightarrow> (let (a, w') = board_http E True max_body q w in (answer_response a, Some w')))"

definition board_platform ::
    "(nat \<Rightarrow> ('s, 'b) board_env) \<Rightarrow> nat \<Rightarrow> (agent_message \<Rightarrow> nat) \<Rightarrow> (agent_message \<Rightarrow> http_outcome) \<Rightarrow>
     ('s, 'b) board bank_link agent \<Rightarrow> ('s, 'b) board bank_link agent" where
  "board_platform envs max_body body_length others A =
     A\<lparr>ag_http := (\<lambda>m l.
         if am_service m = BoardService
         then http_call (board_end (envs (sent l)) max_body (board_message body_length m)) l
         else (others m, l))\<rparr>"

text \<open>The Identity service answers 200 or a status that is no success.\<close>

definition identity_plain :: "('s, 'b) board_env \<Rightarrow> bool" where
  "identity_plain E \<longleftrightarrow>
     (\<forall>f t st body. be_identity E = Some f \<longrightarrow> f t = Response st body \<longrightarrow> st = 200 \<or> st < 200 \<or> 300 \<le> st)"

definition no_success :: "exn \<Rightarrow> bool" where
  "no_success e \<longleftrightarrow> (case e of ServiceError c st \<Rightarrow> st < 200 \<or> 300 \<le> st | PyError _ \<Rightarrow> True)"

definition leaves_board :: "('s, 'b) board bank_link judge \<Rightarrow> bool" where
  "leaves_board j \<longleftrightarrow> (\<forall>ctx now l. remote (snd (j ctx now l)) = remote l)"

section \<open>A ruling the board refuses\<close>

lemma and_then_no_success:
  "and_then r f = Inl e \<Longrightarrow> (\<And>e. r = Inl e \<Longrightarrow> no_success e) \<Longrightarrow> (\<And>x e. r = Inr x \<Longrightarrow> f x = Inl e \<Longrightarrow> no_success e) \<Longrightarrow> no_success e"
  by (cases r) auto

lemma verify_no_success:
  assumes "identity_plain E" "verify_via_identity_service f token = Inl e" "be_identity E = Some f"
  shows "no_success e"
proof -
  have b: "no_success e" if "board_verify_jws (f token) = Inl e" for e
  proof (cases "f token")
    case (Response st body)
    then have "st = 200 \<or> st < 200 \<or> 300 \<le> st" using assms(1,3) unfolding identity_plain_def by blast
    then show ?thesis
      using that Response by (auto simp: no_success_def response_json_def split: option.splits json.splits if_splits)
  qed (use that in \<open>auto simp: no_success_def\<close>)
  show ?thesis
    using assms(2) b unfolding verify_via_identity_service_def
    by (elim and_then_no_success)
      (auto simp: as_dict_def no_success_def not_tampered_def split: json.splits if_splits option.splits)
qed

lemma agent_no_success: "verify_via_platform_agent E token parts = Inl e \<Longrightarrow> no_success e"
  by (auto simp: verify_via_platform_agent_def no_success_def and_then_def decode_base64url_json_def not_tampered_def
      split: certificate.splits json.splits sum.splits option.splits part_outcome.splits if_splits)

lemma validate_no_success:
  assumes "identity_plain E" "validate_jws_token E token acts = Inl e"
  shows "no_success e"
proof -
  have "no_success e" if "(case be_identity E of Some identity \<Rightarrow> verify_via_identity_service identity token
      | None \<Rightarrow> verify_via_platform_agent E token (split_on CHR ''.'' token)) = Inl e" for e
    using that assms(1) verify_no_success agent_no_success by (auto split: option.splits)
  moreover have "no_success (ServiceError c 400)" "no_success (PyError t)" for c t by (simp_all add: no_success_def)
  ultimately show ?thesis
    using assms(2)
    by (auto simp: validate_jws_token_def Let_def and_then_def split: if_splits sum.splits option.splits)
qed

lemma ruling_prepare_no_success:
  assumes "identity_plain E" "ruling_prepare E tid token w = (Inl e, w1)"
  shows "no_success e"
proof -
  have c: "no_success (ServiceError c 400)" "no_success (ServiceError c 403)" "no_success (ServiceError c 404)"
      "no_success (ServiceError c 409)" for c
    by (simp_all add: no_success_def)
  show ?thesis
    using assms(2) validate_no_success [OF assms(1)] c
    by (auto simp: ruling_prepare_def chain_def and_then_def require_field_def require_url_def ruling_id_of_def
        split: sum.splits prod.splits if_splits option.splits)
qed

text \<open>The board's answer to a ruling of a task that is not disputed.\<close>

lemma ruling_refused:
  assumes "be_store E = memory_store" "identity_plain E"
    and "\<forall>r. mem_get_task tid (db w) = Some r \<longrightarrow> t_status r \<noteq> Disputed"
  obtains e w' where "record_ruling E tid token w = (Inl e, w')" "no_success e" "db w' = db w"
proof -
  obtain res w1 where p: "ruling_prepare E tid token w = (res, w1)" by fastforce
  note v = mem_board.ruling_prepare_view [of E tid token w res w1, unfolded memory_env [OF assms(1)], OF p]
  have "\<exists>e. res = Inl e"
  proof (cases res)
    case (Inr x)
    obtain t i s pct where "x = (t, i, s, pct)" by (cases x)
    then show ?thesis
      using v(1) v(2) [of t i s pct] Inr assms(3) by (auto simp: mem_get_task_def task_rows_def)
  qed simp
  then obtain e where e: "res = Inl e" ..
  show thesis
  proof (rule that [of e w1])
    show "record_ruling E tid token w = (Inl e, w1)" by (simp add: record_ruling_def p e)
    show "no_success e" by (rule ruling_prepare_no_success [OF assms(2) p [unfolded e]])
    show "db w1 = db w" using v(1) by simp
  qed
qed

lemma error_answer_no_success:
  "no_success e \<Longrightarrow> \<exists>st j. error_answer e = JsonAnswer st j \<and> (st < 200 \<or> 300 \<le> st)"
  by (cases e) (auto simp: no_success_def)

lemma ruling_http_refused:
  assumes "be_store E = memory_store" "identity_plain E"
    and "\<forall>r. mem_get_task tid (db w) = Some r \<longrightarrow> t_status r \<noteq> Disputed"
    and q: "rq_method q = ''POST''" "rq_path q = [''tasks'', tid, ''ruling'']"
  obtains st j w' where "board_http E True n q w = (JsonAnswer st j, w')" "st < 200 \<or> 300 \<le> st" "db w' = db w"
proof -
  note goal = that
  have err: thesis if e: "board_http E True n q w = (error_answer e, w')" "no_success e" "db w' = db w" for e w'
  proof -
    obtain st j where "error_answer e = JsonAnswer st j" "st < 200 \<or> 300 \<le> st"
      using error_answer_no_success [OF e(2)] by blast
    then show thesis using goal [of st j w'] e by simp
  qed
  have code: "no_success (ServiceError c 415)" "no_success (ServiceError c 413)" "no_success (ServiceError c 400)" for c
    by (simp_all add: no_success_def)
  show thesis
  proof (cases "board_middleware n q")
    case (Inl e)
    then have "no_success e" using code by (auto simp: board_middleware_def Let_def split: if_splits)
    then show thesis using err [of e w] Inl by (simp add: board_http_def)
  next
    case ok: (Inr u)
    show thesis
    proof (cases "tid = []")
      case True
      then show thesis using goal [of 404 _ w] ok q by (simp add: board_http_def not_found_def)
    next
      case tid: False
      have route: "board_http E True n q w = token_endpoint True q 200 task_json (record_ruling E tid) w"
        using ok q tid by (simp add: board_http_def task_action_def)
      show thesis
      proof (cases "body_field q ''token''")
        case (Inl e)
        then have "no_success e"
          using code by (auto simp: body_field_def and_then_def parse_json_body_def extract_token_def
              split: option.splits json.splits sum.splits)
        then show thesis using err [of e w] Inl by (simp add: route token_endpoint_def answer_of_def)
      next
        case (Inr token)
        obtain e w' where r: "record_ruling E tid token w = (Inl e, w')" "no_success e" "db w' = db w"
          using ruling_refused [OF assms(1-3)] by blast
        then show thesis
          using err [of e w'] by (simp add: route token_endpoint_def Inr board_ready_def answer_of_def)
      qed
    qed
  qed
qed

lemma lost_not_answered: "agent_answer (failure_outcome f) \<noteq> Answered x"
  by (cases f) auto

lemma or_unavailable_Inr: "or_unavailable code r = Inr j \<longleftrightarrow> r = Answered j"
  by (cases "(code, r)" rule: or_unavailable.cases) auto

lemma normalize_vote_outer: "normalize_vote rv i w = (r, w') \<Longrightarrow> outer w' = outer w"
  by (auto simp: normalize_vote_def chain_def Let_def read_clock_def split: sum.splits prod.splits if_splits)

text \<open>The board refuses, or the network loses the request or its answer.\<close>

lemma platform_ruling_refused:
  assumes "\<forall>n. be_store (envs n) = memory_store \<and> identity_plain (envs n)" "remote l = Some w"
    and "\<forall>r. mem_get_task tid (db w) = Some r \<longrightarrow> t_status r \<noteq> Disputed"
  shows "\<exists>e l'. pa_record_ruling (platform_of (board_platform envs n blen others A)) tid claims l = (e, l') \<and>
    (\<forall>x. e \<noteq> Answered x)"
proof -
  let ?A = "board_platform envs n blen others A"
  let ?m = "signed_post ?A BoardService [''tasks'', tid, ''ruling''] claims"
  let ?q = "board_message blen ?m"
  have E: "be_store (envs (sent l)) = memory_store" "identity_plain (envs (sent l))" using assms(1) by auto
  have q: "rq_method ?q = ''POST''" "rq_path ?q = [''tasks'', tid, ''ruling'']"
    by (simp_all add: board_message_def signed_post_def)
  obtain st j w' where h: "board_http (envs (sent l)) True n ?q w = (JsonAnswer st j, w')" "st < 200 \<or> 300 \<le> st"
    using ruling_http_refused [OF E assms(3) q] by metis
  have "pa_record_ruling (platform_of ?A) tid claims l = apfst agent_answer (http_call (board_end (envs (sent l)) n ?q) l)"
    by (simp add: platform_of_def platform_record_ruling_def agent_request_def board_platform_def signed_post_def)
  then show ?thesis
    using h assms(2)
    by (cases "fates l (sent l)") (auto simp: http_call_def board_end_def Let_def lost_not_answered)
qed

lemma evaluate_leaves:
  "\<forall>j \<in> set judges. leaves_board j \<Longrightarrow> evaluate_judges ctx i judges c = (r, c') \<Longrightarrow> remote (outer c') = remote (outer c)"
proof (induction ctx i judges c arbitrary: r c' rule: evaluate_judges.induct)
  case (2 ctx i judge judges w)
  obtain now w1 where n: "read_clock w = (now, w1)" by fastforce
  obtain raw x where j: "judge ctx now (outer w1) = (raw, x)" by fastforce
  have w1: "remote x = remote (outer w)"
  proof -
    have "remote (snd (judge ctx now (outer w1))) = remote (outer w1)" using 2(2) by (simp add: leaves_board_def)
    then show ?thesis using n j by (auto simp: read_clock_def)
  qed
  show ?case
  proof (cases raw)
    case (Inl e)
    then show ?thesis using 2(3) w1 by (auto simp: n j)
  next
    case raw: (Inr rv)
    obtain rv' w3 where v: "normalize_vote rv i (w1\<lparr>outer := x\<rparr>) = (rv', w3)" by fastforce
    have w3: "outer w3 = x" using normalize_vote_outer [OF v] by simp
    show ?thesis
    proof (cases rv')
      case (Inl e)
      then show ?thesis using 2(3) w1 w3 by (auto simp: n j raw v)
    next
      case rv': (Inr vote)
      obtain rs w4 where rest: "evaluate_judges ctx (Suc i) judges w3 = (rs, w4)" by fastforce
      have "remote (outer w4) = remote (outer w3)"
        using 2(1) [OF refl n [symmetric] refl j [symmetric] _ rest] 2(2) by simp
      then show ?thesis using 2(3) w1 w3 by (cases rs) (auto simp: n j raw v rv' rest)
    qed
  qed
qed simp

lemma deliberate_refused:
  assumes "\<forall>n. be_store (envs n) = memory_store \<and> identity_plain (envs n)" "\<forall>j \<in> set judges. leaves_board j"
    and "remote (outer c) = Some w" "\<forall>r. mem_get_task (d_task_id d) (db w) = Some r \<longrightarrow> t_status r \<noteq> Disputed"
  shows "\<exists>e c'. deliberate (platform_of (board_platform envs n blen others A)) judges d k task_data c = (Inl e, c')"
proof -
  have "\<not> (\<exists>x c'. deliberate (platform_of (board_platform envs n blen others A)) judges d k task_data c = (Inr x, c'))"
  proof
    assume "\<exists>x c'. deliberate (platform_of (board_platform envs n blen others A)) judges d k task_data c = (Inr x, c')"
    then obtain ctx votes c1 pct summary j c2 where v: "evaluate_judges ctx 0 judges c = (Inr votes, c1)"
        "record_task_ruling (platform_of (board_platform envs n blen others A)) d k pct summary c1 = (Inr j, c2)"
      by (auto simp: deliberate_def chain_Inr_iff split: if_splits)
    have "remote (outer c1) = Some w" using evaluate_leaves [OF assms(2) v(1)] assms(3) by simp
    then obtain e l where pr: "pa_record_ruling (platform_of (board_platform envs n blen others A)) (d_task_id d)
        [(''action'', JStr ''record_ruling''), (''task_id'', JStr (d_task_id d)), (''ruling_id'', JStr k),
         (''worker_pct'', JInt pct), (''ruling_summary'', JStr summary)] (outer c1) = (e, l)" "\<forall>x. e \<noteq> Answered x"
      using platform_ruling_refused [OF assms(1) _ assms(4)] by blast
    show False
      using v(2) pr(2) unfolding record_task_ruling_def call_outer_def pr(1) by (simp add: or_unavailable_Inr)
  qed
  then show ?thesis
    by (cases "deliberate (platform_of (board_platform envs n blen others A)) judges d k task_data c"; cases "fst
      (deliberate (platform_of (board_platform envs n blen others A)) judges d k task_data c)") auto
qed

lemma execute_refused:
  assumes "\<forall>n. be_store (envs n) = memory_store \<and> identity_plain (envs n)" "\<forall>j \<in> set judges. leaves_board j"
    and "remote (outer c) = Some w" "mem_get_dispute k (docket c) = Some v"
    and "\<forall>r. mem_get_task (d_task_id (fst v)) (db w) = Some r \<longrightarrow> t_status r \<noteq> Disputed"
  shows "\<exists>e c'. execute_ruling memory_disputes k judges task_data (platform_of (board_platform envs n blen others A)) c = (Inl e, c')"
proof -
  obtain res c1 where b: "begin_ruling memory_disputes k c = (res, c1)" by fastforce
  show ?thesis
  proof (cases res)
    case (Inl e)
    then show ?thesis by (simp add: execute_ruling_def b)
  next
    case (Inr u)
    then have u: "u = v" "outer c1 = outer c"
      using b assms(4) by (auto simp: begin_ruling_def chain_Inr_iff ruling_preconditions_def split: option.splits if_splits)
    then obtain e c2 where "deliberate (platform_of (board_platform envs n blen others A)) judges (fst v) k task_data c1 = (Inl e, c2)"
      using deliberate_refused [OF assms(1,2) _ assms(5), of c1] assms(3) by metis
    then show ?thesis using Inr u by (simp add: execute_ruling_def b conclude_ruling_def)
  qed
qed

section \<open>A court and a board for concrete inputs\<close>

definition duo_ruling_claims :: payload where
  "duo_ruling_claims = [(''action'', JStr ''record_ruling''), (''task_id'', JStr demo_tid), (''ruling_id'', JStr ''disp-''),
     (''worker_pct'', JInt 100), (''ruling_summary'', JStr ''fine work'')]"

definition duo_env :: "(task_db, string list) board_env" where
  "duo_env = demo_env\<lparr>be_identity := Some (demo_identity (demo_board_tokens @
     [(''dispute.t.s'', ''p'', demo_claims [(''action'', JStr ''dispute_task''), (''poster_id'', JStr ''p''), (''reason'', JStr ''late'')]),
      (''ruling.t.s'', ''plat'', duo_ruling_claims)]))\<rparr>"

definition duo_disputed :: "(task_db, string list) board" where
  "duo_disputed = board_serve duo_env (DisputeTask demo_tid ''dispute.t.s'')
     (board_serve duo_env (SubmitDeliverable demo_tid ''submit.t.s'')
     (board_serve duo_env (UploadAsset demo_tid ''upload.t.s'' ''bytes'' ''f.txt'' ''text'') demo_accepted))"

definition duo_ruled :: "(task_db, string list) board" where
  "duo_ruled = board_serve duo_env (RecordRuling demo_tid ''ruling.t.s'') duo_disputed"

definition duo_judges :: "(task_db, string list) board bank_link judge list" where
  "duo_judges = [mock_judge ''a'' 100 ''fine work'']"

definition duo_agent :: "(task_db, string list) board bank_link agent" where
  "duo_agent = \<lparr>ag_name = ''platform'', ag_id = Some ''plat'', ag_public_key = ''key'',
      ag_sign = (\<lambda>c. if c = duo_ruling_claims then ''ruling.t.s'' else ''x.y.z''), ag_http = (\<lambda>m l. (ConnectFailed, l)),
      ag_certificate = (\<lambda>t. CertRejected)\<rparr>"

text \<open>
  A dispute filed while its task is disputed. Then the board recorded the ruling of a first attempt, whose answer
  the Court never had.
\<close>

definition duo_start :: "(dispute_db, (task_db, string list) board bank_link) court" where
  "duo_start = court_start demo_host \<lparr>fates = \<lambda>n. Delivered, sent = 0, remote = Some duo_disputed\<rparr>"

definition duo_tried :: "(dispute_db, (task_db, string list) board bank_link) court" where
  "duo_tried = (snd (file_dispute memory_disputes demo_tid ''p'' ''w'' ''late'' ''esc-1'' 60 duo_start))
     \<lparr>outer := \<lparr>fates = \<lambda>n. Delivered, sent = 1, remote = Some duo_ruled\<rparr>\<rparr>"

lemma duo_env_plain: "be_store duo_env = memory_store" "identity_plain duo_env"
  by (auto simp: duo_env_def demo_env_def identity_plain_def demo_identity_def verified_as_def split: option.splits)

lemma duo_runs:
  "board_ok duo_disputed" "board_run duo_env duo_disputed duo_ruled" "court_run memory_disputes duo_start [] [] duo_tried"
proof -
  show "board_ok duo_disputed" unfolding duo_disputed_def
    by (intro serve_ok(1) demo_runs(3)) (simp_all add: duo_env_plain)
  show "board_run duo_env duo_disputed duo_ruled" unfolding duo_ruled_def by (intro board_run.run_request board_run.run_start) simp_all
  show "court_run memory_disputes duo_start [] [] duo_tried"
    unfolding duo_tried_def by (rule run_elsewhere [OF run_file [OF court_run.run_start]]) simp
qed

lemma duo_facts:
  "map_option (\<lambda>r. (t_status r, t_worker_pct r)) (mem_get_task demo_tid (db duo_ruled)) = Some (Ruled, Some 100)"
  "map_option (\<lambda>v. (d_status (fst v), d_task_id (fst v))) (mem_get_dispute ''disp-'' (docket duo_tried))
     = Some (Rebuttal_Pending, demo_tid)"
  by code_simp+

section \<open>Property\<close>

text \<open>
  C28: A ruling is not all or nothing. Once the board has settled the disputed task - as it does when it records the
  first attempt's ruling - no later attempt of the Court can complete: whatever the judges vote and whatever the
  network does, every run of execute_ruling fails and the dispute stays as it is. So a ruling whose feedback call
  failed, or whose answer from the board was lost, pays out and yet leaves its dispute pending for ever.
\<close>
theorem settled_task_never_ruled:
  assumes "\<forall>n. be_store (envs n) = memory_store \<and> identity_plain (envs n)"
    and "be_store E = memory_store" "board_ok w" "board_run E w w'"
    and "mem_get_task tid (db w) = Some r" "terminal (t_status r)"
    and "\<forall>j \<in> set judges. leaves_board j"
    and "uuid_unique h" "court_run memory_disputes (court_start h x) R B c" "remote (outer c) = Some w'"
    and "mem_get_dispute k (docket c) = Some v" "d_task_id (fst v) = tid"
  shows "\<exists>e c'. execute_ruling memory_disputes k judges task_data (platform_of (board_platform envs n body_length others A)) c
      = (Inl e, c') \<and> mem_get_dispute k (docket c') = Some v"
proof -
  obtain r' where "mem_get_task tid (db w') = Some r'" "task_edge\<^sup>*\<^sup>* r r'"
    using run_ok(2) [OF assms(4,2,3)] assms(5) by (auto simp: row_evolves_def mem_get_task_def task_rows_def)
  then have "\<forall>r. mem_get_task (d_task_id (fst v)) (db w') = Some r \<longrightarrow> t_status r \<noteq> Disputed"
    using edges_terminal [of r r'] assms(6,12) by (auto simp: terminal_def)
  then obtain e c' where ex: "execute_ruling memory_disputes k judges task_data
      (platform_of (board_platform envs n body_length others A)) c = (Inl e, c')"
    using execute_refused [OF assms(1,7,10,11)] by blast
  show ?thesis using ex assms(11) fun_cong [OF failed_execute_docket [OF assms(8,9) ex], of k] by auto
qed

theorem settled_task_never_ruled_witness:
  "\<exists>e v c'. execute_ruling memory_disputes ''disp-'' duo_judges (JObj [])
      (platform_of (board_platform (\<lambda>n. duo_env) 1000 (\<lambda>m. 20) (\<lambda>m. ConnectFailed) duo_agent)) duo_tried = (Inl e, c') \<and>
     mem_get_dispute ''disp-'' (docket c') = Some v \<and> d_status (fst v) = Rebuttal_Pending"
proof -
  obtain v where v: "mem_get_dispute ''disp-'' (docket duo_tried) = Some v" "d_status (fst v) = Rebuttal_Pending"
      "d_task_id (fst v) = demo_tid"
    using duo_facts(2) by auto
  obtain r where r: "mem_get_task demo_tid (db duo_ruled) = Some r" "t_status r = Ruled" using duo_facts(1) by auto
  have ok: "board_ok duo_ruled" using run_ok(1) [OF duo_runs(2) duo_env_plain(1) duo_runs(1)] .
  have j: "\<forall>j \<in> set duo_judges. leaves_board j" by (simp add: duo_judges_def leaves_board_def mock_judge_def)
  have "remote (outer duo_tried) = Some duo_ruled" by (simp add: duo_tried_def)
  from settled_task_never_ruled [of "\<lambda>n. duo_env", OF _ duo_env_plain(1) ok board_run.run_start r(1) _ j demo_host_unique
      duo_runs(3) [unfolded duo_start_def] this v(1,3)] duo_env_plain r(2) v(2)
  show ?thesis by (fastforce simp: terminal_def)
qed

end
