(* ===== verification/Sqlite.thy ===== *)
theory Sqlite
  imports Py_Text "HOL-Library.List_Lexorder" "HOL-Library.Char_ord"
begin

text \<open>
  What the database gateway uses of Python's \<^verbatim>\<open>sqlite3\<close>: tables with their constraints, parameters, inserts and
  updates that a constraint may refuse, and a connection with at most one open transaction. A row maps column names
  to cells, a table is the list of its rows in the order of insertion. Text is compared as it is written; a float as a
  parameter is outside the model (no service sends one).
\<close>

section \<open>Cells\<close>

text \<open>\<open>SReal n\<close> is the double with the integral value n; only an addition that leaves 64 bits makes one.\<close>

datatype cell = SNull | SInt int | SReal int | SText string

definition fits64 :: "int \<Rightarrow> bool" where
  "fits64 n \<longleftrightarrow> - (2 ^ 63) \<le> n \<and> n < 2 ^ 63"

definition int_text :: "int \<Rightarrow> string" where
  "int_text n = (if n < 0 then CHR ''-'' # nat_text (nat (- n)) else nat_text (nat n))"

text \<open>A parameter: \<^verbatim>\<open>None\<close>, a bool or int of 64 bits, or a string.\<close>

fun bind_param :: "json \<Rightarrow> cell result" where
  "bind_param JNull = Inr SNull"
| "bind_param (JBool b) = Inr (SInt (if b then 1 else 0))"
| "bind_param (JInt n) = (if fits64 n then Inr (SInt n) else Inl (PyError ''OverflowError''))"
| "bind_param (JStr s) = Inr (SText s)"
| "bind_param (JFloat x) = Inl (PyError ''NotModelled'')"
| "bind_param _ = Inl (PyError ''ProgrammingError'')"

fun cell_json :: "cell \<Rightarrow> json" where
  "cell_json SNull = JNull"
| "cell_json (SInt n) = JInt n"
| "cell_json (SReal n) = JFloat (Finite n 0)"
| "cell_json (SText s) = JStr s"

text \<open>Storing into a column: INTEGER takes back a real that is an integer, TEXT makes integers text.\<close>

fun apply_affinity :: "bool \<Rightarrow> cell \<Rightarrow> cell" where
  "apply_affinity True (SReal n) = (if - (2 ^ 63) < n \<and> n < 2 ^ 63 - 1 then SInt n else SReal n)"
| "apply_affinity False (SInt n) = SText (int_text n)"
| "apply_affinity _ c = c"

fun cell_num :: "cell \<Rightarrow> int option" where
  "cell_num (SInt n) = Some n"
| "cell_num (SReal n) = Some n"
| "cell_num _ = None"

text \<open>NULL equals nothing.\<close>

fun sql_eq :: "cell \<Rightarrow> cell \<Rightarrow> bool" where
  "sql_eq (SText s) (SText t) = (s = t)"
| "sql_eq a b = (case (cell_num a, cell_num b) of (Some m, Some n) \<Rightarrow> m = n | _ \<Rightarrow> False)"

definition sql_ge :: "cell \<Rightarrow> cell \<Rightarrow> bool" where
  "sql_ge a b = (case (cell_num a, cell_num b) of (Some m, Some n) \<Rightarrow> n \<le> m | _ \<Rightarrow> False)"

text \<open>An integer as the nearest double, ties to even.\<close>

fun bit_length :: "nat \<Rightarrow> nat" where
  "bit_length n = (if n = 0 then 0 else Suc (bit_length (n div 2)))"

declare bit_length.simps [simp del]

definition round_double :: "int \<Rightarrow> int" where
  "round_double n =
     (let m = nat \<bar>n\<bar>; k = bit_length m - 53; q = m div 2 ^ k; r = m mod 2 ^ k
      in sgn n * int ((if 2 ^ k < 2 * r \<or> 2 ^ k = 2 * r \<and> odd q then q + 1 else q) * 2 ^ k))"

text \<open>Integers are added exactly while the sum fits 64 bits and as doubles otherwise.\<close>

definition sql_add :: "cell \<Rightarrow> cell \<Rightarrow> cell" where
  "sql_add a b =
     (case (a, b) of
        (SInt m, SInt n) \<Rightarrow>
          if fits64 (m + n) then SInt (m + n) else SReal (round_double (round_double m + round_double n))
      | _ \<Rightarrow>
          (case (cell_num a, cell_num b) of
             (Some m, Some n) \<Rightarrow> SReal (round_double (round_double m + round_double n))
           | _ \<Rightarrow> SNull))"

fun sql_neg :: "cell \<Rightarrow> cell" where
  "sql_neg (SInt n) = (if fits64 (- n) then SInt (- n) else SReal (- n))"
| "sql_neg (SReal n) = SReal (- n)"
| "sql_neg c = SNull"

section \<open>Tables\<close>

type_synonym row = "string \<Rightarrow> cell"
type_synonym database = "string \<Rightarrow> row list"

text \<open>
  A table: its columns in order, which are INTEGER (the others are TEXT), which may be NULL, defaults, the unique
  indexes in the order they are checked (each with the rows it covers), and the foreign keys.
\<close>

record table_def =
  td_columns :: "string list"
  td_int :: "string list"
  td_null :: "string list"
  td_default :: "(string, cell) dict"
  td_unique :: "(string list \<times> (row \<Rightarrow> bool)) list"
  td_foreign :: "(string \<times> string \<times> string) list"

type_synonym schema = "string \<Rightarrow> table_def"

datatype violation = NotNull string string | NotUnique string "string list" | ForeignKey

definition is_integer :: "schema \<Rightarrow> string \<Rightarrow> string \<Rightarrow> bool" where
  "is_integer sch t c \<longleftrightarrow> c \<in> set (td_int (sch t))"

definition new_row :: "schema \<Rightarrow> string \<Rightarrow> (string, cell) dict \<Rightarrow> row" where
  "new_row sch t vals = (\<lambda>c. case dget vals c of
       Some v \<Rightarrow> apply_affinity (is_integer sch t c) v
     | None \<Rightarrow> dget_or (td_default (sch t)) c SNull)"

text \<open>\<^verbatim>\<open>column = ?\<close>: the column's affinity is applied to the parameter too.\<close>

definition col_is :: "schema \<Rightarrow> string \<Rightarrow> string \<Rightarrow> cell \<Rightarrow> row \<Rightarrow> bool" where
  "col_is sch t c v r = sql_eq (r c) (apply_affinity (is_integer sch t c) v)"

definition same_key :: "string list \<Rightarrow> row \<Rightarrow> row \<Rightarrow> bool" where
  "same_key cs r r' \<longleftrightarrow> list_all (\<lambda>c. sql_eq (r c) (r' c)) cs"

fun first_null :: "string \<Rightarrow> string list \<Rightarrow> string list \<Rightarrow> row \<Rightarrow> violation option" where
  "first_null t nullable [] r = None"
| "first_null t nullable (c # cs) r =
     (if r c = SNull \<and> c \<notin> set nullable then Some (NotNull t c) else first_null t nullable cs r)"

fun first_duplicate :: "string \<Rightarrow> (string list \<times> (row \<Rightarrow> bool)) list \<Rightarrow> row list \<Rightarrow> row \<Rightarrow> violation option" where
  "first_duplicate t [] others r = None"
| "first_duplicate t ((cs, covers) # ixs) others r =
     (if covers r \<and> list_ex (\<lambda>r'. covers r' \<and> same_key cs r r') others then Some (NotUnique t cs)
      else first_duplicate t ixs others r)"

definition foreign_ok :: "database \<Rightarrow> row \<Rightarrow> string \<times> string \<times> string \<Rightarrow> bool" where
  "foreign_ok d r k = (case k of (c, t, rc) \<Rightarrow> r c = SNull \<or> list_ex (\<lambda>p. sql_eq (p rc) (r c)) (d t))"

definition check_row :: "schema \<Rightarrow> database \<Rightarrow> string \<Rightarrow> row list \<Rightarrow> row \<Rightarrow> violation option" where
  "check_row sch d t others r =
     (case first_null t (td_null (sch t)) (td_columns (sch t)) r of
        Some v \<Rightarrow> Some v
      | None \<Rightarrow>
          (case first_duplicate t (td_unique (sch t)) others r of
             Some v \<Rightarrow> Some v
           | None \<Rightarrow> if list_all (foreign_ok d r) (td_foreign (sch t)) then None else Some ForeignKey))"

text \<open>An update goes through the table row by row.\<close>

fun update_rows ::
    "(row \<Rightarrow> row list \<Rightarrow> violation option) \<Rightarrow> (row \<Rightarrow> bool) \<Rightarrow> (row \<Rightarrow> row) \<Rightarrow> row list \<Rightarrow> row list \<Rightarrow>
     violation + nat \<times> row list" where
  "update_rows check p f seen [] = Inr (0, seen)"
| "update_rows check p f seen (r # rs) =
     (if p r then
        (case check (f r) (seen @ rs) of
           Some v \<Rightarrow> Inl v
         | None \<Rightarrow> map_sum id (apfst Suc) (update_rows check p f (seen @ [f r]) rs))
      else update_rows check p f (seen @ [r]) rs)"

text \<open>ORDER BY text columns.\<close>

fun text_key :: "cell \<Rightarrow> string" where
  "text_key (SText s) = s"
| "text_key _ = []"

fun order_by :: "string list \<Rightarrow> row list \<Rightarrow> row list" where
  "order_by [] rs = rs"
| "order_by (c # cs) rs = sort_key (\<lambda>r. text_key (r c)) (order_by cs rs)"

section \<open>Connections\<close>

text \<open>
  What the connection reads, and, while a transaction is open, what a rollback restores. Statements raise
  \<^verbatim>\<open>sqlite3.IntegrityError\<close> or another exception.
\<close>

record conn =
  cn_data :: database
  cn_undo :: "database option"

datatype raised = IntegrityError violation | Raised exn

type_synonym 'a step = "conn \<Rightarrow> (raised + 'a) \<times> conn"

definition give :: "'a \<Rightarrow> 'a step" where
  "give x c = (Inr x, c)"

definition throw_exn :: "exn \<Rightarrow> 'a step" where
  "throw_exn e c = (Inl (Raised e), c)"

definition lift_result :: "'a result \<Rightarrow> 'a step" where
  "lift_result r c = (map_sum Raised id r, c)"

definition seq :: "'a step \<Rightarrow> ('a \<Rightarrow> 'b step) \<Rightarrow> 'b step" where
  "seq m f c = (case m c of (Inl e, c') \<Rightarrow> (Inl e, c') | (Inr x, c') \<Rightarrow> f x c')"

definition begin_immediate :: "unit step" where
  "begin_immediate c =
     (case cn_undo c of
        Some _ \<Rightarrow> (Inl (Raised (PyError ''OperationalError'')), c)
      | None \<Rightarrow> (Inr (), c\<lparr>cn_undo := Some (cn_data c)\<rparr>))"

definition commit :: "conn \<Rightarrow> conn" where
  "commit c = c\<lparr>cn_undo := None\<rparr>"

definition rollback :: "conn \<Rightarrow> conn" where
  "rollback c = (case cn_undo c of None \<Rightarrow> c | Some d \<Rightarrow> \<lparr>cn_data = d, cn_undo = None\<rparr>)"

text \<open>A statement that writes opens a transaction when none is open.\<close>

definition put_data :: "database \<Rightarrow> conn \<Rightarrow> conn" where
  "put_data d c = \<lparr>cn_data = d, cn_undo = Some (case cn_undo c of None \<Rightarrow> cn_data c | Some u \<Rightarrow> u)\<rparr>"

fun bind_all :: "(string \<times> json result) list \<Rightarrow> (string, cell) dict result" where
  "bind_all [] = Inr []"
| "bind_all ((c, r) # ps) =
     and_then r (\<lambda>j. and_then (bind_param j) (\<lambda>v. and_then (bind_all ps) (\<lambda>vs. Inr ((c, v) # vs))))"

definition insert_cells :: "schema \<Rightarrow> string \<Rightarrow> (string, cell) dict \<Rightarrow> unit step" where
  "insert_cells sch t vals c =
     (let d = cn_data c; r = new_row sch t vals
      in case check_row sch d t (d t) r of
           Some v \<Rightarrow> (Inl (IntegrityError v), c)
         | None \<Rightarrow> (Inr (), put_data (d(t := d t @ [r])) c))"

definition sql_insert :: "schema \<Rightarrow> string \<Rightarrow> (string \<times> json result) list \<Rightarrow> unit step" where
  "sql_insert sch t ps = seq (lift_result (bind_all ps)) (insert_cells sch t)"

text \<open>The number of rows updated is the cursor's \<^verbatim>\<open>rowcount\<close>.\<close>

definition sql_update :: "schema \<Rightarrow> string \<Rightarrow> (row \<Rightarrow> bool) \<Rightarrow> (row \<Rightarrow> row) \<Rightarrow> nat step" where
  "sql_update sch t p f c =
     (let d = cn_data c
      in case update_rows (\<lambda>r others. check_row sch d t others r) p f [] (d t) of
           Inl v \<Rightarrow> (Inl (IntegrityError v), c)
         | Inr (n, rs) \<Rightarrow> (Inr n, put_data (d(t := rs)) c))"

definition sql_select :: "string \<Rightarrow> (row \<Rightarrow> bool) \<Rightarrow> row list step" where
  "sql_select t p c = (Inr (filter p (cn_data c t)), c)"

definition fetchone :: "'a list \<Rightarrow> 'a option" where
  "fetchone xs = (case xs of [] \<Rightarrow> None | x # _ \<Rightarrow> Some x)"

end
