(* ===== verification/Gateway_Writer.thy ===== *)
theory Gateway_Writer
  imports Sqlite
begin

text \<open>
  The database gateway's schema, \<^verbatim>\<open>docs/specifications/schema.sql\<close>, and its transactions,
  \<^verbatim>\<open>services/db_writer.py\<close>: every method begins a transaction, writes its rows and an event, and commits,
  or raises. What an exception leaves open is modelled too.
\<close>

section \<open>Schema\<close>

text \<open>
  Later indexes are checked before earlier ones. As the schema is written, a TEXT primary key may be NULL.
\<close>

definition every_row :: "row \<Rightarrow> bool" where
  "every_row r = True"

definition cell_is :: "string \<Rightarrow> string \<Rightarrow> row \<Rightarrow> bool" where
  "cell_is c s r \<longleftrightarrow> r c = SText s"

definition identity_agents :: table_def where
  "identity_agents =
     \<lparr>td_columns = [''agent_id'', ''name'', ''public_key'', ''registered_at''], td_int = [], td_null = [''agent_id''],
      td_default = [], td_unique = [([''public_key''], every_row), ([''agent_id''], every_row)], td_foreign = []\<rparr>"

definition bank_accounts :: table_def where
  "bank_accounts =
     \<lparr>td_columns = [''account_id'', ''balance'', ''created_at''], td_int = [''balance''], td_null = [''account_id''],
      td_default = [(''balance'', SInt 0)], td_unique = [([''account_id''], every_row)],
      td_foreign = [(''account_id'', ''identity_agents'', ''agent_id'')]\<rparr>"

definition bank_transactions :: table_def where
  "bank_transactions =
     \<lparr>td_columns = [''tx_id'', ''account_id'', ''type'', ''amount'', ''balance_after'', ''reference'', ''timestamp''],
      td_int = [''amount'', ''balance_after''], td_null = [''tx_id''], td_default = [],
      td_unique = [([''account_id'', ''reference''], cell_is ''type'' ''credit''), ([''tx_id''], every_row)],
      td_foreign = [(''account_id'', ''bank_accounts'', ''account_id'')]\<rparr>"

definition bank_escrow :: table_def where
  "bank_escrow =
     \<lparr>td_columns = [''escrow_id'', ''payer_account_id'', ''amount'', ''task_id'', ''status'', ''created_at'', ''resolved_at''],
      td_int = [''amount''], td_null = [''escrow_id'', ''resolved_at''], td_default = [(''status'', SText ''locked'')],
      td_unique = [([''payer_account_id'', ''task_id''], cell_is ''status'' ''locked''), ([''escrow_id''], every_row)],
      td_foreign = [(''payer_account_id'', ''bank_accounts'', ''account_id'')]\<rparr>"

definition board_tasks :: table_def where
  "board_tasks =
     \<lparr>td_columns = [''task_id'', ''poster_id'', ''title'', ''spec'', ''reward'', ''status'', ''bidding_deadline_seconds'',
        ''deadline_seconds'', ''review_deadline_seconds'', ''bidding_deadline'', ''execution_deadline'',
        ''review_deadline'', ''bid_count'', ''escrow_pending'', ''escrow_id'', ''worker_id'', ''accepted_bid_id'',
        ''dispute_reason'', ''ruling_id'', ''worker_pct'', ''ruling_summary'', ''created_at'', ''accepted_at'',
        ''submitted_at'', ''approved_at'', ''cancelled_at'', ''disputed_at'', ''ruled_at'', ''expired_at''],
      td_int = [''reward'', ''bidding_deadline_seconds'', ''deadline_seconds'', ''review_deadline_seconds'', ''bid_count'',
        ''escrow_pending'', ''worker_pct''],
      td_null = [''task_id'', ''execution_deadline'', ''review_deadline'', ''worker_id'', ''accepted_bid_id'',
        ''dispute_reason'', ''ruling_id'', ''worker_pct'', ''ruling_summary'', ''accepted_at'', ''submitted_at'',
        ''approved_at'', ''cancelled_at'', ''disputed_at'', ''ruled_at'', ''expired_at''],
      td_default = [(''status'', SText ''open''), (''bid_count'', SInt 0), (''escrow_pending'', SInt 0)],
      td_unique = [([''task_id''], every_row)],
      td_foreign = [(''poster_id'', ''identity_agents'', ''agent_id''), (''worker_id'', ''identity_agents'', ''agent_id''),
        (''escrow_id'', ''bank_escrow'', ''escrow_id'')]\<rparr>"

definition board_bids :: table_def where
  "board_bids =
     \<lparr>td_columns = [''bid_id'', ''task_id'', ''bidder_id'', ''proposal'', ''amount'', ''submitted_at''],
      td_int = [''amount''], td_null = [''bid_id''], td_default = [(''amount'', SInt 0)],
      td_unique = [([''task_id'', ''bidder_id''], every_row), ([''bid_id''], every_row)],
      td_foreign = [(''task_id'', ''board_tasks'', ''task_id''), (''bidder_id'', ''identity_agents'', ''agent_id'')]\<rparr>"

definition board_assets :: table_def where
  "board_assets =
     \<lparr>td_columns = [''asset_id'', ''task_id'', ''uploader_id'', ''filename'', ''content_type'', ''size_bytes'',
        ''storage_path'', ''content_hash'', ''uploaded_at''],
      td_int = [''size_bytes''], td_null = [''asset_id'', ''content_hash''], td_default = [],
      td_unique = [([''asset_id''], every_row)],
      td_foreign = [(''task_id'', ''board_tasks'', ''task_id''), (''uploader_id'', ''identity_agents'', ''agent_id'')]\<rparr>"

definition reputation_feedback :: table_def where
  "reputation_feedback =
     \<lparr>td_columns = [''feedback_id'', ''task_id'', ''from_agent_id'', ''to_agent_id'', ''role'', ''category'', ''rating'',
        ''comment'', ''submitted_at'', ''visible''],
      td_int = [''visible''], td_null = [''feedback_id'', ''comment''], td_default = [(''visible'', SInt 0)],
      td_unique = [([''task_id'', ''from_agent_id'', ''to_agent_id''], every_row), ([''feedback_id''], every_row)],
      td_foreign = [(''task_id'', ''board_tasks'', ''task_id''), (''from_agent_id'', ''identity_agents'', ''agent_id''),
        (''to_agent_id'', ''identity_agents'', ''agent_id'')]\<rparr>"

definition court_claims :: table_def where
  "court_claims =
     \<lparr>td_columns = [''claim_id'', ''task_id'', ''claimant_id'', ''respondent_id'', ''reason'', ''status'',
        ''rebuttal_deadline'', ''filed_at''],
      td_int = [], td_null = [''claim_id'', ''rebuttal_deadline''], td_default = [(''status'', SText ''filed'')],
      td_unique = [([''task_id''], every_row), ([''claim_id''], every_row)],
      td_foreign = [(''task_id'', ''board_tasks'', ''task_id''), (''claimant_id'', ''identity_agents'', ''agent_id''),
        (''respondent_id'', ''identity_agents'', ''agent_id'')]\<rparr>"

definition court_rebuttals :: table_def where
  "court_rebuttals =
     \<lparr>td_columns = [''rebuttal_id'', ''claim_id'', ''agent_id'', ''content'', ''submitted_at''],
      td_int = [], td_null = [''rebuttal_id''], td_default = [], td_unique = [([''rebuttal_id''], every_row)],
      td_foreign = [(''claim_id'', ''court_claims'', ''claim_id''), (''agent_id'', ''identity_agents'', ''agent_id'')]\<rparr>"

definition court_rulings :: table_def where
  "court_rulings =
     \<lparr>td_columns = [''ruling_id'', ''claim_id'', ''task_id'', ''worker_pct'', ''summary'', ''judge_votes'', ''ruled_at''],
      td_int = [''worker_pct''], td_null = [''ruling_id''], td_default = [], td_unique = [([''ruling_id''], every_row)],
      td_foreign = [(''claim_id'', ''court_claims'', ''claim_id''), (''task_id'', ''board_tasks'', ''task_id'')]\<rparr>"

definition events :: table_def where
  "events =
     \<lparr>td_columns = [''event_id'', ''event_source'', ''event_type'', ''timestamp'', ''task_id'', ''agent_id'', ''summary'',
        ''payload''],
      td_int = [''event_id''], td_null = [''task_id'', ''agent_id''], td_default = [(''payload'', SText ''{}'')],
      td_unique = [([''event_id''], every_row)], td_foreign = [(''agent_id'', ''identity_agents'', ''agent_id'')]\<rparr>"

definition economy_schema :: schema where
  "economy_schema t =
     (if t = ''identity_agents'' then identity_agents else if t = ''bank_accounts'' then bank_accounts
      else if t = ''bank_transactions'' then bank_transactions else if t = ''bank_escrow'' then bank_escrow
      else if t = ''board_tasks'' then board_tasks else if t = ''board_bids'' then board_bids
      else if t = ''board_assets'' then board_assets else if t = ''reputation_feedback'' then reputation_feedback
      else if t = ''court_claims'' then court_claims else if t = ''court_rebuttals'' then court_rebuttals
      else if t = ''court_rulings'' then court_rulings else events)"

lemma economy_schema_simps [simp]:
  "economy_schema ''identity_agents'' = identity_agents" "economy_schema ''bank_accounts'' = bank_accounts"
  "economy_schema ''bank_transactions'' = bank_transactions" "economy_schema ''bank_escrow'' = bank_escrow"
  "economy_schema ''board_tasks'' = board_tasks" "economy_schema ''board_bids'' = board_bids"
  "economy_schema ''board_assets'' = board_assets" "economy_schema ''reputation_feedback'' = reputation_feedback"
  "economy_schema ''court_claims'' = court_claims" "economy_schema ''court_rebuttals'' = court_rebuttals"
  "economy_schema ''court_rulings'' = court_rulings" "economy_schema ''events'' = events"
  by (simp_all add: economy_schema_def)

abbreviation insert_into :: "string \<Rightarrow> (string \<times> json result) list \<Rightarrow> unit step" where
  "insert_into t \<equiv> sql_insert economy_schema t"

abbreviation where_is :: "string \<Rightarrow> string \<Rightarrow> cell \<Rightarrow> row \<Rightarrow> bool" where
  "where_is t \<equiv> col_is economy_schema t"

definition set_col :: "string \<Rightarrow> string \<Rightarrow> cell \<Rightarrow> row \<Rightarrow> row" where
  "set_col t c v r = r(c := apply_affinity (is_integer economy_schema t c) v)"

section \<open>Exceptions\<close>

fun is_service_error :: "exn \<Rightarrow> bool" where
  "is_service_error (ServiceError _ _) = True"
| "is_service_error (PyError _) = False"

text \<open>
  The handlers of a transaction: an integrity error is rolled back and handled, another exception is rolled back
  and raised; \<^verbatim>\<open>except ServiceError: raise\<close> keeps the transaction as it is.
\<close>

definition handled ::
    "(exn \<Rightarrow> bool) \<Rightarrow> (violation \<Rightarrow> conn \<Rightarrow> payload result \<times> conn) \<Rightarrow> payload step \<Rightarrow> conn \<Rightarrow> payload result \<times> conn" where
  "handled passes on_integrity m c =
     (case m c of
        (Inr x, c') \<Rightarrow> (Inr x, c')
      | (Inl (IntegrityError v), c') \<Rightarrow> on_integrity v (rollback c')
      | (Inl (Raised e), c') \<Rightarrow> (Inl e, if passes e then c' else rollback c'))"

definition abort :: "exn \<Rightarrow> 'a step" where
  "abort e c = (Inl (Raised e), rollback c)"

definition finish :: "payload \<Rightarrow> payload step" where
  "finish x c = (Inr x, commit c)"

text \<open>Tests on the text of the integrity error.\<close>

fun is_unique :: "violation \<Rightarrow> bool" where
  "is_unique (NotUnique _ _) = True"
| "is_unique _ = False"

fun mentions :: "string \<Rightarrow> violation \<Rightarrow> bool" where
  "mentions col (NotUnique t cs) = (col \<in> set cs)"
| "mentions col (NotNull t c) = (col = c)"
| "mentions col ForeignKey = False"

text \<open>The usual handler: foreign keys, or else the code for everything that is already there.\<close>

definition exists_error :: "string \<Rightarrow> violation \<Rightarrow> conn \<Rightarrow> payload result \<times> conn" where
  "exists_error code v c = (if v = ForeignKey then fail ''foreign_key_violation'' 409 else fail code 409, c)"

definition not_handled :: "violation \<Rightarrow> conn \<Rightarrow> payload result \<times> conn" where
  "not_handled v c = (Inl (PyError ''IntegrityError''), c)"

section \<open>Helpers\<close>

text \<open>\<^verbatim>\<open>data[k]\<close> of something that should be an object.\<close>

definition as_object :: "json \<Rightarrow> payload result" where
  "as_object j = (case j of JObj kvs \<Rightarrow> Inr kvs | _ \<Rightarrow> Inl (PyError ''TypeError''))"

definition insert_event :: "payload \<Rightarrow> int step" where
  "insert_event event =
     seq (lift_result (bind_all
       [(''event_source'', subscript event ''event_source''), (''event_type'', subscript event ''event_type''),
        (''timestamp'', subscript event ''timestamp''), (''task_id'', Inr (jget event ''task_id'')),
        (''agent_id'', Inr (jget event ''agent_id'')), (''summary'', subscript event ''summary''),
        (''payload'', subscript event ''payload'')])) (\<lambda>vals c.
     let event_id = int (length (cn_data c ''events'')) + 1
     in apfst (map_sum id (\<lambda>_. event_id)) (insert_cells economy_schema ''events'' ((''event_id'', SInt event_id) # vals) c))"

definition data_event :: "payload \<Rightarrow> int step" where
  "data_event data = seq (lift_result (and_then (subscript data ''event'') as_object)) insert_event"

text \<open>
  \<^verbatim>\<open>str.isidentifier\<close> on Latin-1 text: the letters, ordinal indicators and the micro sign among them, and the
  underscore may begin an identifier, digits and the middle dot continue one.
\<close>

definition identifier_char :: "char \<Rightarrow> bool" where
  "identifier_char c \<longleftrightarrow> (let n = of_char c :: nat in
     n = 95 \<or> 97 \<le> n \<and> n \<le> 122 \<or> 65 \<le> n \<and> n \<le> 90 \<or>
     n = 170 \<or> n = 181 \<or> n = 186 \<or> 192 \<le> n \<and> n \<noteq> 215 \<and> n \<noteq> 247)"

definition is_identifier :: "string \<Rightarrow> bool" where
  "is_identifier s \<longleftrightarrow> s \<noteq> [] \<and> identifier_char (hd s) \<and>
     list_all (\<lambda>c. identifier_char c \<or> digit c \<or> (of_char c :: nat) = 183) s"

text \<open>
  The conditions of a WHERE clause built from the body; a name that is no column is an error of the statement.
\<close>

definition conditions :: "string \<Rightarrow> payload \<Rightarrow> (row \<Rightarrow> bool) step" where
  "conditions t conds =
     (if list_ex (\<lambda>(c, v). \<not> is_identifier c) conds then throw_exn (ServiceError ''invalid_constraints'' 400)
      else if list_ex (\<lambda>(c, v). c \<notin> set (td_columns (economy_schema t))) conds then throw_exn (PyError ''OperationalError'')
      else seq (lift_result (bind_all (map (apsnd Inr) conds)))
        (\<lambda>ps. give (\<lambda>r. list_all (\<lambda>(c, v). where_is t c v r) ps)))"

definition compile_constraints :: "string \<Rightarrow> string \<Rightarrow> json \<Rightarrow> payload \<Rightarrow> (row \<Rightarrow> bool) step" where
  "compile_constraints t pk_column pk_value constraints = conditions t ((pk_column, pk_value) # constraints)"

text \<open>\<^verbatim>\<open>str(x)\<close> of what can be in a cell or has been bound to a parameter.\<close>

fun py_str :: "json \<Rightarrow> string" where
  "py_str JNull = ''None''"
| "py_str (JBool b) = (if b then ''True'' else ''False'')"
| "py_str (JInt n) = int_text n"
| "py_str (JFloat (Finite m e)) = int_text m"
| "py_str (JStr s) = s"
| "py_str _ = []"

definition check_constraint_violation :: "string \<Rightarrow> string \<Rightarrow> json \<Rightarrow> payload \<Rightarrow> unit step" where
  "check_constraint_violation t pk_column pk_value constraints =
     seq (conditions t [(pk_column, pk_value)]) (\<lambda>p.
     seq (sql_select t p) (\<lambda>rs.
       case fetchone rs of
         None \<Rightarrow> throw_exn (ServiceError ''not_found'' 404)
       | Some r \<Rightarrow>
           if list_ex (\<lambda>(c, expected). py_str (cell_json (r c)) \<noteq> py_str expected) constraints
           then throw_exn (ServiceError ''constraint_violation'' 409) else give ()))"

definition verify_cross_table_constraint :: "string \<Rightarrow> payload \<Rightarrow> row step" where
  "verify_cross_table_constraint t conds =
     (if conds = [] then throw_exn (ServiceError ''invalid_constraints'' 400)
      else seq (conditions t conds) (\<lambda>p. seq (sql_select t p) (\<lambda>rs.
        case fetchone rs of None \<Rightarrow> throw_exn (ServiceError ''constraint_violation'' 409) | Some r \<Rightarrow> give r)))"

text \<open>What follows an UPDATE with constraints that changed no row.\<close>

definition no_row_updated :: "string \<Rightarrow> string \<Rightarrow> json \<Rightarrow> payload \<Rightarrow> string \<Rightarrow> 'a step" where
  "no_row_updated t pk_column pk_value constraints code c =
     (case check_constraint_violation t pk_column pk_value constraints c of
        (Inl (Raised e), c') \<Rightarrow> (Inl (Raised e), if is_service_error e then rollback c' else c')
      | (Inl (IntegrityError v), c') \<Rightarrow> (Inl (IntegrityError v), c')
      | (Inr _, c') \<Rightarrow> abort (ServiceError code 404) c')"

text \<open>\<^verbatim>\<open>\{"task_id": data["task_id"], **constraints\}\<close>\<close>

definition merged :: "payload \<Rightarrow> payload \<Rightarrow> payload" where
  "merged d e = foldl (\<lambda>d (k, v). dput d k v) d e"

section \<open>Identity\<close>

definition lookup_agent_by_public_key :: "cell \<Rightarrow> database \<Rightarrow> row option" where
  "lookup_agent_by_public_key key d = fetchone (filter (where_is ''identity_agents'' ''public_key'' key) (d ''identity_agents''))"

definition agent_matches :: "row \<Rightarrow> payload \<Rightarrow> bool" where
  "agent_matches existing data \<longleftrightarrow>
     cell_json (existing ''name'') = jget data ''name'' \<and> cell_json (existing ''registered_at'') = jget data ''registered_at''"

definition bound :: "json \<Rightarrow> cell" where
  "bound j = (case bind_param j of Inl _ \<Rightarrow> SNull | Inr v \<Rightarrow> v)"

definition gw_register_agent :: "payload \<Rightarrow> conn \<Rightarrow> payload result \<times> conn" where
  "gw_register_agent data =
     handled (\<lambda>_. False)
       (\<lambda>v c.
          (if is_unique v \<and> mentions ''public_key'' v then
             (case lookup_agent_by_public_key (bound (jget data ''public_key'')) (cn_data c) of
                Some existing \<Rightarrow>
                  if agent_matches existing data
                  then Inr [(''agent_id'', cell_json (existing ''agent_id'')), (''event_id'', JInt 0)]
                  else fail ''public_key_exists'' 409
              | None \<Rightarrow> fail ''public_key_exists'' 409)
           else if v = ForeignKey then fail ''foreign_key_violation'' 409
           else fail ''public_key_exists'' 409, c))
       (seq begin_immediate (\<lambda>_.
        seq (insert_into ''identity_agents''
          [(''agent_id'', subscript data ''agent_id''), (''name'', subscript data ''name''),
           (''public_key'', subscript data ''public_key''), (''registered_at'', subscript data ''registered_at'')]) (\<lambda>_.
        seq (data_event data) (\<lambda>event_id.
          finish [(''agent_id'', jget data ''agent_id''), (''event_id'', JInt event_id)]))))"

section \<open>Bank\<close>

definition lookup_account :: "cell \<Rightarrow> database \<Rightarrow> row option" where
  "lookup_account a d = fetchone (filter (where_is ''bank_accounts'' ''account_id'' a) (d ''bank_accounts''))"

text \<open>\<^verbatim>\<open>(SELECT balance FROM bank_accounts WHERE account_id = ?)\<close>\<close>

definition balance_of_account :: "cell \<Rightarrow> database \<Rightarrow> cell" where
  "balance_of_account a d = (case lookup_account a d of None \<Rightarrow> SNull | Some r \<Rightarrow> r ''balance'')"

text \<open>\<^verbatim>\<open>int(balance_row[0]) if balance_row else 0\<close>\<close>

definition balance_after_of :: "cell \<Rightarrow> database \<Rightarrow> json" where
  "balance_after_of a d = (case cell_num (balance_of_account a d) of None \<Rightarrow> JInt 0 | Some n \<Rightarrow> JInt n)"

definition add_to_balance :: "json result \<Rightarrow> json result \<Rightarrow> nat step" where
  "add_to_balance amount account =
     seq (lift_result (bind_all [(''amount'', amount), (''account_id'', account)])) (\<lambda>ps.
       sql_update economy_schema ''bank_accounts'' (where_is ''bank_accounts'' ''account_id'' (dget_or ps ''account_id'' SNull))
         (\<lambda>r. set_col ''bank_accounts'' ''balance'' (sql_add (r ''balance'') (dget_or ps ''amount'' SNull)) r))"

text \<open>The balance is subtracted only where it suffices.\<close>

definition take_from_balance :: "json result \<Rightarrow> json result \<Rightarrow> nat step" where
  "take_from_balance amount account =
     seq (lift_result (bind_all [(''amount'', amount), (''account_id'', account)])) (\<lambda>ps.
       sql_update economy_schema ''bank_accounts''
         (\<lambda>r. where_is ''bank_accounts'' ''account_id'' (dget_or ps ''account_id'' SNull) r \<and>
              sql_ge (r ''balance'') (dget_or ps ''amount'' SNull))
         (\<lambda>r. set_col ''bank_accounts'' ''balance'' (sql_add (r ''balance'') (sql_neg (dget_or ps ''amount'' SNull))) r))"

text \<open>A row of the history, with the balance the account has by then.\<close>

definition log_transaction ::
    "json result \<Rightarrow> json result \<Rightarrow> string \<Rightarrow> json result \<Rightarrow> json result \<Rightarrow> json result \<Rightarrow> unit step" where
  "log_transaction tx_id account type amount reference timestamp =
     seq (lift_result (bind_all
       [(''tx_id'', tx_id), (''account_id'', account), (''type'', Inr (JStr type)), (''amount'', amount),
        (''reference'', reference), (''timestamp'', timestamp)])) (\<lambda>ps c.
       insert_cells economy_schema ''bank_transactions''
         ((''balance_after'', balance_of_account (dget_or ps ''account_id'' SNull) (cn_data c)) # ps) c)"

definition gw_create_account :: "payload \<Rightarrow> conn \<Rightarrow> payload result \<times> conn" where
  "gw_create_account data =
     handled (\<lambda>_. False) (exists_error ''account_exists'')
       (seq begin_immediate (\<lambda>_.
        seq (insert_into ''bank_accounts''
          [(''account_id'', subscript data ''account_id''), (''balance'', subscript data ''balance''),
           (''created_at'', subscript data ''created_at'')]) (\<lambda>_.
        seq (if jget data ''initial_credit'' = JNull then give ()
             else
               seq (lift_result (as_object (jget data ''initial_credit''))) (\<lambda>credit.
               insert_into ''bank_transactions''
                 [(''tx_id'', subscript credit ''tx_id''), (''account_id'', subscript data ''account_id''),
                  (''type'', Inr (JStr ''credit'')), (''amount'', subscript credit ''amount''),
                  (''balance_after'', subscript data ''balance''), (''reference'', subscript credit ''reference''),
                  (''timestamp'', subscript credit ''timestamp'')])) (\<lambda>_.
        seq (data_event data) (\<lambda>event_id.
          finish [(''account_id'', jget data ''account_id''), (''event_id'', JInt event_id)])))))"

definition lookup_credit_tx :: "cell \<Rightarrow> cell \<Rightarrow> database \<Rightarrow> row option" where
  "lookup_credit_tx a ref d = fetchone (filter (\<lambda>r. where_is ''bank_transactions'' ''account_id'' a r \<and>
     where_is ''bank_transactions'' ''reference'' ref r \<and> r ''type'' = SText ''credit'') (d ''bank_transactions''))"

definition gw_credit_account :: "payload \<Rightarrow> conn \<Rightarrow> payload result \<times> conn" where
  "gw_credit_account data =
     handled is_service_error
       (\<lambda>v c.
          (if is_unique v then
             (case lookup_credit_tx (bound (jget data ''account_id'')) (bound (jget data ''reference'')) (cn_data c) of
                Some existing \<Rightarrow>
                  if cell_json (existing ''amount'') = jget data ''amount''
                  then Inr [(''tx_id'', cell_json (existing ''tx_id'')),
                            (''balance_after'', cell_json (existing ''balance_after'')), (''event_id'', JInt 0)]
                  else fail ''reference_conflict'' 409
              | None \<Rightarrow> fail ''reference_conflict'' 409)
           else fail ''reference_conflict'' 409, c))
       (seq begin_immediate (\<lambda>_.
        seq (add_to_balance (subscript data ''amount'') (subscript data ''account_id'')) (\<lambda>n.
        if n = 0 then abort (ServiceError ''account_not_found'' 404)
        else
          seq (log_transaction (subscript data ''tx_id'') (subscript data ''account_id'') ''credit'' (subscript data ''amount'')
                 (subscript data ''reference'') (subscript data ''timestamp'')) (\<lambda>_ c.
          let balance_after = balance_after_of (bound (jget data ''account_id'')) (cn_data c)
          in seq (data_event data) (\<lambda>event_id.
               finish [(''tx_id'', jget data ''tx_id''), (''balance_after'', balance_after),
                       (''event_id'', JInt event_id)]) c))))"

definition lookup_active_escrow :: "cell \<Rightarrow> cell \<Rightarrow> database \<Rightarrow> row option" where
  "lookup_active_escrow payer tid d = fetchone (filter (\<lambda>r. where_is ''bank_escrow'' ''payer_account_id'' payer r \<and>
     where_is ''bank_escrow'' ''task_id'' tid r \<and> r ''status'' = SText ''locked'') (d ''bank_escrow''))"

definition gw_escrow_lock :: "payload \<Rightarrow> conn \<Rightarrow> payload result \<times> conn" where
  "gw_escrow_lock data =
     handled is_service_error
       (\<lambda>v c.
          (if v = ForeignKey then fail ''foreign_key_violation'' 409
           else if is_unique v then
             (case lookup_active_escrow (bound (jget data ''payer_account_id'')) (bound (jget data ''task_id'')) (cn_data c) of
                Some existing \<Rightarrow>
                  if cell_json (existing ''amount'') = jget data ''amount''
                  then Inr [(''escrow_id'', cell_json (existing ''escrow_id'')), (''balance_after'', JInt 0),
                            (''event_id'', JInt 0)]
                  else fail ''escrow_already_locked'' 409
              | None \<Rightarrow> fail ''escrow_already_locked'' 409)
           else fail ''escrow_already_locked'' 409, c))
       (seq begin_immediate (\<lambda>_.
        seq (take_from_balance (subscript data ''amount'') (subscript data ''payer_account_id'')) (\<lambda>n.
        if n = 0 then
          (\<lambda>c. if lookup_account (bound (jget data ''payer_account_id'')) (cn_data c) = None
               then abort (ServiceError ''account_not_found'' 404) c
               else abort (ServiceError ''insufficient_funds'' 402) c)
        else
          seq (insert_into ''bank_escrow''
            [(''escrow_id'', subscript data ''escrow_id''), (''payer_account_id'', subscript data ''payer_account_id''),
             (''amount'', subscript data ''amount''), (''task_id'', subscript data ''task_id''),
             (''status'', Inr (JStr ''locked'')), (''created_at'', subscript data ''created_at'')]) (\<lambda>_.
          seq (log_transaction (subscript data ''tx_id'') (subscript data ''payer_account_id'') ''escrow_lock''
                 (subscript data ''amount'') (subscript data ''task_id'') (subscript data ''created_at'')) (\<lambda>_ c.
          let balance_after = balance_after_of (bound (jget data ''payer_account_id'')) (cn_data c)
          in seq (data_event data) (\<lambda>event_id.
               finish [(''escrow_id'', jget data ''escrow_id''), (''balance_after'', balance_after),
                       (''event_id'', JInt event_id)]) c)))))"

text \<open>The escrow's amount, once it is known to be locked.\<close>

definition load_escrow :: "json result \<Rightarrow> json step" where
  "load_escrow eid =
     seq (lift_result (bind_all [(''escrow_id'', eid)])) (\<lambda>ps.
     seq (sql_select ''bank_escrow'' (where_is ''bank_escrow'' ''escrow_id'' (dget_or ps ''escrow_id'' SNull))) (\<lambda>rs.
       case fetchone rs of
         None \<Rightarrow> abort (ServiceError ''escrow_not_found'' 404)
       | Some r \<Rightarrow>
           if r ''status'' \<noteq> SText ''locked'' then abort (ServiceError ''escrow_already_resolved'' 409)
           else give (cell_json (r ''amount''))))"

definition resolve_escrow_row :: "string \<Rightarrow> payload \<Rightarrow> payload option \<Rightarrow> unit step" where
  "resolve_escrow_row status data constraints =
     (let resolved = (\<lambda>ps. set_col ''bank_escrow'' ''resolved_at'' (dget_or ps ''resolved_at'' SNull) \<circ>
             set_col ''bank_escrow'' ''status'' (SText status))
      in case constraints of
           Some cs \<Rightarrow>
             seq (compile_constraints ''bank_escrow'' ''escrow_id'' (jget data ''escrow_id'') cs) (\<lambda>p.
             seq (lift_result (bind_all [(''resolved_at'', subscript data ''resolved_at'')])) (\<lambda>ps.
             seq (sql_update economy_schema ''bank_escrow'' p (resolved ps)) (\<lambda>n.
               if n = 0 then no_row_updated ''bank_escrow'' ''escrow_id'' (jget data ''escrow_id'') cs ''escrow_not_found''
               else give ())))
         | None \<Rightarrow>
             seq (lift_result (bind_all [(''resolved_at'', subscript data ''resolved_at''),
               (''escrow_id'', subscript data ''escrow_id'')])) (\<lambda>ps.
             seq (sql_update economy_schema ''bank_escrow''
                    (where_is ''bank_escrow'' ''escrow_id'' (dget_or ps ''escrow_id'' SNull)) (resolved ps)) (\<lambda>_. give ())))"

definition gw_escrow_release :: "payload \<Rightarrow> payload option \<Rightarrow> conn \<Rightarrow> payload result \<times> conn" where
  "gw_escrow_release data constraints =
     handled is_service_error not_handled
       (seq begin_immediate (\<lambda>_.
        seq (load_escrow (subscript data ''escrow_id'')) (\<lambda>amount.
        seq (add_to_balance (Inr amount) (subscript data ''recipient_account_id'')) (\<lambda>n.
        if n = 0 then abort (ServiceError ''account_not_found'' 404)
        else
          seq (log_transaction (subscript data ''tx_id'') (subscript data ''recipient_account_id'') ''escrow_release''
                 (Inr amount) (subscript data ''escrow_id'') (subscript data ''resolved_at'')) (\<lambda>_.
          seq (resolve_escrow_row ''released'' data constraints) (\<lambda>_.
          seq (data_event data) (\<lambda>event_id.
            finish [(''escrow_id'', jget data ''escrow_id''), (''status'', JStr ''released''), (''amount'', amount),
                    (''recipient_account_id'', jget data ''recipient_account_id''), (''event_id'', JInt event_id)])))))))"

text \<open>One side of a split; a share of zero is skipped.\<close>

definition pay_share :: "int \<Rightarrow> json result \<Rightarrow> json result \<Rightarrow> payload \<Rightarrow> unit step" where
  "pay_share amount account tx_id data =
     (if amount \<le> 0 then give ()
      else
        seq (add_to_balance (Inr (JInt amount)) account) (\<lambda>n.
        if n = 0 then abort (ServiceError ''account_not_found'' 404)
        else log_transaction tx_id account ''escrow_release'' (Inr (JInt amount)) (subscript data ''escrow_id'')
               (subscript data ''resolved_at'')))"

text \<open>The amounts are the integers the router has checked.\<close>

definition gw_escrow_split :: "payload \<Rightarrow> payload option \<Rightarrow> conn \<Rightarrow> payload result \<times> conn" where
  "gw_escrow_split data constraints =
     handled is_service_error not_handled
       (seq begin_immediate (\<lambda>_.
        seq (load_escrow (subscript data ''escrow_id'')) (\<lambda>total.
        case (strict_int (jget data ''worker_amount''), strict_int (jget data ''poster_amount'')) of
          (Some worker_amount, Some poster_amount) \<Rightarrow>
            if \<not> eq_int total (worker_amount + poster_amount) then abort (ServiceError ''amount_mismatch'' 400)
            else
              seq (pay_share worker_amount (subscript data ''worker_account_id'') (subscript data ''worker_tx_id'') data) (\<lambda>_.
              seq (pay_share poster_amount (subscript data ''poster_account_id'') (subscript data ''poster_tx_id'') data) (\<lambda>_.
              seq (resolve_escrow_row ''split'' data constraints) (\<lambda>_.
              seq (data_event data) (\<lambda>event_id.
                finish [(''escrow_id'', jget data ''escrow_id''), (''status'', JStr ''split''),
                        (''worker_amount'', JInt worker_amount), (''poster_amount'', JInt poster_amount),
                        (''event_id'', JInt event_id)]))))
        | _ \<Rightarrow> throw_exn (PyError ''TypeError''))))"

section \<open>Board\<close>

definition gw_create_task :: "payload \<Rightarrow> conn \<Rightarrow> payload result \<times> conn" where
  "gw_create_task data =
     handled (\<lambda>_. False) (exists_error ''task_exists'')
       (seq begin_immediate (\<lambda>_.
        seq (insert_into ''board_tasks''
          (map (\<lambda>k. (k, subscript data k)) [''task_id'', ''poster_id'', ''title'', ''spec'', ''reward'', ''status'',
             ''bidding_deadline_seconds'', ''deadline_seconds'', ''review_deadline_seconds'', ''bidding_deadline''] @
           [(''bid_count'', Inr (dget_or data ''bid_count'' (JInt 0))),
            (''escrow_pending'', Inr (dget_or data ''escrow_pending'' (JInt 0))),
            (''escrow_id'', subscript data ''escrow_id''), (''created_at'', subscript data ''created_at'')])) (\<lambda>_.
        seq (data_event data) (\<lambda>event_id.
          finish [(''task_id'', jget data ''task_id''), (''event_id'', JInt event_id)]))))"

text \<open>The preconditions on another table that a body may carry.\<close>

definition cross_table :: "string \<Rightarrow> string \<Rightarrow> payload \<Rightarrow> payload option \<Rightarrow> unit step" where
  "cross_table t k data constraints =
     (case constraints of
        None \<Rightarrow> give ()
      | Some cs \<Rightarrow>
          seq (lift_result (subscript data k)) (\<lambda>v.
          seq (verify_cross_table_constraint t (merged [(k, v)] cs)) (\<lambda>_. give ())))"

definition gw_submit_bid :: "payload \<Rightarrow> payload option \<Rightarrow> conn \<Rightarrow> payload result \<times> conn" where
  "gw_submit_bid data constraints =
     handled (\<lambda>_. False) (exists_error ''bid_exists'')
       (seq begin_immediate (\<lambda>_.
        seq (cross_table ''board_tasks'' ''task_id'' data constraints) (\<lambda>_.
        seq (insert_into ''board_bids''
          [(''bid_id'', subscript data ''bid_id''), (''task_id'', subscript data ''task_id''),
           (''bidder_id'', subscript data ''bidder_id''), (''proposal'', subscript data ''proposal''),
           (''amount'', Inr (dget_or data ''amount'' (JInt 0))), (''submitted_at'', subscript data ''submitted_at'')]) (\<lambda>_.
        seq (data_event data) (\<lambda>event_id.
          finish [(''bid_id'', jget data ''bid_id''), (''event_id'', JInt event_id)])))))"

definition task_update_columns :: "string list" where
  "task_update_columns =
     [''status'', ''worker_id'', ''accepted_bid_id'', ''accepted_at'', ''execution_deadline'', ''submitted_at'',
      ''review_deadline'', ''approved_at'', ''cancelled_at'', ''dispute_reason'', ''disputed_at'', ''ruling_id'',
      ''worker_pct'', ''ruling_summary'', ''ruled_at'', ''expired_at'', ''escrow_pending'']"

definition set_columns :: "string \<Rightarrow> (string, cell) dict \<Rightarrow> row \<Rightarrow> row" where
  "set_columns t vals r = foldl (\<lambda>r (c, v). set_col t c v r) r vals"

definition gw_update_task_status :: "string \<Rightarrow> payload \<Rightarrow> payload option \<Rightarrow> conn \<Rightarrow> payload result \<times> conn" where
  "gw_update_task_status tid data constraints c =
     (case and_then (subscript data ''updates'') as_object of
        Inl e \<Rightarrow> (Inl e, c)
      | Inr updates \<Rightarrow>
          handled is_service_error not_handled
            (seq begin_immediate (\<lambda>_.
             if list_ex (\<lambda>(col, v). col \<notin> set task_update_columns) updates then abort (ServiceError ''invalid_field'' 400)
             else
               seq (compile_constraints ''board_tasks'' ''task_id'' (JStr tid) (case constraints of None \<Rightarrow> [] | Some cs \<Rightarrow> cs)) (\<lambda>p.
               if updates = [] then throw_exn (PyError ''OperationalError'')
               else
                 seq (lift_result (bind_all (map (apsnd Inr) updates))) (\<lambda>vals.
                 seq (sql_update economy_schema ''board_tasks'' p (set_columns ''board_tasks'' vals)) (\<lambda>n.
                 seq (if n = 0 then
                        (case constraints of
                           Some cs \<Rightarrow> no_row_updated ''board_tasks'' ''task_id'' (JStr tid) cs ''task_not_found''
                         | None \<Rightarrow> abort (ServiceError ''task_not_found'' 404))
                      else give ()) (\<lambda>_.
                 seq (data_event data) (\<lambda>event_id.
                   finish [(''task_id'', JStr tid), (''status'', dget_or updates ''status'' (JStr [])),
                           (''event_id'', JInt event_id)]))))))) c)"

definition gw_record_asset :: "payload \<Rightarrow> payload option \<Rightarrow> conn \<Rightarrow> payload result \<times> conn" where
  "gw_record_asset data constraints =
     handled (\<lambda>_. False) (exists_error ''asset_exists'')
       (seq begin_immediate (\<lambda>_.
        seq (cross_table ''board_tasks'' ''task_id'' data constraints) (\<lambda>_.
        seq (insert_into ''board_assets''
          [(''asset_id'', subscript data ''asset_id''), (''task_id'', subscript data ''task_id''),
           (''uploader_id'', subscript data ''uploader_id''), (''filename'', subscript data ''filename''),
           (''content_type'', subscript data ''content_type''), (''size_bytes'', subscript data ''size_bytes''),
           (''storage_path'', subscript data ''storage_path''), (''content_hash'', Inr (jget data ''content_hash'')),
           (''uploaded_at'', subscript data ''uploaded_at'')]) (\<lambda>_.
        seq (data_event data) (\<lambda>event_id.
          finish [(''asset_id'', jget data ''asset_id''), (''event_id'', JInt event_id)])))))"

section \<open>Reputation\<close>

definition gw_submit_feedback :: "payload \<Rightarrow> conn \<Rightarrow> payload result \<times> conn" where
  "gw_submit_feedback data =
     (let reveal = dget_or data ''reveal_reverse'' (JBool False);
          reverse_id = jget data ''reverse_feedback_id''
      in handled (\<lambda>_. False) (exists_error ''feedback_exists'')
       (seq begin_immediate (\<lambda>_.
        seq (insert_into ''reputation_feedback''
          [(''feedback_id'', subscript data ''feedback_id''), (''task_id'', subscript data ''task_id''),
           (''from_agent_id'', subscript data ''from_agent_id''), (''to_agent_id'', subscript data ''to_agent_id''),
           (''role'', subscript data ''role''), (''category'', subscript data ''category''),
           (''rating'', subscript data ''rating''), (''comment'', Inr (jget data ''comment'')),
           (''submitted_at'', subscript data ''submitted_at''), (''visible'', Inr (JInt (if truthy reveal then 1 else 0)))]) (\<lambda>_.
        seq (if truthy reveal \<and> reverse_id \<noteq> JNull then
               seq (lift_result (bind_all [(''feedback_id'', Inr reverse_id)])) (\<lambda>ps.
               seq (sql_update economy_schema ''reputation_feedback''
                      (where_is ''reputation_feedback'' ''feedback_id'' (dget_or ps ''feedback_id'' SNull))
                      (set_col ''reputation_feedback'' ''visible'' (SInt 1))) (\<lambda>_. give ()))
             else give ()) (\<lambda>_.
        seq (data_event data) (\<lambda>event_id.
          finish [(''feedback_id'', jget data ''feedback_id''), (''visible'', reveal), (''event_id'', JInt event_id)]))))))"

section \<open>Court\<close>

definition gw_file_claim :: "payload \<Rightarrow> conn \<Rightarrow> payload result \<times> conn" where
  "gw_file_claim data =
     handled (\<lambda>_. False) (exists_error ''claim_exists'')
       (seq begin_immediate (\<lambda>_.
        seq (insert_into ''court_claims''
          [(''claim_id'', subscript data ''claim_id''), (''task_id'', subscript data ''task_id''),
           (''claimant_id'', subscript data ''claimant_id''), (''respondent_id'', subscript data ''respondent_id''),
           (''reason'', subscript data ''reason''), (''status'', subscript data ''status''),
           (''rebuttal_deadline'', Inr (jget data ''rebuttal_deadline'')), (''filed_at'', subscript data ''filed_at'')]) (\<lambda>_.
        seq (data_event data) (\<lambda>event_id.
          finish [(''claim_id'', jget data ''claim_id''), (''event_id'', JInt event_id)]))))"

text \<open>UPDATE court\_claims SET status, with or without constraints; the number of rows.\<close>

definition set_claim_status :: "json result \<Rightarrow> json \<Rightarrow> payload option \<Rightarrow> nat step" where
  "set_claim_status status claim_id constraints =
     seq (compile_constraints ''court_claims'' ''claim_id'' claim_id (case constraints of None \<Rightarrow> [] | Some cs \<Rightarrow> cs)) (\<lambda>p.
     seq (lift_result (bind_all [(''status'', status)])) (\<lambda>ps.
       sql_update economy_schema ''court_claims'' p (set_col ''court_claims'' ''status'' (dget_or ps ''status'' SNull))))"

definition gw_update_claim_status :: "string \<Rightarrow> payload \<Rightarrow> payload option \<Rightarrow> conn \<Rightarrow> payload result \<times> conn" where
  "gw_update_claim_status cid data constraints =
     handled is_service_error not_handled
       (seq begin_immediate (\<lambda>_.
        seq (set_claim_status (subscript data ''status'') (JStr cid) constraints) (\<lambda>n.
        seq (if n = 0 then
               (case constraints of
                  Some cs \<Rightarrow> no_row_updated ''court_claims'' ''claim_id'' (JStr cid) cs ''claim_not_found''
                | None \<Rightarrow> abort (ServiceError ''claim_not_found'' 404))
             else give ()) (\<lambda>_.
        seq (if jget data ''event'' = JNull then give 0
             else seq (lift_result (as_object (jget data ''event''))) insert_event) (\<lambda>event_id.
          finish [(''claim_id'', JStr cid), (''status'', jget data ''status''), (''event_id'', JInt event_id)])))))"

definition gw_submit_rebuttal :: "payload \<Rightarrow> payload option \<Rightarrow> conn \<Rightarrow> payload result \<times> conn" where
  "gw_submit_rebuttal data constraints =
     (let claim_status = jget data ''claim_status_update''
      in handled (\<lambda>_. False) (exists_error ''rebuttal_exists'')
       (seq begin_immediate (\<lambda>_.
        seq (insert_into ''court_rebuttals''
          [(''rebuttal_id'', subscript data ''rebuttal_id''), (''claim_id'', subscript data ''claim_id''),
           (''agent_id'', subscript data ''agent_id''), (''content'', subscript data ''content''),
           (''submitted_at'', subscript data ''submitted_at'')]) (\<lambda>_.
        seq (if claim_status \<noteq> JNull then
               seq (set_claim_status (Inr claim_status) (jget data ''claim_id'') constraints) (\<lambda>n.
               case constraints of
                 Some cs \<Rightarrow>
                   if n = 0 then no_row_updated ''court_claims'' ''claim_id'' (jget data ''claim_id'') cs ''claim_not_found''
                   else give ()
               | None \<Rightarrow> give ())
             else cross_table ''court_claims'' ''claim_id'' data constraints) (\<lambda>_.
        seq (data_event data) (\<lambda>event_id.
          finish [(''rebuttal_id'', jget data ''rebuttal_id''), (''event_id'', JInt event_id)]))))))"

definition gw_record_ruling :: "payload \<Rightarrow> conn \<Rightarrow> payload result \<times> conn" where
  "gw_record_ruling data =
     (let claim_status = jget data ''claim_status_update''
      in handled (\<lambda>_. False) (exists_error ''ruling_exists'')
       (seq begin_immediate (\<lambda>_.
        seq (insert_into ''court_rulings''
          [(''ruling_id'', subscript data ''ruling_id''), (''claim_id'', subscript data ''claim_id''),
           (''task_id'', subscript data ''task_id''), (''worker_pct'', subscript data ''worker_pct''),
           (''summary'', subscript data ''summary''), (''judge_votes'', subscript data ''judge_votes''),
           (''ruled_at'', subscript data ''ruled_at'')]) (\<lambda>_.
        seq (if claim_status \<noteq> JNull then
               seq (set_claim_status (Inr claim_status) (jget data ''claim_id'') None) (\<lambda>_. give ())
             else give ()) (\<lambda>_.
        seq (data_event data) (\<lambda>event_id.
          finish [(''ruling_id'', jget data ''ruling_id''), (''event_id'', JInt event_id)]))))))"

text \<open>This one begins no transaction of its own and commits what is open.\<close>

definition gw_delete_ruling :: "string \<Rightarrow> conn \<Rightarrow> payload result \<times> conn" where
  "gw_delete_ruling cid c =
     (let d = cn_data c;
          hit = where_is ''court_rulings'' ''claim_id'' (SText cid)
      in (Inr [(''deleted'', JBool (list_ex hit (d ''court_rulings''))), (''claim_id'', JStr cid)],
          commit (put_data (d(''court_rulings'' := filter (\<lambda>r. \<not> hit r) (d ''court_rulings''))) c)))"

definition gw_total_events :: "conn \<Rightarrow> nat" where
  "gw_total_events c = length (cn_data c ''events'')"

end
