(* ===== verification/Gateway_Reader.thy ===== *)
theory Gateway_Reader
  imports Gateway_Writer
begin

text \<open>
  The gateway's queries, \<^verbatim>\<open>services/db_reader.py\<close>, on the data its connection sees. Where the code leaves the
  order of equal keys to SQLite, the rows keep their order of insertion.
\<close>

definition row_json :: "string \<Rightarrow> row \<Rightarrow> json" where
  "row_json t r = JObj (map (\<lambda>c. (c, cell_json (r c))) (td_columns (economy_schema t)))"

definition rows_where :: "string \<Rightarrow> (string \<times> string option) list \<Rightarrow> database \<Rightarrow> row list" where
  "rows_where t conds d =
     filter (\<lambda>r. list_all (\<lambda>(c, v). case v of None \<Rightarrow> True | Some s \<Rightarrow> where_is t c (SText s) r) conds) (d t)"

definition row_where :: "string \<Rightarrow> (string \<times> string option) list \<Rightarrow> database \<Rightarrow> json option" where
  "row_where t conds d = map_option (row_json t) (fetchone (rows_where t conds d))"

section \<open>Identity and bank\<close>

definition rd_get_agent :: "string \<Rightarrow> database \<Rightarrow> json option" where
  "rd_get_agent a = row_where ''identity_agents'' [(''agent_id'', Some a)]"

definition rd_list_agents :: "string option \<Rightarrow> database \<Rightarrow> json list" where
  "rd_list_agents key d =
     map (row_json ''identity_agents'') (order_by [''registered_at''] (rows_where ''identity_agents'' [(''public_key'', key)] d))"

definition rd_count :: "string \<Rightarrow> database \<Rightarrow> nat" where
  "rd_count t d = length (d t)"

definition rd_get_account :: "string \<Rightarrow> database \<Rightarrow> json option" where
  "rd_get_account a = row_where ''bank_accounts'' [(''account_id'', Some a)]"

definition rd_get_transactions :: "string \<Rightarrow> database \<Rightarrow> json list" where
  "rd_get_transactions a d =
     map (row_json ''bank_transactions'')
       (order_by [''timestamp'', ''tx_id''] (rows_where ''bank_transactions'' [(''account_id'', Some a)] d))"

text \<open>\<^verbatim>\<open>SUM\<close> of integers raises when it leaves 64 bits.\<close>

fun sum_amounts :: "row list \<Rightarrow> int" where
  "sum_amounts [] = 0"
| "sum_amounts (r # rs) = (case cell_num (r ''amount'') of None \<Rightarrow> 0 | Some n \<Rightarrow> n) + sum_amounts rs"

definition rd_total_escrowed :: "database \<Rightarrow> int result" where
  "rd_total_escrowed d =
     (let total = sum_amounts (rows_where ''bank_escrow'' [(''status'', Some ''locked'')] d)
      in if fits64 total then Inr total else Inl (PyError ''OperationalError''))"

definition rd_get_escrow :: "string \<Rightarrow> database \<Rightarrow> json option" where
  "rd_get_escrow k = row_where ''bank_escrow'' [(''escrow_id'', Some k)]"

section \<open>Board\<close>

definition rd_get_task :: "string \<Rightarrow> database \<Rightarrow> json option" where
  "rd_get_task tid = row_where ''board_tasks'' [(''task_id'', Some tid)]"

text \<open>
  A negative LIMIT is none, a negative OFFSET is 0; OFFSET without LIMIT is a syntax error, and numbers must fit 64 bits.
\<close>

definition rd_list_tasks ::
    "string option \<Rightarrow> string option \<Rightarrow> string option \<Rightarrow> int option \<Rightarrow> int option \<Rightarrow> database \<Rightarrow> json list result" where
  "rd_list_tasks status poster worker limit offset d =
     (let rows = rows_where ''board_tasks'' [(''status'', status), (''poster_id'', poster), (''worker_id'', worker)] d;
          newest = rev (order_by [''created_at''] (rev rows));
          skipped = drop (nat (case offset of None \<Rightarrow> 0 | Some n \<Rightarrow> n)) newest
      in if offset \<noteq> None \<and> limit = None then Inl (PyError ''OperationalError'')
         else if list_ex (\<lambda>x. case x of None \<Rightarrow> False | Some n \<Rightarrow> \<not> fits64 n) [limit, offset] then Inl (PyError ''OverflowError'')
         else Inr (map (row_json ''board_tasks'')
                (case limit of None \<Rightarrow> newest | Some n \<Rightarrow> if n < 0 then skipped else take (nat n) skipped)))"

fun count_by :: "string list \<Rightarrow> row list \<Rightarrow> payload" where
  "count_by [] rs = []"
| "count_by (s # ss) rs = (s, JInt (int (length (filter (\<lambda>r. r ''status'' = SText s) rs)))) # count_by ss rs"

definition rd_count_tasks_by_status :: "database \<Rightarrow> payload" where
  "rd_count_tasks_by_status d =
     count_by (sort (remdups (map (\<lambda>r. text_key (r ''status'')) (d ''board_tasks'')))) (d ''board_tasks'')"

definition rd_get_bid :: "string \<Rightarrow> string \<Rightarrow> database \<Rightarrow> json option" where
  "rd_get_bid bid tid = row_where ''board_bids'' [(''bid_id'', Some bid), (''task_id'', Some tid)]"

definition rd_get_bids_for_task :: "string \<Rightarrow> database \<Rightarrow> json list" where
  "rd_get_bids_for_task tid d =
     map (row_json ''board_bids'') (order_by [''submitted_at''] (rows_where ''board_bids'' [(''task_id'', Some tid)] d))"

definition rd_get_asset :: "string \<Rightarrow> string \<Rightarrow> database \<Rightarrow> json option" where
  "rd_get_asset aid tid = row_where ''board_assets'' [(''asset_id'', Some aid), (''task_id'', Some tid)]"

definition rd_get_assets_for_task :: "string \<Rightarrow> database \<Rightarrow> json list" where
  "rd_get_assets_for_task tid d =
     map (row_json ''board_assets'') (order_by [''uploaded_at''] (rows_where ''board_assets'' [(''task_id'', Some tid)] d))"

definition rd_count_assets :: "string \<Rightarrow> database \<Rightarrow> nat" where
  "rd_count_assets tid d = length (rows_where ''board_assets'' [(''task_id'', Some tid)] d)"

section \<open>Reputation and court\<close>

text \<open>\<^verbatim>\<open>bool(row[9])\<close> for the last column.\<close>

definition feedback_row_json :: "row \<Rightarrow> json" where
  "feedback_row_json r =
     JObj (map (\<lambda>c. (c, if c = ''visible'' then JBool (truthy (cell_json (r c))) else cell_json (r c)))
       (td_columns reputation_feedback))"

definition rd_get_feedback :: "string \<Rightarrow> database \<Rightarrow> json option" where
  "rd_get_feedback k d =
     map_option feedback_row_json (fetchone (rows_where ''reputation_feedback'' [(''feedback_id'', Some k)] d))"

definition rd_get_feedback_by :: "string \<Rightarrow> string \<Rightarrow> database \<Rightarrow> json list" where
  "rd_get_feedback_by column v d =
     map feedback_row_json (order_by [''submitted_at''] (rows_where ''reputation_feedback'' [(column, Some v)] d))"

definition rd_get_claim :: "string \<Rightarrow> database \<Rightarrow> json option" where
  "rd_get_claim k = row_where ''court_claims'' [(''claim_id'', Some k)]"

definition rd_list_claims :: "string option \<Rightarrow> string option \<Rightarrow> database \<Rightarrow> json list" where
  "rd_list_claims status claimant d =
     map (row_json ''court_claims'')
       (order_by [''filed_at''] (rows_where ''court_claims'' [(''status'', status), (''claimant_id'', claimant)] d))"

definition rd_get_rebuttal :: "string \<Rightarrow> database \<Rightarrow> json option" where
  "rd_get_rebuttal k = row_where ''court_rebuttals'' [(''claim_id'', Some k)]"

definition rd_get_ruling :: "string \<Rightarrow> database \<Rightarrow> json option" where
  "rd_get_ruling k = row_where ''court_rulings'' [(''claim_id'', Some k)]"

definition rd_count_active_claims :: "database \<Rightarrow> nat" where
  "rd_count_active_claims d = length (filter (\<lambda>r. r ''status'' \<noteq> SText ''ruled'' \<and> r ''status'' \<noteq> SNull) (d ''court_claims''))"

end
