(* ===== verification/Gateway_Api.thy ===== *)
theory Gateway_Api
  imports Gateway_Reader
begin

text \<open>
  The gateway's HTTP interface, \<^verbatim>\<open>routers/helpers.py\<close> and the routers: what a body must hold before its
  transaction runs, and the routes. The connection is absent until the service has started. The middleware's
  content type and size checks are left out; paths are their segments.
\<close>

section \<open>Helpers\<close>

fun validate_required_fields :: "payload \<Rightarrow> string list \<Rightarrow> unit result" where
  "validate_required_fields data [] = Inr ()"
| "validate_required_fields data (k # ks) =
     (case jget data k of
        JNull \<Rightarrow> fail ''missing_field'' 400
      | JStr s \<Rightarrow> if blank s then fail ''missing_field'' 400 else validate_required_fields data ks
      | _ \<Rightarrow> validate_required_fields data ks)"

definition event_required_fields :: "string list" where
  "event_required_fields = [''event_source'', ''event_type'', ''timestamp'', ''summary'', ''payload'']"

definition validate_event :: "payload \<Rightarrow> unit result" where
  "validate_event data =
     (case jget data ''event'' of
        JObj event \<Rightarrow> validate_required_fields event event_required_fields
      | _ \<Rightarrow> fail ''missing_field'' 400)"

definition validate_positive_integer :: "payload \<Rightarrow> string \<Rightarrow> unit result" where
  "validate_positive_integer data k =
     (case strict_int (jget data k) of
        Some n \<Rightarrow> if n \<le> 0 then fail ''invalid_amount'' 400 else Inr ()
      | None \<Rightarrow> fail ''invalid_amount'' 400)"

definition validate_non_negative_integer :: "payload \<Rightarrow> string \<Rightarrow> unit result" where
  "validate_non_negative_integer data k =
     (case strict_int (jget data k) of
        Some n \<Rightarrow> if n < 0 then fail ''invalid_amount'' 400 else Inr ()
      | None \<Rightarrow> fail ''invalid_amount'' 400)"

definition validate_constraints :: "payload \<Rightarrow> payload option result" where
  "validate_constraints data =
     (case jget data ''constraints'' of
        JNull \<Rightarrow> Inr None
      | JObj cs \<Rightarrow> Inr (if cs = [] then None else Some cs)
      | _ \<Rightarrow> fail ''invalid_constraints'' 400)"

text \<open>Every endpoint: its checks, the connection, the transaction.\<close>

definition gw_post ::
    "nat \<Rightarrow> (payload \<Rightarrow> 'a result) \<Rightarrow> (payload \<Rightarrow> 'a \<Rightarrow> conn \<Rightarrow> payload result \<times> conn) \<Rightarrow> json option \<Rightarrow> conn option \<Rightarrow>
     (nat \<times> json option) \<times> conn option" where
  "gw_post status checks run body st =
     (case and_then (parse_json_body body) (\<lambda>data. and_then (checks data) (\<lambda>x. Inr (data, x))) of
        Inl e \<Rightarrow> (error_response e, st)
      | Inr (data, x) \<Rightarrow>
          (case st of
             None \<Rightarrow> (error_response (ServiceError ''service_not_ready'' 503), None)
           | Some c \<Rightarrow> (let (r, c') = run data x c in (response_of status id r, Some c'))))"

definition gw_get :: "(database \<Rightarrow> nat \<times> json option) \<Rightarrow> conn option \<Rightarrow> (nat \<times> json option) \<times> conn option" where
  "gw_get query st =
     (case st of
        None \<Rightarrow> (error_response (ServiceError ''service_not_ready'' 503), None)
      | Some c \<Rightarrow> (query (cn_data c), st))"

text \<open>Three listings say something else before the service has started.\<close>

definition gw_list :: "(database \<Rightarrow> nat \<times> json option) \<Rightarrow> conn option \<Rightarrow> (nat \<times> json option) \<times> conn option" where
  "gw_list query st =
     (case st of
        None \<Rightarrow> (error_response (ServiceError ''method_not_allowed'' 405), None)
      | Some c \<Rightarrow> (query (cn_data c), st))"

definition found :: "string \<Rightarrow> json option \<Rightarrow> nat \<times> json option" where
  "found code r = (case r of None \<Rightarrow> error_response (ServiceError code 404) | Some j \<Rightarrow> (200, Some j))"

definition field_of :: "string \<Rightarrow> json \<Rightarrow> nat \<times> json option" where
  "field_of k j = (200, Some (JObj [(k, j)]))"

definition count_json :: "nat \<Rightarrow> nat \<times> json option" where
  "count_json n = field_of ''count'' (JInt (int n))"

section \<open>Checks of the bodies\<close>

definition register_checks :: "payload \<Rightarrow> unit result" where
  "register_checks data =
     and_then (validate_required_fields data [''agent_id'', ''name'', ''public_key'', ''registered_at'']) (\<lambda>_. validate_event data)"

definition create_account_checks :: "payload \<Rightarrow> unit result" where
  "create_account_checks data =
     and_then (validate_required_fields data [''account_id'', ''created_at'']) (\<lambda>_.
     and_then (validate_event data) (\<lambda>_.
     and_then (validate_non_negative_integer data ''balance'') (\<lambda>_.
       if (case strict_int (jget data ''balance'') of None \<Rightarrow> False | Some n \<Rightarrow> 0 < n) then
         (case jget data ''initial_credit'' of
            JObj credit \<Rightarrow>
              and_then (validate_required_fields credit [''tx_id'', ''amount'', ''reference'', ''timestamp''])
                (\<lambda>_. validate_positive_integer credit ''amount'')
          | _ \<Rightarrow> fail ''missing_field'' 400)
       else Inr ())))"

definition credit_checks :: "payload \<Rightarrow> unit result" where
  "credit_checks data =
     and_then (validate_required_fields data [''tx_id'', ''account_id'', ''amount'', ''reference'', ''timestamp'']) (\<lambda>_.
     and_then (validate_event data) (\<lambda>_. validate_positive_integer data ''amount''))"

definition lock_checks :: "payload \<Rightarrow> unit result" where
  "lock_checks data =
     and_then (validate_required_fields data
       [''escrow_id'', ''payer_account_id'', ''amount'', ''task_id'', ''created_at'', ''tx_id'']) (\<lambda>_.
     and_then (validate_event data) (\<lambda>_. validate_positive_integer data ''amount''))"

text \<open>The checks of bodies with constraints give the constraints.\<close>

definition constrained_checks :: "string list \<Rightarrow> payload \<Rightarrow> payload option result" where
  "constrained_checks required data =
     and_then (validate_required_fields data required) (\<lambda>_.
     and_then (validate_constraints data) (\<lambda>cs.
     and_then (validate_event data) (\<lambda>_. Inr cs)))"

definition release_checks :: "payload \<Rightarrow> payload option result" where
  "release_checks = constrained_checks [''escrow_id'', ''recipient_account_id'', ''tx_id'', ''resolved_at'']"

definition split_checks :: "payload \<Rightarrow> payload option result" where
  "split_checks data =
     and_then (constrained_checks [''escrow_id'', ''worker_account_id'', ''poster_account_id'', ''worker_tx_id'',
       ''poster_tx_id'', ''resolved_at''] data) (\<lambda>cs.
     and_then (validate_non_negative_integer data ''worker_amount'') (\<lambda>_.
     and_then (validate_non_negative_integer data ''poster_amount'') (\<lambda>_. Inr cs)))"

text \<open>Defaults the router fills in are the ones the transaction uses for a missing key.\<close>

definition create_task_checks :: "payload \<Rightarrow> unit result" where
  "create_task_checks data =
     and_then (validate_required_fields data [''task_id'', ''poster_id'', ''title'', ''spec'', ''reward'', ''status'',
       ''bidding_deadline_seconds'', ''deadline_seconds'', ''review_deadline_seconds'', ''bidding_deadline'',
       ''escrow_id'', ''created_at'']) (\<lambda>_.
     and_then (validate_event data) (\<lambda>_.
     and_then (validate_positive_integer data ''reward'') (\<lambda>_.
     and_then (if has_key data ''bid_count'' then validate_non_negative_integer data ''bid_count'' else Inr ()) (\<lambda>_.
       if has_key data ''escrow_pending'' then validate_non_negative_integer data ''escrow_pending'' else Inr ()))))"

definition bid_checks :: "payload \<Rightarrow> payload option result" where
  "bid_checks data =
     and_then (validate_required_fields data [''bid_id'', ''task_id'', ''bidder_id'', ''proposal'', ''submitted_at'']) (\<lambda>_.
     and_then (if has_key data ''amount'' then validate_positive_integer data ''amount'' else Inr ()) (\<lambda>_.
     and_then (validate_constraints data) (\<lambda>cs.
     and_then (validate_event data) (\<lambda>_. Inr cs))))"

definition task_status_checks :: "payload \<Rightarrow> payload option result" where
  "task_status_checks data =
     (case jget data ''updates'' of
        JObj updates \<Rightarrow>
          if updates = [] then fail ''empty_updates'' 400
          else and_then (validate_constraints data) (\<lambda>cs. and_then (validate_event data) (\<lambda>_. Inr cs))
      | _ \<Rightarrow> fail ''missing_field'' 400)"

definition asset_checks :: "payload \<Rightarrow> payload option result" where
  "asset_checks = constrained_checks [''asset_id'', ''task_id'', ''uploader_id'', ''filename'', ''content_type'',
     ''size_bytes'', ''storage_path'', ''uploaded_at'']"

definition feedback_checks :: "payload \<Rightarrow> unit result" where
  "feedback_checks data =
     and_then (validate_required_fields data [''feedback_id'', ''task_id'', ''from_agent_id'', ''to_agent_id'', ''role'',
       ''category'', ''rating'', ''submitted_at'']) (\<lambda>_. validate_event data)"

definition claim_checks :: "payload \<Rightarrow> unit result" where
  "claim_checks data =
     and_then (validate_required_fields data [''claim_id'', ''task_id'', ''claimant_id'', ''respondent_id'', ''reason'',
       ''status'', ''filed_at'']) (\<lambda>_. validate_event data)"

definition rebuttal_checks :: "payload \<Rightarrow> payload option result" where
  "rebuttal_checks = constrained_checks [''rebuttal_id'', ''claim_id'', ''agent_id'', ''content'', ''submitted_at'']"

definition ruling_checks :: "payload \<Rightarrow> unit result" where
  "ruling_checks data =
     and_then (validate_required_fields data [''ruling_id'', ''claim_id'', ''task_id'', ''worker_pct'', ''summary'',
       ''judge_votes'', ''ruled_at'']) (\<lambda>_. validate_event data)"

definition claim_status_checks :: "payload \<Rightarrow> payload option result" where
  "claim_status_checks data =
     and_then (validate_required_fields data [''status'']) (\<lambda>_. validate_constraints data)"

section \<open>Routes\<close>

text \<open>
  The answer to a path or method without a route, and the redirect of a trailing slash.
\<close>

definition no_route :: "nat \<times> json option" where
  "no_route = error_response (ServiceError ''http_error'' 404)"

definition no_method :: "nat \<times> json option" where
  "no_method = error_response (ServiceError ''method_not_allowed'' 405)"

definition post_only :: "string \<Rightarrow> (conn option \<Rightarrow> (nat \<times> json option) \<times> conn option) \<Rightarrow> conn option \<Rightarrow> (nat \<times> json option) \<times> conn option" where
  "post_only m f st = (if m = ''POST'' then f st else (no_method, st))"

definition get_only :: "string \<Rightarrow> (conn option \<Rightarrow> (nat \<times> json option) \<times> conn option) \<Rightarrow> conn option \<Rightarrow> (nat \<times> json option) \<times> conn option" where
  "get_only m f st = (if m = ''GET'' then f st else (no_method, st))"

definition int_param :: "(string, string) dict \<Rightarrow> string \<Rightarrow> int option result" where
  "int_param query k =
     (case dget query k of
        None \<Rightarrow> Inr None
      | Some s \<Rightarrow> (case py_int s of None \<Rightarrow> Inl (PyError ''ValueError'') | Some n \<Rightarrow> Inr (Some n)))"

definition gw_get_tasks :: "(string, string) dict \<Rightarrow> database \<Rightarrow> nat \<times> json option" where
  "gw_get_tasks query d =
     response_of 200 (\<lambda>ts. [(''tasks'', JList ts)])
       (and_then (int_param query ''limit'') (\<lambda>limit.
        and_then (int_param query ''offset'') (\<lambda>offset.
          rd_list_tasks (dget query ''status'') (dget query ''poster_id'') (dget query ''worker_id'') limit offset d)))"

definition gw_get_feedback_list :: "(string, string) dict \<Rightarrow> database \<Rightarrow> nat \<times> json option" where
  "gw_get_feedback_list query d =
     field_of ''feedback'' (JList
       (case dget query ''task_id'' of
          Some t \<Rightarrow> rd_get_feedback_by ''task_id'' t d
        | None \<Rightarrow> (case dget query ''agent_id'' of Some a \<Rightarrow> rd_get_feedback_by ''to_agent_id'' a d | None \<Rightarrow> [])))"

definition gw_delete :: "string \<Rightarrow> conn option \<Rightarrow> (nat \<times> json option) \<times> conn option" where
  "gw_delete cid st =
     (case st of
        None \<Rightarrow> (error_response (ServiceError ''service_not_ready'' 503), None)
      | Some c \<Rightarrow> (let (r, c') = gw_delete_ruling cid c in (response_of 200 id r, Some c')))"

text \<open>The size of the database file is left out of the health report.\<close>

definition gw_health :: "conn option \<Rightarrow> (nat \<times> json option) \<times> conn option" where
  "gw_health st =
     ((200, Some (JObj [(''status'', JStr ''ok''),
        (''total_events'', JInt (case st of None \<Rightarrow> 0 | Some c \<Rightarrow> int (gw_total_events c)))])), st)"

definition gw_collection ::
    "string \<Rightarrow> string \<Rightarrow> string \<Rightarrow> (string, string) dict \<Rightarrow> json option \<Rightarrow> conn option \<Rightarrow> (nat \<times> json option) \<times> conn option" where
  "gw_collection m a b query body st =
     (if a = ''identity'' \<and> b = ''agents'' then
        (if m = ''POST'' then gw_post 201 register_checks (\<lambda>data _. gw_register_agent data) body st
         else get_only m (gw_get (\<lambda>d. field_of ''agents'' (JList (rd_list_agents (dget query ''public_key'') d)))) st)
      else if a = ''bank'' \<and> b = ''accounts'' then
        post_only m (gw_post 201 create_account_checks (\<lambda>data _. gw_create_account data) body) st
      else if a = ''bank'' \<and> b = ''credit'' then
        post_only m (gw_post 200 credit_checks (\<lambda>data _. gw_credit_account data) body) st
      else if a = ''board'' \<and> b = ''tasks'' then
        (if m = ''POST'' then gw_post 201 create_task_checks (\<lambda>data _. gw_create_task data) body st
         else get_only m (gw_list (gw_get_tasks query)) st)
      else if a = ''board'' \<and> b = ''bids'' then post_only m (gw_post 201 bid_checks gw_submit_bid body) st
      else if a = ''board'' \<and> b = ''assets'' then post_only m (gw_post 201 asset_checks gw_record_asset body) st
      else if a = ''reputation'' \<and> b = ''feedback'' then
        (if m = ''POST'' then gw_post 201 feedback_checks (\<lambda>data _. gw_submit_feedback data) body st
         else get_only m (gw_list (gw_get_feedback_list query)) st)
      else if a = ''court'' \<and> b = ''claims'' then
        (if m = ''POST'' then gw_post 201 claim_checks (\<lambda>data _. gw_file_claim data) body st
         else get_only m (gw_list (\<lambda>d. field_of ''claims'' (JList (rd_list_claims (dget query ''status'') (dget query ''claimant_id'') d)))) st)
      else if a = ''court'' \<and> b = ''rebuttals'' then post_only m (gw_post 201 rebuttal_checks gw_submit_rebuttal body) st
      else if a = ''court'' \<and> b = ''rulings'' then
        post_only m (gw_post 201 ruling_checks (\<lambda>data _. gw_record_ruling data) body) st
      else (no_route, st))"

definition gw_item ::
    "string \<Rightarrow> string \<Rightarrow> string \<Rightarrow> string \<Rightarrow> (string, string) dict \<Rightarrow> json option \<Rightarrow> conn option \<Rightarrow>
     (nat \<times> json option) \<times> conn option" where
  "gw_item m a b k query body st =
     (if k = [] then ((307, None), st)
      else if a = ''identity'' \<and> b = ''agents'' then
        get_only m (gw_get (\<lambda>d. if k = ''count'' then count_json (rd_count ''identity_agents'' d)
          else found ''agent_not_found'' (rd_get_agent k d))) st
      else if a = ''bank'' \<and> b = ''accounts'' then
        get_only m (gw_get (\<lambda>d. if k = ''count'' then count_json (rd_count ''bank_accounts'' d)
          else found ''account_not_found'' (rd_get_account k d))) st
      else if a = ''bank'' \<and> b = ''escrow'' then
        (if k = ''lock'' \<and> m = ''POST'' then gw_post 201 lock_checks (\<lambda>data _. gw_escrow_lock data) body st
         else if k = ''release'' \<and> m = ''POST'' then gw_post 200 release_checks gw_escrow_release body st
         else if k = ''split'' \<and> m = ''POST'' then gw_post 200 split_checks gw_escrow_split body st
         else if k \<in> {''lock'', ''release'', ''split''} then (no_method, st)
         else get_only m (gw_get (\<lambda>d.
           if k = ''total-locked'' then response_of 200 (\<lambda>n. [(''total'', JInt n)]) (rd_total_escrowed d)
           else found ''escrow_not_found'' (rd_get_escrow k d))) st)
      else if a = ''board'' \<and> b = ''tasks'' then
        get_only m (gw_get (\<lambda>d. if k = ''count'' then count_json (rd_count ''board_tasks'' d)
          else if k = ''count-by-status'' then (200, Some (JObj (rd_count_tasks_by_status d)))
          else found ''task_not_found'' (rd_get_task k d))) st
      else if a = ''board'' \<and> b = ''bids'' then
        get_only m (gw_get (\<lambda>d. found ''bid_not_found'' (rd_get_bid k (dget_or query ''task_id'' []) d))) st
      else if a = ''board'' \<and> b = ''assets'' then
        get_only m (gw_get (\<lambda>d. found ''asset_not_found'' (rd_get_asset k (dget_or query ''task_id'' []) d))) st
      else if a = ''reputation'' \<and> b = ''feedback'' then
        get_only m (gw_get (\<lambda>d. if k = ''count'' then count_json (rd_count ''reputation_feedback'' d)
          else found ''feedback_not_found'' (rd_get_feedback k d))) st
      else if a = ''court'' \<and> b = ''claims'' then
        get_only m (gw_get (\<lambda>d. if k = ''count'' then count_json (rd_count ''court_claims'' d)
          else if k = ''count-active'' then count_json (rd_count_active_claims d)
          else found ''claim_not_found'' (rd_get_claim k d))) st
      else if a = ''court'' \<and> b = ''rulings'' then
        (if m = ''DELETE'' then gw_delete k st
         else get_only m (gw_get (\<lambda>d. found ''ruling_not_found'' (rd_get_ruling k d))) st)
      else (no_route, st))"

definition gw_part ::
    "string \<Rightarrow> string \<Rightarrow> string \<Rightarrow> string \<Rightarrow> string \<Rightarrow> json option \<Rightarrow> conn option \<Rightarrow> (nat \<times> json option) \<times> conn option" where
  "gw_part m a b k part body st =
     (if k = [] then (no_route, st)
      else if a = ''bank'' \<and> b = ''accounts'' \<and> part = ''transactions'' then
        get_only m (gw_get (\<lambda>d. field_of ''transactions'' (JList (rd_get_transactions k d)))) st
      else if a = ''board'' \<and> b = ''tasks'' \<and> part = ''status'' then
        post_only m (gw_post 200 task_status_checks (gw_update_task_status k) body) st
      else if a = ''board'' \<and> b = ''tasks'' \<and> part = ''bids'' then
        get_only m (gw_get (\<lambda>d. field_of ''bids'' (JList (rd_get_bids_for_task k d)))) st
      else if a = ''board'' \<and> b = ''tasks'' \<and> part = ''assets'' then
        get_only m (gw_get (\<lambda>d. field_of ''assets'' (JList (rd_get_assets_for_task k d)))) st
      else if a = ''court'' \<and> b = ''claims'' \<and> part = ''status'' then
        post_only m (gw_post 200 claim_status_checks (gw_update_claim_status k) body) st
      else if a = ''court'' \<and> b = ''claims'' \<and> part = ''rebuttal'' then
        get_only m (gw_get (\<lambda>d. found ''rebuttal_not_found'' (rd_get_rebuttal k d))) st
      else (no_route, st))"

record gw_request =
  gq_method :: string
  gq_path :: "string list"
  gq_query :: "(string, string) dict"
  gq_body :: "json option"

definition gateway_http :: "gw_request \<Rightarrow> conn option \<Rightarrow> (nat \<times> json option) \<times> conn option" where
  "gateway_http q st =
     (case gq_path q of
        [a] \<Rightarrow> if a = ''health'' then get_only (gq_method q) gw_health st else (no_route, st)
      | [a, b] \<Rightarrow> gw_collection (gq_method q) a b (gq_query q) (gq_body q) st
      | [a, b, k] \<Rightarrow> gw_item (gq_method q) a b k (gq_query q) (gq_body q) st
      | [a, b, k, part] \<Rightarrow> gw_part (gq_method q) a b k part (gq_body q) st
      | [a, b, k, part, sub] \<Rightarrow>
          if a = ''board'' \<and> b = ''tasks'' \<and> k \<noteq> [] \<and> part = ''assets'' \<and> sub = ''count''
          then get_only (gq_method q) (gw_get (\<lambda>d. count_json (rd_count_assets k d))) st
          else (no_route, st)
      | _ \<Rightarrow> (no_route, st))"

end
