(* ===== verification/Db_Client.thy ===== *)
theory Db_Client
  imports Gateway_Api Bank_Client
begin

text \<open>
  What the services' storage clients share: requests to the gateway over a network that may lose them or their
  answers, and the texts they send. Each client has a clock and identifiers of its own.
\<close>

section \<open>JSON as text\<close>

text \<open>\<^verbatim>\<open>json.dumps\<close> with its defaults; characters outside printable ASCII are escaped.\<close>

definition hex_digit :: "nat \<Rightarrow> char" where
  "hex_digit n = char_of (if n < 10 then 48 + n else 87 + n)"

definition escape_char :: "char \<Rightarrow> string" where
  "escape_char c =
     (if c = CHR 0x22 then [CHR 0x5C, CHR 0x22] else if c = CHR 0x5C then [CHR 0x5C, CHR 0x5C]
      else if c = CHR 0x0A then [CHR 0x5C, CHR ''n''] else if c = CHR 0x0D then [CHR 0x5C, CHR ''r'']
      else if c = CHR 0x09 then [CHR 0x5C, CHR ''t''] else if c = CHR 0x0C then [CHR 0x5C, CHR ''f'']
      else if c = CHR 0x08 then [CHR 0x5C, CHR ''b'']
      else
        let n = of_char c :: nat
        in if 32 \<le> n \<and> n \<le> 126 then [c]
           else [CHR 0x5C, CHR ''u'', CHR ''0'', CHR ''0'', hex_digit (n div 16), hex_digit (n mod 16)])"

definition quoted :: "string \<Rightarrow> string" where
  "quoted s = CHR 0x22 # concat (map escape_char s) @ [CHR 0x22]"

text \<open>Floats are not sent.\<close>

fun json_dumps :: "json \<Rightarrow> string" where
  "json_dumps JNull = ''null''"
| "json_dumps (JBool b) = (if b then ''true'' else ''false'')"
| "json_dumps (JInt n) = int_text n"
| "json_dumps (JFloat x) = ''NaN''"
| "json_dumps (JStr s) = quoted s"
| "json_dumps (JList xs) = CHR ''['' # join '', '' (map json_dumps xs) @ '']''"
| "json_dumps (JObj kvs) = CHR ''{'' # join '', '' (map (\<lambda>(k, v). quoted k @ '': '' @ json_dumps v) kvs) @ ''}''"

lemma dumps_obj_not_blank: "\<not> blank (json_dumps (JObj kvs))"
  by (simp add: blank_def strip_blank py_space_def)

section \<open>Requests\<close>

record gw_client = host +
  gw_link :: "conn bank_link"

definition gw_call :: "gw_request \<Rightarrow> gw_client \<Rightarrow> http_outcome \<times> gw_client" where
  "gw_call q w = (let (a, l) = http_call (gateway_http q) (gw_link w) in (a, w\<lparr>gw_link := l\<rparr>))"

definition gw_post_to :: "string list \<Rightarrow> payload \<Rightarrow> gw_client \<Rightarrow> http_outcome \<times> gw_client" where
  "gw_post_to path body =
     gw_call \<lparr>gq_method = ''POST'', gq_path = path, gq_query = [], gq_body = Some (JObj body)\<rparr>"

definition gw_get_from :: "string list \<Rightarrow> (string, string) dict \<Rightarrow> gw_client \<Rightarrow> http_outcome \<times> gw_client" where
  "gw_get_from path query =
     gw_call \<lparr>gq_method = ''GET'', gq_path = path, gq_query = query, gq_body = None\<rparr>"

text \<open>Without a response \<^verbatim>\<open>httpx\<close> raises.\<close>

fun response_or_raise :: "http_outcome \<Rightarrow> (nat \<times> json option) result" where
  "response_or_raise (Response st body) = Inr (st, body)"
| "response_or_raise ConnectFailed = Inl (PyError ''ConnectError'')"
| "response_or_raise TimedOut = Inl (PyError ''TimeoutException'')"
| "response_or_raise TransportError = Inl (PyError ''TransportError'')"

text \<open>\<^verbatim>\<open>_json\<close>: the response's object, or an empty one.\<close>

definition json_or_empty :: "json option \<Rightarrow> payload" where
  "json_or_empty body = (case body of Some (JObj d) \<Rightarrow> d | _ \<Rightarrow> [])"

definition gateway_error :: exn where
  "gateway_error = PyError ''RuntimeError''"

text \<open>\<^verbatim>\<open>isoformat(timespec="seconds")\<close> with a \<^verbatim>\<open>Z\<close>.\<close>

definition client_now :: "'a host_scheme \<Rightarrow> string \<times> 'a host_scheme" where
  "client_now w = (let (t, w1) = read_clock w in (iso_seconds t, w1))"

definition client_id :: "string \<Rightarrow> 'a host_scheme \<Rightarrow> string \<times> 'a host_scheme" where
  "client_id prefix w = (let (u, w1) = new_uuid w in (prefixed prefix u, w1))"

text \<open>The event of a write; absent fields are left out of the body.\<close>

definition event_body :: "string \<Rightarrow> string \<Rightarrow> string \<Rightarrow> (string \<times> json) list \<Rightarrow> string \<Rightarrow> payload \<Rightarrow> json" where
  "event_body source type now subjects summary details =
     JObj ([(''event_source'', JStr source), (''event_type'', JStr type), (''timestamp'', JStr now)] @ subjects @
       [(''summary'', JStr summary), (''payload'', JStr (json_dumps (JObj details)))])"

section \<open>Reading answers\<close>

text \<open>\<^verbatim>\<open>str(data[k])\<close> and \<^verbatim>\<open>int(data[k])\<close>.\<close>

definition field_text :: "payload \<Rightarrow> string \<Rightarrow> string result" where
  "field_text data k = and_then (subscript data k) (\<lambda>j. Inr (py_str j))"

definition number_of :: "payload \<Rightarrow> string \<Rightarrow> int result" where
  "number_of data k = and_then (subscript data k) int_of_json"

text \<open>A comprehension whose body may raise.\<close>

fun each :: "('a \<Rightarrow> 'b result) \<Rightarrow> 'a list \<Rightarrow> 'b list result" where
  "each f [] = Inr []"
| "each f (x # xs) = and_then (f x) (\<lambda>y. and_then (each f xs) (\<lambda>ys. Inr (y # ys)))"

text \<open>The objects among the items of a list.\<close>

definition objects_in :: "payload \<Rightarrow> string \<Rightarrow> payload list" where
  "objects_in data k = (case dget_or data k (JList []) of JList js \<Rightarrow> List.map_filter (\<lambda>j. case j of JObj d \<Rightarrow> Some d | _ \<Rightarrow> None) js | _ \<Rightarrow> [])"

text \<open>A client fills an identifier into a path as it is.\<close>

definition path_of :: "string list \<Rightarrow> string \<Rightarrow> string list \<Rightarrow> string list" where
  "path_of front k back_part = front @ split_on CHR ''/'' k @ back_part"

text \<open>A GET whose 404 means nothing is there; another answer than 200 is an error.\<close>

definition found_object :: "http_outcome \<Rightarrow> payload option result" where
  "found_object out =
     and_then (response_or_raise out) (\<lambda>(st, b).
       if st = 404 then Inr None else if st \<noteq> 200 then Inl gateway_error else Inr (Some (json_or_empty b)))"

definition answer_object :: "http_outcome \<Rightarrow> payload result" where
  "answer_object out =
     and_then (response_or_raise out) (\<lambda>(st, b). if st \<noteq> 200 then Inl gateway_error else Inr (json_or_empty b))"

definition gw_count :: "string list \<Rightarrow> gw_client \<Rightarrow> int result \<times> gw_client" where
  "gw_count path w = (let (out, w1) = gw_get_from path [] w in (and_then (answer_object out) (\<lambda>data. number_of data ''count''), w1))"

end
