(* ===== verification/Ledger_Db.thy ===== *)
theory Ledger_Db
  imports Db_Client
begin

text \<open>
  The Central Bank's ledger in production, \<^verbatim>\<open>services/ledger_db_client.py\<close>: each method asks the gateway over
  HTTP and translates its answers. Times are texts here, as they are stored.
\<close>

definition db_create_account :: "string \<Rightarrow> int \<Rightarrow> gw_client \<Rightarrow> payload result \<times> gw_client" where
  "db_create_account a initial_balance w =
     (if initial_balance < 0 then (fail ''invalid_amount'' 400, w)
      else
        let (now, w1) = client_now w;
            body = [(''account_id'', JStr a), (''balance'', JInt initial_balance), (''created_at'', JStr now),
              (''event'', event_body ''bank'' ''account.created'' now [(''agent_id'', JStr a)]
                 (''Account created for '' @ a) [(''agent_name'', JStr a)])];
            (credit, w2) = (if initial_balance > 0
               then (let (tid, w') = client_id ''tx-'' w1
                     in ([(''initial_credit'', JObj [(''tx_id'', JStr tid), (''amount'', JInt initial_balance),
                           (''reference'', JStr ''initial_balance''), (''timestamp'', JStr now)])], w'))
               else ([], w1));
            (out, w3) = gw_post_to [''bank'', ''accounts''] (body @ credit) w2
        in (and_then (response_or_raise out) (\<lambda>(st, b).
              if st = 409 then fail ''account_exists'' 409
              else if st \<notin> {200, 201} then Inl gateway_error
              else Inr [(''account_id'', JStr a), (''balance'', JInt initial_balance), (''created_at'', JStr now)]), w3))"

definition account_of :: "payload \<Rightarrow> payload result" where
  "account_of data =
     and_then (subscript data ''account_id'') (\<lambda>a.
     and_then (subscript data ''balance'') (\<lambda>b.
     and_then (int_of_json b) (\<lambda>n.
     and_then (subscript data ''created_at'') (\<lambda>t.
       Inr [(''account_id'', JStr (py_str a)), (''balance'', JInt n), (''created_at'', JStr (py_str t))]))))"

definition db_get_account :: "string \<Rightarrow> gw_client \<Rightarrow> payload option result \<times> gw_client" where
  "db_get_account a w =
     (let (out, w1) = gw_get_from [''bank'', ''accounts'', a] [] w
      in (and_then (response_or_raise out) (\<lambda>(st, b).
            if st = 404 then Inr None
            else if st \<noteq> 200 then Inl gateway_error
            else and_then (account_of (json_or_empty b)) (\<lambda>acc. Inr (Some acc))), w1))"

definition db_credit :: "string \<Rightarrow> int \<Rightarrow> string \<Rightarrow> gw_client \<Rightarrow> payload result \<times> gw_client" where
  "db_credit a amount ref w =
     (if amount \<le> 0 then (fail ''invalid_amount'' 400, w)
      else
        let (now, w1) = client_now w;
            (tid, w2) = client_id ''tx-'' w1;
            body = [(''tx_id'', JStr tid), (''account_id'', JStr a), (''amount'', JInt amount), (''reference'', JStr ref),
              (''timestamp'', JStr now),
              (''event'', event_body ''bank'' ''salary.paid'' now [(''agent_id'', JStr a)]
                 (''Credited '' @ int_text amount @ '' to '' @ a) [(''amount'', JInt amount)])];
            (out, w3) = gw_post_to [''bank'', ''credit''] body w2
        in (and_then (response_or_raise out) (\<lambda>(st, b).
              if st = 404 then fail ''account_not_found'' 404
              else if st = 409 \<and> error_code_of (json_or_empty b) [] \<in> {''reference_conflict'', ''constraint_violation''}
              then fail ''payload_mismatch'' 400
              else if st \<notin> {200, 201} then Inl gateway_error
              else
                and_then (int_of_json (dget_or (json_or_empty b) ''balance_after'' (JInt 0))) (\<lambda>n.
                  Inr [(''tx_id'', JStr (py_str (dget_or (json_or_empty b) ''tx_id'' (JStr tid)))),
                       (''balance_after'', JInt n)])), w3))"

definition transaction_item :: "payload \<Rightarrow> json result" where
  "transaction_item item =
     and_then (subscript item ''tx_id'') (\<lambda>tid. and_then (subscript item ''type'') (\<lambda>ty.
     and_then (and_then (subscript item ''amount'') int_of_json) (\<lambda>n.
     and_then (and_then (subscript item ''balance_after'') int_of_json) (\<lambda>b.
     and_then (subscript item ''reference'') (\<lambda>ref. and_then (subscript item ''timestamp'') (\<lambda>t.
       Inr (JObj [(''tx_id'', JStr (py_str tid)), (''type'', JStr (py_str ty)), (''amount'', JInt n),
         (''balance_after'', JInt b), (''reference'', JStr (py_str ref)), (''timestamp'', JStr (py_str t))])))))))"

fun transaction_items :: "json list \<Rightarrow> json list result" where
  "transaction_items [] = Inr []"
| "transaction_items (JObj item # js) =
     and_then (transaction_item item) (\<lambda>x. and_then (transaction_items js) (\<lambda>rest. Inr (x # rest)))"
| "transaction_items (_ # js) = transaction_items js"

definition db_get_transactions :: "string \<Rightarrow> gw_client \<Rightarrow> json list result \<times> gw_client" where
  "db_get_transactions a w =
     chain (db_get_account a w) (\<lambda>acc w1.
       if acc = None then (fail ''account_not_found'' 404, w1)
       else
         let (out, w2) = gw_get_from [''bank'', ''accounts'', a, ''transactions''] [] w1
         in (and_then (response_or_raise out) (\<lambda>(st, b).
               if st \<noteq> 200 then Inl gateway_error
               else transaction_items (case dget_or (json_or_empty b) ''transactions'' (JList []) of JList js \<Rightarrow> js | _ \<Rightarrow> [])), w2))"

definition db_escrow_lock :: "string \<Rightarrow> int \<Rightarrow> string \<Rightarrow> gw_client \<Rightarrow> payload result \<times> gw_client" where
  "db_escrow_lock payer amount task w =
     (if amount \<le> 0 then (fail ''invalid_amount'' 400, w)
      else
        let (now, w1) = client_now w;
            (eid, w2) = client_id ''esc-'' w1;
            (tid, w3) = client_id ''tx-'' w2;
            body = [(''escrow_id'', JStr eid), (''payer_account_id'', JStr payer), (''amount'', JInt amount),
              (''task_id'', JStr task), (''created_at'', JStr now), (''tx_id'', JStr tid),
              (''event'', event_body ''bank'' ''escrow.locked'' now [(''agent_id'', JStr payer), (''task_id'', JStr task)]
                 (''Escrow locked: '' @ int_text amount @ '' for task '' @ task)
                 [(''escrow_id'', JStr eid), (''amount'', JInt amount), (''title'', JStr task)])];
            (out, w4) = gw_post_to [''bank'', ''escrow'', ''lock''] body w3
        in (and_then (response_or_raise out) (\<lambda>(st, b).
              if st = 404 then fail ''account_not_found'' 404
              else if st = 402 then fail ''insufficient_funds'' 402
              else if st = 409 then fail ''escrow_already_locked'' 409
              else if st \<notin> {200, 201} then Inl gateway_error
              else Inr [(''escrow_id'', JStr (py_str (dget_or (json_or_empty b) ''escrow_id'' (JStr eid)))),
                        (''amount'', JInt amount), (''task_id'', JStr task), (''status'', JStr ''locked'')]), w4))"

text \<open>What both resolutions make of the gateway's refusals.\<close>

definition resolution_answer ::
    "(nat \<times> json option \<Rightarrow> payload result) \<Rightarrow> nat \<times> json option \<Rightarrow> payload result" where
  "resolution_answer accept answer =
     (case answer of (st, b) \<Rightarrow>
        if st = 404 then
          (if error_code_of (json_or_empty b) [] = ''account_not_found'' then fail ''account_not_found'' 404
           else fail ''escrow_not_found'' 404)
        else if st = 409 then fail ''escrow_already_resolved'' 409
        else if st \<notin> {200, 201} then Inl gateway_error
        else accept answer)"

definition db_escrow_release :: "string \<Rightarrow> string \<Rightarrow> gw_client \<Rightarrow> payload result \<times> gw_client" where
  "db_escrow_release eid recipient w =
     (let (now, w1) = client_now w;
          (tid, w2) = client_id ''tx-'' w1;
          body = [(''escrow_id'', JStr eid), (''recipient_account_id'', JStr recipient), (''tx_id'', JStr tid),
            (''resolved_at'', JStr now), (''constraints'', JObj [(''status'', JStr ''locked'')]),
            (''event'', event_body ''bank'' ''escrow.released'' now []
               (''Escrow '' @ eid @ '' released to '' @ recipient)
               [(''escrow_id'', JStr eid), (''recipient_id'', JStr recipient)])];
          (out, w3) = gw_post_to [''bank'', ''escrow'', ''release''] body w2
      in (and_then (response_or_raise out) (resolution_answer (\<lambda>(st, b).
            and_then (int_of_json (dget_or (json_or_empty b) ''amount'' (JInt 0))) (\<lambda>n.
              Inr [(''escrow_id'', JStr eid), (''status'', JStr ''released''), (''recipient'', JStr recipient),
                   (''amount'', JInt n)]))), w3))"

text \<open>The escrow is read first; the shares are computed here.\<close>

definition split_shares :: "string \<Rightarrow> int \<Rightarrow> payload \<Rightarrow> (int \<times> int) result" where
  "split_shares poster pct escrow =
     and_then (subscript escrow ''status'') (\<lambda>status.
       if py_str status \<noteq> ''locked'' then fail ''escrow_already_resolved'' 409
       else
         and_then (subscript escrow ''payer_account_id'') (\<lambda>payer.
           if py_str payer \<noteq> poster then fail ''payload_mismatch'' 400
           else
             and_then (and_then (subscript escrow ''amount'') int_of_json) (\<lambda>total.
               Inr (total * pct div 100, total - total * pct div 100))))"

definition db_escrow_split :: "string \<Rightarrow> string \<Rightarrow> int \<Rightarrow> string \<Rightarrow> gw_client \<Rightarrow> payload result \<times> gw_client" where
  "db_escrow_split eid worker pct poster w =
     (if pct < 0 \<or> 100 < pct then (fail ''invalid_amount'' 400, w)
      else
        let (out, w1) = gw_get_from [''bank'', ''escrow'', eid] [] w
        in chain (and_then (response_or_raise out) (\<lambda>(st, b).
                   if st = 404 then fail ''escrow_not_found'' 404
                   else if st \<noteq> 200 then Inl gateway_error
                   else split_shares poster pct (json_or_empty b)), w1) (\<lambda>(worker_amount, poster_amount) w1.
             let (now, w2) = client_now w1;
                 (wtid, w3) = client_id ''tx-'' w2;
                 (ptid, w4) = client_id ''tx-'' w3;
                 body = [(''escrow_id'', JStr eid), (''worker_account_id'', JStr worker), (''poster_account_id'', JStr poster),
                   (''worker_amount'', JInt worker_amount), (''poster_amount'', JInt poster_amount),
                   (''worker_tx_id'', JStr wtid), (''poster_tx_id'', JStr ptid), (''resolved_at'', JStr now),
                   (''constraints'', JObj [(''status'', JStr ''locked'')]),
                   (''event'', event_body ''bank'' ''escrow.split'' now []
                      (''Escrow '' @ eid @ '' split: worker='' @ int_text worker_amount @ '', poster='' @ int_text poster_amount)
                      [(''escrow_id'', JStr eid), (''worker_amount'', JInt worker_amount),
                       (''poster_amount'', JInt poster_amount)])];
                 (out, w5) = gw_post_to [''bank'', ''escrow'', ''split''] body w4
             in (and_then (response_or_raise out) (resolution_answer (\<lambda>_.
                   Inr [(''escrow_id'', JStr eid), (''status'', JStr ''split''), (''worker_amount'', JInt worker_amount),
                        (''poster_amount'', JInt poster_amount)])), w5)))"

definition db_number :: "string list \<Rightarrow> string \<Rightarrow> gw_client \<Rightarrow> int result \<times> gw_client" where
  "db_number path k w =
     (let (out, w1) = gw_get_from path [] w
      in (and_then (response_or_raise out) (\<lambda>(st, b).
            if st \<noteq> 200 then Inl gateway_error
            else and_then (subscript (json_or_empty b) k) int_of_json), w1))"

definition db_count_accounts :: "gw_client \<Rightarrow> int result \<times> gw_client" where
  "db_count_accounts = db_number [''bank'', ''accounts'', ''count''] ''count''"

definition db_total_escrowed :: "gw_client \<Rightarrow> int result \<times> gw_client" where
  "db_total_escrowed = db_number [''bank'', ''escrow'', ''total-locked''] ''total''"

end
