(* ===== verification/Gateway_Wp.thy ===== *)
theory Gateway_Wp
  imports Gateway_Api
begin

text \<open>
  Preconditions of the gateway's statements inside one transaction: a statement either goes on with the transaction
  open, or fails in a way its handlers undo. A transaction that fails leaves the data as it was.
\<close>

section \<open>Statements in a transaction\<close>

text \<open>
  \<open>undone p d\<^sub>0 e c\<close>: the exception leaves the transaction closed and undone, or open where the handler will undo it;
  \<open>p\<close> are the exceptions the handler passes on as they are.
\<close>

fun undone :: "(exn \<Rightarrow> bool) \<Rightarrow> database \<Rightarrow> raised \<Rightarrow> conn \<Rightarrow> bool" where
  "undone p d\<^sub>0 (IntegrityError v) c = (cn_undo c = Some d\<^sub>0)"
| "undone p d\<^sub>0 (Raised e) c = (c = \<lparr>cn_data = d\<^sub>0, cn_undo = None\<rparr> \<or> cn_undo c = Some d\<^sub>0 \<and> \<not> p e)"

definition wp :: "(exn \<Rightarrow> bool) \<Rightarrow> database \<Rightarrow> 'a step \<Rightarrow> ('a \<Rightarrow> database \<Rightarrow> bool) \<Rightarrow> database \<Rightarrow> bool" where
  "wp p d\<^sub>0 m Q d \<longleftrightarrow>
     (case m \<lparr>cn_data = d, cn_undo = Some d\<^sub>0\<rparr> of
        (Inr x, c) \<Rightarrow> cn_undo c = Some d\<^sub>0 \<and> Q x (cn_data c)
      | (Inl e, c) \<Rightarrow> undone p d\<^sub>0 e c)"

text \<open>The last statement closes the transaction.\<close>

definition wp_end :: "(exn \<Rightarrow> bool) \<Rightarrow> database \<Rightarrow> payload step \<Rightarrow> (payload \<Rightarrow> database \<Rightarrow> bool) \<Rightarrow> database \<Rightarrow> bool" where
  "wp_end p d\<^sub>0 m Q d \<longleftrightarrow>
     (case m \<lparr>cn_data = d, cn_undo = Some d\<^sub>0\<rparr> of
        (Inr x, c) \<Rightarrow> cn_undo c = None \<and> Q x (cn_data c)
      | (Inl e, c) \<Rightarrow> undone p d\<^sub>0 e c)"

named_theorems wp_intros \<open>preconditions of statements\<close>

lemma conn_open: "cn_undo c = Some d\<^sub>0 \<Longrightarrow> c = \<lparr>cn_data = cn_data c, cn_undo = Some d\<^sub>0\<rparr>"
  by simp

lemma wp_Inr: "m \<lparr>cn_data = d, cn_undo = Some d\<^sub>0\<rparr> = (Inr x, c) \<Longrightarrow> wp p d\<^sub>0 m Q d \<longleftrightarrow> cn_undo c = Some d\<^sub>0 \<and> Q x (cn_data c)"
  by (simp add: wp_def)

lemma wp_Inl: "m \<lparr>cn_data = d, cn_undo = Some d\<^sub>0\<rparr> = (Inl e, c) \<Longrightarrow> wp p d\<^sub>0 m Q d \<longleftrightarrow> undone p d\<^sub>0 e c"
  by (simp add: wp_def)

lemma seq_Inr: "m c = (Inr x, c') \<Longrightarrow> seq m f c = f x c'"
  by (simp add: seq_def)

lemma seq_Inl: "m c = (Inl e, c') \<Longrightarrow> seq m f c = (Inl e, c')"
  by (simp add: seq_def)

lemma step_cases: obtains (raises) e c' where "m c = (Inl e, c')" | (returns) x c' where "m c = (Inr x, c')"
  by (metis prod.exhaust sum.exhaust)

lemma wp_seq [wp_intros]:
  assumes "wp p d\<^sub>0 m (\<lambda>x. wp p d\<^sub>0 (f x) Q) d"
  shows "wp p d\<^sub>0 (seq m f) Q d"
proof (cases rule: step_cases [of m "\<lparr>cn_data = d, cn_undo = Some d\<^sub>0\<rparr>"])
  case (raises e c')
  then show ?thesis using assms by (simp add: wp_Inl seq_Inl)
next
  case (returns x c')
  then have u: "c' = \<lparr>cn_data = cn_data c', cn_undo = Some d\<^sub>0\<rparr>" "wp p d\<^sub>0 (f x) Q (cn_data c')"
    using assms by (simp_all add: wp_Inr conn_open)
  have "seq m f \<lparr>cn_data = d, cn_undo = Some d\<^sub>0\<rparr> = f x \<lparr>cn_data = cn_data c', cn_undo = Some d\<^sub>0\<rparr>"
    using returns u(1) by (simp add: seq_Inr)
  then show ?thesis using u(2) by (simp add: wp_def)
qed

lemma wp_end_seq [wp_intros]:
  assumes "wp p d\<^sub>0 m (\<lambda>x. wp_end p d\<^sub>0 (f x) Q) d"
  shows "wp_end p d\<^sub>0 (seq m f) Q d"
proof (cases rule: step_cases [of m "\<lparr>cn_data = d, cn_undo = Some d\<^sub>0\<rparr>"])
  case (raises e c')
  then show ?thesis using assms by (simp add: wp_Inl wp_end_def seq_Inl)
next
  case (returns x c')
  then have u: "c' = \<lparr>cn_data = cn_data c', cn_undo = Some d\<^sub>0\<rparr>" "wp_end p d\<^sub>0 (f x) Q (cn_data c')"
    using assms by (simp_all add: wp_Inr conn_open)
  have "seq m f \<lparr>cn_data = d, cn_undo = Some d\<^sub>0\<rparr> = f x \<lparr>cn_data = cn_data c', cn_undo = Some d\<^sub>0\<rparr>"
    using returns u(1) by (simp add: seq_Inr)
  then show ?thesis using u(2) by (simp add: wp_end_def)
qed

lemma wp_mono: "wp p d\<^sub>0 m Q d \<Longrightarrow> (\<And>x d. Q x d \<Longrightarrow> R x d) \<Longrightarrow> wp p d\<^sub>0 m R d"
  by (auto simp: wp_def split: sum.splits prod.splits)

lemma wp_end_mono: "wp_end p d\<^sub>0 m Q d \<Longrightarrow> (\<And>x d. Q x d \<Longrightarrow> R x d) \<Longrightarrow> wp_end p d\<^sub>0 m R d"
  by (auto simp: wp_end_def split: sum.splits prod.splits)

lemma wp_give [wp_intros]: "Q x d \<Longrightarrow> wp p d\<^sub>0 (give x) Q d"
  by (simp add: wp_def give_def)

lemma wp_throw [wp_intros]: "\<not> p e \<Longrightarrow> wp p d\<^sub>0 (throw_exn e) Q d"
  by (simp add: wp_def throw_exn_def)

lemma wp_end_throw [wp_intros]: "\<not> p e \<Longrightarrow> wp_end p d\<^sub>0 (throw_exn e) Q d"
  by (simp add: wp_end_def throw_exn_def)

lemma wp_abort [wp_intros]: "wp p d\<^sub>0 (abort e) Q d"
  by (simp add: wp_def abort_def rollback_def)

lemma wp_end_abort [wp_intros]: "wp_end p d\<^sub>0 (abort e) Q d"
  by (simp add: wp_end_def abort_def rollback_def)

lemma wp_end_finish [wp_intros]: "Q x d \<Longrightarrow> wp_end p d\<^sub>0 (finish x) Q d"
  by (simp add: wp_end_def finish_def commit_def)

lemma wp_lift:
  "(\<And>x. r = Inr x \<Longrightarrow> Q x d) \<Longrightarrow> (\<And>e. r = Inl e \<Longrightarrow> \<not> p e) \<Longrightarrow> wp p d\<^sub>0 (lift_result r) Q d"
  by (cases r) (auto simp: wp_def lift_result_def)

lemma wp_select [wp_intros]: "Q (filter f (d t)) d \<Longrightarrow> wp p d\<^sub>0 (sql_select t f) Q d"
  by (simp add: wp_def sql_select_def)

lemma wp_insert_cells [wp_intros]:
  "(check_row sch d t (d t) (new_row sch t vals) = None \<Longrightarrow> Q () (d(t := d t @ [new_row sch t vals]))) \<Longrightarrow>
   wp p d\<^sub>0 (insert_cells sch t vals) Q d"
  by (auto simp: wp_def insert_cells_def Let_def put_data_def split: option.splits)

lemma wp_update [wp_intros]:
  "(\<And>n rs. update_rows (\<lambda>r others. check_row sch d t others r) f g [] (d t) = Inr (n, rs) \<Longrightarrow> Q n (d(t := rs))) \<Longrightarrow>
   wp p d\<^sub>0 (sql_update sch t f g) Q d"
  by (auto simp: wp_def sql_update_def Let_def put_data_def split: sum.splits prod.splits)

lemma wp_if [wp_intros]:
  "(b \<Longrightarrow> wp p d\<^sub>0 m Q d) \<Longrightarrow> (\<not> b \<Longrightarrow> wp p d\<^sub>0 n Q d) \<Longrightarrow> wp p d\<^sub>0 (if b then m else n) Q d"
  by simp

lemma wp_end_if [wp_intros]:
  "(b \<Longrightarrow> wp_end p d\<^sub>0 m Q d) \<Longrightarrow> (\<not> b \<Longrightarrow> wp_end p d\<^sub>0 n Q d) \<Longrightarrow> wp_end p d\<^sub>0 (if b then m else n) Q d"
  by simp

lemma wp_option [wp_intros]:
  "(x = None \<Longrightarrow> wp p d\<^sub>0 m Q d) \<Longrightarrow> (\<And>y. x = Some y \<Longrightarrow> wp p d\<^sub>0 (f y) Q d) \<Longrightarrow>
   wp p d\<^sub>0 (case x of None \<Rightarrow> m | Some y \<Rightarrow> f y) Q d"
  by (cases x) auto

lemma wp_end_option [wp_intros]:
  "(x = None \<Longrightarrow> wp_end p d\<^sub>0 m Q d) \<Longrightarrow> (\<And>y. x = Some y \<Longrightarrow> wp_end p d\<^sub>0 (f y) Q d) \<Longrightarrow>
   wp_end p d\<^sub>0 (case x of None \<Rightarrow> m | Some y \<Rightarrow> f y) Q d"
  by (cases x) auto

section \<open>Parameters\<close>

text \<open>Nothing raised while parameters are read or bound is a service error.\<close>

lemma subscript_Inl: "subscript d k = Inl e \<Longrightarrow> \<not> is_service_error e"
  by (auto simp: subscript_def split: option.splits)

lemma bind_param_Inl: "bind_param j = Inl e \<Longrightarrow> \<not> is_service_error e"
  by (cases j) (auto split: if_splits)

lemma and_then_Inl_iff: "and_then r f = Inl e \<longleftrightarrow> r = Inl e \<or> (\<exists>x. r = Inr x \<and> f x = Inl e)"
  by (cases r) auto

definition plain :: "'a result \<Rightarrow> bool" where
  "plain r \<longleftrightarrow> (\<forall>e. r = Inl e \<longrightarrow> \<not> is_service_error e)"

lemma plain_simps [simp]: "plain (Inr x)" "plain (subscript d k)" "plain (Inl (PyError t))"
  by (auto simp: plain_def subscript_Inl)

lemma plain_and_then [intro]: "plain r \<Longrightarrow> (\<And>x. r = Inr x \<Longrightarrow> plain (f x)) \<Longrightarrow> plain (and_then r f)"
  by (cases r) (auto simp: plain_def)

lemma plain_as_object [simp]: "plain (as_object j)"
  by (cases j) (auto simp: plain_def as_object_def)

lemma bind_all_plain: "\<forall>(c, r) \<in> set ps. plain r \<Longrightarrow> plain (bind_all ps)"
proof (induction ps rule: bind_all.induct)
  case (2 c r ps)
  have b: "plain (bind_param j)" for j using bind_param_Inl by (auto simp: plain_def)
  have "plain r" "plain (bind_all ps)" using 2 by auto
  then show ?case using b by (simp only: bind_all.simps) (intro plain_and_then plain_simps)
qed simp

text \<open>Bound parameters in the order of their names.\<close>

lemma bind_all_Cons:
  "bind_all ((c, r) # ps) = Inr vals \<longleftrightarrow> (\<exists>j v vs. r = Inr j \<and> bind_param j = Inr v \<and> bind_all ps = Inr vs \<and> vals = (c, v) # vs)"
  by auto

declare bind_all.simps(2) [simp del]

section \<open>Transactions\<close>

text \<open>A transaction whose handlers keep the connection leaves the data as it was unless it returns.\<close>

definition keeps_conn :: "(violation \<Rightarrow> conn \<Rightarrow> payload result \<times> conn) \<Rightarrow> bool" where
  "keeps_conn h \<longleftrightarrow> (\<forall>v c. snd (h v c) = c)"

lemma transaction_outcome:
  assumes "handled p h (seq begin_immediate (\<lambda>_. m)) c = (r, c')" "keeps_conn h" "cn_undo c = None"
    and "wp_end p (cn_data c) m Q (cn_data c)"
  obtains (failed) "c' = c" | (finished) x where "r = Inr x" "cn_undo c' = None" "Q x (cn_data c')"
proof -
  let ?o = "\<lparr>cn_data = cn_data c, cn_undo = Some (cn_data c)\<rparr>"
  note goal = that
  have o: "c\<lparr>cn_undo := Some (cn_data c)\<rparr> = ?o" by (cases c) simp
  have start: "seq begin_immediate (\<lambda>_. m) c = m ?o"
    using assms(3) by (simp add: seq_def begin_immediate_def o)
  have c: "c = \<lparr>cn_data = cn_data c, cn_undo = None\<rparr>" using assms(3) by simp
  obtain res c1 where m: "m ?o = (res, c1)" by fastforce
  show thesis
  proof (cases res)
    case (Inr x)
    then show thesis using goal(2) [of x] assms(1,4) m by (auto simp: handled_def start wp_end_def)
  next
    case (Inl e)
    have u: "undone p (cn_data c) e c1" using assms(4) m Inl by (simp add: wp_end_def)
    show thesis
    proof (cases e)
      case (IntegrityError v)
      then have "rollback c1 = c" using u c by (simp add: rollback_def)
      then have "h v c = (r, c')" using assms(1) m Inl IntegrityError by (simp add: handled_def start)
      then show thesis using goal(1) assms(2) unfolding keeps_conn_def by (metis snd_conv)
    next
      case (Raised x)
      then have "rollback c1 = c" "p x \<Longrightarrow> c1 = c" using u assms(3) by (auto simp: rollback_def)
      then show thesis using goal(1) assms(1) m Inl Raised by (auto simp: handled_def start split: if_splits)
    qed
  qed
qed

lemma keeps_conn_simps [simp]: "keeps_conn (exists_error code)" "keeps_conn not_handled"
  by (auto simp: keeps_conn_def exists_error_def not_handled_def)

section \<open>The gateway's own statements\<close>

text \<open>The handlers pass on service errors at most; names of constraints may be such an error.\<close>

definition passing :: "(exn \<Rightarrow> bool) \<Rightarrow> bool" where
  "passing p \<longleftrightarrow> (\<forall>e. p e \<longrightarrow> is_service_error e)"

lemma passing_simps [simp]: "passing is_service_error" "passing (\<lambda>_. False)"
  by (simp_all add: passing_def)

lemma passing_PyError [simp]: "passing p \<Longrightarrow> \<not> p (PyError t)"
  by (force simp: passing_def)

definition named_well :: "payload \<Rightarrow> bool" where
  "named_well conds \<longleftrightarrow> list_all (\<lambda>(c, v). is_identifier c) conds"

definition refused_here :: "(exn \<Rightarrow> bool) \<Rightarrow> payload \<Rightarrow> bool" where
  "refused_here p conds \<longleftrightarrow> \<not> p (ServiceError ''invalid_constraints'' 400) \<or> named_well conds"

lemma named_well_Cons [simp]: "named_well ((c, v) # cs) \<longleftrightarrow> is_identifier c \<and> named_well cs"
  by (simp add: named_well_def)

lemma identifiers [simp]: "is_identifier ''escrow_id''" "is_identifier ''task_id''" "is_identifier ''claim_id''"
  by (simp_all add: is_identifier_def identifier_char_def digit_def Let_def)

lemma refused_here_Cons: "is_identifier c \<Longrightarrow> refused_here p ((c, v) # cs) = refused_here p cs"
  by (simp add: refused_here_def)

lemma wp_plain [wp_intros]:
  "passing p \<Longrightarrow> plain r \<Longrightarrow> (\<And>x. r = Inr x \<Longrightarrow> Q x d) \<Longrightarrow> wp p d\<^sub>0 (lift_result r) Q d"
  by (rule wp_lift) (auto simp: plain_def passing_def)

lemma bind_all_rows_plain: "plain (bind_all (map (apsnd Inr) conds))"
  by (rule bind_all_plain) auto

lemma wp_conditions:
  assumes "passing p" "refused_here p conds"
    and "\<And>ps. bind_all (map (apsnd Inr) conds) = Inr ps \<Longrightarrow> Q (\<lambda>r. list_all (\<lambda>(c, v). where_is t c v r) ps) d"
  shows "wp p d\<^sub>0 (conditions t conds) Q d"
proof -
  have "list_ex (\<lambda>(c, v). \<not> is_identifier c) conds \<Longrightarrow> \<not> p (ServiceError ''invalid_constraints'' 400)"
    using assms(2) by (auto simp: refused_here_def named_well_def list_ex_iff list_all_iff)
  then show ?thesis
    unfolding conditions_def
    by (intro wp_if wp_throw wp_seq wp_plain bind_all_rows_plain wp_give) (use assms in auto)
qed

text \<open>What a read leaves is the connection as it was.\<close>

definition reads :: "'a step \<Rightarrow> bool" where
  "reads m \<longleftrightarrow> (\<forall>c. (\<exists>x. m c = (Inr x, c)) \<or> (\<exists>e. m c = (Inl (Raised e), c)))"

lemma reads_cases: "reads m \<Longrightarrow> (\<exists>x. m c = (Inr x, c)) \<or> (\<exists>e. m c = (Inl (Raised e), c))"
  by (simp add: reads_def)

lemma reads_seq: "reads m \<Longrightarrow> (\<And>x. reads (f x)) \<Longrightarrow> reads (seq m f)"
  unfolding reads_def [of "seq m f"]
proof
  fix c assume m: "reads m" and f: "\<And>x. reads (f x)"
  show "(\<exists>y. seq m f c = (Inr y, c)) \<or> (\<exists>e. seq m f c = (Inl (Raised e), c))"
    using reads_cases [OF m, of c]
  proof
    assume "\<exists>x. m c = (Inr x, c)"
    then obtain x where "m c = (Inr x, c)" by blast
    then show ?thesis using reads_cases [OF f, of x c] by (simp add: seq_Inr)
  qed (auto simp: seq_Inl)
qed

lemma reads_give: "reads (give x)"
  by (simp add: reads_def give_def)

lemma reads_throw: "reads (throw_exn e)"
  by (simp add: reads_def throw_exn_def)

lemma reads_lift: "reads (lift_result r)"
  by (cases r) (simp_all add: reads_def lift_result_def)

lemma reads_select: "reads (sql_select t f)"
  by (simp add: reads_def sql_select_def)

lemmas reads_simps = reads_give reads_throw reads_lift reads_select

lemma reads_conditions: "reads (conditions t conds)"
  by (simp add: conditions_def reads_seq reads_simps)

lemma reads_check_constraint_violation: "reads (check_constraint_violation t k v cs)"
  unfolding check_constraint_violation_def
  by (intro reads_seq reads_conditions reads_simps) (simp add: reads_simps split: option.split)

lemma wp_no_row_updated [wp_intros]:
  assumes "passing p" shows "wp p d\<^sub>0 (no_row_updated t k v cs code) Q d"
  using reads_cases [OF reads_check_constraint_violation, of t k v cs "\<lparr>cn_data = d, cn_undo = Some d\<^sub>0\<rparr>"] assms
  by (auto simp: wp_def no_row_updated_def abort_def rollback_def passing_def)

lemma wp_verify_cross_table_constraint:
  assumes "passing p" "\<not> p (ServiceError ''invalid_constraints'' 400)" "\<not> p (ServiceError ''constraint_violation'' 409)" "\<And>r. Q r d"
  shows "wp p d\<^sub>0 (verify_cross_table_constraint t conds) Q d"
  unfolding verify_cross_table_constraint_def
  by (intro wp_if wp_throw wp_seq wp_conditions wp_select wp_option wp_give)
    (use assms in \<open>auto simp: refused_here_def\<close>)

lemma wp_insert:
  assumes "passing p" "\<forall>(c, r) \<in> set ps. plain r"
    and "\<And>vals. bind_all ps = Inr vals \<Longrightarrow> check_row economy_schema d t (d t) (new_row economy_schema t vals) = None \<Longrightarrow>
      Q () (d(t := d t @ [new_row economy_schema t vals]))"
  shows "wp p d\<^sub>0 (insert_into t ps) Q d"
  unfolding sql_insert_def by (intro wp_seq wp_plain bind_all_plain wp_insert_cells) (use assms in auto)

lemma wp_insert_event [wp_intros]:
  assumes "passing p" "\<And>n r. Q n (d(''events'' := d ''events'' @ [r]))"
  shows "wp p d\<^sub>0 (insert_event event) Q d"
  unfolding insert_event_def
  by (intro wp_seq wp_plain bind_all_plain)
    (use assms in \<open>auto simp: wp_def insert_cells_def Let_def put_data_def split: option.splits\<close>)

lemma plain_event: "plain (and_then (subscript data k) as_object)"
  by (auto intro: plain_and_then)

lemma wp_data_event [wp_intros]:
  assumes "passing p" "\<And>n r. Q n (d(''events'' := d ''events'' @ [r]))"
  shows "wp p d\<^sub>0 (data_event data) Q d"
  unfolding data_event_def using assms by (intro wp_seq wp_plain plain_event wp_insert_event) auto

end
