(* ===== verification/Gateway_Atomic.thy ===== *)
theory Gateway_Atomic
  imports Gateway_Wp
begin

text \<open>
  Every transaction of the gateway either changes nothing or returns: the transactions of the other services leave the
  bank's tables alone.
\<close>

section \<open>Answers of transactions\<close>

definition answered :: "(payload \<Rightarrow> database \<Rightarrow> bool) \<Rightarrow> conn \<Rightarrow> payload result \<times> conn \<Rightarrow> bool" where
  "answered Q c a \<longleftrightarrow> snd a = c \<or> (\<exists>x. fst a = Inr x \<and> cn_undo (snd a) = None \<and> Q x (cn_data (snd a)))"

lemma answered_transaction:
  assumes "cn_undo c = None" "keeps_conn h" "wp_end p (cn_data c) m Q (cn_data c)"
  shows "answered Q c (handled p h (seq begin_immediate (\<lambda>_. m)) c)"
proof -
  obtain r c' where a: "handled p h (seq begin_immediate (\<lambda>_. m)) c = (r, c')" by fastforce
  show ?thesis using transaction_outcome [OF a assms(2,1,3)] by (auto simp: a answered_def)
qed

lemma answered_mono: "answered Q c a \<Longrightarrow> (\<And>x d. Q x d \<Longrightarrow> R x d) \<Longrightarrow> answered R c a"
  by (auto simp: answered_def)

lemma wp_end_at_data [wp_intros]:
  "wp_end p d\<^sub>0 (f (g d)) Q d \<Longrightarrow> wp_end p d\<^sub>0 (\<lambda>c. let b = g (cn_data c) in f b c) Q d"
  by (simp add: wp_end_def)

text \<open>The tables a transaction leaves alone.\<close>

definition same_on :: "string set \<Rightarrow> database \<Rightarrow> database \<Rightarrow> bool" where
  "same_on T d d' \<longleftrightarrow> (\<forall>t \<in> T. d' t = d t)"

lemma same_on_simps [simp]: "same_on T d d" "t \<notin> T \<Longrightarrow> same_on T d (d'(t := rs)) = same_on T d d'"
  "t \<notin> T \<Longrightarrow> same_on T d (\<lambda>a. if a = t then rs else d' a) = same_on T d d'"
  by (auto simp: same_on_def)

definition bank_tables :: "string set" where
  "bank_tables = {''bank_accounts'', ''bank_escrow'', ''bank_transactions''}"

lemma bank_tables [simp]:
  "''identity_agents'' \<notin> bank_tables" "''board_tasks'' \<notin> bank_tables" "''board_bids'' \<notin> bank_tables"
  "''board_assets'' \<notin> bank_tables" "''reputation_feedback'' \<notin> bank_tables" "''court_claims'' \<notin> bank_tables"
  "''court_rebuttals'' \<notin> bank_tables" "''court_rulings'' \<notin> bank_tables" "''events'' \<notin> bank_tables"
  by (simp_all add: bank_tables_def)

definition off_books :: "database \<Rightarrow> database \<Rightarrow> bool" where
  "off_books d d' \<longleftrightarrow> d' ''bank_accounts'' = d ''bank_accounts'' \<and> d' ''bank_escrow'' = d ''bank_escrow'' \<and>
     d' ''bank_transactions'' = d ''bank_transactions''"

lemma off_books_same_on: "off_books d d' \<longleftrightarrow> same_on bank_tables d d'"
  by (simp add: off_books_def same_on_def bank_tables_def)

lemma off_books_refl [simp]: "off_books d d"
  by (simp add: off_books_def)

lemma off_books_update [simp]:
  "off_books d (d'(t := rs)) \<longleftrightarrow> off_books d d'" if "t \<notin> {''bank_accounts'', ''bank_escrow'', ''bank_transactions''}"
  using that by (auto simp: off_books_def)

abbreviation kept_on :: "string set \<Rightarrow> conn \<Rightarrow> payload result \<times> conn \<Rightarrow> bool" where
  "kept_on T c \<equiv> answered (\<lambda>_. same_on T (cn_data c)) c"

lemma wp_cross_table [wp_intros]:
  assumes "passing p" "\<not> p (ServiceError ''invalid_constraints'' 400)" "\<not> p (ServiceError ''constraint_violation'' 409)" "Q () d"
  shows "wp p d\<^sub>0 (cross_table t k data cs) Q d"
  unfolding cross_table_def
  by (intro wp_option wp_give wp_seq wp_plain wp_verify_cross_table_constraint) (use assms in auto)

section \<open>Identity, board, reputation and court\<close>

lemma register_agent_answered: "cn_undo c = None \<Longrightarrow> ''identity_agents'' \<notin> T \<Longrightarrow> ''events'' \<notin> T \<Longrightarrow> kept_on T c (gw_register_agent data c)"
  unfolding gw_register_agent_def
  by (rule answered_transaction, assumption, simp add: keeps_conn_def split: option.split, (intro wp_intros wp_insert; simp))

lemma create_task_answered: "cn_undo c = None \<Longrightarrow> ''board_tasks'' \<notin> T \<Longrightarrow> ''events'' \<notin> T \<Longrightarrow> kept_on T c (gw_create_task data c)"
  unfolding gw_create_task_def
  by (rule answered_transaction, assumption, simp, (intro wp_intros wp_insert; simp))

lemma submit_bid_answered: "cn_undo c = None \<Longrightarrow> ''board_bids'' \<notin> T \<Longrightarrow> ''events'' \<notin> T \<Longrightarrow> kept_on T c (gw_submit_bid data cs c)"
  unfolding gw_submit_bid_def
  by (rule answered_transaction, assumption, simp, (intro wp_intros wp_insert; simp))

lemma record_asset_answered: "cn_undo c = None \<Longrightarrow> ''board_assets'' \<notin> T \<Longrightarrow> ''events'' \<notin> T \<Longrightarrow> kept_on T c (gw_record_asset data cs c)"
  unfolding gw_record_asset_def
  by (rule answered_transaction, assumption, simp, (intro wp_intros wp_insert; simp))

lemma file_claim_answered: "cn_undo c = None \<Longrightarrow> ''court_claims'' \<notin> T \<Longrightarrow> ''events'' \<notin> T \<Longrightarrow> kept_on T c (gw_file_claim data c)"
  unfolding gw_file_claim_def
  by (rule answered_transaction, assumption, simp, (intro wp_intros wp_insert; simp))

text \<open>Updates with constraints: their names must be identifiers where a service error is passed on.\<close>

definition named_or_none :: "payload option \<Rightarrow> bool" where
  "named_or_none cs \<longleftrightarrow> (case cs of None \<Rightarrow> True | Some conds \<Rightarrow> named_well conds)"

lemma refused_here_named [simp]: "named_or_none cs \<Longrightarrow> refused_here p (case cs of None \<Rightarrow> [] | Some conds \<Rightarrow> conds)"
  by (auto simp: named_or_none_def refused_here_def named_well_def split: option.split)

lemma refused_here_False [simp]: "refused_here (\<lambda>_. False) conds"
  by (simp add: refused_here_def)

lemma wp_compile [wp_intros]:
  assumes "passing p" "is_identifier k" "refused_here p conds" "\<And>f. Q f d"
  shows "wp p d\<^sub>0 (compile_constraints t k v conds) Q d"
  unfolding compile_constraints_def using assms by (intro wp_conditions) (simp_all add: refused_here_Cons)

lemma wp_set_claim_status [wp_intros]:
  assumes "passing p" "plain status" "refused_here p (case cs of None \<Rightarrow> [] | Some conds \<Rightarrow> conds)"
    and "\<And>n rs. Q n (d(''court_claims'' := rs))"
  shows "wp p d\<^sub>0 (set_claim_status status cid cs) Q d"
  unfolding set_claim_status_def
  by (intro wp_intros bind_all_plain) (use assms in auto)

lemma update_task_status_answered:
  assumes "cn_undo c = None" "named_or_none cs" "''board_tasks'' \<notin> T" "''events'' \<notin> T"
  shows "kept_on T c (gw_update_task_status tid data cs c)"
proof (cases "and_then (subscript data ''updates'') as_object")
  case (Inl e)
  then show ?thesis by (simp add: gw_update_task_status_def answered_def)
next
  case (Inr updates)
  show ?thesis
    unfolding gw_update_task_status_def Inr sum.case
    by (rule answered_transaction, rule assms(1), simp, (intro wp_intros bind_all_plain; (simp add: assms(2-4))?)) (use assms(3,4) in auto)
qed

lemma submit_feedback_answered: "cn_undo c = None \<Longrightarrow> ''reputation_feedback'' \<notin> T \<Longrightarrow> ''events'' \<notin> T \<Longrightarrow> kept_on T c (gw_submit_feedback data c)"
  unfolding gw_submit_feedback_def Let_def
  by (rule answered_transaction, assumption, simp, (intro wp_intros wp_insert bind_all_plain; simp))

lemma update_claim_status_answered:
  "cn_undo c = None \<Longrightarrow> named_or_none cs \<Longrightarrow> ''court_claims'' \<notin> T \<Longrightarrow> ''events'' \<notin> T \<Longrightarrow> kept_on T c (gw_update_claim_status cid data cs c)"
  unfolding gw_update_claim_status_def
  by (rule answered_transaction, assumption, simp, (intro wp_intros; simp))

lemma submit_rebuttal_answered: "cn_undo c = None \<Longrightarrow> ''court_rebuttals'' \<notin> T \<Longrightarrow> ''court_claims'' \<notin> T \<Longrightarrow> ''events'' \<notin> T \<Longrightarrow> kept_on T c (gw_submit_rebuttal data cs c)"
  unfolding gw_submit_rebuttal_def Let_def
  by (rule answered_transaction, assumption, simp, (intro wp_intros wp_insert; simp))

lemma record_ruling_answered: "cn_undo c = None \<Longrightarrow> ''court_rulings'' \<notin> T \<Longrightarrow> ''court_claims'' \<notin> T \<Longrightarrow> ''events'' \<notin> T \<Longrightarrow> kept_on T c (gw_record_ruling data c)"
  unfolding gw_record_ruling_def Let_def
  by (rule answered_transaction, assumption, simp, (intro wp_intros wp_insert; simp))

lemma delete_ruling_answered: "cn_undo c = None \<Longrightarrow> ''court_rulings'' \<notin> T \<Longrightarrow> kept_on T c (gw_delete_ruling cid c)"
  by (simp add: gw_delete_ruling_def answered_def Let_def commit_def put_data_def)

end
