(* ===== verification/Gateway_Money.thy ===== *)
theory Gateway_Money
  imports Gateway_Atomic
begin

text \<open>
  The bank's tables in the gateway's database: what they hold in money, and how each of the bank's transactions
  changes it.
\<close>

section \<open>Money in the tables\<close>

definition units :: "cell \<Rightarrow> int" where
  "units c = (case cell_num c of None \<Rightarrow> 0 | Some n \<Rightarrow> n)"

definition sum_balances :: "row list \<Rightarrow> int" where
  "sum_balances rs = (\<Sum>r\<leftarrow>rs. units (r ''balance''))"

definition sum_locked :: "row list \<Rightarrow> int" where
  "sum_locked rs = (\<Sum>r\<leftarrow>rs. if r ''status'' = SText ''locked'' then units (r ''amount'') else 0)"

definition sum_credits :: "row list \<Rightarrow> int" where
  "sum_credits rs = (\<Sum>r\<leftarrow>rs. if r ''type'' = SText ''credit'' then units (r ''amount'') else 0)"

definition account_row :: "row \<Rightarrow> bool" where
  "account_row r \<longleftrightarrow> (\<exists>a n. r ''account_id'' = SText a \<and> r ''balance'' = SInt n \<and> 0 \<le> n)"

definition escrow_row :: "row \<Rightarrow> bool" where
  "escrow_row r \<longleftrightarrow> (\<exists>e n. r ''escrow_id'' = SText e \<and> r ''amount'' = SInt n \<and> 0 < n)"

definition keyed :: "string \<Rightarrow> row list \<Rightarrow> bool" where
  "keyed k rs \<longleftrightarrow> distinct (map (\<lambda>r. r k) rs)"

definition tables_ok :: "database \<Rightarrow> bool" where
  "tables_ok d \<longleftrightarrow> list_all account_row (d ''bank_accounts'') \<and> keyed ''account_id'' (d ''bank_accounts'') \<and>
     list_all escrow_row (d ''bank_escrow'') \<and> keyed ''escrow_id'' (d ''bank_escrow'')"

definition credited :: "database \<Rightarrow> int" where
  "credited d = sum_credits (d ''bank_transactions'')"

definition books_balance :: "database \<Rightarrow> bool" where
  "books_balance d \<longleftrightarrow> sum_balances (d ''bank_accounts'') + sum_locked (d ''bank_escrow'') = credited d"

text \<open>One account: what it holds, and what the log says it should.\<close>

definition account_holds :: "cell \<Rightarrow> row list \<Rightarrow> int" where
  "account_holds a rs = (\<Sum>r\<leftarrow>rs. if r ''account_id'' = a then units (r ''balance'') else 0)"

definition change_of :: "row \<Rightarrow> int" where
  "change_of r =
     (if r ''type'' = SText ''escrow_lock'' then - units (r ''amount'')
      else if r ''type'' \<in> {SText ''credit'', SText ''escrow_release''} then units (r ''amount'') else 0)"

definition recorded_for :: "cell \<Rightarrow> row list \<Rightarrow> int" where
  "recorded_for a rs = (\<Sum>r\<leftarrow>rs. if r ''account_id'' = a then change_of r else 0)"

definition unexplained :: "cell \<Rightarrow> database \<Rightarrow> int" where
  "unexplained a d = account_holds a (d ''bank_accounts'') - recorded_for a (d ''bank_transactions'')"

text \<open>What a parameter is compared with, and stored as, in a column of texts.\<close>

definition account_cell :: "json result \<Rightarrow> cell" where
  "account_cell account = (case account of Inl e \<Rightarrow> SNull | Inr j \<Rightarrow> apply_affinity False (bound j))"

lemma account_cell_bound: "bind_param j = Inr v \<Longrightarrow> account_cell (Inr j) = apply_affinity False v"
  by (simp add: account_cell_def bound_def)

lemma trail_simps [simp]:
  "account_holds a (rs @ [r]) = account_holds a rs + (if r ''account_id'' = a then units (r ''balance'') else 0)"
  "recorded_for a (rs @ [r]) = recorded_for a rs + (if r ''account_id'' = a then change_of r else 0)"
  by (simp_all add: account_holds_def recorded_for_def)

lemma unexplained_update [simp]:
  "unexplained a (d(t := rs)) = unexplained a d" if "t \<notin> {''bank_accounts'', ''bank_transactions''}"
  using that by (auto simp: unexplained_def)

lemma sums_simps [simp]:
  "sum_balances (rs @ [r]) = sum_balances rs + units (r ''balance'')"
  "sum_locked (rs @ [r]) = sum_locked rs + (if r ''status'' = SText ''locked'' then units (r ''amount'') else 0)"
  "sum_credits (rs @ [r]) = sum_credits rs + (if r ''type'' = SText ''credit'' then units (r ''amount'') else 0)"
  by (simp_all add: sum_balances_def sum_locked_def sum_credits_def)

lemma units_simps [simp]: "units (SInt n) = n" "units (SReal n) = n" "units SNull = 0" "units (SText s) = 0"
  by (simp_all add: units_def)

lemma keyed_snoc: "keyed k (rs @ [r]) \<longleftrightarrow> keyed k rs \<and> (\<forall>r' \<in> set rs. r' k \<noteq> r k)"
  by (simp add: keyed_def image_iff) metis

lemma sum_locked_nonneg: "list_all escrow_row rs \<Longrightarrow> 0 \<le> sum_locked rs"
  by (induction rs) (auto simp: sum_locked_def escrow_row_def)

lemma sum_locked_member:
  "list_all escrow_row rs \<Longrightarrow> r \<in> set rs \<Longrightarrow> r ''status'' = SText ''locked'' \<Longrightarrow> units (r ''amount'') \<le> sum_locked rs"
proof (induction rs)
  case (Cons r' rs)
  have "0 \<le> sum_locked rs" using Cons.prems(1) by (simp add: sum_locked_nonneg)
  then show ?case using Cons by (auto simp: sum_locked_def escrow_row_def)
qed simp

lemma sum_balances_nonneg: "list_all account_row rs \<Longrightarrow> 0 \<le> sum_balances rs"
  by (induction rs) (auto simp: sum_balances_def account_row_def)

lemma sum_balances_member: "list_all account_row rs \<Longrightarrow> r \<in> set rs \<Longrightarrow> units (r ''balance'') \<le> sum_balances rs"
proof (induction rs)
  case (Cons r' rs)
  have "0 \<le> sum_balances rs" using Cons.prems(1) by (simp add: sum_balances_nonneg)
  then show ?case using Cons by (auto simp: sum_balances_def account_row_def)
qed simp

section \<open>Updates by key\<close>

lemma update_rows_result:
  "update_rows check p f seen rs = Inr (n, out) \<Longrightarrow>
   out = seen @ map (\<lambda>r. if p r then f r else r) rs \<and> n = length (filter p rs)"
proof (induction rs arbitrary: seen n out)
  case (Cons r rs)
  show ?case
  proof (cases "p r")
    case True
    then obtain m where m: "update_rows check p f (seen @ [f r]) rs = Inr (m, out)" "n = Suc m"
      using Cons.prems by (cases "update_rows check p f (seen @ [f r]) rs") (auto split: option.splits)
    then show ?thesis using Cons.IH [OF m(1)] True by simp
  next
    case False
    then show ?thesis using Cons.IH [of "seen @ [r]" n out] Cons.prems by simp
  qed
qed simp

lemma text_eq: "sql_eq (SText s) x \<longleftrightarrow> x = SText s"
  by (cases x) auto

lemma one_row:
  assumes "keyed k rs" "\<And>r. r \<in> set rs \<Longrightarrow> p r \<Longrightarrow> r k = x"
  shows "filter p rs = [] \<or> (\<exists>r. filter p rs = [r] \<and> r \<in> set rs \<and> p r)"
  using assms
proof (induction rs)
  case (Cons r rs)
  have IH: "filter p rs = [] \<or> (\<exists>r. filter p rs = [r] \<and> r \<in> set rs \<and> p r)" using Cons by (simp add: keyed_def)
  show ?case
  proof (cases "p r")
    case True
    have "filter p rs = []"
      using Cons.prems True by (auto simp: keyed_def filter_empty_conv)
    then show ?thesis using True by simp
  qed (use IH in auto)
qed simp

text \<open>Changing the one row that matches changes a sum by what that row changes.\<close>

lemma sum_one_row:
  fixes g :: "row \<Rightarrow> int"
  assumes "filter p rs = [r]"
  shows "(\<Sum>r\<leftarrow>map (\<lambda>r. if p r then f r else r) rs. g r) = (\<Sum>r\<leftarrow>rs. g r) + g (f r) - g r"
  using assms
proof (induction rs)
  case (Cons r' rs)
  show ?case
  proof (cases "p r'")
    case True
    then have "filter p rs = []" "r' = r" using Cons.prems by auto
    then have "map (\<lambda>r. if p r then f r else r) rs = rs" by (auto simp: filter_empty_conv intro: map_idI)
    then show ?thesis using \<open>r' = r\<close> True by simp
  next
    case False
    then show ?thesis using Cons by simp
  qed
qed simp

lemma keyed_map: "(\<And>r. f r k = r k) \<Longrightarrow> keyed k (map (\<lambda>r. if p r then f r else r) rs) = keyed k rs"
proof -
  assume "\<And>r. f r k = r k"
  then have "map (\<lambda>r. r k) (map (\<lambda>r. if p r then f r else r) rs) = map (\<lambda>r. r k) rs" by (simp add: comp_def)
  then show ?thesis by (simp only: keyed_def)
qed

section \<open>Statements on accounts\<close>

abbreviation accounts :: "database \<Rightarrow> row list" where
  "accounts d \<equiv> d ''bank_accounts''"

abbreviation escrows :: "database \<Rightarrow> row list" where
  "escrows d \<equiv> d ''bank_escrow''"

abbreviation transactions :: "database \<Rightarrow> row list" where
  "transactions d \<equiv> d ''bank_transactions''"

lemma tables_ok_update [simp]:
  "tables_ok (d(t := rs)) \<longleftrightarrow> tables_ok d" if "t \<notin> {''bank_accounts'', ''bank_escrow''}"
  using that by (auto simp: tables_ok_def)

lemma account_key: "account_row r \<Longrightarrow> where_is ''bank_accounts'' ''account_id'' v r \<longleftrightarrow> r ''account_id'' = apply_affinity False v"
  by (auto simp: account_row_def col_is_def is_integer_def bank_accounts_def text_eq)

lemma escrow_key: "escrow_row r \<Longrightarrow> where_is ''bank_escrow'' ''escrow_id'' v r \<longleftrightarrow> r ''escrow_id'' = apply_affinity False v"
  by (auto simp: escrow_row_def col_is_def is_integer_def bank_escrow_def text_eq)

text \<open>An amount added to the balances of one account at most, where no balance leaves 0 to \<open>2 ^ 63\<close>.\<close>

lemma adjust_account:
  assumes ok: "tables_ok d" and p: "\<And>r. p r \<Longrightarrow> where_is ''bank_accounts'' ''account_id'' v r"
    and f: "\<And>r n. r \<in> set (accounts d) \<Longrightarrow> r ''balance'' = SInt n \<Longrightarrow> p r \<Longrightarrow>
      f r = r(''balance'' := SInt (n + k)) \<and> 0 \<le> n + k"
    and u: "update_rows check p f [] (accounts d) = Inr (n, rs)" and n: "n \<noteq> 0"
  shows "tables_ok (d(''bank_accounts'' := rs)) \<and> sum_balances rs = sum_balances (accounts d) + k \<and>
    (\<forall>a. account_holds a rs = account_holds a (accounts d) + (if apply_affinity False v = a then k else 0))"
proof -
  have rs: "rs = map (\<lambda>r. if p r then f r else r) (accounts d)" "n = length (filter p (accounts d))"
    using update_rows_result [OF u] by auto
  have acc: "\<And>r. r \<in> set (accounts d) \<Longrightarrow> account_row r" and key: "keyed ''account_id'' (accounts d)"
    using ok by (auto simp: tables_ok_def list_all_iff)
  have "\<And>r. r \<in> set (accounts d) \<Longrightarrow> p r \<Longrightarrow> r ''account_id'' = apply_affinity False v"
    using p acc account_key by blast
  then obtain r where r: "filter p (accounts d) = [r]" "r \<in> set (accounts d)" "p r"
    using one_row [OF key, of p] n rs(2) by auto
  obtain b where b: "r ''balance'' = SInt b" using acc [OF r(2)] by (auto simp: account_row_def)
  have fr: "f r = r(''balance'' := SInt (b + k))" using f [OF r(2) b r(3)] by simp
  have "sum_balances rs = sum_balances (accounts d) + k"
    using sum_one_row [OF r(1), of "\<lambda>r. units (r ''balance'')" f] by (simp add: sum_balances_def rs(1) fr b)
  moreover have "account_holds a rs = account_holds a (accounts d) + (if apply_affinity False v = a then k else 0)" for a
  proof -
    have "r ''account_id'' = apply_affinity False v" using p account_key acc r(2,3) by blast
    then show ?thesis
      using sum_one_row [OF r(1), of "\<lambda>r. if r ''account_id'' = a then units (r ''balance'') else 0" f]
      by (simp add: account_holds_def rs(1) fr b)
  qed
  moreover have "list_all account_row rs"
  proof -
    have "account_row (if p r then f r else r)" if "r \<in> set (accounts d)" for r
      using acc [OF that] f [OF that] by (auto simp: account_row_def)
    then show ?thesis unfolding rs(1) list_all_iff set_map by blast
  qed
  moreover have "keyed ''account_id'' rs"
  proof -
    have "map (\<lambda>r. r ''account_id'') rs = map (\<lambda>r. r ''account_id'') (accounts d)"
      unfolding rs(1) map_map
    proof (rule map_cong [OF refl], clarsimp)
      fix r assume r: "r \<in> set (accounts d)" "p r"
      obtain b where "r ''balance'' = SInt b" using acc [OF r(1)] by (auto simp: account_row_def)
      then show "f r ''account_id'' = r ''account_id''" using f [OF r(1) _ r(2)] by simp
    qed
    then show ?thesis using key by (simp only: keyed_def)
  qed
  ultimately show ?thesis using ok by (simp add: tables_ok_def)
qed

lemma no_row_updated_same: "update_rows check p f [] rs = Inr (0, out) \<Longrightarrow> out = rs"
  by (drule update_rows_result) (auto simp: filter_empty_conv intro!: map_idI)

lemma wp_add_to_balance:
  assumes pass: "passing p" and acc: "plain account" and amount: "amount = Inr (JInt m)" and ok: "tables_ok d"
    and m: "0 \<le> m" "sum_balances (accounts d) + m < 2 ^ 63"
    and none: "Q 0 d"
    and one: "\<And>n rs. n \<noteq> 0 \<Longrightarrow> tables_ok (d(''bank_accounts'' := rs)) \<Longrightarrow>
      sum_balances rs = sum_balances (accounts d) + m \<Longrightarrow>
      (\<And>a. account_holds a rs = account_holds a (accounts d) + (if account_cell account = a then m else 0)) \<Longrightarrow> Q n (d(''bank_accounts'' := rs))"
  shows "wp p d\<^sub>0 (add_to_balance amount account) Q d"
proof -
  have adjust: "Q n (d(''bank_accounts'' := rs))"
    if ps: "bind_all [(''amount'', amount), (''account_id'', account)] = Inr ps"
      and u: "update_rows check (where_is ''bank_accounts'' ''account_id'' (dget_or ps ''account_id'' SNull))
        (\<lambda>r. set_col ''bank_accounts'' ''balance'' (sql_add (r ''balance'') (dget_or ps ''amount'' SNull)) r) []
        (accounts d) = Inr (n, rs)" for ps n rs check
  proof (cases "n = 0")
    case True
    then have "rs = accounts d" using no_row_updated_same u by blast
    then show ?thesis using none True by simp
  next
    case False
    have amt: "dget_or ps ''amount'' SNull = SInt m" using ps amount by (auto simp: bind_all_Cons dget_or_def split: if_splits)
    have f: "set_col ''bank_accounts'' ''balance'' (sql_add (r ''balance'') (SInt m)) r = r(''balance'' := SInt (b + m)) \<and> 0 \<le> b + m"
      if "r ''balance'' = SInt b" "r \<in> set (accounts d)" for r b
    proof -
      have "list_all account_row (accounts d)" using ok by (simp add: tables_ok_def)
      then have "b \<le> sum_balances (accounts d)" "0 \<le> b"
        using sum_balances_member [of "accounts d" r] that by (auto simp: list_all_iff account_row_def)
      then show ?thesis using m that
        by (simp add: set_col_def is_integer_def bank_accounts_def sql_add_def fits64_def)
    qed
    have "account_cell account = apply_affinity False (dget_or ps ''account_id'' SNull)"
      using ps by (auto simp: bind_all_Cons dget_or_def account_cell_bound)
    then show ?thesis
      using one [OF False] adjust_account [OF ok _ _ u False, where v = "dget_or ps ''account_id'' SNull" and k = m] f
      by (simp add: amt)
  qed
  show ?thesis
    unfolding add_to_balance_def
    by (intro wp_seq wp_plain bind_all_plain wp_update adjust) (use pass acc amount in auto)
qed


lemma wp_take_from_balance:
  assumes pass: "passing p" and acc: "plain account" and amount: "amount = Inr (JInt m)" and ok: "tables_ok d"
    and m: "0 \<le> m" "sum_balances (accounts d) < 2 ^ 63"
    and none: "Q 0 d"
    and one: "\<And>n rs. n \<noteq> 0 \<Longrightarrow> tables_ok (d(''bank_accounts'' := rs)) \<Longrightarrow>
      sum_balances rs = sum_balances (accounts d) - m \<Longrightarrow>
      (\<And>a. account_holds a rs = account_holds a (accounts d) + (if account_cell account = a then - m else 0)) \<Longrightarrow> Q n (d(''bank_accounts'' := rs))"
  shows "wp p d\<^sub>0 (take_from_balance amount account) Q d"
proof -
  have adjust: "Q n (d(''bank_accounts'' := rs))"
    if ps: "bind_all [(''amount'', amount), (''account_id'', account)] = Inr ps"
      and u: "update_rows check (\<lambda>r. where_is ''bank_accounts'' ''account_id'' (dget_or ps ''account_id'' SNull) r \<and>
          sql_ge (r ''balance'') (dget_or ps ''amount'' SNull))
        (\<lambda>r. set_col ''bank_accounts'' ''balance'' (sql_add (r ''balance'') (sql_neg (dget_or ps ''amount'' SNull))) r) []
        (accounts d) = Inr (n, rs)" for ps n rs check
  proof (cases "n = 0")
    case True
    then have "rs = accounts d" using no_row_updated_same u by blast
    then show ?thesis using none True by simp
  next
    case False
    have amt: "dget_or ps ''amount'' SNull = SInt m" and fits: "fits64 m"
      using ps amount by (auto simp: bind_all_Cons dget_or_def split: if_splits)
    have f: "set_col ''bank_accounts'' ''balance'' (sql_add (r ''balance'') (sql_neg (SInt m))) r = r(''balance'' := SInt (b + - m)) \<and> 0 \<le> b + - m"
      if "r ''balance'' = SInt b" "sql_ge (r ''balance'') (SInt m)" "r \<in> set (accounts d)" for r b
    proof -
      have "list_all account_row (accounts d)" using ok by (simp add: tables_ok_def)
      then have "b \<le> sum_balances (accounts d)"
        using sum_balances_member [of "accounts d" r] that by simp
      moreover have "m \<le> b" using that by (simp add: sql_ge_def)
      ultimately show ?thesis using m that fits
        by (simp add: set_col_def is_integer_def bank_accounts_def sql_add_def fits64_def)
    qed
    have "account_cell account = apply_affinity False (dget_or ps ''account_id'' SNull)"
      using ps by (auto simp: bind_all_Cons dget_or_def account_cell_bound)
    then show ?thesis
      using one [OF False] adjust_account [OF ok _ _ u False, where v = "dget_or ps ''account_id'' SNull" and k = "- m"] f
      by (simp add: amt)
  qed
  show ?thesis
    unfolding take_from_balance_def
    by (intro wp_seq wp_plain bind_all_plain wp_update adjust) (use pass acc amount in auto)
qed

section \<open>The log of transactions\<close>

lemma wp_log_transaction:
  assumes pass: "passing p" and plain: "plain tx_id" "plain account" "plain amount" "plain ref" "plain stamp"
    and Q: "\<And>r. r ''type'' = SText type \<Longrightarrow> (\<And>m. amount = Inr (JInt m) \<Longrightarrow> r ''amount'' = SInt m) \<Longrightarrow>
      r ''account_id'' = account_cell account \<Longrightarrow> Q () (d(''bank_transactions'' := transactions d @ [r]))"
  shows "wp p d\<^sub>0 (log_transaction tx_id account type amount ref stamp) Q d"
proof -
  let ?ps = "[(''tx_id'', tx_id), (''account_id'', account), (''type'', Inr (JStr type)), (''amount'', amount),
        (''reference'', ref), (''timestamp'', stamp)]"
  have row: "new_row economy_schema ''bank_transactions'' ((''balance_after'', b) # ps) ''type'' = SText type"
      "\<And>m. amount = Inr (JInt m) \<Longrightarrow> new_row economy_schema ''bank_transactions'' ((''balance_after'', b) # ps) ''amount'' = SInt m"
      "new_row economy_schema ''bank_transactions'' ((''balance_after'', b) # ps) ''account_id'' = account_cell account"
    if "bind_all ?ps = Inr ps" for ps b
    using that
    by (auto simp: bind_all_Cons new_row_def is_integer_def bank_transactions_def account_cell_bound split: if_splits)
  have step: "wp p d\<^sub>0 (\<lambda>c. insert_cells economy_schema ''bank_transactions''
         ((''balance_after'', balance_of_account (dget_or ps ''account_id'' SNull) (cn_data c)) # ps) c) Q d"
    if "bind_all ?ps = Inr ps" for ps
    using Q [OF row [OF that]]
    by (auto simp: wp_def insert_cells_def Let_def put_data_def split: option.splits)
  show ?thesis
    unfolding log_transaction_def by (intro wp_seq wp_plain bind_all_plain step pass) (use plain in auto)
qed

section \<open>Escrows\<close>

lemma wp_load_escrow:
  assumes pass: "passing p" and eid: "plain eid" and ok: "tables_ok d"
    and Q: "\<And>r j v m. r \<in> set (escrows d) \<Longrightarrow> eid = Inr j \<Longrightarrow> bind_param j = Inr v \<Longrightarrow>
      r ''escrow_id'' = apply_affinity False v \<Longrightarrow> r ''status'' = SText ''locked'' \<Longrightarrow> r ''amount'' = SInt m \<Longrightarrow> 0 < m \<Longrightarrow>
      Q (JInt m) d"
  shows "wp p d\<^sub>0 (load_escrow eid) Q d"
proof -
  have found: "Q (cell_json (r ''amount'')) d"
    if ps: "bind_all [(''escrow_id'', eid)] = Inr ps"
      and r: "fetchone (filter (where_is ''bank_escrow'' ''escrow_id'' (dget_or ps ''escrow_id'' SNull)) (escrows d)) = Some r"
      and st: "\<not> r ''status'' \<noteq> SText ''locked''" for ps r
  proof -
    let ?p = "where_is ''bank_escrow'' ''escrow_id'' (dget_or ps ''escrow_id'' SNull)"
    have "r \<in> set (filter ?p (escrows d))"
      using r unfolding fetchone_def by (cases "filter ?p (escrows d)") auto
    then have mem: "r \<in> set (escrows d)" "?p r" by auto
    then have row: "escrow_row r" using ok by (auto simp: tables_ok_def list_all_iff)
    then obtain m where m: "r ''amount'' = SInt m" "0 < m" by (auto simp: escrow_row_def)
    obtain j v where j: "eid = Inr j" "bind_param j = Inr v" "ps = [(''escrow_id'', v)]"
      using ps by (auto simp: bind_all_Cons)
    have "r ''escrow_id'' = apply_affinity False v" using escrow_key [OF row] mem(2) j(3) by (simp add: dget_or_def)
    then show ?thesis using Q [OF mem(1) j(1,2)] st m by simp
  qed
  show ?thesis
    unfolding load_escrow_def
    by (intro wp_seq wp_plain bind_all_plain wp_select wp_option wp_abort wp_if wp_give found) (use pass eid in auto)
qed

lemma resolved_rows:
  assumes ok: "tables_ok d" and r: "r \<in> set (escrows d)" "r ''escrow_id'' = x" "r ''status'' = SText ''locked''"
    and p: "\<And>r. r \<in> set (escrows d) \<Longrightarrow> p r \<Longrightarrow> r ''escrow_id'' = x"
    and f: "\<And>r. f r ''status'' = SText status \<and> f r ''amount'' = r ''amount'' \<and> f r ''escrow_id'' = r ''escrow_id''"
    and st: "status \<noteq> ''locked''"
    and u: "update_rows check p f [] (escrows d) = Inr (n, rs)" and n: "n \<noteq> 0"
  shows "tables_ok (d(''bank_escrow'' := rs)) \<and> sum_locked rs = sum_locked (escrows d) - units (r ''amount'')"
proof -
  have rs: "rs = map (\<lambda>r. if p r then f r else r) (escrows d)" "n = length (filter p (escrows d))"
    using update_rows_result [OF u] by auto
  have key: "keyed ''escrow_id'' (escrows d)" and rows: "list_all escrow_row (escrows d)" using ok by (simp_all add: tables_ok_def)
  have "filter p (escrows d) = [] \<or> (\<exists>r'. filter p (escrows d) = [r'] \<and> r' \<in> set (escrows d) \<and> p r')"
    by (rule one_row [OF key]) (rule p)
  then obtain r' where r': "filter p (escrows d) = [r']" "r' \<in> set (escrows d)" "p r'"
    using n rs(2) by auto
  have "r' ''escrow_id'' = x" using p r' by blast
  then have "r' = r"
    using key r(1,2) r'(2) by (auto simp: keyed_def distinct_map dest: inj_onD)
  then have hit: "filter p (escrows d) = [r]" using r' by simp
  have "sum_locked rs = sum_locked (escrows d) - units (r ''amount'')"
    using sum_one_row [OF hit, of "\<lambda>r. if r ''status'' = SText ''locked'' then units (r ''amount'') else 0" f] r(3) st f
    by (simp add: sum_locked_def rs(1))
  moreover have "list_all escrow_row rs"
    using rows f unfolding rs(1) list_all_iff escrow_row_def by auto
  moreover have "keyed ''escrow_id'' rs"
    unfolding rs(1) using key f by (simp add: keyed_map)
  ultimately show ?thesis using ok by (simp add: tables_ok_def)
qed

lemma resolved_row:
  "(set_col ''bank_escrow'' ''resolved_at'' v \<circ> set_col ''bank_escrow'' ''status'' (SText status)) r ''status'' = SText status \<and>
   (set_col ''bank_escrow'' ''resolved_at'' v \<circ> set_col ''bank_escrow'' ''status'' (SText status)) r ''amount'' = r ''amount'' \<and>
   (set_col ''bank_escrow'' ''resolved_at'' v \<circ> set_col ''bank_escrow'' ''status'' (SText status)) r ''escrow_id'' = r ''escrow_id''"
  by (simp add: set_col_def is_integer_def bank_escrow_def)

lemma jget_subscript: "subscript d k = Inr j \<Longrightarrow> jget d k = j"
  by (auto simp: subscript_def jget_def dget_or_def split: option.splits)

lemma wp_resolve_escrow_row:
  assumes pass: "passing p" and ok: "tables_ok d"
    and r: "r \<in> set (escrows d)" "r ''escrow_id'' = apply_affinity False v" "r ''status'' = SText ''locked''"
    and eid: "subscript data ''escrow_id'' = Inr j" "bind_param j = Inr v"
    and named: "named_or_none constraints" and st: "status \<noteq> ''locked''"
    and Q: "\<And>rs. tables_ok (d(''bank_escrow'' := rs)) \<Longrightarrow> sum_locked rs = sum_locked (escrows d) - units (r ''amount'') \<Longrightarrow>
      Q () (d(''bank_escrow'' := rs))"
  shows "wp p d\<^sub>0 (resolve_escrow_row status data constraints) Q d"
proof -
  let ?f = "\<lambda>ps. set_col ''bank_escrow'' ''resolved_at'' (dget_or ps ''resolved_at'' SNull) \<circ> set_col ''bank_escrow'' ''status'' (SText status)"
  have rows: "\<And>r. r \<in> set (escrows d) \<Longrightarrow> escrow_row r" using ok by (auto simp: tables_ok_def list_all_iff)
  have res: "Q () (d(''bank_escrow'' := rs))"
    if q: "\<And>r. q r \<Longrightarrow> where_is ''bank_escrow'' ''escrow_id'' v r" and u: "update_rows check q (?f ps) [] (escrows d) = Inr (n, rs)"
      and n: "n \<noteq> 0" for q check n rs ps
    using resolved_rows [OF ok r _ resolved_row st u n] q escrow_key rows Q by blast
  show ?thesis
  proof (cases constraints)
    case None
    have all: "Q () (d(''bank_escrow'' := rs))"
      if ps: "bind_all [(''resolved_at'', subscript data ''resolved_at''), (''escrow_id'', subscript data ''escrow_id'')] = Inr ps"
        and u: "update_rows check (where_is ''bank_escrow'' ''escrow_id'' (dget_or ps ''escrow_id'' SNull)) (?f ps) [] (escrows d)
          = Inr (n, rs)" for ps n rs check
    proof -
      have v: "dget_or ps ''escrow_id'' SNull = v" using ps eid by (auto simp: bind_all_Cons dget_or_def)
      then have "r \<in> set (filter (where_is ''bank_escrow'' ''escrow_id'' v) (escrows d))"
        using r escrow_key [OF rows [OF r(1)]] by simp
      then have "n \<noteq> 0" using update_rows_result [OF u] v by (cases "filter (where_is ''bank_escrow'' ''escrow_id'' v) (escrows d)") auto
      then show ?thesis using res [OF _ u] v by simp
    qed
    show ?thesis
      unfolding resolve_escrow_row_def Let_def None option.case
      by (intro wp_seq wp_plain bind_all_plain wp_update wp_give all) (use pass in auto)
  next
    case (Some cs)
    have hit: "q r'" if "bind_all (map (apsnd Inr) ((''escrow_id'', jget data ''escrow_id'') # cs)) = Inr ps"
      "q = where_is ''bank_escrow'' ''escrow_id'' v" "list_all (\<lambda>(c, v). where_is ''bank_escrow'' c v r') ps" for ps q r'
      using that jget_subscript [OF eid(1)] eid(2) by (auto simp: bind_all_Cons)
    show ?thesis
      unfolding resolve_escrow_row_def Let_def Some option.case compile_constraints_def
      by (intro wp_seq wp_conditions wp_plain bind_all_plain wp_update wp_if wp_no_row_updated wp_give;
          (rule res)?) (use pass named hit in \<open>auto simp: named_or_none_def Some refused_here_def\<close>)
  qed
qed

section \<open>Rows inserted\<close>

lemma text_affinity: "bind_param j = Inr v \<Longrightarrow> j \<noteq> JNull \<Longrightarrow> \<exists>s. apply_affinity False v = SText s"
  by (cases j) (auto split: if_splits)

lemma bind_JInt: "bind_param (JInt n) = Inr v \<Longrightarrow> v = SInt n"
  by (auto split: if_splits)

lemma no_duplicate:
  assumes "check_row sch d t rs r = None" "([k], every_row) \<in> set (td_unique (sch t))" "r k = SText s" "r' \<in> set rs"
  shows "r' k \<noteq> SText s"
proof -
  have "first_duplicate t ixs rs r = None \<Longrightarrow> ([k], every_row) \<in> set ixs \<Longrightarrow> r' k \<noteq> SText s" for ixs
    using assms(3,4)
    by (induction t ixs rs r rule: first_duplicate.induct)
      (auto simp: same_key_def every_row_def list_ex_iff text_eq split: if_splits)
  then show ?thesis using assms(1,2) by (auto simp: check_row_def split: option.splits if_splits)
qed

lemma account_inserted:
  assumes ok: "tables_ok d" and vals: "bind_all [(''account_id'', subscript data ''account_id''), (''balance'', subscript data ''balance''),
      (''created_at'', subscript data ''created_at'')] = Inr vals"
    and data: "jget data ''account_id'' \<noteq> JNull" "jget data ''balance'' = JInt n" "0 \<le> n"
    and check: "check_row economy_schema d ''bank_accounts'' (accounts d) (new_row economy_schema ''bank_accounts'' vals) = None"
  shows "tables_ok (d(''bank_accounts'' := accounts d @ [new_row economy_schema ''bank_accounts'' vals])) \<and>
    units (new_row economy_schema ''bank_accounts'' vals ''balance'') = n \<and>
    new_row economy_schema ''bank_accounts'' vals ''account_id'' = account_cell (subscript data ''account_id'')"
proof -
  let ?r = "new_row economy_schema ''bank_accounts'' vals"
  obtain a v b w where a: "subscript data ''account_id'' = Inr a" "bind_param a = Inr v" "subscript data ''balance'' = Inr b"
      "bind_param b = Inr w" and v: "dget vals ''account_id'' = Some v" "dget vals ''balance'' = Some w"
    using vals by (auto simp: bind_all_Cons)
  have "a \<noteq> JNull" "b = JInt n" using data jget_subscript [OF a(1)] jget_subscript [OF a(3)] by auto
  then obtain s where s: "apply_affinity False v = SText s" and w: "w = SInt n"
    using text_affinity [OF a(2)] bind_JInt [of n w] a(4) by auto
  have r: "?r ''account_id'' = SText s" "?r ''balance'' = SInt n"
    using v s w by (simp_all add: new_row_def is_integer_def bank_accounts_def)
  have "account_cell (subscript data ''account_id'') = SText s" by (simp only: a(1) account_cell_bound [OF a(2)] s)
  moreover have "account_row ?r" using r data(3) by (simp add: account_row_def)
  moreover have "\<forall>r' \<in> set (accounts d). r' ''account_id'' \<noteq> ?r ''account_id''"
    using no_duplicate [OF check _ r(1)] r(1) by (simp add: bank_accounts_def)
  ultimately show ?thesis using ok r by (simp add: tables_ok_def keyed_snoc)
qed

lemma escrow_inserted:
  assumes ok: "tables_ok d" and vals: "bind_all [(''escrow_id'', subscript data ''escrow_id''), (''payer_account_id'', p),
      (''amount'', Inr (JInt n)), (''task_id'', t), (''status'', Inr (JStr ''locked'')), (''created_at'', ca)] = Inr vals"
    and data: "jget data ''escrow_id'' \<noteq> JNull" "0 < n"
    and check: "check_row economy_schema d ''bank_escrow'' (escrows d) (new_row economy_schema ''bank_escrow'' vals) = None"
  shows "tables_ok (d(''bank_escrow'' := escrows d @ [new_row economy_schema ''bank_escrow'' vals])) \<and>
    new_row economy_schema ''bank_escrow'' vals ''status'' = SText ''locked'' \<and>
    units (new_row economy_schema ''bank_escrow'' vals ''amount'') = n"
proof -
  let ?r = "new_row economy_schema ''bank_escrow'' vals"
  obtain a v w where a: "subscript data ''escrow_id'' = Inr a" "bind_param a = Inr v" "bind_param (JInt n) = Inr w"
    and v: "dget vals ''escrow_id'' = Some v" "dget vals ''amount'' = Some w" "dget vals ''status'' = Some (SText ''locked'')"
    using vals by (simp only: bind_all_Cons) auto
  have "a \<noteq> JNull" using data jget_subscript [OF a(1)] by auto
  then obtain s where s: "apply_affinity False v = SText s" and w: "w = SInt n"
    using text_affinity [OF a(2)] bind_JInt [OF a(3)] by auto
  have r: "?r ''escrow_id'' = SText s" "?r ''amount'' = SInt n" "?r ''status'' = SText ''locked''"
    using v s w by (simp_all add: new_row_def is_integer_def bank_escrow_def)
  have "escrow_row ?r" using r data(2) by (simp add: escrow_row_def)
  moreover have "\<forall>r' \<in> set (escrows d). r' ''escrow_id'' \<noteq> ?r ''escrow_id''"
    using no_duplicate [OF check _ r(1)] r(1) by (simp add: bank_escrow_def)
  ultimately show ?thesis using ok r by (simp add: tables_ok_def keyed_snoc)
qed

lemma credit_inserted:
  assumes "bind_all [(''tx_id'', tx), (''account_id'', a), (''type'', Inr (JStr ''credit'')), (''amount'', subscript credit ''amount''),
      (''balance_after'', b), (''reference'', ref), (''timestamp'', ts)] = Inr vals" "jget credit ''amount'' = JInt n"
  shows "new_row economy_schema ''bank_transactions'' vals ''type'' = SText ''credit'' \<and>
    units (new_row economy_schema ''bank_transactions'' vals ''amount'') = n \<and>
    new_row economy_schema ''bank_transactions'' vals ''account_id'' = account_cell a"
proof -
  obtain j v where j: "subscript credit ''amount'' = Inr j" "bind_param j = Inr v"
    and vals: "dget vals ''amount'' = Some v" "dget vals ''type'' = Some (SText ''credit'')"
      "new_row economy_schema ''bank_transactions'' vals ''account_id'' = account_cell a"
    using assms(1) by (auto simp: bind_all_Cons new_row_def is_integer_def bank_transactions_def account_cell_bound)
  have "j = JInt n" using jget_subscript [OF j(1)] assms(2) by simp
  then have "v = SInt n" using bind_JInt j(2) by blast
  then show ?thesis using vals by (simp add: new_row_def is_integer_def bank_transactions_def)
qed

section \<open>The bank's transactions\<close>

lemma subscript_jget: "jget d k = JInt n \<Longrightarrow> subscript d k = Inr (JInt n)"
  by (auto simp: subscript_def jget_def dget_or_def split: option.splits)

lemma balances_covered: "tables_ok d \<Longrightarrow> books_balance d \<Longrightarrow> sum_balances (accounts d) + sum_locked (escrows d) = credited d \<and>
    sum_balances (accounts d) \<le> credited d"
  using sum_locked_nonneg [of "escrows d"] by (simp add: books_balance_def tables_ok_def)

definition moved :: "int \<Rightarrow> database \<Rightarrow> database \<Rightarrow> bool" where
  "moved k d d' \<longleftrightarrow> tables_ok d' \<and> credited d' = credited d + k \<and>
     sum_balances (accounts d') + sum_locked (escrows d') = sum_balances (accounts d) + sum_locked (escrows d) + k \<and>
     (\<forall>a. unexplained a d' = unexplained a d)"

lemmas trail_defs = unexplained_def change_of_def

lemma moved_events [simp]: "moved k d (d'(''events'' := rs)) = moved k d d'"
  by (simp add: moved_def credited_def trail_defs)

lemma create_account_moves:
  assumes "cn_undo c = None" and ok: "tables_ok (cn_data c)"
    and data: "jget data ''account_id'' \<noteq> JNull" "jget data ''balance'' = JInt n" "0 \<le> n"
    and credit: "jget data ''initial_credit'' = JNull \<Longrightarrow> n = 0"
      "\<And>cr. jget data ''initial_credit'' = JObj cr \<Longrightarrow> jget cr ''amount'' = JInt n"
  shows "answered (\<lambda>_. moved n (cn_data c)) c (gw_create_account data c)"
proof -
  have new: "tables_ok ((cn_data c)(''bank_accounts'' := accounts (cn_data c) @ [new_row economy_schema ''bank_accounts'' vals])) \<and>
      units (new_row economy_schema ''bank_accounts'' vals ''balance'') = n \<and>
      new_row economy_schema ''bank_accounts'' vals ''account_id'' = account_cell (subscript data ''account_id'')"
    if "bind_all [(''account_id'', subscript data ''account_id''), (''balance'', subscript data ''balance''),
        (''created_at'', subscript data ''created_at'')] = Inr vals"
      "check_row economy_schema (cn_data c) ''bank_accounts'' (accounts (cn_data c)) (new_row economy_schema ''bank_accounts'' vals) = None"
    for vals
    using account_inserted [OF ok that(1) data that(2)] .
  have log: "new_row economy_schema ''bank_transactions'' vals ''type'' = SText ''credit'' \<and>
      units (new_row economy_schema ''bank_transactions'' vals ''amount'') = n \<and>
      new_row economy_schema ''bank_transactions'' vals ''account_id'' = account_cell (subscript data ''account_id'')"
    if "as_object (jget data ''initial_credit'') = Inr cr"
      "bind_all [(''tx_id'', subscript cr ''tx_id''), (''account_id'', subscript data ''account_id''), (''type'', Inr (JStr ''credit'')),
         (''amount'', subscript cr ''amount''), (''balance_after'', subscript data ''balance''),
         (''reference'', subscript cr ''reference''), (''timestamp'', subscript cr ''timestamp'')] = Inr vals" for cr vals
    using credit_inserted [OF that(2) credit(2)] that(1) by (auto simp: as_object_def split: json.splits)
  show ?thesis
    unfolding gw_create_account_def
    by (rule answered_transaction, rule assms(1), simp, (intro wp_intros wp_insert; (simp add: plain_and_then)?))
      (use new log credit(1) in \<open>auto simp: moved_def credited_def trail_defs\<close>)
qed

lemma credit_account_moves:
  assumes "cn_undo c = None" and ok: "tables_ok (cn_data c)" and books: "books_balance (cn_data c)"
    and data: "jget data ''amount'' = JInt n" "0 < n" and fits: "credited (cn_data c) + n < 2 ^ 63"
  shows "answered (\<lambda>_. moved n (cn_data c)) c (gw_credit_account data c)"
proof -
  have below: "sum_balances (accounts (cn_data c)) + n < 2 ^ 63" using balances_covered [OF ok books] fits by simp
  show ?thesis
    unfolding gw_credit_account_def
    by (rule answered_transaction, rule assms(1), simp add: keeps_conn_def split: option.split,
        intro wp_seq wp_end_seq wp_end_if wp_end_abort wp_log_transaction wp_end_at_data wp_data_event wp_end_finish
          wp_add_to_balance [OF _ _ subscript_jget [OF data(1)] ok _ below];
        (simp add: data less_imp_le [OF data(2)] moved_def credited_def trail_defs tables_ok_def subscript_jget [OF data(1)])?)
qed

lemma escrow_lock_moves:
  assumes "cn_undo c = None" and ok: "tables_ok (cn_data c)" and books: "books_balance (cn_data c)"
    and data: "jget data ''amount'' = JInt n" "0 < n" "jget data ''escrow_id'' \<noteq> JNull" and fits: "credited (cn_data c) < 2 ^ 63"
  shows "answered (\<lambda>_. moved 0 (cn_data c)) c (gw_escrow_lock data c)"
proof -
  have below: "sum_balances (accounts (cn_data c)) < 2 ^ 63" using balances_covered [OF ok books] fits by simp
  have refuse: "wp_end is_service_error d\<^sub>0 (\<lambda>c. if b c then abort e c else abort e' c) Q d" for d\<^sub>0 b e e' Q d
    by (simp add: wp_end_def abort_def rollback_def)
  show ?thesis
    unfolding gw_escrow_lock_def
    by (rule answered_transaction, rule assms(1), simp add: keeps_conn_def split: option.split,
        intro wp_seq wp_end_seq wp_end_if refuse wp_insert wp_log_transaction wp_end_at_data wp_data_event wp_end_finish
          wp_take_from_balance [OF _ _ subscript_jget [OF data(1)] ok _ below];
        (simp add: data less_imp_le [OF data(2)] subscript_jget [OF data(1)])?)
      (drule (1) escrow_inserted [OF _ _ data(3,2)], simp, simp add: tables_ok_def moved_def credited_def trail_defs)
qed

lemma locked_covered:
  assumes "tables_ok d" "r \<in> set (escrows d)" "r ''status'' = SText ''locked''" "r ''amount'' = SInt m"
  shows "m \<le> sum_locked (escrows d)"
  using sum_locked_member [of "escrows d" r] assms by (simp add: tables_ok_def)

lemma escrow_release_moves:
  assumes "cn_undo c = None" and ok: "tables_ok (cn_data c)" and books: "books_balance (cn_data c)"
    and fits: "credited (cn_data c) < 2 ^ 63" and named: "named_or_none cs"
  shows "answered (\<lambda>_. moved 0 (cn_data c)) c (gw_escrow_release data cs c)"
proof -
  let ?d = "cn_data c"
  have paid: "wp_end is_service_error d\<^sub>0
      (seq (add_to_balance (Inr (JInt m)) (subscript data ''recipient_account_id'')) (\<lambda>n.
        if n = 0 then abort e
        else seq (log_transaction tx (subscript data ''recipient_account_id'') ''escrow_release'' (Inr (JInt m)) (subscript data ''escrow_id'') ts) (\<lambda>_.
          seq (resolve_escrow_row ''released'' data cs) (\<lambda>_. seq (data_event data) (\<lambda>n. finish (f n))))))
      (\<lambda>_. moved 0 ?d) ?d"
    if r: "r \<in> set (escrows ?d)" "subscript data ''escrow_id'' = Inr j" "bind_param j = Inr v"
      "r ''escrow_id'' = apply_affinity False v" "r ''status'' = SText ''locked''" "r ''amount'' = SInt m" "0 < m"
      and plain: "plain tx" "plain ts" for r j v m d\<^sub>0 e f tx ts
  proof -
    have m: "0 \<le> m" "sum_balances (accounts ?d) + m < 2 ^ 63"
      using balances_covered [OF ok books] locked_covered [OF ok r(1,5,6)] fits r(7) by auto
    show ?thesis
      by (intro wp_seq wp_end_seq wp_end_if wp_end_abort wp_log_transaction wp_data_event wp_end_finish
            wp_add_to_balance [OF _ _ refl ok m] wp_resolve_escrow_row [OF _ _ _ r(4,5,2,3) named];
          (simp add: plain r)?)
        (simp_all add: tables_ok_def moved_def credited_def trail_defs r)
  qed
  show ?thesis
    unfolding gw_escrow_release_def
    by (rule answered_transaction, rule assms(1), simp, rule wp_end_seq, rule wp_load_escrow [OF _ _ ok], simp, simp,
        rule paid, assumption+, simp_all)
qed

lemma wp_pay_share:
  assumes pass: "passing p" and plain: "plain account" "plain tx" and ok: "tables_ok d"
    and k: "0 \<le> k" "sum_balances (accounts d) + k < 2 ^ 63"
    and Q: "\<And>rs ts. tables_ok (d(''bank_accounts'' := rs)) \<Longrightarrow> sum_balances rs = sum_balances (accounts d) + k \<Longrightarrow>
      sum_credits ts = sum_credits (transactions d) \<Longrightarrow>
      (\<And>a. unexplained a (d(''bank_accounts'' := rs, ''bank_transactions'' := ts)) = unexplained a d) \<Longrightarrow> Q () (d(''bank_accounts'' := rs, ''bank_transactions'' := ts))"
  shows "wp p d\<^sub>0 (pay_share k account tx data) Q d"
proof (cases "k = 0")
  case True
  then have "Q () d" using Q [of "accounts d" "transactions d"] ok by simp
  then show ?thesis using True by (simp add: pay_share_def wp_give)
next
  case False
  then show ?thesis
    unfolding pay_share_def
    by (intro wp_if wp_give wp_seq wp_abort wp_add_to_balance [OF pass plain(1) refl ok k] wp_log_transaction [OF pass])
      (use k Q plain in \<open>auto simp: trail_defs\<close>)
qed

lemma escrow_split_moves:
  assumes "cn_undo c = None" and ok: "tables_ok (cn_data c)" and books: "books_balance (cn_data c)"
    and fits: "credited (cn_data c) < 2 ^ 63" and named: "named_or_none cs"
    and data: "jget data ''worker_amount'' = JInt a" "0 \<le> a" "jget data ''poster_amount'' = JInt b" "0 \<le> b"
  shows "answered (\<lambda>_. moved 0 (cn_data c)) c (gw_escrow_split data cs c)"
proof -
  let ?d = "cn_data c"
  have paid: "wp_end is_service_error d\<^sub>0
      (if \<not> eq_int (JInt m) (a + b) then abort e
       else seq (pay_share a acc tx data) (\<lambda>_. seq (pay_share b acc' tx' data) (\<lambda>_.
          seq (resolve_escrow_row ''split'' data cs) (\<lambda>_. seq (data_event data) (\<lambda>n. finish (f n))))))
      (\<lambda>_. moved 0 ?d) ?d"
    if r: "r \<in> set (escrows ?d)" "subscript data ''escrow_id'' = Inr j" "bind_param j = Inr v"
      "r ''escrow_id'' = apply_affinity False v" "r ''status'' = SText ''locked''" "r ''amount'' = SInt m" "0 < m"
      and plain: "plain tx" "plain acc" "plain tx'" "plain acc'" for r j v m d\<^sub>0 e f tx acc tx' acc'
  proof (rule wp_end_if)
    assume "\<not> \<not> eq_int (JInt m) (a + b)"
    then have ab: "m = a + b" by simp
    have below: "sum_balances (accounts ?d) + a + b < 2 ^ 63"
      using balances_covered [OF ok books] locked_covered [OF ok r(1,5,6)] fits ab by auto
    then have m: "sum_balances (accounts ?d) + a < 2 ^ 63" using data by simp
    show "wp_end is_service_error d\<^sub>0 (seq (pay_share a acc tx data) (\<lambda>_. seq (pay_share b acc' tx' data) (\<lambda>_.
          seq (resolve_escrow_row ''split'' data cs) (\<lambda>_. seq (data_event data) (\<lambda>n. finish (f n)))))) (\<lambda>_. moved 0 ?d) ?d"
      by (intro wp_seq wp_end_seq wp_data_event wp_end_finish wp_pay_share [OF _ _ _ ok data(2) m] wp_pay_share [OF _ _ _ _ data(4)]
          wp_resolve_escrow_row [OF _ _ _ r(4,5,2,3) named]; (simp add: plain r)?)
        (use below in \<open>simp_all add: tables_ok_def moved_def credited_def trail_defs r ab\<close>)
  qed (rule wp_end_abort)
  show ?thesis
    unfolding gw_escrow_split_def data strict_int.simps option.case prod.case
    by (rule answered_transaction, rule assms(1), simp, rule wp_end_seq, rule wp_load_escrow [OF _ _ ok], simp, simp,
        rule paid, assumption+, simp_all)
qed

end
