(* ===== verification/Gateway_Routes.thy ===== *)
theory Gateway_Routes
  imports Gateway_Atomic
begin

text \<open>
  What every route of the gateway keeps, from what the transactions keep: an answer is an error and nothing has
  changed, or the transaction is committed. Constraints are named by identifiers.
\<close>

section \<open>Requests\<close>

definition body_object :: "gw_request \<Rightarrow> payload" where
  "body_object q = (case parse_json_body (gq_body q) of Inl _ \<Rightarrow> [] | Inr data \<Rightarrow> data)"

definition constraints_named :: "gw_request \<Rightarrow> bool" where
  "constraints_named q = (case jget (body_object q) ''constraints'' of JObj conds \<Rightarrow> named_well conds | _ \<Rightarrow> True)"

definition served :: "(database \<Rightarrow> bool) \<Rightarrow> conn \<Rightarrow> (nat \<times> json option) \<times> conn option \<Rightarrow> bool" where
  "served Q c a \<longleftrightarrow> snd a = Some c \<or>
     (\<exists>c'. snd a = Some c' \<and> fst (fst a) < 400 \<and> cn_undo c' = None \<and> Q (cn_data c'))"

lemma served_same [simp]: "served Q c (x, Some c)"
  by (simp add: served_def)

lemma served_get [simp]: "served Q c (gw_get f (Some c))" "served Q c (gw_list f (Some c))"
  by (simp_all add: gw_get_def gw_list_def)

lemma served_get_only [simp]: "served Q c (f (Some c)) \<Longrightarrow> served Q c (get_only m f (Some c))"
  by (simp add: get_only_def)

lemma served_post_only: "(m = ''POST'' \<Longrightarrow> served Q c (f (Some c))) \<Longrightarrow> served Q c (post_only m f (Some c))"
  by (simp add: post_only_def)

lemma served_if: "(b \<Longrightarrow> served Q c x) \<Longrightarrow> (\<not> b \<Longrightarrow> served Q c y) \<Longrightarrow> served Q c (if b then x else y)"
  by simp

lemma served_post:
  assumes "\<And>data x. parse_json_body body = Inr data \<Longrightarrow> checks data = Inr x \<Longrightarrow> answered (\<lambda>_. Q) c (run data x c)"
    and "status < 400"
  shows "served Q c (gw_post status checks run body (Some c))"
proof (cases "and_then (parse_json_body body) (\<lambda>data. and_then (checks data) (\<lambda>x. Inr (data, x)))")
  case (Inl e)
  then show ?thesis by (simp add: gw_post_def)
next
  case (Inr z)
  then obtain data x where z: "parse_json_body body = Inr data" "checks data = Inr x" "z = (data, x)"
    by (auto simp: inr_iffs)
  obtain r c' where run: "run data x c = (r, c')" by fastforce
  have "answered (\<lambda>_. Q) c (r, c')" using assms(1) [OF z(1,2)] run by simp
  moreover have "gw_post status checks run body (Some c) = (response_of status id r, Some c')"
    unfolding gw_post_def Inr z(3) by (simp add: run)
  ultimately show ?thesis using assms(2) by (auto simp: answered_def served_def response_of_def)
qed

lemma served_delete: "cn_undo c = None \<Longrightarrow> (\<And>d. same_on (- {''court_rulings''}) (cn_data c) d \<Longrightarrow> Q d) \<Longrightarrow> served Q c (gw_delete k (Some c))"
  by (auto simp: gw_delete_def served_def gw_delete_ruling_def Let_def commit_def put_data_def response_of_def)

section \<open>Routes\<close>

text \<open>What the transactions of all routes must keep, for the routes to keep it.\<close>

lemma parsed_body [simp]: "gq_body q = Some (JObj data) \<Longrightarrow> body_object q = data"
  by (simp add: body_object_def parse_json_body_def)

lemma checked_constraints:
  assumes "validate_constraints data = Inr cs" "case jget data ''constraints'' of JObj conds \<Rightarrow> named_well conds | _ \<Rightarrow> True"
  shows "named_or_none cs"
  using assms by (auto simp: validate_constraints_def named_or_none_def split: json.splits if_splits)

lemma constrained_checks_validate: "constrained_checks ks data = Inr cs \<Longrightarrow> validate_constraints data = Inr cs"
  by (auto simp: constrained_checks_def inr_iffs)

lemma task_status_checks_validate: "task_status_checks data = Inr cs \<Longrightarrow> validate_constraints data = Inr cs"
  by (cases "jget data ''updates''") (auto simp: task_status_checks_def inr_iffs split: if_splits)

lemma checked_named:
  assumes "constraints_named q" "parse_json_body (gq_body q) = Inr data"
  shows "release_checks data = Inr cs \<Longrightarrow> named_or_none cs" "split_checks data = Inr cs \<Longrightarrow> named_or_none cs"
    "task_status_checks data = Inr cs \<Longrightarrow> named_or_none cs" "claim_status_checks data = Inr cs \<Longrightarrow> named_or_none cs"
proof -
  have ok: "validate_constraints data = Inr cs \<Longrightarrow> named_or_none cs"
    using assms by (intro checked_constraints [of data]) (auto simp: constraints_named_def)
  show "release_checks data = Inr cs \<Longrightarrow> named_or_none cs"
    unfolding release_checks_def by (intro ok constrained_checks_validate)
  show "split_checks data = Inr cs \<Longrightarrow> named_or_none cs"
    unfolding split_checks_def by (auto simp: inr_iffs intro!: ok dest!: constrained_checks_validate)
  show "task_status_checks data = Inr cs \<Longrightarrow> named_or_none cs"
    by (intro ok task_status_checks_validate)
  show "claim_status_checks data = Inr cs \<Longrightarrow> named_or_none cs"
    unfolding claim_status_checks_def by (auto simp: inr_iffs intro!: ok)
qed

lemma routes_served:
  assumes closed: "cn_undo c = None" and named: "constraints_named q"
    and register: "\<And>data. answered (\<lambda>_. Q) c (gw_register_agent data c)"
    and create: "\<And>data. gq_path q = [''bank'', ''accounts''] \<Longrightarrow> gq_method q = ''POST'' \<Longrightarrow> parse_json_body (gq_body q) = Inr data \<Longrightarrow>
      create_account_checks data = Inr () \<Longrightarrow> answered (\<lambda>_. Q) c (gw_create_account data c)"
    and credit: "\<And>data. gq_path q = [''bank'', ''credit''] \<Longrightarrow> gq_method q = ''POST'' \<Longrightarrow> parse_json_body (gq_body q) = Inr data \<Longrightarrow>
      credit_checks data = Inr () \<Longrightarrow> answered (\<lambda>_. Q) c (gw_credit_account data c)"
    and lock: "\<And>data. gq_path q = [''bank'', ''escrow'', ''lock''] \<Longrightarrow> parse_json_body (gq_body q) = Inr data \<Longrightarrow>
      lock_checks data = Inr () \<Longrightarrow> answered (\<lambda>_. Q) c (gw_escrow_lock data c)"
    and release: "\<And>data cs. gq_path q = [''bank'', ''escrow'', ''release''] \<Longrightarrow> parse_json_body (gq_body q) = Inr data \<Longrightarrow>
      release_checks data = Inr cs \<Longrightarrow> answered (\<lambda>_. Q) c (gw_escrow_release data cs c)"
    and split: "\<And>data cs. gq_path q = [''bank'', ''escrow'', ''split''] \<Longrightarrow> parse_json_body (gq_body q) = Inr data \<Longrightarrow>
      split_checks data = Inr cs \<Longrightarrow> answered (\<lambda>_. Q) c (gw_escrow_split data cs c)"
    and task: "\<And>data. gq_path q = [''board'', ''tasks''] \<Longrightarrow> gq_method q = ''POST'' \<Longrightarrow> parse_json_body (gq_body q) = Inr data \<Longrightarrow>
      create_task_checks data = Inr () \<Longrightarrow> answered (\<lambda>_. Q) c (gw_create_task data c)"
    and bid: "\<And>data cs. answered (\<lambda>_. Q) c (gw_submit_bid data cs c)"
    and asset: "\<And>data cs. answered (\<lambda>_. Q) c (gw_record_asset data cs c)"
    and status: "\<And>tid data cs. named_or_none cs \<Longrightarrow> answered (\<lambda>_. Q) c (gw_update_task_status tid data cs c)"
    and feedback: "\<And>data. answered (\<lambda>_. Q) c (gw_submit_feedback data c)"
    and claim: "\<And>data. answered (\<lambda>_. Q) c (gw_file_claim data c)"
    and claim_status: "\<And>cid data cs. named_or_none cs \<Longrightarrow> answered (\<lambda>_. Q) c (gw_update_claim_status cid data cs c)"
    and rebuttal: "\<And>data cs. answered (\<lambda>_. Q) c (gw_submit_rebuttal data cs c)"
    and ruling: "\<And>data. answered (\<lambda>_. Q) c (gw_record_ruling data c)"
    and delete: "\<And>d. same_on (- {''court_rulings''}) (cn_data c) d \<Longrightarrow> Q d"
  shows "served Q c (gateway_http q (Some c))"
proof -
  have collection: "served Q c (gw_collection (gq_method q) a b (gq_query q) (gq_body q) (Some c))" if "gq_path q = [a, b]" for a b
    unfolding gw_collection_def
    by (intro served_if served_post served_post_only served_get_only register create credit task bid asset feedback claim
        rebuttal ruling; (simp add: that)?)
  have item: "served Q c (gw_item (gq_method q) a b k (gq_query q) (gq_body q) (Some c))" if "gq_path q = [a, b, k]" for a b k
    unfolding gw_item_def
    by (intro served_if served_post served_get_only lock release split served_delete closed delete; (simp add: that)?)
  have part: "served Q c (gw_part (gq_method q) a b k part (gq_body q) (Some c))" for a b k part
    unfolding gw_part_def
    by (intro served_if served_post served_post_only served_get_only status claim_status checked_named [OF named]; simp)
  show ?thesis
    unfolding gateway_http_def
    by (auto split: list.split intro!: collection item part served_get_only simp: gw_health_def)
qed

lemma gateway_served:
  assumes closed: "cn_undo c = None" and named: "constraints_named q"
    and off: "\<And>d. off_books (cn_data c) d \<Longrightarrow> Q d"
    and create: "\<And>data. gq_path q = [''bank'', ''accounts''] \<Longrightarrow> gq_method q = ''POST'' \<Longrightarrow> parse_json_body (gq_body q) = Inr data \<Longrightarrow>
      create_account_checks data = Inr () \<Longrightarrow> answered (\<lambda>_. Q) c (gw_create_account data c)"
    and credit: "\<And>data. gq_path q = [''bank'', ''credit''] \<Longrightarrow> gq_method q = ''POST'' \<Longrightarrow> parse_json_body (gq_body q) = Inr data \<Longrightarrow>
      credit_checks data = Inr () \<Longrightarrow> answered (\<lambda>_. Q) c (gw_credit_account data c)"
    and lock: "\<And>data. gq_path q = [''bank'', ''escrow'', ''lock''] \<Longrightarrow> parse_json_body (gq_body q) = Inr data \<Longrightarrow>
      lock_checks data = Inr () \<Longrightarrow> answered (\<lambda>_. Q) c (gw_escrow_lock data c)"
    and release: "\<And>data cs. gq_path q = [''bank'', ''escrow'', ''release''] \<Longrightarrow> parse_json_body (gq_body q) = Inr data \<Longrightarrow>
      release_checks data = Inr cs \<Longrightarrow> answered (\<lambda>_. Q) c (gw_escrow_release data cs c)"
    and split: "\<And>data cs. gq_path q = [''bank'', ''escrow'', ''split''] \<Longrightarrow> parse_json_body (gq_body q) = Inr data \<Longrightarrow>
      split_checks data = Inr cs \<Longrightarrow> answered (\<lambda>_. Q) c (gw_escrow_split data cs c)"
  shows "served Q c (gateway_http q (Some c))"
proof -
  have kept: "kept_on bank_tables c a \<Longrightarrow> answered (\<lambda>_. Q) c a" for a
    using answered_mono off unfolding off_books_same_on by metis
  have delete: "same_on (- {''court_rulings''}) (cn_data c) d \<Longrightarrow> Q d" for d
    by (rule off) (auto simp: off_books_def same_on_def)
  note others = register_agent_answered create_task_answered submit_bid_answered record_asset_answered file_claim_answered
    update_task_status_answered submit_feedback_answered update_claim_status_answered submit_rebuttal_answered record_ruling_answered
  show ?thesis
    by (rule routes_served [OF closed named kept create credit lock release split kept kept kept kept kept kept kept kept kept delete])
      (simp_all add: others closed)
qed

section \<open>Runs\<close>

fun gateway_run :: "gw_request list \<Rightarrow> conn option \<Rightarrow> conn option" where
  "gateway_run [] st = st"
| "gateway_run (q # qs) st = gateway_run qs (snd (gateway_http q st))"

definition new_database :: conn where
  "new_database = \<lparr>cn_data = (\<lambda>_. []), cn_undo = None\<rparr>"

end
