(* ===== verification/Gateway_Props.thy ===== *)
theory Gateway_Props
  imports Gateway_Money Gateway_Routes
begin

text \<open>
  Requests to the gateway: an error has changed nothing, and the money in the bank's tables is what the log of credits
  says. Both need constraints named by identifiers.
\<close>

section \<open>What is asked of the bank\<close>

text \<open>The row logged for the initial balance is of that amount.\<close>

definition credit_is_balance :: "gw_request \<Rightarrow> bool" where
  "credit_is_balance q =
     (case jget (body_object q) ''initial_credit'' of
        JObj credit \<Rightarrow> jget credit ''amount'' = jget (body_object q) ''balance''
      | _ \<Rightarrow> True)"

text \<open>What a request asks the bank to issue.\<close>

definition asked :: "gw_request \<Rightarrow> int" where
  "asked q =
     (let amount = \<lambda>k. case strict_int (jget (body_object q) k) of None \<Rightarrow> 0 | Some n \<Rightarrow> max 0 n
      in if gq_method q \<noteq> ''POST'' then 0
         else if gq_path q = [''bank'', ''accounts''] then amount ''balance''
         else if gq_path q = [''bank'', ''credit''] then amount ''amount''
         else 0)"

section \<open>All or nothing\<close>

lemma wp_adjust [wp_intros]:
  assumes "passing p" "plain amount" "plain account" "\<And>n rs. Q n (d(''bank_accounts'' := rs))"
  shows "wp p d\<^sub>0 (add_to_balance amount account) Q d" "wp p d\<^sub>0 (take_from_balance amount account) Q d"
  unfolding add_to_balance_def take_from_balance_def
  using assms by (auto intro!: wp_seq wp_plain bind_all_plain wp_update)

lemma wp_log_any [wp_intros]:
  assumes "passing p" "plain tx_id" "plain account" "plain amount" "plain ref" "plain stamp"
    "\<And>r. Q () (d(''bank_transactions'' := transactions d @ [r]))"
  shows "wp p d\<^sub>0 (log_transaction tx_id account type amount ref stamp) Q d"
  by (rule wp_log_transaction) (use assms in auto)

lemma wp_load_any [wp_intros]:
  assumes "passing p" "plain eid" "\<And>j. plain (Inr j) \<Longrightarrow> Q j d" shows "wp p d\<^sub>0 (load_escrow eid) Q d"
  unfolding load_escrow_def
  by (intro wp_seq wp_plain bind_all_plain wp_select wp_option wp_abort wp_if wp_give) (use assms in auto)

lemma wp_resolve_any [wp_intros]:
  assumes "passing p" "named_or_none cs" "\<And>rs. Q () (d(''bank_escrow'' := rs))"
  shows "wp p d\<^sub>0 (resolve_escrow_row status data cs) Q d"
  unfolding resolve_escrow_row_def Let_def
  by (intro wp_option wp_intros bind_all_plain)
    (use assms in \<open>auto simp: named_or_none_def refused_here_def\<close>)

lemma wp_pay_any [wp_intros]:
  assumes "passing p" "plain account" "plain tx" "Q () d" "\<And>rs rs'. Q () (d(''bank_accounts'' := rs, ''bank_transactions'' := rs'))"
  shows "wp p d\<^sub>0 (pay_share k account tx data) Q d"
  unfolding pay_share_def by (intro wp_intros) (use assms in auto)

lemma bank_kept:
  assumes closed: "cn_undo c = None"
    and T [simp]: "''bank_accounts'' \<notin> T" "''bank_transactions'' \<notin> T" "''bank_escrow'' \<notin> T" "''events'' \<notin> T"
  shows "kept_on T c (gw_create_account data c)" "kept_on T c (gw_credit_account data c)" "kept_on T c (gw_escrow_lock data c)"
    "named_or_none cs \<Longrightarrow> kept_on T c (gw_escrow_release data cs c)"
    "named_or_none cs \<Longrightarrow> kept_on T c (gw_escrow_split data cs c)"
proof -
  have refuse: "wp_end is_service_error d\<^sub>0 (\<lambda>c. if b c then abort e c else abort e' c) Q d" for d\<^sub>0 b e e' Q d
    by (simp add: wp_end_def abort_def rollback_def)
  show "kept_on T c (gw_create_account data c)"
    unfolding gw_create_account_def
    by (rule answered_transaction, rule closed, simp, (intro wp_intros wp_insert; simp))
  show "kept_on T c (gw_credit_account data c)"
    unfolding gw_credit_account_def
    by (rule answered_transaction, rule closed, simp add: keeps_conn_def split: option.split, (intro wp_intros; simp))
  show "kept_on T c (gw_escrow_lock data c)"
    unfolding gw_escrow_lock_def
    by (rule answered_transaction, rule closed, simp add: keeps_conn_def split: option.split,
        (intro wp_intros refuse wp_insert; simp))
  show "named_or_none cs \<Longrightarrow> kept_on T c (gw_escrow_release data cs c)"
    unfolding gw_escrow_release_def
    by (rule answered_transaction, rule closed, simp, (intro wp_intros; simp))
  show "named_or_none cs \<Longrightarrow> kept_on T c (gw_escrow_split data cs c)"
    unfolding gw_escrow_split_def prod.case
    by (rule answered_transaction, rule closed, simp, (intro wp_intros; simp))
qed

text \<open>
  C30: Served by a gateway that has no transaction open, a request whose constraints are named by identifiers leaves
  none open, and is answered with an error only when it has changed no table. (From an open transaction this fails;
  C31 shows how one comes about.)
\<close>
theorem gateway_all_or_nothing:
  assumes "cn_undo c = None" "constraints_named q" "gateway_http q (Some c) = ((status, body), st)"
  shows "\<exists>c'. st = Some c' \<and> cn_undo c' = None \<and> (400 \<le> status \<longrightarrow> c' = c)"
proof -
  have "served (\<lambda>_. True) c (gateway_http q (Some c))"
  proof (rule gateway_served [OF assms(1,2)])
    fix data cs
    note done_with = answered_mono [OF bank_kept(1), of c "{}"] answered_mono [OF bank_kept(2), of c "{}"]
      answered_mono [OF bank_kept(3), of c "{}"] answered_mono [OF bank_kept(4), of c "{}" cs]
      answered_mono [OF bank_kept(5), of c "{}" cs]
    show "answered (\<lambda>_ _. True) c (gw_create_account data c)" "answered (\<lambda>_ _. True) c (gw_credit_account data c)"
      "answered (\<lambda>_ _. True) c (gw_escrow_lock data c)"
      using done_with assms(1) by auto
    assume b: "parse_json_body (gq_body q) = Inr data"
    show "release_checks data = Inr cs \<Longrightarrow> answered (\<lambda>_ _. True) c (gw_escrow_release data cs c)"
      "split_checks data = Inr cs \<Longrightarrow> answered (\<lambda>_ _. True) c (gw_escrow_split data cs c)"
      using done_with assms(1) checked_named [OF assms(2) b] by auto
  qed simp
  then show ?thesis using assms(1,3) by (auto simp: served_def)
qed

section \<open>Money\<close>

lemma required_not_null: "validate_required_fields data ks = Inr () \<Longrightarrow> k \<in> set ks \<Longrightarrow> jget data k \<noteq> JNull"
  by (induction data ks rule: validate_required_fields.induct) (auto split: json.splits if_splits)

lemma non_negative_checked:
  assumes "validate_non_negative_integer data k = Inr ()" shows "\<exists>n. jget data k = JInt n \<and> 0 \<le> n"
  using assms by (auto simp: validate_non_negative_integer_def split: option.splits if_splits)

lemma positive_checked:
  assumes "validate_positive_integer data k = Inr ()" shows "\<exists>n. jget data k = JInt n \<and> 0 < n"
  using assms by (auto simp: validate_positive_integer_def split: option.splits if_splits)

lemma create_account_checked:
  assumes "create_account_checks data = Inr ()"
  shows "jget data ''account_id'' \<noteq> JNull"
    "\<exists>n. jget data ''balance'' = JInt n \<and> 0 \<le> n \<and> (jget data ''initial_credit'' = JNull \<longrightarrow> n = 0)"
proof -
  have c: "validate_required_fields data [''account_id'', ''created_at''] = Inr ()" "validate_non_negative_integer data ''balance'' = Inr ()"
    using assms by (auto simp: create_account_checks_def inr_iffs)
  show "jget data ''account_id'' \<noteq> JNull" using required_not_null [OF c(1)] by simp
  obtain n where n: "jget data ''balance'' = JInt n" "0 \<le> n" using non_negative_checked [OF c(2)] by blast
  moreover have "n = 0" if "jget data ''initial_credit'' = JNull"
    using assms n that by (auto simp: create_account_checks_def inr_iffs split: if_splits)
  ultimately show "\<exists>n. jget data ''balance'' = JInt n \<and> 0 \<le> n \<and> (jget data ''initial_credit'' = JNull \<longrightarrow> n = 0)"
    by blast
qed

lemma credit_body_checked:
  assumes "credit_checks data = Inr ()" shows "\<exists>n. jget data ''amount'' = JInt n \<and> 0 < n"
proof -
  have "validate_positive_integer data ''amount'' = Inr ()" using assms by (auto simp: credit_checks_def inr_iffs)
  then show ?thesis by (rule positive_checked)
qed

lemma lock_body_checked:
  assumes "lock_checks data = Inr ()" shows "jget data ''escrow_id'' \<noteq> JNull \<and> (\<exists>n. jget data ''amount'' = JInt n \<and> 0 < n)"
proof -
  have c: "validate_required_fields data [''escrow_id'', ''payer_account_id'', ''amount'', ''task_id'', ''created_at'', ''tx_id''] = Inr ()"
    "validate_positive_integer data ''amount'' = Inr ()"
    using assms by (auto simp: lock_checks_def inr_iffs)
  show ?thesis using required_not_null [OF c(1), of "''escrow_id''"] positive_checked [OF c(2)] by simp
qed

lemma split_body_checked:
  assumes "split_checks data = Inr cs"
  shows "(\<exists>a. jget data ''worker_amount'' = JInt a \<and> 0 \<le> a) \<and> (\<exists>b. jget data ''poster_amount'' = JInt b \<and> 0 \<le> b)"
proof -
  have "validate_non_negative_integer data ''worker_amount'' = Inr ()" "validate_non_negative_integer data ''poster_amount'' = Inr ()"
    using assms by (auto simp: split_checks_def inr_iffs)
  then show ?thesis using non_negative_checked by blast
qed

lemma asked_nonneg: "0 \<le> asked q"
  by (simp add: asked_def Let_def split: option.split)

lemma off_books_moved: "tables_ok d \<Longrightarrow> off_books d d' \<Longrightarrow> moved 0 d d'"
  by (simp add: off_books_def moved_def tables_ok_def credited_def unexplained_def)

text \<open>What a request did to the money: as much as it asked for or nothing.\<close>

lemma gateway_moves:
  assumes closed: "cn_undo c = None" and ok: "tables_ok (cn_data c)" and books: "books_balance (cn_data c)"
    and fits: "credited (cn_data c) + asked q < 2 ^ 63"
    and named: "constraints_named q" and initial: "credit_is_balance q"
  shows "served (\<lambda>d. moved 0 (cn_data c) d \<or> moved (asked q) (cn_data c) d) c (gateway_http q (Some c))"
proof (rule gateway_served [OF closed named])
  have f: "credited (cn_data c) < 2 ^ 63" using fits asked_nonneg [of q] by simp
  show "\<And>d. off_books (cn_data c) d \<Longrightarrow> moved 0 (cn_data c) d \<or> moved (asked q) (cn_data c) d"
    using off_books_moved [OF ok] by simp
  show "answered (\<lambda>_ d. moved 0 (cn_data c) d \<or> moved (asked q) (cn_data c) d) c (gw_create_account data c)"
    if r: "gq_path q = [''bank'', ''accounts'']" "gq_method q = ''POST''" and b: "parse_json_body (gq_body q) = Inr data"
      and k: "create_account_checks data = Inr ()" for data
  proof -
    obtain n where n: "jget data ''balance'' = JInt n" "0 \<le> n" "jget data ''initial_credit'' = JNull \<Longrightarrow> n = 0"
      using create_account_checked [OF k] by blast
    have "asked q = n" using n b r by (simp add: asked_def)
    moreover have "\<And>cr. jget data ''initial_credit'' = JObj cr \<Longrightarrow> jget cr ''amount'' = JInt n"
      using initial b n by (simp add: credit_is_balance_def)
    ultimately show ?thesis
      using answered_mono [OF create_account_moves [OF closed ok create_account_checked(1) [OF k] n]] by simp
  qed
  show "answered (\<lambda>_ d. moved 0 (cn_data c) d \<or> moved (asked q) (cn_data c) d) c (gw_credit_account data c)"
    if r: "gq_path q = [''bank'', ''credit'']" "gq_method q = ''POST''" and b: "parse_json_body (gq_body q) = Inr data"
      and k: "credit_checks data = Inr ()" for data
  proof -
    obtain n where n: "jget data ''amount'' = JInt n" "0 < n" using credit_body_checked [OF k] by blast
    have a: "asked q = n" using n b r by (simp add: asked_def)
    show ?thesis
      using answered_mono [OF credit_account_moves [OF closed ok books n]] fits a by simp
  qed
  show "answered (\<lambda>_ d. moved 0 (cn_data c) d \<or> moved (asked q) (cn_data c) d) c (gw_escrow_lock data c)"
    if k: "lock_checks data = Inr ()" for data
  proof -
    obtain n where n: "jget data ''amount'' = JInt n" "0 < n" "jget data ''escrow_id'' \<noteq> JNull" using lock_body_checked [OF k] by auto
    show ?thesis using answered_mono [OF escrow_lock_moves [OF closed ok books n f]] by simp
  qed
  show "answered (\<lambda>_ d. moved 0 (cn_data c) d \<or> moved (asked q) (cn_data c) d) c (gw_escrow_release data cs c)"
    if "parse_json_body (gq_body q) = Inr data" "release_checks data = Inr cs" for data cs
    using answered_mono [OF escrow_release_moves [OF closed ok books f checked_named(1) [OF named that]]] by simp
  show "answered (\<lambda>_ d. moved 0 (cn_data c) d \<or> moved (asked q) (cn_data c) d) c (gw_escrow_split data cs c)"
    if b: "parse_json_body (gq_body q) = Inr data" and k: "split_checks data = Inr cs" for data cs
  proof -
    obtain a b where ab: "jget data ''worker_amount'' = JInt a" "0 \<le> a" "jget data ''poster_amount'' = JInt b" "0 \<le> b"
      using split_body_checked [OF k] by blast
    show ?thesis
      using answered_mono [OF escrow_split_moves [OF closed ok books f checked_named(2) [OF named b k] ab]] by simp
  qed
qed

lemma run_keeps_books:
  assumes "list_all (\<lambda>q. constraints_named q \<and> credit_is_balance q) qs" "credited (cn_data c) + (\<Sum>q\<leftarrow>qs. asked q) < 2 ^ 63"
    and "cn_undo c = None" "tables_ok (cn_data c)" "books_balance (cn_data c)"
  shows "\<exists>c'. gateway_run qs (Some c) = Some c' \<and> cn_undo c' = None \<and> tables_ok (cn_data c') \<and> books_balance (cn_data c') \<and>
    (\<forall>a. unexplained a (cn_data c') = unexplained a (cn_data c))"
  using assms
proof (induction qs arbitrary: c)
  case (Cons q qs)
  have "0 \<le> (\<Sum>q\<leftarrow>qs. asked q)" by (rule sum_list_nonneg) (auto simp: asked_nonneg)
  then have fits: "credited (cn_data c) + asked q < 2 ^ 63" using Cons.prems(2) by simp
  have "served (\<lambda>d. moved 0 (cn_data c) d \<or> moved (asked q) (cn_data c) d) c (gateway_http q (Some c))"
    using gateway_moves [OF Cons.prems(3-5) fits] Cons.prems(1) by simp
  then obtain c' where c': "snd (gateway_http q (Some c)) = Some c'" "cn_undo c' = None" "tables_ok (cn_data c')"
      "books_balance (cn_data c')" "credited (cn_data c') \<le> credited (cn_data c) + asked q"
      "\<forall>a. unexplained a (cn_data c') = unexplained a (cn_data c)"
    using Cons.prems(3-5) asked_nonneg [of q] by (auto simp: served_def moved_def books_balance_def)
  then show ?case using Cons.IH [of c'] Cons.prems(1,2) by simp
qed simp

lemma books_from_new:
  assumes "list_all (\<lambda>q. constraints_named q \<and> credit_is_balance q) qs" "(\<Sum>q\<leftarrow>qs. asked q) < 2 ^ 63"
    and "gateway_run qs (Some new_database) = Some c"
  shows "tables_ok (cn_data c) \<and> books_balance (cn_data c) \<and> cn_undo c = None \<and> (\<forall>a. unexplained a (cn_data c) = 0)"
proof -
  have "\<exists>c'. gateway_run qs (Some new_database) = Some c' \<and> cn_undo c' = None \<and> tables_ok (cn_data c') \<and> books_balance (cn_data c') \<and>
      (\<forall>a. unexplained a (cn_data c') = unexplained a (cn_data new_database))"
    by (rule run_keeps_books [OF assms(1)])
      (use assms(2) in \<open>simp_all add: new_database_def credited_def tables_ok_def keyed_def books_balance_def sum_balances_def
          sum_locked_def sum_credits_def\<close>)
  moreover have "unexplained a (cn_data new_database) = 0" for a
    by (simp add: unexplained_def new_database_def account_holds_def recorded_for_def)
  ultimately show ?thesis using assms(3) by auto
qed

text \<open>
  C29: After any requests to a new database that name their constraints by identifiers and log each initial balance as
  a credit of that amount, while less than \<open>2 ^ 63\<close> is issued in all: the balances and the locked escrows sum to the
  credits logged, every account holds what its own log says - credits and releases less locks -, no balance is
  negative, and no transaction is left open.
\<close>
theorem gateway_books_balance:
  assumes "list_all (\<lambda>q. constraints_named q \<and> credit_is_balance q) qs" "(\<Sum>q\<leftarrow>qs. asked q) < 2 ^ 63"
    and "gateway_run qs (Some new_database) = Some c"
  shows "sum_balances (accounts (cn_data c)) + sum_locked (escrows (cn_data c)) = credited (cn_data c) \<and>
    (\<forall>a. account_holds a (accounts (cn_data c)) = recorded_for a (transactions (cn_data c))) \<and>
    (\<forall>r \<in> set (accounts (cn_data c)). \<exists>n. r ''balance'' = SInt n \<and> 0 \<le> n) \<and> cn_undo c = None"
proof -
  show ?thesis using books_from_new [OF assms]
    by (auto simp: tables_ok_def list_all_iff account_row_def books_balance_def unexplained_def)
qed

section \<open>Witnesses\<close>

definition demo_event :: json where
  "demo_event = JObj [(''event_source'', JStr ''bank''), (''event_type'', JStr ''e''), (''timestamp'', JStr ''t''),
     (''summary'', JStr ''s''), (''payload'', JStr ''p'')]"

definition gw_post_request :: "string list \<Rightarrow> payload \<Rightarrow> gw_request" where
  "gw_post_request path body =
     \<lparr>gq_method = ''POST'', gq_path = path, gq_query = [], gq_body = Some (JObj (body @ [(''event'', demo_event)]))\<rparr>"

definition register_demo :: "string \<Rightarrow> gw_request" where
  "register_demo a = gw_post_request [''identity'', ''agents'']
     [(''agent_id'', JStr a), (''name'', JStr a), (''public_key'', JStr a), (''registered_at'', JStr ''t'')]"

definition account_demo :: "string \<Rightarrow> int \<Rightarrow> gw_request" where
  "account_demo a n = gw_post_request [''bank'', ''accounts'']
     ([(''account_id'', JStr a), (''balance'', JInt n), (''created_at'', JStr ''t'')] @
      (if n = 0 then [] else [(''initial_credit'', JObj [(''tx_id'', JStr a), (''amount'', JInt n), (''reference'', JStr ''r''),
         (''timestamp'', JStr ''t'')])]))"

definition lock_demo :: "string \<Rightarrow> string \<Rightarrow> int \<Rightarrow> gw_request" where
  "lock_demo e a n = gw_post_request [''bank'', ''escrow'', ''lock'']
     [(''escrow_id'', JStr e), (''payer_account_id'', JStr a), (''amount'', JInt n), (''task_id'', JStr ''k''),
      (''created_at'', JStr ''t''), (''tx_id'', JStr e)]"

definition demo_requests :: "gw_request list" where
  "demo_requests = [register_demo ''a'', account_demo ''a'' 100, lock_demo ''e'' ''a'' 30]"

definition holdings :: "conn option \<Rightarrow> int list" where
  "holdings st = (case st of None \<Rightarrow> [] | Some c \<Rightarrow>
     [sum_balances (accounts (cn_data c)), sum_locked (escrows (cn_data c)), credited (cn_data c)])"

lemma gateway_demo_run: "holdings (gateway_run demo_requests (Some new_database)) = [70, 30, 100]"
  by code_simp

theorem gateway_books_balance_witness:
  "\<exists>c. gateway_run demo_requests (Some new_database) = Some c \<and> sum_locked (escrows (cn_data c)) = 30 \<and>
    sum_balances (accounts (cn_data c)) + sum_locked (escrows (cn_data c)) = credited (cn_data c)"
proof -
  have clean: "list_all (\<lambda>q. constraints_named q \<and> credit_is_balance q) demo_requests" by code_simp
  have small: "(\<Sum>q\<leftarrow>demo_requests. asked q) < 2 ^ 63" by code_simp
  obtain c where c: "gateway_run demo_requests (Some new_database) = Some c"
    using gateway_demo_run by (cases "gateway_run demo_requests (Some new_database)") (auto simp: holdings_def)
  show ?thesis using gateway_books_balance [OF clean small c] gateway_demo_run c by (auto simp: holdings_def)
qed

theorem gateway_all_or_nothing_witness:
  "fst (fst (gateway_http (lock_demo ''e'' ''a'' 30) (Some new_database))) = 404 \<and>
    snd (gateway_http (lock_demo ''e'' ''a'' 30) (Some new_database)) = Some new_database"
proof -
  obtain status body st where r: "gateway_http (lock_demo ''e'' ''a'' 30) (Some new_database) = ((status, body), st)"
    by (metis surj_pair)
  have s: "fst (fst (gateway_http (lock_demo ''e'' ''a'' 30) (Some new_database))) = 404" by code_simp
  have n: "constraints_named (lock_demo ''e'' ''a'' 30)" by code_simp
  have "cn_undo new_database = None" by (simp add: new_database_def)
  from gateway_all_or_nothing [OF this n r] show ?thesis using s by (auto simp: r)
qed

end
