(* ===== verification/Gateway_Leak.thy ===== *)
theory Gateway_Leak
  imports Gateway_Props
begin

text \<open>
  A release whose constraints are named badly: its error is passed on with the transaction left open, and the next
  statement that commits makes the payment permanent while the escrow stays locked.
\<close>

section \<open>The payment before the constraints are read\<close>

lemma seq_assoc: "seq (seq m f) g = seq m (\<lambda>x. seq (f x) g)"
  by (rule ext) (simp add: seq_def split: prod.split sum.split)

lemma seq_abort: "seq (abort e) g = abort e"
  by (rule ext) (simp add: seq_def abort_def)

lemma seq_give: "seq (give x) g = g x"
  by (rule ext) (simp add: seq_def give_def)

lemma seq_if: "seq (if b then m else n) g = (if b then seq m g else seq n g)"
  by simp

definition release_payment :: "payload \<Rightarrow> json step" where
  "release_payment data =
     seq (load_escrow (subscript data ''escrow_id'')) (\<lambda>amount.
     seq (add_to_balance (Inr amount) (subscript data ''recipient_account_id'')) (\<lambda>n.
     if n = 0 then abort (ServiceError ''account_not_found'' 404)
     else
       seq (log_transaction (subscript data ''tx_id'') (subscript data ''recipient_account_id'') ''escrow_release''
              (Inr amount) (subscript data ''escrow_id'') (subscript data ''resolved_at'')) (\<lambda>_. give amount)))"

lemma gw_escrow_release_payment:
  "gw_escrow_release data cs =
     handled is_service_error not_handled
       (seq begin_immediate (\<lambda>_. seq (release_payment data) (\<lambda>amount.
          seq (resolve_escrow_row ''released'' data cs) (\<lambda>_.
          seq (data_event data) (\<lambda>event_id.
            finish [(''escrow_id'', jget data ''escrow_id''), (''status'', JStr ''released''), (''amount'', amount),
                    (''recipient_account_id'', jget data ''recipient_account_id''), (''event_id'', JInt event_id)])))))"
  by (simp add: gw_escrow_release_def release_payment_def seq_assoc seq_if seq_abort seq_give cong: if_cong)

text \<open>
  Between two states the recipient a release names has received what the escrow it names holds: he and nobody else,
  while the escrow is locked before and after.
\<close>

definition paid :: "payload \<Rightarrow> database \<Rightarrow> database \<Rightarrow> bool" where
  "paid data d d' \<longleftrightarrow> escrows d' = escrows d \<and>
     (\<exists>m > 0. \<exists>r \<in> set (escrows d). r ''escrow_id'' = account_cell (subscript data ''escrow_id'') \<and>
        r ''status'' = SText ''locked'' \<and> r ''amount'' = SInt m \<and>
        (\<forall>a. account_holds a (accounts d') =
           account_holds a (accounts d) + (if a = account_cell (subscript data ''recipient_account_id'') then m else 0)))"

lemma wp_release_payment:
  assumes ok: "tables_ok d" and books: "books_balance d" and fits: "credited d < 2 ^ 63" and pass: "passing p"
  shows "wp p d\<^sub>0 (release_payment data) (\<lambda>_. paid data d) d"
proof -
  have pay: "wp p d\<^sub>0
      (seq (add_to_balance (Inr (JInt m)) (subscript data ''recipient_account_id'')) (\<lambda>n.
        if n = 0 then abort e
        else seq (log_transaction tx account ''escrow_release'' (Inr (JInt m)) (subscript data ''escrow_id'') ts) (\<lambda>_. give (JInt m))))
      (\<lambda>_. paid data d) d"
    if j: "subscript data ''escrow_id'' = Inr j" "bind_param j = Inr v" "r ''escrow_id'' = apply_affinity False v"
      and r: "r \<in> set (escrows d)" "r ''status'' = SText ''locked''" "r ''amount'' = SInt m" "0 < m"
      and plain: "plain tx" "plain account" "plain ts" for r j v m e tx account ts
  proof -
    have m: "0 \<le> m" "sum_balances (accounts d) + m < 2 ^ 63"
      using balances_covered [OF ok books] locked_covered [OF ok r(1-3)] fits r(4) by auto
    have id: "r ''escrow_id'' = account_cell (subscript data ''escrow_id'')"
      unfolding j(1,3) by (simp add: account_cell_bound [OF j(2)])
    show ?thesis
      by (intro wp_seq wp_if wp_abort wp_log_transaction wp_give wp_add_to_balance [OF _ _ refl ok m]; (simp add: plain pass)?)
        (use r id in \<open>auto simp: paid_def\<close>)
  qed
  show ?thesis
    unfolding release_payment_def
    by (rule wp_seq, rule wp_load_escrow [OF pass _ ok], simp, rule pay, assumption+, simp_all)
qed

text \<open>None of the statements before raises that error.\<close>

definition never :: "exn \<Rightarrow> 'a step \<Rightarrow> bool" where
  "never e m \<longleftrightarrow> (\<forall>c. fst (m c) \<noteq> Inl (Raised e))"

named_theorems never_intros \<open>steps that never raise an error\<close>

lemma never_seq [never_intros]:
  assumes "never e m" "\<And>x. never e (f x)" shows "never e (seq m f)"
  unfolding never_def
proof
  fix c show "fst (seq m f c) \<noteq> Inl (Raised e)"
  proof (cases rule: step_cases [of m c])
    case (raises e' c')
    then show ?thesis using assms(1) by (metis fst_conv never_def seq_Inl)
  next
    case (returns x c')
    then show ?thesis using assms(2) [of x] by (simp add: never_def seq_Inr)
  qed
qed

lemma never_simps [never_intros]:
  "never e (give x)" "never e (sql_select t f)" "never e (sql_update sch t f g)" "never e (insert_cells sch t vals)"
  "e \<noteq> e' \<Longrightarrow> never e (abort e')"
  by (auto simp: never_def give_def sql_select_def sql_update_def insert_cells_def abort_def Let_def split: sum.split option.split)

lemma never_lift [never_intros]: "plain r \<Longrightarrow> never (ServiceError k n) (lift_result r)"
  by (cases r) (auto simp: never_def lift_result_def plain_def)

lemma never_option [never_intros]:
  "never e m \<Longrightarrow> (\<And>y. never e (f y)) \<Longrightarrow> never e (case x of None \<Rightarrow> m | Some y \<Rightarrow> f y)"
  by (cases x) auto

lemma never_if [never_intros]: "never e m \<Longrightarrow> never e n \<Longrightarrow> never e (if b then m else n)"
  by simp

lemma never_insert_at [never_intros]: "(\<And>d. never e (insert_cells sch t (f d))) \<Longrightarrow> never e (\<lambda>c. insert_cells sch t (f (cn_data c)) c)"
  by (simp add: never_def)

lemma never_release_payment: "never (ServiceError ''invalid_constraints'' 400) (release_payment data)"
proof -
  show ?thesis
    unfolding release_payment_def load_escrow_def add_to_balance_def log_transaction_def
    by (intro never_intros bind_all_plain; simp)
qed

lemma release_badly_named:
  assumes closed: "cn_undo c = None" and ok: "tables_ok (cn_data c)" and books: "books_balance (cn_data c)"
    and fits: "credited (cn_data c) < 2 ^ 63" and cs: "\<not> named_well cs"
    and run: "gw_escrow_release data (Some cs) c = (Inl (ServiceError ''invalid_constraints'' 400), c1)"
  shows "cn_undo c1 = Some (cn_data c) \<and> paid data (cn_data c) (cn_data c1)"
proof -
  let ?o = "\<lparr>cn_data = cn_data c, cn_undo = Some (cn_data c)\<rparr>"
  have o: "c\<lparr>cn_undo := Some (cn_data c)\<rparr> = ?o" by (cases c) simp
  have start: "seq begin_immediate (\<lambda>_. m) c = m ?o" for m :: "payload step"
    using closed by (simp add: seq_def begin_immediate_def o)
  have wp: "wp is_service_error (cn_data c) (release_payment data) (\<lambda>_. paid data (cn_data c)) (cn_data c)"
    by (rule wp_release_payment [OF ok books fits]) simp
  show ?thesis
  proof (cases rule: step_cases [of "release_payment data" ?o])
    case (raises e c')
    then have "e \<noteq> Raised (ServiceError ''invalid_constraints'' 400)"
      using never_release_payment [of data] unfolding never_def by (metis fst_conv)
    then show ?thesis using run raises
      by (cases e) (auto simp: gw_escrow_release_payment handled_def start seq_Inl not_handled_def)
  next
    case (returns amount c')
    have "list_ex (\<lambda>(c, v). \<not> is_identifier c) cs" using cs by (auto simp: named_well_def list_ex_iff list_all_iff)
    then have "resolve_escrow_row ''released'' data (Some cs) c' = (Inl (Raised (ServiceError ''invalid_constraints'' 400)), c')"
      by (simp add: resolve_escrow_row_def Let_def compile_constraints_def conditions_def throw_exn_def seq_def)
    then have "c1 = c'" using run returns by (simp add: gw_escrow_release_payment handled_def start seq_Inr seq_Inl)
    then show ?thesis using wp returns by (simp add: wp_Inr)
  qed
qed

section \<open>Over HTTP\<close>

lemma required_fields_error: "validate_required_fields data ks = Inl e \<Longrightarrow> e = ServiceError ''missing_field'' 400"
proof (induction data ks rule: validate_required_fields.induct)
  case (2 data k ks)
  then show ?case by (cases "jget data k") (auto split: if_splits)
qed simp

lemma event_error: "validate_event data = Inl e \<Longrightarrow> e = ServiceError ''missing_field'' 400"
  by (auto simp: validate_event_def required_fields_error split: json.splits)

lemma release_checks_named:
  assumes "jget data ''constraints'' = JObj cs" "cs \<noteq> []"
  shows "release_checks data = Inr (Some cs) \<or> release_checks data = Inl (ServiceError ''missing_field'' 400)"
proof -
  have v: "validate_constraints data = Inr (Some cs)" using assms by (simp add: validate_constraints_def)
  show ?thesis
    unfolding release_checks_def constrained_checks_def v
    by (cases "validate_required_fields data [''escrow_id'', ''recipient_account_id'', ''tx_id'', ''resolved_at'']";
        cases "validate_event data")
      (auto dest: required_fields_error event_error simp del: validate_required_fields.simps)
qed

definition delete_ruling_request :: "string \<Rightarrow> gw_request" where
  "delete_ruling_request k = \<lparr>gq_method = ''DELETE'', gq_path = [''court'', ''rulings'', k], gq_query = [], gq_body = None\<rparr>"

lemma delete_commits:
  assumes "k \<noteq> []"
  shows "\<exists>c2. snd (gateway_http (delete_ruling_request k) (Some c1)) = Some c2 \<and> cn_undo c2 = None \<and>
    accounts (cn_data c2) = accounts (cn_data c1) \<and> escrows (cn_data c2) = escrows (cn_data c1)"
  using assms
  by (simp add: gateway_http_def delete_ruling_request_def gw_item_def gw_delete_def gw_delete_ruling_def Let_def commit_def put_data_def)

text \<open>
  C31: Take a gateway with no transaction open whose tables are well formed, whose books balance and which has issued
  less than \<open>2 ^ 63\<close>. When it refuses a release because a constraint is not named by an identifier, the transaction
  stays open, and if the next request deletes a ruling, existing or not, it is committed: the recipient named by the
  refused release has then received, he alone, the amount of the escrow named, which is still locked.
\<close>
theorem badly_named_release_pays:
  assumes "cn_undo c = None" "tables_ok (cn_data c)" "books_balance (cn_data c)" "credited (cn_data c) < 2 ^ 63"
    and "\<not> named_well cs" "jget data ''constraints'' = JObj cs"
    and q: "q = \<lparr>gq_method = ''POST'', gq_path = [''bank'', ''escrow'', ''release''], gq_query = qs, gq_body = Some (JObj data)\<rparr>"
    and run: "gateway_http q (Some c) = (error_response (ServiceError ''invalid_constraints'' 400), Some c1)"
    and "k \<noteq> []"
  shows "cn_undo c1 = Some (cn_data c) \<and>
    (\<exists>c2. snd (gateway_http (delete_ruling_request k) (Some c1)) = Some c2 \<and> cn_undo c2 = None \<and>
       paid data (cn_data c) (cn_data c2))"
proof -
  have "cs \<noteq> []" using assms(5) by (auto simp: named_well_def)
  note checks = release_checks_named [OF assms(6) this]
  have post: "gateway_http q (Some c) = gw_post 200 release_checks gw_escrow_release (Some (JObj data)) (Some c)"
    by (simp add: q gateway_http_def gw_item_def)
  have ok: "release_checks data = Inr (Some cs)"
    using checks run by (auto simp: post gw_post_def parse_json_body_def)
  obtain r c' where r: "gw_escrow_release data (Some cs) c = (r, c')" by fastforce
  have "response_of 200 id r = error_response (ServiceError ''invalid_constraints'' 400)" "c1 = c'"
    using run ok r by (auto simp: post gw_post_def parse_json_body_def)
  then have "gw_escrow_release data (Some cs) c = (Inl (ServiceError ''invalid_constraints'' 400), c1)"
    using r unfolding response_of_def by (cases r; (cases "projl r")?; auto split: exn.splits)
  then have "cn_undo c1 = Some (cn_data c) \<and> paid data (cn_data c) (cn_data c1)"
    using release_badly_named assms(1-5) by blast
  then show ?thesis using delete_commits [OF assms(9), of c1] unfolding paid_def by metis
qed

definition release_demo :: "payload \<Rightarrow> gw_request" where
  "release_demo data = \<lparr>gq_method = ''POST'', gq_path = [''bank'', ''escrow'', ''release''], gq_query = [], gq_body = Some (JObj data)\<rparr>"

definition bad_release :: payload where
  "bad_release = [(''escrow_id'', JStr ''e''), (''recipient_account_id'', JStr ''a''), (''tx_id'', JStr ''x''),
     (''resolved_at'', JStr ''t''), (''constraints'', JObj [('' '', JNull)]), (''event'', demo_event)]"

theorem badly_named_release_pays_witness:
  "\<exists>c. gateway_run demo_requests (Some new_database) = Some c \<and>
    (\<exists>c2. gateway_run [release_demo bad_release, delete_ruling_request ''k''] (Some c) = Some c2 \<and>
      paid bad_release (cn_data c) (cn_data c2))"
proof -
  have clean: "list_all (\<lambda>q. constraints_named q \<and> credit_is_balance q) demo_requests" by code_simp
  have small: "credited (cn_data new_database) + (\<Sum>q\<leftarrow>demo_requests. asked q) < 2 ^ 63" by code_simp
  obtain c where c: "gateway_run demo_requests (Some new_database) = Some c" "cn_undo c = None" "tables_ok (cn_data c)" "books_balance (cn_data c)"
    using run_keeps_books [OF clean small]
    by (auto simp: new_database_def credited_def tables_ok_def keyed_def books_balance_def sum_balances_def sum_locked_def sum_credits_def)
  have fits: "credited (cn_data c) < 2 ^ 63" using gateway_demo_run c(1) by (simp add: holdings_def)
  have bad: "\<not> named_well [('' '', JNull)]" by code_simp
  have "(case gateway_http (release_demo bad_release) (gateway_run demo_requests (Some new_database)) of
      (answer, st) \<Rightarrow> answer = error_response (ServiceError ''invalid_constraints'' 400) \<and> st \<noteq> None)"
    by code_simp
  then obtain c1 where run: "gateway_http (release_demo bad_release) (Some c) =
      (error_response (ServiceError ''invalid_constraints'' 400), Some c1)"
    using c(1) by (auto split: prod.splits)
  have "jget bad_release ''constraints'' = JObj [('' '', JNull)]" by code_simp
  from badly_named_release_pays [OF c(2-4) fits bad this release_demo_def run, of "''k''"] c(1) run
  show ?thesis by auto
qed

end
