(* ===== verification/Reputation.thy ===== *)
theory Reputation
  imports Tokens Py_Text
begin

text \<open>
  The Reputation service: \<^verbatim>\<open>services/feedback.py\<close>, \<^verbatim>\<open>services/sqlite_feedback_store.py\<close>,
  \<^verbatim>\<open>services/identity_client.py\<close> and \<^verbatim>\<open>routers/feedback.py\<close>. Feedback is sealed until its
  counterpart is given or a time has passed. Times are microseconds since the epoch.
\<close>

section \<open>Storage\<close>

record feedback =
  fb_id :: string
  fb_task_id :: string
  fb_from :: string
  fb_to :: string
  fb_category :: string
  fb_rating :: string
  fb_comment :: "string option"
  fb_submitted_at :: int
  fb_visible :: bool

text \<open>The arguments of an insert.\<close>

record feedback_args =
  fa_task_id :: string
  fa_from :: string
  fa_to :: string
  fa_category :: string
  fa_rating :: string
  fa_comment :: "string option"

text \<open>\<^verbatim>\<open>FeedbackStorageInterface\<close>: every operation may raise.\<close>

record 's feedback_ops =
  fo_insert :: "feedback_args \<Rightarrow> bool \<Rightarrow> 's \<Rightarrow> feedback result \<times> 's"
  fo_get_by_id :: "string \<Rightarrow> 's \<Rightarrow> feedback option result \<times> 's"
  fo_get_by_task :: "string \<Rightarrow> 's \<Rightarrow> feedback list result \<times> 's"
  fo_get_by_agent :: "string \<Rightarrow> 's \<Rightarrow> feedback list result \<times> 's"
  fo_count :: "'s \<Rightarrow> nat result \<times> 's"

definition duplicate_feedback :: exn where
  "duplicate_feedback = PyError ''DuplicateFeedbackError''"

text \<open>The table of the SQLite store, in the order of insertion, with the clock and identifiers it reads.\<close>

record feedback_db = host +
  feedback_rows :: "feedback list"

definition same_direction :: "string \<Rightarrow> string \<Rightarrow> string \<Rightarrow> feedback \<Rightarrow> bool" where
  "same_direction task frm to f \<longleftrightarrow> fb_task_id f = task \<and> fb_from f = frm \<and> fb_to f = to"

definition reveal :: "string \<Rightarrow> feedback \<Rightarrow> feedback" where
  "reveal k f = (if fb_id f = k then f\<lparr>fb_visible := True\<rparr> else f)"

definition sq_insert_feedback :: "feedback_args \<Rightarrow> bool \<Rightarrow> feedback_db \<Rightarrow> feedback result \<times> feedback_db" where
  "sq_insert_feedback a force s =
     (let (u, s1) = new_uuid s;
          (now, s2) = read_clock s1;
          rows = feedback_rows s2;
          f = \<lparr>fb_id = prefixed ''fb-'' u, fb_task_id = fa_task_id a, fb_from = fa_from a, fb_to = fa_to a,
               fb_category = fa_category a, fb_rating = fa_rating a, fb_comment = fa_comment a, fb_submitted_at = now,
               fb_visible = force\<rparr>
      in if list_ex (\<lambda>r. fb_id r = fb_id f \<or> same_direction (fa_task_id a) (fa_from a) (fa_to a) r) rows
         then (Inl duplicate_feedback, s2)
         else if force then (Inr f, s2\<lparr>feedback_rows := rows @ [f]\<rparr>)
         else
           (case filter (same_direction (fa_task_id a) (fa_to a) (fa_from a)) (rows @ [f]) of
              [] \<Rightarrow> (Inr f, s2\<lparr>feedback_rows := rows @ [f]\<rparr>)
            | r # _ \<Rightarrow>
                (Inr (f\<lparr>fb_visible := True\<rparr>),
                 s2\<lparr>feedback_rows := map (reveal (fb_id r) \<circ> reveal (fb_id f)) (rows @ [f])\<rparr>)))"

definition sq_get_by_id :: "string \<Rightarrow> feedback_db \<Rightarrow> feedback option result \<times> feedback_db" where
  "sq_get_by_id k s = (Inr (find (\<lambda>f. fb_id f = k) (feedback_rows s)), s)"

definition sq_get_by_task :: "string \<Rightarrow> feedback_db \<Rightarrow> feedback list result \<times> feedback_db" where
  "sq_get_by_task k s = (Inr (sort_key fb_submitted_at (filter (\<lambda>f. fb_task_id f = k) (feedback_rows s))), s)"

definition sq_get_by_agent :: "string \<Rightarrow> feedback_db \<Rightarrow> feedback list result \<times> feedback_db" where
  "sq_get_by_agent k s = (Inr (sort_key fb_submitted_at (filter (\<lambda>f. fb_to f = k) (feedback_rows s))), s)"

definition sq_count :: "feedback_db \<Rightarrow> nat result \<times> feedback_db" where
  "sq_count s = (Inr (length (feedback_rows s)), s)"

definition sqlite_feedback :: "feedback_db feedback_ops" where
  "sqlite_feedback =
     \<lparr>fo_insert = sq_insert_feedback, fo_get_by_id = sq_get_by_id, fo_get_by_task = sq_get_by_task,
      fo_get_by_agent = sq_get_by_agent, fo_count = sq_count\<rparr>"

section \<open>Validation\<close>

definition valid_categories :: "string list" where
  "valid_categories = [''spec_quality'', ''delivery_quality'']"

definition valid_ratings :: "string list" where
  "valid_ratings = [''dissatisfied'', ''satisfied'', ''extremely_satisfied'']"

definition feedback_required :: "string list" where
  "feedback_required = [''task_id'', ''from_agent_id'', ''to_agent_id'', ''category'', ''rating'']"

text \<open>First the types of the fields that are there, then that all are.\<close>

definition validate_feedback_fields :: "payload \<Rightarrow> unit result" where
  "validate_feedback_fields body =
     (if list_ex (\<lambda>k. jget body k \<noteq> JNull \<and> as_str (jget body k) = None) feedback_required
      then fail ''invalid_field_type'' 400
      else if list_ex (\<lambda>k. jget body k = JNull \<or> jget body k = JStr []) feedback_required
      then fail ''missing_field'' 400
      else Inr ())"

definition str_field :: "payload \<Rightarrow> string \<Rightarrow> string" where
  "str_field body k = (case jget body k of JStr s \<Rightarrow> s | _ \<Rightarrow> [])"

definition comment_of :: "payload \<Rightarrow> string option" where
  "comment_of body = as_str (jget body ''comment'')"

definition validate_feedback :: "payload \<Rightarrow> nat \<Rightarrow> unit result" where
  "validate_feedback body max_comment_length =
     and_then (validate_feedback_fields body) (\<lambda>_.
       if str_field body ''from_agent_id'' = str_field body ''to_agent_id'' then fail ''self_feedback'' 400
       else if str_field body ''category'' \<notin> set valid_categories then fail ''invalid_category'' 400
       else if str_field body ''rating'' \<notin> set valid_ratings then fail ''invalid_rating'' 400
       else
         (case comment_of body of
            Some c \<Rightarrow> if max_comment_length < length c then fail ''comment_too_long'' 400 else Inr ()
          | None \<Rightarrow> Inr ()))"

section \<open>Service\<close>

text \<open>The service's own clock and its store.\<close>

record 's reputation = host +
  feedback_store :: 's

definition on_store :: "('s \<Rightarrow> 'a result \<times> 's) \<Rightarrow> 's reputation \<Rightarrow> 'a result \<times> 's reputation" where
  "on_store f w = (let (r, s) = f (feedback_store w) in (r, w\<lparr>feedback_store := s\<rparr>))"

definition submit_feedback ::
    "'s feedback_ops \<Rightarrow> payload \<Rightarrow> nat \<Rightarrow> bool \<Rightarrow> 's reputation \<Rightarrow> feedback result \<times> 's reputation" where
  "submit_feedback ops body max_comment_length force_visible w =
     (case validate_feedback body max_comment_length of
        Inl e \<Rightarrow> (Inl e, w)
      | Inr _ \<Rightarrow>
          (case on_store (fo_insert ops
              \<lparr>fa_task_id = str_field body ''task_id'', fa_from = str_field body ''from_agent_id'',
               fa_to = str_field body ''to_agent_id'', fa_category = str_field body ''category'',
               fa_rating = str_field body ''rating'', fa_comment = comment_of body\<rparr> force_visible) w of
             (Inl e, w') \<Rightarrow> (if e = duplicate_feedback then fail ''feedback_exists'' 409 else Inl e, w')
           | (Inr f, w') \<Rightarrow> (Inr f, w')))"

text \<open>Only sealed feedback needs the clock.\<close>

definition is_visible :: "feedback \<Rightarrow> int \<Rightarrow> 's reputation \<Rightarrow> bool \<times> 's reputation" where
  "is_visible f reveal_timeout_seconds w =
     (if fb_visible f then (True, w)
      else let (now, w1) = read_clock w in (reveal_timeout_seconds * 1000000 \<le> now - fb_submitted_at f, w1))"

fun keep_visible :: "feedback list \<Rightarrow> int \<Rightarrow> 's reputation \<Rightarrow> feedback list \<times> 's reputation" where
  "keep_visible [] timeout w = ([], w)"
| "keep_visible (f # fs) timeout w =
     (let (v, w1) = is_visible f timeout w; (rest, w2) = keep_visible fs timeout w1
      in (if v then f # rest else rest, w2))"

definition get_feedback_by_id ::
    "'s feedback_ops \<Rightarrow> string \<Rightarrow> int \<Rightarrow> 's reputation \<Rightarrow> feedback option result \<times> 's reputation" where
  "get_feedback_by_id ops k timeout w =
     chain (on_store (fo_get_by_id ops k) w) (\<lambda>found w1.
       case found of
         None \<Rightarrow> (Inr None, w1)
       | Some f \<Rightarrow> (let (v, w2) = is_visible f timeout w1 in (Inr (if v then Some f else None), w2)))"

definition visible_of :: "feedback list result \<times> 's reputation \<Rightarrow> int \<Rightarrow> feedback list result \<times> 's reputation" where
  "visible_of m timeout = chain m (\<lambda>fs w. let (shown, w1) = keep_visible fs timeout w in (Inr shown, w1))"

definition get_feedback_for_task ::
    "'s feedback_ops \<Rightarrow> string \<Rightarrow> int \<Rightarrow> 's reputation \<Rightarrow> feedback list result \<times> 's reputation" where
  "get_feedback_for_task ops k timeout w = visible_of (on_store (fo_get_by_task ops k) w) timeout"

definition get_feedback_for_agent ::
    "'s feedback_ops \<Rightarrow> string \<Rightarrow> int \<Rightarrow> 's reputation \<Rightarrow> feedback list result \<times> 's reputation" where
  "get_feedback_for_agent ops k timeout w = visible_of (on_store (fo_get_by_agent ops k) w) timeout"

section \<open>Identity\<close>

text \<open>
  Tokens are verified by the Identity service, or by the platform agent in the same process; \<open>re_ready\<close> says that the
  service has started. Decoding of a token's part is a parameter as for the Task Board.
\<close>

record reputation_env =
  re_ready :: bool
  re_identity :: "(string \<Rightarrow> http_outcome) option"
  re_decode :: "string \<Rightarrow> part_outcome"
  re_platform :: "(string \<times> (string \<Rightarrow> certificate)) option"
  re_timeout :: int
  re_max_comment :: nat

fun rep_verify_via_identity :: "http_outcome \<Rightarrow> json result" where
  "rep_verify_via_identity (Response st body) =
     (if st = 200 then response_json body
      else case body of
        Some (JObj d) \<Rightarrow> fail (error_code_of d ''identity_service_error'') st
      | _ \<Rightarrow> fail ''identity_service_error'' st)"
| "rep_verify_via_identity _ = fail ''identity_service_unavailable'' 502"

definition rejected_answer :: json where
  "rejected_answer = JObj [(''valid'', JBool False), (''reason'', JStr ''signature mismatch'')]"

definition rep_verify_locally :: "reputation_env \<Rightarrow> string \<Rightarrow> json result" where
  "rep_verify_locally E token =
     (case re_decode E (hd (split_on CHR ''.'' token)) of
        Decoded (JObj header) \<Rightarrow>
          (case re_platform E of
             None \<Rightarrow> fail ''service_not_ready'' 503
           | Some (_, certificate) \<Rightarrow>
               (case certificate token of
                  CertRejected \<Rightarrow> Inr rejected_answer
                | CertError \<Rightarrow> fail ''identity_service_unavailable'' 502
                | CertPayload p \<Rightarrow> Inr (JObj [(''valid'', JBool True),
                    (''agent_id'', JStr (case jget header ''kid'' of JStr k \<Rightarrow> k | _ \<Rightarrow> [])), (''payload'', p)])))
      | _ \<Rightarrow> fail ''invalid_jws'' 400)"

definition rep_verify_jws :: "reputation_env \<Rightarrow> string \<Rightarrow> json result" where
  "rep_verify_jws E token =
     (case re_identity E of Some post \<Rightarrow> rep_verify_via_identity (post token) | None \<Rightarrow> rep_verify_locally E token)"

section \<open>Endpoints\<close>

definition rep_extract_token :: "payload \<Rightarrow> string result" where
  "rep_extract_token data =
     (case jget data ''token'' of
        JStr token \<Rightarrow>
          if token = [] then fail ''invalid_jws'' 400
          else if length (split_on CHR ''.'' token) \<noteq> 3 then fail ''invalid_jws'' 400
          else Inr token
      | _ \<Rightarrow> fail ''invalid_jws'' 400)"

text \<open>\<^verbatim>\<open>isoformat()\<close> leaves out microseconds that are zero.\<close>

definition iso_text :: "int \<Rightarrow> string" where
  "iso_text t =
     iso_time (t div 1000000) @ (if t mod 1000000 = 0 then [] else CHR ''.'' # pad 6 (t mod 1000000)) @ ''+00:00''"

definition feedback_json :: "feedback \<Rightarrow> payload" where
  "feedback_json f =
     [(''feedback_id'', JStr (fb_id f)), (''task_id'', JStr (fb_task_id f)), (''from_agent_id'', JStr (fb_from f)),
      (''to_agent_id'', JStr (fb_to f)), (''category'', JStr (fb_category f)), (''rating'', JStr (fb_rating f)),
      (''comment'', (case fb_comment f of None \<Rightarrow> JNull | Some c \<Rightarrow> JStr c)),
      (''submitted_at'', JStr (iso_text (fb_submitted_at f))), (''visible'', JBool (fb_visible f))]"

text \<open>The signed payload, checked as far as the author.\<close>

definition feedback_author :: "reputation_env \<Rightarrow> json option \<Rightarrow> (payload \<times> string) result" where
  "feedback_author E body =
     and_then (parse_json_body body) (\<lambda>data.
     and_then (rep_extract_token data) (\<lambda>token.
     if \<not> re_ready E then fail ''service_not_ready'' 503
     else
       and_then (rep_verify_jws E token) (\<lambda>j.
       and_then (as_dict j) (\<lambda>answer.
       if \<not> truthy (jget answer ''valid'') then fail ''forbidden'' 403
       else
         (case jget answer ''payload'' of
            JObj p \<Rightarrow>
              if \<not> truthy (dget_or answer ''agent_id'' (JStr [])) then fail ''invalid_jws'' 400
              else if jget p ''action'' \<noteq> JStr ''submit_feedback'' then fail ''invalid_payload'' 400
              else
                (case nonempty_str (jget p ''from_agent_id'') of
                   None \<Rightarrow> fail ''invalid_payload'' 400
                 | Some author \<Rightarrow>
                     if dget_or answer ''agent_id'' (JStr []) \<noteq> JStr author then fail ''forbidden'' 403
                     else Inr (p, author))
          | _ \<Rightarrow> fail ''invalid_payload'' 400)))))"

definition from_platform :: "reputation_env \<Rightarrow> string \<Rightarrow> bool" where
  "from_platform E author = (case re_platform E of None \<Rightarrow> False | Some (k, _) \<Rightarrow> author = k)"

definition post_feedback ::
    "reputation_env \<Rightarrow> 's feedback_ops \<Rightarrow> json option \<Rightarrow> 's reputation \<Rightarrow> (nat \<times> json option) \<times> 's reputation" where
  "post_feedback E ops body w =
     (case feedback_author E body of
        Inl e \<Rightarrow> (error_response e, w)
      | Inr (p, author) \<Rightarrow>
          (let (r, w') = submit_feedback ops (filter (\<lambda>(k, v). k \<noteq> ''action'') p) (re_max_comment E)
             (from_platform E author) w
           in (response_of 201 feedback_json r, w')))"

definition rep_get ::
    "reputation_env \<Rightarrow> ('s reputation \<Rightarrow> 'a result \<times> 's reputation) \<Rightarrow> ('a \<Rightarrow> nat \<times> json option) \<Rightarrow> 's reputation \<Rightarrow>
     (nat \<times> json option) \<times> 's reputation" where
  "rep_get E query answer w =
     (if \<not> re_ready E then (error_response (ServiceError ''service_not_ready'' 503), w)
      else case query w of
        (Inl e, w') \<Rightarrow> (error_response e, w')
      | (Inr x, w') \<Rightarrow> (answer x, w'))"

definition feedback_list_json :: "string \<Rightarrow> string \<Rightarrow> feedback list \<Rightarrow> nat \<times> json option" where
  "feedback_list_json key k fs =
     (200, Some (JObj [(key, JStr k), (''feedback'', JList (map (JObj \<circ> feedback_json) fs))]))"

definition get_task_feedback ::
    "reputation_env \<Rightarrow> 's feedback_ops \<Rightarrow> string \<Rightarrow> 's reputation \<Rightarrow> (nat \<times> json option) \<times> 's reputation" where
  "get_task_feedback E ops k = rep_get E (get_feedback_for_task ops k (re_timeout E)) (feedback_list_json ''task_id'' k)"

definition get_agent_feedback ::
    "reputation_env \<Rightarrow> 's feedback_ops \<Rightarrow> string \<Rightarrow> 's reputation \<Rightarrow> (nat \<times> json option) \<times> 's reputation" where
  "get_agent_feedback E ops k = rep_get E (get_feedback_for_agent ops k (re_timeout E)) (feedback_list_json ''agent_id'' k)"

definition get_feedback ::
    "reputation_env \<Rightarrow> 's feedback_ops \<Rightarrow> string \<Rightarrow> 's reputation \<Rightarrow> (nat \<times> json option) \<times> 's reputation" where
  "get_feedback E ops k =
     rep_get E (get_feedback_by_id ops k (re_timeout E)) (\<lambda>found.
       case found of
         None \<Rightarrow> error_response (ServiceError ''feedback_not_found'' 404)
       | Some f \<Rightarrow> (200, Some (JObj (feedback_json f))))"

text \<open>Uptime and start time are left out of the health report.\<close>

definition reputation_health :: "reputation_env \<Rightarrow> 's feedback_ops \<Rightarrow> 's reputation \<Rightarrow> (nat \<times> json option) \<times> 's reputation" where
  "reputation_health E ops w =
     (if \<not> re_ready E then (error_response (ServiceError ''SERVICE_UNAVAILABLE'' 503), w)
      else case on_store (fo_count ops) w of
        (Inl e, w') \<Rightarrow> (error_response e, w')
      | (Inr n, w') \<Rightarrow> ((200, Some (JObj [(''status'', JStr ''ok''), (''total_feedback'', JInt (int n))])), w'))"

record reputation_request =
  rr_method :: string
  rr_path :: "string list"
  rr_body :: "json option"

definition no_such :: "nat \<Rightarrow> nat \<times> json option" where
  "no_such st = error_response (ServiceError (if st = 405 then ''method_not_allowed'' else ''Not Found'') st)"

definition reputation_route :: "string list \<Rightarrow> bool" where
  "reputation_route path =
     (case path of
        [a] \<Rightarrow> a \<in> {''health'', ''feedback''}
      | [a, k] \<Rightarrow> a = ''feedback'' \<and> k \<noteq> []
      | [a, b, k] \<Rightarrow> a = ''feedback'' \<and> b \<in> {''task'', ''agent''} \<and> k \<noteq> []
      | _ \<Rightarrow> False)"

text \<open>
  The routes in their order, and the redirect of a trailing slash; the middleware's content type and size checks are
  left out.
\<close>

definition reputation_http ::
    "reputation_env \<Rightarrow> 's feedback_ops \<Rightarrow> reputation_request \<Rightarrow> 's reputation \<Rightarrow> (nat \<times> json option) \<times> 's reputation" where
  "reputation_http E ops q w =
     (let get = (\<lambda>f. if rr_method q = ''GET'' then f w else (no_such 405, w));
          path = rr_path q
      in if \<not> reputation_route path then
           (if path \<noteq> [] \<and> last path = [] \<and> reputation_route (butlast path) then ((307, None), w) else (no_such 404, w))
         else case path of
           [a] \<Rightarrow>
             if a = ''health'' then get (reputation_health E ops)
             else if rr_method q = ''POST'' then post_feedback E ops (rr_body q) w
             else (no_such 405, w)
         | [a, k] \<Rightarrow> get (get_feedback E ops k)
         | [a, b, k] \<Rightarrow> if b = ''task'' then get (get_task_feedback E ops k) else get (get_agent_feedback E ops k)
         | _ \<Rightarrow> (no_such 404, w))"

end
