(* ===== verification/Reputation_Props.thy ===== *)
theory Reputation_Props
  imports Reputation
begin

text \<open>
  The interface of the feedback storage with its laws, interpreted on the SQLite store, and what the service shows of
  sealed feedback.
\<close>

section \<open>What a storage promises\<close>

definition counterpart :: "feedback \<Rightarrow> feedback \<Rightarrow> bool" where
  "counterpart f g \<longleftrightarrow> same_direction (fb_task_id f) (fb_to f) (fb_from f) g"






text \<open>
  Feedback is visible exactly when it comes from the platform or has been answered: by its counterpart, or, where it
  is addressed to the platform, by a counterpart that was given before it.
\<close>

definition answered :: "(string \<Rightarrow> bool) \<Rightarrow> feedback list \<Rightarrow> feedback \<Rightarrow> bool" where
  "answered platform fs f \<longleftrightarrow>
     platform (fb_from f) \<or>
     list_ex (counterpart f) (if platform (fb_to f) then takeWhile (\<lambda>g. fb_id g \<noteq> fb_id f) fs else fs)"



lemma counterpart_visible [simp]:
  "counterpart (f\<lparr>fb_visible := v\<rparr>) = counterpart f" "counterpart f (g\<lparr>fb_visible := v\<rparr>) = counterpart f g"
  by (simp_all add: counterpart_def same_direction_def fun_eq_iff)


lemma answered_visible [simp]: "answered platform fs (f\<lparr>fb_visible := v\<rparr>) = answered platform fs f"
  by (simp add: answered_def)








section \<open>The SQLite store keeps the promises\<close>


lemma reveal_simps [simp]:
  "fb_id (reveal k f) = fb_id f" "fb_task_id (reveal k f) = fb_task_id f" "fb_from (reveal k f) = fb_from f"
  "fb_to (reveal k f) = fb_to f"
  by (simp_all add: reveal_def)





section \<open>Requests\<close>






section \<open>Sealed feedback\<close>












end
