(* ===== verification/Base64.thy ===== *)
theory Base64
  imports Prelude_AE "HOL-Library.Char_ord"
begin

text \<open>
  Python's \<^verbatim>\<open>base64.b64decode\<close> and \<^verbatim>\<open>base64.b64encode\<close>: bytes are strings of characters. Decoding is the
  loop of \<^verbatim>\<open>binascii.a2b_base64\<close>: it keeps the position in the group of four, the bits left over, and the padding
  seen; in strict mode it refuses what it otherwise skips.
\<close>

definition b64_value :: "char \<Rightarrow> nat option" where
  "b64_value c =
     (let n = of_char c :: nat
      in if 65 \<le> n \<and> n \<le> 90 then Some (n - 65)
         else if 97 \<le> n \<and> n \<le> 122 then Some (n - 71)
         else if 48 \<le> n \<and> n \<le> 57 then Some (n + 4)
         else if n = 43 then Some 62
         else if n = 47 then Some 63
         else None)"

definition byte :: "nat \<Rightarrow> char" where
  "byte n = char_of n"

fun b64_loop :: "bool \<Rightarrow> nat \<Rightarrow> nat \<Rightarrow> nat \<Rightarrow> bool \<Rightarrow> string \<Rightarrow> string option" where
  "b64_loop strict quad left pads padded [] = (if quad = 0 then Some [] else None)"
| "b64_loop strict quad left pads padded (c # cs) =
     (if c = CHR ''='' then
        (if 2 \<le> quad \<and> 4 \<le> quad + (pads + 1) then (if strict \<and> cs \<noteq> [] then None else Some [])
         else b64_loop strict quad left (if 2 \<le> quad then pads + 1 else pads) True cs)
      else
        (case b64_value c of
           None \<Rightarrow> if strict then None else b64_loop strict quad left pads padded cs
         | Some v \<Rightarrow>
             if strict \<and> padded then None
             else if quad = 0 then b64_loop strict 1 v 0 padded cs
             else if quad = 1 then map_option ((#) (byte (left * 4 + v div 16))) (b64_loop strict 2 (v mod 16) 0 padded cs)
             else if quad = 2 then map_option ((#) (byte (left * 16 + v div 4))) (b64_loop strict 3 (v mod 4) 0 padded cs)
             else map_option ((#) (byte (left * 64 + v))) (b64_loop strict 0 0 0 padded cs)))"

definition b64decode :: "bool \<Rightarrow> string \<Rightarrow> string option" where
  "b64decode strict s =
     (if list_ex (\<lambda>c. 128 \<le> (of_char c :: nat)) s then None
      else if strict \<and> s \<noteq> [] \<and> hd s = CHR ''='' then None
      else b64_loop strict 0 0 0 False s)"

definition b64_digit :: "nat \<Rightarrow> char" where
  "b64_digit v = byte (if v < 26 then v + 65 else if v < 52 then v + 71 else if v < 62 then v - 4 else if v = 62 then 43 else 47)"

fun b64encode :: "string \<Rightarrow> string" where
  "b64encode [] = []"
| "b64encode [a] = (let x = of_char a in [b64_digit (x div 4), b64_digit (x mod 4 * 16), CHR ''='', CHR ''=''])"
| "b64encode [a, b] =
     (let x = of_char a; y = of_char b
      in [b64_digit (x div 4), b64_digit (x mod 4 * 16 + y div 16), b64_digit (y mod 16 * 4), CHR ''=''])"
| "b64encode (a # b # c # s) =
     (let x = of_char a; y = of_char b; z = of_char c
      in [b64_digit (x div 4), b64_digit (x mod 4 * 16 + y div 16), b64_digit (y mod 16 * 4 + z div 64), b64_digit (z mod 64)] @
         b64encode s)"

lemma b64_digits:
  assumes "v < 64"
  shows "b64_value (b64_digit v) = Some v" "b64_digit v \<noteq> CHR ''=''" "(of_char (b64_digit v) :: nat) < 128"
proof -
  show v: "b64_value (b64_digit v) = Some v"
    using assms by (simp add: b64_digit_def b64_value_def byte_def Let_def) linarith?
  have "b64_value CHR ''='' = None" by code_simp
  then show "b64_digit v \<noteq> CHR ''=''" using v by auto
  show "(of_char (b64_digit v) :: nat) < 128" using assms by (auto simp: b64_digit_def byte_def)
qed

text \<open>The loop on a digit.\<close>

lemma loop_digit:
  assumes "v < 64"
  shows "b64_loop strict 0 left pads False (b64_digit v # cs) = b64_loop strict (Suc 0) v 0 False cs"
    "b64_loop strict (Suc 0) left pads False (b64_digit v # cs) =
      map_option ((#) (byte (left * 4 + v div 16))) (b64_loop strict 2 (v mod 16) 0 False cs)"
    "b64_loop strict 2 left pads False (b64_digit v # cs) =
      map_option ((#) (byte (left * 16 + v div 4))) (b64_loop strict 3 (v mod 4) 0 False cs)"
    "b64_loop strict 3 left pads False (b64_digit v # cs) =
      map_option ((#) (byte (left * 64 + v))) (b64_loop strict 0 0 0 False cs)"
  using b64_digits [OF assms] by simp_all

lemma loop_end: "b64_loop strict 3 left 0 False ''='' = Some []" "b64_loop strict 2 left 0 False ''=='' = Some []"
  by simp_all

lemma byte_of_char [simp]: "byte (of_char c) = c"
  by (simp add: byte_def)

lemma char_bound: "(of_char c :: nat) < 256"
proof -
  have "(of_char c :: nat) mod 256 < 256" by (rule mod_less_divisor) simp
  then show ?thesis by simp
qed

lemma b64_values [simp]:
  fixes x y z :: nat
  assumes "x < 256" "y < 256" "z < 256"
  shows "x div 4 < 64" "x mod 4 * 16 + y div 16 < 64" "y mod 16 * 4 + z div 64 < 64" "z mod 64 < 64" "x mod 4 * 16 < 64"
    "y mod 16 * 4 < 64"
  using assms by (auto simp: less_mult_imp_div_less)

lemma group_bytes:
  fixes x y z :: nat
  assumes "x < 256" "y < 256" "z < 256"
  shows "x div 4 * 4 + (x mod 4 * 16 + y div 16) div 16 = x" "(x mod 4 * 16 + y div 16) mod 16 * 16 + (y mod 16 * 4 + z div 64) div 4 = y"
    "(y mod 16 * 4 + z div 64) mod 4 * 64 + z mod 64 = z"
proof -
  have "y div 16 < 16" "z div 64 < 4" using assms by (auto simp: less_mult_imp_div_less)
  then show "x div 4 * 4 + (x mod 4 * 16 + y div 16) div 16 = x" "(x mod 4 * 16 + y div 16) mod 16 * 16 + (y mod 16 * 4 + z div 64) div 4 = y"
    "(y mod 16 * 4 + z div 64) mod 4 * 64 + z mod 64 = z"
    by (simp_all add: div_mult2_eq)
qed

lemma loop_encode: "b64_loop strict 0 0 0 False (b64encode s) = Some s"
proof (induction s rule: b64encode.induct)
  case (2 a)
  have "(of_char a :: nat) < 256" by (rule char_bound)
  then show ?case using group_bytes(1) [of "of_char a" 0 0] b64_values [of "of_char a" 0 0]
    by (simp add: Let_def loop_digit loop_end del: b64_loop.simps)
next
  case (3 a b)
  have "(of_char a :: nat) < 256" "(of_char b :: nat) < 256" by (rule char_bound)+
  then show ?case using group_bytes(1,2) [of "of_char a" "of_char b" 0] b64_values [of "of_char a" "of_char b" 0]
    by (simp add: Let_def loop_digit loop_end del: b64_loop.simps)
next
  case (4 a b c s)
  have "(of_char a :: nat) < 256" "(of_char b :: nat) < 256" "(of_char c :: nat) < 256" by (rule char_bound)+
  moreover from this have "(of_char b :: nat) div 16 < 16" "(of_char c :: nat) div 64 < 4" by (auto simp: less_mult_imp_div_less)
  ultimately show ?case
    using group_bytes(1) [of "of_char a" "of_char b" "of_char c"] b64_values [of "of_char a" "of_char b" "of_char c"] 4
    by (simp add: Let_def loop_digit loop_end del: b64_loop.simps)
qed simp

text \<open>The last digit before one padding character carries two bits that decoding ignores.\<close>

lemma respelled:
  "length s mod 3 = 2 \<Longrightarrow> \<exists>pre k. k < 16 \<and> b64encode s = pre @ [b64_digit (4 * k), CHR ''=''] \<and>
     (\<forall>j < 4. \<forall>strict. b64_loop strict 0 0 0 False (pre @ [b64_digit (4 * k + j), CHR ''='']) = Some s)"
proof (induction s rule: b64encode.induct)
  case (3 a b)
  let ?x = "of_char a :: nat" and ?y = "of_char b :: nat"
  have xy: "?x < 256" "?y < 256" by (rule char_bound)+
  note v = b64_values [OF xy, of 0] and g = group_bytes(1) [OF xy, of 0]
  have y: "?y div 16 < 16" using xy by (simp add: less_mult_imp_div_less)
  have "b64_loop strict 0 0 0 False ([b64_digit (?x div 4), b64_digit (?x mod 4 * 16 + ?y div 16)] @ [b64_digit (4 * (?y mod 16) + j), CHR ''='']) = Some [a, b]"
    if "j < 4" for j strict
  proof -
    have "4 * (?y mod 16) + j < 64" "(4 * (?y mod 16) + j) div 4 = ?y mod 16" using that by auto
    then show ?thesis using v g y by (simp add: loop_digit loop_end del: b64_loop.simps)
  qed
  then show ?case
    by (intro exI [of _ "[b64_digit (?x div 4), b64_digit (?x mod 4 * 16 + ?y div 16)]"] exI [of _ "?y mod 16"]) (simp add: Let_def mult.commute)
next
  case (4 a b c s)
  let ?x = "of_char a :: nat" and ?y = "of_char b :: nat" and ?z = "of_char c :: nat"
  have xyz: "?x < 256" "?y < 256" "?z < 256" by (rule char_bound)+
  note v = b64_values [OF xyz] and g = group_bytes(1) [OF xyz]
  have yz: "?y div 16 < 16" "?z div 64 < 4" using xyz by (auto simp: less_mult_imp_div_less)
  obtain pre k where k: "k < 16" "b64encode s = pre @ [b64_digit (4 * k), CHR ''='']"
    "\<And>j strict. j < 4 \<Longrightarrow> b64_loop strict 0 0 0 False (pre @ [b64_digit (4 * k + j), CHR ''='']) = Some s"
  proof -
    have "length s mod 3 = 2" using "4.prems" by simp
    from "4.IH" [OF refl refl refl this] that show ?thesis by blast
  qed
  let ?g = "[b64_digit (?x div 4), b64_digit (?x mod 4 * 16 + ?y div 16), b64_digit (?y mod 16 * 4 + ?z div 64), b64_digit (?z mod 64)]"
  have "b64_loop strict 0 0 0 False ((?g @ pre) @ [b64_digit (4 * k + j), CHR ''='']) = Some (a # b # c # s)" if "j < 4" for j strict
    using k(3) [OF that] v g yz by (simp add: loop_digit del: b64_loop.simps)
  then show ?case using k(1,2) by (intro exI [of _ "?g @ pre"] exI [of _ k]) (simp add: Let_def)
qed simp_all

lemma encode_chars: "list_all (\<lambda>c. (of_char c :: nat) < 128) (b64encode s) \<and> (s \<noteq> [] \<longrightarrow> b64encode s \<noteq> [] \<and> hd (b64encode s) \<noteq> CHR ''='')"
proof (induction s rule: b64encode.induct)
  case (2 a)
  have "(of_char a :: nat) < 256" by (rule char_bound)
  then show ?case using b64_values [of "of_char a" 0 0] b64_digits by (simp add: Let_def)
next
  case (3 a b)
  have "(of_char a :: nat) < 256" "(of_char b :: nat) < 256" by (rule char_bound)+
  then show ?case using b64_values [of "of_char a" "of_char b" 0] b64_digits by (simp add: Let_def)
next
  case (4 a b c s)
  have "(of_char a :: nat) < 256" "(of_char b :: nat) < 256" "(of_char c :: nat) < 256" by (rule char_bound)+
  then show ?case using b64_values [of "of_char a" "of_char b" "of_char c"] b64_digits 4 by (simp add: Let_def)
qed simp

lemma decode_encode: "b64decode strict (b64encode s) = Some s"
proof -
  have "\<not> list_ex (\<lambda>c. 128 \<le> (of_char c :: nat)) (b64encode s)"
    using encode_chars [of s] by (auto simp: list_ex_iff list_all_iff)
  moreover have "b64encode s \<noteq> [] \<Longrightarrow> hd (b64encode s) \<noteq> CHR ''=''" using encode_chars [of s] by (cases s) auto
  ultimately show ?thesis by (auto simp: b64decode_def loop_encode)
qed

text \<open>So every key of 32 bytes can be written in another way.\<close>

lemma second_spelling:
  assumes "length s mod 3 = 2"
  shows "\<exists>t. t \<noteq> b64encode s \<and> b64decode True t = Some s \<and> b64decode False t = Some s"
proof -
  obtain pre k where k: "k < 16" "b64encode s = pre @ [b64_digit (4 * k), CHR ''='']"
    "\<And>j strict. j < 4 \<Longrightarrow> b64_loop strict 0 0 0 False (pre @ [b64_digit (4 * k + j), CHR ''='']) = Some s"
    using respelled [OF assms] by blast
  let ?t = "pre @ [b64_digit (4 * k + 1), CHR ''='']"
  have "pre \<noteq> []"
  proof
    assume "pre = []"
    then have "b64_loop True 0 0 0 False [b64_digit (4 * k + 1), CHR ''=''] = Some s" using k(3) [of 1 True] by simp
    then show False using k(1) by (simp add: loop_digit del: b64_loop.simps) simp
  qed
  have chars: "list_all (\<lambda>c. (of_char c :: nat) < 128) (b64encode s)" "b64encode s \<noteq> [] \<longrightarrow> hd (b64encode s) \<noteq> CHR ''=''"
    using encode_chars [of s] by (cases s; simp)+
  have "b64decode strict ?t = Some s" for strict
  proof -
    have "\<not> list_ex (\<lambda>c. 128 \<le> (of_char c :: nat)) ?t"
      using chars(1) b64_digits(3) [of "4 * k + 1"] k(1) unfolding k(2) by (auto simp: list_ex_iff list_all_iff)
    moreover have "hd ?t \<noteq> CHR ''=''" using chars(2) \<open>pre \<noteq> []\<close> unfolding k(2) by simp
    ultimately show ?thesis using k(3) [of 1 strict] by (simp add: b64decode_def)
  qed
  moreover have "?t \<noteq> b64encode s"
  proof -
    have "b64_digit (4 * k) \<noteq> b64_digit (4 * k + 1)"
    proof
      assume "b64_digit (4 * k) = b64_digit (4 * k + 1)"
      then have "Some (4 * k) = Some (4 * k + 1)" using b64_digits(1) [of "4 * k"] b64_digits(1) [of "4 * k + 1"] k(1) by simp
      then show False by simp
    qed
    then show ?thesis unfolding k(2) by simp
  qed
  ultimately show ?thesis by blast
qed

end
