(* ===== verification/Identity.thy ===== *)
theory Identity
  imports Base64 Tokens Py_Text "HOL-Library.List_Lexorder"
begin

text \<open>
  The Identity service: \<^verbatim>\<open>services/agent_registry.py\<close>, the in-memory store of \<^verbatim>\<open>services/agent_store.py\<close> and
  \<^verbatim>\<open>routers/agents.py\<close>. Ed25519 and the JWS library are parameters; keys are bytes.
\<close>

section \<open>Storage\<close>

record agent_record =
  ag_id :: string
  ag_name :: string
  ag_public_key :: string
  ag_registered_at :: string

text \<open>\<^verbatim>\<open>IdentityStorageInterface\<close>; a listing leaves the keys out.\<close>

record 's agent_ops =
  ao_insert :: "string \<Rightarrow> string \<Rightarrow> 's \<Rightarrow> agent_record result \<times> 's"
  ao_get_by_id :: "string \<Rightarrow> 's \<Rightarrow> agent_record option result \<times> 's"
  ao_list_all :: "'s \<Rightarrow> (string \<times> string \<times> string) list result \<times> 's"
  ao_count :: "'s \<Rightarrow> int result \<times> 's"

definition duplicate_agent :: exn where
  "duplicate_agent = PyError ''DuplicateAgentError''"

record agent_db = host +
  agents_by_id :: "(string, agent_record) dict"
  agent_id_by_public_key :: "(string, string) dict"

definition mem_insert_agent :: "string \<Rightarrow> string \<Rightarrow> agent_db \<Rightarrow> agent_record result \<times> agent_db" where
  "mem_insert_agent name public_key s =
     (if dget (agent_id_by_public_key s) public_key \<noteq> None then (Inl duplicate_agent, s)
      else
        let (u, s1) = new_uuid s;
            (now, s2) = read_clock s1;
            k = prefixed ''a-'' u;
            a = \<lparr>ag_id = k, ag_name = name, ag_public_key = public_key, ag_registered_at = iso_seconds now\<rparr>
        in (Inr a, s2\<lparr>agents_by_id := dput (agents_by_id s2) k a,
                      agent_id_by_public_key := dput (agent_id_by_public_key s2) public_key k\<rparr>))"

definition mem_get_agent :: "string \<Rightarrow> agent_db \<Rightarrow> agent_record option result \<times> agent_db" where
  "mem_get_agent k s = (Inr (dget (agents_by_id s) k), s)"

definition agent_summary :: "agent_record \<Rightarrow> string \<times> string \<times> string" where
  "agent_summary a = (ag_id a, ag_name a, ag_registered_at a)"

definition mem_list_agents :: "agent_db \<Rightarrow> (string \<times> string \<times> string) list result \<times> agent_db" where
  "mem_list_agents s = (Inr (map agent_summary (sort_key ag_registered_at (dvals (agents_by_id s)))), s)"

definition mem_count_agents :: "agent_db \<Rightarrow> int result \<times> agent_db" where
  "mem_count_agents s = (Inr (int (length (agents_by_id s))), s)"

definition memory_agents :: "agent_db agent_ops" where
  "memory_agents =
     \<lparr>ao_insert = mem_insert_agent, ao_get_by_id = mem_get_agent, ao_list_all = mem_list_agents, ao_count = mem_count_agents\<rparr>"

section \<open>Registry\<close>

text \<open>What \<^verbatim>\<open>jws.deserialize_compact\<close> and the parsing of its payload end in.\<close>

datatype jws_outcome = JwsPayload json | JwsNotJson | JwsBadSignature | JwsError

record identity_env =
  ie_ready :: bool
  ie_prefix :: string
  ie_key_bytes :: nat
  ie_signature_bytes :: nat
  ie_point :: "string \<Rightarrow> bool"
  ie_verify :: "string \<Rightarrow> string \<Rightarrow> string \<Rightarrow> bool"
  ie_header :: "string \<Rightarrow> part_outcome"
  ie_jws :: "string \<Rightarrow> string \<Rightarrow> jws_outcome"

definition validate_name :: "string \<Rightarrow> unit result" where
  "validate_name name = (if blank name then fail ''invalid_name'' 400 else Inr ())"

definition validate_public_key :: "identity_env \<Rightarrow> string \<Rightarrow> unit result" where
  "validate_public_key E public_key =
     (case strip_prefix (ie_prefix E) public_key of
        None \<Rightarrow> fail ''invalid_public_key'' 400
      | Some key_b64 \<Rightarrow>
          (case b64decode True key_b64 of
             None \<Rightarrow> fail ''invalid_public_key'' 400
           | Some key \<Rightarrow>
               if length key \<noteq> ie_key_bytes E then fail ''invalid_public_key'' 400
               else if key = replicate (ie_key_bytes E) (CHR 0x00) then fail ''invalid_public_key'' 400
               else if \<not> ie_point E key then fail ''invalid_public_key'' 400
               else Inr ()))"

definition reg_register_agent ::
    "identity_env \<Rightarrow> 's agent_ops \<Rightarrow> string \<Rightarrow> string \<Rightarrow> 's \<Rightarrow> agent_record result \<times> 's" where
  "reg_register_agent E ops name public_key s =
     (case and_then (validate_name name) (\<lambda>_. validate_public_key E public_key) of
        Inl e \<Rightarrow> (Inl e, s)
      | Inr _ \<Rightarrow>
          (case ao_insert ops name public_key s of
             (Inl e, s') \<Rightarrow> (if e = duplicate_agent then fail ''public_key_exists'' 409 else Inl e, s')
           | (Inr a, s') \<Rightarrow> (Inr a, s')))"

text \<open>The bytes after the first colon of a stored key; skipping what is no base64.\<close>

definition stored_key :: "string \<Rightarrow> string result" where
  "stored_key public_key =
     (case find_char CHR '':'' public_key of
        None \<Rightarrow> Inl (PyError ''IndexError'')
      | Some i \<Rightarrow>
          (case b64decode False (drop (Suc i) public_key) of None \<Rightarrow> Inl (PyError ''Error'') | Some key \<Rightarrow> Inr key))"

definition known_agent :: "'s agent_ops \<Rightarrow> string \<Rightarrow> 's \<Rightarrow> agent_record result \<times> 's" where
  "known_agent ops k s =
     chain (ao_get_by_id ops k s) (\<lambda>found s. (case found of None \<Rightarrow> fail ''agent_not_found'' 404 | Some a \<Rightarrow> Inr a, s))"

definition valid_answer :: "string \<Rightarrow> payload" where
  "valid_answer k = [(''valid'', JBool True), (''agent_id'', JStr k)]"

definition invalid_answer :: payload where
  "invalid_answer = [(''valid'', JBool False), (''reason'', JStr ''signature mismatch'')]"

definition reg_verify_signature ::
    "identity_env \<Rightarrow> 's agent_ops \<Rightarrow> string \<Rightarrow> string \<Rightarrow> string \<Rightarrow> 's \<Rightarrow> payload result \<times> 's" where
  "reg_verify_signature E ops k payload_b64 signature_b64 s =
     chain (known_agent ops k s) (\<lambda>agent s.
       (case (b64decode True payload_b64, b64decode True signature_b64) of
          (Some message, Some signature) \<Rightarrow>
            if length signature \<noteq> ie_signature_bytes E then fail ''invalid_signature_length'' 400
            else
              and_then (stored_key (ag_public_key agent)) (\<lambda>key.
                if \<not> ie_point E key then Inl (PyError ''ValueError'')
                else if ie_verify E key signature message then Inr (valid_answer k)
                else Inr invalid_answer)
        | _ \<Rightarrow> fail ''invalid_base64'' 400, s))"

text \<open>The header's algorithm and key name are read before the signature is checked.\<close>

definition token_kid :: "identity_env \<Rightarrow> string \<Rightarrow> string result" where
  "token_kid E token =
     (let parts = split_on CHR ''.'' token
      in if length parts \<noteq> 3 then fail ''invalid_jws'' 400
         else case ie_header E (parts ! 0) of
           Decoded j \<Rightarrow>
             and_then (as_dict j) (\<lambda>header.
               if jget header ''alg'' \<noteq> JStr ''EdDSA'' then fail ''invalid_jws'' 400
               else case nonempty_str (jget header ''kid'') of None \<Rightarrow> fail ''invalid_jws'' 400 | Some k \<Rightarrow> Inr k)
         | _ \<Rightarrow> fail ''invalid_jws'' 400)"

definition reg_verify_jws :: "identity_env \<Rightarrow> 's agent_ops \<Rightarrow> string \<Rightarrow> 's \<Rightarrow> payload result \<times> 's" where
  "reg_verify_jws E ops token s =
     chain (token_kid E token, s) (\<lambda>kid s.
     chain (known_agent ops kid s) (\<lambda>agent s.
       (and_then (stored_key (ag_public_key agent)) (\<lambda>key.
          case ie_jws E token key of
            JwsBadSignature \<Rightarrow> Inr invalid_answer
          | JwsError \<Rightarrow> fail ''invalid_jws'' 400
          | JwsNotJson \<Rightarrow> fail ''invalid_jws'' 400
          | JwsPayload p \<Rightarrow>
              (case p of
                 JObj d \<Rightarrow> Inr (valid_answer kid @ [(''payload'', JObj d)])
               | _ \<Rightarrow> fail ''invalid_jws'' 400)), s)))"

section \<open>Endpoints\<close>

fun required_present :: "payload \<Rightarrow> string list \<Rightarrow> unit result" where
  "required_present data [] = Inr ()"
| "required_present data (k # ks) =
     (if jget data k = JNull then fail ''missing_field'' 400 else required_present data ks)"

fun string_fields :: "payload \<Rightarrow> string list \<Rightarrow> string list result" where
  "string_fields data [] = Inr []"
| "string_fields data (k # ks) =
     (case as_str (jget data k) of
        None \<Rightarrow> fail ''invalid_field_type'' 400
      | Some v \<Rightarrow> and_then (string_fields data ks) (\<lambda>vs. Inr (v # vs)))"

text \<open>Every POST: the body with these fields, then the registry.\<close>

definition identity_args :: "identity_env \<Rightarrow> json option \<Rightarrow> string list \<Rightarrow> string list result" where
  "identity_args E body ks =
     and_then (parse_json_body body) (\<lambda>data.
     and_then (required_present data ks) (\<lambda>_.
     and_then (string_fields data ks) (\<lambda>vs.
       if \<not> ie_ready E then fail ''service_not_ready'' 503 else Inr vs)))"

definition agent_json :: "agent_record \<Rightarrow> payload" where
  "agent_json a = [(''agent_id'', JStr (ag_id a)), (''name'', JStr (ag_name a)), (''public_key'', JStr (ag_public_key a)),
     (''registered_at'', JStr (ag_registered_at a))]"

definition post_register ::
    "identity_env \<Rightarrow> 's agent_ops \<Rightarrow> json option \<Rightarrow> 's \<Rightarrow> (nat \<times> json option) \<times> 's" where
  "post_register E ops body s =
     apfst (response_of 201 agent_json)
       (chain (identity_args E body [''name'', ''public_key''], s) (\<lambda>vs s. reg_register_agent E ops (vs ! 0) (vs ! 1) s))"

definition post_verify ::
    "identity_env \<Rightarrow> 's agent_ops \<Rightarrow> json option \<Rightarrow> 's \<Rightarrow> (nat \<times> json option) \<times> 's" where
  "post_verify E ops body s =
     apfst (response_of 200 id)
       (chain (identity_args E body [''agent_id'', ''payload'', ''signature''], s)
          (\<lambda>vs s. reg_verify_signature E ops (vs ! 0) (vs ! 1) (vs ! 2) s))"

definition post_verify_jws ::
    "identity_env \<Rightarrow> 's agent_ops \<Rightarrow> json option \<Rightarrow> 's \<Rightarrow> (nat \<times> json option) \<times> 's" where
  "post_verify_jws E ops body s =
     apfst (response_of 200 id)
       (chain (identity_args E body [''token''], s) (\<lambda>vs s. reg_verify_jws E ops (vs ! 0) s))"

definition registry_ready :: "identity_env \<Rightarrow> 's \<Rightarrow> unit result \<times> 's" where
  "registry_ready E s = (if ie_ready E then Inr () else fail ''service_not_ready'' 503, s)"

definition agent_summary_json :: "string \<times> string \<times> string \<Rightarrow> json" where
  "agent_summary_json a = (case a of (k, name, t) \<Rightarrow>
     JObj [(''agent_id'', JStr k), (''name'', JStr name), (''registered_at'', JStr t)])"

definition get_agents :: "identity_env \<Rightarrow> 's agent_ops \<Rightarrow> 's \<Rightarrow> (nat \<times> json option) \<times> 's" where
  "get_agents E ops s =
     apfst (response_of 200 (\<lambda>as. [(''agents'', JList (map agent_summary_json as))]))
       (chain (registry_ready E s) (\<lambda>_ s. ao_list_all ops s))"

definition get_agent :: "identity_env \<Rightarrow> 's agent_ops \<Rightarrow> string \<Rightarrow> 's \<Rightarrow> (nat \<times> json option) \<times> 's" where
  "get_agent E ops k s =
     apfst (response_of 200 agent_json) (chain (registry_ready E s) (\<lambda>_ s. known_agent ops k s))"

definition identity_health :: "identity_env \<Rightarrow> 's agent_ops \<Rightarrow> 's \<Rightarrow> (nat \<times> json option) \<times> 's" where
  "identity_health E ops s =
     apfst (response_of 200 (\<lambda>n. [(''status'', JStr ''ok''), (''registered_agents'', JInt n)]))
       (if ie_ready E then ao_count ops s else (Inr 0, s))"

record identity_request =
  iq_method :: string
  iq_path :: "string list"
  iq_body :: "json option"

definition id_error :: "string \<Rightarrow> nat \<Rightarrow> nat \<times> json option" where
  "id_error code st = error_response (ServiceError code st)"

text \<open>
  The routes; every method without one is answered by the handlers of \<^verbatim>\<open>core/exceptions.py\<close> in the same words as
  the routes that refuse it. The middleware's content type and size checks are left out.
\<close>

definition identity_http ::
    "identity_env \<Rightarrow> 's agent_ops \<Rightarrow> identity_request \<Rightarrow> 's \<Rightarrow> (nat \<times> json option) \<times> 's" where
  "identity_http E ops q s =
     (let on = (\<lambda>m f. if iq_method q = m then f s else (id_error ''method_not_allowed'' 405, s))
      in case iq_path q of
           [a] \<Rightarrow>
             if a = ''health'' then on ''GET'' (identity_health E ops)
             else if a = ''agents'' then on ''GET'' (get_agents E ops)
             else (id_error ''http_error'' 404, s)
         | [a, k] \<Rightarrow>
             if k = [] \<and> a \<in> {''agents'', ''health''} then ((307, None), s)
             else if a \<noteq> ''agents'' then (id_error ''http_error'' 404, s)
             else if k = ''register'' then on ''POST'' (post_register E ops (iq_body q))
             else if k = ''verify'' then on ''POST'' (post_verify E ops (iq_body q))
             else if k = ''verify-jws'' then on ''POST'' (post_verify_jws E ops (iq_body q))
             else on ''GET'' (get_agent E ops k)
         | [a, k, r] \<Rightarrow> if a = ''agents'' \<and> k \<noteq> [] \<and> r = [] then ((307, None), s) else (id_error ''http_error'' 404, s)
         | _ \<Rightarrow> (id_error ''http_error'' 404, s))"

end
