(* ===== verification/Agents_Db.thy ===== *)
theory Agents_Db
  imports Db_Client Identity
begin

text \<open>
  The Identity service's storage in production, \<^verbatim>\<open>services/agent_db_client.py\<close>: each method asks the
  gateway over HTTP and translates its answers.
\<close>

text \<open>\<^verbatim>\<open>f"\{self._agents_path\}/\{agent_id\}"\<close>, split as the gateway's router splits it.\<close>

definition agents_path :: "string \<Rightarrow> string list" where
  "agents_path k = [''identity'', ''agents''] @ split_on CHR ''/'' k"

definition registration :: "string \<Rightarrow> string \<Rightarrow> string \<Rightarrow> string \<Rightarrow> string \<Rightarrow> payload" where
  "registration agent_id name public_key registered_at now =
     [(''agent_id'', JStr agent_id), (''name'', JStr name), (''public_key'', JStr public_key),
      (''registered_at'', JStr registered_at),
      (''event'', event_body ''identity'' ''agent.registered'' now [(''agent_id'', JStr agent_id)]
         (name @ '' registered as agent'') [(''agent_name'', JStr name)])]"

text \<open>A conflict of any kind is a duplicate. The identifier is read from the answer.\<close>

definition adb_insert :: "string \<Rightarrow> string \<Rightarrow> gw_client \<Rightarrow> agent_record result \<times> gw_client" where
  "adb_insert name public_key w =
     (let (agent_id, w1) = client_id ''a-'' w;
          (registered_at, w2) = client_now w1;
          (now, w3) = client_now w2;
          (out, w4) = gw_post_to [''identity'', ''agents''] (registration agent_id name public_key registered_at now) w3
      in (and_then (response_or_raise out) (\<lambda>(st, b).
            if st \<notin> {200, 201, 409} then Inl gateway_error
            else
              and_then (and_then (response_json b) as_dict) (\<lambda>data.
                if st = 409 then Inl duplicate_agent
                else Inr \<lparr>ag_id = py_str (dget_or data ''agent_id'' (JStr agent_id)), ag_name = name,
                          ag_public_key = public_key, ag_registered_at = registered_at\<rparr>)), w4))"

definition agent_of :: "payload \<Rightarrow> agent_record result" where
  "agent_of data =
     and_then (field_text data ''agent_id'') (\<lambda>k. and_then (field_text data ''name'') (\<lambda>name.
     and_then (field_text data ''public_key'') (\<lambda>key. and_then (field_text data ''registered_at'') (\<lambda>t.
       Inr \<lparr>ag_id = k, ag_name = name, ag_public_key = key, ag_registered_at = t\<rparr>))))"

definition adb_get_by_id :: "string \<Rightarrow> gw_client \<Rightarrow> agent_record option result \<times> gw_client" where
  "adb_get_by_id k w =
     (let (out, w1) = gw_get_from (agents_path k) [] w
      in (and_then (response_or_raise out) (\<lambda>(st, b).
            if st = 404 then Inr None
            else if st \<noteq> 200 then Inl gateway_error
            else and_then (and_then (response_json b) as_object) (\<lambda>data. and_then (agent_of data) (\<lambda>a. Inr (Some a)))), w1))"

definition summary_of_agent :: "json \<Rightarrow> (string \<times> string \<times> string) result" where
  "summary_of_agent j =
     and_then (as_object j) (\<lambda>agent.
     and_then (field_text agent ''agent_id'') (\<lambda>k. and_then (field_text agent ''name'') (\<lambda>name.
     and_then (field_text agent ''registered_at'') (\<lambda>t. Inr (k, name, t)))))"

definition adb_list_all :: "gw_client \<Rightarrow> (string \<times> string \<times> string) list result \<times> gw_client" where
  "adb_list_all w =
     (let (out, w1) = gw_get_from [''identity'', ''agents''] [] w
      in (and_then (response_or_raise out) (\<lambda>(st, b).
            if st \<noteq> 200 then Inl gateway_error
            else
              and_then (and_then (response_json b) as_object) (\<lambda>data.
              and_then (subscript data ''agents'') (\<lambda>agents.
                case agents of JList js \<Rightarrow> each summary_of_agent js | _ \<Rightarrow> Inl (PyError ''TypeError'')))), w1))"

definition adb_count :: "gw_client \<Rightarrow> int result \<times> gw_client" where
  "adb_count w =
     (let (out, w1) = gw_get_from [''identity'', ''agents'', ''count''] [] w
      in (and_then (response_or_raise out) (\<lambda>(st, b).
            if st \<noteq> 200 then Inl gateway_error
            else
              and_then (and_then (response_json b) as_object) (\<lambda>data. and_then (subscript data ''count'') int_of_json)), w1))"

definition gateway_agents :: "gw_client agent_ops" where
  "gateway_agents =
     \<lparr>ao_insert = adb_insert, ao_get_by_id = adb_get_by_id, ao_list_all = adb_list_all, ao_count = adb_count\<rparr>"

end
