(* ===== verification/Identity_Props.thy ===== *)
theory Identity_Props
  imports Identity
begin

text \<open>
  The interface of the agent storage with its laws, interpreted on the in-memory store; what the Identity service vouches
  for stays so; and one key that makes two agents.
\<close>

section \<open>What a storage promises\<close>

locale agent_storage =
  fixes ops :: "'s agent_ops" and ok :: "'s \<Rightarrow> bool" and agent :: "'s \<Rightarrow> string \<Rightarrow> agent_record option"
  assumes insert_adds: "ok s \<Longrightarrow> ao_insert ops name key s = (Inr a, s') \<Longrightarrow>
      ok s' \<and> agent s (ag_id a) = None \<and> agent s' = (agent s)(ag_id a \<mapsto> a) \<and> ag_name a = name \<and> ag_public_key a = key"
    and insert_refused: "ok s \<Longrightarrow> ao_insert ops name key s = (Inl e, s') \<Longrightarrow> s' = s"
    and looked_up: "ok s \<Longrightarrow> ao_get_by_id ops k s = (Inr (agent s k), s)"
    and lists_keep: "ok s \<Longrightarrow> snd (ao_list_all ops s) = s \<and> snd (ao_count ops s) = s"

context agent_storage
begin

definition "extends s s' \<longleftrightarrow> ok s' \<and> agent s \<subseteq>\<^sub>m agent s'"

lemma extends_refl: "ok s \<Longrightarrow> extends s s"
  by (simp add: extends_def)

lemma extends_trans: "extends s s' \<Longrightarrow> extends s' s'' \<Longrightarrow> extends s s''"
  by (auto simp: extends_def intro: map_le_trans)

lemma known: "ok s \<Longrightarrow> known_agent ops k s = (case agent s k of None \<Rightarrow> fail ''agent_not_found'' 404 | Some a \<Rightarrow> Inr a, s)"
  by (simp add: known_agent_def looked_up)

lemma register_extends: "ok s \<Longrightarrow> extends s (snd (reg_register_agent E ops name key s))"
proof -
  assume ok: "ok s"
  obtain r s' where ins: "ao_insert ops name key s = (r, s')" by fastforce
  have "extends s s'"
  proof (cases r)
    case (Inl e)
    then have "s' = s" using insert_refused [OF ok] ins by blast
    then show ?thesis using ok by (simp add: extends_refl)
  next
    case (Inr a)
    then have "ok s'" "agent s (ag_id a) = None" "agent s' = (agent s)(ag_id a \<mapsto> a)"
      using insert_adds [OF ok] ins by auto
    then show ?thesis by (auto simp: extends_def map_le_def)
  qed
  then show ?thesis using ok ins
    by (auto simp: reg_register_agent_def extends_def split: sum.split)
qed

lemma verify_jws_keeps: "ok s \<Longrightarrow> snd (reg_verify_jws E ops token s) = s"
  by (cases "token_kid E token") (simp_all add: reg_verify_jws_def known snd_chain split: sum.split option.split)

lemma verify_keeps: "ok s \<Longrightarrow> snd (reg_verify_signature E ops k m sig s) = s"
  by (simp add: reg_verify_signature_def known snd_chain split: sum.split option.split)

lemma request_extends: "ok s \<Longrightarrow> extends s (snd (identity_http E ops q s))"
  by (simp add: identity_http_def Let_def post_register_def post_verify_def post_verify_jws_def get_agents_def get_agent_def
      identity_health_def snd_chain registry_ready_def known lists_keep verify_jws_keeps verify_keeps extends_refl register_extends
      split: list.split sum.split option.split)

text \<open>What was answered about a known agent's token is answered again after registrations.\<close>

lemma verdict_kept:
  assumes "ok s" "extends s s'" "fst (reg_verify_jws E ops token s) \<noteq> fail ''agent_not_found'' 404"
  shows "fst (reg_verify_jws E ops token s') = fst (reg_verify_jws E ops token s)"
proof (cases "token_kid E token")
  case (Inl e)
  then show ?thesis by (simp add: reg_verify_jws_def)
next
  case (Inr kid)
  have ok': "ok s'" using assms(2) by (simp add: extends_def)
  obtain a where a: "agent s kid = Some a"
    using assms(1,3) Inr by (cases "agent s kid") (auto simp: reg_verify_jws_def known)
  then have "agent s' kid = Some a" using assms(2) by (auto simp: extends_def map_le_def dom_def)
  then show ?thesis using Inr a assms(1) ok' by (simp add: reg_verify_jws_def known)
qed

end

section \<open>The in-memory store keeps the promises\<close>

definition agents_ok :: "agent_db \<Rightarrow> bool" where
  "agents_ok s \<longleftrightarrow> uuid_unique s \<and>
     (\<forall>k a. dget (agents_by_id s) k = Some a \<longrightarrow> (\<exists>i < uuids s. k = prefixed ''a-'' (uuid_src s i)))"

lemma mem_insert_agent_adds:
  assumes "agents_ok s" "mem_insert_agent name key s = (Inr a, s')"
  shows "agents_ok s' \<and> dget (agents_by_id s) (ag_id a) = None \<and>
    dget (agents_by_id s') = (dget (agents_by_id s))(ag_id a \<mapsto> a) \<and> ag_name a = name \<and> ag_public_key a = key"
proof -
  let ?k = "prefixed ''a-'' (uuid_src s (uuids s))"
  have new: "dget (agents_by_id s) ?k = None"
  proof (rule ccontr)
    assume "dget (agents_by_id s) ?k \<noteq> None"
    then obtain i where "i < uuids s" "uuid_src s (uuids s) = uuid_src s i" using assms(1) by (auto simp: agents_ok_def)
    then show False using assms(1) by (auto simp: agents_ok_def uuid_unique_def dest: injD)
  qed
  have ins: "a = \<lparr>ag_id = ?k, ag_name = name, ag_public_key = key, ag_registered_at = iso_seconds (clock s (ticks s))\<rparr>"
    "agents_by_id s' = dput (agents_by_id s) ?k a" "uuids s' = Suc (uuids s)" "uuid_src s' = uuid_src s"
    using assms(2) by (auto simp: mem_insert_agent_def new_uuid_def read_clock_def Let_def split: if_splits)
  have "agents_ok s'"
    using assms(1) unfolding agents_ok_def ins(2-4) uuid_unique_def by (auto intro: less_SucI)
  then show ?thesis using new ins by (auto simp: fun_eq_iff)
qed

lemma memory_agents_simps [simp]:
  "ao_insert memory_agents = mem_insert_agent" "ao_get_by_id memory_agents = mem_get_agent"
  "ao_list_all memory_agents = mem_list_agents" "ao_count memory_agents = mem_count_agents"
  by (simp_all add: memory_agents_def)

interpretation mem_agents: agent_storage memory_agents agents_ok "\<lambda>s. dget (agents_by_id s)"
proof (unfold_locales, unfold memory_agents_simps)
  show "\<And>s name key a s'. agents_ok s \<Longrightarrow> mem_insert_agent name key s = (Inr a, s') \<Longrightarrow>
      agents_ok s' \<and> dget (agents_by_id s) (ag_id a) = None \<and>
      dget (agents_by_id s') = (dget (agents_by_id s))(ag_id a \<mapsto> a) \<and> ag_name a = name \<and> ag_public_key a = key"
    by (rule mem_insert_agent_adds)
qed (auto simp: mem_insert_agent_def mem_get_agent_def mem_list_agents_def mem_count_agents_def Let_def split: if_splits prod.splits)

section \<open>Verdicts\<close>

fun identity_run :: "identity_env \<Rightarrow> 's agent_ops \<Rightarrow> identity_request list \<Rightarrow> 's \<Rightarrow> 's" where
  "identity_run E ops [] s = s"
| "identity_run E ops (q # qs) s = identity_run E ops qs (snd (identity_http E ops q s))"

lemma identity_run_extends: "agents_ok s \<Longrightarrow> mem_agents.extends s (identity_run E memory_agents qs s)"
proof (induction qs arbitrary: s)
  case (Cons q qs)
  have "mem_agents.extends s (snd (identity_http E memory_agents q s))" by (rule mem_agents.request_extends [OF Cons.prems])
  then show ?case using Cons.IH mem_agents.extends_trans by (auto simp: mem_agents.extends_def)
qed (simp add: mem_agents.extends_refl)

text \<open>What makes a detached signature or a token right for a registered key.\<close>

definition signs :: "identity_env \<Rightarrow> string \<Rightarrow> string \<Rightarrow> string \<Rightarrow> bool" where
  "signs E public_key payload_b64 signature_b64 \<longleftrightarrow>
     (\<exists>key message signature. stored_key public_key = Inr key \<and> b64decode True payload_b64 = Some message \<and>
        b64decode True signature_b64 = Some signature \<and> length signature = ie_signature_bytes E \<and>
        ie_point E key \<and> ie_verify E key signature message)"

definition carries :: "identity_env \<Rightarrow> string \<Rightarrow> string \<Rightarrow> payload \<Rightarrow> bool" where
  "carries E public_key token d \<longleftrightarrow>
     (\<exists>key. stored_key public_key = Inr key \<and> ie_jws E token key = JwsPayload (JObj d))"

context agent_storage
begin

lemma signature_vouched:
  assumes "ok s" "agent s k = Some a"
  shows "fst (reg_verify_signature E ops k m sg s) = Inr (valid_answer k) \<longleftrightarrow> signs E (ag_public_key a) m sg"
  using assms
  by (auto simp: reg_verify_signature_def known signs_def valid_answer_def invalid_answer_def inr_iffs
      split: option.splits if_splits)

lemma token_vouched:
  assumes "ok s" "agent s k = Some a" "token_kid E token = Inr k"
  shows "fst (reg_verify_jws E ops token s) = Inr (valid_answer k @ [(''payload'', JObj d)]) \<longleftrightarrow>
    carries E (ag_public_key a) token d"
proof (cases "stored_key (ag_public_key a)")
  case (Inl e)
  then show ?thesis using assms by (simp add: reg_verify_jws_def known carries_def)
next
  case (Inr key)
  then have j: "fst (reg_verify_jws E ops token s) =
      (case ie_jws E token key of
         JwsBadSignature \<Rightarrow> Inr invalid_answer
       | JwsError \<Rightarrow> fail ''invalid_jws'' 400
       | JwsNotJson \<Rightarrow> fail ''invalid_jws'' 400
       | JwsPayload p \<Rightarrow>
           (case p of JObj d \<Rightarrow> Inr (valid_answer k @ [(''payload'', JObj d)]) | _ \<Rightarrow> fail ''invalid_jws'' 400))"
    using assms by (simp add: reg_verify_jws_def known)
  have "carries E (ag_public_key a) token d \<longleftrightarrow> ie_jws E token key = JwsPayload (JObj d)"
    using Inr by (simp add: carries_def)
  then show ?thesis
    unfolding j
    by (cases "ie_jws E token key") (simp_all add: valid_answer_def invalid_answer_def split: json.split)
qed

lemma signature_kept:
  assumes "ok s" "extends s s'" "agent s k = Some a"
  shows "fst (reg_verify_signature E ops k m sg s') = fst (reg_verify_signature E ops k m sg s)"
proof -
  have "ok s'" "agent s' k = Some a" using assms(2,3) by (auto simp: extends_def map_le_def dom_def)
  then show ?thesis using assms(1,3) by (simp add: reg_verify_signature_def known)
qed

end

text \<open>
  C33: The verdicts of the Identity service are its agents' keys', for good. With the in-memory store, started empty,
  whatever has been requested and whatever is requested after: a detached signature is vouched for in the name of a
  registered agent exactly when it verifies under the key he registered, a token naming him exactly when its signature
  does, with the payload signed; and what was answered once about a signature or a token of a known agent is
  answered again for good.
\<close>
theorem verdicts_final:
  assumes "uuid_unique s\<^sub>0" "agents_by_id s\<^sub>0 = []" "s = identity_run E memory_agents before s\<^sub>0"
    and "s' = identity_run E memory_agents after s" "dget (agents_by_id s) k = Some a"
  shows "(fst (reg_verify_signature E memory_agents k m sg s') = Inr (valid_answer k) \<longleftrightarrow> signs E (ag_public_key a) m sg) \<and>
    fst (reg_verify_signature E memory_agents k m sg s') = fst (reg_verify_signature E memory_agents k m sg s) \<and>
    (token_kid E token = Inr k \<longrightarrow>
       (\<forall>d. fst (reg_verify_jws E memory_agents token s') = Inr (valid_answer k @ [(''payload'', JObj d)]) \<longleftrightarrow>
          carries E (ag_public_key a) token d)) \<and>
    (fst (reg_verify_jws E memory_agents token s) \<noteq> fail ''agent_not_found'' 404 \<longrightarrow>
       fst (reg_verify_jws E memory_agents token s') = fst (reg_verify_jws E memory_agents token s))"
proof -
  have "agents_ok s\<^sub>0" using assms(1,2) by (simp add: agents_ok_def)
  then have s: "agents_ok s" using identity_run_extends assms(3) by (simp add: mem_agents.extends_def)
  then have e: "mem_agents.extends s s'" using identity_run_extends assms(4) by simp
  then have s': "agents_ok s'" "dget (agents_by_id s') k = Some a"
    using assms(5) by (auto simp: mem_agents.extends_def map_le_def dom_def)
  show ?thesis
    by (intro conjI impI allI mem_agents.signature_vouched [OF s'] mem_agents.signature_kept [OF s e assms(5)]
        mem_agents.token_vouched [OF s'] mem_agents.verdict_kept [OF s e])
qed

section \<open>One key, two agents\<close>

lemma spelled_key:
  assumes "b64decode True t = Some key" "b64decode False t = Some key"
    and "length key = ie_key_bytes E" "key \<noteq> replicate (ie_key_bytes E) (CHR 0x00)" "ie_point E key" "ie_prefix E = ''ed25519:''"
  shows "validate_public_key E (''ed25519:'' @ t) = Inr () \<and> stored_key (''ed25519:'' @ t) = Inr key"
proof -
  have "strip_prefix (ie_prefix E) (''ed25519:'' @ t) = Some t" using assms(6) by (simp add: strip_prefix_iff)
  then show ?thesis using assms by (simp add: validate_public_key_def stored_key_def)
qed

text \<open>
  C34: Every key of 32 bytes can be registered twice: written with other unused bits in its base64 text it passes for
  another key, and the service makes it a second agent.
\<close>
theorem one_key_two_agents:
  assumes "ie_prefix E = ''ed25519:''" "ie_key_bytes E = 32"
    and "length key = 32" "key \<noteq> replicate 32 (CHR 0x00)" "ie_point E key" "\<not> blank name"
    and "uuid_unique s" "agent_id_by_public_key s = []"
  shows "\<exists>t u a b s' s''. reg_register_agent E memory_agents name t s = (Inr a, s') \<and>
    reg_register_agent E memory_agents name u s' = (Inr b, s'') \<and> ag_id a \<noteq> ag_id b \<and>
    stored_key (ag_public_key a) = Inr key \<and> stored_key (ag_public_key b) = Inr key"
proof -
  obtain t where t: "t \<noteq> b64encode key" "b64decode True t = Some key" "b64decode False t = Some key"
    using second_spelling [of key] assms(3) by auto
  let ?t = "''ed25519:'' @ t" and ?u = "''ed25519:'' @ b64encode key"
  have ok: "validate_public_key E ?t = Inr () \<and> stored_key ?t = Inr key" "validate_public_key E ?u = Inr () \<and> stored_key ?u = Inr key"
    using spelled_key [of t key E] spelled_key [of "b64encode key" key E] t decode_encode assms by auto
  have differ: "?t \<noteq> ?u" using t(1) by simp
  obtain a s' where a: "mem_insert_agent name ?t s = (Inr a, s')" "ag_public_key a = ?t" "ag_id a = prefixed ''a-'' (uuid_src s (uuids s))"
    "agent_id_by_public_key s' = [(?t, ag_id a)]" "uuids s' = Suc (uuids s)" "uuid_src s' = uuid_src s"
    using assms(8) by (simp add: mem_insert_agent_def new_uuid_def read_clock_def Let_def)
  obtain b s'' where b: "mem_insert_agent name ?u s' = (Inr b, s'')" "ag_public_key b = ?u" "ag_id b = prefixed ''a-'' (uuid_src s' (uuids s'))"
    using a(4) differ by (simp add: mem_insert_agent_def new_uuid_def read_clock_def Let_def)
  have "uuid_src s (uuids s) \<noteq> uuid_src s (Suc (uuids s))"
    using assms(7) by (simp add: uuid_unique_def inj_eq)
  then have "ag_id a \<noteq> ag_id b" by (simp add: a(3,5,6) b(3))
  moreover have "reg_register_agent E memory_agents name ?t s = (Inr a, s')" "reg_register_agent E memory_agents name ?u s' = (Inr b, s'')"
    by (simp_all only: reg_register_agent_def validate_name_def ok a(1) b(1) assms(6) memory_agents_simps and_then_simps sum.case prod.case if_False)
  ultimately show ?thesis using a(2) b(2) ok by metis
qed

section \<open>Witnesses\<close>

definition demo_identity_env :: identity_env where
  "demo_identity_env =
     \<lparr>ie_ready = True, ie_prefix = ''ed25519:'', ie_key_bytes = 32, ie_signature_bytes = 64, ie_point = (\<lambda>_. True),
      ie_verify = (\<lambda>_ _ _. True), ie_header = (\<lambda>part. Decoded (JObj [(''alg'', JStr ''EdDSA''), (''kid'', JStr part)])),
      ie_jws = (\<lambda>token key. JwsPayload (JObj []))\<rparr>"

definition demo_agents :: agent_db where
  "demo_agents = host.extend demo_host \<lparr>agents_by_id = [], agent_id_by_public_key = []\<rparr>"

lemma demo_agents_unique: "uuid_unique demo_agents"
  using demo_host_unique by (simp add: uuid_unique_def demo_agents_def host.defs)

theorem one_key_two_agents_witness:
  "\<exists>t u a b s' s''. reg_register_agent demo_identity_env memory_agents ''n'' t demo_agents = (Inr a, s') \<and>
    reg_register_agent demo_identity_env memory_agents ''n'' u s' = (Inr b, s'') \<and> ag_id a \<noteq> ag_id b \<and>
    stored_key (ag_public_key a) = Inr (replicate 32 CHR ''k'') \<and> stored_key (ag_public_key b) = Inr (replicate 32 CHR ''k'')"
proof (rule one_key_two_agents)
  show "ie_prefix demo_identity_env = ''ed25519:''" "ie_key_bytes demo_identity_env = 32" "ie_point demo_identity_env (replicate 32 CHR ''k'')"
    by (simp_all add: demo_identity_env_def)
  show "length (replicate 32 CHR ''k'') = 32" by simp
  show "replicate 32 CHR ''k'' \<noteq> replicate 32 (CHR 0x00)" "\<not> blank ''n''" by code_simp+
  show "uuid_unique demo_agents" by (rule demo_agents_unique)
  show "agent_id_by_public_key demo_agents = []" by (simp add: demo_agents_def host.defs)
qed

definition short_key_env :: identity_env where
  "short_key_env = demo_identity_env\<lparr>ie_key_bytes := 3, ie_signature_bytes := 3\<rparr>"

definition register_demo_agent :: identity_request where
  "register_demo_agent =
     \<lparr>iq_method = ''POST'', iq_path = [''agents'', ''register''],
      iq_body = Some (JObj [(''name'', JStr ''n''), (''public_key'', JStr ''ed25519:QUFB'')])\<rparr>"

theorem verdicts_final_witness:
  "fst (reg_verify_jws short_key_env memory_agents ''a-.b.c''
     (identity_run short_key_env memory_agents [register_demo_agent] (identity_run short_key_env memory_agents [register_demo_agent] demo_agents))) =
   Inr (valid_answer ''a-'' @ [(''payload'', JObj [])]) \<and>
   fst (reg_verify_signature short_key_env memory_agents ''a-'' ''QUFB'' ''QUFB''
     (identity_run short_key_env memory_agents [register_demo_agent] (identity_run short_key_env memory_agents [register_demo_agent] demo_agents))) =
   Inr (valid_answer ''a-'')"
proof -
  let ?s = "identity_run short_key_env memory_agents [register_demo_agent] demo_agents"
  have now: "fst (reg_verify_jws short_key_env memory_agents ''a-.b.c'' ?s) = Inr (valid_answer ''a-'' @ [(''payload'', JObj [])])"
    by code_simp
  have "stored_key ''ed25519:QUFB'' = Inr ''AAA''" "b64decode True ''QUFB'' = Some ''AAA''" by code_simp+
  then have signed: "signs short_key_env ''ed25519:QUFB'' ''QUFB'' ''QUFB''"
    by (simp add: signs_def short_key_env_def demo_identity_env_def)
  have there: "map_option ag_public_key (dget (agents_by_id ?s) ''a-'') = Some ''ed25519:QUFB''" by code_simp
  have empty: "agents_by_id demo_agents = []" by (simp add: demo_agents_def host.defs)
  obtain a where a: "dget (agents_by_id ?s) ''a-'' = Some a" using there by auto
  have "ag_public_key a = ''ed25519:QUFB''" using there a by simp
  with signed show ?thesis
    using verdicts_final [OF demo_agents_unique empty refl refl a, where m = "''QUFB''" and sg = "''QUFB''" and token = "''a-.b.c''" and after = "[register_demo_agent]"] now
    by simp
qed

end
