(* ===== verification/Agents_Db_Props.thy ===== *)
theory Agents_Db_Props
  imports Agents_Db Gateway_Props Identity_Props
begin

text \<open>
  The Identity service over the gateway answers as it does over its in-memory store: what a registration and a lookup
  do at the gateway, the locale of two storages that agree, interpreted on the two, and runs of requests.
\<close>

section \<open>Registrations at the gateway\<close>

definition agent_row :: "agent_record \<Rightarrow> row" where
  "agent_row a = new_row economy_schema ''identity_agents''
     [(''agent_id'', SText (ag_id a)), (''name'', SText (ag_name a)), (''public_key'', SText (ag_public_key a)),
      (''registered_at'', SText (ag_registered_at a))]"

lemma agent_row_simps [simp]:
  "agent_row a ''agent_id'' = SText (ag_id a)" "agent_row a ''name'' = SText (ag_name a)"
  "agent_row a ''public_key'' = SText (ag_public_key a)" "agent_row a ''registered_at'' = SText (ag_registered_at a)"
  by (simp_all add: agent_row_def new_row_def is_integer_def identity_agents_def)

definition events_numbered :: "row list \<Rightarrow> bool" where
  "events_numbered rs \<longleftrightarrow> (\<forall>r \<in> set rs. \<exists>n. r ''event_id'' = SInt n \<and> n \<le> int (length rs))"

lemma agents_affinity [simp]: "is_integer economy_schema ''identity_agents'' c = False"
  by (simp add: is_integer_def identity_agents_def)

lemma check_agent:
  "check_row economy_schema d ''identity_agents'' (map agent_row as) (agent_row a) =
     (if \<exists>b \<in> set as. ag_public_key b = ag_public_key a then Some (NotUnique ''identity_agents'' [''public_key''])
      else if \<exists>b \<in> set as. ag_id b = ag_id a then Some (NotUnique ''identity_agents'' [''agent_id'']) else None)"
  by (auto simp: check_row_def identity_agents_def every_row_def same_key_def list_ex_iff)


definition stored_agents :: "agent_record list \<Rightarrow> conn \<Rightarrow> bool" where
  "stored_agents as c \<longleftrightarrow> cn_undo c = None \<and> cn_data c ''identity_agents'' = map agent_row as \<and>
     events_numbered (cn_data c ''events'')"

lemma event_text [simp]: "is_integer economy_schema ''events'' c \<longleftrightarrow> c = ''event_id''"
  by (simp add: is_integer_def events_def)

lemma insert_event_numbered:
  assumes "events_numbered (cn_data c ''events'')" "\<exists>p \<in> set (cn_data c ''identity_agents''). p ''agent_id'' = SText k"
    and "dget data ''event'' = Some (event_body ''identity'' ty now [(''agent_id'', JStr k)] s details)"
  shows "\<exists>n r. data_event data c = (Inr n, put_data ((cn_data c)(''events'' := cn_data c ''events'' @ [r])) c) \<and>
    events_numbered (cn_data c ''events'' @ [r])"
proof -
  define t where "t = json_dumps (JObj details)"
  let ?n = "int (length (cn_data c ''events'')) + 1"
  let ?vals = "[(''event_id'', SInt ?n), (''event_source'', SText ''identity''), (''event_type'', SText ty), (''timestamp'', SText now),
     (''task_id'', SNull), (''agent_id'', SText k), (''summary'', SText s), (''payload'', SText t)]"
  let ?r = "new_row economy_schema ''events'' ?vals"
  have r: "?r ''event_id'' = SInt ?n" "?r ''agent_id'' = SText k" by (simp_all add: new_row_def)
  have "list_ex (\<lambda>p. sql_eq (p ''agent_id'') (SText k)) (cn_data c ''identity_agents'')"
    using assms(2) unfolding list_ex_iff by (metis sql_eq.simps(1))
  then have f: "foreign_ok (cn_data c) ?r (''agent_id'', ''identity_agents'', ''agent_id'')"
    by (simp add: foreign_ok_def r)
  have u: "\<not> list_ex (\<lambda>r'. same_key [''event_id''] ?r r') (cn_data c ''events'')"
    using assms(1) by (force simp: same_key_def r list_ex_iff events_numbered_def)
  have nulls: "first_null ''events'' [''task_id'', ''agent_id''] (td_columns events) ?r = None"
    by (simp add: events_def new_row_def)
  have chk: "check_row economy_schema (cn_data c) ''events'' (cn_data c ''events'') ?r = None"
    using f u nulls by (simp add: check_row_def events_def every_row_def)
  have "data_event data c = (Inr ?n, put_data ((cn_data c)(''events'' := cn_data c ''events'' @ [?r])) c)"
    by (simp add: data_event_def insert_event_def assms(3) event_body_def as_object_def seq_def lift_result_def subscript_def
        bind_all.simps jget_def dget_or_def insert_cells_def chk Let_def t_def [symmetric] del: json_dumps.simps)
  moreover have "events_numbered (cn_data c ''events'' @ [?r])"
    using assms(1) r by (force simp: events_numbered_def)
  ultimately show ?thesis by blast
qed


lemma register_new:
  assumes "stored_agents as c" "\<forall>b \<in> set as. ag_public_key b \<noteq> ag_public_key a \<and> ag_id b \<noteq> ag_id a"
  shows "\<exists>n c'. gw_register_agent (registration (ag_id a) (ag_name a) (ag_public_key a) (ag_registered_at a) now) c =
      (Inr [(''agent_id'', JStr (ag_id a)), (''event_id'', JInt n)], c') \<and> stored_agents (as @ [a]) c'"
proof -
  let ?data = "registration (ag_id a) (ag_name a) (ag_public_key a) (ag_registered_at a) now"
  let ?d = "(cn_data c)(''identity_agents'' := map agent_row (as @ [a]))"
  let ?c1 = "\<lparr>cn_data = ?d, cn_undo = Some (cn_data c)\<rparr>"
  have d: "cn_data c ''identity_agents'' = map agent_row as" "cn_undo c = None" "events_numbered (cn_data c ''events'')"
    using assms(1) by (simp_all add: stored_agents_def)
  have ins: "insert_into ''identity_agents''
     [(''agent_id'', subscript ?data ''agent_id''), (''name'', subscript ?data ''name''),
      (''public_key'', subscript ?data ''public_key''), (''registered_at'', subscript ?data ''registered_at'')]
     (c\<lparr>cn_undo := Some (cn_data c)\<rparr>) = (Inr (), ?c1)"
    using assms(2) by (simp add: sql_insert_def registration_def subscript_def lift_result_def seq_def bind_all.simps insert_cells_def Let_def
        agent_row_def [symmetric] d check_agent put_data_def)
  have "\<exists>n r. data_event ?data ?c1 = (Inr n, put_data ((cn_data ?c1)(''events'' := cn_data ?c1 ''events'' @ [r])) ?c1) \<and>
      events_numbered (cn_data ?c1 ''events'' @ [r])"
  proof (rule insert_event_numbered)
    show "dget ?data ''event'' = Some (event_body ''identity'' ''agent.registered'' now [(''agent_id'', JStr (ag_id a))]
        (ag_name a @ '' registered as agent'') [(''agent_name'', JStr (ag_name a))])"
      by (simp add: registration_def)
  qed (use d(3) in simp_all)
  then obtain n r where ev: "data_event ?data ?c1 = (Inr n, put_data (?d(''events'' := ?d ''events'' @ [r])) ?c1)"
      "events_numbered (?d ''events'' @ [r])"
    unfolding conn.simps by blast
  show ?thesis
    using ins ev d(2) by (simp add: gw_register_agent_def handled_def seq_def begin_immediate_def finish_def commit_def put_data_def
        stored_agents_def registration_def jget_def dget_or_def del: fun_upd_apply) simp
qed

lemma registration_fields [simp]:
  "jget (registration k name key t now) ''agent_id'' = JStr k" "jget (registration k name key t now) ''name'' = JStr name"
  "jget (registration k name key t now) ''public_key'' = JStr key" "jget (registration k name key t now) ''registered_at'' = JStr t"
  by (simp_all add: registration_def jget_def dget_or_def)

lemma register_known:
  assumes "stored_agents as c" "\<exists>b \<in> set as. ag_public_key b = key" "\<forall>b \<in> set as. ag_registered_at b \<noteq> t"
  shows "gw_register_agent (registration k name key t now) c = (fail ''public_key_exists'' 409, c)"
proof -
  let ?data = "registration k name key t now"
  let ?c1 = "c\<lparr>cn_undo := Some (cn_data c)\<rparr>"
  define a where "a = \<lparr>ag_id = k, ag_name = name, ag_public_key = key, ag_registered_at = t\<rparr>"
  have d: "cn_data c ''identity_agents'' = map agent_row as" "cn_undo c = None"
    using assms(1) by (simp_all add: stored_agents_def)
  have row: "agent_row a = new_row economy_schema ''identity_agents''
      [(''agent_id'', SText k), (''name'', SText name), (''public_key'', SText key), (''registered_at'', SText t)]"
    by (simp add: agent_row_def a_def)
  have ins: "insert_into ''identity_agents''
     [(''agent_id'', subscript ?data ''agent_id''), (''name'', subscript ?data ''name''),
      (''public_key'', subscript ?data ''public_key''), (''registered_at'', subscript ?data ''registered_at'')] ?c1 =
     (Inl (IntegrityError (NotUnique ''identity_agents'' [''public_key''])), ?c1)"
    using assms(2) by (simp add: sql_insert_def registration_def subscript_def lift_result_def seq_def bind_all.simps insert_cells_def Let_def
        row [symmetric] d check_agent) (simp add: a_def)
  have undone: "rollback ?c1 = c" using d(2) by (simp add: rollback_def)
  obtain b where b: "lookup_agent_by_public_key (SText key) (cn_data c) = Some (agent_row b)" "b \<in> set as"
    using assms(2) by (cases "filter (\<lambda>b. ag_public_key b = key) as")
      (force simp: lookup_agent_by_public_key_def d col_is_def filter_map o_def fetchone_def filter_empty_conv dest: filter_eq_ConsD)+
  show ?thesis
    using b assms(3) by (simp add: gw_register_agent_def handled_def seq_def begin_immediate_def d ins undone bound_def agent_matches_def)
qed

text \<open>Nothing is lost on the way.\<close>

definition delivering :: "gw_client \<Rightarrow> bool" where
  "delivering w \<longleftrightarrow> (\<forall>n. fates (gw_link w) n = Delivered)"

lemma gw_call_delivered:
  assumes "delivering w" "gateway_http q (remote (gw_link w)) = ((st, b), s')"
  shows "gw_call q w = (Response st b, w\<lparr>gw_link := (gw_link w)\<lparr>sent := Suc (sent (gw_link w)), remote := s'\<rparr>\<rparr>)"
  using assms by (simp add: gw_call_def http_call_def delivering_def Let_def)

lemma delivering_simps [simp]:
  "delivering (w\<lparr>gw_link := (gw_link w)\<lparr>sent := n, remote := s\<rparr>\<rparr>) = delivering w"
  "delivering (w\<lparr>uuids := i\<rparr>) = delivering w" "delivering (w\<lparr>ticks := i\<rparr>) = delivering w"
  by (simp_all add: delivering_def)

lemma blank_append [simp]: "blank (s @ t) \<longleftrightarrow> blank s \<and> blank t"
  by (auto simp: blank_iff)

lemma not_blank_texts [simp]: "\<not> blank (iso_seconds t)" "\<not> blank (prefixed ''a-'' u)"
  by (auto simp: iso_seconds_def prefixed_def blank_iff py_space_def)

lemma required_Cons_text [simp]:
  "jget data k = JStr s \<Longrightarrow> \<not> blank s \<Longrightarrow> validate_required_fields data (k # ks) = validate_required_fields data ks"
  by simp

lemma registration_checked:
  assumes "\<not> blank k" "\<not> blank name" "\<not> blank key" "\<not> blank t" "\<not> blank now"
  shows "register_checks (registration k name key t now) = Inr ()"
proof -
  define s where "s = json_dumps (JObj [(''agent_name'', JStr name)])"
  have s: "\<not> blank s" unfolding s_def by (rule dumps_obj_not_blank)
  have "validate_event (registration k name key t now) = Inr ()"
    using assms s by (simp add: validate_event_def registration_def event_body_def event_required_fields_def jget_def dget_or_def
        s_def [symmetric] blank_iff del: json_dumps.simps) (auto simp: py_space_def)
  then show ?thesis using assms by (simp add: register_checks_def del: validate_required_fields.simps(2))
qed

lemma post_registration:
  assumes "\<not> blank k" "\<not> blank name" "\<not> blank key" "\<not> blank t" "\<not> blank now"
  shows "gateway_http \<lparr>gq_method = ''POST'', gq_path = [''identity'', ''agents''], gq_query = [],
      gq_body = Some (JObj (registration k name key t now))\<rparr> (Some c) =
    (let (r, c') = gw_register_agent (registration k name key t now) c in (response_of 201 id r, Some c'))"
  using registration_checked [OF assms] by (simp add: gateway_http_def gw_collection_def gw_post_def parse_json_body_def)

section \<open>Two storages that agree\<close>

text \<open>
  Each operation of the one answers as the same operation of the other does, from states that correspond, and leaves
  states that correspond; \<open>ready\<close> says more about the states before a request.
\<close>

definition plain_id :: "string \<Rightarrow> bool" where
  "plain_id k \<longleftrightarrow> k \<noteq> [] \<and> k \<noteq> ''count'' \<and> CHR ''/'' \<notin> set k"

abbreviation agree :: "('a \<Rightarrow> 'b \<Rightarrow> bool) \<Rightarrow> 'c \<times> 'a \<Rightarrow> 'c \<times> 'b \<Rightarrow> bool" where
  "agree R \<equiv> rel_prod (=) R"

locale agent_storages_agree =
  fixes ops1 :: "'a agent_ops" and ops2 :: "'b agent_ops" and same :: "'a \<Rightarrow> 'b \<Rightarrow> bool" and ready :: "'a \<Rightarrow> 'b \<Rightarrow> bool"
  assumes ready_same: "ready s1 s2 \<Longrightarrow> same s1 s2"
    and inserts_agree: "ready s1 s2 \<Longrightarrow> \<not> blank name \<Longrightarrow> \<not> blank key \<Longrightarrow>
      agree same (ao_insert ops1 name key s1) (ao_insert ops2 name key s2)"
    and lookups_agree: "ready s1 s2 \<Longrightarrow> plain_id k \<Longrightarrow> agree same (ao_get_by_id ops1 k s1) (ao_get_by_id ops2 k s2)"
    and lists_agree: "ready s1 s2 \<Longrightarrow> agree same (ao_list_all ops1 s1) (ao_list_all ops2 s2)"
    and counts_agree: "ready s1 s2 \<Longrightarrow> agree same (ao_count ops1 s1) (ao_count ops2 s2)"

text \<open>The agent a request looks up.\<close>

definition looked_for :: "identity_env \<Rightarrow> identity_request \<Rightarrow> string option" where
  "looked_for E q =
     (case iq_path q of
        [a, k] \<Rightarrow>
          if k = ''verify'' then
            (case identity_args E (iq_body q) [''agent_id'', ''payload'', ''signature''] of
               Inl _ \<Rightarrow> None | Inr vs \<Rightarrow> Some (vs ! 0))
          else if k = ''verify-jws'' then
            (case and_then (identity_args E (iq_body q) [''token'']) (\<lambda>vs. token_kid E (vs ! 0)) of
               Inl _ \<Rightarrow> None | Inr kid \<Rightarrow> Some kid)
          else Some k
      | _ \<Rightarrow> None)"

definition looks_plainly :: "identity_env \<Rightarrow> identity_request \<Rightarrow> bool" where
  "looks_plainly E q \<longleftrightarrow> (case looked_for E q of None \<Rightarrow> True | Some k \<Rightarrow> plain_id k)"

lemma no_such_path:
  "iq_path q = [] \<Longrightarrow> identity_http E ops q s = (id_error ''http_error'' 404, s)"
  "iq_path q = a # k # r # ps \<Longrightarrow> identity_http E ops q s =
     (if ps = [] \<and> a = ''agents'' \<and> k \<noteq> [] \<and> r = [] then (307, None) else id_error ''http_error'' 404, s)"
  by (cases ps; simp add: identity_http_def)+

lemma agree_apfst: "agree R p q \<Longrightarrow> agree R (apfst f p) (apfst f q)"
  by (cases p; cases q) simp

lemma agree_chain: "agree R p q \<Longrightarrow> (\<And>x s t. R s t \<Longrightarrow> agree R (f x s) (g x t)) \<Longrightarrow> agree R (chain p f) (chain q g)"
  by (cases p; cases q; cases "fst p") (auto simp: rel_prod_conv)

context agent_storages_agree
begin

lemma known_agrees: "ready s1 s2 \<Longrightarrow> plain_id k \<Longrightarrow> agree same (known_agent ops1 k s1) (known_agent ops2 k s2)"
  unfolding known_agent_def by (intro agree_chain lookups_agree) simp_all

lemma registering_agrees:
  assumes "ready s1 s2" "\<not> blank (ie_prefix E)"
  shows "agree same (reg_register_agent E ops1 name key s1) (reg_register_agent E ops2 name key s2)"
proof (cases "and_then (validate_name name) (\<lambda>_. validate_public_key E key)")
  case (Inl e)
  then show ?thesis using ready_same [OF assms(1)] by (simp add: reg_register_agent_def)
next
  case (Inr u)
  then have "\<not> blank name" "\<not> blank key"
    using assms(2) by (auto simp: validate_name_def validate_public_key_def strip_prefix_iff split: if_splits option.splits)
  from inserts_agree [OF assms(1) this] show ?thesis
    unfolding reg_register_agent_def Inr sum.case
    by (cases "ao_insert ops1 name key s1"; cases "ao_insert ops2 name key s2") (auto simp: rel_prod_conv split: sum.split)
qed

lemma post_register_agrees:
  assumes "ready s1 s2" "\<not> blank (ie_prefix E)"
  shows "agree same (post_register E ops1 body s1) (post_register E ops2 body s2)"
  by (cases "identity_args E body [''name'', ''public_key'']")
    (simp_all add: post_register_def agree_apfst registering_agrees assms ready_same)

lemma post_verify_agrees:
  assumes "ready s1 s2"
    and "\<And>vs. identity_args E body [''agent_id'', ''payload'', ''signature''] = Inr vs \<Longrightarrow> plain_id (vs ! 0)"
  shows "agree same (post_verify E ops1 body s1) (post_verify E ops2 body s2)"
proof (cases "identity_args E body [''agent_id'', ''payload'', ''signature'']")
  case (Inr vs)
  then show ?thesis unfolding post_verify_def Inr chain_simps reg_verify_signature_def
    by (intro agree_apfst agree_chain known_agrees assms) (simp_all add: Inr)
qed (simp add: post_verify_def assms ready_same)

lemma post_verify_jws_agrees:
  assumes "ready s1 s2"
    and "\<And>kid. and_then (identity_args E body [''token'']) (\<lambda>vs. token_kid E (vs ! 0)) = Inr kid \<Longrightarrow> plain_id kid"
  shows "agree same (post_verify_jws E ops1 body s1) (post_verify_jws E ops2 body s2)"
proof (cases "identity_args E body [''token'']")
  case (Inr vs)
  note vs = this
  show ?thesis
  proof (cases "token_kid E (vs ! 0)")
    case (Inr kid)
    then have "plain_id kid" using assms(2) vs by simp
    then show ?thesis unfolding post_verify_jws_def vs chain_simps reg_verify_jws_def Inr
      by (intro agree_apfst agree_chain known_agrees assms(1)) simp_all
  qed (simp add: vs post_verify_jws_def reg_verify_jws_def assms ready_same)
qed (simp add: post_verify_jws_def assms ready_same)

lemma get_agents_agrees:
  assumes "ready s1 s2" shows "agree same (get_agents E ops1 s1) (get_agents E ops2 s2)"
  by (cases "ie_ready E") (simp_all add: get_agents_def registry_ready_def agree_apfst lists_agree assms ready_same)

lemma get_agent_agrees:
  assumes "ready s1 s2" "plain_id k" shows "agree same (get_agent E ops1 k s1) (get_agent E ops2 k s2)"
  by (cases "ie_ready E") (simp_all add: get_agent_def registry_ready_def agree_apfst known_agrees assms ready_same)

lemma health_agrees:
  assumes "ready s1 s2" shows "agree same (identity_health E ops1 s1) (identity_health E ops2 s2)"
  by (cases "ie_ready E") (simp_all add: identity_health_def agree_apfst counts_agree assms ready_same)

lemma same_answer [simp]: "ready s1 s2 \<Longrightarrow> agree same (a, s1) (a, s2)"
  by (simp add: ready_same)

lemma request_agrees:
  assumes "ready s1 s2" "\<not> blank (ie_prefix E)" "looks_plainly E q"
  shows "agree same (identity_http E ops1 q s1) (identity_http E ops2 q s2)"
proof -
  note endpoints = post_register_agrees [OF assms(1,2)] post_verify_agrees [OF assms(1)] post_verify_jws_agrees [OF assms(1)]
    get_agents_agrees [OF assms(1)] get_agent_agrees [OF assms(1)] health_agrees [OF assms(1)] same_answer [OF assms(1)]
  have one: "agree same (identity_http E ops1 q s1) (identity_http E ops2 q s2)" if "iq_path q = [a]" for a
    by (simp add: identity_http_def that endpoints del: rel_prod_inject)
  have two: "agree same (identity_http E ops1 q s1) (identity_http E ops2 q s2)" if p: "iq_path q = [a, k]" for a k
  proof (cases "k = ''verify'' \<or> k = ''verify-jws''")
    case True
    then show ?thesis using assms(3)
      by (auto simp: identity_http_def p endpoints looks_plainly_def looked_for_def simp del: rel_prod_inject
          intro!: endpoints split: sum.splits)
  next
    case False
    then have "plain_id k" using assms(3) by (simp add: looks_plainly_def looked_for_def p)
    then show ?thesis using False by (simp add: identity_http_def p endpoints del: rel_prod_inject)
  qed
  have others: "agree same (identity_http E ops1 q s1) (identity_http E ops2 q s2)"
    if "iq_path q = [] \<or> (\<exists>a b c ps. iq_path q = a # b # c # ps)"
    using that ready_same [OF assms(1)] by (auto simp: no_such_path)
  show ?thesis
  proof (cases "iq_path q")
    case (Cons a ks)
    show ?thesis
    proof (cases ks)
      case Nil
      then show ?thesis using one Cons by simp
    next
      case (Cons k rs)
      then show ?thesis using two others \<open>iq_path q = a # ks\<close> by (cases rs) auto
    qed
  qed (rule others, simp)
qed

end

section \<open>The registry and the gateway agree\<close>

definition same_list :: "agent_record list \<Rightarrow> agent_db \<Rightarrow> gw_client \<Rightarrow> bool" where
  "same_list as m w \<longleftrightarrow> agents_by_id m = map (\<lambda>a. (ag_id a, a)) as \<and> distinct (map ag_id as) \<and>
     (\<forall>k. dget (agent_id_by_public_key m) k = None \<longleftrightarrow> (\<forall>a \<in> set as. ag_public_key a \<noteq> k)) \<and>
     delivering w \<and> (\<exists>c. remote (gw_link w) = Some c \<and> stored_agents as c)"

definition same_agents :: "agent_db \<Rightarrow> gw_client \<Rightarrow> bool" where
  "same_agents m w \<longleftrightarrow> (\<exists>as. same_list as m w)"

text \<open>While a request is served the clock stands still, and both draw the same new identifier.\<close>

definition at_moment :: "int \<Rightarrow> string \<Rightarrow> 'a host_scheme \<Rightarrow> 'a host_scheme" where
  "at_moment t u s = s\<lparr>clock := \<lambda>_. t, uuid_src := \<lambda>_. u\<rparr>"

definition ready_list :: "agent_record list \<Rightarrow> agent_db \<Rightarrow> gw_client \<Rightarrow> bool" where
  "ready_list as m w \<longleftrightarrow> same_list as m w \<and> (\<exists>t u. clock m = (\<lambda>_. t) \<and> clock w = (\<lambda>_. t) \<and> uuid_src m = (\<lambda>_. u) \<and>
     uuid_src w = (\<lambda>_. u) \<and> (\<forall>a \<in> set as. ag_id a \<noteq> prefixed ''a-'' u \<and> ag_registered_at a \<noteq> iso_seconds t))"

definition ready_agents :: "agent_db \<Rightarrow> gw_client \<Rightarrow> bool" where
  "ready_agents m w \<longleftrightarrow> (\<exists>as. ready_list as m w)"

lemma adb_insert_answer:
  assumes "delivering w" "clock w = (\<lambda>_. t)" "uuid_src w = (\<lambda>_. u)" "remote (gw_link w) = Some c" "\<not> blank name" "\<not> blank key"
    and "gw_register_agent (registration (prefixed ''a-'' u) name key (iso_seconds t) (iso_seconds t)) c = (r, c')"
    and "r = Inr [(''agent_id'', JStr (prefixed ''a-'' u)), (''event_id'', JInt n)] \<or> r = fail ''public_key_exists'' 409"
  shows "\<exists>w'. adb_insert name key w =
      (case r of Inl e \<Rightarrow> Inl duplicate_agent | Inr x \<Rightarrow> Inr \<lparr>ag_id = prefixed ''a-'' u, ag_name = name, ag_public_key = key,
         ag_registered_at = iso_seconds t\<rparr>, w') \<and> delivering w' \<and> remote (gw_link w') = Some c'"
proof -
  let ?w = "w\<lparr>uuids := Suc (uuids w), ticks := Suc (Suc (ticks w))\<rparr>"
  let ?q = "\<lparr>gq_method = ''POST'', gq_path = [''identity'', ''agents''], gq_query = [],
      gq_body = Some (JObj (registration (prefixed ''a-'' u) name key (iso_seconds t) (iso_seconds t)))\<rparr>"
  have q: "gateway_http ?q (Some c) = (response_of 201 id r, Some c')"
    using post_registration [OF _ assms(5,6)] assms(7) by simp
  have "gateway_http ?q (remote (gw_link ?w)) = ((fst (response_of 201 id r), snd (response_of 201 id r)), Some c')"
    using q assms(4) by simp
  note call = gw_call_delivered [OF _ this]
  show ?thesis
    using assms(1-4,8) by (auto simp: adb_insert_def client_id_def client_now_def new_uuid_def read_clock_def Let_def gw_post_to_def call
        response_of_def response_json_def as_dict_def dget_or_def) (simp_all add: delivering_def)
qed

lemma gateway_inserts:
  assumes "ready_list as m w" "\<not> blank name" "\<not> blank key"
  shows "agree same_agents (mem_insert_agent name key m) (adb_insert name key w)"
proof -
  obtain t u where h: "clock m = (\<lambda>_. t)" "clock w = (\<lambda>_. t)" "uuid_src m = (\<lambda>_. u)" "uuid_src w = (\<lambda>_. u)"
      "\<forall>a \<in> set as. ag_id a \<noteq> prefixed ''a-'' u \<and> ag_registered_at a \<noteq> iso_seconds t"
    using assms(1) by (auto simp: ready_list_def)
  have same: "same_list as m w" using assms(1) by (simp add: ready_list_def)
  then obtain c where c: "remote (gw_link w) = Some c" "stored_agents as c" "delivering w"
    by (auto simp: same_list_def)
  define a where "a = \<lparr>ag_id = prefixed ''a-'' u, ag_name = name, ag_public_key = key, ag_registered_at = iso_seconds t\<rparr>"
  have index: "dget (agent_id_by_public_key m) key = None \<longleftrightarrow> (\<forall>b \<in> set as. ag_public_key b \<noteq> key)"
    using same by (simp add: same_list_def)
  show ?thesis
  proof (cases "dget (agent_id_by_public_key m) key = None")
    case False
    then have "\<exists>b \<in> set as. ag_public_key b = key" unfolding index by simp
    then have "gw_register_agent (registration (prefixed ''a-'' u) name key (iso_seconds t) (iso_seconds t)) c =
        (fail ''public_key_exists'' 409, c)"
      using register_known [OF c(2)] h(5) by blast
    from adb_insert_answer [OF c(3) h(2,4) c(1) assms(2,3) this] obtain w' where
      w': "adb_insert name key w = (Inl duplicate_agent, w')" "delivering w'" "remote (gw_link w') = Some c" by auto
    have "same_list as m w'" using same w'(2,3) c(1) by (simp add: same_list_def)
    then show ?thesis using False w'(1) by (auto simp: mem_insert_agent_def same_agents_def)
  next
    case True
    then have k: "\<forall>b \<in> set as. ag_public_key b \<noteq> key" unfolding index by simp
    then obtain n c' where r: "gw_register_agent (registration (prefixed ''a-'' u) name key (iso_seconds t) (iso_seconds t)) c =
        (Inr [(''agent_id'', JStr (prefixed ''a-'' u)), (''event_id'', JInt n)], c')" "stored_agents (as @ [a]) c'"
      using register_new [OF c(2), of a "iso_seconds t"] h(5) by (auto simp: a_def)
    from adb_insert_answer [OF c(3) h(2,4) c(1) assms(2,3) r(1)] obtain w' where
      w': "adb_insert name key w = (Inr a, w')" "delivering w'" "remote (gw_link w') = Some c'" by (auto simp: a_def)
    have new: "dget (agents_by_id m) (prefixed ''a-'' u) = None"
      using same h(5) by (auto simp: same_list_def dget_None_keys)
    have ins: "mem_insert_agent name key m =
        (Inr a, m\<lparr>uuids := Suc (uuids m), ticks := Suc (ticks m), agents_by_id := agents_by_id m @ [(ag_id a, a)],
           agent_id_by_public_key := dput (agent_id_by_public_key m) key (ag_id a)\<rparr>)"
      using True new by (simp add: mem_insert_agent_def new_uuid_def read_clock_def Let_def h a_def dput_new)
    have "ag_public_key a = key" "ag_id a \<notin> ag_id ` set as" using h(5) by (auto simp: a_def)
    then have "same_list (as @ [a]) (snd (mem_insert_agent name key m)) w'"
      using same w'(2,3) r(2) by (auto simp: ins same_list_def)
    then show ?thesis using ins w'(1) by (auto simp: same_agents_def)
  qed
qed

text \<open>Reads leave the gateway's data as they are.\<close>

lemma gw_get_delivered:
  assumes "same_list as m w" "\<And>c. stored_agents as c \<Longrightarrow> gateway_http \<lparr>gq_method = ''GET'', gq_path = path, gq_query = [], gq_body = None\<rparr> (Some c)
     = ((st, b), Some c)"
  shows "\<exists>w'. gw_get_from path [] w = (Response st b, w') \<and> same_list as m w'"
proof -
  obtain c where c: "delivering w" "remote (gw_link w) = Some c" "stored_agents as c" using assms(1) by (auto simp: same_list_def)
  have "gateway_http \<lparr>gq_method = ''GET'', gq_path = path, gq_query = [], gq_body = None\<rparr> (remote (gw_link w)) = ((st, b), Some c)"
    using assms(2) c(2,3) by simp
  from gw_call_delivered [OF c(1) this] show ?thesis
    using assms(1) c by (auto simp: gw_get_from_def same_list_def)
qed

lemma find_agent: "distinct (map ag_id as) \<Longrightarrow> dget (map (\<lambda>a. (ag_id a, a)) as) k = find (\<lambda>a. ag_id a = k) as"
  by (induction as) auto

lemma fetch_agent: "fetchone (filter (\<lambda>r. r ''agent_id'' = SText k) (map agent_row as)) = map_option agent_row (find (\<lambda>a. ag_id a = k) as)"
  by (induction as) (auto simp: fetchone_def)

lemma where_agent: "where_is ''identity_agents'' c (SText k) (agent_row a) \<longleftrightarrow> agent_row a c = SText k"
  by (cases "agent_row a c") (simp_all add: col_is_def)

lemma gateway_looks_up:
  assumes "ready_list as m w" "plain_id k"
  shows "agree same_agents (mem_get_agent k m) (adb_get_by_id k w)"
proof -
  let ?found = "find (\<lambda>a. ag_id a = k) as"
  have same: "same_list as m w" using assms(1) by (simp add: ready_list_def)
  have rows: "rd_get_agent k (cn_data c) = map_option (row_json ''identity_agents'' \<circ> agent_row) ?found" if "stored_agents as c" for c
  proof -
    have "rows_where ''identity_agents'' [(''agent_id'', Some k)] (cn_data c) = filter (\<lambda>r. r ''agent_id'' = SText k) (map agent_row as)"
      using that by (auto simp: rows_where_def stored_agents_def where_agent intro!: filter_cong)
    then show ?thesis by (simp add: rd_get_agent_def row_where_def fetch_agent option.map_comp)
  qed
  have path: "agents_path k = [''identity'', ''agents'', k]" using assms(2) by (simp add: agents_path_def split_on_none plain_id_def)
  let ?a = "found ''agent_not_found'' (map_option (row_json ''identity_agents'' \<circ> agent_row) ?found)"
  have "gateway_http \<lparr>gq_method = ''GET'', gq_path = agents_path k, gq_query = [], gq_body = None\<rparr> (Some c) = ((fst ?a, snd ?a), Some c)"
    if "stored_agents as c" for c
    using assms(2) rows [OF that] by (simp add: path gateway_http_def gw_item_def get_only_def gw_get_def plain_id_def)
  from gw_get_delivered [OF same this] obtain w' where
    w': "gw_get_from (agents_path k) [] w = (Response (fst ?a) (snd ?a), w')" "same_list as m w'" by blast
  have "adb_get_by_id k w = (Inr ?found, w')"
    by (cases ?found) (simp_all add: adb_get_by_id_def w'(1) found_def response_json_def row_json_def identity_agents_def as_object_def
        agent_of_def field_text_def subscript_def)
  moreover have "mem_get_agent k m = (Inr ?found, m)" using same by (simp add: mem_get_agent_def same_list_def find_agent)
  ultimately show ?thesis using w'(2) by (auto simp: same_agents_def)
qed

lemma insort_map: "insort_key f (g x) (map g xs) = map g (insort_key (\<lambda>x. f (g x)) x xs)"
  by (induction xs) auto

lemma sort_map: "sort_key f (map g xs) = map g (sort_key (\<lambda>x. f (g x)) xs)"
  by (induction xs) (simp_all add: insort_map)

lemma summaries_read: "each summary_of_agent (map (row_json ''identity_agents'' \<circ> agent_row) as) = Inr (map agent_summary as)"
  by (induction as) (simp_all add: summary_of_agent_def as_object_def row_json_def identity_agents_def field_text_def subscript_def agent_summary_def)

lemma gateway_lists:
  assumes "ready_list as m w"
  shows "agree same_agents (mem_list_agents m) (adb_list_all w)"
proof -
  have same: "same_list as m w" using assms by (simp add: ready_list_def)
  let ?rows = "map (row_json ''identity_agents'' \<circ> agent_row) (sort_key ag_registered_at as)"
  have "rd_list_agents None (cn_data c) = ?rows" if "stored_agents as c" for c
    using that by (simp add: rd_list_agents_def rows_where_def stored_agents_def sort_map o_def)
  then have "gateway_http \<lparr>gq_method = ''GET'', gq_path = [''identity'', ''agents''], gq_query = [], gq_body = None\<rparr> (Some c) =
      ((200, Some (JObj [(''agents'', JList ?rows)])), Some c)" if "stored_agents as c" for c
    using that by (simp add: gateway_http_def gw_collection_def get_only_def gw_get_def field_of_def)
  from gw_get_delivered [OF same this] obtain w' where
    w': "gw_get_from [''identity'', ''agents''] [] w = (Response 200 (Some (JObj [(''agents'', JList ?rows)])), w')" "same_list as m w'"
    by blast
  have "adb_list_all w = (Inr (map agent_summary (sort_key ag_registered_at as)), w')"
    by (simp add: adb_list_all_def w'(1) response_json_def as_object_def subscript_def summaries_read)
  moreover have "mem_list_agents m = (Inr (map agent_summary (sort_key ag_registered_at as)), m)"
    using same by (simp add: mem_list_agents_def same_list_def o_def)
  ultimately show ?thesis using w'(2) by (auto simp: same_agents_def)
qed

lemma gateway_counts:
  assumes "ready_list as m w"
  shows "agree same_agents (mem_count_agents m) (adb_count w)"
proof -
  have same: "same_list as m w" using assms by (simp add: ready_list_def)
  have "gateway_http \<lparr>gq_method = ''GET'', gq_path = [''identity'', ''agents'', ''count''], gq_query = [], gq_body = None\<rparr> (Some c) =
      ((200, Some (JObj [(''count'', JInt (int (length as)))])), Some c)" if "stored_agents as c" for c
    using that by (simp add: gateway_http_def gw_item_def get_only_def gw_get_def field_of_def count_json_def rd_count_def stored_agents_def)
  from gw_get_delivered [OF same this] obtain w' where
    w': "gw_get_from [''identity'', ''agents'', ''count''] [] w = (Response 200 (Some (JObj [(''count'', JInt (int (length as)))])), w')"
      "same_list as m w'" by blast
  have "adb_count w = (Inr (int (length as)), w')"
    by (simp add: adb_count_def w'(1) response_json_def as_object_def subscript_def)
  moreover have "mem_count_agents m = (Inr (int (length as)), m)"
    using same by (simp add: mem_count_agents_def same_list_def)
  ultimately show ?thesis using w'(2) by (auto simp: same_agents_def)
qed

lemma gateway_agents_simps [simp]:
  "ao_insert gateway_agents = adb_insert" "ao_get_by_id gateway_agents = adb_get_by_id"
  "ao_list_all gateway_agents = adb_list_all" "ao_count gateway_agents = adb_count"
  by (simp_all add: gateway_agents_def)

interpretation registry: agent_storages_agree memory_agents gateway_agents same_agents ready_agents
proof (unfold_locales, unfold memory_agents_simps gateway_agents_simps)
  show "ready_agents m w \<Longrightarrow> same_agents m w" for m w
    by (auto simp: ready_agents_def same_agents_def ready_list_def)
qed (unfold ready_agents_def, (elim exE, (rule gateway_inserts gateway_looks_up gateway_lists gateway_counts; assumption))+)

section \<open>Production answers as the in-memory registry does\<close>

fun identity_replies ::
    "identity_env \<Rightarrow> 'a host_scheme agent_ops \<Rightarrow> (int \<times> string \<times> identity_request) list \<Rightarrow> 'a host_scheme \<Rightarrow>
     (nat \<times> json option) list" where
  "identity_replies E ops [] s = []"
| "identity_replies E ops ((t, u, q) # rs) s =
     (let (answer, s') = identity_http E ops q (at_moment t u s) in answer # identity_replies E ops rs s')"

definition unused :: "(int \<times> string \<times> identity_request) list \<Rightarrow> agent_record list \<Rightarrow> bool" where
  "unused rs as \<longleftrightarrow> (\<forall>a \<in> set as. \<forall>(t, u, q) \<in> set rs. ag_id a \<noteq> prefixed ''a-'' u \<and> ag_registered_at a \<noteq> iso_seconds t)"

definition registered_in :: "agent_db \<Rightarrow> agent_db \<Rightarrow> bool" where
  "registered_in s s' \<longleftrightarrow> s' = s \<or> (\<exists>name key. s' = snd (mem_insert_agent name key s))"

lemma memory_reads [simp]:
  "snd (post_verify E memory_agents body s) = s" "snd (post_verify_jws E memory_agents body s) = s"
  "snd (get_agents E memory_agents s) = s" "snd (get_agent E memory_agents k s) = s" "snd (identity_health E memory_agents s) = s"
  by (simp_all add: post_verify_def post_verify_jws_def get_agents_def get_agent_def identity_health_def registry_ready_def
      reg_verify_jws_def reg_verify_signature_def known_agent_def mem_get_agent_def mem_list_agents_def mem_count_agents_def snd_chain
      split: sum.split option.split)

lemma registered_in_refl [simp]: "registered_in s s"
  by (simp add: registered_in_def)

lemma memory_registers [simp]: "registered_in s (snd (post_register E memory_agents body s))"
proof -
  have "snd (reg_register_agent E memory_agents name key s) \<in> {s, snd (mem_insert_agent name key s)}" for name key
    by (cases "mem_insert_agent name key s") (simp add: reg_register_agent_def split: sum.split)
  then show ?thesis by (auto simp: post_register_def snd_chain registered_in_def split: sum.split)
qed

lemma memory_after: "registered_in s (snd (identity_http E memory_agents q s))"
  by (simp add: identity_http_def Let_def split: list.split)

lemma memory_adds:
  assumes "agents_by_id m = map (\<lambda>a. (ag_id a, a)) as" "clock m = (\<lambda>_. t)" "uuid_src m = (\<lambda>_. u)"
    and "agents_by_id (snd (identity_http E memory_agents q m)) = map (\<lambda>a. (ag_id a, a)) as'" "a \<in> set as'"
  shows "a \<in> set as \<or> ag_id a = prefixed ''a-'' u \<and> ag_registered_at a = iso_seconds t"
proof -
  have added: "(k, a) \<in> set (dput d k' b) \<Longrightarrow> (k, a) \<in> set d \<or> a = b" for k k' a b and d :: "(string, agent_record) dict"
    by (induction d) (auto split: if_splits)
  have "(ag_id a, a) \<in> set (agents_by_id (snd (identity_http E memory_agents q m)))" using assms(4,5) by auto
  then show ?thesis
    using memory_after [of m E q] assms(1-3)
    by (auto simp: registered_in_def mem_insert_agent_def new_uuid_def read_clock_def Let_def split: if_splits dest!: added)
qed

text \<open>
  C35: Started empty and with nothing lost on the network, the Identity service answers every sequence of requests over
  the gateway exactly as over the in-memory store, as long as no two requests fall into the same second and the agents
  asked for have plain names.
\<close>
theorem registry_in_production:
  assumes "delivering w" "remote (gw_link w) = Some new_database" "agents_by_id m = []" "agent_id_by_public_key m = []"
    and "\<not> blank (ie_prefix E)" "list_all (\<lambda>(t, u, q). looks_plainly E q) rs"
    and "distinct (map (\<lambda>(t, u, q). iso_seconds t) rs)" "distinct (map (\<lambda>(t, u, q). u) rs)"
  shows "identity_replies E gateway_agents rs w = identity_replies E memory_agents rs m"
proof -
  have "identity_replies E gateway_agents rs w = identity_replies E memory_agents rs m"
    if "same_list as m w" "unused rs as" "list_all (\<lambda>(t, u, q). looks_plainly E q) rs"
      "distinct (map (\<lambda>(t, u, q). iso_seconds t) rs)" "distinct (map (\<lambda>(t, u, q). u) rs)" for as m w
    using that
  proof (induction rs arbitrary: as m w)
    case (Cons r rs)
    obtain t u q where r: "r = (t, u, q)" by (cases r)
    let ?m = "at_moment t u m" and ?w = "at_moment t u w"
    have ready: "ready_list as ?m ?w"
      using Cons.prems(1,2) by (auto simp: ready_list_def at_moment_def same_list_def delivering_def unused_def r)
    have "looks_plainly E q" using Cons.prems(3) by (simp add: r)
    from registry.request_agrees [OF _ assms(5) this, of ?m ?w] obtain a m' w' as' where
      out: "identity_http E memory_agents q ?m = (a, m')" "identity_http E gateway_agents q ?w = (a, w')" "same_list as' m' w'"
      using ready by (cases "identity_http E memory_agents q ?m"; cases "identity_http E gateway_agents q ?w")
        (auto simp: ready_agents_def same_agents_def)
    have "unused rs as'"
      unfolding unused_def
    proof (intro ballI, clarify)
      fix b t' u' q' assume b: "b \<in> set as'" "(t', u', q') \<in> set rs"
      have "b \<in> set as \<or> ag_id b = prefixed ''a-'' u \<and> ag_registered_at b = iso_seconds t"
        using memory_adds [of ?m as t u E q as' b] ready out(1,3) b(1) by (auto simp: ready_list_def same_list_def at_moment_def)
      then show "ag_id b \<noteq> prefixed ''a-'' u' \<and> ag_registered_at b \<noteq> iso_seconds t'"
        using Cons.prems(2,4,5) b(2) by (force simp: unused_def r)
    qed
    then show ?case using Cons.IH [OF out(3)] Cons.prems(3-5) out by (simp add: r)
  qed simp
  moreover have "same_list [] m w" "unused rs []"
    using assms(1-4) by (simp_all add: same_list_def unused_def stored_agents_def new_database_def events_numbered_def)
  ultimately show ?thesis using assms(6-8) by blast
qed

section \<open>Witness\<close>

definition demo_registry_client :: gw_client where
  "demo_registry_client =
     host.extend demo_host \<lparr>gw_link = \<lparr>fates = \<lambda>_. Delivered, sent = 0, remote = Some new_database\<rparr>\<rparr>"

definition get_identity :: "string list \<Rightarrow> identity_request" where
  "get_identity path = \<lparr>iq_method = ''GET'', iq_path = path, iq_body = None\<rparr>"

definition demo_moments :: "(int \<times> string \<times> identity_request) list" where
  "demo_moments = [(0, ''u'', register_demo_agent), (951782400 * 1000000, ''v'', get_identity [''agents''])]"

theorem registry_in_production_witness:
  "map fst (identity_replies short_key_env gateway_agents demo_moments demo_registry_client) = [201, 200]"
proof -
  have later: "iso_seconds 0 = ''1970-01-01T00:00:00Z''" by code_simp
  have "identity_replies short_key_env gateway_agents demo_moments demo_registry_client =
      identity_replies short_key_env memory_agents demo_moments demo_agents"
  proof (rule registry_in_production)
    show "list_all (\<lambda>(t, u, q). looks_plainly short_key_env q) demo_moments" by code_simp
    show "\<not> blank (ie_prefix short_key_env)" by code_simp
    show "distinct (map (\<lambda>(t, u, q). iso_seconds t) demo_moments)"
      using iso_examples(2) later by (simp add: demo_moments_def)
  qed (simp_all add: demo_registry_client_def delivering_def demo_agents_def demo_moments_def host.defs)
  moreover have "map fst (identity_replies short_key_env memory_agents demo_moments demo_agents) = [201, 200]"
    by code_simp
  ultimately show ?thesis by simp
qed

end
