(* ===== verification/Iso_Parse.thy ===== *)
theory Iso_Parse
  imports Py_Text
begin

text \<open>
  \<^verbatim>\<open>datetime.fromisoformat\<close> on the texts the services write: date and time with a \<^verbatim>\<open>T\<close> between
  them, digits of a second after a point if any, and UTC as \<^verbatim>\<open>Z\<close> or \<^verbatim>\<open>+00:00\<close>. The result is in
  microseconds since the epoch; \<open>None\<close> stands for \<^verbatim>\<open>ValueError\<close>, and also for the other forms Python
  would read.
\<close>

definition all_digits :: "string \<Rightarrow> bool" where
  "all_digits s \<longleftrightarrow> s \<noteq> [] \<and> list_all digit s"

definition number :: "string \<Rightarrow> int" where
  "number s = foldl (\<lambda>n c. 10 * n + digit_value c) 0 s"

definition leap_year :: "int \<Rightarrow> bool" where
  "leap_year y \<longleftrightarrow> y mod 4 = 0 \<and> (y mod 100 \<noteq> 0 \<or> y mod 400 = 0)"

definition days_in_month :: "int \<Rightarrow> int \<Rightarrow> int" where
  "days_in_month y m = (if m = 2 then (if leap_year y then 29 else 28) else if m \<in> {4, 6, 9, 11} then 30 else 31)"

text \<open>Days since the epoch; the inverse of \<open>civil_date\<close>.\<close>

definition civil_days :: "int \<Rightarrow> int \<Rightarrow> int \<Rightarrow> int" where
  "civil_days y m d =
     (let y' = (if m \<le> 2 then y - 1 else y);
          yoe = y' mod 400;
          doy = (153 * (if m > 2 then m - 3 else m + 9) + 2) div 5 + d - 1
      in y' div 400 * 146097 + yoe * 365 + yoe div 4 - yoe div 100 + doy - 719468)"

definition parse_date :: "string \<Rightarrow> int option" where
  "parse_date s =
     (let y = number (take 4 s); m = number (take 2 (drop 5 s)); d = number (drop 8 s)
      in if length s = 10 \<and> s ! 4 = CHR ''-'' \<and> s ! 7 = CHR ''-'' \<and> all_digits (take 4 s @ take 2 (drop 5 s) @ drop 8 s) \<and>
            1 \<le> y \<and> 1 \<le> m \<and> m \<le> 12 \<and> 1 \<le> d \<and> d \<le> days_in_month y m
         then Some (civil_days y m d) else None)"

definition parse_clock :: "string \<Rightarrow> int option" where
  "parse_clock s =
     (let h = number (take 2 s); m = number (take 2 (drop 3 s)); sec = number (drop 6 s)
      in if length s = 8 \<and> s ! 2 = CHR '':'' \<and> s ! 5 = CHR '':'' \<and> all_digits (take 2 s @ take 2 (drop 3 s) @ drop 6 s) \<and>
            h < 24 \<and> m < 60 \<and> sec < 60
         then Some (h * 3600 + m * 60 + sec) else None)"

text \<open>Six digits count; more are cut off.\<close>

definition parse_fraction :: "string \<Rightarrow> int option" where
  "parse_fraction s =
     (if s = [] then Some 0
      else if hd s = CHR ''.'' \<and> all_digits (tl s) then Some (number (take 6 (tl s @ ''00000''))) else None)"

definition parse_iso :: "string \<Rightarrow> int option" where
  "parse_iso s =
     (let n = length s - (if s \<noteq> [] \<and> last s = CHR ''Z'' then 1 else 6); body = take n s
      in if drop n s \<notin> {''Z'', ''+00:00''} \<or> length body < 19 \<or> body ! 10 \<noteq> CHR ''T'' then None
         else
           case (parse_date (take 10 body), parse_clock (take 8 (drop 11 body)), parse_fraction (drop 19 body)) of
             (Some days, Some secs, Some us) \<Rightarrow> Some ((days * 86400 + secs) * 1000000 + us)
           | _ \<Rightarrow> None)"

lemma parse_examples:
  "parse_iso ''1970-01-01T00:00:00Z'' = Some 0"
  "parse_iso ''2000-02-29T00:00:00+00:00'' = Some (951782400 * 1000000)"
  "parse_iso ''2026-03-01T12:34:56.000007+00:00'' = Some (1772368496 * 1000000 + 7)"
  "parse_iso ''2001-02-29T00:00:00Z'' = None"
  by code_simp+

end
