(* ===== verification/Tasks_Db.thy ===== *)
theory Tasks_Db
  imports Db_Client Iso_Parse
begin

text \<open>
  The Task Board's storage in production, \<^verbatim>\<open>services/task_db_client.py\<close>. Rows are the dictionaries the
  code passes, with times as the texts that are stored.
\<close>

section \<open>Helpers\<close>

definition task_columns :: "string list" where
  "task_columns =
     [''task_id'', ''poster_id'', ''title'', ''spec'', ''reward'', ''bidding_deadline_seconds'', ''deadline_seconds'',
      ''review_deadline_seconds'', ''status'', ''escrow_id'', ''bid_count'', ''worker_id'', ''accepted_bid_id'',
      ''created_at'', ''accepted_at'', ''submitted_at'', ''approved_at'', ''cancelled_at'', ''disputed_at'',
      ''dispute_reason'', ''ruling_id'', ''ruled_at'', ''worker_pct'', ''ruling_summary'', ''expired_at'',
      ''escrow_pending'']"

definition normalize_task :: "payload \<Rightarrow> payload" where
  "normalize_task data = map (\<lambda>c. (c, jget data c)) task_columns"

definition board_event :: "string \<Rightarrow> string \<Rightarrow> payload \<Rightarrow> string \<Rightarrow> string option \<Rightarrow> string \<Rightarrow> json" where
  "board_event type summary details tid agent now =
     JObj ([(''event_source'', JStr ''board''), (''event_type'', JStr type), (''timestamp'', JStr now), (''task_id'', JStr tid),
        (''summary'', JStr summary), (''payload'', JStr (json_dumps (JObj details)))] @
       (case agent of None \<Rightarrow> [] | Some a \<Rightarrow> [(''agent_id'', JStr a)]))"

text \<open>A sum beyond what \<^verbatim>\<open>datetime\<close> holds overflows.\<close>

definition bidding_deadline_of :: "string \<Rightarrow> int \<Rightarrow> string result" where
  "bidding_deadline_of created seconds =
     (case parse_iso created of
        None \<Rightarrow> Inl (PyError ''ValueError'')
      | Some t \<Rightarrow>
          let d = t + seconds * 1000000
          in if d < min_time \<or> max_time \<le> d then Inl (PyError ''OverflowError'') else Inr (iso_seconds d))"

section \<open>Tasks\<close>

text \<open>The row that is sent, with its bidding deadline, before the event.\<close>

definition new_task_body :: "payload \<Rightarrow> (payload \<times> string) result" where
  "new_task_body task_data =
     and_then (field_text task_data ''created_at'') (\<lambda>created.
     and_then (number_of task_data ''bidding_deadline_seconds'') (\<lambda>seconds.
     and_then (bidding_deadline_of created seconds) (\<lambda>bidding_deadline.
     and_then (each (\<lambda>k. and_then (subscript task_data k) (\<lambda>v. Inr (k, v)))
       [''task_id'', ''poster_id'', ''title'', ''spec'', ''reward'', ''status'', ''bidding_deadline_seconds'',
        ''deadline_seconds'', ''review_deadline_seconds'']) (\<lambda>first.
     and_then (subscript task_data ''bid_count'') (\<lambda>bid_count.
     and_then (subscript task_data ''escrow_id'') (\<lambda>escrow_id.
       Inr (first @ [(''bidding_deadline'', JStr bidding_deadline), (''bid_count'', bid_count),
              (''escrow_pending'', dget_or task_data ''escrow_pending'' (JInt 0)), (''escrow_id'', escrow_id),
              (''created_at'', JStr created)], bidding_deadline)))))))"

text \<open>A conflict of any kind is a duplicate.\<close>

definition tdb_insert_task :: "payload \<Rightarrow> gw_client \<Rightarrow> unit result \<times> gw_client" where
  "tdb_insert_task task_data w =
     (case new_task_body task_data of
        Inl e \<Rightarrow> (Inl e, w)
      | Inr (body, bidding_deadline) \<Rightarrow>
          let (now, w1) = client_now w;
              event = board_event ''task.created'' (''Task created: '' @ py_str (jget body ''title''))
                [(''title'', jget body ''title''), (''reward'', jget body ''reward''),
                 (''bidding_deadline'', JStr bidding_deadline)]
                (py_str (jget body ''task_id'')) (Some (py_str (jget body ''poster_id''))) now;
              (out, w2) = gw_post_to [''board'', ''tasks''] (body @ [(''event'', event)]) w1
          in (and_then (response_or_raise out) (\<lambda>(st, b).
                if st = 409 then Inl (PyError ''DuplicateTaskError'')
                else if st \<notin> {200, 201} then Inl gateway_error
                else Inr ()), w2))"

definition tdb_get_task :: "string \<Rightarrow> gw_client \<Rightarrow> payload option result \<times> gw_client" where
  "tdb_get_task tid w =
     (let (out, w1) = gw_get_from (path_of [''board'', ''tasks''] tid []) [] w
      in (and_then (found_object out) (\<lambda>d. Inr (map_option normalize_task d)), w1))"

definition tdb_update_task :: "string \<Rightarrow> payload \<Rightarrow> string option \<Rightarrow> gw_client \<Rightarrow> int result \<times> gw_client" where
  "tdb_update_task tid updates expected_status w =
     (let (now, w1) = client_now w;
          constraints = (case expected_status of None \<Rightarrow> JNull | Some st \<Rightarrow> JObj [(''status'', JStr st)]);
          event = board_event ''task.updated'' (''Task updated: '' @ tid) [(''updates'', JObj updates)] tid None now;
          (out, w2) = gw_post_to (path_of [''board'', ''tasks''] tid [''status''])
            [(''updates'', JObj updates), (''constraints'', constraints), (''event'', event)] w1
      in (and_then (response_or_raise out) (\<lambda>(st, b).
            if st \<in> {404, 409} then Inr 0 else if st \<noteq> 200 then Inl gateway_error else Inr 1), w2))"

definition listing_params ::
    "string option \<Rightarrow> string option \<Rightarrow> string option \<Rightarrow> int option \<Rightarrow> int option \<Rightarrow> (string, string) dict" where
  "listing_params status poster worker limit offset =
     List.map_filter (\<lambda>(k, v). map_option (Pair k) v)
       [(''status'', status), (''poster_id'', poster), (''worker_id'', worker), (''limit'', map_option int_text limit),
        (''offset'', map_option int_text offset)]"

definition tdb_list_tasks ::
    "string option \<Rightarrow> string option \<Rightarrow> string option \<Rightarrow> int option \<Rightarrow> int option \<Rightarrow> gw_client \<Rightarrow>
     payload list result \<times> gw_client" where
  "tdb_list_tasks status poster worker limit offset w =
     (let (out, w1) = gw_get_from [''board'', ''tasks''] (listing_params status poster worker limit offset) w
      in (and_then (answer_object out) (\<lambda>data. Inr (map normalize_task (objects_in data ''tasks''))), w1))"

definition tdb_count_tasks :: "gw_client \<Rightarrow> int result \<times> gw_client" where
  "tdb_count_tasks = gw_count [''board'', ''tasks'', ''count'']"

definition tdb_count_tasks_by_status :: "gw_client \<Rightarrow> (string \<times> int) list result \<times> gw_client" where
  "tdb_count_tasks_by_status w =
     (let (out, w1) = gw_get_from [''board'', ''tasks'', ''count-by-status''] [] w
      in (and_then (answer_object out) (each (\<lambda>(k, v). and_then (int_of_json v) (\<lambda>n. Inr (k, n)))), w1))"

section \<open>Bids\<close>

definition tdb_insert_bid :: "payload \<Rightarrow> gw_client \<Rightarrow> unit result \<times> gw_client" where
  "tdb_insert_bid bid_data w =
     (case and_then (number_of bid_data ''amount'') (\<lambda>amount.
           and_then (each (\<lambda>k. and_then (subscript bid_data k) (\<lambda>v. Inr (k, v)))
             [''bid_id'', ''task_id'', ''bidder_id'', ''submitted_at'']) (\<lambda>fs. Inr (amount, fs))) of
        Inl e \<Rightarrow> (Inl e, w)
      | Inr (amount, fs) \<Rightarrow>
          let (now, w1) = client_now w;
              event = board_event ''bid.submitted'' (''Bid submitted for task '' @ py_str (jget fs ''task_id''))
                [(''bid_id'', jget fs ''bid_id''), (''amount'', JInt amount)] (py_str (jget fs ''task_id''))
                (Some (py_str (jget fs ''bidder_id''))) now;
              (out, w2) = gw_post_to [''board'', ''bids'']
                [(''bid_id'', jget fs ''bid_id''), (''task_id'', jget fs ''task_id''), (''bidder_id'', jget fs ''bidder_id''),
                 (''proposal'', JStr (py_str (dget_or bid_data ''proposal'' (JInt amount)))), (''amount'', JInt amount),
                 (''submitted_at'', jget fs ''submitted_at''), (''constraints'', JObj [(''status'', JStr ''open'')]),
                 (''event'', event)] w1
          in (and_then (response_or_raise out) (\<lambda>(st, b).
                if st = 409 then Inl (PyError ''DuplicateBidError'')
                else if st \<notin> {200, 201} then Inl gateway_error
                else Inr ()), w2))"

definition bid_of :: "payload \<Rightarrow> payload result" where
  "bid_of data =
     and_then (field_text data ''bid_id'') (\<lambda>k. and_then (field_text data ''task_id'') (\<lambda>tid.
     and_then (field_text data ''bidder_id'') (\<lambda>bidder. and_then (number_of data ''amount'') (\<lambda>amount.
     and_then (field_text data ''submitted_at'') (\<lambda>t.
       Inr [(''bid_id'', JStr k), (''task_id'', JStr tid), (''bidder_id'', JStr bidder), (''amount'', JInt amount),
            (''submitted_at'', JStr t)])))))"

definition tdb_get_bid :: "string \<Rightarrow> string \<Rightarrow> gw_client \<Rightarrow> payload option result \<times> gw_client" where
  "tdb_get_bid bid_id tid w =
     (let (out, w1) = gw_get_from (path_of [''board'', ''bids''] bid_id []) [(''task_id'', tid)] w
      in (and_then (found_object out) (\<lambda>d. case d of None \<Rightarrow> Inr None | Some data \<Rightarrow> and_then (bid_of data) (\<lambda>x. Inr (Some x))), w1))"

definition tdb_get_bids_for_task :: "string \<Rightarrow> gw_client \<Rightarrow> payload list result \<times> gw_client" where
  "tdb_get_bids_for_task tid w =
     (let (out, w1) = gw_get_from (path_of [''board'', ''tasks''] tid [''bids'']) [] w
      in (and_then (answer_object out) (\<lambda>data. each bid_of (objects_in data ''bids'')), w1))"

section \<open>Assets\<close>

definition tdb_insert_asset :: "payload \<Rightarrow> gw_client \<Rightarrow> unit result \<times> gw_client" where
  "tdb_insert_asset asset_data w =
     (case and_then (field_text asset_data ''task_id'') (\<lambda>tid. and_then (field_text asset_data ''asset_id'') (\<lambda>aid.
           and_then (field_text asset_data ''filename'') (\<lambda>filename.
           and_then (each (\<lambda>k. and_then (subscript asset_data k) (\<lambda>v. Inr (k, v)))
             [''uploader_id'', ''content_type'', ''size_bytes'', ''uploaded_at'']) (\<lambda>fs. Inr (tid, aid, filename, fs))))) of
        Inl e \<Rightarrow> (Inl e, w)
      | Inr (tid, aid, filename, fs) \<Rightarrow>
          let (now, w1) = client_now w;
              storage_path = py_str (dget_or asset_data ''storage_path'' (JStr (tid @ ''/'' @ aid @ ''/'' @ filename)));
              event = board_event ''asset.uploaded'' (''Asset uploaded for task '' @ tid @ '': '' @ filename)
                [(''filename'', JStr filename), (''size_bytes'', jget fs ''size_bytes'')] tid
                (Some (py_str (jget fs ''uploader_id''))) now;
              (out, w2) = gw_post_to [''board'', ''assets'']
                [(''asset_id'', JStr aid), (''task_id'', JStr tid), (''uploader_id'', jget fs ''uploader_id''),
                 (''filename'', JStr filename), (''content_type'', jget fs ''content_type''),
                 (''size_bytes'', jget fs ''size_bytes''), (''storage_path'', JStr storage_path),
                 (''content_hash'', jget asset_data ''content_hash''), (''uploaded_at'', jget fs ''uploaded_at''),
                 (''event'', event)] w1
          in (and_then (response_or_raise out) (\<lambda>(st, b). if st \<notin> {200, 201} then Inl gateway_error else Inr ()), w2))"

definition asset_of :: "payload \<Rightarrow> payload result" where
  "asset_of data =
     and_then (field_text data ''asset_id'') (\<lambda>k. and_then (field_text data ''task_id'') (\<lambda>tid.
     and_then (field_text data ''uploader_id'') (\<lambda>up. and_then (field_text data ''filename'') (\<lambda>fn.
     and_then (field_text data ''content_type'') (\<lambda>ct. and_then (number_of data ''size_bytes'') (\<lambda>size_bytes.
     and_then (field_text data ''uploaded_at'') (\<lambda>t.
       Inr [(''asset_id'', JStr k), (''task_id'', JStr tid), (''uploader_id'', JStr up), (''filename'', JStr fn),
            (''content_type'', JStr ct), (''size_bytes'', JInt size_bytes),
            (''content_hash'', JStr (case jget data ''content_hash'' of JNull \<Rightarrow> [] | h \<Rightarrow> py_str h)),
            (''uploaded_at'', JStr t)])))))))"

definition tdb_get_asset :: "string \<Rightarrow> string \<Rightarrow> gw_client \<Rightarrow> payload option result \<times> gw_client" where
  "tdb_get_asset aid tid w =
     (let (out, w1) = gw_get_from (path_of [''board'', ''assets''] aid []) [(''task_id'', tid)] w
      in (and_then (found_object out) (\<lambda>d. case d of None \<Rightarrow> Inr None | Some data \<Rightarrow> and_then (asset_of data) (\<lambda>x. Inr (Some x))), w1))"

definition tdb_get_assets_for_task :: "string \<Rightarrow> gw_client \<Rightarrow> payload list result \<times> gw_client" where
  "tdb_get_assets_for_task tid w =
     (let (out, w1) = gw_get_from (path_of [''board'', ''tasks''] tid [''assets'']) [] w
      in (and_then (answer_object out) (\<lambda>data. each asset_of (objects_in data ''assets'')), w1))"

definition tdb_count_assets :: "string \<Rightarrow> gw_client \<Rightarrow> int result \<times> gw_client" where
  "tdb_count_assets tid = gw_count (path_of [''board'', ''tasks''] tid [''assets'', ''count''])"

end
