(* ===== verification/Gateway_Bids.thy ===== *)
theory Gateway_Bids
  imports Gateway_Props Tasks_Db
begin

text \<open>
  What the gateway does with the number of bids of a task: it is stored as it was sent when the task was created, and
  no request changes it afterwards, a bid's submission included.
\<close>

section \<open>The counts\<close>

definition bid_counts :: "database \<Rightarrow> (cell \<times> cell) list" where
  "bid_counts d = map (\<lambda>r. (r ''task_id'', r ''bid_count'')) (d ''board_tasks'')"

definition starts_uncounted :: "gw_request \<Rightarrow> bool" where
  "starts_uncounted q \<longleftrightarrow> dget_or (body_object q) ''bid_count'' (JInt 0) = JInt 0"

text \<open>One more count of zero, from a new task, or none.\<close>

definition counts_kept :: "database \<Rightarrow> database \<Rightarrow> bool" where
  "counts_kept d d' \<longleftrightarrow> bid_counts d' = bid_counts d \<or> (\<exists>k. bid_counts d' = bid_counts d @ [(k, SInt 0)])"

lemma counts_kept_same_on: "same_on {''board_tasks''} d d' \<Longrightarrow> counts_kept d d'"
  by (simp add: same_on_def counts_kept_def bid_counts_def)

lemma one_more: "map_sum id (apfst Suc) x = Inr (n, rs) \<Longrightarrow> \<exists>m. x = Inr (m, rs)"
  by (cases x) auto

lemma update_rows_map:
  "update_rows check p f seen rs = Inr (n, rs') \<Longrightarrow> (\<And>r. g (f r) = g r) \<Longrightarrow> map g rs' = map g (seen @ rs)"
  by (induction check p f seen rs arbitrary: n rs' rule: update_rows.induct)
    (auto split: if_splits option.splits dest!: one_more)

lemma bind_all_names: "bind_all ps = Inr vals \<Longrightarrow> map fst vals = map fst ps"
  by (induction ps arbitrary: vals) (auto simp: bind_all_Cons)

lemma bind_all_dget:
  "bind_all ps = Inr vals \<Longrightarrow> dget ps c = Some (Inr j) \<Longrightarrow> \<exists>v. bind_param j = Inr v \<and> dget vals c = Some v"
  by (induction ps arbitrary: vals) (auto simp: bind_all_Cons split: if_splits)

lemma set_columns_other: "c \<notin> fst ` set vals \<Longrightarrow> set_columns t vals r c = r c"
  unfolding set_columns_def
  by (induction vals arbitrary: r) (auto simp: set_col_def)

section \<open>The transactions on the board's tasks\<close>

lemma create_task_counts:
  assumes "cn_undo c = None" "dget_or data ''bid_count'' (JInt 0) = JInt 0"
  shows "answered (\<lambda>_. counts_kept (cn_data c)) c (gw_create_task data c)"
proof -
  let ?ps = "map (\<lambda>k. (k, subscript data k)) [''task_id'', ''poster_id'', ''title'', ''spec'', ''reward'', ''status'',
             ''bidding_deadline_seconds'', ''deadline_seconds'', ''review_deadline_seconds'', ''bidding_deadline''] @
           [(''bid_count'', Inr (dget_or data ''bid_count'' (JInt 0))),
            (''escrow_pending'', Inr (dget_or data ''escrow_pending'' (JInt 0))),
            (''escrow_id'', subscript data ''escrow_id''), (''created_at'', subscript data ''created_at'')]"
  have zero: "new_row economy_schema ''board_tasks'' vals ''bid_count'' = SInt 0" if "bind_all ?ps = Inr vals" for vals
    using bind_all_dget [OF that, of "''bid_count''"] assms(2) by (auto simp: new_row_def is_integer_def board_tasks_def fits64_def)
  have plain: "\<forall>(k, r) \<in> set ?ps. plain r" by simp
  have insert: "wp (\<lambda>_. False) d\<^sub>0 (insert_into ''board_tasks'' ?ps) Q d"
    if "\<And>r. r ''bid_count'' = SInt 0 \<Longrightarrow> Q () (d(''board_tasks'' := d ''board_tasks'' @ [r]))" for d\<^sub>0 d and Q :: "unit \<Rightarrow> database \<Rightarrow> bool"
    by (rule wp_insert) (simp, rule plain, rule that, rule zero)
  have counts: "counts_kept d (d(''board_tasks'' := d ''board_tasks'' @ [r], ''events'' := e))" if "r ''bid_count'' = SInt 0" for d r e
    using that by (simp add: counts_kept_def bid_counts_def)
  show ?thesis
    unfolding gw_create_task_def
    by (rule answered_transaction, rule assms(1), simp, (intro wp_intros insert; (rule counts, assumption | simp)))
qed

lemma update_status_counts:
  assumes "cn_undo c = None" "named_or_none cs"
  shows "answered (\<lambda>_. counts_kept (cn_data c)) c (gw_update_task_status tid data cs c)"
proof (cases "and_then (subscript data ''updates'') as_object")
  case (Inl e)
  then show ?thesis by (simp add: gw_update_task_status_def answered_def)
next
  case (Inr updates)
  have counts: "counts_kept d (d(''board_tasks'' := rs, ''events'' := e))"
    if "\<not> list_ex (\<lambda>(col, v). col \<notin> set task_update_columns) updates" "bind_all (map (apsnd Inr) updates) = Inr vals"
      "update_rows check p (set_columns ''board_tasks'' vals) [] (d ''board_tasks'') = Inr (n, rs)" for d rs e vals check p n
  proof -
    have "map fst vals = map fst updates" using bind_all_names [OF that(2)] by simp
    then have "fst ` set vals = fst ` set updates" by (metis set_map)
    moreover have "fst ` set updates \<subseteq> set task_update_columns" using that(1) by (auto simp: list_ex_iff)
    moreover have "''bid_count'' \<notin> set task_update_columns" "''task_id'' \<notin> set task_update_columns"
      by (simp_all add: task_update_columns_def)
    ultimately have "''bid_count'' \<notin> fst ` set vals" "''task_id'' \<notin> fst ` set vals" by auto
    then show ?thesis
      using update_rows_map [OF that(3), of "\<lambda>r. (r ''task_id'', r ''bid_count'')"]
      by (simp add: counts_kept_def bid_counts_def set_columns_other)
  qed
  show ?thesis
    unfolding gw_update_task_status_def Inr sum.case
    by (rule answered_transaction, rule assms(1), simp, (intro wp_intros bind_all_plain; (simp add: assms(2) del: fun_upd_apply)?))
      (auto intro: counts)
qed

section \<open>Requests\<close>

lemma request_counts:
  assumes closed: "cn_undo c = None" and named: "constraints_named q" and zero: "starts_uncounted q"
  shows "served (counts_kept (cn_data c)) c (gateway_http q (Some c))"
proof (rule routes_served [OF closed named])
  have kept: "kept_on {''board_tasks''} c a \<Longrightarrow> answered (\<lambda>_. counts_kept (cn_data c)) c a" for a
    using answered_mono counts_kept_same_on by metis
  fix data cs k
  note bank = bank_kept [OF closed, of "{''board_tasks''}", simplified, THEN kept]
  show "answered (\<lambda>_. counts_kept (cn_data c)) c (gw_register_agent data c)"
    "answered (\<lambda>_. counts_kept (cn_data c)) c (gw_submit_bid data cs c)"
    "answered (\<lambda>_. counts_kept (cn_data c)) c (gw_record_asset data cs c)"
    "answered (\<lambda>_. counts_kept (cn_data c)) c (gw_submit_feedback data c)"
    "answered (\<lambda>_. counts_kept (cn_data c)) c (gw_file_claim data c)"
    "answered (\<lambda>_. counts_kept (cn_data c)) c (gw_submit_rebuttal data cs c)"
    "answered (\<lambda>_. counts_kept (cn_data c)) c (gw_record_ruling data c)"
    "answered (\<lambda>_. counts_kept (cn_data c)) c (gw_create_account data c)"
    "answered (\<lambda>_. counts_kept (cn_data c)) c (gw_credit_account data c)"
    "answered (\<lambda>_. counts_kept (cn_data c)) c (gw_escrow_lock data c)"
    by (rule kept bank, simp add: closed register_agent_answered submit_bid_answered record_asset_answered file_claim_answered
        submit_feedback_answered submit_rebuttal_answered record_ruling_answered; fail | rule bank)+
  show "named_or_none cs \<Longrightarrow> answered (\<lambda>_. counts_kept (cn_data c)) c (gw_update_task_status k data cs c)"
    by (rule update_status_counts [OF closed])
  show "named_or_none cs \<Longrightarrow> answered (\<lambda>_. counts_kept (cn_data c)) c (gw_update_claim_status k data cs c)"
    by (rule kept, rule update_claim_status_answered) (simp_all add: closed)
  assume b: "parse_json_body (gq_body q) = Inr data"
  show "release_checks data = Inr cs \<Longrightarrow> answered (\<lambda>_. counts_kept (cn_data c)) c (gw_escrow_release data cs c)"
    "split_checks data = Inr cs \<Longrightarrow> answered (\<lambda>_. counts_kept (cn_data c)) c (gw_escrow_split data cs c)"
    using bank(4,5) checked_named [OF named b] by blast+
  show "answered (\<lambda>_. counts_kept (cn_data c)) c (gw_create_task data c)"
    by (rule create_task_counts [OF closed]) (use zero b in \<open>simp add: starts_uncounted_def body_object_def\<close>)
next
  fix d assume "same_on (- {''court_rulings''}) (cn_data c) d"
  then show "counts_kept (cn_data c) d" by (intro counts_kept_same_on) (simp add: same_on_def)
qed

definition uncounted :: "database \<Rightarrow> bool" where
  "uncounted d \<longleftrightarrow> (\<forall>r \<in> set (d ''board_tasks''). r ''bid_count'' = SInt 0)"

lemma uncounted_bid_counts: "uncounted d \<longleftrightarrow> snd ` set (bid_counts d) \<subseteq> {SInt 0}"
  by (auto simp: uncounted_def bid_counts_def image_image)

lemma run_uncounted:
  assumes "list_all (\<lambda>q. constraints_named q \<and> starts_uncounted q) qs" "cn_undo c = None" "uncounted (cn_data c)"
  shows "\<exists>c'. gateway_run qs (Some c) = Some c' \<and> cn_undo c' = None \<and> uncounted (cn_data c')"
  using assms
proof (induction qs arbitrary: c)
  case (Cons q qs)
  have "served (counts_kept (cn_data c)) c (gateway_http q (Some c))"
    using Cons.prems by (intro request_counts) simp_all
  then obtain c' where "snd (gateway_http q (Some c)) = Some c'" "cn_undo c' = None" "uncounted (cn_data c')"
    using Cons.prems(2,3) by (auto simp: served_def counts_kept_def uncounted_bid_counts)
  then show ?case using Cons.IH [of c'] Cons.prems(1) by simp
qed simp

section \<open>What the Task Board reads\<close>

lemma read_task_uncounted:
  assumes "uncounted d" "rd_get_task tid d = Some (JObj row)"
  shows "jget row ''bid_count'' = JInt 0"
  using assms
  by (auto simp: rd_get_task_def row_where_def fetchone_def rows_where_def row_json_def board_tasks_def uncounted_def jget_def
      dget_or_def filter_eq_Cons_iff split: list.splits)

lemma failure_outcome_lost [simp]: "response_or_raise (failure_outcome f) \<noteq> Inr x"
  by (cases f) simp_all

definition read_request :: "string \<Rightarrow> gw_request" where
  "read_request tid = \<lparr>gq_method = ''GET'', gq_path = [''board'', ''tasks'', tid], gq_query = [], gq_body = None\<rparr>"

lemma read_request_served:
  "tid \<notin> {[], ''count'', ''count-by-status''} \<Longrightarrow>
   gateway_http (read_request tid) (Some c) = (found ''task_not_found'' (rd_get_task tid (cn_data c)), Some c)"
  by (simp add: read_request_def gateway_http_def gw_item_def get_only_def gw_get_def)

lemma tdb_get_read_request:
  "CHR ''/'' \<notin> set tid \<Longrightarrow>
   tdb_get_task tid w = apfst (\<lambda>out. and_then (found_object out) (\<lambda>d. Inr (map_option normalize_task d))) (gw_call (read_request tid) w)"
  by (simp add: tdb_get_task_def gw_get_from_def path_of_def split_on_none read_request_def split: prod.split)

text \<open>
  C36: After any requests to a new gateway that name their constraints by identifiers and create tasks, if any, with a
  bid count of zero - bids among them, however many - the Task Board reads every task with a bid count of zero, when
  it finds it under its id (one without slashes that is no fixed path of the gateway).
\<close>
theorem bids_never_counted:
  assumes "list_all (\<lambda>q. constraints_named q \<and> starts_uncounted q) qs"
    and "gateway_run qs (Some new_database) = remote (gw_link w)"
    and "CHR ''/'' \<notin> set tid" "tid \<notin> {[], ''count'', ''count-by-status''}"
    and "tdb_get_task tid w = (Inr (Some row), w')"
  shows "jget row ''bid_count'' = JInt 0"
proof -
  obtain c where c: "remote (gw_link w) = Some c" "uncounted (cn_data c)"
    using run_uncounted [OF assms(1), of new_database] assms(2) by (auto simp: new_database_def uncounted_def)
  obtain out w1 where out: "gw_call (read_request tid) w = (out, w1)" by fastforce
  have found: "found_object out = Inr (Some d) \<Longrightarrow> \<exists>j. rd_get_task tid (cn_data c) = Some j \<and> d = json_or_empty (Some j)" for d
    using out c(1) read_request_served [OF assms(4), of c]
    by (cases "fates (gw_link w) (sent (gw_link w))"; cases "rd_get_task tid (cn_data c)")
      (auto simp: gw_call_def http_call_def Let_def found_def found_object_def inr_iffs split: if_splits prod.splits)
  obtain d where d: "found_object out = Inr (Some d)" "row = normalize_task d"
    using assms(5) out by (auto simp: tdb_get_read_request [OF assms(3)] inr_iffs)
  obtain j where j: "rd_get_task tid (cn_data c) = Some j" "d = json_or_empty (Some j)" using found [OF d(1)] by blast
  then obtain r where "j = JObj r" by (auto simp: rd_get_task_def row_where_def row_json_def)
  then show ?thesis
    using j d(2) read_task_uncounted [OF c(2)] by (simp add: json_or_empty_def normalize_task_def task_columns_def jget_def dget_or_def)
qed

section \<open>Witness\<close>

definition task_demo :: gw_request where
  "task_demo = gw_post_request [''board'', ''tasks'']
     [(''task_id'', JStr ''k''), (''poster_id'', JStr ''a''), (''title'', JStr ''t''), (''spec'', JStr ''s''), (''reward'', JInt 30),
      (''status'', JStr ''open''), (''bidding_deadline_seconds'', JInt 9), (''deadline_seconds'', JInt 9),
      (''review_deadline_seconds'', JInt 9), (''bidding_deadline'', JStr ''d''), (''escrow_id'', JStr ''e''), (''created_at'', JStr ''n'')]"

definition bid_demo :: "string \<Rightarrow> gw_request" where
  "bid_demo a = gw_post_request [''board'', ''bids'']
     [(''bid_id'', JStr a), (''task_id'', JStr ''k''), (''bidder_id'', JStr a), (''proposal'', JStr ''p''), (''amount'', JInt 9),
      (''submitted_at'', JStr ''n'')]"

definition bidding_requests :: "gw_request list" where
  "bidding_requests = [register_demo ''a'', account_demo ''a'' 100, lock_demo ''e'' ''a'' 30, task_demo, bid_demo ''a'']"

definition bidding_client :: gw_client where
  "bidding_client = \<lparr>clock = (\<lambda>_. 0), ticks = 0, uuid_src = (\<lambda>_. []), uuids = 0,
     gw_link = \<lparr>fates = (\<lambda>_. Delivered), sent = 0, remote = gateway_run bidding_requests (Some new_database)\<rparr>\<rparr>"

definition bids_and_task :: "conn option \<Rightarrow> nat \<times> json option" where
  "bids_and_task st = (case st of None \<Rightarrow> (0, None) | Some c \<Rightarrow> (length (cn_data c ''board_bids''), rd_get_task ''k'' (cn_data c)))"

lemma bidding_run: "(case bids_and_task (gateway_run bidding_requests (Some new_database)) of (n, r) \<Rightarrow> n = 1 \<and> r \<noteq> None)"
  by code_simp

theorem bids_never_counted_witness:
  "\<exists>row w'. tdb_get_task ''k'' bidding_client = (Inr (Some row), w') \<and> jget row ''bid_count'' = JInt 0 \<and>
    fst (bids_and_task (remote (gw_link bidding_client))) = 1"
proof -
  have start: "gateway_run bidding_requests (Some new_database) = remote (gw_link bidding_client)" by (simp add: bidding_client_def)
  with bidding_run obtain c j where c: "remote (gw_link bidding_client) = Some c" "rd_get_task ''k'' (cn_data c) = Some j"
      "fst (bids_and_task (remote (gw_link bidding_client))) = 1"
    by (auto simp: bids_and_task_def split: option.splits)
  have "\<exists>w'. tdb_get_task ''k'' bidding_client = (Inr (Some (normalize_task (json_or_empty (Some j)))), w')"
    using c(1,2) by (simp add: tdb_get_read_request gw_call_def http_call_def read_request_served found_def found_object_def Let_def)
      (simp add: bidding_client_def read_request_served found_def)
  then obtain row w' where t: "tdb_get_task ''k'' bidding_client = (Inr (Some row), w')" by blast
  have clean: "list_all (\<lambda>q. constraints_named q \<and> starts_uncounted q) bidding_requests" by code_simp
  show ?thesis using bids_never_counted [OF clean start _ _ t] t c(3) by auto
qed

end
