(* ===== verification/Disputes_Db.thy ===== *)
theory Disputes_Db
  imports Db_Client
begin

text \<open>
  The Court's storage in production, \<^verbatim>\<open>services/dispute_db_client.py\<close>: a dispute is put together from the
  gateway's claim, rebuttal, ruling and task. \<^verbatim>\<open>json.loads\<close> of the stored votes is the parameter \<open>loads\<close>.
\<close>

section \<open>Reading\<close>

definition court_get :: "string list \<Rightarrow> gw_client \<Rightarrow> payload option result \<times> gw_client" where
  "court_get path w = (let (out, w1) = gw_get_from path [] w in (found_object out, w1))"

definition ddb_get_claim :: "string \<Rightarrow> gw_client \<Rightarrow> payload option result \<times> gw_client" where
  "ddb_get_claim k = court_get (path_of [''court'', ''claims''] k [])"

definition ddb_get_rebuttal :: "string \<Rightarrow> gw_client \<Rightarrow> payload option result \<times> gw_client" where
  "ddb_get_rebuttal k = court_get (path_of [''court'', ''claims''] k [''rebuttal''])"

definition ddb_get_ruling :: "string \<Rightarrow> gw_client \<Rightarrow> payload option result \<times> gw_client" where
  "ddb_get_ruling k = court_get (path_of [''court'', ''rulings''] k [])"

definition ddb_get_escrow_id :: "string \<Rightarrow> gw_client \<Rightarrow> string result \<times> gw_client" where
  "ddb_get_escrow_id tid w =
     (let (out, w1) = gw_get_from (path_of [''board'', ''tasks''] tid []) [] w
      in (and_then (response_or_raise out) (\<lambda>(st, b).
            Inr (if st \<noteq> 200 then [] else py_str (dget_or (json_or_empty b) ''escrow_id'' (JStr [])))), w1))"

text \<open>\<^verbatim>\<open>isinstance(x, int)\<close> holds of booleans too; the default of \<^verbatim>\<open>voted_at\<close> is computed for every vote.\<close>

definition pct_or_half :: "json \<Rightarrow> int" where
  "pct_or_half j = (case j of JInt n \<Rightarrow> n | JBool b \<Rightarrow> if b then 1 else 0 | _ \<Rightarrow> 50)"

fun vote_dicts :: "string \<Rightarrow> nat \<Rightarrow> json list \<Rightarrow> gw_client \<Rightarrow> json list \<times> gw_client" where
  "vote_dicts k i [] w = ([], w)"
| "vote_dicts k i (j # js) w =
     (case j of
        JObj vote \<Rightarrow>
          let (now, w1) = client_now w;
              v = JObj [(''vote_id'', JStr (''vote-'' @ k @ ''-'' @ nat_text i)), (''dispute_id'', JStr k),
                    (''judge_id'', JStr (py_str (dget_or vote ''judge_id'' (JStr [])))),
                    (''worker_pct'', JInt (pct_or_half (jget vote ''worker_pct''))),
                    (''reasoning'', JStr (py_str (dget_or vote ''reasoning'' (JStr [])))),
                    (''voted_at'', JStr (py_str (dget_or vote ''voted_at'' (JStr now))))];
              (vs, w2) = vote_dicts k (Suc i) js w1
          in (v # vs, w2)
      | _ \<Rightarrow> vote_dicts k (Suc i) js w)"

definition parse_votes :: "(string \<Rightarrow> json option) \<Rightarrow> string \<Rightarrow> json \<Rightarrow> gw_client \<Rightarrow> json list \<times> gw_client" where
  "parse_votes loads k raw w =
     (case (case raw of JStr s \<Rightarrow> loads s | j \<Rightarrow> Some j) of
        Some (JList js) \<Rightarrow> vote_dicts k 0 js w
      | _ \<Rightarrow> ([], w))"

definition optional_text :: "payload option \<Rightarrow> string \<Rightarrow> json result" where
  "optional_text d k = (case d of None \<Rightarrow> Inr JNull | Some data \<Rightarrow> and_then (field_text data k) (\<lambda>s. Inr (JStr s)))"

definition optional_number :: "payload option \<Rightarrow> string \<Rightarrow> json result" where
  "optional_number d k = (case d of None \<Rightarrow> Inr JNull | Some data \<Rightarrow> and_then (number_of data k) (\<lambda>n. Inr (JInt n)))"

text \<open>The fields in the order they are read, before and after the request for the task.\<close>

definition compose_dispute ::
    "(string \<Rightarrow> json option) \<Rightarrow> string \<Rightarrow> payload \<Rightarrow> payload option \<Rightarrow> payload option \<Rightarrow> gw_client \<Rightarrow>
     payload result \<times> gw_client" where
  "compose_dispute loads k claim rebuttal ruling w =
     (let (votes, w1) = parse_votes loads k (case ruling of None \<Rightarrow> JList [] | Some r \<Rightarrow> jget r ''judge_votes'') w
      in chain (and_then (each (field_text claim) [''task_id'', ''claimant_id'', ''respondent_id'', ''reason'']) (\<lambda>fs.
                and_then (optional_text rebuttal ''content'') (\<lambda>content.
                and_then (field_text claim ''status'') (\<lambda>status.
                and_then (optional_number ruling ''worker_pct'') (\<lambda>pct.
                and_then (optional_text ruling ''summary'') (\<lambda>summary. Inr (fs, content, status, pct, summary)))))), w1)
           (\<lambda>(fs, content, status, pct, summary) w1.
         chain (ddb_get_escrow_id (fs ! 0) w1) (\<lambda>eid w2.
           (and_then (field_text claim ''filed_at'') (\<lambda>filed.
            and_then (optional_text rebuttal ''submitted_at'') (\<lambda>rebutted.
            and_then (optional_text ruling ''ruled_at'') (\<lambda>ruled.
              Inr [(''dispute_id'', JStr k), (''task_id'', JStr (fs ! 0)), (''claimant_id'', JStr (fs ! 1)),
                   (''respondent_id'', JStr (fs ! 2)), (''claim'', JStr (fs ! 3)), (''rebuttal'', content),
                   (''status'', JStr status),
                   (''rebuttal_deadline'', JStr (py_str (dget_or claim ''rebuttal_deadline'' (JStr [])))),
                   (''worker_pct'', pct), (''ruling_summary'', summary), (''escrow_id'', JStr eid),
                   (''filed_at'', JStr filed), (''rebutted_at'', rebutted), (''ruled_at'', ruled),
                   (''votes'', JList votes)]))), w2))))"

definition ddb_get_dispute :: "(string \<Rightarrow> json option) \<Rightarrow> string \<Rightarrow> gw_client \<Rightarrow> payload option result \<times> gw_client" where
  "ddb_get_dispute loads k w =
     chain (ddb_get_claim k w) (\<lambda>claim w1.
       case claim of
         None \<Rightarrow> (Inr None, w1)
       | Some c \<Rightarrow>
           chain (ddb_get_rebuttal k w1) (\<lambda>rebuttal w2.
           chain (ddb_get_ruling k w2) (\<lambda>ruling w3.
             apfst (map_sum id Some) (compose_dispute loads k c rebuttal ruling w3))))"

definition ddb_get_dispute_row :: "(string \<Rightarrow> json option) \<Rightarrow> string \<Rightarrow> gw_client \<Rightarrow> payload option result \<times> gw_client" where
  "ddb_get_dispute_row = ddb_get_dispute"

definition ddb_get_votes :: "(string \<Rightarrow> json option) \<Rightarrow> string \<Rightarrow> gw_client \<Rightarrow> json list result \<times> gw_client" where
  "ddb_get_votes loads k w =
     chain (ddb_get_ruling k w) (\<lambda>ruling w1.
       case ruling of
         None \<Rightarrow> (Inr [], w1)
       | Some r \<Rightarrow> apfst Inr (parse_votes loads k (jget r ''judge_votes'') w1))"

section \<open>Writing\<close>

definition court_event :: "string \<Rightarrow> string \<Rightarrow> (string \<times> json) list \<Rightarrow> string \<Rightarrow> payload \<Rightarrow> json" where
  "court_event = event_body ''court''"

text \<open>The interface's rebuttal deadline is a text here.\<close>

definition ddb_insert_dispute ::
    "(string \<Rightarrow> json option) \<Rightarrow> string \<Rightarrow> string \<Rightarrow> string \<Rightarrow> string \<Rightarrow> string \<Rightarrow> string \<Rightarrow> gw_client \<Rightarrow>
     payload result \<times> gw_client" where
  "ddb_insert_dispute loads tid claimant respondent claim eid rebuttal_deadline w =
     (let (k, w1) = client_id ''disp-'' w;
          (filed_at, w2) = client_now w1;
          (out, w3) = gw_post_to [''court'', ''claims'']
            [(''claim_id'', JStr k), (''task_id'', JStr tid), (''claimant_id'', JStr claimant),
             (''respondent_id'', JStr respondent), (''reason'', JStr claim), (''status'', JStr ''rebuttal_pending''),
             (''rebuttal_deadline'', JStr rebuttal_deadline), (''filed_at'', JStr filed_at),
             (''event'', court_event ''claim.filed'' filed_at [(''task_id'', JStr tid), (''agent_id'', JStr claimant)]
                (''Claim filed for task '' @ tid) [(''claim_id'', JStr k), (''escrow_id'', JStr eid)])] w2
      in chain (and_then (response_or_raise out) (\<lambda>(st, b).
                  if st = 409 then Inl (PyError ''DuplicateDisputeError'')
                  else if st \<notin> {200, 201} then Inl gateway_error
                  else Inr ()), w3) (\<lambda>_ w3.
         chain (ddb_get_dispute loads k w3) (\<lambda>created w4.
           (case created of None \<Rightarrow> Inl gateway_error | Some d \<Rightarrow> Inr d, w4))))"

definition ddb_update_rebuttal :: "string \<Rightarrow> string \<Rightarrow> gw_client \<Rightarrow> unit result \<times> gw_client" where
  "ddb_update_rebuttal k rebuttal w =
     chain (ddb_get_claim k w) (\<lambda>claim w1.
       case claim of
         None \<Rightarrow> (Inr (), w1)
       | Some c \<Rightarrow>
           let (submitted_at, w2) = client_now w1; (rid, w3) = client_id ''reb-'' w2
           in chain (field_text c ''respondent_id'', w3) (\<lambda>respondent w3.
                let (out, w4) = gw_post_to [''court'', ''rebuttals'']
                      [(''rebuttal_id'', JStr rid), (''claim_id'', JStr k), (''agent_id'', JStr respondent),
                       (''content'', JStr rebuttal), (''submitted_at'', JStr submitted_at),
                       (''event'', court_event ''rebuttal.submitted'' submitted_at [(''agent_id'', JStr respondent)]
                          (''Rebuttal submitted for claim '' @ k) [(''claim_id'', JStr k)])] w3
                in (and_then (response_or_raise out) (\<lambda>(st, b). if st \<notin> {200, 201} then Inl gateway_error else Inr ()), w4)))"

definition ddb_set_status :: "string \<Rightarrow> string \<Rightarrow> gw_client \<Rightarrow> unit result \<times> gw_client" where
  "ddb_set_status k status w =
     (let (out, w1) = gw_post_to (path_of [''court'', ''claims''] k [''status'']) [(''status'', JStr status)] w
      in (and_then (response_or_raise out) (\<lambda>(st, b). if st \<notin> {404, 200} then Inl gateway_error else Inr ()), w1))"

definition ddb_delete_ruling :: "string \<Rightarrow> gw_client \<Rightarrow> unit result \<times> gw_client" where
  "ddb_delete_ruling k w =
     (let (out, w1) = gw_call \<lparr>gq_method = ''DELETE'', gq_path = path_of [''court'', ''rulings''] k [], gq_query = [],
            gq_body = None\<rparr> w
      in (and_then (response_or_raise out) (\<lambda>(st, b). if st \<notin> {200, 404} then Inl gateway_error else Inr ()), w1))"

definition ddb_revert_to_rebuttal_pending :: "string \<Rightarrow> gw_client \<Rightarrow> unit result \<times> gw_client" where
  "ddb_revert_to_rebuttal_pending k w = chain (ddb_set_status k ''rebuttal_pending'' w) (\<lambda>_. ddb_delete_ruling k)"

definition ddb_persist_ruling ::
    "(string \<Rightarrow> json option) \<Rightarrow> string \<Rightarrow> int \<Rightarrow> string \<Rightarrow> json list \<Rightarrow> gw_client \<Rightarrow> unit result \<times> gw_client" where
  "ddb_persist_ruling loads k worker_pct ruling_summary votes w =
     chain (ddb_get_dispute loads k w) (\<lambda>found w1.
       case found of
         None \<Rightarrow> (Inr (), w1)
       | Some dispute \<Rightarrow>
           let (ruled_at, w2) = client_now w1; tid = jget dispute ''task_id'';
               (out, w3) = gw_post_to [''court'', ''rulings'']
                 [(''ruling_id'', JStr k), (''claim_id'', JStr k), (''task_id'', tid), (''worker_pct'', JInt worker_pct),
                  (''summary'', JStr ruling_summary), (''judge_votes'', JStr (json_dumps (JList votes))),
                  (''ruled_at'', JStr ruled_at), (''claim_status_update'', JStr ''ruled''),
                  (''event'', court_event ''ruling.delivered'' ruled_at [(''task_id'', tid)]
                     (''Ruling delivered for claim '' @ k) [(''claim_id'', JStr k), (''worker_pct'', JInt worker_pct)])] w2
           in (and_then (response_or_raise out) (\<lambda>(st, b). if st \<notin> {200, 201} then Inl gateway_error else Inr ()), w3))"

section \<open>Listing\<close>

text \<open>Only ruled claims of the task asked for need their ruling.\<close>

definition summarize_claim :: "payload \<Rightarrow> gw_client \<Rightarrow> json result \<times> gw_client" where
  "summarize_claim claim w =
     (let text = (\<lambda>k. py_str (dget_or claim k (JStr []))); k = text ''claim_id''
      in chain (if text ''status'' = ''ruled'' then ddb_get_ruling k w else (Inr None, w)) (\<lambda>ruling w1.
           (and_then (optional_number ruling ''worker_pct'') (\<lambda>pct.
            and_then (optional_text ruling ''ruled_at'') (\<lambda>ruled.
              Inr (JObj [(''dispute_id'', JStr k), (''task_id'', JStr (text ''task_id'')),
                (''claimant_id'', JStr (text ''claimant_id'')), (''respondent_id'', JStr (text ''respondent_id'')),
                (''status'', JStr (text ''status'')), (''worker_pct'', pct), (''filed_at'', JStr (text ''filed_at'')),
                (''ruled_at'', ruled)]))), w1)))"

fun summarize_claims :: "string option \<Rightarrow> payload list \<Rightarrow> gw_client \<Rightarrow> json list result \<times> gw_client" where
  "summarize_claims tid [] w = (Inr [], w)"
| "summarize_claims tid (claim # claims) w =
     (if tid \<noteq> None \<and> tid \<noteq> Some (py_str (dget_or claim ''task_id'' (JStr []))) then summarize_claims tid claims w
      else chain (summarize_claim claim w) (\<lambda>s w1. chain (summarize_claims tid claims w1) (\<lambda>ss w2. (Inr (s # ss), w2))))"

definition ddb_list_disputes :: "string option \<Rightarrow> string option \<Rightarrow> gw_client \<Rightarrow> json list result \<times> gw_client" where
  "ddb_list_disputes tid status w =
     (let (out, w1) = gw_get_from [''court'', ''claims''] (case status of None \<Rightarrow> [] | Some s \<Rightarrow> [(''status'', s)]) w
      in chain (answer_object out, w1) (\<lambda>data. summarize_claims tid (objects_in data ''claims'')))"

definition ddb_count_disputes :: "gw_client \<Rightarrow> int result \<times> gw_client" where
  "ddb_count_disputes = gw_count [''court'', ''claims'', ''count'']"

definition ddb_count_active :: "gw_client \<Rightarrow> int result \<times> gw_client" where
  "ddb_count_active = gw_count [''court'', ''claims'', ''count-active'']"

end
