(* ===== verification/Feedback_Db.thy ===== *)
theory Feedback_Db
  imports Db_Client
begin

text \<open>
  The Reputation service's storage in production, \<^verbatim>\<open>services/feedback_db_client.py\<close>. Records are the dictionaries
  of their fields, with times as the texts that are stored. A submission reads the task's feedback and writes in two
  requests, between which others may come in.
\<close>

section \<open>Reading\<close>

definition role_for_category :: "string \<Rightarrow> string" where
  "role_for_category category = (if category = ''spec_quality'' then ''worker'' else ''poster'')"

definition feedback_of :: "payload \<Rightarrow> payload result" where
  "feedback_of data =
     and_then (each (\<lambda>k. and_then (field_text data k) (\<lambda>s. Inr (k, JStr s)))
       [''feedback_id'', ''task_id'', ''from_agent_id'', ''to_agent_id'', ''category'', ''rating'']) (\<lambda>texts.
     and_then (field_text data ''submitted_at'') (\<lambda>t.
     and_then (subscript data ''visible'') (\<lambda>v.
       Inr (texts @ [(''comment'', case jget data ''comment'' of JNull \<Rightarrow> JNull | j \<Rightarrow> JStr (py_str j)),
              (''submitted_at'', JStr t), (''visible'', JBool (truthy v))]))))"

definition fdb_listed :: "(string, string) dict \<Rightarrow> gw_client \<Rightarrow> payload list result \<times> gw_client" where
  "fdb_listed query w =
     (let (out, w1) = gw_get_from [''reputation'', ''feedback''] query w
      in (and_then (answer_object out) (\<lambda>data. each feedback_of (objects_in data ''feedback'')), w1))"

definition fdb_get_by_task :: "string \<Rightarrow> gw_client \<Rightarrow> payload list result \<times> gw_client" where
  "fdb_get_by_task tid = fdb_listed [(''task_id'', tid)]"

definition fdb_get_by_agent :: "string \<Rightarrow> gw_client \<Rightarrow> payload list result \<times> gw_client" where
  "fdb_get_by_agent aid = fdb_listed [(''agent_id'', aid)]"

definition fdb_get_by_id :: "string \<Rightarrow> gw_client \<Rightarrow> payload option result \<times> gw_client" where
  "fdb_get_by_id k w =
     (let (out, w1) = gw_get_from (path_of [''reputation'', ''feedback''] k []) [] w
      in (and_then (found_object out) (\<lambda>d. case d of None \<Rightarrow> Inr None | Some data \<Rightarrow> and_then (feedback_of data) (\<lambda>x. Inr (Some x))), w1))"

definition fdb_count :: "gw_client \<Rightarrow> int result \<times> gw_client" where
  "fdb_count = gw_count [''reputation'', ''feedback'', ''count'']"

section \<open>Writing\<close>

definition find_reverse :: "string \<Rightarrow> string \<Rightarrow> string \<Rightarrow> gw_client \<Rightarrow> string option result \<times> gw_client" where
  "find_reverse tid frm to w =
     chain (fdb_get_by_task tid w) (\<lambda>existing w1.
       (Inr (map_option (\<lambda>r. py_str (jget r ''feedback_id''))
          (find (\<lambda>r. jget r ''from_agent_id'' = JStr to \<and> jget r ''to_agent_id'' = JStr frm) existing)), w1))"

definition feedback_body ::
    "string \<Rightarrow> string \<Rightarrow> string \<Rightarrow> string \<Rightarrow> string \<Rightarrow> string \<Rightarrow> string option \<Rightarrow> string \<Rightarrow> bool \<Rightarrow> string option \<Rightarrow> payload" where
  "feedback_body k tid frm to category rating comment now reveal_reverse reverse_id =
     [(''feedback_id'', JStr k), (''task_id'', JStr tid), (''from_agent_id'', JStr frm), (''to_agent_id'', JStr to),
      (''role'', JStr (role_for_category category)), (''category'', JStr category), (''rating'', JStr rating),
      (''comment'', opt_str comment), (''submitted_at'', JStr now), (''reveal_reverse'', JBool reveal_reverse),
      (''reverse_feedback_id'', opt_str reverse_id),
      (''event'', event_body ''reputation'' ''feedback.submitted'' now [(''task_id'', JStr tid), (''agent_id'', JStr frm)]
         (''Feedback submitted by '' @ frm @ '' for '' @ to)
         [(''from_agent_id'', JStr frm), (''to_agent_id'', JStr to), (''category'', JStr category), (''rating'', JStr rating)])]"

text \<open>\<^verbatim>\<open>isoformat()\<close> leaves out microseconds that are zero.\<close>

definition iso_default :: "int \<Rightarrow> string" where
  "iso_default t =
     iso_time (t div 1000000) @ (if t mod 1000000 = 0 then [] else ''.'' @ pad 6 (t mod 1000000)) @ ''+00:00''"

text \<open>A conflict of any kind is a duplicate.\<close>

definition fdb_insert ::
    "string \<Rightarrow> string \<Rightarrow> string \<Rightarrow> string \<Rightarrow> string \<Rightarrow> string option \<Rightarrow> bool \<Rightarrow> gw_client \<Rightarrow> payload result \<times> gw_client" where
  "fdb_insert tid frm to category rating comment force_visible w =
     (let (k, w1) = client_id ''fb-'' w; (t, w2) = read_clock w1; now = iso_default t
      in chain (find_reverse tid frm to w2) (\<lambda>reverse_id w3.
           let reveal_reverse = (force_visible \<or> reverse_id \<noteq> None);
               (out, w4) = gw_post_to [''reputation'', ''feedback'']
                 (feedback_body k tid frm to category rating comment now reveal_reverse reverse_id) w3
           in (and_then (response_or_raise out) (\<lambda>(st, b).
                 if st = 409 then Inl (PyError ''DuplicateFeedbackError'')
                 else if st \<notin> {200, 201} then Inl gateway_error
                 else Inr [(''feedback_id'', JStr k), (''task_id'', JStr tid), (''from_agent_id'', JStr frm),
                        (''to_agent_id'', JStr to), (''category'', JStr category), (''rating'', JStr rating),
                        (''comment'', opt_str comment), (''submitted_at'', JStr now), (''visible'', JBool reveal_reverse)]), w4)))"

end
