(* ===== verification/Worker.thy ===== *)
theory Worker
  imports Court_Board Gateway_Writer
begin

text \<open>
  The math worker, \<^verbatim>\<open>math_worker/loop.py\<close>, \<^verbatim>\<open>parser.py\<close>, \<^verbatim>\<open>prompts.py\<close> and \<^verbatim>\<open>history.py\<close>: it looks for a
  task, bids, solves, submits and waits for the review, asking a language model where it decides. The model and
  sleeping, during which others act, are parameters.
\<close>

section \<open>Parsing the answers of the model\<close>

definition py_upper :: "string \<Rightarrow> string" where
  "py_upper = map (\<lambda>c. if CHR ''a'' \<le> c \<and> c \<le> CHR ''z'' then char_of (of_char c - 32 :: nat) else c)"

fun substring :: "string \<Rightarrow> string \<Rightarrow> bool" where
  "substring p [] = (p = [])"
| "substring p (c # cs) = (take (length p) (c # cs) = p \<or> substring p cs)"

text \<open>The first of the offered ids that occurs in the answer.\<close>

fun first_mentioned :: "string \<Rightarrow> json list \<Rightarrow> string option result" where
  "first_mentioned answer [] = Inr None"
| "first_mentioned answer (j # js) =
     (case as_str j of
        None \<Rightarrow> Inl (PyError ''TypeError'')
      | Some tid \<Rightarrow> if substring tid answer then Inr (Some tid) else first_mentioned answer js)"

definition parse_task_selection :: "string \<Rightarrow> json list \<Rightarrow> string option result" where
  "parse_task_selection response valid_task_ids =
     (let answer = strip response in if py_upper answer = ''NONE'' then Inr None else first_mentioned answer valid_task_ids)"

text \<open>Word characters of \<^verbatim>\<open>re\<close>: letters, digits, numerals and the underscore.\<close>

definition word_char :: "char \<Rightarrow> bool" where
  "word_char c \<longleftrightarrow>
     (let n = of_char c :: nat
      in digit c \<or> 65 \<le> n \<and> n \<le> 90 \<or> 97 \<le> n \<and> n \<le> 122 \<or> n = 95 \<or> n \<in> {170, 178, 179, 181, 185, 186, 188, 189, 190} \<or>
         192 \<le> n \<and> n \<noteq> 215 \<and> n \<noteq> 247)"

text \<open>\<^verbatim>\<open>\\b(\\d+)\\b\<close>: digits between two characters that are no word characters.\<close>

fun find_number :: "bool \<Rightarrow> string \<Rightarrow> string option" where
  "find_number in_word [] = None"
| "find_number in_word (c # cs) =
     (let ds = takeWhile digit (c # cs); rest = dropWhile digit (c # cs)
      in if \<not> in_word \<and> ds \<noteq> [] \<and> (rest = [] \<or> \<not> word_char (hd rest)) then Some ds
         else find_number (word_char c) cs)"

definition parse_bid_amount :: "string \<Rightarrow> int \<Rightarrow> int option result" where
  "parse_bid_amount response max_reward =
     (case find_number False (strip response) of
        None \<Rightarrow> Inr None
      | Some ds \<Rightarrow>
          (case py_int ds of
             None \<Rightarrow> Inl (PyError ''ValueError'')
           | Some amount \<Rightarrow> Inr (if amount < 1 \<or> max_reward < amount then None else Some amount)))"

text \<open>\<^verbatim>\<open>splitlines\<close>: a carriage return and its line feed are one end of line.\<close>

definition line_end :: "char \<Rightarrow> bool" where
  "line_end c \<longleftrightarrow> (let n = of_char c :: nat in 10 \<le> n \<and> n \<le> 13 \<or> 28 \<le> n \<and> n \<le> 30 \<or> n = 133)"

fun splitlines :: "string \<Rightarrow> string list" where
  "splitlines [] = []"
| "splitlines (c # cs) =
     (if c = CHR 0x0D \<and> cs \<noteq> [] \<and> hd cs = CHR 0x0A then [] # splitlines (tl cs)
      else if line_end c then [] # splitlines cs
      else (case splitlines cs of [] \<Rightarrow> [[c]] | l # ls \<Rightarrow> (c # l) # ls))"


text \<open>\<^verbatim>\<open>(?i)^ANSWER:\\s*(.+)$\<close>\<close>

definition marked_answer :: "string \<Rightarrow> string option" where
  "marked_answer line = (if py_upper (take 7 line) = ''ANSWER:'' \<and> drop 7 line \<noteq> [] then Some (strip (drop 7 line)) else None)"

definition parse_solution :: "string \<Rightarrow> string option" where
  "parse_solution response =
     (let lines = map strip (rev (splitlines (strip response)))
      in case List.map_filter marked_answer lines of
           answer # _ \<Rightarrow> Some answer
         | [] \<Rightarrow> find (\<lambda>l. l \<noteq> []) lines)"

section \<open>Prompts\<close>

abbreviation nl :: char where
  "nl \<equiv> CHR 0x0A"

definition task_selection_system :: string where
  "task_selection_system = join [nl]
     [''You are a math worker agent in a task economy.  You earn money by solving'',
      ''math problems posted on a task board.'',
      [],
      ''You will be shown a list of open tasks.  Each task has a title, a reward,'',
      ''and a specification describing the math problem.'',
      [],
      ''Your job: pick the ONE task you are most confident you can solve correctly.'',
      ''Consider the reward, the difficulty of the problem, and your ability to'',
      ''produce the exact answer format requested.'',
      [],
      ''Respond with ONLY the task_id of your chosen task.  Nothing else.'',
      ''If none of the tasks are solvable, respond with NONE.'']"

definition bid_amount_system :: string where
  "bid_amount_system = join [nl]
     [''You are a math worker agent deciding how much to bid on a task.'',
      [],
      ''You will be shown:'',
      ''- The task specification (the math problem)'',
      ''- The reward offered by the poster'',
      ''- Your current account balance'',
      [],
      ''Your bid amount must be between 1 and the task reward (inclusive).'',
      ''A lower bid makes you more competitive but earns less.'',
      ''A higher bid earns more but may lose to cheaper competitors.'',
      [],
      ''Respond with ONLY a single integer: your bid amount.  Nothing else.'']"

definition solve_problem_system :: string where
  "solve_problem_system = join [nl]
     [''You are a math solver.  You will be given a math problem specification.'',
      [],
      ''Read the specification carefully.  It tells you:'',
      ''- What to calculate'',
      ''- What output format to use'',
      ''- How to verify your answer'',
      [],
      ''Solve the problem step by step, then give your final answer on the'',
      ''last line in EXACTLY the format requested by the specification.'',
      [],
      ''Your final line must start with '' @ [CHR 0x22] @ ''ANSWER: '' @ [CHR 0x22] @ '' followed by your answer.'',
      ''Example: ANSWER: 42'',
      ''Example: ANSWER: x=5, y=3'',
      ''Example: ANSWER: yes'']"

definition dispute_rebuttal_system :: string where
  "dispute_rebuttal_system = join [nl]
     [''You are a math worker agent defending your submitted solution in a dispute.'',
      [],
      ''You will be shown:'',
      ''- The original task specification'',
      ''- Your submitted solution'',
      ''- The reason the poster rejected your work'',
      [],
      ''Write a clear, factual rebuttal explaining why your solution is correct,'',
      ''or acknowledge the error if you made one.  Reference the specification'',
      ''requirements directly.  Be concise and precise.'']"

text \<open>The texts of fields; what a task lacks has a default.\<close>

definition shown :: "payload \<Rightarrow> string \<Rightarrow> string \<Rightarrow> string" where
  "shown task k missing = py_str (dget_or task k (JStr missing))"

definition build_task_selection_prompt :: "payload list \<Rightarrow> int \<Rightarrow> string" where
  "build_task_selection_prompt tasks funds =
     join [nl] ([''Your current balance: '' @ int_text funds @ '' credits.'', [], ''Open tasks:'', []] @
       concat (map (\<lambda>t. [''--- task_id: '' @ shown t ''task_id'' ''unknown'' @ '' ---'', ''Title: '' @ shown t ''title'' ''untitled'',
          ''Reward: '' @ shown t ''reward'' ''0'', ''Spec: '' @ shown t ''spec'' ''no spec'', []]) tasks))"

definition build_bid_amount_prompt :: "payload \<Rightarrow> int \<Rightarrow> string" where
  "build_bid_amount_prompt task funds =
     join [nl] [''Task: '' @ shown task ''title'' ''untitled'', ''Reward: '' @ shown task ''reward'' ''0'',
       ''Your balance: '' @ int_text funds, [], ''Specification:'', shown task ''spec'' ''no spec'']"

definition build_solve_prompt :: "payload \<Rightarrow> string" where
  "build_solve_prompt task =
     join [nl] [''Problem: '' @ shown task ''title'' ''untitled'', [], shown task ''spec'' ''no spec'']"

definition build_rebuttal_prompt :: "payload \<Rightarrow> string \<Rightarrow> json \<Rightarrow> string" where
  "build_rebuttal_prompt task solution reason =
     join [nl] [''Task: '' @ shown task ''title'' ''untitled'', [], ''Specification:'', shown task ''spec'' ''no spec'', [],
       ''Your submitted solution:'', solution, [], ''Rejection reason:'', py_str reason]"

section \<open>History\<close>

datatype task_outcome = OutApproved | OutDisputedWon | OutDisputedLost | OutBidRejected | OutBidTimeout | OutError

text \<open>The times of an entry are left out; numbers are what the answers gave.\<close>

record task_record =
  tr_task_id :: string
  tr_title :: json
  tr_reward :: json
  tr_bid_amount :: json
  tr_outcome :: task_outcome
  tr_solution :: "string option"
  tr_payout :: json

fun total_earnings :: "task_record list \<Rightarrow> int result" where
  "total_earnings [] = Inr 0"
| "total_earnings (r # rs) =
     (case as_int (tr_payout r) of
        None \<Rightarrow> Inl (PyError ''TypeError'')
      | Some n \<Rightarrow> and_then (total_earnings rs) (\<lambda>m. Inr (n + m)))"

definition tasks_completed :: "task_record list \<Rightarrow> nat" where
  "tasks_completed = length"

definition tasks_approved :: "task_record list \<Rightarrow> nat" where
  "tasks_approved rs = length (filter (\<lambda>r. tr_outcome r = OutApproved) rs)"

definition tasks_disputed :: "task_record list \<Rightarrow> nat" where
  "tasks_disputed rs = length (filter (\<lambda>r. tr_outcome r \<in> {OutDisputedWon, OutDisputedLost}) rs)"

text \<open>The entry is kept; the earnings are summed for the log.\<close>

definition add_record :: "task_record \<Rightarrow> task_record list \<Rightarrow> unit result \<times> task_record list" where
  "add_record r rs = (and_then (total_earnings (rs @ [r])) (\<lambda>_. Inr ()), rs @ [r])"


section \<open>Phases\<close>

record worker_config =
  wc_scan_interval :: int
  wc_poll_interval :: int
  wc_max_poll_attempts :: int
  wc_error_backoff :: int
  wc_min_reward :: int
  wc_max_reward :: int

record 'w worker =
  wk_agent :: "'w agent"
  wk_complete :: "string \<Rightarrow> string \<Rightarrow> 'w \<Rightarrow> string result \<times> 'w"
  wk_sleep :: "int \<Rightarrow> 'w \<Rightarrow> unit result \<times> 'w"
  wk_config :: worker_config

fun call_result :: "'a agent_call \<Rightarrow> 'a result" where
  "call_result (Answered x) = Inr x"
| "call_result (StatusError st) = Inl (PyError ''HTTPStatusError'')"
| "call_result (CallRaised e) = Inl e"

definition cancelled :: exn where
  "cancelled = PyError ''CancelledError''"

text \<open>\<^verbatim>\<open>_get_balance\<close> takes any exception for an empty account.\<close>

definition wk_get_balance :: "'w worker \<Rightarrow> 'w \<Rightarrow> int \<times> 'w" where
  "wk_get_balance W w =
     (let (c, w1) = agent_get_balance (wk_agent W) w
      in (case and_then (call_result c) (\<lambda>j. and_then (as_dict j) (\<lambda>d. int_of_json (dget_or d ''balance'' (JInt 0)))) of
            Inl _ \<Rightarrow> 0 | Inr n \<Rightarrow> n, w1))"

text \<open>A reward is an integer.\<close>

definition task_reward :: "payload \<Rightarrow> int result" where
  "task_reward t =
     (case as_int (dget_or t ''reward'' (JInt 0)) of None \<Rightarrow> Inl (PyError ''TypeError'') | Some n \<Rightarrow> Inr n)"

text \<open>The tasks within the worker's range of rewards.\<close>

fun eligible_tasks :: "worker_config \<Rightarrow> json list \<Rightarrow> payload list result" where
  "eligible_tasks C [] = Inr []"
| "eligible_tasks C (j # js) =
     and_then (as_dict j) (\<lambda>t. and_then (task_reward t) (\<lambda>n. and_then (eligible_tasks C js) (\<lambda>ts.
       Inr (if wc_min_reward C \<le> n \<and> n \<le> wc_max_reward C then t # ts else ts))))"

text \<open>What a listing iterates over.\<close>

definition listed :: "json \<Rightarrow> json list result" where
  "listed j = (case j of JList js \<Rightarrow> Inr js | _ \<Rightarrow> if truthy j then Inl (PyError ''TypeError'') else Inr [])"

definition phase_scanning :: "'w worker \<Rightarrow> 'w \<Rightarrow> string option result \<times> 'w" where
  "phase_scanning W w =
     chain (apfst call_result (agent_list_tasks (wk_agent W) (Some ''BIDDING'') None None w)) (\<lambda>tasks w1.
     chain (and_then (listed tasks) (eligible_tasks (wk_config W)), w1) (\<lambda>eligible w1.
       if eligible = [] then (Inr None, w1)
       else
         let (funds, w2) = wk_get_balance W w1
         in chain (wk_complete W task_selection_system (build_task_selection_prompt eligible funds) w2) (\<lambda>content w3.
              (parse_task_selection content (List.map_filter (\<lambda>t. dget t ''task_id'') eligible), w3))))"

definition phase_bidding :: "'w worker \<Rightarrow> json \<Rightarrow> 'w \<Rightarrow> json result \<times> 'w" where
  "phase_bidding W task w =
     chain (and_then (as_dict task) (\<lambda>t. and_then (subscript t ''task_id'') (\<lambda>k. and_then (task_reward t) (\<lambda>n. Inr (t, py_str k, n)))), w)
       (\<lambda>(t, tid, reward) w1.
          let (funds, w2) = wk_get_balance W w1
          in chain (wk_complete W bid_amount_system (build_bid_amount_prompt t funds) w2) (\<lambda>content w3.
             chain (parse_bid_amount content reward, w3) (\<lambda>amount w3.
               apfst call_result (agent_submit_bid (wk_agent W) tid (case amount of None \<Rightarrow> reward | Some a \<Rightarrow> a) w3))))"

text \<open>
  Asking for the task up to a number of times, with a sleep in between, until its dictionary decides.
\<close>

fun poll_task :: "'w worker \<Rightarrow> string \<Rightarrow> (payload \<Rightarrow> 'a option) \<Rightarrow> nat \<Rightarrow> 'w \<Rightarrow> 'a option result \<times> 'w" where
  "poll_task W tid decide 0 w = (Inr None, w)"
| "poll_task W tid decide (Suc attempts) w =
     chain (apfst call_result (agent_get_task (wk_agent W) tid w)) (\<lambda>j w1.
     chain (as_dict j, w1) (\<lambda>task w1.
       case decide task of
         Some x \<Rightarrow> (Inr (Some x), w1)
       | None \<Rightarrow>
           if attempts = 0 then (Inr None, w1)
           else chain (wk_sleep W (wc_poll_interval (wk_config W)) w1) (\<lambda>_. poll_task W tid decide attempts)))"

definition poll_attempts :: "'w worker \<Rightarrow> nat" where
  "poll_attempts W = nat (wc_max_poll_attempts (wk_config W))"

definition status_in :: "payload \<Rightarrow> string list \<Rightarrow> bool" where
  "status_in task ss \<longleftrightarrow> list_ex (\<lambda>s. dget_or task ''status'' (JStr []) = JStr s) ss"

definition acceptance_decision :: "'w agent \<Rightarrow> payload \<Rightarrow> bool option" where
  "acceptance_decision A task =
     (if status_in task [''IN_PROGRESS'', ''EXECUTION''] then Some (jget task ''worker_id'' = agent_id_json A)
      else if status_in task [''CANCELLED'', ''COMPLETED'', ''APPROVED'', ''FAILED''] then Some False
      else None)"

definition phase_waiting_for_acceptance :: "'w worker \<Rightarrow> string \<Rightarrow> 'w \<Rightarrow> bool result \<times> 'w" where
  "phase_waiting_for_acceptance W tid w =
     chain (poll_task W tid (acceptance_decision (wk_agent W)) (poll_attempts W) w) (\<lambda>r w1. (Inr (r = Some True), w1))"

definition phase_solving :: "'w worker \<Rightarrow> json \<Rightarrow> 'w \<Rightarrow> string option result \<times> 'w" where
  "phase_solving W task w =
     chain (as_dict task, w) (\<lambda>t w1.
     chain (wk_complete W solve_problem_system (build_solve_prompt t) w1) (\<lambda>content w2. (Inr (parse_solution content), w2)))"

definition phase_submitting :: "'w worker \<Rightarrow> string \<Rightarrow> string \<Rightarrow> 'w \<Rightarrow> unit result \<times> 'w" where
  "phase_submitting W tid solution w =
     chain (apfst call_result (agent_upload_asset (wk_agent W) tid (tid @ ''_solution.txt'') solution w)) (\<lambda>_ w1.
     chain (apfst call_result (agent_submit_deliverable (wk_agent W) tid w1)) (\<lambda>_ w2. (Inr (), w2)))"

datatype review = ReviewApproved | ReviewDisputed | ReviewTimeout

definition review_decision :: "payload \<Rightarrow> review option" where
  "review_decision task =
     (if status_in task [''APPROVED'', ''COMPLETED''] then Some ReviewApproved
      else if status_in task [''DISPUTED'', ''IN_DISPUTE''] then Some ReviewDisputed
      else None)"

definition phase_waiting_for_review :: "'w worker \<Rightarrow> string \<Rightarrow> 'w \<Rightarrow> review result \<times> 'w" where
  "phase_waiting_for_review W tid w =
     chain (poll_task W tid review_decision (poll_attempts W) w)
       (\<lambda>r w1. (Inr (case r of None \<Rightarrow> ReviewTimeout | Some x \<Rightarrow> x), w1))"

definition ruling_decision :: "payload \<Rightarrow> json option" where
  "ruling_decision task =
     (if status_in task [''RULED'', ''COMPLETED'', ''APPROVED'', ''RESOLVED'']
      then Some (dget_or task ''worker_payout'' (dget_or task ''reward'' (JInt 0)))
      else None)"

definition phase_waiting_for_ruling :: "'w worker \<Rightarrow> string \<Rightarrow> 'w \<Rightarrow> json result \<times> 'w" where
  "phase_waiting_for_ruling W tid w =
     chain (poll_task W tid ruling_decision (poll_attempts W) w)
       (\<lambda>r w1. (Inr (case r of None \<Rightarrow> JInt 0 | Some p \<Rightarrow> p), w1))"


section \<open>Cycles\<close>

text \<open>The history goes along with the world.\<close>

type_synonym 'w worker_state = "task_record list \<times> 'w"

definition in_world :: "('w \<Rightarrow> 'a result \<times> 'w) \<Rightarrow> 'w worker_state \<Rightarrow> 'a result \<times> 'w worker_state" where
  "in_world f s = (let (r, w) = f (snd s) in (r, (fst s, w)))"

definition keep_record :: "task_record \<Rightarrow> 'w worker_state \<Rightarrow> unit result \<times> 'w worker_state" where
  "keep_record r s = (let (x, rs) = add_record r (fst s) in (x, (rs, snd s)))"

definition finished :: "string \<Rightarrow> payload \<Rightarrow> json \<Rightarrow> task_outcome \<Rightarrow> string option \<Rightarrow> json \<Rightarrow> task_record" where
  "finished tid task amount outcome solution pay =
     \<lparr>tr_task_id = tid, tr_title = dget_or task ''title'' (JStr []), tr_reward = dget_or task ''reward'' (JInt 0),
      tr_bid_amount = amount, tr_outcome = outcome, tr_solution = solution, tr_payout = pay\<rparr>"

text \<open>A failed filing of the claim is only logged.\<close>

definition phase_disputed :: "'w worker \<Rightarrow> payload \<Rightarrow> string \<Rightarrow> 'w worker_state \<Rightarrow> unit result \<times> 'w worker_state" where
  "phase_disputed W task solution s =
     (let tid = shown task ''task_id'' ''unknown'';
          reason = dget_or task ''dispute_reason'' (JStr ''No reason provided'')
      in chain (in_world (wk_complete W dispute_rebuttal_system (build_rebuttal_prompt task solution reason)) s) (\<lambda>rebuttal s1.
         chain (in_world (\<lambda>w. (Inr (), snd (agent_file_claim (wk_agent W) tid rebuttal w))) s1) (\<lambda>_ s2.
         chain (in_world (phase_waiting_for_ruling W tid) s2) (\<lambda>pay s3.
           case as_int pay of
             None \<Rightarrow> (Inl (PyError ''TypeError''), s3)
           | Some n \<Rightarrow> keep_record (finished tid task (JInt 0) (if 0 < n then OutDisputedWon else OutDisputedLost) (Some solution) pay) s3))))"

definition settle_review ::
    "'w worker \<Rightarrow> string \<Rightarrow> payload \<Rightarrow> json \<Rightarrow> string \<Rightarrow> review \<Rightarrow> 'w worker_state \<Rightarrow> unit result \<times> 'w worker_state" where
  "settle_review W tid task amount solution outcome s =
     (if outcome = ReviewDisputed then phase_disputed W task solution s
      else keep_record (finished tid task amount OutApproved (Some solution) (dget_or task ''reward'' (JInt 0))) s)"

definition worker_cycle :: "'w worker \<Rightarrow> 'w worker_state \<Rightarrow> unit result \<times> 'w worker_state" where
  "worker_cycle W s =
     chain (in_world (phase_scanning W) s) (\<lambda>chosen s1.
       case chosen of
         None \<Rightarrow> in_world (wk_sleep W (wc_scan_interval (wk_config W))) s1
       | Some tid \<Rightarrow>
           chain (in_world (\<lambda>w. apfst call_result (agent_get_task (wk_agent W) tid w)) s1) (\<lambda>task s2.
           chain (in_world (phase_bidding W task) s2) (\<lambda>bid s3.
             if bid = JNull then (Inr (), s3)
             else
               chain (and_then (as_dict bid) (\<lambda>b. and_then (subscript b ''bid_id'') (\<lambda>_. and_then (as_dict task) (\<lambda>t.
                      Inr (dget_or b ''amount'' (JInt 0), t)))), s3) (\<lambda>(amount, first) s3.
               chain (in_world (phase_waiting_for_acceptance W tid) s3) (\<lambda>accepted s4.
                 if \<not> accepted then keep_record (finished tid first amount OutBidTimeout None (JInt 0)) s4
                 else
                   chain (in_world (\<lambda>w. apfst call_result (agent_get_task (wk_agent W) tid w)) s4) (\<lambda>again s5.
                   chain (in_world (phase_solving W again) s5) (\<lambda>solution s6.
                   chain (as_dict again, s6) (\<lambda>t s6.
                     case solution of
                       None \<Rightarrow> keep_record (finished tid t amount OutError None (JInt 0)) s6
                     | Some answer \<Rightarrow>
                         chain (in_world (phase_submitting W tid answer) s6) (\<lambda>_ s7.
                         chain (in_world (phase_waiting_for_review W tid) s7) (\<lambda>outcome s8.
                           settle_review W tid t amount answer outcome s8))))))))))"

text \<open>
  \<^verbatim>\<open>run\<close> for a number of cycles: cancellation ends it, another exception is slept over.
\<close>

fun worker_run :: "nat \<Rightarrow> 'w worker \<Rightarrow> 'w worker_state \<Rightarrow> 'w worker_state" where
  "worker_run 0 W s = s"
| "worker_run (Suc n) W s =
     (case worker_cycle W s of
        (Inr _, s1) \<Rightarrow> worker_run n W s1
      | (Inl e, s1) \<Rightarrow>
          if e = cancelled then s1
          else (case in_world (wk_sleep W (wc_error_backoff (wk_config W))) s1 of
                  (Inr _, s2) \<Rightarrow> worker_run n W s2 | (Inl _, s2) \<Rightarrow> s2))"

end
