(* ===== verification/Feeder.thy ===== *)
theory Feeder
  imports Worker
begin

text \<open>
  The task feeder, \<^verbatim>\<open>task_feeder/loop.py\<close>, \<^verbatim>\<open>reader.py\<close> and \<^verbatim>\<open>review.py\<close>: it posts the tasks of a file while the
  board has few of its own, and reviews what is submitted for them. \<^verbatim>\<open>json.loads\<close>, \<^verbatim>\<open>random.shuffle\<close> and sleeping
  are parameters.
\<close>

section \<open>The file of tasks\<close>

text \<open>The level is used as it was read.\<close>

record raw_task =
  rt_title :: string
  rt_spec :: string
  rt_solutions :: "string list"
  rt_level :: json
  rt_problem_type :: string
  rt_solution_note :: json

definition raw_task_of :: "json \<Rightarrow> raw_task result" where
  "raw_task_of j =
     (case j of
        JObj d \<Rightarrow>
          and_then (subscript d ''title'') (\<lambda>title. and_then (subscript d ''spec'') (\<lambda>spec.
          and_then (subscript d ''solutions'') (\<lambda>solutions. and_then (subscript d ''level'') (\<lambda>level.
          and_then (subscript d ''problem_type'') (\<lambda>type.
            Inr \<lparr>rt_title = text_of title, rt_spec = text_of spec,
                 rt_solutions = (case solutions of JList js \<Rightarrow> map text_of js | _ \<Rightarrow> []), rt_level = level,
                 rt_problem_type = text_of type, rt_solution_note = jget d ''solution_note''\<rparr>)))))
      | _ \<Rightarrow> Inl (PyError ''TypeError''))"

fun load_lines :: "(string \<Rightarrow> json option) \<Rightarrow> string list \<Rightarrow> raw_task list result" where
  "load_lines loads [] = Inr []"
| "load_lines loads (raw # lines) =
     (if blank raw then load_lines loads lines
      else
        (case loads (strip raw) of
           None \<Rightarrow> Inl (PyError ''ValueError'')
         | Some j \<Rightarrow> and_then (raw_task_of j) (\<lambda>t. and_then (load_lines loads lines) (\<lambda>ts. Inr (t # ts)))))"

text \<open>The content of the file, if it exists; a carriage return ends a line too.\<close>

definition load_tasks :: "(string \<Rightarrow> json option) \<Rightarrow> string option \<Rightarrow> raw_task list result" where
  "load_tasks loads file =
     (case file of
        None \<Rightarrow> Inl (PyError ''FileNotFoundError'')
      | Some content \<Rightarrow> load_lines loads (split_on nl (map (\<lambda>c. if c = CHR 0x0D then nl else c) content)))"

section \<open>Feeding\<close>

record feeder_config =
  fc_feed_interval :: int
  fc_max_open_tasks :: int
  fc_bidding_seconds :: int
  fc_execution_seconds :: int
  fc_review_seconds :: int
  fc_base_reward :: int
  fc_reward_per_level :: int
  fc_shuffle :: bool

record 'w feeder =
  fd_agent :: "'w agent"
  fd_config :: feeder_config
  fd_uuid :: "'w \<Rightarrow> string \<times> 'w"
  fd_permute :: "raw_task list \<Rightarrow> 'w \<Rightarrow> raw_task list \<times> 'w"
  fd_sleep :: "int \<Rightarrow> 'w \<Rightarrow> unit result \<times> 'w"

text \<open>The tasks of the generator, those it has yet to yield in this pass, and what was posted.\<close>

record 'w feeder_state =
  fs_pool :: "raw_task list"
  fs_rest :: "raw_task list"
  fs_tasks_posted :: nat
  fs_task_map :: "(string, raw_task) dict"
  fs_world :: 'w

text \<open>\<^verbatim>\<open>next(task_iter)\<close>; an exhausted generator ends the coroutine with a \<^verbatim>\<open>RuntimeError\<close>.\<close>

definition next_task :: "'w feeder \<Rightarrow> 'w feeder_state \<Rightarrow> raw_task result \<times> 'w feeder_state" where
  "next_task F s =
     (case fs_rest s of
        t # ts \<Rightarrow> (Inr t, s\<lparr>fs_rest := ts\<rparr>)
      | [] \<Rightarrow>
          (let (pool, w) = (if fc_shuffle (fd_config F) \<and> fs_pool s \<noteq> [] then fd_permute F (fs_pool s) (fs_world s)
                            else (fs_pool s, fs_world s))
           in case pool of
                [] \<Rightarrow> (Inl (PyError ''RuntimeError''), s\<lparr>fs_world := w\<rparr>)
              | t # ts \<Rightarrow> (Inr t, s\<lparr>fs_pool := pool, fs_rest := ts, fs_world := w\<rparr>)))"

text \<open>\<^verbatim>\<open>len\<close> of the listing; an exception counts as no open task.\<close>

definition json_len :: "json \<Rightarrow> nat option" where
  "json_len j = (case j of JList js \<Rightarrow> Some (length js) | JObj d \<Rightarrow> Some (length d) | JStr s \<Rightarrow> Some (length s) | _ \<Rightarrow> None)"

definition count_open_tasks :: "'w feeder \<Rightarrow> 'w \<Rightarrow> nat \<times> 'w" where
  "count_open_tasks F w =
     (let (c, w1) = agent_list_tasks (fd_agent F) (Some ''BIDDING'') (ag_id (fd_agent F)) None w
      in (case c of Answered j \<Rightarrow> (case json_len j of None \<Rightarrow> 0 | Some n \<Rightarrow> n) | _ \<Rightarrow> 0, w1))"

definition compute_reward :: "feeder_config \<Rightarrow> json \<Rightarrow> int result" where
  "compute_reward C level =
     (case as_int level of None \<Rightarrow> Inl (PyError ''TypeError'') | Some n \<Rightarrow> Inr (fc_base_reward C + n * fc_reward_per_level C))"

definition feeder_sleep :: "'w feeder \<Rightarrow> 'w feeder_state \<Rightarrow> unit result \<times> 'w feeder_state" where
  "feeder_sleep F s = (let (r, w) = fd_sleep F (fc_feed_interval (fd_config F)) (fs_world s) in (r, s\<lparr>fs_world := w\<rparr>))"

definition post_raw_task :: "'w feeder \<Rightarrow> 'w feeder_state \<Rightarrow> unit result \<times> 'w feeder_state" where
  "post_raw_task F s =
     chain (next_task F s) (\<lambda>t s1.
     chain (compute_reward (fd_config F) (rt_level t), s1) (\<lambda>reward s1.
       let C = fd_config F; (u, w) = fd_uuid F (fs_world s1);
           (c, w1) = agent_post_task (fd_agent F) u (rt_title t) (rt_spec t) reward (fc_bidding_seconds C) (fc_execution_seconds C)
             (fc_review_seconds C) w;
           s2 = s1\<lparr>fs_world := w1\<rparr>
       in chain (and_then (call_result c) as_dict, s2) (\<lambda>d s2.
            feeder_sleep F (s2\<lparr>fs_task_map := dput (fs_task_map s2) (py_str (dget_or d ''task_id'' (JStr ''unknown''))) t,
              fs_tasks_posted := Suc (fs_tasks_posted s2)\<rparr>))))"

definition feed_one :: "'w feeder \<Rightarrow> 'w feeder_state \<Rightarrow> unit result \<times> 'w feeder_state" where
  "feed_one F s =
     (let (open_count, w) = count_open_tasks F (fs_world s); s1 = s\<lparr>fs_world := w\<rparr>
      in if fc_max_open_tasks (fd_config F) \<le> int open_count then feeder_sleep F s1 else post_raw_task F s1)"

text \<open>\<^verbatim>\<open>run\<close> for a number of rounds, after the file has been read.\<close>

fun feeder_run :: "nat \<Rightarrow> 'w feeder \<Rightarrow> 'w feeder_state \<Rightarrow> 'w feeder_state" where
  "feeder_run 0 F s = s"
| "feeder_run (Suc n) F s =
     (case feed_one F s of
        (Inr _, s1) \<Rightarrow> feeder_run n F s1
      | (Inl e, s1) \<Rightarrow>
          if e = cancelled then s1
          else (case feeder_sleep F s1 of (Inr _, s2) \<Rightarrow> feeder_run n F s2 | (Inl _, s2) \<Rightarrow> s2))"

section \<open>Reviewing\<close>

definition py_lower :: "string \<Rightarrow> string" where
  "py_lower = map (\<lambda>c. let n = of_char c :: nat
     in if 65 \<le> n \<and> n \<le> 90 \<or> 192 \<le> n \<and> n \<le> 222 \<and> n \<noteq> 215 then char_of (n + 32) else c)"

definition check_answer :: "string \<Rightarrow> string list \<Rightarrow> bool" where
  "check_answer submitted solutions =
     (let answer = py_lower (strip submitted)
      in answer \<noteq> [] \<and> solutions \<noteq> [] \<and> answer \<in> set (map (\<lambda>s. py_lower (strip s)) solutions))"

text \<open>\<^verbatim>\<open>repr\<close> of a string: single quotes, unless it has single and no double ones.\<close>

definition hex2 :: "nat \<Rightarrow> string" where
  "hex2 n = (let d = (\<lambda>k. char_of (if k < 10 then 48 + k else 87 + k)) in [d (n div 16), d (n mod 16)])"

definition repr_char :: "char \<Rightarrow> char \<Rightarrow> string" where
  "repr_char quote c =
     (let n = of_char c :: nat
      in if c = quote \<or> n = 92 then [CHR 0x5C, c]
         else if n = 10 then [CHR 0x5C, CHR ''n''] else if n = 13 then [CHR 0x5C, CHR ''r'']
         else if n = 9 then [CHR 0x5C, CHR ''t'']
         else if n < 32 \<or> 127 \<le> n \<and> n \<le> 160 \<or> n = 173 then [CHR 0x5C, CHR ''x''] @ hex2 n
         else [c])"

definition py_repr :: "string \<Rightarrow> string" where
  "py_repr s =
     (let quote = (if CHR 0x27 \<in> set s \<and> CHR 0x22 \<notin> set s then CHR 0x22 else CHR 0x27)
      in quote # concat (map (repr_char quote) s) @ [quote])"

text \<open>The first truthy of the answers' places; a place that is there must be a dictionary.\<close>

definition nested_answer :: "payload \<Rightarrow> string \<Rightarrow> json result" where
  "nested_answer d k = and_then (as_dict (dget_or d k (JObj []))) (\<lambda>inner. Inr (jget inner ''answer''))"

definition submitted_answer :: "payload \<Rightarrow> string result" where
  "submitted_answer d =
     (if truthy (jget d ''submitted_answer'') then Inr (py_str (jget d ''submitted_answer''))
      else
        and_then (nested_answer d ''submission'') (\<lambda>a.
        if truthy a then Inr (py_str a)
        else and_then (nested_answer d ''deliverable'') (\<lambda>b. Inr (if truthy b then py_str b else []))))"

definition dispute_text :: "raw_task \<Rightarrow> string \<Rightarrow> string" where
  "dispute_text t answer =
     ''Expected one of ['' @ join '', '' (map py_repr (rt_solutions t)) @ ''] but got '' @ py_repr answer"

definition review_one :: "'w agent \<Rightarrow> (string, raw_task) dict \<Rightarrow> string \<Rightarrow> 'w \<Rightarrow> string result \<times> 'w" where
  "review_one A task_map tid w =
     (case dget task_map tid of
        None \<Rightarrow> (Inl (PyError ''LookupError''), w)
      | Some raw \<Rightarrow>
          chain (apfst call_result (agent_get_task A tid w)) (\<lambda>j w1.
          chain (and_then (as_dict j) submitted_answer, w1) (\<lambda>answer w1.
            if check_answer answer (rt_solutions raw)
            then chain (apfst call_result (agent_approve_task A tid w1)) (\<lambda>_ w2. (Inr ''approved'', w2))
            else chain (apfst call_result (agent_dispute_task A tid (dispute_text raw answer) w1)) (\<lambda>_ w2. (Inr ''disputed'', w2)))))"

text \<open>One pass over the listing: a review that fails is only logged.\<close>

fun review_tasks :: "'w agent \<Rightarrow> (string, raw_task) dict \<Rightarrow> json list \<Rightarrow> 'w \<Rightarrow> unit result \<times> 'w" where
  "review_tasks A task_map [] w = (Inr (), w)"
| "review_tasks A task_map (j # js) w =
     chain (as_dict j, w) (\<lambda>task w.
       let tid = py_str (dget_or task ''task_id'' (JStr [])); status = py_str (dget_or task ''status'' (JStr []))
       in if py_lower status \<noteq> ''submitted'' \<or> dget task_map tid = None then review_tasks A task_map js w
          else review_tasks A task_map js (snd (review_one A task_map tid w)))"

definition review_pass :: "'w agent \<Rightarrow> (string, raw_task) dict \<Rightarrow> 'w \<Rightarrow> unit result \<times> 'w" where
  "review_pass A task_map w =
     chain (apfst call_result (agent_list_tasks A (Some ''SUBMITTED'') (ag_id A) None w)) (\<lambda>tasks w1.
     chain (case tasks of JList js \<Rightarrow> Inr js | JObj [] \<Rightarrow> Inr [] | JStr [] \<Rightarrow> Inr [] | _ \<Rightarrow> Inl (PyError ''TypeError''), w1)
       (review_tasks A task_map))"

text \<open>Whatever the listing raises ends the loop.\<close>

fun review_run :: "nat \<Rightarrow> 'w agent \<Rightarrow> (string, raw_task) dict \<Rightarrow> ('w \<Rightarrow> unit result \<times> 'w) \<Rightarrow> 'w \<Rightarrow> unit result \<times> 'w" where
  "review_run 0 A task_map sleep w = (Inr (), w)"
| "review_run (Suc n) A task_map sleep w =
     chain (review_pass A task_map w) (\<lambda>_ w1. chain (sleep w1) (\<lambda>_. review_run n A task_map sleep))"

end
