(* ===== verification/Worker_Props.thy ===== *)
theory Worker_Props
  imports Feeder
begin

text \<open>
  The workers and the feeder at the Task Board: the statuses they ask for are not the board's, so its listings are
  empty for them, whatever the board holds.
\<close>

section \<open>Listings by a status the board does not have\<close>

definition no_status :: "string \<Rightarrow> bool" where
  "no_status s \<longleftrightarrow> (\<forall>st. status_text st \<noteq> s)"

lemma no_such_statuses: "no_status ''BIDDING''" "no_status ''SUBMITTED''"
  unfolding no_status_def by (auto; case_tac st; simp)+

lemma keep_if_Nil [simp]: "keep_if v f [] = []"
  by (cases v) (simp_all add: keep_if_def)

lemma none_of_status: "no_status s \<Longrightarrow> mem_list_tasks (Some s) p w None None d = []"
  by (simp add: mem_list_tasks_def keep_if_def [of "Some s"] no_status_def sort_desc_def Let_def)

lemma listing_http:
  assumes "be_store E = memory_store" "no_status s" "rq_method q = ''GET''" "rq_path q = [''tasks'']"
    and "dget (rq_query q) ''status'' = Some s" "dget (rq_query q) ''offset'' = None" "dget (rq_query q) ''limit'' = None"
  shows "board_http E True n q w = (JsonAnswer 200 (JObj [(''tasks'', JList [])]), w)"
  using assms
  by (simp add: board_http_def board_middleware_def get_tasks_def bound_param_def board_ready_def list_tasks_def none_of_status
      chain_def answer_of_def tasks_json_def)

lemma nothing_listed:
  assumes "\<forall>n. be_store (envs n) = memory_store" "no_status s"
    and "agent_list_tasks (board_platform envs mb blen others A) (Some s) p None l = (Answered j, l')"
  shows "j = JList []"
proof -
  let ?m = "(plain_get BoardService [''tasks''])\<lparr>am_query := (''status'', s) # (case p of None \<Rightarrow> [] | Some x \<Rightarrow> [(''poster_id'', x)])\<rparr>"
  have q: "map (\<lambda>(k, v). (k, the v)) (filter (\<lambda>(k, v). v \<noteq> None) [(''status'', Some s), (''poster_id'', p), (''worker_id'', None)]) =
      (''status'', s) # (case p of None \<Rightarrow> [] | Some x \<Rightarrow> [(''poster_id'', x)])"
    by (cases p) simp_all
  have http: "board_http (envs k) True mb (board_message blen ?m) w = (JsonAnswer 200 (JObj [(''tasks'', JList [])]), w)" for k w
    using assms(1,2) by (intro listing_http) (auto simp: board_message_def plain_get_def split: option.split)
  have call: "agent_list_tasks (board_platform envs mb blen others A) (Some s) p None l =
      apfst (answer_field ''tasks'' \<circ> agent_answer) (http_call (board_end (envs (sent l)) mb (board_message blen ?m)) l)"
    unfolding agent_list_tasks_def Let_def q
    by (simp add: agent_request_def board_platform_def plain_get_def apfst_compose [symmetric] split: prod.split)
  have reply: "fst (board_end (envs (sent l)) mb (board_message blen ?m) st) =
      (if st = None then (404, Some (JObj [(''error'', JStr ''http_error'')])) else (200, Some (JObj [(''tasks'', JList [])])))" for st
    using http by (cases st) (simp_all add: board_end_def not_found_def)
  have lost: "answer_field k (agent_answer (failure_outcome f)) \<noteq> Answered j" for k f
    by (cases f) (simp_all add: answer_field_def)
  show ?thesis
    using assms(3) reply [of "remote l"] lost
    by (cases "fates l (sent l)"; cases "remote l")
      (auto simp: call http_call_def Let_def answer_field_def split: prod.splits)
qed

section \<open>The worker never bids\<close>

text \<open>A worker that does nothing but list and sleep.\<close>

definition idle_step :: "'w worker \<Rightarrow> 'w \<Rightarrow> unit result \<times> 'w" where
  "idle_step W w =
     chain (apfst call_result (agent_list_tasks (wk_agent W) (Some ''BIDDING'') None None w))
       (\<lambda>_. wk_sleep W (wc_scan_interval (wk_config W)))"

fun idle_run :: "nat \<Rightarrow> 'w worker \<Rightarrow> 'w \<Rightarrow> 'w" where
  "idle_run 0 W w = w"
| "idle_run (Suc n) W w =
     (case idle_step W w of
        (Inr _, w1) \<Rightarrow> idle_run n W w1
      | (Inl e, w1) \<Rightarrow>
          if e = cancelled then w1
          else (case wk_sleep W (wc_error_backoff (wk_config W)) w1 of (Inr _, w2) \<Rightarrow> idle_run n W w2 | (Inl _, w2) \<Rightarrow> w2))"

lemma call_result_Inr: "call_result c = Inr x \<longleftrightarrow> c = Answered x"
  by (cases c) auto

lemma cycle_idle:
  assumes "\<And>w j w'. agent_list_tasks (wk_agent W) (Some ''BIDDING'') None None w = (Answered j, w') \<Longrightarrow> j = JList []"
  shows "worker_cycle W (h, w) = apsnd (Pair h) (idle_step W w)"
proof -
  obtain c w1 where l: "agent_list_tasks (wk_agent W) (Some ''BIDDING'') None None w = (c, w1)" by fastforce
  show ?thesis
  proof (cases "call_result c")
    case (Inl e)
    then show ?thesis by (simp add: worker_cycle_def phase_scanning_def in_world_def idle_step_def l chain_def)
  next
    case (Inr j)
    then have "j = JList []" using assms l by (simp add: call_result_Inr)
    then show ?thesis
      using Inr by (simp add: worker_cycle_def phase_scanning_def in_world_def idle_step_def l chain_def listed_def split: prod.split)
  qed
qed

text \<open>
  C37: The math worker asks the Task Board for the tasks with status \<open>BIDDING\<close>, which no task of the board ever has:
  whatever the board holds and whatever the language model would say, every run of the worker only lists and sleeps.
  It never bids and never records an outcome.
\<close>
theorem worker_never_bids:
  assumes "\<forall>n. be_store (envs n) = memory_store" "wk_agent W = board_platform envs mb blen others A"
  shows "worker_run n W (h, l) = (h, idle_run n W l)"
proof (induction n arbitrary: l)
  case (Suc n)
  have cycle: "worker_cycle W (h, l) = apsnd (Pair h) (idle_step W l)"
    by (rule cycle_idle) (use nothing_listed [OF assms(1) no_such_statuses(1)] in \<open>unfold assms(2), blast\<close>)
  obtain r l1 where step: "idle_step W l = (r, l1)" by fastforce
  show ?case
  proof (cases r)
    case (Inr u)
    then show ?thesis using Suc [of l1] by (simp add: cycle step)
  next
    case (Inl e)
    obtain x l2 where "wk_sleep W (wc_error_backoff (wk_config W)) l1 = (x, l2)" by fastforce
    then show ?thesis using Suc [of l2] Inl by (cases x) (simp_all add: cycle step in_world_def)
  qed
qed simp

section \<open>The feeder never waits\<close>

lemma none_open:
  assumes "\<forall>n. be_store (envs n) = memory_store" "fd_agent F = board_platform envs mb blen others A"
  shows "fst (count_open_tasks F l) = 0"
proof -
  obtain c l1 where l: "agent_list_tasks (fd_agent F) (Some ''BIDDING'') (ag_id (fd_agent F)) None l = (c, l1)" by fastforce
  have "c = Answered j \<Longrightarrow> j = JList []" for j
    using nothing_listed [OF assms(1) no_such_statuses(1)] l unfolding assms(2) by blast
  then show ?thesis by (cases c) (simp_all add: count_open_tasks_def l json_len_def)
qed

text \<open>
  The feeder is meant to wait while the board has as many of its open tasks as it may have. It counts none, as it
  asks for a status no task has, so with any limit it goes on to post whatever is open.
\<close>
theorem feeder_never_waits:
  assumes "\<forall>n. be_store (envs n) = memory_store" "fd_agent F = board_platform envs mb blen others A"
    and "0 < fc_max_open_tasks (fd_config F)"
  shows "feed_one F s = post_raw_task F (s\<lparr>fs_world := snd (count_open_tasks F (fs_world s))\<rparr>)"
  using none_open [OF assms(1,2), of "fs_world s"] assms(3)
  by (cases "count_open_tasks F (fs_world s)") (simp add: feed_one_def Let_def)

lemma review_pass_lists:
  assumes "\<forall>n. be_store (envs n) = memory_store" "A' = board_platform envs mb blen others A"
  shows "snd (review_pass A' tasks l) = snd (agent_list_tasks A' (Some ''SUBMITTED'') (ag_id A') None l)"
proof -
  obtain c l1 where l: "agent_list_tasks A' (Some ''SUBMITTED'') (ag_id A') None l = (c, l1)" by fastforce
  have "c = Answered j \<Longrightarrow> j = JList []" for j
    using nothing_listed [OF assms(1) no_such_statuses(2)] l unfolding assms(2) by blast
  then show ?thesis by (cases c) (simp_all add: review_pass_def chain_def l)
qed

section \<open>Witnesses\<close>

definition open_link :: "(task_db, string list) board bank_link" where
  "open_link = \<lparr>fates = \<lambda>n. Delivered, sent = 0, remote = Some demo_open\<rparr>"

definition demo_platform :: "(task_db, string list) board bank_link agent" where
  "demo_platform = board_platform (\<lambda>n. demo_env) 1000 (\<lambda>m. 20) (\<lambda>m. ConnectFailed) duo_agent"

definition demo_worker :: "(task_db, string list) board bank_link worker" where
  "demo_worker =
     \<lparr>wk_agent = demo_platform, wk_complete = (\<lambda>system prompt l. (Inr demo_tid, l)), wk_sleep = (\<lambda>n l. (Inr (), l)),
      wk_config = \<lparr>wc_scan_interval = 1, wc_poll_interval = 1, wc_max_poll_attempts = 3, wc_error_backoff = 1, wc_min_reward = 0,
        wc_max_reward = 1000\<rparr>\<rparr>"

definition demo_feeder :: "(task_db, string list) board bank_link feeder" where
  "demo_feeder =
     \<lparr>fd_agent = demo_platform,
      fd_config = \<lparr>fc_feed_interval = 1, fc_max_open_tasks = 1, fc_bidding_seconds = 1, fc_execution_seconds = 1,
        fc_review_seconds = 1, fc_base_reward = 1, fc_reward_per_level = 1, fc_shuffle = False\<rparr>,
      fd_uuid = (\<lambda>l. (''u'', l)), fd_permute = Pair, fd_sleep = (\<lambda>n l. (Inr (), l))\<rparr>"

lemma open_task: "map_option t_status (mem_get_task demo_tid (db demo_open)) = Some Open"
  by code_simp

theorem worker_never_bids_witness:
  "map_option t_status (mem_get_task demo_tid (db demo_open)) = Some Open \<and>
    worker_run 2 demo_worker ([], open_link) = ([], idle_run 2 demo_worker open_link)"
proof -
  have "wk_agent demo_worker = board_platform (\<lambda>n. demo_env) 1000 (\<lambda>m. 20) (\<lambda>m. ConnectFailed) duo_agent"
    by (simp add: demo_worker_def demo_platform_def)
  then show ?thesis
    using worker_never_bids [of "\<lambda>n. demo_env" demo_worker 1000 "\<lambda>m. 20" "\<lambda>m. ConnectFailed" duo_agent 2 "[]" open_link] open_task
    by (simp add: demo_env_store)
qed

definition demo_feeder_state :: "(task_db, string list) board bank_link feeder_state" where
  "demo_feeder_state = \<lparr>fs_pool = [], fs_rest = [], fs_tasks_posted = 0, fs_task_map = [], fs_world = open_link\<rparr>"

theorem feeder_never_waits_witness:
  "map_option t_status (mem_get_task demo_tid (db demo_open)) = Some Open \<and> fc_max_open_tasks (fd_config demo_feeder) = 1 \<and>
    feed_one demo_feeder demo_feeder_state = post_raw_task demo_feeder
      (demo_feeder_state\<lparr>fs_world := snd (count_open_tasks demo_feeder (fs_world demo_feeder_state))\<rparr>)"
proof -
  have "fd_agent demo_feeder = board_platform (\<lambda>n. demo_env) 1000 (\<lambda>m. 20) (\<lambda>m. ConnectFailed) duo_agent"
    by (simp add: demo_feeder_def demo_platform_def)
  then show ?thesis
    using feeder_never_waits [of "\<lambda>n. demo_env" demo_feeder 1000 "\<lambda>m. 20" "\<lambda>m. ConnectFailed" duo_agent demo_feeder_state] open_task
    by (simp add: demo_env_store demo_feeder_def)
qed

end
