(* ===== verification/Math_Tasks.thy ===== *)
theory Math_Tasks
  imports Sqlite "HOL-Library.State_Monad"
begin

text \<open>
  The math task factory, levels 1 to 9: \<^verbatim>\<open>math_task_factory/types.py\<close> and the generators of
  \<^verbatim>\<open>factory.py\<close>. A generator is a program of the state monad over the random numbers. Texts are lists of the
  bytes of their UTF-8 form. A float that \<^verbatim>\<open>round(x, 1)\<close> returned is the number of its tenths.
\<close>

section \<open>Tasks\<close>

record math_task =
  mt_title :: string
  mt_spec :: string
  mt_solutions :: "string list"
  mt_level :: int
  mt_problem_type :: string
  mt_solution_note :: "string option"

definition text_lines :: "string list \<Rightarrow> string" where
  "text_lines = join [CHR 0x0A]"

definition commas :: "string list \<Rightarrow> string" where
  "commas = join '', ''"

definition in_quotes :: "string \<Rightarrow> string" where
  "in_quotes s = [CHR 0x22] @ s @ [CHR 0x22]"

definition times_sign :: string where "times_sign = [CHR 0xC3, CHR 0x97]"
definition div_sign :: string where "div_sign = [CHR 0xC3, CHR 0xB7]"
definition squared :: string where "squared = [CHR 0xC2, CHR 0xB2]"
definition cubed :: string where "cubed = [CHR 0xC2, CHR 0xB3]"
definition root_sign :: string where "root_sign = [CHR 0xE2, CHR 0x88, CHR 0x9A]"
definition at_most_sign :: string where "at_most_sign = [CHR 0xE2, CHR 0x89, CHR 0xA4]"
definition dash :: string where "dash = [CHR 0xE2, CHR 0x80, CHR 0x94]"
definition arrow :: string where "arrow = [CHR 0xE2, CHR 0x86, CHR 0x92]"

text \<open>The layout all specs share.\<close>

definition spec_text :: "string \<Rightarrow> string \<Rightarrow> string \<Rightarrow> string" where
  "spec_text task format check =
     text_lines [''TASK: '' @ task, [], ''OUTPUT FORMAT: '' @ format, [], ''VERIFICATION: '' @ check]"

definition spec_text_lines :: "string \<Rightarrow> string \<Rightarrow> string list \<Rightarrow> string" where
  "spec_text_lines task format checks =
     text_lines ([''TASK: '' @ task, [], ''OUTPUT FORMAT: '' @ format, [], ''VERIFICATION:''] @ checks)"

definition make_task :: "string \<Rightarrow> string \<Rightarrow> string list \<Rightarrow> int \<Rightarrow> string \<Rightarrow> math_task" where
  "make_task t s sols lev pt =
     \<lparr>mt_title = t, mt_spec = s, mt_solutions = sols, mt_level = lev, mt_problem_type = pt, mt_solution_note = None\<rparr>"

section \<open>Random numbers\<close>

text \<open>
  \<^verbatim>\<open>random.Random\<close>: a stream of numbers read by position. Where Python raises because a range or a
  list to draw from is empty, \<open>empty_range\<close> is set, and what the program makes of it is dropped.
\<close>

record rng =
  draws :: "nat \<Rightarrow> nat"
  drawn :: nat
  empty_range :: bool

type_synonym 'a gen = "(rng, 'a) state"

abbreviation produce :: "'a \<Rightarrow> 'a gen" where
  "produce \<equiv> State_Monad.return"

definition randbelow :: "nat \<Rightarrow> nat gen" where
  "randbelow n =
     State (\<lambda>r. (draws r (drawn r) mod n, r\<lparr>drawn := Suc (drawn r), empty_range := empty_range r \<or> n = 0\<rparr>))"

definition randint :: "int \<Rightarrow> int \<Rightarrow> int gen" where
  "randint a b = do { k \<leftarrow> randbelow (nat (b - a + 1)); produce (a + int k) }"

definition choice :: "'a list \<Rightarrow> 'a gen" where
  "choice xs = do { i \<leftarrow> randbelow (length xs); produce (xs ! i) }"

primrec sample :: "'a list \<Rightarrow> nat \<Rightarrow> 'a list gen" where
  "sample xs 0 = produce []"
| "sample xs (Suc k) =
     do {
       i \<leftarrow> randbelow (length xs);
       ys \<leftarrow> sample (take i xs @ drop (Suc i) xs) k;
       produce (xs ! i # ys)
     }"

text \<open>\<^verbatim>\<open>random()\<close> is a multiple of \<open>2\<^sup>-\<^sup>5\<^sup>3\<close>; compared with a number of tenths.\<close>

definition random_below :: "nat \<Rightarrow> bool gen" where
  "random_below tenths = do { k \<leftarrow> randbelow (2 ^ 53); produce (10 * k < tenths * 2 ^ 53) }"

definition random_above :: "nat \<Rightarrow> bool gen" where
  "random_above tenths = do { k \<leftarrow> randbelow (2 ^ 53); produce (tenths * 2 ^ 53 < 10 * k) }"

primrec gather :: "nat \<Rightarrow> 'a gen \<Rightarrow> 'a list gen" where
  "gather 0 m = produce []"
| "gather (Suc n) m = do { x \<leftarrow> m; xs \<leftarrow> gather n m; produce (x # xs) }"

primrec repeatedly :: "nat \<Rightarrow> ('s \<Rightarrow> 's gen) \<Rightarrow> 's \<Rightarrow> 's gen" where
  "repeatedly 0 body s = produce s"
| "repeatedly (Suc n) body s = do { s' \<leftarrow> body s; repeatedly n body s' }"

section \<open>Numbers as text\<close>

definition number_words :: "(int, string) dict" where
  "number_words =
     zip [0..20]
       [''zero'', ''one'', ''two'', ''three'', ''four'', ''five'', ''six'', ''seven'', ''eight'', ''nine'', ''ten'',
        ''eleven'', ''twelve'', ''thirteen'', ''fourteen'', ''fifteen'', ''sixteen'', ''seventeen'', ''eighteen'',
        ''nineteen'', ''twenty'']"

definition to_text :: "int \<Rightarrow> string" where
  "to_text n = (case dget number_words n of Some w \<Rightarrow> w | None \<Rightarrow> int_text n)"

text \<open>\<^verbatim>\<open>str\<close> of a float, given its tenths or its hundredths.\<close>

definition tenths_text :: "int \<Rightarrow> string" where
  "tenths_text n = int_text (n div 10) @ ''.'' @ int_text (n mod 10)"

definition hundredths_text :: "int \<Rightarrow> string" where
  "hundredths_text n =
     (if n mod 10 = 0 then tenths_text (n div 10)
      else int_text (n div 100) @ ''.'' @ int_text (n div 10 mod 10) @ int_text (n mod 10))"

section \<open>Level 1\<close>

definition numbers_text :: "int list \<Rightarrow> string" where
  "numbers_text terms = commas (map int_text terms)"

definition gen_addition_positive :: "math_task gen" where
  "gen_addition_positive =
     do {
       n \<leftarrow> randint 2 6;
       terms \<leftarrow> gather (nat n) (randint 1 100);
       produce (make_task (''Add '' @ int_text n @ '' positive integers'')
         (spec_text (''Calculate the sum of '' @ numbers_text terms @ ''.'') ''A single integer.''
            ''Sum the numbers and compare.'')
         [int_text (sum_list terms)] 1 ''addition_positive'')
     }"

definition gen_addition_positive_text :: "math_task gen" where
  "gen_addition_positive_text =
     do {
       n \<leftarrow> randint 2 6;
       terms \<leftarrow> gather (nat n) (randint 1 100);
       produce (make_task ''Add positive integers (word problem)''
         (spec_text (''What is the sum of the following numbers: '' @ numbers_text terms @ ''?'') ''A single integer.''
            ''Add the numbers and compare.'')
         [int_text (sum_list terms)] 1 ''addition_positive_text'')
     }"

text \<open>Each of the terms is drawn only when \<^verbatim>\<open>random() > 0.1\<close>; with less than two left, both are drawn anew.\<close>

definition signed_term :: "int list \<Rightarrow> int list gen" where
  "signed_term terms =
     do {
       kept \<leftarrow> random_above 1;
       if kept then do { t \<leftarrow> randint (- 50) 50; produce (terms @ [t]) } else produce terms
     }"

definition signed_text :: "int \<Rightarrow> string" where
  "signed_text t = (if 0 \<le> t then int_text t else ''('' @ int_text t @ '')'')"

definition gen_addition_signed :: "math_task gen" where
  "gen_addition_signed =
     do {
       n \<leftarrow> randint 2 5;
       ts \<leftarrow> repeatedly (nat n) signed_term [];
       terms \<leftarrow> (if length ts < 2 then gather 2 (randint (- 20) 20) else produce ts);
       produce (make_task ''Add integers including negatives''
         (spec_text (''Calculate '' @ join '' + '' (map signed_text terms) @ ''.'') ''A single integer.''
            ''Add the numbers and compare.'')
         [int_text (sum_list terms)] 1 ''addition_signed'')
     }"

definition gen_addition_small :: "math_task gen" where
  "gen_addition_small =
     do {
       n \<leftarrow> randint 2 5;
       terms \<leftarrow> gather (nat n) (randint 1 10);
       produce (make_task ''Add small positive integers (1-10)''
         (spec_text (''Calculate the sum of '' @ numbers_text terms @ ''.'') ''A single integer.''
            ''Sum the numbers and compare.'')
         [int_text (sum_list terms)] 1 ''addition_small'')
     }"

definition gen_addition_small_text :: "math_task gen" where
  "gen_addition_small_text =
     do {
       n \<leftarrow> randint 2 5;
       terms \<leftarrow> gather (nat n) (randint 1 10);
       produce (make_task ''Add small numbers (word problem)''
         (spec_text (''Add these numbers together: '' @ commas (map to_text terms) @ ''. What is the total?'')
            ''A single integer.'' ''Sum the numbers and compare.'')
         [int_text (sum_list terms)] 1 ''addition_small_text'')
     }"

definition gen_addition_large :: "math_task gen" where
  "gen_addition_large =
     do {
       n \<leftarrow> randint 2 4;
       terms \<leftarrow> gather (nat n) (randint 1000 99999);
       produce (make_task ''Add large positive integers''
         (spec_text (''Calculate the sum of '' @ numbers_text terms @ ''.'') ''A single integer.''
            ''Sum the numbers and compare.'')
         [int_text (sum_list terms)] 1 ''addition_large'')
     }"

definition gen_addition_large_text :: "math_task gen" where
  "gen_addition_large_text =
     do {
       n \<leftarrow> randint 2 4;
       terms \<leftarrow> gather (nat n) (randint 1000 99999);
       produce (make_task ''Add large numbers (word problem)''
         (spec_text (''Find the total when you add these numbers: '' @ numbers_text terms @ ''.'') ''A single integer.''
            ''Sum the numbers and compare.'')
         [int_text (sum_list terms)] 1 ''addition_large_text'')
     }"


section \<open>Level 2\<close>

text \<open>A whole result is accepted with and without its decimal point.\<close>

definition gen_addition_float :: "math_task gen" where
  "gen_addition_float =
     do {
       n \<leftarrow> randint 2 4;
       terms \<leftarrow> gather (nat n) (randint 1 99);
       let total = sum_list terms;
       produce (make_task ''Add decimal numbers''
         (spec_text (''Calculate '' @ join '' + '' (map tenths_text terms) @ ''.'')
            ''A decimal number (e.g. 12.5 or 12.50). One decimal place is sufficient.'' ''Sum the numbers and compare.'')
         (tenths_text total # (if total mod 10 = 0 then [int_text (total div 10)] else [])) 2 ''addition_float'')
     }"

definition gen_subtraction :: "math_task gen" where
  "gen_subtraction =
     do {
       a \<leftarrow> randint 50 200;
       b \<leftarrow> randint 10 80;
       c \<leftarrow> randint 1 30;
       produce (make_task ''Subtract three numbers''
         (spec_text (''Calculate '' @ int_text a @ '' - '' @ int_text b @ '' - '' @ int_text c @ ''.'')
            ''A single integer.'' ''Perform the subtraction and compare.'')
         [int_text (a - b - c)] 2 ''subtraction'')
     }"

definition gen_multiplication :: "math_task gen" where
  "gen_multiplication =
     do {
       a0 \<leftarrow> randint (- 12) 12;
       a \<leftarrow> (if a0 = 0 then randint 1 12 else produce a0);
       b \<leftarrow> randint 1 12;
       let op = (if 0 \<le> a \<and> 0 \<le> b then times_sign else ''*'');
       produce (make_task ''Multiply two integers''
         (spec_text (''Calculate '' @ int_text a @ '' '' @ op @ '' '' @ int_text b @ ''.'') ''A single integer.''
            ''Multiply and compare.'')
         [int_text (a * b)] 2 ''multiplication'')
     }"

definition product_text :: "string \<Rightarrow> string \<Rightarrow> string" where
  "product_text a b = ''Calculate '' @ a @ '' '' @ times_sign @ '' '' @ b @ ''.''"

definition gen_multiplication_small :: "math_task gen" where
  "gen_multiplication_small =
     do {
       a \<leftarrow> randint 1 10;
       b \<leftarrow> randint 1 10;
       produce (make_task ''Multiply two small integers (1-10)''
         (spec_text (product_text (int_text a) (int_text b)) ''A single integer.'' ''Multiply and compare.'')
         [int_text (a * b)] 2 ''multiplication_small'')
     }"

definition gen_multiplication_large :: "math_task gen" where
  "gen_multiplication_large =
     do {
       a \<leftarrow> randint 100 9999;
       b \<leftarrow> randint 10 99;
       produce (make_task ''Multiply two large integers''
         (spec_text (product_text (int_text a) (int_text b)) ''A single integer.'' ''Multiply and compare.'')
         [int_text (a * b)] 2 ''multiplication_large'')
     }"

definition gen_multiplication_text :: "math_task gen" where
  "gen_multiplication_text =
     do {
       a \<leftarrow> randint 1 12;
       b \<leftarrow> randint 1 12;
       produce (make_task ''Multiply two numbers (word problem)''
         (spec_text (''What do you get when you multiply '' @ to_text a @ '' by '' @ to_text b @ ''?'')
            ''A single integer.'' ''Multiply the numbers and compare.'')
         [int_text (a * b)] 2 ''multiplication_text'')
     }"

definition gen_multiplication_float :: "math_task gen" where
  "gen_multiplication_float =
     do {
       a \<leftarrow> randint 11 99;
       b \<leftarrow> randint 11 99;
       let result = a * b;
       produce (make_task ''Multiply two decimal numbers''
         (spec_text (product_text (tenths_text a) (tenths_text b)) ''A decimal number. Up to two decimal places.''
            ''Multiply and compare.'')
         (hundredths_text result # (if result mod 100 = 0 then [int_text (result div 100)] else [])) 2
         ''multiplication_float'')
     }"

definition gen_division :: "math_task gen" where
  "gen_division =
     do {
       divisor \<leftarrow> choice [2, 3, 4, 5, 6, 8, 10, 12];
       quotient \<leftarrow> randint 5 50;
       let dividend = divisor * quotient;
       produce (make_task ''Divide two integers (exact result)''
         (spec_text (''Calculate '' @ int_text dividend @ '' '' @ div_sign @ '' '' @ int_text divisor @ ''.'')
            ''A single integer.'' ''The result must be exact (no remainder).'')
         [int_text (dividend div divisor)] 2 ''division'')
     }"

definition gen_division_float :: "math_task gen" where
  "gen_division_float =
     do {
       divisor \<leftarrow> choice [2, 4, 5, 8, 10];
       quotient \<leftarrow> randint 11 200;
       let dividend = divisor * quotient;
       let result = dividend div divisor;
       produce (make_task ''Divide two numbers (decimal result)''
         (spec_text
            (''Calculate '' @ tenths_text dividend @ '' '' @ div_sign @ '' '' @ int_text divisor @
             ''. Give the exact decimal result.'')
            ''A decimal number (e.g. 3.5). One decimal place is sufficient.''
            (''dividend '' @ div_sign @ '' divisor equals the result.''))
         (tenths_text result # (if result mod 10 = 0 then [int_text (result div 10)] else [])) 2 ''division_float'')
     }"

section \<open>Level 3\<close>

definition gen_order_of_operations :: "math_task gen" where
  "gen_order_of_operations =
     do {
       add \<leftarrow> random_below 5;
       (result, expr) \<leftarrow>
         (if add then
            do {
              b \<leftarrow> randint 2 9;
              c \<leftarrow> randint 2 9;
              a \<leftarrow> randint 1 20;
              produce (a + b * c, int_text a @ '' + '' @ int_text b @ '' '' @ times_sign @ '' '' @ int_text c)
            }
          else
            do {
              a \<leftarrow> randint 10 30;
              b \<leftarrow> randint 2 8;
              c \<leftarrow> randint 2 6;
              produce ((a - b) div c,
                    ''('' @ int_text a @ '' - '' @ int_text b @ '') '' @ div_sign @ '' '' @ int_text c)
            });
       produce (make_task ''Evaluate expression with order of operations''
         (spec_text
            (''Calculate '' @ expr @
             ''. Apply PEMDAS (parentheses, then multiplication/division, then addition/subtraction).'')
            ''A single integer.'' ''Evaluate following order of operations.'')
         [int_text result] 3 ''order_of_operations'')
     }"

definition remainder_format :: string where
  "remainder_format = ''A single non-negative integer (the remainder).''"

definition remainder_check :: "int \<Rightarrow> int \<Rightarrow> string" where
  "remainder_check dividend divisor =
     int_text dividend @ '' = q '' @ times_sign @ '' '' @ int_text divisor @ '' + result for some integer q, with 0 '' @
     at_most_sign @ '' result < '' @ int_text divisor @ ''.''"

definition gen_modulo :: "math_task gen" where
  "gen_modulo =
     do {
       divisor \<leftarrow> randint 2 20;
       quotient \<leftarrow> randint 1 100;
       remainder \<leftarrow> randint 0 (divisor - 1);
       let dividend = quotient * divisor + remainder;
       let d = int_text dividend; let q = int_text divisor;
       produce (make_task ''Calculate remainder (modulo)''
         (spec_text
            (''What is the remainder when '' @ d @ '' is divided by '' @ q @ ''? Equivalently: calculate '' @ d @
             '' mod '' @ q @ '' (or '' @ d @ '' % '' @ q @ '').'')
            remainder_format (remainder_check dividend divisor))
         [int_text (dividend mod divisor)] 3 ''modulo'')
     }"

definition gen_modulo_text :: "math_task gen" where
  "gen_modulo_text =
     do {
       divisor \<leftarrow> randint 2 20;
       quotient \<leftarrow> randint 1 100;
       remainder \<leftarrow> randint 0 (divisor - 1);
       let dividend = quotient * divisor + remainder;
       let d = int_text dividend; let q = int_text divisor;
       produce (make_task ''Find the remainder (word problem)''
         (spec_text
            (''When '' @ d @ '' is divided by '' @ q @ '', what is the remainder? In other words, if you divide '' @ d @
             '' by '' @ q @ '', how much is left over?'')
            remainder_format
            (''The remainder must be less than '' @ q @ '' and satisfy: '' @ d @ '' equals some multiple of '' @ q @
             '' plus the remainder.''))
         [int_text (dividend mod divisor)] 3 ''modulo_text'')
     }"

definition gen_modulo_large :: "math_task gen" where
  "gen_modulo_large =
     do {
       divisor \<leftarrow> randint 10 100;
       quotient \<leftarrow> randint 100 10000;
       remainder \<leftarrow> randint 0 (divisor - 1);
       let dividend = quotient * divisor + remainder;
       let d = int_text dividend; let q = int_text divisor;
       produce (make_task ''Calculate remainder (modulo) with large numbers''
         (spec_text
            (''What is the remainder when '' @ d @ '' is divided by '' @ q @ ''? Equivalently: calculate '' @ d @
             '' mod '' @ q @ ''.'')
            remainder_format (remainder_check dividend divisor))
         [int_text (dividend mod divisor)] 3 ''modulo_large'')
     }"

section \<open>Levels 4 and 5\<close>

text \<open>The value of x is accepted alone and as an equation.\<close>

definition x_solutions :: "int \<Rightarrow> string list" where
  "x_solutions x = [''x='' @ int_text x, int_text x]"

definition x_spec :: "string \<Rightarrow> string" where
  "x_spec expr =
     spec_text (''Find x such that '' @ expr @ ''.'') ''x=N where N is the integer solution, or just N.''
       ''Substitute x into the equation.''"

definition gen_single_variable_add_sub :: "math_task gen" where
  "gen_single_variable_add_sub =
     do {
       x \<leftarrow> randint 1 50;
       add \<leftarrow> random_below 5;
       b \<leftarrow> randint 1 20;
       let expr = (if add then ''x + '' @ int_text b @ '' = '' @ int_text (x + b)
                   else ''x - '' @ int_text b @ '' = '' @ int_text (x - b));
       produce (make_task ''Solve for x (addition or subtraction)'' (x_spec expr) (x_solutions x) 4
         ''single_variable_add_sub'')
     }"

definition gen_single_variable_add_sub_text :: "math_task gen" where
  "gen_single_variable_add_sub_text =
     do {
       x \<leftarrow> randint 1 50;
       add \<leftarrow> random_below 5;
       b \<leftarrow> randint 1 20;
       let c = (if add then x + b else x - b);
       let b_text = (if b \<le> 20 then to_text b else int_text b);
       let c_text = (if c \<le> 20 then to_text c else int_text c);
       produce (make_task ''Find the unknown number (word problem)''
         (spec_text
            ((if add then ''A number plus '' else ''A number minus '') @ b_text @ '' equals '' @ c_text @
             ''. What is the number?'')
            ''The number as an integer, or x=N.'' ''Substitute the answer into the sentence and check.'')
         (x_solutions x) 4 ''single_variable_add_sub_text'')
     }"

definition gen_single_variable_mul_div :: "math_task gen" where
  "gen_single_variable_mul_div =
     do {
       multiply \<leftarrow> random_below 5;
       x \<leftarrow> randint 2 20;
       a \<leftarrow> randint 2 10;
       let (x_val, expr) =
         (if multiply then (x, int_text a @ ''x = '' @ int_text (a * x))
          else (x * a, ''x '' @ div_sign @ '' '' @ int_text a @ '' = '' @ int_text x));
       produce (make_task ''Solve for x (multiplication or division)'' (x_spec expr) (x_solutions x_val) 4
         ''single_variable_mul_div'')
     }"

definition gen_single_variable_combined :: "math_task gen" where
  "gen_single_variable_combined =
     do {
       x \<leftarrow> randint 2 15;
       a \<leftarrow> randint 2 8;
       b \<leftarrow> randint 1 20;
       produce (make_task ''Solve for x in a linear equation''
         (x_spec (int_text a @ ''x + '' @ int_text b @ '' = '' @ int_text (a * x + b))) (x_solutions x) 5
         ''single_variable_combined'')
     }"


section \<open>Level 6\<close>

definition equation_text :: "int \<Rightarrow> int \<Rightarrow> int \<Rightarrow> string" where
  "equation_text a b c = int_text a @ ''x + '' @ int_text b @ ''y = '' @ int_text c"

definition system_text :: "string \<Rightarrow> string \<Rightarrow> string" where
  "system_text e1 e2 = text_lines [''Solve the system:'', ''  '' @ e1, ''  '' @ e2]"

definition coefficients :: "(int \<times> int) gen" where
  "coefficients = do { a \<leftarrow> randint 1 5; b \<leftarrow> randint 1 5; produce (a, b) }"

text \<open>The second equation is drawn until it is not proportional to the first; that may never be.\<close>

partial_function (option) redraw :: "int \<Rightarrow> int \<Rightarrow> int \<times> int \<Rightarrow> rng \<Rightarrow> ((int \<times> int) \<times> rng) option" where
  "redraw a1 b1 p r =
     (if a1 * snd p = fst p * b1 then redraw a1 b1 (fst (run_state coefficients r)) (snd (run_state coefficients r))
      else Some (p, r))"

definition system_task :: "int \<Rightarrow> int \<Rightarrow> int \<times> int \<Rightarrow> int \<times> int \<Rightarrow> math_task" where
  "system_task x y p1 p2 =
     (let (a1, b1) = p1; (a2, b2) = p2; xs = int_text x; ys = int_text y
      in make_task (''Solve a 2'' @ times_sign @ ''2 linear system'')
           (spec_text
              (system_text (equation_text a1 b1 (a1 * x + b1 * y)) (equation_text a2 b2 (a2 * x + b2 * y)))
              (''x=A, y=B or equivalent (e.g. '' @ in_quotes ''A, B'' @ '' or '' @ in_quotes ''(A, B)'' @ '').'')
              ''Substitute into both equations.'')
           [''x='' @ xs @ '', y='' @ ys, xs @ '', '' @ ys, ''('' @ xs @ '', '' @ ys @ '')''] 6 ''system_solvable'')"

definition system_draws :: "(int \<times> int \<times> (int \<times> int) \<times> int \<times> int) gen" where
  "system_draws =
     do {
       x \<leftarrow> randint 1 10;
       y \<leftarrow> randint 1 10;
       p1 \<leftarrow> coefficients;
       p2 \<leftarrow> coefficients;
       produce (x, y, p1, p2)
     }"

definition gen_system_solvable :: "rng \<Rightarrow> (math_task \<times> rng) option" where
  "gen_system_solvable r =
     (case run_state system_draws r of
        ((x, y, p1, p2), r1) \<Rightarrow>
          (case redraw (fst p1) (snd p1) p2 r1 of
             None \<Rightarrow> None
           | Some (p2', r2) \<Rightarrow> Some (system_task x y p1 p2', r2)))"

definition gen_system_unsolvable :: "math_task gen" where
  "gen_system_unsolvable =
     do {
       a \<leftarrow> randint 1 4;
       b \<leftarrow> randint 1 4;
       c1 \<leftarrow> randint 2 8;
       k \<leftarrow> randint 2 5;
       produce (make_task (''Determine if a 2'' @ times_sign @ ''2 linear system has a solution'')
         (spec_text (system_text (equation_text a b c1) (equation_text a b (c1 + k)))
            ''x=A, y=B if solvable, or NO_SOLUTION if not.'' ''The lines are parallel; there is no solution.'')
         [''NO_SOLUTION'', ''no solution'', ''none''] 6 ''system_unsolvable'')
     }"

definition gen_system_infinite :: "math_task gen" where
  "gen_system_infinite =
     do {
       a \<leftarrow> randint 1 4;
       b \<leftarrow> randint 1 4;
       c \<leftarrow> randint 2 12;
       produce ((make_task (''Solve a 2'' @ times_sign @ ''2 linear system (infinite solutions)'')
         (spec_text (system_text (equation_text a b c) (equation_text (2 * a) (2 * b) (2 * c)))
            ''x=A, y=B if unique; INFINITELY_MANY if infinitely many solutions.''
            ''The equations represent the same line.'')
         [''INFINITELY_MANY''] 6 ''system_infinite'')
         \<lparr>mt_solution_note := Some ''Any (x, y) satisfying the equation. Examples vary.''\<rparr>)
     }"

section \<open>Levels 7 and 8\<close>

definition gen_exponential :: "math_task gen" where
  "gen_exponential =
     do {
       base \<leftarrow> choice [2, 3, 4, 5];
       exp \<leftarrow> randint 2 10;
       produce (make_task ''Calculate an exponential''
         (spec_text (''Calculate '' @ int_text base @ ''^'' @ int_text exp @ ''.'') ''A single integer.''
            ''Compute the power and compare.'')
         [int_text (base ^ nat exp)] 7 ''exponential'')
     }"

definition gen_exponential_equation :: "math_task gen" where
  "gen_exponential_equation =
     do {
       base \<leftarrow> choice [2, 3];
       exp \<leftarrow> randint 2 8;
       let k = base ^ nat exp;
       produce (make_task ''Solve an exponential equation''
         (spec_text (''Find x such that '' @ int_text base @ ''^x = '' @ int_text k @ ''.'')
            ''x=N where N is the integer solution.'' (int_text base @ ''^N = '' @ int_text k @ ''.''))
         (x_solutions exp) 7 ''exponential_equation'')
     }"

text \<open>\<^verbatim>\<open>int(n ** 0.5)\<close> on small numbers: the greatest number up to a bound whose square is not above.\<close>

fun root_upto :: "nat \<Rightarrow> nat \<Rightarrow> nat" where
  "root_upto n 0 = 0"
| "root_upto n (Suc k) = (if Suc k * Suc k \<le> n then Suc k else root_upto n k)"

definition gen_square_root :: "math_task gen" where
  "gen_square_root =
     do {
       n \<leftarrow> choice [4, 9, 16, 25, 36, 49, 64, 81, 100, 121, 144, 169, 196, 225];
       produce (make_task ''Calculate a square root''
         (spec_text (''Calculate '' @ root_sign @ nat_text n @ ''.'') ''A single non-negative integer.''
            (''The result squared equals '' @ nat_text n @ ''.''))
         [nat_text (root_upto n n)] 8 ''square_root'')
     }"

definition gen_logarithm :: "math_task gen" where
  "gen_logarithm =
     do {
       base \<leftarrow> choice [2, 3, 10];
       exp \<leftarrow> randint 1 6;
       let arg = base ^ nat exp;
       produce (make_task ''Calculate a logarithm''
         (spec_text (''Calculate log_'' @ int_text base @ ''('' @ int_text arg @ '').'') ''A single integer.''
            (int_text base @ ''^result = '' @ int_text arg @ ''.''))
         [int_text exp] 8 ''logarithm'')
     }"

section \<open>Level 9\<close>

definition yes_no :: string where
  "yes_no = ''yes/no or true/false.''"

definition pick_with :: "nat list \<Rightarrow> string list \<Rightarrow> nat list \<Rightarrow> string list \<Rightarrow> (nat \<times> string list) gen" where
  "pick_with yes yes_solutions no no_solutions =
     do {
       holds \<leftarrow> random_below 5;
       if holds then do { n \<leftarrow> choice yes; produce (n, yes_solutions) } else do { n \<leftarrow> choice no; produce (n, no_solutions) }
     }"

definition prime_pick :: "(nat \<times> string list) gen" where
  "prime_pick =
     pick_with [2, 3, 5, 7, 11, 13, 17, 19, 23, 29, 31, 37, 41, 43, 47, 53, 59, 61, 67, 71, 73, 79, 83, 89, 97]
       [''yes'', ''true'', ''prime'']
       [4, 6, 8, 9, 10, 12, 14, 15, 16, 18, 20, 21, 22, 24, 25, 26, 27, 28, 30]
       [''no'', ''false'', ''composite'', ''not prime'']"

definition gen_prime_check :: "math_task gen" where
  "gen_prime_check =
     do {
       (n, sols) \<leftarrow> prime_pick;
       produce (make_task ''Check if a number is prime''
         (spec_text (''Is '' @ nat_text n @ '' a prime number? Answer yes or no.'') yes_no
            ''A prime number is greater than 1 and has no positive divisors other than 1 and itself.'')
         sols 9 ''prime_check'')
     }"

definition cube_pick :: "(nat \<times> string list) gen" where
  "cube_pick =
     pick_with [1, 8, 27, 64, 125, 216, 343, 512, 729, 1000] [''yes'', ''true'', ''cube'']
       [2, 3, 4, 5, 6, 7, 9, 10, 11, 12, 13, 14, 15, 16, 17, 18, 19, 20] [''no'', ''false'', ''not a cube'']"

definition gen_cube_check :: "math_task gen" where
  "gen_cube_check =
     do {
       (n, sols) \<leftarrow> cube_pick;
       produce (make_task ''Check if a number is a perfect cube''
         (spec_text
            (''Is '' @ nat_text n @ '' a perfect cube? In other words, does there exist an integer k such that k'' @ cubed @
             '' = '' @ nat_text n @ ''?'')
            yes_no (''A perfect cube is a number of the form k'' @ cubed @ '' for some integer k.''))
         sols 9 ''cube_check'')
     }"

definition power_pick :: "(nat \<times> string list) gen" where
  "power_pick =
     pick_with [1, 2, 4, 8, 16, 32, 64, 128, 256, 512, 1024] [''yes'', ''true'', ''power of two'']
       [3, 5, 6, 7, 9, 10, 11, 12, 13, 14, 15, 17, 18, 19, 20] [''no'', ''false'', ''not a power of two'']"

definition gen_power_of_two_check :: "math_task gen" where
  "gen_power_of_two_check =
     do {
       (n, sols) \<leftarrow> power_pick;
       produce (make_task ''Check if a number is a power of two''
         (spec_text
            (''Is '' @ nat_text n @ '' of the form 2^k for some non-negative integer k? In other words, is '' @ nat_text n @
             '' a power of two?'')
            yes_no ''Powers of two are 1, 2, 4, 8, 16, 32, ...'')
         sols 9 ''power_of_two_check'')
     }"

definition square_pick :: "(nat \<times> string list) gen" where
  "square_pick =
     pick_with [1, 4, 9, 16, 25, 36, 49, 64, 81, 100, 121, 144, 169, 196, 225] [''yes'', ''true'', ''perfect square'']
       [2, 3, 5, 6, 7, 8, 10, 11, 12, 13, 14, 15, 17, 18, 19, 20] [''no'', ''false'', ''not a perfect square'']"

definition gen_perfect_square_check :: "math_task gen" where
  "gen_perfect_square_check =
     do {
       (n, sols) \<leftarrow> square_pick;
       produce (make_task ''Check if a number is a perfect square''
         (spec_text
            (''Is '' @ nat_text n @ '' a perfect square? In other words, does there exist an integer k such that k'' @
             squared @ '' = '' @ nat_text n @ ''?'')
            yes_no (''A perfect square is a number of the form k'' @ squared @ '' for some integer k.''))
         sols 9 ''perfect_square_check'')
     }"

definition gen_division_by_zero :: "math_task gen" where
  "gen_division_by_zero =
     do {
       dividend \<leftarrow> randint 1 100;
       let d = int_text dividend;
       produce (make_task ''Division by zero''
         (spec_text (''What is '' @ d @ '' '' @ div_sign @ '' 0? In other words, '' @ d @ '' divided by zero.'')
            ''The result, or indicate that the operation is undefined/not defined.''
            (''Division by zero is undefined in standard arithmetic. There is no number that equals '' @ d @ '' '' @
             div_sign @ '' 0.''))
         [''undefined'', ''not defined'', ''division by zero'', ''error'', ''NaN'', ''undefined (division by zero)''] 9
         ''division_by_zero'')
     }"

end
