(* ===== verification/Math_Chains.thy ===== *)
theory Math_Chains
  imports Math_Tasks
begin

text \<open>
  The generators of levels 10, 11 and 15, \<^verbatim>\<open>generators/chains.py\<close>, \<^verbatim>\<open>state_tracking.py\<close> and \<^verbatim>\<open>combined.py\<close>: a
  loop over randomly chosen operations keeps the value and the list of the steps as they are told.
\<close>

definition numbered :: "string list \<Rightarrow> string" where
  "numbered steps = text_lines (map (\<lambda>(i, s). ''  '' @ nat_text (Suc i) @ ''. '' @ s) (enumerate 0 steps))"

type_synonym running = "int \<times> string list"

section \<open>Level 10: chains\<close>

definition chain_divisors :: "int \<Rightarrow> int list" where
  "chain_divisors n = filter (\<lambda>d. n \<noteq> 0) [2, 3, 4, 5, 7]"

definition chain_arithmetic_step :: "running \<Rightarrow> running gen" where
  "chain_arithmetic_step s =
     (let (total, steps) = s
      in do {
           op \<leftarrow> choice [''add'', ''subtract'', ''multiply'', ''divide''];
           if op = ''add'' then
             do { v \<leftarrow> randint 10 500; produce (total + v, steps @ [''Add '' @ int_text v @ ''.'']) }
           else if op = ''subtract'' then
             do {
               v \<leftarrow> randint 10 (min 300 (\<bar>total\<bar> + 100));
               produce (total - v, steps @ [''Subtract '' @ int_text v @ ''.''])
             }
           else if op = ''multiply'' then
             do { v \<leftarrow> randint 2 5; produce (total * v, steps @ [''Multiply by '' @ int_text v @ ''.'']) }
           else if chain_divisors total = [] then
             do { v \<leftarrow> randint 10 100; produce (total + v, steps @ [''Add '' @ int_text v @ ''.'']) }
           else
             do {
               v \<leftarrow> choice (chain_divisors total);
               produce (total div v,
                     steps @ [''Divide by '' @ int_text v @ '' (integer division, round toward zero).''])
             }
         })"

definition start_text :: "int \<Rightarrow> string list" where
  "start_text n = [''Start with '' @ int_text n @ ''.'']"

definition gen_chain_arithmetic :: "math_task gen" where
  "gen_chain_arithmetic =
     do {
       num_ops \<leftarrow> randint 5 8;
       start \<leftarrow> randint 100 999;
       (total, steps) \<leftarrow> repeatedly (nat num_ops) chain_arithmetic_step (start, start_text start);
       produce (make_task ''Chain arithmetic operations''
         (spec_text
            (text_lines
               [''Perform the following operations in sequence, keeping a running total:'', numbered steps, [],
                ''What is the final result?''])
            ''A single integer.'' ''Apply each operation sequentially from the starting value.'')
         [int_text total] 10 ''chain_arithmetic'')
     }"

definition chain_percentage_step :: "running \<Rightarrow> running gen" where
  "chain_percentage_step s =
     (let (total, steps) = s
      in do {
           increase \<leftarrow> random_below 5;
           pct \<leftarrow> choice [5, 8, 10, 12, 15, 20, 25];
           let change = total * pct div 100;
           let p = int_text pct @ ''%'';
           produce
             (if increase then
                (total + change,
                 steps @ [''Increase by '' @ p @ '' (compute '' @ p @ '' of current value using '' @
                          ''integer division, then add it).''])
              else
                (total - change,
                 steps @ [''Decrease by '' @ p @ '' (compute '' @ p @ '' of current value using '' @
                          ''integer division, then subtract it).'']))
         })"

definition gen_chain_percentage :: "math_task gen" where
  "gen_chain_percentage =
     do {
       num_ops \<leftarrow> randint 3 5;
       start \<leftarrow> randint 1000 9999;
       (total, steps) \<leftarrow> repeatedly (nat num_ops) chain_percentage_step (start, start_text start);
       produce (make_task ''Chain percentage operations''
         (spec_text
            (text_lines
               [''Perform the following percentage operations in sequence:'', numbered steps, [],
                ''Important: At each step, compute the percentage of the CURRENT value using'',
                ''integer division (floor toward zero), then add or subtract it.'', [],
                ''What is the final result?''])
            ''A single integer.'' ''Apply each percentage operation step by step, rounding down at each step.'')
         [int_text total] 10 ''chain_percentage'')
     }"

definition chain_remainder_step :: "running \<Rightarrow> running gen" where
  "chain_remainder_step s =
     (let (total, steps) = s
      in do {
           op \<leftarrow> choice [''mod'', ''multiply'', ''add''];
           if op = ''mod'' then
             do {
               v \<leftarrow> randint 11 50;
               produce (total mod v,
                     steps @ [''Take modulo '' @ int_text v @ '' (remainder when divided by '' @ int_text v @ '').''])
             }
           else if op = ''multiply'' then
             do { v \<leftarrow> randint 3 20; produce (total * v, steps @ [''Multiply by '' @ int_text v @ ''.'']) }
           else
             do { v \<leftarrow> randint 5 100; produce (total + v, steps @ [''Add '' @ int_text v @ ''.'']) }
         })"

definition gen_chain_remainder :: "math_task gen" where
  "gen_chain_remainder =
     do {
       start \<leftarrow> randint 500 2000;
       num_ops \<leftarrow> randint 4 6;
       (total, steps) \<leftarrow> repeatedly (nat num_ops) chain_remainder_step (start, start_text start);
       produce (make_task ''Chain arithmetic with modulo''
         (spec_text
            (text_lines
               [''Perform the following operations in sequence:'', numbered steps, [], ''What is the final result?''])
            ''A single non-negative integer.'' ''Apply each operation sequentially from the starting value.'')
         [int_text total] 10 ''chain_remainder'')
     }"

section \<open>Level 11: tracking a state\<close>

type_synonym stocks = "(string, int) dict"

abbreviation amount_at :: "stocks \<Rightarrow> string \<Rightarrow> int" where
  "amount_at stock k \<equiv> dget_or stock k 0"

definition add_at :: "stocks \<Rightarrow> string \<Rightarrow> int \<Rightarrow> stocks" where
  "add_at stock k n = dput stock k (amount_at stock k + n)"

definition floor_names :: "string list" where
  "floor_names = [''Floor A'', ''Floor B'', ''Floor C'', ''Floor D'', ''Floor E'']"

definition receive_text :: "int \<Rightarrow> string \<Rightarrow> string" where
  "receive_text n k = ''Receive a shipment of '' @ int_text n @ '' units on '' @ k @ ''.''"

definition warehouse_step :: "string list \<Rightarrow> stocks \<times> string list \<Rightarrow> (stocks \<times> string list) gen" where
  "warehouse_step floors s =
     (let (stock, ops) = s
      in do {
           op \<leftarrow> choice [''receive'', ''ship'', ''transfer''];
           if op = ''receive'' then
             do {
               k \<leftarrow> choice floors;
               amount \<leftarrow> randint 50 300;
               produce (add_at stock k amount, ops @ [receive_text amount k])
             }
           else if op = ''ship'' then
             do {
               k \<leftarrow> choice floors;
               pct \<leftarrow> choice [10, 15, 20, 25, 30];
               let shipped = amount_at stock k * pct div 100;
               produce (add_at stock k (- shipped),
                     ops @ [''Ship '' @ int_text pct @ ''% of '' @ k @ [CHR 0x27] @ ''s inventory (integer division = '' @
                            int_text shipped @ '' units).''])
             }
           else
             do {
               pair \<leftarrow> sample floors 2;
               let src = pair ! 0;
               let dst = pair ! 1;
               let max_transfer = min 200 (amount_at stock src);
               if max_transfer < 20 then
                 do { amount \<leftarrow> randint 50 300; produce (add_at stock dst amount, ops @ [receive_text amount dst]) }
               else
                 do {
                   amount \<leftarrow> randint 20 max_transfer;
                   produce (add_at (add_at stock src (- amount)) dst amount,
                         ops @ [''Transfer '' @ int_text amount @ '' units from '' @ src @ '' to '' @ dst @ ''.''])
                 }
             }
         })"

definition gen_warehouse_inventory :: "math_task gen" where
  "gen_warehouse_inventory =
     do {
       num_floors \<leftarrow> randint 3 5;
       let floors = take (nat num_floors) floor_names;
       amounts \<leftarrow> gather (length floors) (randint 100 999);
       let stock0 = zip floors amounts;
       num_ops \<leftarrow> randint 3 5;
       (stock, ops) \<leftarrow> repeatedly (nat num_ops) (warehouse_step floors) (stock0, []);
       in_total \<leftarrow> random_below 5;
       (answer, question) \<leftarrow>
         (if in_total then produce (sum_list (dvals stock), ''What is the TOTAL inventory across all floors?'')
          else do { k \<leftarrow> choice floors; produce (amount_at stock k, ''How many units are on '' @ k @ ''?'') });
       produce (make_task ''Warehouse inventory tracking''
         (spec_text
            (text_lines
               [''A warehouse has '' @ int_text num_floors @ '' floors with initial inventory:'',
                ''  '' @ commas (map (\<lambda>(k, n). k @ '': '' @ int_text n @ '' units'') stock0), [],
                ''The following operations occur in order:'', numbered ops, [], question])
            ''A single integer.'' (''Track each floor'' @ [CHR 0x27] @ ''s inventory through every operation.''))
         [int_text answer] 11 ''warehouse_inventory'')
     }"

definition account_names :: "string list" where
  "account_names = [''Account Alpha'', ''Account Beta'', ''Account Gamma'', ''Account Delta'']"

definition deposit_step :: "stocks \<Rightarrow> string list \<Rightarrow> string \<Rightarrow> (stocks \<times> string list) gen" where
  "deposit_step bal ops k =
     do {
       amount \<leftarrow> randint 100 2000;
       produce (add_at bal k amount, ops @ [''Deposit $'' @ int_text amount @ '' into '' @ k @ ''.''])
     }"

definition bank_step :: "string list \<Rightarrow> stocks \<times> string list \<Rightarrow> (stocks \<times> string list) gen" where
  "bank_step accounts s =
     (let (bal, ops) = s
      in do {
           op \<leftarrow> choice [''deposit'', ''withdraw'', ''interest'', ''transfer''];
           if op = ''deposit'' then do { k \<leftarrow> choice accounts; deposit_step bal ops k }
           else if op = ''withdraw'' then
             do {
               k \<leftarrow> choice accounts;
               let max_withdraw = min 1000 (amount_at bal k);
               if max_withdraw < 50 then deposit_step bal ops k
               else
                 do {
                   amount \<leftarrow> randint 50 max_withdraw;
                   produce (add_at bal k (- amount), ops @ [''Withdraw $'' @ int_text amount @ '' from '' @ k @ ''.''])
                 }
             }
           else if op = ''interest'' then
             do {
               k \<leftarrow> choice accounts;
               rate \<leftarrow> choice [2, 3, 5, 8, 10];
               produce (add_at bal k (amount_at bal k * rate div 100),
                     ops @ [''Apply '' @ int_text rate @ ''% interest to '' @ k @ '' (integer division, round down).''])
             }
           else
             do {
               pair \<leftarrow> sample accounts 2;
               let src = pair ! 0;
               let dst = pair ! 1;
               let max_transfer = min 1500 (amount_at bal src);
               if max_transfer < 100 then deposit_step bal ops dst
               else
                 do {
                   amount \<leftarrow> randint 100 max_transfer;
                   produce (add_at (add_at bal src (- amount)) dst amount,
                         ops @ [''Transfer $'' @ int_text amount @ '' from '' @ src @ '' to '' @ dst @ ''.''])
                 }
             }
         })"

definition gen_bank_transactions :: "math_task gen" where
  "gen_bank_transactions =
     do {
       num_accounts \<leftarrow> randint 3 4;
       let accounts = take (nat num_accounts) account_names;
       amounts \<leftarrow> gather (length accounts) (randint 1000 9999);
       let bal0 = zip accounts amounts;
       num_ops \<leftarrow> randint 4 6;
       (bal, ops) \<leftarrow> repeatedly (nat num_ops) (bank_step accounts) (bal0, []);
       k \<leftarrow> choice accounts;
       produce (make_task ''Bank account transactions''
         (spec_text
            (text_lines
               [''There are '' @ int_text num_accounts @ '' bank accounts with initial balances:'',
                ''  '' @ commas (map (\<lambda>(k, n). k @ '': $'' @ int_text n) bal0), [],
                ''The following transactions occur in order:'', numbered ops, [],
                ''What is the final balance of '' @ k @ ''?''])
            ''A single integer (dollar amount, no $ sign).''
            (''Track each account'' @ [CHR 0x27] @ ''s balance through every transaction.''))
         [int_text (amount_at bal k)] 11 ''bank_transactions'')
     }"

definition stage_names :: "string list" where
  "stage_names = [''Stage 1 (Cutting)'', ''Stage 2 (Assembly)'', ''Stage 3 (Quality Check)'', ''Stage 4 (Finishing)'']"

definition stage_output :: "int \<Rightarrow> int \<Rightarrow> int \<Rightarrow> int" where
  "stage_output current yield_pct defect_pct =
     (let after_yield = current * yield_pct div 100 in after_yield - after_yield * defect_pct div 100)"

primrec pipeline :: "string list \<Rightarrow> int \<times> string list \<Rightarrow> (int \<times> string list) gen" where
  "pipeline [] s = produce s"
| "pipeline (name # names) s =
     do {
       yield_pct \<leftarrow> choice [80, 85, 88, 90, 92, 95];
       defect_pct \<leftarrow> choice [2, 3, 5, 8, 10];
       pipeline names
         (stage_output (fst s) yield_pct defect_pct,
          snd s @ [name @ '': '' @ int_text yield_pct @ ''% yield (integer division), '' @
                   ''then '' @ int_text defect_pct @ ''% defect rate (integer division, defective items removed).''])
     }"

definition gen_production_pipeline :: "math_task gen" where
  "gen_production_pipeline =
     do {
       num_stages \<leftarrow> randint 3 4;
       raw_input \<leftarrow> randint 500 5000;
       (current, stages) \<leftarrow> pipeline (take (nat num_stages) stage_names) (raw_input, []);
       produce (make_task ''Production pipeline output''
         (spec_text
            (text_lines
               [''A factory starts with '' @ int_text raw_input @ '' raw units and processes them'',
                ''through '' @ int_text num_stages @ '' stages:'', numbered stages, [], ''At each stage:'',
                ''  - First compute the yield: multiply current count by yield percentage'',
                ''    using integer division.'',
                ''  - Then compute defects: multiply the yield result by defect percentage'',
                ''    using integer division. Subtract defects from the yield result.'', [],
                ''How many finished units come out at the end?''])
            ''A single integer.'' ''Track the count through each stage, applying integer division at each step.'')
         [int_text current] 11 ''production_pipeline'')
     }"

section \<open>Level 15: combinations\<close>

definition combined_chain_step :: "running \<Rightarrow> running gen" where
  "combined_chain_step s =
     (let (total, ops) = s
      in do {
           op \<leftarrow> choice [''add'', ''multiply''];
           if op = ''add'' then
             do { v \<leftarrow> randint 20 200; produce (total + v, ops @ [''Add '' @ int_text v @ ''.'']) }
           else do { v \<leftarrow> randint 2 5; produce (total * v, ops @ [''Multiply by '' @ int_text v @ ''.'']) }
         })"

definition gen_combined_chain_constraint :: "math_task gen" where
  "gen_combined_chain_constraint =
     do {
       start \<leftarrow> randint 100 500;
       num_ops \<leftarrow> randint 3 4;
       (total, ops) \<leftarrow> repeatedly (nat num_ops) combined_chain_step (start, []);
       threshold \<leftarrow> randint 500 2000;
       mod_a \<leftarrow> randint 7 19;
       mod_b \<leftarrow> randint 11 23;
       let above = threshold < total;
       let chosen_mod = (if above then mod_a else mod_b);
       let branch = (if above then ''the result exceeds '' @ int_text threshold
                     else ''the result is '' @ int_text threshold @ '' or less'');
       let after_mod = total mod chosen_mod;
       final_mult \<leftarrow> randint 3 12;
       final_add \<leftarrow> randint 10 100;
       let result = after_mod * final_mult + final_add;
       produce (make_task ''Combined chain + constraint''
         (spec_text_lines
            (text_lines
               [''Perform the following computation:'', [],
                ''Phase 1 '' @ dash @ '' Chain arithmetic (starting with '' @ int_text start @ ''):'', numbered ops, [],
                ''Phase 2 '' @ dash @ '' Constraint check:'',
                ''  - If '' @ branch @ '', take modulo '' @ int_text chosen_mod @ ''.'',
                ''  - Otherwise, take modulo '' @ int_text (if above then mod_b else mod_a) @ ''.'', [],
                ''Phase 3 '' @ dash @ '' Final computation:'',
                ''  - Multiply the Phase 2 result by '' @ int_text final_mult @ ''.'',
                ''  - Add '' @ int_text final_add @ ''.'', [], ''What is the final result?''])
            ''A single integer.''
            [''  - After Phase 1: '' @ int_text total,
                ''  - Phase 2 ('' @ branch @ ''): '' @ int_text total @ '' mod '' @ int_text chosen_mod @ '' = '' @
                int_text after_mod,
                ''  - Phase 3: '' @ int_text after_mod @ '' * '' @ int_text final_mult @ '' + '' @ int_text final_add @
                '' = '' @ int_text result])
         [int_text result] 15 ''combined_chain_constraint'')
     }"

definition entity_names :: "string list" where
  "entity_names = [''Warehouse A'', ''Warehouse B'', ''Warehouse C'', ''Warehouse D'', ''Warehouse E'']"

definition add_step :: "int \<Rightarrow> stocks \<Rightarrow> string list \<Rightarrow> string \<Rightarrow> (stocks \<times> string list) gen" where
  "add_step most st ops k =
     do {
       v \<leftarrow> randint 1000 most;
       produce (add_at st k v, ops @ [''Add '' @ int_text v @ '' to '' @ k @ ''.''])
     }"

definition state_step :: "string list \<Rightarrow> stocks \<times> string list \<Rightarrow> (stocks \<times> string list) gen" where
  "state_step entities s =
     (let (st, ops) = s
      in do {
           op \<leftarrow> choice [''add'', ''subtract'', ''transfer'', ''percentage''];
           if op = ''add'' then do { k \<leftarrow> choice entities; add_step 20000 st ops k }
           else if op = ''subtract'' then
             do {
               k \<leftarrow> choice entities;
               let max_sub = min 15000 (amount_at st k - 1000);
               if max_sub < 1000 then add_step 5000 st ops k
               else
                 do {
                   v \<leftarrow> randint 1000 max_sub;
                   produce (add_at st k (- v), ops @ [''Remove '' @ int_text v @ '' from '' @ k @ ''.''])
                 }
             }
           else if op = ''transfer'' then
             do {
               pair \<leftarrow> sample entities 2;
               let src = pair ! 0;
               let dst = pair ! 1;
               let max_transfer = min 10000 (amount_at st src - 1000);
               if max_transfer < 1000 then add_step 5000 st ops dst
               else
                 do {
                   v \<leftarrow> randint 1000 max_transfer;
                   produce (add_at (add_at st src (- v)) dst v,
                         ops @ [''Transfer '' @ int_text v @ '' from '' @ src @ '' to '' @ dst @ ''.''])
                 }
             }
           else
             do {
               k \<leftarrow> choice entities;
               pct \<leftarrow> choice [5, 10, 15, 20];
               produce (add_at st k (amount_at st k * pct div 100),
                     ops @ [''Increase '' @ k @ '' by '' @ int_text pct @
                            ''% (integer division for the increase amount).''])
             }
         })"

definition gen_combined_state_large :: "math_task gen" where
  "gen_combined_state_large =
     do {
       num_entities \<leftarrow> randint 5 5;
       let entities = take (nat num_entities) entity_names;
       amounts \<leftarrow> gather (length entities) (randint 10000 99999);
       let st0 = zip entities amounts;
       num_ops \<leftarrow> randint 5 7;
       (st, ops) \<leftarrow> repeatedly (nat num_ops) (state_step entities) (st0, []);
       in_total \<leftarrow> random_below 4;
       (answer, question) \<leftarrow>
         (if in_total then produce (sum_list (dvals st), ''What is the TOTAL across all warehouses?'')
          else do { k \<leftarrow> choice entities; produce (amount_at st k, ''What is the final count at '' @ k @ ''?'') });
       produce (make_task ''Large-scale state tracking''
         (spec_text
            (text_lines
               [''There are '' @ int_text num_entities @ '' warehouses with initial stock:'',
                ''  '' @ commas (map (\<lambda>(k, n). k @ '': '' @ int_text n) st0), [],
                ''The following operations occur in order:'', numbered ops, [], question])
            ''A single integer.''
            (text_lines
               [''Track each warehouse'' @ [CHR 0x27] @ ''s count through every operation, using integer'',
                ''division where percentage calculations are involved.'']))
         [int_text answer] 15 ''combined_state_large'')
     }"

definition gen_combined_conditional_chain :: "math_task gen" where
  "gen_combined_conditional_chain =
     do {
       a \<leftarrow> randint 10 100;
       b \<leftarrow> randint 10 100;
       c \<leftarrow> randint 10 100;
       let intermediate_1 = a * b + c;
       threshold_1 \<leftarrow> randint 200 800;
       add_val \<leftarrow> randint 50 300;
       sub_val \<leftarrow> randint 20 150;
       let above_1 = threshold_1 < intermediate_1;
       let phase_2 = (if above_1 then intermediate_1 + add_val else intermediate_1 - sub_val);
       mult \<leftarrow> randint 2 6;
       let phase_3 = phase_2 * mult;
       threshold_2 \<leftarrow> randint 1000 5000;
       mod_val \<leftarrow> randint 13 37;
       div_val \<leftarrow> choice [2, 3, 4, 5];
       let above_2 = threshold_2 < phase_3;
       let result = (if above_2 then phase_3 mod mod_val else phase_3 div div_val);
       let said = (\<lambda>above. if above then ''greater'' else ''not greater'');
       let op_2 = (if above_2 then ''modulo '' @ int_text mod_val else ''integer division by '' @ int_text div_val);
       produce (make_task ''Multi-branch conditional chain''
         (spec_text_lines
            (text_lines
               [''Perform the following multi-phase computation:'', [],
                ''Phase 1: Compute '' @ int_text a @ '' * '' @ int_text b @ '' + '' @ int_text c @ ''.'', [],
                ''Phase 2: Check the Phase 1 result:'',
                ''  - If GREATER than '' @ int_text threshold_1 @ '': add '' @ int_text add_val @ ''.'',
                ''  - If '' @ int_text threshold_1 @ '' or less: subtract '' @ int_text sub_val @ ''.'', [],
                ''Phase 3: Multiply the Phase 2 result by '' @ int_text mult @ ''.'', [],
                ''Phase 4: Check the Phase 3 result:'',
                ''  - If GREATER than '' @ int_text threshold_2 @ '': take modulo '' @ int_text mod_val @ ''.'',
                ''  - If '' @ int_text threshold_2 @ '' or less: integer-divide by '' @ int_text div_val @ ''.'', [],
                ''What is the final result?''])
            ''A single integer.''
            [''  - Phase 1: '' @ int_text a @ '' * '' @ int_text b @ '' + '' @ int_text c @ '' = '' @
                int_text intermediate_1,
                ''  - Phase 2: '' @ int_text intermediate_1 @ '' is '' @ said above_1 @ '' than '' @
                int_text threshold_1 @ '' '' @ arrow @ '' '' @ int_text phase_2,
                ''  - Phase 3: '' @ int_text phase_2 @ '' * '' @ int_text mult @ '' = '' @ int_text phase_3,
                ''  - Phase 4: '' @ int_text phase_3 @ '' is '' @ said above_2 @ '' than '' @ int_text threshold_2 @
                '' '' @ arrow @ '' '' @ op_2 @ '' = '' @ int_text result])
         [int_text result] 15 ''combined_conditional_chain'')
     }"

end
