(* ===== verification/Math_Puzzles.thy ===== *)
theory Math_Puzzles
  imports Math_Tasks
begin

text \<open>
  The generators of levels 12 to 14, \<^verbatim>\<open>generators/constraints.py\<close>, \<^verbatim>\<open>word_problems.py\<close> and
  \<^verbatim>\<open>large_arithmetic.py\<close>. What the constraint puzzles draw is kept apart from how they are told.
\<close>

section \<open>Level 12: numbers\<close>

definition digit_sum :: "int \<Rightarrow> int" where
  "digit_sum n = sum_list (map digit_value (int_text n))"

text \<open>\<^verbatim>\<open>[d for d in ds if n \% d == 0] or [1]\<close>\<close>

definition divisors_or_one :: "int list \<Rightarrow> int \<Rightarrow> int list" where
  "divisors_or_one ds n = (let found = filter (\<lambda>d. n mod d = 0) ds in if found = [] then [1] else found)"

record puzzle_numbers =
  np_answer :: int
  np_divisor :: int
  np_mod_base :: int
  np_lo :: int
  np_hi :: int

definition number_puzzle :: "puzzle_numbers gen" where
  "number_puzzle =
     do {
       answer0 \<leftarrow> randint 100 500;
       divisor0 \<leftarrow> choice (divisors_or_one [3, 4, 5, 6, 7, 8, 9] answer0);
       (answer, divisor) \<leftarrow>
         (if divisor0 = 1 then do { d \<leftarrow> choice [3, 5, 7]; produce (answer0 - answer0 mod d, d) }
          else produce (answer0, divisor0));
       mod_base \<leftarrow> choice (filter (\<lambda>d. d \<noteq> divisor) [11, 13, 17, 19]);
       below \<leftarrow> randint 50 150;
       above \<leftarrow> randint 50 150;
       produce \<lparr>np_answer = answer, np_divisor = divisor, np_mod_base = mod_base, np_lo = max 1 (answer - below),
             np_hi = answer + above\<rparr>
     }"

definition number_task :: "puzzle_numbers \<Rightarrow> math_task" where
  "number_task p =
     make_task ''Find a number satisfying constraints''
       (spec_text
          (text_lines
             [''Find a number between '' @ int_text (np_lo p) @ '' and '' @ int_text (np_hi p) @
              '' (inclusive) that satisfies ALL of the'',
              ''following constraints:'', ''  - The number is divisible by '' @ int_text (np_divisor p) @ ''.'',
              ''  - When divided by '' @ int_text (np_mod_base p) @ '', the remainder is '' @
              int_text (np_answer p mod np_mod_base p) @ ''.'',
              ''  - The sum of its digits is '' @ int_text (digit_sum \<bar>np_answer p\<bar>) @ ''.''])
          ''A single integer.'' ''Check each constraint against the answer.'')
       [int_text (np_answer p)] 12 ''number_constraints''"

definition gen_number_constraints :: "math_task gen" where
  "gen_number_constraints = do { p \<leftarrow> number_puzzle; produce (number_task p) }"

section \<open>Level 12: schedules\<close>

record project =
  pj_labels :: "string list"
  pj_durations :: "(string, int) dict"
  pj_deps :: "(string, string list) dict"

definition duration_of :: "project \<Rightarrow> string \<Rightarrow> int" where
  "duration_of p t = dget_or (pj_durations p) t 0"

definition deps_of :: "project \<Rightarrow> string \<Rightarrow> string list" where
  "deps_of p t = dget_or (pj_deps p) t []"

definition draw_deps :: "string list \<Rightarrow> nat \<Rightarrow> (string \<times> string list) gen" where
  "draw_deps labels i =
     do {
       k \<leftarrow> randint 1 (min 2 (int i));
       ds \<leftarrow> sample (take i labels) (nat k);
       produce (labels ! i, ds)
     }"

definition draw_project :: "string list \<Rightarrow> project gen" where
  "draw_project labels =
     do {
       durations \<leftarrow> gather (length labels) (randint 1 8);
       deps \<leftarrow> State_Monad.traverse_list (draw_deps labels) [1..<length labels];
       produce \<lparr>pj_labels = labels, pj_durations = zip labels durations, pj_deps = (labels ! 0, []) # deps\<rparr>
     }"

definition project_draws :: "project gen" where
  "project_draws = do { num_tasks \<leftarrow> randint 5 7; draw_project (map (\<lambda>i. [char_of (65 + i)]) [0..<nat num_tasks]) }"

text \<open>\<^verbatim>\<open>max\<close> of a list that is not empty.\<close>

fun max_of :: "int list \<Rightarrow> int" where
  "max_of [] = 0"
| "max_of (n # ns) = fold max ns n"

definition start_next :: "project \<Rightarrow> string \<Rightarrow> (string, int) dict \<Rightarrow> (string, int) dict" where
  "start_next p t starts =
     dput starts t
       (if deps_of p t = [] then 0 else max_of (map (\<lambda>d. dget_or starts d 0 + duration_of p d) (deps_of p t)))"

definition earliest_start :: "project \<Rightarrow> (string, int) dict" where
  "earliest_start p = fold (start_next p) (pj_labels p) []"

definition earliest_finish :: "project \<Rightarrow> int" where
  "earliest_finish p = max_of (map (\<lambda>t. dget_or (earliest_start p) t 0 + duration_of p t) (pj_labels p))"

definition project_task :: "project \<Rightarrow> math_task" where
  "project_task p =
     make_task ''Project scheduling (critical path)''
       (spec_text
          (text_lines
             [''A project has '' @ nat_text (length (pj_labels p)) @ '' tasks. Each task has a duration and may depend'',
              ''on other tasks (a task cannot start until all its dependencies are finished).'',
              ''Tasks with no shared dependency can run in parallel.'', [],
              text_lines
                (map (\<lambda>t. ''  - Task '' @ t @ '': duration = '' @ int_text (duration_of p t) @ '' hours, '' @
                          ''depends on: '' @ (if deps_of p t = [] then ''none'' else commas (deps_of p t)))
                   (pj_labels p)),
              [], ''What is the earliest time (in hours) at which ALL tasks can be completed?''])
          ''A single integer (number of hours).''
          ''Find the critical path (longest dependency chain) through the DAG.'')
       [int_text (earliest_finish p)] 12 ''scheduling_constraints''"

definition gen_scheduling_constraints :: "math_task gen" where
  "gen_scheduling_constraints = do { p \<leftarrow> project_draws; produce (project_task p) }"

section \<open>Level 12: allocations\<close>

record allocation =
  al_bins :: "(string, int) dict"
  al_bounds :: "(int \<times> int) list"
  al_target :: string
  al_divisor :: int

definition draw_bounds :: "int \<Rightarrow> (int \<times> int) gen" where
  "draw_bounds v = do { below \<leftarrow> randint 5 15; above \<leftarrow> randint 5 15; produce (max 0 (v - below), v + above) }"

definition allocation_draws :: "allocation gen" where
  "allocation_draws =
     do {
       num_bins \<leftarrow> randint 3 4;
       let names = map (\<lambda>i. ''Bin '' @ [char_of (65 + i)]) [0..<nat num_bins];
       amounts \<leftarrow> gather (length names) (randint 10 80);
       let bins = zip names amounts;
       bounds \<leftarrow> State_Monad.traverse_list draw_bounds amounts;
       target \<leftarrow> choice names;
       let v = dget_or bins target 0;
       divisor \<leftarrow> choice (divisors_or_one [2, 3, 5] v);
       produce
         (if divisor = 1 then
            \<lparr>al_bins = dput bins target (v - v mod 2), al_bounds = bounds, al_target = target, al_divisor = 2\<rparr>
          else \<lparr>al_bins = bins, al_bounds = bounds, al_target = target, al_divisor = divisor\<rparr>)
     }"

definition allocation_text :: "allocation \<Rightarrow> string" where
  "allocation_text a = commas (map (\<lambda>(k, n). k @ '': '' @ int_text n) (al_bins a))"

definition allocation_task :: "allocation \<Rightarrow> math_task" where
  "allocation_task a =
     (let tot = int_text (sum_list (dvals (al_bins a)))
      in make_task ''Item allocation with constraints''
           (spec_text
              (text_lines
                 ([''Distribute exactly '' @ tot @ '' items across '' @ nat_text (length (al_bins a)) @ '' bins'',
                   ''subject to these constraints:''] @
                  map (\<lambda>(k, lo, hi). ''  - '' @ k @ '': between '' @ int_text lo @ '' and '' @ int_text hi @
                                     '' items (inclusive).'')
                    (zip (map fst (al_bins a)) (al_bounds a)) @
                  [''  - '' @ al_target a @ '' must hold a number of items divisible by '' @ int_text (al_divisor a) @ ''.'',
                   [], ''Provide the number of items in each bin.'']))
              (commas (map (\<lambda>(k, n). k @ '': N'') (al_bins a)) @ '' (e.g. '' @ in_quotes (allocation_text a) @ '')'')
              (''Check that the total equals '' @ tot @ '' and all constraints are satisfied.''))
           [allocation_text a] 12 ''allocation_constraints'')"

definition gen_allocation_constraints :: "math_task gen" where
  "gen_allocation_constraints = do { a \<leftarrow> allocation_draws; produce (allocation_task a) }"


section \<open>Level 13: word problems\<close>

definition percent_of :: "int \<Rightarrow> int \<Rightarrow> int" where
  "percent_of n pct = n * pct div 100"

definition gen_multi_step_word :: "math_task gen" where
  "gen_multi_step_word =
     do {
       items \<leftarrow> randint 100 300;
       cost \<leftarrow> randint 5 25;
       let total_cost = items * cost;
       sell_pct \<leftarrow> choice [50, 55, 60, 65, 70, 75];
       markup_pct \<leftarrow> choice [20, 25, 30, 40, 50];
       discount_pct \<leftarrow> choice [15, 20, 25, 30];
       let sold_full = percent_of items sell_pct;
       let remaining = items - sold_full;
       let sell_price = percent_of cost (100 + markup_pct);
       let revenue_full = sold_full * sell_price;
       let discount_price = percent_of sell_price (100 - discount_pct);
       let revenue_discount = remaining * discount_price;
       let total_revenue = revenue_full + revenue_discount;
       let profit = total_revenue - total_cost;
       produce (make_task ''Multi-step business word problem''
         (spec_text_lines
            (text_lines
               [''A store buys '' @ int_text items @ '' items at $'' @ int_text cost @ '' each.'', [],
                ''Step 1: They sell '' @ int_text sell_pct @ ''% of the items (using integer division for the count)'',
                ''at a '' @ int_text markup_pct @ ''% markup over cost (compute marked-up price using integer division).'',
                [],
                ''Step 2: The remaining items are sold at a '' @ int_text discount_pct @ ''% discount off the'',
                ''marked-up price (compute discounted price using integer division).'', [],
                ''Step 3: Calculate total revenue (full-price sales + discounted sales) minus'', ''total cost.'', [],
                ''What is the profit (or loss)?''])
            ''A single integer (positive for profit, negative for loss).''
            [''  - Total cost = '' @ int_text items @ '' * '' @ int_text cost @ '' = '' @ int_text total_cost,
             ''  - Items at full price = '' @ int_text items @ '' * '' @ int_text sell_pct @ '' // 100 = '' @
             int_text sold_full,
             ''  - Remaining items = '' @ int_text remaining,
             ''  - Marked-up price = '' @ int_text cost @ '' * '' @ int_text (100 + markup_pct) @ '' // 100 = '' @
             int_text sell_price,
             ''  - Revenue (full) = '' @ int_text sold_full @ '' * '' @ int_text sell_price @ '' = '' @
             int_text revenue_full,
             ''  - Discount price = '' @ int_text sell_price @ '' * '' @ int_text (100 - discount_pct) @ '' // 100 = '' @
             int_text discount_price,
             ''  - Revenue (discount) = '' @ int_text remaining @ '' * '' @ int_text discount_price @ '' = '' @
             int_text revenue_discount,
             ''  - Profit = '' @ int_text total_revenue @ '' - '' @ int_text total_cost @ '' = '' @ int_text profit])
         [int_text profit] 13 ''multi_step_word'')
     }"

text \<open>The format \<^verbatim>\<open>:,\<close> of a number.\<close>

fun thousands :: "nat \<Rightarrow> string" where
  "thousands n =
     (if n < 1000 then nat_text n
      else thousands (n div 1000) @ '','' @ concat (map nat_text [n div 100 mod 10, n div 10 mod 10, n mod 10]))"

declare thousands.simps [simp del]

definition gen_distractor_word :: "math_task gen" where
  "gen_distractor_word =
     do {
       managers \<leftarrow> randint 3 8;
       thousand_dollars \<leftarrow> randint 60 120;
       let salary = thousand_dollars * 1000;
       workers \<leftarrow> randint 15 40;
       per_day \<leftarrow> randint 20 80;
       days_per_week \<leftarrow> choice [5, 6];
       weeks \<leftarrow> randint 2 6;
       let total_days = days_per_week * weeks;
       produce (make_task ''Word problem with distractors''
         (spec_text
            (text_lines
               [''A factory has '' @ int_text managers @ '' managers (each earning $'' @ thousands (nat salary),
                ''per year) and '' @ int_text workers @ '' production workers. Each worker produces '' @ int_text per_day,
                ''widgets per day. The factory operates '' @ int_text days_per_week @ '' days per week.'', [],
                ''How many widgets are produced in total over a '' @ int_text weeks @ ''-week period?''])
            ''A single integer.''
            (text_lines
               [''Only workers and production days matter. Managers and salaries'',
                ''are irrelevant to widget production count.'']))
         [int_text (workers * per_day * total_days)] 13 ''distractor_word'')
     }"

definition gen_conditional_word :: "math_task gen" where
  "gen_conditional_word =
     do {
       base_value \<leftarrow> randint 50 200;
       multiplier \<leftarrow> randint 3 8;
       let intermediate = base_value * multiplier;
       threshold \<leftarrow> randint 100 600;
       bonus_a \<leftarrow> randint 50 200;
       penalty_b \<leftarrow> randint 20 100;
       final_divisor \<leftarrow> choice [2, 3, 4, 5];
       let exceeds = threshold < intermediate;
       let after_condition = (if exceeds then intermediate + bonus_a else intermediate - penalty_b);
       let result = after_condition div final_divisor;
       let t = int_text threshold;
       produce (make_task ''Conditional word problem''
         (spec_text_lines
            (text_lines
               [''A process works as follows:'', [],
                ''Step 1: Start with '' @ int_text base_value @ '' and multiply by '' @ int_text multiplier @ ''.'',
                ''Step 2: Check the intermediate result:'',
                ''  - If the result is GREATER than '' @ t @ '', add a bonus of '' @ int_text bonus_a @ ''.'',
                ''  - If the result is '' @ t @ '' OR LESS, subtract a penalty of '' @ int_text penalty_b @ ''.'',
                ''Step 3: Divide the result by '' @ int_text final_divisor @ '' using integer division.'', [],
                ''What is the final result?''])
            ''A single integer.''
            [''  - Intermediate = '' @ int_text base_value @ '' * '' @ int_text multiplier @ '' = '' @
             int_text intermediate,
             ''  - Since '' @
             (if exceeds then ''it exceeds '' @ t @ '', add a bonus of '' @ int_text bonus_a
              else ''it does not exceed '' @ t @ '', subtract a penalty of '' @ int_text penalty_b) @ '': '' @
             int_text after_condition,
             ''  - Final = '' @ int_text after_condition @ '' // '' @ int_text final_divisor @ '' = '' @ int_text result])
         [int_text result] 13 ''conditional_word'')
     }"

section \<open>Level 14: large numbers\<close>

definition gen_large_multiplication :: "math_task gen" where
  "gen_large_multiplication =
     do {
       digits_a \<leftarrow> randint 5 7;
       digits_b \<leftarrow> randint 5 7;
       a \<leftarrow> randint (10 ^ nat (digits_a - 1)) (10 ^ nat digits_a - 1);
       b \<leftarrow> randint (10 ^ nat (digits_b - 1)) (10 ^ nat digits_b - 1);
       produce (make_task ''Large number multiplication''
         (spec_text
            (text_lines
               [''Calculate the exact product of '' @ int_text a @ '' and '' @ int_text b @ ''.'', [],
                int_text a @ '' * '' @ int_text b @ '' = ?''])
            (''A single integer. Must be exact '' @ dash @ '' no approximations.'')
            ''Multiply the two numbers and verify the result.'')
         [int_text (a * b)] 14 ''large_multiplication'')
     }"

definition gen_large_factorial_mod :: "math_task gen" where
  "gen_large_factorial_mod =
     do {
       n \<leftarrow> randint 10 20;
       m \<leftarrow> choice [97, 101, 127, 131, 137, 139, 149, 151, 157, 163];
       let factorial = (fact (nat n) :: int);
       let result = factorial mod m;
       let ns = int_text n;
       produce (make_task ''Factorial modulo''
         (spec_text
            (text_lines
               [''Calculate '' @ ns @ ''! mod '' @ int_text m @ ''.'', [],
                ''That is: compute '' @ ns @ '' factorial ('' @ ns @ ''! = 1 * 2 * 3 * ... * '' @ ns @ ''), then find'',
                ''the remainder when divided by '' @ int_text m @ ''.''])
            ''A single non-negative integer (the remainder).''
            (ns @ ''! = '' @ int_text factorial @ '', and '' @ int_text factorial @ '' mod '' @ int_text m @ '' = '' @
             int_text result @ ''.''))
         [int_text result] 14 ''large_factorial_mod'')
     }"

definition series_total :: "int \<Rightarrow> int \<Rightarrow> int \<Rightarrow> int" where
  "series_total a d n = n * (a + (a + (n - 1) * d)) div 2"

definition squares_total :: "int \<Rightarrow> int" where
  "squares_total n = n * (n + 1) * (2 * n + 1) div 6"

definition gen_large_sum_series :: "math_task gen" where
  "gen_large_sum_series =
     do {
       arithmetic \<leftarrow> random_below 5;
       if arithmetic then
         do {
           a \<leftarrow> randint 100 999;
           d \<leftarrow> randint 10 50;
           n \<leftarrow> randint 20 50;
           let last_term = a + (n - 1) * d;
           let tot = series_total a d n;
           let ns = int_text n;
           produce (make_task ''Arithmetic series sum''
             (spec_text
                (text_lines
                   [''Calculate the sum of the arithmetic series:'', ''  First term: '' @ int_text a,
                    ''  Common difference: '' @ int_text d, ''  Number of terms: '' @ ns, [],
                    ''The series is: '' @ int_text a @ '', '' @ int_text (a + d) @ '', '' @ int_text (a + 2 * d) @
                    '', ..., '' @ int_text last_term, [],
                    ''What is the sum of all '' @ ns @ '' terms?''])
                ''A single integer.''
                (''Sum = n * (first + last) / 2 = '' @ ns @ '' * ('' @ int_text a @ '' + '' @ int_text last_term @
                 '') / 2 = '' @ int_text tot @ ''.''))
             [int_text tot] 14 ''large_sum_series'')
         }
       else
         do {
           n \<leftarrow> randint 30 80;
           let tot = squares_total n;
           let ns = int_text n;
           produce (make_task ''Sum of squares series''
             (spec_text
                (text_lines
                   [''Calculate the sum of the first '' @ ns @ '' perfect squares:'',
                    ''  1^2 + 2^2 + 3^2 + ... + '' @ ns @ ''^2'', [], ''What is the total?''])
                ''A single integer.''
                (''Using the formula n*(n+1)*(2n+1)/6 = '' @ ns @ ''*'' @ int_text (n + 1) @ ''*'' @
                 int_text (2 * n + 1) @ ''/6 = '' @ int_text tot @ ''.''))
             [int_text tot] 14 ''large_sum_series'')
         }
     }"


text \<open>\<^verbatim>\<open>int\<close> of a text of digits.\<close>

definition digits_int :: "string \<Rightarrow> int" where
  "digits_int s = foldl (\<lambda>acc c. 10 * acc + digit_value c) 0 s"

definition reverse_difference :: "int \<Rightarrow> int" where
  "reverse_difference num = \<bar>num - digits_int (rev (int_text num))\<bar>"

text \<open>The digits in rising order, leading zeros with the others: \<^verbatim>\<open>int\<close> drops them.\<close>

definition smallest_arrangement :: "int \<Rightarrow> int" where
  "smallest_arrangement num = digits_int (sort (int_text num))"

definition largest_arrangement :: "int \<Rightarrow> int" where
  "largest_arrangement num = digits_int (rev (sort (int_text num)))"

definition digit_sum_task :: "int \<Rightarrow> int \<Rightarrow> math_task" where
  "digit_sum_task a b =
     (let product = a * b; ab = int_text a @ '' * '' @ int_text b; s = int_text (digit_sum product)
      in make_task ''Digit sum of a product''
           (spec_text
              (text_lines
                 [''Calculate '' @ ab @ '', then find the sum of the digits of the result.'', [],
                  ''Step 1: Compute '' @ ab @ ''.'', ''Step 2: Sum the individual digits of the product.''])
              ''A single integer (the digit sum).''
              (ab @ '' = '' @ int_text product @ '', digit sum = '' @ s @ ''.''))
           [s] 14 ''digit_manipulation'')"

definition reverse_task :: "int \<Rightarrow> math_task" where
  "reverse_task num =
     (let n = int_text num; reversed = int_text (digits_int (rev n)); result = int_text (reverse_difference num)
      in make_task ''Reverse and subtract''
           (spec_text
              (text_lines
                 [''Take the number '' @ n @ ''. Reverse its digits, then subtract the'',
                  ''smaller number from the larger.'', [], ''Step 1: Reverse '' @ n @ '' to get its digit-reversed form.'',
                  ''Step 2: Subtract the smaller of the two from the larger.''])
              ''A single non-negative integer.''
              (''Reversed = '' @ reversed @ '', |'' @ n @ '' - '' @ reversed @ ''| = '' @ result @ ''.''))
           [result] 14 ''digit_manipulation'')"

definition rearrange_task :: "int \<Rightarrow> math_task" where
  "rearrange_task num =
     (let n = int_text num; smallest = smallest_arrangement num; largest = largest_arrangement num;
          result = int_text (largest - smallest)
      in make_task ''Digit rearrangement difference''
           (spec_text
              (text_lines
                 [''Take the number '' @ n @ ''. Rearrange its digits to form:'', ''  - The LARGEST possible number'',
                  ''  - The SMALLEST possible number (no leading zeros '' @ dash @ '' if a digit is 0,'',
                  ''    it goes after the first non-zero digit)'', [], ''Then subtract the smallest from the largest.''])
              ''A single integer.''
              (text_lines
                 [''Digits of '' @ n @ '' sorted: largest = '' @ int_text largest @ '', smallest = '' @
                  int_text smallest @ '','', ''difference = '' @ result @ ''.'']))
           [result] 14 ''digit_manipulation'')"

definition gen_digit_manipulation :: "math_task gen" where
  "gen_digit_manipulation =
     do {
       variant \<leftarrow> choice [''digit_sum_product'', ''reverse_subtract'', ''digit_rearrange''];
       if variant = ''digit_sum_product'' then
         do { a \<leftarrow> randint 1000 9999; b \<leftarrow> randint 1000 9999; produce (digit_sum_task a b) }
       else if variant = ''reverse_subtract'' then do { num \<leftarrow> randint 100000 999999; produce (reverse_task num) }
       else do { num \<leftarrow> randint 10000 99999; produce (rearrange_task num) }
     }"

lemma digit_chars:
  "char_of (48 :: nat) = CHR ''0''" "char_of (49 :: nat) = CHR ''1''" "char_of (50 :: nat) = CHR ''2''"
  "char_of (51 :: nat) = CHR ''3''" "char_of (52 :: nat) = CHR ''4''"
  by code_simp+

lemma digit_texts: "int_text 4 = ''4''" "int_text 102 = ''102''" "int_text 201 = ''201''" "int_text 10023 = ''10023''"
  by (simp_all add: int_text_def nat_text.simps digit_chars)

lemma sorted_digits: "sort ''10023'' = ''00123''"
  by code_simp

end
