(* ===== verification/Math_Factory.thy ===== *)
theory Math_Factory
  imports Math_Chains Math_Puzzles
begin

text \<open>
  \<^verbatim>\<open>MathTaskFactory\<close> of \<^verbatim>\<open>math_task_factory/factory.py\<close>: which problem types a level has, which generator a type,
  and \<^verbatim>\<open>create\<close> and \<^verbatim>\<open>create_batch\<close> over them. \<open>None\<close> is a call that never returns.
\<close>

definition problem_types_by_level :: "(int, string list) dict" where
  "problem_types_by_level =
     [(1, [''addition_positive'', ''addition_positive_text'', ''addition_signed'', ''addition_small'',
           ''addition_small_text'', ''addition_large'', ''addition_large_text'']),
      (2, [''subtraction'', ''multiplication'', ''multiplication_small'', ''multiplication_large'', ''division'',
           ''division_float'', ''addition_float'', ''multiplication_float'', ''multiplication_text'']),
      (3, [''order_of_operations'', ''modulo'', ''modulo_text'', ''modulo_large'']),
      (4, [''single_variable_add_sub'', ''single_variable_add_sub_text'', ''single_variable_mul_div'']),
      (5, [''single_variable_combined'']),
      (6, [''system_solvable'', ''system_unsolvable'', ''system_infinite'']),
      (7, [''exponential'', ''exponential_equation'']),
      (8, [''square_root'', ''logarithm'']),
      (9, [''prime_check'', ''cube_check'', ''power_of_two_check'', ''perfect_square_check'', ''division_by_zero'']),
      (10, [''chain_arithmetic'', ''chain_percentage'', ''chain_remainder'']),
      (11, [''warehouse_inventory'', ''bank_transactions'', ''production_pipeline'']),
      (12, [''number_constraints'', ''scheduling_constraints'', ''allocation_constraints'']),
      (13, [''multi_step_word'', ''distractor_word'', ''conditional_word'']),
      (14, [''large_multiplication'', ''large_factorial_mod'', ''large_sum_series'', ''digit_manipulation'']),
      (15, [''combined_chain_constraint'', ''combined_state_large'', ''combined_conditional_chain''])]"

type_synonym generator = "rng \<Rightarrow> (math_task \<times> rng) option"

definition returning :: "math_task gen \<Rightarrow> generator" where
  "returning g r = Some (run_state g r)"

definition generators_basic :: "(string, generator) dict" where
  "generators_basic =
     [(''addition_positive'', returning gen_addition_positive),
      (''addition_positive_text'', returning gen_addition_positive_text),
      (''addition_signed'', returning gen_addition_signed),
      (''addition_small'', returning gen_addition_small),
      (''addition_small_text'', returning gen_addition_small_text),
      (''addition_large'', returning gen_addition_large),
      (''addition_large_text'', returning gen_addition_large_text),
      (''addition_float'', returning gen_addition_float),
      (''subtraction'', returning gen_subtraction),
      (''multiplication'', returning gen_multiplication),
      (''multiplication_text'', returning gen_multiplication_text),
      (''multiplication_small'', returning gen_multiplication_small),
      (''multiplication_large'', returning gen_multiplication_large),
      (''multiplication_float'', returning gen_multiplication_float),
      (''division'', returning gen_division),
      (''division_float'', returning gen_division_float),
      (''order_of_operations'', returning gen_order_of_operations),
      (''modulo'', returning gen_modulo),
      (''modulo_text'', returning gen_modulo_text),
      (''modulo_large'', returning gen_modulo_large),
      (''single_variable_add_sub'', returning gen_single_variable_add_sub),
      (''single_variable_add_sub_text'', returning gen_single_variable_add_sub_text),
      (''single_variable_mul_div'', returning gen_single_variable_mul_div),
      (''single_variable_combined'', returning gen_single_variable_combined),
      (''system_solvable'', gen_system_solvable),
      (''system_unsolvable'', returning gen_system_unsolvable),
      (''system_infinite'', returning gen_system_infinite),
      (''exponential'', returning gen_exponential),
      (''exponential_equation'', returning gen_exponential_equation),
      (''square_root'', returning gen_square_root),
      (''logarithm'', returning gen_logarithm),
      (''prime_check'', returning gen_prime_check),
      (''cube_check'', returning gen_cube_check),
      (''power_of_two_check'', returning gen_power_of_two_check),
      (''perfect_square_check'', returning gen_perfect_square_check),
      (''division_by_zero'', returning gen_division_by_zero)]"

definition generators_hard :: "(string, generator) dict" where
  "generators_hard =
     [(''chain_arithmetic'', returning gen_chain_arithmetic),
      (''chain_percentage'', returning gen_chain_percentage),
      (''chain_remainder'', returning gen_chain_remainder),
      (''warehouse_inventory'', returning gen_warehouse_inventory),
      (''bank_transactions'', returning gen_bank_transactions),
      (''production_pipeline'', returning gen_production_pipeline),
      (''number_constraints'', returning gen_number_constraints),
      (''scheduling_constraints'', returning gen_scheduling_constraints),
      (''allocation_constraints'', returning gen_allocation_constraints),
      (''multi_step_word'', returning gen_multi_step_word),
      (''distractor_word'', returning gen_distractor_word),
      (''conditional_word'', returning gen_conditional_word),
      (''large_multiplication'', returning gen_large_multiplication),
      (''large_factorial_mod'', returning gen_large_factorial_mod),
      (''large_sum_series'', returning gen_large_sum_series),
      (''digit_manipulation'', returning gen_digit_manipulation),
      (''combined_chain_constraint'', returning gen_combined_chain_constraint),
      (''combined_state_large'', returning gen_combined_state_large),
      (''combined_conditional_chain'', returning gen_combined_conditional_chain)]"

definition generators :: "(string, generator) dict" where
  "generators = generators_basic @ generators_hard"

text \<open>What a generator returned, or the exception of an empty range.\<close>

definition drawn_from :: "math_task \<times> rng \<Rightarrow> math_task result \<times> rng" where
  "drawn_from x = (if empty_range (snd x) then Inl (PyError ''ValueError'') else Inr (fst x), snd x)"

definition generate :: "string \<Rightarrow> rng \<Rightarrow> (math_task result \<times> rng) option" where
  "generate pt r =
     (case dget generators pt of
        None \<Rightarrow> Some (Inl (PyError ''KeyError''), r)
      | Some g \<Rightarrow> map_option drawn_from (g r))"

definition create_task_of :: "int \<Rightarrow> string option \<Rightarrow> rng \<Rightarrow> (math_task result \<times> rng) option" where
  "create_task_of level problem_type r =
     (case dget problem_types_by_level level of
        None \<Rightarrow> Some (Inl (PyError ''ValueError''), r)
      | Some types \<Rightarrow>
          let (pt, r1) = (case problem_type of None \<Rightarrow> run_state (choice types) r | Some t \<Rightarrow> (t, r))
          in if pt \<notin> set types then Some (Inl (PyError ''ValueError''), r1) else generate pt r1)"

text \<open>One task per level of the list, each of them drawn from where the one before stopped.\<close>

fun create_all :: "string option \<Rightarrow> int list \<Rightarrow> rng \<Rightarrow> (math_task list result \<times> rng) option" where
  "create_all pt [] r = Some (Inr [], r)"
| "create_all pt (level # levels) r =
     (case create_task_of level pt r of
        None \<Rightarrow> None
      | Some (Inl e, r1) \<Rightarrow> Some (Inl e, r1)
      | Some (Inr t, r1) \<Rightarrow>
          (case create_all pt levels r1 of
             None \<Rightarrow> None
           | Some (Inl e, r2) \<Rightarrow> Some (Inl e, r2)
           | Some (Inr ts, r2) \<Rightarrow> Some (Inr (t # ts), r2)))"

definition create_batch ::
  "int option \<Rightarrow> int list option \<Rightarrow> int \<Rightarrow> string option \<Rightarrow> rng \<Rightarrow> (math_task list result \<times> rng) option" where
  "create_batch level levels count pt r =
     (case (level, levels) of
        (Some _, Some _) \<Rightarrow> Some (Inl (PyError ''ValueError''), r)
      | (None, None) \<Rightarrow> Some (Inl (PyError ''ValueError''), r)
      | (Some l, None) \<Rightarrow> create_all pt (replicate (nat count) l) r
      | (None, Some ls) \<Rightarrow> create_all pt (concat (map (replicate (nat count)) ls)) r)"

end
