(* ===== verification/Math_Props.thy ===== *)
theory Math_Props
  imports Math_Factory Complex_Main
begin

text \<open>
  The math task factory: rules for what a generator yields, the tasks of every level, when the drawing of a linear
  system ends, and the answers of the puzzles.
\<close>

section \<open>What a generator yields\<close>

text \<open>Whatever the random numbers are, the result satisfies \<open>P\<close> and nothing was drawn from an empty range.\<close>

definition yields :: "'a gen \<Rightarrow> ('a \<Rightarrow> bool) \<Rightarrow> bool" where
  "yields m P \<longleftrightarrow> (\<forall>r. P (fst (run_state m r)) \<and> empty_range (snd (run_state m r)) = empty_range r)"

named_theorems yields_intros \<open>weakest preconditions of generators\<close>

lemma yields_give [yields_intros]: "P x \<Longrightarrow> yields (produce x) P"
  by (simp add: yields_def)

lemma yields_bind [yields_intros]:
  assumes "yields m (\<lambda>x. yields (f x) P)"
  shows "yields (State_Monad.bind m f) P"
  using assms by (simp add: yields_def split_beta)

lemma yields_mono: "yields m P \<Longrightarrow> (\<And>x. P x \<Longrightarrow> Q x) \<Longrightarrow> yields m Q"
  by (simp add: yields_def)

lemma yields_randbelow: "0 < n \<Longrightarrow> (\<And>k. k < n \<Longrightarrow> P k) \<Longrightarrow> yields (randbelow n) P"
  by (simp add: yields_def randbelow_def)

lemma yields_randint [yields_intros]:
  assumes "a \<le> b" and "\<And>x. a \<le> x \<Longrightarrow> x \<le> b \<Longrightarrow> P x"
  shows "yields (randint a b) P"
  unfolding randint_def by (intro yields_bind yields_randbelow yields_give) (use assms in auto)

lemma yields_choice [yields_intros]:
  assumes "xs \<noteq> []" and "\<And>x. x \<in> set xs \<Longrightarrow> P x"
  shows "yields (choice xs) P"
  unfolding choice_def by (intro yields_bind yields_randbelow yields_give) (use assms in auto)

lemma yields_random [yields_intros]:
  "(\<And>b. P b) \<Longrightarrow> yields (random_below n) P" "(\<And>b. P b) \<Longrightarrow> yields (random_above n) P"
  unfolding random_below_def random_above_def by (intro yields_bind yields_randbelow yields_give; simp)+

lemma yields_gather:
  assumes "yields m Q" and "\<And>xs. length xs = n \<Longrightarrow> \<forall>x \<in> set xs. Q x \<Longrightarrow> P xs"
  shows "yields (gather n m) P"
  using assms(2)
proof (induction n arbitrary: P)
  case 0
  then show ?case by (simp add: yields_give)
next
  case (Suc n)
  show ?case unfolding gather.simps
    by (rule yields_bind, rule yields_mono [OF assms(1)], rule yields_bind, rule Suc.IH, rule yields_give) (simp add: Suc.prems)
qed

lemma yields_any_gather [yields_intros]:
  "yields m (\<lambda>_. True) \<Longrightarrow> (\<And>xs. length xs = n \<Longrightarrow> P xs) \<Longrightarrow> yields (gather n m) P"
  by (rule yields_gather)

lemma yields_repeatedly:
  assumes "\<And>s. I s \<Longrightarrow> yields (body s) I" and "I s" and "\<And>s. I s \<Longrightarrow> P s"
  shows "yields (repeatedly n body s) P"
  using assms(2)
proof (induction n arbitrary: s)
  case 0
  then show ?case by (simp add: yields_give assms(3))
next
  case (Suc n)
  show ?case unfolding repeatedly.simps
    by (rule yields_bind, rule yields_mono [OF assms(1)]) (use Suc in auto)
qed

lemma yields_any_repeatedly [yields_intros]:
  "(\<And>s. yields (body s) (\<lambda>_. True)) \<Longrightarrow> (\<And>s. P s) \<Longrightarrow> yields (repeatedly n body s) P"
  by (rule yields_repeatedly [where I = "\<lambda>_. True"]) auto

lemma yields_sample:
  assumes "k \<le> length xs"
    and "\<And>ys. length ys = k \<Longrightarrow> set ys \<subseteq> set xs \<Longrightarrow> (distinct xs \<longrightarrow> distinct ys) \<Longrightarrow> P ys"
  shows "yields (sample xs k) P"
  using assms
proof (induction k arbitrary: xs P)
  case 0
  then show ?case by (simp add: yields_give)
next
  case (Suc k)
  show ?case unfolding sample.simps
  proof (intro yields_bind yields_randbelow)
    show "0 < length xs" using Suc.prems(1) by linarith
    fix i assume i: "i < length xs"
    define as bs x rest where defs: "as = take i xs" "bs = drop (Suc i) xs" "x = xs ! i" "rest = as @ bs"
    have "xs = as @ x # bs" unfolding defs using i by (rule id_take_nth_drop)
    then have parts: "set xs = insert x (set rest)" "distinct xs \<longleftrightarrow> x \<notin> set rest \<and> distinct rest"
      "length xs = Suc (length rest)"
      by (auto simp: defs(4))
    have "yields (sample rest k) (\<lambda>ys. yields (produce (x # ys)) P)"
    proof (rule Suc.IH)
      show "k \<le> length rest" using Suc.prems(1) parts by simp
      fix ys assume ys: "length ys = k" "set ys \<subseteq> set rest" "distinct rest \<longrightarrow> distinct ys"
      then have "P (x # ys)" using parts by (intro Suc.prems(2)) auto
      then show "yields (produce (x # ys)) P" by (rule yields_give)
    qed
    then show "yields (sample (take i xs @ drop (Suc i) xs) k) (\<lambda>ys. yields (produce (xs ! i # ys)) P)"
      by (simp only: defs)
  qed
qed

lemma yields_any_sample [yields_intros]:
  "k \<le> length xs \<Longrightarrow> (\<And>ys. length ys = k \<Longrightarrow> P ys) \<Longrightarrow> yields (sample xs k) P"
  by (rule yields_sample)

lemma yields_traverse:
  assumes "\<And>x. x \<in> set xs \<Longrightarrow> yields (f x) (Q x)" and "\<And>ys. list_all2 Q xs ys \<Longrightarrow> P ys"
  shows "yields (State_Monad.traverse_list f xs) P"
  using assms
proof (induction xs arbitrary: P)
  case Nil
  then show ?case by (simp add: yields_give)
next
  case (Cons x xs)
  show ?case unfolding State_Monad.traverse_list.simps
    by (rule yields_bind, rule yields_mono [OF Cons.prems(1)], simp, rule yields_bind, rule Cons.IH)
      (use Cons.prems in \<open>auto intro: yields_give\<close>)
qed

lemma yields_any_traverse [yields_intros]:
  "(\<And>x. x \<in> set xs \<Longrightarrow> yields (f x) (\<lambda>_. True)) \<Longrightarrow> (\<And>ys. length ys = length xs \<Longrightarrow> P ys) \<Longrightarrow>
   yields (State_Monad.traverse_list f xs) P"
  by (rule yields_traverse [where Q = "\<lambda>_ _. True"]) (auto dest: list_all2_lengthD)

lemma yields_if [yields_intros]: "(b \<Longrightarrow> yields m P) \<Longrightarrow> (\<not> b \<Longrightarrow> yields m' P) \<Longrightarrow> yields (if b then m else m') P"
  by simp

lemma yields_let [yields_intros]: "yields (f x) P \<Longrightarrow> yields (let y = x in f y) P"
  by simp

lemma yields_split [yields_intros]: "(\<And>a b. p = (a, b) \<Longrightarrow> yields (f a b) P) \<Longrightarrow> yields (case p of (a, b) \<Rightarrow> f a b) P"
  by (cases p) simp

section \<open>Every generator makes a task of its kind\<close>

definition of_kind :: "int \<Rightarrow> string \<Rightarrow> math_task \<Rightarrow> bool" where
  "of_kind level pt t \<longleftrightarrow> mt_level t = level \<and> mt_problem_type t = pt \<and> mt_solutions t \<noteq> []"

lemma of_kind_make_task [simp]: "of_kind level pt (make_task t s sols level' pt') \<longleftrightarrow> level' = level \<and> pt' = pt \<and> sols \<noteq> []"
  by (auto simp: of_kind_def make_task_def)

lemma of_kind_note [simp]: "of_kind level pt (t\<lparr>mt_solution_note := n\<rparr>) \<longleftrightarrow> of_kind level pt t"
  by (simp add: of_kind_def)

lemma level_1_kinds:
  "yields gen_addition_positive (of_kind 1 ''addition_positive'')"
  "yields gen_addition_positive_text (of_kind 1 ''addition_positive_text'')"
  "yields gen_addition_signed (of_kind 1 ''addition_signed'')"
  "yields gen_addition_small (of_kind 1 ''addition_small'')"
  "yields gen_addition_small_text (of_kind 1 ''addition_small_text'')"
  "yields gen_addition_large (of_kind 1 ''addition_large'')"
  "yields gen_addition_large_text (of_kind 1 ''addition_large_text'')"
  unfolding gen_addition_positive_def gen_addition_positive_text_def gen_addition_signed_def gen_addition_small_def
    gen_addition_small_text_def gen_addition_large_def gen_addition_large_text_def signed_term_def
  by (intro yields_intros; simp)+

lemma level_2_kinds:
  "yields gen_addition_float (of_kind 2 ''addition_float'')"
  "yields gen_subtraction (of_kind 2 ''subtraction'')"
  "yields gen_multiplication (of_kind 2 ''multiplication'')"
  "yields gen_multiplication_small (of_kind 2 ''multiplication_small'')"
  "yields gen_multiplication_large (of_kind 2 ''multiplication_large'')"
  "yields gen_multiplication_text (of_kind 2 ''multiplication_text'')"
  "yields gen_multiplication_float (of_kind 2 ''multiplication_float'')"
  "yields gen_division (of_kind 2 ''division'')"
  "yields gen_division_float (of_kind 2 ''division_float'')"
  unfolding gen_addition_float_def gen_subtraction_def gen_multiplication_def gen_multiplication_small_def
    gen_multiplication_large_def gen_multiplication_text_def gen_multiplication_float_def gen_division_def
    gen_division_float_def
  by (intro yields_intros; simp)+


lemma level_3_kinds:
  "yields gen_order_of_operations (of_kind 3 ''order_of_operations'')"
  "yields gen_modulo (of_kind 3 ''modulo'')"
  "yields gen_modulo_text (of_kind 3 ''modulo_text'')"
  "yields gen_modulo_large (of_kind 3 ''modulo_large'')"
  unfolding gen_order_of_operations_def gen_modulo_def gen_modulo_text_def gen_modulo_large_def
  by (intro yields_intros; simp)+

lemma level_4_5_kinds:
  "yields gen_single_variable_add_sub (of_kind 4 ''single_variable_add_sub'')"
  "yields gen_single_variable_add_sub_text (of_kind 4 ''single_variable_add_sub_text'')"
  "yields gen_single_variable_mul_div (of_kind 4 ''single_variable_mul_div'')"
  "yields gen_single_variable_combined (of_kind 5 ''single_variable_combined'')"
  unfolding gen_single_variable_add_sub_def gen_single_variable_add_sub_text_def gen_single_variable_mul_div_def
    gen_single_variable_combined_def
  by (intro yields_intros; simp add: x_solutions_def)+

lemma level_6_kinds:
  "yields gen_system_unsolvable (of_kind 6 ''system_unsolvable'')"
  "yields gen_system_infinite (of_kind 6 ''system_infinite'')"
  unfolding gen_system_unsolvable_def gen_system_infinite_def
  by (intro yields_intros; simp)+

lemma level_7_8_kinds:
  "yields gen_exponential (of_kind 7 ''exponential'')"
  "yields gen_exponential_equation (of_kind 7 ''exponential_equation'')"
  "yields gen_square_root (of_kind 8 ''square_root'')"
  "yields gen_logarithm (of_kind 8 ''logarithm'')"
  unfolding gen_exponential_def gen_exponential_equation_def gen_square_root_def gen_logarithm_def
  by (intro yields_intros; simp add: x_solutions_def)+

lemma yields_pick_with:
  assumes "yes \<noteq> []" and "no \<noteq> []" and "\<And>n. n \<in> set yes \<Longrightarrow> P (n, ys)" and "\<And>n. n \<in> set no \<Longrightarrow> P (n, ns)"
  shows "yields (pick_with yes ys no ns) P"
  unfolding pick_with_def using assms by (intro yields_intros) auto

lemma level_9_kinds:
  "yields gen_prime_check (of_kind 9 ''prime_check'')"
  "yields gen_cube_check (of_kind 9 ''cube_check'')"
  "yields gen_power_of_two_check (of_kind 9 ''power_of_two_check'')"
  "yields gen_perfect_square_check (of_kind 9 ''perfect_square_check'')"
  "yields gen_division_by_zero (of_kind 9 ''division_by_zero'')"
  unfolding gen_prime_check_def gen_cube_check_def gen_power_of_two_check_def gen_perfect_square_check_def
    gen_division_by_zero_def prime_pick_def cube_pick_def power_pick_def square_pick_def
  by (intro yields_intros yields_pick_with; simp add: yields_give)+

lemma level_10_kinds:
  "yields gen_chain_arithmetic (of_kind 10 ''chain_arithmetic'')"
  "yields gen_chain_percentage (of_kind 10 ''chain_percentage'')"
  "yields gen_chain_remainder (of_kind 10 ''chain_remainder'')"
  unfolding gen_chain_arithmetic_def gen_chain_percentage_def gen_chain_remainder_def chain_arithmetic_step_def
    chain_percentage_step_def chain_remainder_step_def
  by (intro yields_intros; simp)+

lemma yields_pipeline: "(\<And>s'. P s') \<Longrightarrow> yields (pipeline names s) P"
  by (induction names arbitrary: s) (auto intro!: yields_intros)

lemma level_11_kinds:
  "yields gen_warehouse_inventory (of_kind 11 ''warehouse_inventory'')"
  "yields gen_bank_transactions (of_kind 11 ''bank_transactions'')"
  "yields gen_production_pipeline (of_kind 11 ''production_pipeline'')"
  unfolding gen_warehouse_inventory_def gen_bank_transactions_def gen_production_pipeline_def warehouse_step_def
    bank_step_def deposit_step_def
  by (intro yields_intros yields_pipeline; simp add: floor_names_def account_names_def)+

lemma yields_divisors_or_one [simp]: "divisors_or_one ds n \<noteq> []"
  by (simp add: divisors_or_one_def Let_def)

lemma level_12_kinds:
  "yields gen_number_constraints (of_kind 12 ''number_constraints'')"
  "yields gen_scheduling_constraints (of_kind 12 ''scheduling_constraints'')"
  "yields gen_allocation_constraints (of_kind 12 ''allocation_constraints'')"
  unfolding gen_number_constraints_def gen_scheduling_constraints_def gen_allocation_constraints_def number_puzzle_def
    project_draws_def draw_project_def allocation_draws_def draw_deps_def draw_bounds_def number_task_def project_task_def
    allocation_task_def
  by (intro yields_intros; simp add: Let_def nat_le_iff)+

lemma level_13_kinds:
  "yields gen_multi_step_word (of_kind 13 ''multi_step_word'')"
  "yields gen_distractor_word (of_kind 13 ''distractor_word'')"
  "yields gen_conditional_word (of_kind 13 ''conditional_word'')"
  unfolding gen_multi_step_word_def gen_distractor_word_def gen_conditional_word_def
  by (intro yields_intros; simp)+

lemma level_14_kinds:
  "yields gen_large_multiplication (of_kind 14 ''large_multiplication'')"
  "yields gen_large_factorial_mod (of_kind 14 ''large_factorial_mod'')"
  "yields gen_large_sum_series (of_kind 14 ''large_sum_series'')"
  "yields gen_digit_manipulation (of_kind 14 ''digit_manipulation'')"
  unfolding gen_large_multiplication_def gen_large_factorial_mod_def gen_large_sum_series_def gen_digit_manipulation_def
    digit_sum_task_def reverse_task_def rearrange_task_def
  by (intro yields_intros; simp add: Let_def)+

lemma level_15_kinds:
  "yields gen_combined_chain_constraint (of_kind 15 ''combined_chain_constraint'')"
  "yields gen_combined_state_large (of_kind 15 ''combined_state_large'')"
  "yields gen_combined_conditional_chain (of_kind 15 ''combined_conditional_chain'')"
  unfolding gen_combined_chain_constraint_def gen_combined_state_large_def gen_combined_conditional_chain_def
    combined_chain_step_def state_step_def add_step_def
  by (intro yields_intros; simp add: entity_names_def)+


section \<open>Creating a task\<close>

text \<open>The level of each type, in the order of the generators.\<close>

definition levels_basic :: "(string, int) dict" where
  "levels_basic =
     [(''addition_positive'', 1), (''addition_positive_text'', 1), (''addition_signed'', 1), (''addition_small'', 1),
      (''addition_small_text'', 1), (''addition_large'', 1), (''addition_large_text'', 1), (''addition_float'', 2),
      (''subtraction'', 2), (''multiplication'', 2), (''multiplication_text'', 2), (''multiplication_small'', 2),
      (''multiplication_large'', 2), (''multiplication_float'', 2), (''division'', 2), (''division_float'', 2),
      (''order_of_operations'', 3), (''modulo'', 3), (''modulo_text'', 3), (''modulo_large'', 3),
      (''single_variable_add_sub'', 4), (''single_variable_add_sub_text'', 4), (''single_variable_mul_div'', 4),
      (''single_variable_combined'', 5), (''system_solvable'', 6), (''system_unsolvable'', 6),
      (''system_infinite'', 6), (''exponential'', 7), (''exponential_equation'', 7), (''square_root'', 8),
      (''logarithm'', 8), (''prime_check'', 9), (''cube_check'', 9), (''power_of_two_check'', 9),
      (''perfect_square_check'', 9), (''division_by_zero'', 9)]"

definition levels_hard :: "(string, int) dict" where
  "levels_hard =
     [(''chain_arithmetic'', 10), (''chain_percentage'', 10), (''chain_remainder'', 10),
      (''warehouse_inventory'', 11), (''bank_transactions'', 11), (''production_pipeline'', 11),
      (''number_constraints'', 12), (''scheduling_constraints'', 12), (''allocation_constraints'', 12),
      (''multi_step_word'', 13), (''distractor_word'', 13), (''conditional_word'', 13),
      (''large_multiplication'', 14), (''large_factorial_mod'', 14), (''large_sum_series'', 14),
      (''digit_manipulation'', 14), (''combined_chain_constraint'', 15), (''combined_state_large'', 15),
      (''combined_conditional_chain'', 15)]"

definition makes :: "int \<Rightarrow> string \<Rightarrow> generator \<Rightarrow> bool" where
  "makes level pt g \<longleftrightarrow> (\<exists>m. g = returning m \<and> yields m (of_kind level pt))"

lemma makesI: "yields m (of_kind level pt) \<Longrightarrow> makes level pt (returning m)"
  by (auto simp: makes_def)

lemmas all_kinds =
  level_1_kinds level_2_kinds level_3_kinds level_4_5_kinds level_6_kinds level_7_8_kinds level_9_kinds level_10_kinds
  level_11_kinds level_12_kinds level_13_kinds level_14_kinds level_15_kinds

definition table_row :: "string \<times> generator \<Rightarrow> string \<times> int \<Rightarrow> bool" where
  "table_row x y \<longleftrightarrow> fst x = fst y \<and> (x = (''system_solvable'', gen_system_solvable) \<or> makes (snd y) (fst y) (snd x))"

lemma row_makes: "yields m (of_kind level pt) \<Longrightarrow> table_row (pt, returning m) (pt, level)"
  by (simp add: table_row_def makesI)

lemma row_system: "table_row (''system_solvable'', gen_system_solvable) (''system_solvable'', 6)"
  by (simp add: table_row_def)

lemma rows_ok: "list_all2 table_row generators (levels_basic @ levels_hard)"
  unfolding generators_def generators_basic_def generators_hard_def levels_basic_def levels_hard_def append.simps
  by (intro list_all2_Cons [THEN iffD2] conjI row_system row_makes all_kinds) simp

lemma row_lookup:
  "list_all2 table_row gs ls \<Longrightarrow> dget ls pt = Some level \<Longrightarrow>
   \<exists>g. dget gs pt = Some g \<and> (pt = ''system_solvable'' \<and> g = gen_system_solvable \<or> makes level pt g)"
  by (induction gs ls rule: list_all2_induct) (auto simp: table_row_def split: if_splits)

lemma levels_agree:
  "list_all (\<lambda>(level, types). list_all (\<lambda>pt. dget (levels_basic @ levels_hard) pt = Some level) types)
     problem_types_by_level"
  by code_simp

text \<open>A level without a type asked for, or with one of its types.\<close>

definition offered :: "int \<Rightarrow> string option \<Rightarrow> bool" where
  "offered level pt \<longleftrightarrow>
     (case dget problem_types_by_level level of None \<Rightarrow> False | Some types \<Rightarrow> pt = None \<or> the pt \<in> set types)"

lemma types_not_empty: "dget problem_types_by_level level = Some types \<Longrightarrow> types \<noteq> []"
  by (auto simp: problem_types_by_level_def split: if_splits)

lemma generator_of_type:
  assumes "dget problem_types_by_level level = Some types" and "pt \<in> set types"
  shows "\<exists>g. dget generators pt = Some g \<and> (pt = ''system_solvable'' \<and> g = gen_system_solvable \<or> makes level pt g)"
proof -
  have "dget (levels_basic @ levels_hard) pt = Some level"
    using levels_agree map_of_SomeD [OF assms(1)] assms(2) by (fastforce simp: list_all_iff)
  then show ?thesis by (rule row_lookup [OF rows_ok])
qed

lemma generate_makes:
  assumes "dget generators pt = Some g" and "makes level pt g" and "\<not> empty_range r"
  shows "\<exists>t r'. generate pt r = Some (Inr t, r') \<and> of_kind level pt t"
proof -
  obtain m where m: "g = returning m" "yields m (of_kind level pt)" using assms(2) by (auto simp: makes_def)
  then have "generate pt r = Some (Inr (fst (run_state m r)), snd (run_state m r))"
    using assms(1,3) by (simp add: generate_def returning_def drawn_from_def yields_def)
  then show ?thesis using m(2) by (auto simp: yields_def)
qed

section \<open>Linear systems\<close>

definition pair_at :: "(nat \<Rightarrow> nat) \<Rightarrow> nat \<Rightarrow> int \<times> int" where
  "pair_at ds i = (1 + int (ds i mod 5), 1 + int (ds (Suc i) mod 5))"

definition proportional :: "int \<times> int \<Rightarrow> int \<times> int \<Rightarrow> bool" where
  "proportional p q \<longleftrightarrow> fst p * snd q = fst q * snd p"

lemma run_randint [simp]:
  "run_state (randint a b) r =
     (a + int (draws r (drawn r) mod nat (b - a + 1)),
      r\<lparr>drawn := Suc (drawn r), empty_range := empty_range r \<or> b < a\<rparr>)"
proof -
  have "(b - a + 1 \<le> 0) = (b < a)" by linarith
  then show ?thesis by (simp add: randint_def randbelow_def)
qed

lemma run_coefficients [simp]:
  "run_state coefficients r = (pair_at (draws r) (drawn r), r\<lparr>drawn := drawn r + 2\<rparr>)"
  by (simp add: coefficients_def pair_at_def)

lemma redraw_step:
  "redraw a1 b1 p r =
     (if proportional (a1, b1) p then redraw a1 b1 (pair_at (draws r) (drawn r)) (r\<lparr>drawn := drawn r + 2\<rparr>)
      else Some (p, r))"
  by (subst redraw.simps) (simp add: proportional_def)

lemma redraw_returns:
  "\<not> proportional (a1, b1) (pair_at (draws r) (drawn r + 2 * n)) \<Longrightarrow> redraw a1 b1 p r \<noteq> None"
proof (induction n arbitrary: p r)
  case 0
  then show ?case by (subst redraw_step, subst redraw_step) simp
next
  case (Suc n)
  then show ?case by (subst redraw_step) (auto simp: algebra_simps)
qed

text \<open>A pair that is not proportional to the first, either the one it had or one of those drawn.\<close>

definition settled :: "int \<Rightarrow> int \<Rightarrow> int \<times> int \<Rightarrow> rng \<Rightarrow> (int \<times> int) \<times> rng \<Rightarrow> bool" where
  "settled a1 b1 p r y \<longleftrightarrow>
     \<not> proportional (a1, b1) (fst y) \<and> empty_range (snd y) = empty_range r \<and>
     (fst y = p \<or> (\<exists>n. fst y = pair_at (draws r) (drawn r + 2 * n)))"

lemma settled_step:
  assumes "settled a1 b1 (pair_at (draws r) (drawn r)) (r\<lparr>drawn := drawn r + 2\<rparr>) y"
  shows "settled a1 b1 p r y"
proof -
  have "\<exists>n. fst y = pair_at (draws r) (drawn r + 2 * n)"
  proof (cases "fst y = pair_at (draws r) (drawn r)")
    case True
    then show ?thesis by (intro exI [of _ 0]) simp
  next
    case False
    then obtain n where "fst y = pair_at (draws r) (drawn r + 2 + 2 * n)" using assms by (auto simp: settled_def)
    then show ?thesis by (intro exI [of _ "Suc n"]) simp
  qed
  then show ?thesis using assms by (simp add: settled_def)
qed

lemma redraw_result:
  assumes "redraw a1 b1 p r = Some y"
  shows "settled a1 b1 p r y"
proof (rule redraw.raw_induct [of settled, OF _ assms])
  fix again a1 b1 p r y
  assume IH: "\<And>a1 b1 p r y. again a1 b1 p r = Some y \<Longrightarrow> settled a1 b1 p r y"
    and step: "(if a1 * snd p = fst p * b1 then again a1 b1 (fst (run_state coefficients r)) (snd (run_state coefficients r))
                else Some (p, r)) = Some y"
  show "settled a1 b1 p r y"
  proof (cases "a1 * snd p = fst p * b1")
    case True
    with step IH have "settled a1 b1 (pair_at (draws r) (drawn r)) (r\<lparr>drawn := drawn r + 2\<rparr>) y" by simp
    then show ?thesis by (rule settled_step)
  next
    case False
    then show ?thesis using step by (auto simp: settled_def proportional_def)
  qed
qed

text \<open>The pairs of coefficients a run would draw.\<close>

definition first_pair :: "rng \<Rightarrow> int \<times> int" where
  "first_pair r = pair_at (draws r) (drawn r + 2)"

definition later_pair :: "rng \<Rightarrow> nat \<Rightarrow> int \<times> int" where
  "later_pair r n = pair_at (draws r) (drawn r + 4 + 2 * n)"

lemma run_system_draws:
  "run_state system_draws r =
     ((1 + int (draws r (drawn r) mod 10), 1 + int (draws r (Suc (drawn r)) mod 10), first_pair r, later_pair r 0),
      r\<lparr>drawn := drawn r + 6\<rparr>)"
proof -
  have more: "n + 4 = Suc (Suc (Suc (Suc n)))" "n + 6 = Suc (Suc (Suc (Suc (Suc (Suc n)))))" for n by simp_all
  show ?thesis by (simp add: system_draws_def first_pair_def later_pair_def more)
qed

lemma system_run:
  "gen_system_solvable r =
     (case redraw (fst (first_pair r)) (snd (first_pair r)) (later_pair r 0) (r\<lparr>drawn := drawn r + 6\<rparr>) of
        None \<Rightarrow> None
      | Some (p2, r') \<Rightarrow>
          Some (system_task (1 + int (draws r (drawn r) mod 10)) (1 + int (draws r (Suc (drawn r)) mod 10))
                  (first_pair r) p2, r'))"
  by (simp add: gen_system_solvable_def run_system_draws)

lemma system_none:
  "gen_system_solvable r = None \<longleftrightarrow> (\<forall>n. proportional (first_pair r) (later_pair r n))"
proof
  assume none: "gen_system_solvable r = None"
  let ?redraw = "redraw (fst (first_pair r)) (snd (first_pair r)) (later_pair r 0) (r\<lparr>drawn := drawn r + 6\<rparr>)"
  from none have stuck: "?redraw = None" by (simp add: system_run split: option.splits prod.splits)
  show "\<forall>n. proportional (first_pair r) (later_pair r n)"
  proof
    fix n
    show "proportional (first_pair r) (later_pair r n)"
    proof (cases n)
      case 0
      then show ?thesis using stuck by (subst (asm) redraw_step) (auto split: if_splits)
    next
      case (Suc m)
      have "drawn r + 4 + 2 * n = drawn r + 6 + 2 * m" using Suc by simp
      then have "later_pair r n = pair_at (draws r) (drawn r + 6 + 2 * m)" by (simp only: later_pair_def)
      then show ?thesis
        using stuck redraw_returns [of "fst (first_pair r)" "snd (first_pair r)" "r\<lparr>drawn := drawn r + 6\<rparr>" m]
        by (metis prod.collapse rng.select_convs(1,2) rng.simps(4) rng.surjective rng.update_convs(2))
    qed
  qed
next
  assume all: "\<forall>n. proportional (first_pair r) (later_pair r n)"
  show "gen_system_solvable r = None"
  proof (rule ccontr)
    assume "gen_system_solvable r \<noteq> None"
    then obtain y where y:
      "redraw (fst (first_pair r)) (snd (first_pair r)) (later_pair r 0) (r\<lparr>drawn := drawn r + 6\<rparr>) = Some y"
      by (auto simp: system_run split: option.splits)
    from redraw_result [OF y] have y': "\<not> proportional (first_pair r) (fst y)"
      "fst y = later_pair r 0 \<or> (\<exists>n. fst y = pair_at (draws r) (drawn r + 6 + 2 * n))"
      by (auto simp: settled_def)
    have "drawn r + 6 + 2 * n = drawn r + 4 + 2 * Suc n" for n by simp
    then have "pair_at (draws r) (drawn r + 6 + 2 * n) = later_pair r (Suc n)" for n by (simp only: later_pair_def)
    with y' obtain n where "fst y = later_pair r n" by metis
    with y' have "\<not> proportional (first_pair r) (later_pair r n)" by simp
    then show False using all by simp
  qed
qed

text \<open>Both lines through a point, over the real numbers.\<close>

definition on_line :: "int \<times> int \<Rightarrow> int \<Rightarrow> real \<Rightarrow> real \<Rightarrow> bool" where
  "on_line p c u v \<longleftrightarrow> of_int (fst p) * u + of_int (snd p) * v = of_int c"

definition right_side :: "int \<times> int \<Rightarrow> int \<Rightarrow> int \<Rightarrow> int" where
  "right_side p x y = fst p * x + snd p * y"

lemma only_solution:
  assumes "\<not> proportional p q"
  shows "on_line p (right_side p x y) u v \<and> on_line q (right_side q x y) u v \<longleftrightarrow> u = of_int x \<and> v = of_int y"
proof
  assume both: "on_line p (right_side p x y) u v \<and> on_line q (right_side q x y) u v"
  define a b c d :: real where defs: "a = of_int (fst p)" "b = of_int (snd p)" "c = of_int (fst q)" "d = of_int (snd q)"
  have "real_of_int (fst p * snd q) \<noteq> real_of_int (fst q * snd p)"
    using assms unfolding proportional_def of_int_eq_iff .
  then have det: "a * d - c * b \<noteq> 0" by (simp add: defs)
  have e: "a * (u - x) + b * (v - y) = 0" "c * (u - x) + d * (v - y) = 0"
    using both by (simp_all add: on_line_def right_side_def defs algebra_simps)
  have "(a * d - c * b) * (u - x) = d * (a * (u - x) + b * (v - y)) - b * (c * (u - x) + d * (v - y))"
    "(a * d - c * b) * (v - y) = a * (c * (u - x) + d * (v - y)) - c * (a * (u - x) + b * (v - y))"
    by (simp_all add: algebra_simps)
  then have "(a * d - c * b) * (u - x) = 0" "(a * d - c * b) * (v - y) = 0" by (simp_all only: e)
  then show "u = of_int x \<and> v = of_int y" using det by simp
next
  assume "u = of_int x \<and> v = of_int y"
  then show "on_line p (right_side p x y) u v \<and> on_line q (right_side q x y) u v"
    by (simp add: on_line_def right_side_def)
qed

text \<open>A task whose point is the only one on the two lines it shows.\<close>

definition well_posed :: "math_task \<Rightarrow> bool" where
  "well_posed t \<longleftrightarrow>
     (\<exists>x y p q. t = system_task x y p q \<and> 1 \<le> x \<and> x \<le> 10 \<and> 1 \<le> y \<and> y \<le> 10 \<and>
        (\<forall>u v. on_line p (right_side p x y) u v \<and> on_line q (right_side q x y) u v \<longleftrightarrow> u = of_int x \<and> v = of_int y))"

text \<open>
  C39: The generator of solvable linear systems returns exactly when the random numbers ever produce a second equation
  that is not proportional to the first; the loop runs on for as long as they do not. The task it then returns shows
  two lines that meet in one point only, the one in its solutions.
\<close>
theorem system_settles:
  "case gen_system_solvable r of
     None \<Rightarrow> \<forall>n. proportional (first_pair r) (later_pair r n)
   | Some (t, _) \<Rightarrow> well_posed t \<and> (\<exists>n. \<not> proportional (first_pair r) (later_pair r n))"
proof (cases "gen_system_solvable r")
  case None
  then show ?thesis by (simp add: system_none [symmetric])
next
  case (Some z)
  obtain t r' where z: "z = (t, r')" by (cases z)
  obtain y where y:
    "redraw (fst (first_pair r)) (snd (first_pair r)) (later_pair r 0) (r\<lparr>drawn := drawn r + 6\<rparr>) = Some y"
    and t: "t = system_task (1 + int (draws r (drawn r) mod 10)) (1 + int (draws r (Suc (drawn r)) mod 10))
                  (first_pair r) (fst y)"
    using Some z by (auto simp: system_run split: option.splits)
  from redraw_result [OF y] have "\<not> proportional (first_pair r) (fst y)" by (simp add: settled_def)
  then have "well_posed t" unfolding well_posed_def t
    by (intro exI conjI allI only_solution refl) auto
  moreover have "\<exists>n. \<not> proportional (first_pair r) (later_pair r n)"
    using Some system_none [of r] by auto
  ultimately show ?thesis using Some z by simp
qed

section \<open>Whatever is asked for\<close>

lemma system_of_kind: "of_kind 6 ''system_solvable'' (system_task x y p q)"
  by (simp add: system_task_def split_beta Let_def)

lemma system_makes: "gen_system_solvable r = Some (t, r') \<Longrightarrow> of_kind 6 ''system_solvable'' t"
  by (auto simp: system_run system_of_kind split: option.splits)

lemma system_keeps_range: "gen_system_solvable r = Some (t, r') \<Longrightarrow> empty_range r' = empty_range r"
  by (auto simp: system_run settled_def dest: redraw_result split: option.splits)

text \<open>What \<^verbatim>\<open>create\<close> gives: nothing when it does not return, else the exception or the task.\<close>

definition as_asked :: "int \<Rightarrow> string option \<Rightarrow> math_task result \<Rightarrow> bool" where
  "as_asked level pt res \<longleftrightarrow>
     (case res of
        Inl e \<Rightarrow> e = PyError ''ValueError'' \<and> \<not> offered level pt
      | Inr t \<Rightarrow> offered level pt \<and> of_kind level (mt_problem_type t) t \<and> offered level (Some (mt_problem_type t)) \<and>
               (pt = None \<or> pt = Some (mt_problem_type t)))"

lemma generate_as_asked:
  assumes "dget problem_types_by_level level = Some types" and "t \<in> set types" and "\<not> empty_range r"
    and "pt = None \<or> pt = Some t"
  shows "case generate t r of None \<Rightarrow> t = ''system_solvable'' | Some (res, _) \<Rightarrow> as_asked level pt res"
proof -
  have asked: "as_asked level pt (Inr task)" if "of_kind level t task" for task
    using that assms by (auto simp: as_asked_def of_kind_def offered_def)
  from generator_of_type [OF assms(1,2)] obtain g where g: "dget generators t = Some g"
    and "t = ''system_solvable'' \<and> g = gen_system_solvable \<or> makes level t g" by blast
  then consider (system) "t = ''system_solvable''" "g = gen_system_solvable" | (other) "makes level t g" by blast
  then show ?thesis
  proof cases
    case system
    have "level = 6" using assms(1,2) system(1) by (auto simp: problem_types_by_level_def split: if_splits)
    show ?thesis
    proof (cases "gen_system_solvable r")
      case None
      then show ?thesis using g system by (simp add: generate_def)
    next
      case (Some z)
      obtain task r' where z: "z = (task, r')" by (cases z)
      then have "\<not> empty_range r'" using Some system_keeps_range assms(3) by metis
      moreover have "as_asked level pt (Inr task)"
        by (rule asked) (use system_makes Some z system(1) \<open>level = 6\<close> in auto)
      ultimately show ?thesis using g system Some z by (simp add: generate_def drawn_from_def)
    qed
  next
    case other
    from generate_makes [OF g this assms(3)] asked show ?thesis by auto
  qed
qed

text \<open>
  C38: Asked for a level and perhaps a type, the factory raises \<^verbatim>\<open>ValueError\<close> exactly when it does not offer
  them; no generator ever draws from an empty range or list. Otherwise the task is of that level, of the type asked for
  or else of one of the level, and has a solution; only at level 6, where the linear systems are, can the call not
  return.
\<close>
theorem create_answers:
  assumes "\<not> empty_range r"
  shows "case create_task_of level pt r of None \<Rightarrow> level = 6 \<and> offered level pt | Some (res, _) \<Rightarrow> as_asked level pt res"
proof (cases "dget problem_types_by_level level")
  case None
  then show ?thesis by (simp add: create_task_of_def as_asked_def offered_def)
next
  case (Some types)
  have six: "level = 6" if "''system_solvable'' \<in> set types"
    using Some that by (auto simp: problem_types_by_level_def split: if_splits)
  show ?thesis
  proof (cases pt)
    case None
    obtain t r1 where pick: "run_state (choice types) r = (t, r1)" by (cases "run_state (choice types) r")
    have picks: "yields (choice types) (\<lambda>t. t \<in> set types)"
      by (intro yields_choice) (use types_not_empty [OF Some] in auto)
    have t: "t \<in> set types" "\<not> empty_range r1"
      using picks [unfolded yields_def, rule_format, of r] pick assms by simp_all
    have run: "create_task_of level pt r = generate t r1" using None Some t pick by (simp add: create_task_of_def)
    show ?thesis unfolding run
      using generate_as_asked [OF Some t, of pt] six t(1) None Some
      by (cases "generate t r1") (auto simp: offered_def)
  next
    case pt: (Some t)
    show ?thesis
    proof (cases "t \<in> set types")
      case True
      have run: "create_task_of level pt r = generate t r" using pt Some True by (simp add: create_task_of_def)
      show ?thesis unfolding run
        using generate_as_asked [OF Some True assms, of pt] six True pt Some
        by (cases "generate t r") (auto simp: offered_def)
    next
      case False
      then show ?thesis using pt Some by (simp add: create_task_of_def as_asked_def offered_def)
    qed
  qed
qed

lemma create_answers_witness:
  "case create_task_of 5 (Some ''single_variable_combined'') \<lparr>draws = (\<lambda>_. 0), drawn = 0, empty_range = False\<rparr> of
     None \<Rightarrow> (5 :: int) = 6 \<and> offered 5 (Some ''single_variable_combined'')
   | Some (res, _) \<Rightarrow> as_asked 5 (Some ''single_variable_combined'') res"
  by (rule create_answers) simp

end
