(* ===== verification/Math_Schedule.thy ===== *)
theory Math_Schedule
  imports Math_Props
begin

text \<open>
  The constraint puzzles of level 12: the answer of a scheduling task is the least time at which a schedule that waits
  for all dependencies can be over; allocations meet their constraints; numbers do, but not alone. The closed sums of
  level 14 are the sums.
\<close>

section \<open>Schedules\<close>

definition project_ok :: "project \<Rightarrow> bool" where
  "project_ok p \<longleftrightarrow>
     distinct (pj_labels p) \<and> pj_labels p \<noteq> [] \<and>
     (\<forall>i < length (pj_labels p). set (deps_of p (pj_labels p ! i)) \<subseteq> set (take i (pj_labels p)))"

text \<open>A schedule gives each task its start; none starts before time 0 or before a task it depends on is over.\<close>

definition feasible :: "project \<Rightarrow> (string \<Rightarrow> int) \<Rightarrow> bool" where
  "feasible p s \<longleftrightarrow>
     (\<forall>t \<in> set (pj_labels p). 0 \<le> s t \<and> (\<forall>d \<in> set (deps_of p t). s d + duration_of p d \<le> s t))"

definition over_by :: "project \<Rightarrow> (string \<Rightarrow> int) \<Rightarrow> int \<Rightarrow> bool" where
  "over_by p s e \<longleftrightarrow> (\<forall>t \<in> set (pj_labels p). s t + duration_of p t \<le> e)"

definition least_end :: "project \<Rightarrow> int \<Rightarrow> bool" where
  "least_end p e \<longleftrightarrow> (\<exists>s. feasible p s \<and> over_by p s e) \<and> (\<forall>s e'. feasible p s \<longrightarrow> over_by p s e' \<longrightarrow> e \<le> e')"

lemma max_of_Max: "ns \<noteq> [] \<Longrightarrow> max_of ns = Max (set ns)"
  by (cases ns) (simp_all only: max_of.simps Max.set_eq_fold)

lemma max_of_le: "ns \<noteq> [] \<Longrightarrow> max_of ns \<le> m \<longleftrightarrow> (\<forall>n \<in> set ns. n \<le> m)"
  by (simp add: max_of_Max)

lemma max_of_ge: "n \<in> set ns \<Longrightarrow> n \<le> max_of ns"
  by (cases "ns = []") (auto simp: max_of_Max)

text \<open>The start times of the tasks before one are not changed by it or by those after it.\<close>

definition start_at :: "project \<Rightarrow> string \<Rightarrow> int" where
  "start_at p t = dget_or (earliest_start p) t 0"

lemma later_starts: "t \<notin> set ts \<Longrightarrow> dget_or (fold (start_next p) ts es) t 0 = dget_or es t 0"
  by (induction ts arbitrary: es) (auto simp: start_next_def dict_simps)

lemma start_in_prefix:
  assumes "project_ok p" and "i \<le> length (pj_labels p)" and "t \<in> set (take i (pj_labels p))"
  shows "dget_or (fold (start_next p) (take i (pj_labels p)) []) t 0 = start_at p t"
proof -
  have "distinct (take i (pj_labels p) @ drop i (pj_labels p))"
    unfolding append_take_drop_id using assms(1) by (simp only: project_ok_def)
  then have "t \<notin> set (drop i (pj_labels p))" using assms(3) by (auto simp only: distinct_append)
  then have "dget_or (fold (start_next p) (drop i (pj_labels p)) (fold (start_next p) (take i (pj_labels p)) [])) t 0 =
             dget_or (fold (start_next p) (take i (pj_labels p)) []) t 0"
    by (rule later_starts)
  then show ?thesis by (simp add: start_at_def earliest_start_def fold_append [symmetric, THEN fun_cong, unfolded comp_def])
qed

lemma start_equation:
  assumes p: "project_ok p" and i: "i < length (pj_labels p)" and t: "t = pj_labels p ! i"
  shows "start_at p t =
    (if deps_of p t = [] then 0 else max_of (map (\<lambda>d. start_at p d + duration_of p d) (deps_of p t)))"
proof -
  let ?es = "fold (start_next p) (take i (pj_labels p)) []"
  have "set (deps_of p t) \<subseteq> set (take i (pj_labels p))" using p i t by (simp add: project_ok_def)
  then have deps: "map (\<lambda>d. dget_or ?es d 0 + duration_of p d) (deps_of p t) =
             map (\<lambda>d. start_at p d + duration_of p d) (deps_of p t)"
    using start_in_prefix [OF p] i by (intro map_cong) auto
  have "t \<in> set (take (Suc i) (pj_labels p))" using i t by (simp add: take_Suc_conv_app_nth)
  then have "start_at p t = dget_or (fold (start_next p) (take (Suc i) (pj_labels p)) []) t 0"
    using start_in_prefix [OF p] i by simp
  moreover have "fold (start_next p) (take (Suc i) (pj_labels p)) [] = start_next p t ?es"
    using i t by (simp add: take_Suc_conv_app_nth)
  ultimately show ?thesis by (simp only: start_next_def dget_or_dput deps simp_thms if_True)
qed

lemma dep_index:
  assumes "project_ok p" and "i < length (pj_labels p)" and "d \<in> set (deps_of p (pj_labels p ! i))"
  obtains j where "j < i" and "d = pj_labels p ! j"
proof -
  have "d \<in> set (take i (pj_labels p))" using assms by (auto simp: project_ok_def)
  then obtain j where "j < length (take i (pj_labels p))" "d = take i (pj_labels p) ! j" by (metis in_set_conv_nth)
  then show ?thesis by (intro that [of j]) auto
qed

lemma start_after_deps:
  assumes "project_ok p" and "t \<in> set (pj_labels p)" and "d \<in> set (deps_of p t)"
  shows "start_at p d + duration_of p d \<le> start_at p t"
proof -
  obtain i where i: "i < length (pj_labels p)" "t = pj_labels p ! i" using assms(2) by (auto simp: in_set_conv_nth)
  have "start_at p d + duration_of p d \<in> set (map (\<lambda>d. start_at p d + duration_of p d) (deps_of p t))"
    using assms(3) by simp
  from max_of_ge [OF this] show ?thesis using start_equation [OF assms(1) i] assms(3) by auto
qed

lemma start_nonneg:
  assumes p: "project_ok p" and dur: "\<forall>t. 0 \<le> duration_of p t" and "i < length (pj_labels p)"
  shows "0 \<le> start_at p (pj_labels p ! i)"
  using assms(3)
proof (induction i rule: less_induct)
  case (less i)
  let ?t = "pj_labels p ! i"
  show ?case
  proof (cases "deps_of p ?t = []")
    case True
    then show ?thesis using start_equation [OF p less.prems refl] by simp
  next
    case False
    then obtain d where d: "d \<in> set (deps_of p ?t)" by (cases "deps_of p ?t") auto
    obtain j where j: "j < i" "d = pj_labels p ! j" by (rule dep_index [OF p less.prems d])
    with less have "0 \<le> start_at p d" by simp
    moreover have "start_at p d + duration_of p d \<le> start_at p ?t"
      using p d less.prems by (intro start_after_deps) auto
    ultimately show ?thesis using dur [THEN spec, of d] by linarith
  qed
qed

lemma start_least:
  assumes p: "project_ok p" and s: "feasible p s" and "i < length (pj_labels p)"
  shows "start_at p (pj_labels p ! i) \<le> s (pj_labels p ! i)"
  using assms(3)
proof (induction i rule: less_induct)
  case (less i)
  let ?t = "pj_labels p ! i"
  have t: "0 \<le> s ?t" "\<forall>d \<in> set (deps_of p ?t). s d + duration_of p d \<le> s ?t" using s less.prems by (auto simp: feasible_def)
  have "start_at p d + duration_of p d \<le> s ?t" if d: "d \<in> set (deps_of p ?t)" for d
  proof -
    obtain j where "j < i" "d = pj_labels p ! j" by (rule dep_index [OF p less.prems d])
    with less have "start_at p d \<le> s d" by simp
    then show ?thesis using t(2) d by fastforce
  qed
  then show ?case using start_equation [OF p less.prems refl] t(1) by (simp add: max_of_le)
qed

theorem earliest_finish_least:
  assumes p: "project_ok p" and dur: "\<forall>t. 0 \<le> duration_of p t"
  shows "least_end p (earliest_finish p)"
proof -
  have labels: "map f (pj_labels p) \<noteq> []" for f :: "string \<Rightarrow> int" using p by (simp add: project_ok_def)
  have finish: "earliest_finish p = max_of (map (\<lambda>t. start_at p t + duration_of p t) (pj_labels p))"
    by (simp add: earliest_finish_def start_at_def)
  have "feasible p (start_at p)"
    unfolding feasible_def using start_nonneg [OF p dur] start_after_deps [OF p] by (auto simp: in_set_conv_nth)
  moreover have "over_by p (start_at p) (earliest_finish p)"
    unfolding over_by_def finish by (auto intro: max_of_ge)
  moreover have "earliest_finish p \<le> e" if s: "feasible p s" and e: "over_by p s e" for s e
    unfolding finish max_of_le [OF labels]
  proof clarsimp
    fix t assume t: "t \<in> set (pj_labels p)"
    then obtain i where "i < length (pj_labels p)" "t = pj_labels p ! i" by (auto simp: in_set_conv_nth)
    then have "start_at p t \<le> s t" using start_least [OF p s] by simp
    moreover have "s t + duration_of p t \<le> e" using e t by (simp add: over_by_def)
    ultimately show "start_at p t + duration_of p t \<le> e" by linarith
  qed
  ultimately show ?thesis unfolding least_end_def by blast
qed

text \<open>The dependencies drawn for the task at a position are among the tasks before it.\<close>

definition drawn_deps :: "string list \<Rightarrow> nat \<Rightarrow> string \<times> string list \<Rightarrow> bool" where
  "drawn_deps labels i d \<longleftrightarrow> fst d = labels ! i \<and> set (snd d) \<subseteq> set (take i labels)"

lemma yields_draw_deps:
  assumes "1 \<le> i" and "i < length labels"
  shows "yields (draw_deps labels i) (drawn_deps labels i)"
  unfolding draw_deps_def
  by (intro yields_bind yields_randint yields_sample yields_give) (use assms in \<open>auto simp: drawn_deps_def nat_le_iff\<close>)

lemma drawn_deps_nth:
  assumes "list_all2 (drawn_deps labels) [1..<length labels] ds" and "Suc j < length labels"
  shows "drawn_deps labels (Suc j) (ds ! j)"
proof -
  have "drawn_deps labels ([1..<length labels] ! j) (ds ! j)" using list_all2_nthD [OF assms(1), of j] assms(2) by simp
  moreover have "[1..<length labels] ! j = Suc j" using assms(2) by (subst nth_upt) simp_all
  ultimately show ?thesis by simp
qed

lemma drawn_deps_zip:
  assumes "list_all2 (drawn_deps labels) [1..<length labels] ds" and "labels \<noteq> []"
  shows "(labels ! 0, []) # ds = zip labels ([] # map snd ds)" "length labels = length ([] # map snd ds)"
proof -
  have len: "length labels = Suc (length ds)" using list_all2_lengthD [OF assms(1)] assms(2) by (cases labels) (simp_all del: upt_Suc)
  then show "length labels = length ([] # map snd ds)" by simp
  show "(labels ! 0, []) # ds = zip labels ([] # map snd ds)"
  proof (rule nth_equalityI)
    fix i assume "i < length ((labels ! 0, []) # ds)"
    then show "((labels ! 0, []) # ds) ! i = zip labels ([] # map snd ds) ! i"
      using drawn_deps_nth [OF assms(1)] len by (cases i) (simp_all add: drawn_deps_def prod_eq_iff)
  qed (simp add: len)
qed

lemma drawn_project_ok:
  assumes labels: "labels \<noteq> []" "distinct labels" and ds: "list_all2 (drawn_deps labels) [1..<length labels] ds"
    and p: "pj_labels p = labels" "pj_deps p = (labels ! 0, []) # ds"
  shows "project_ok p"
  unfolding project_ok_def p
proof (intro conjI labels allI impI)
  fix i assume i: "i < length labels"
  note zip = drawn_deps_zip [OF ds labels(1)]
  have "dget (zip labels ([] # map snd ds)) (labels ! i) = Some (([] # map snd ds) ! i)"
    using zip(2) labels(2) i by (intro map_of_zip_nth) simp_all
  then have deps: "deps_of p (labels ! i) = ([] # map snd ds) ! i" by (simp only: deps_of_def p zip(1) dget_or_def option.case)
  show "set (deps_of p (labels ! i)) \<subseteq> set (take i labels)"
  proof (cases i)
    case 0
    then show ?thesis using deps by simp
  next
    case (Suc j)
    then show ?thesis using drawn_deps_nth [OF ds, of j] zip(2) i deps by (simp add: drawn_deps_def)
  qed
qed

lemma distinct_labels: "n \<le> 7 \<Longrightarrow> distinct (map (\<lambda>i. [char_of (65 + i) :: char]) [0..<n])"
proof (unfold distinct_map, intro conjI inj_onI)
  fix i j :: nat
  assume "n \<le> 7" and ij: "i \<in> set [0..<n]" "j \<in> set [0..<n]" and eq: "[char_of (65 + i) :: char] = [char_of (65 + j)]"
  then have "of_char (char_of (65 + i) :: char) = (of_char (char_of (65 + j) :: char) :: nat)" by simp
  then show "i = j" using \<open>n \<le> 7\<close> ij by (simp add: of_char_of)
qed simp

lemma dget_or_zip: "(\<forall>v \<in> set vs. P v) \<Longrightarrow> P d \<Longrightarrow> P (dget_or (zip ks vs) k d)"
  by (auto simp: dget_or_def split: option.splits dest!: map_of_SomeD set_zip_rightD)

lemma yields_draw_project:
  assumes labels: "labels \<noteq> []" "distinct labels"
  shows "yields (draw_project labels) (\<lambda>p. project_ok p \<and> (\<forall>t. 0 \<le> duration_of p t))"
  unfolding draw_project_def
proof (intro yields_bind yields_gather [where Q = "\<lambda>v. 1 \<le> v \<and> v \<le> 8"] yields_traverse [where Q = "drawn_deps labels"]
    yields_give conjI allI)
  show "yields (randint 1 8) (\<lambda>v. 1 \<le> v \<and> v \<le> 8)" by (rule yields_randint) auto
  show "yields (draw_deps labels i) (drawn_deps labels i)" if "i \<in> set [1..<length labels]" for i
    using that by (intro yields_draw_deps) auto
  fix durations :: "int list" and ds
  assume durations: "\<forall>v \<in> set durations. 1 \<le> v \<and> v \<le> 8" and ds: "list_all2 (drawn_deps labels) [1..<length labels] ds"
  let ?p = "\<lparr>pj_labels = labels, pj_durations = zip labels durations, pj_deps = (labels ! 0, []) # ds\<rparr>"
  show "project_ok ?p" using labels ds by (rule drawn_project_ok) simp_all
  show "0 \<le> duration_of ?p t" for t
  proof -
    have "\<forall>v \<in> set durations. 0 \<le> v" using durations by fastforce
    then show ?thesis unfolding duration_of_def project.select_convs by (rule dget_or_zip [where P = "\<lambda>v. 0 \<le> v"]) simp
  qed
qed

lemma yields_project: "yields project_draws (\<lambda>p. project_ok p \<and> (\<forall>t. 0 \<le> duration_of p t))"
  unfolding project_draws_def
proof (intro yields_bind yields_randint)
  fix n :: int assume n: "5 \<le> n" "n \<le> 7"
  then have "map (\<lambda>i. [char_of (65 + i) :: char]) [0..<nat n] \<noteq> []" by simp
  moreover have "distinct (map (\<lambda>i. [char_of (65 + i) :: char]) [0..<nat n])" using n by (intro distinct_labels) simp
  ultimately show "yields (draw_project (map (\<lambda>i. [char_of (65 + i)]) [0..<nat n]))
    (\<lambda>p. project_ok p \<and> (\<forall>t. 0 \<le> duration_of p t))" by (rule yields_draw_project)
qed simp

text \<open>
  C40: Whatever is drawn, the scheduling puzzle is a project whose dependencies can be met, and its one solution is the
  least time at which a schedule can be over that starts no task before all it depends on are finished.
\<close>
theorem schedule_earliest:
  "\<exists>p. fst (run_state gen_scheduling_constraints r) = project_task p \<and> project_ok p \<and> least_end p (earliest_finish p) \<and>
       mt_solutions (project_task p) = [int_text (earliest_finish p)]"
proof -
  let ?p = "fst (run_state project_draws r)"
  have "project_ok ?p" "\<forall>t. 0 \<le> duration_of ?p t"
    using yields_project [unfolded yields_def, rule_format, of r] by auto
  moreover have "fst (run_state gen_scheduling_constraints r) = project_task ?p"
    by (simp add: gen_scheduling_constraints_def split_beta)
  moreover have "mt_solutions (project_task ?p) = [int_text (earliest_finish ?p)]"
    by (simp add: project_task_def make_task_def)
  ultimately show ?thesis using earliest_finish_least by blast
qed

section \<open>Allocations\<close>

text \<open>Each bin is within its bounds, and the target holds a multiple of the divisor.\<close>

definition allocation_ok :: "allocation \<Rightarrow> bool" where
  "allocation_ok a \<longleftrightarrow>
     (\<forall>i < length (al_bins a). fst (al_bounds a ! i) \<le> dget_or (al_bins a) (fst (al_bins a ! i)) 0 \<and>
                               dget_or (al_bins a) (fst (al_bins a ! i)) 0 \<le> snd (al_bounds a ! i)) \<and>
     dget_or (al_bins a) (al_target a) 0 mod al_divisor a = 0"

definition around :: "int \<Rightarrow> int \<times> int \<Rightarrow> bool" where
  "around v b \<longleftrightarrow> fst b \<le> max 0 (v - 5) \<and> v + 5 \<le> snd b"

lemma yields_draw_bounds: "yields (draw_bounds v) (around v)"
  unfolding draw_bounds_def by (intro yields_bind yields_randint yields_give) (auto simp: around_def)

lemma divisors_or_one_divides: "d \<in> set (divisors_or_one ds n) \<Longrightarrow> n mod d = 0"
  by (auto simp: divisors_or_one_def Let_def split: if_splits)

lemma keys_dput_old: "k \<in> set (map fst d) \<Longrightarrow> map fst (dput d k v) = map fst d"
  by (simp add: update_keys)

lemma changed_allocation_ok:
  assumes names: "distinct names" "length amounts = length names" and amounts: "\<forall>v \<in> set amounts. 10 \<le> v"
    and bounds: "list_all2 around amounts bounds" and target: "target \<in> set names"
    and v: "v = dget_or (zip names amounts) target 0" and w: "v - 1 \<le> w" "w \<le> v" "w mod d = 0"
  shows "allocation_ok \<lparr>al_bins = dput (zip names amounts) target w, al_bounds = bounds, al_target = target, al_divisor = d\<rparr>"
proof -
  let ?bins = "dput (zip names amounts) target w"
  have keys: "map fst ?bins = names" using names target by (simp add: keys_dput_old)
  then have len: "length ?bins = length names" by (metis length_map)
  have within: "fst (bounds ! i) \<le> dget_or ?bins (names ! i) 0 \<and> dget_or ?bins (names ! i) 0 \<le> snd (bounds ! i)"
    if i: "i < length names" for i
  proof -
    have old: "dget_or (zip names amounts) (names ! i) 0 = amounts ! i"
      using names i by (simp add: dget_or_def map_of_zip_nth)
    have "around (amounts ! i) (bounds ! i)" using list_all2_nthD [OF bounds, of i] names i by simp
    moreover have "10 \<le> amounts ! i" using amounts names i by simp
    ultimately show ?thesis using v w old by (auto simp: around_def)
  qed
  have "fst (?bins ! i) = names ! i" if "i < length names" for i using keys len that by (metis nth_map)
  then show ?thesis using within len w(3) by (simp add: allocation_ok_def)
qed

lemma dput_same: "dget d k = Some v \<Longrightarrow> dput d k v = d"
  by (induction d) (auto split: if_splits)

lemma dput_same_zip:
  assumes "k \<in> set ks" and "length vs = length ks"
  shows "dput (zip ks vs) k (dget_or (zip ks vs) k c) = zip ks vs"
proof -
  have "fst ` set (zip ks vs) = set ks" using assms(2) by (metis map_fst_zip set_map)
  then obtain v where v: "dget (zip ks vs) k = Some v" using assms(1) by (metis dget_None_keys not_None_eq)
  then have "dget_or (zip ks vs) k c = v" by (simp add: dget_or_def)
  then show ?thesis using dput_same [OF v] by simp
qed

lemma distinct_bins: "n \<le> 4 \<Longrightarrow> distinct (map (\<lambda>i. ''Bin '' @ [char_of (65 + i) :: char]) [0..<n])"
  using distinct_labels [of n] by (simp add: distinct_map inj_on_def)

lemma yields_allocation: "yields allocation_draws allocation_ok"
  unfolding allocation_draws_def
proof (intro yields_bind yields_let yields_randint yields_gather [where Q = "\<lambda>v. 10 \<le> v"]
    yields_traverse [where Q = around] yields_draw_bounds yields_choice yields_give)
  fix n :: int assume n: "3 \<le> n" "n \<le> 4"
  let ?names = "map (\<lambda>i. ''Bin '' @ [char_of (65 + i) :: char]) [0..<nat n]"
  show "?names \<noteq> []" using n by simp
  have names: "distinct ?names" using n by (intro distinct_bins) simp
  fix amounts bounds target d
  assume amounts: "length amounts = length ?names" "\<forall>v \<in> set amounts. 10 \<le> v" and bounds: "list_all2 around amounts bounds"
    and target: "target \<in> set ?names" and d: "d \<in> set (divisors_or_one [2, 3, 5] (dget_or (zip ?names amounts) target 0))"
  let ?v = "dget_or (zip ?names amounts) target 0"
  note ok = changed_allocation_ok [OF names amounts bounds target refl]
  have dvd: "?v mod d = 0" using d by (rule divisors_or_one_divides)
  have same: "dput (zip ?names amounts) target ?v = zip ?names amounts" using target amounts(1) by (rule dput_same_zip)
  show "allocation_ok
     (if d = 1
      then \<lparr>al_bins = dput (zip ?names amounts) target (?v - ?v mod 2), al_bounds = bounds, al_target = target,
             al_divisor = 2\<rparr>
      else \<lparr>al_bins = zip ?names amounts, al_bounds = bounds, al_target = target, al_divisor = d\<rparr>)"
  proof (cases "d = 1")
    case True
    have even: "(?v - ?v mod 2) mod 2 = 0" by (simp add: minus_mod_eq_mult_div)
    have "?v - 1 \<le> ?v - ?v mod 2" "?v - ?v mod 2 \<le> ?v" by linarith+
    from ok [OF this even] show ?thesis using True by (simp only: simp_thms if_True)
  next
    case False
    have "allocation_ok \<lparr>al_bins = dput (zip ?names amounts) target ?v, al_bounds = bounds, al_target = target, al_divisor = d\<rparr>"
      using ok [of ?v d, OF _ _ dvd] by linarith
    then show ?thesis using False by (simp only: same if_False)
  qed
qed simp_all

section \<open>Numbers\<close>

text \<open>What the puzzle asks of a number; others than the accepted one may meet it.\<close>

definition meets :: "puzzle_numbers \<Rightarrow> int \<Rightarrow> bool" where
  "meets p n \<longleftrightarrow>
     np_lo p \<le> n \<and> n \<le> np_hi p \<and> n mod np_divisor p = 0 \<and>
     n mod np_mod_base p = np_answer p mod np_mod_base p \<and> digit_sum \<bar>n\<bar> = digit_sum \<bar>np_answer p\<bar>"

lemma mod_base_left: "filter (\<lambda>d. d \<noteq> x) [11, 13, 17, 19 :: int] \<noteq> []"
  by simp

lemma yields_number_puzzle: "yields number_puzzle (\<lambda>p. meets p (np_answer p))"
  unfolding number_puzzle_def
proof (intro yields_bind yields_randint yields_choice yields_split yields_give)
  fix a0 d0 :: int
  assume a0: "100 \<le> a0" "a0 \<le> 500" and d0: "d0 \<in> set (divisors_or_one [3, 4, 5, 6, 7, 8, 9] a0)"
  let ?ok = "\<lambda>(a :: int, d :: int). 90 \<le> a \<and> a mod d = 0"
  have "yields (if d0 = 1 then do { d \<leftarrow> choice [3, 5, 7]; produce (a0 - a0 mod d, d) } else produce (a0, d0)) ?ok"
  proof (intro yields_if yields_bind yields_choice yields_give)
    fix d :: int assume "d \<in> set [3, 5, 7]"
    then have "0 < d" "d < 8" by auto
    then have "a0 mod d < 8" by (intro order.strict_trans [OF pos_mod_bound])
    then have "90 \<le> a0 - a0 mod d" using a0 by linarith
    then show "?ok (a0 - a0 mod d, d)" by (simp add: minus_mod_eq_mult_div)
  next
    show "?ok (a0, d0)" using a0 divisors_or_one_divides [OF d0] by simp
  qed simp
  then show "yields (if d0 = 1 then do { d \<leftarrow> choice [3, 5, 7]; produce (a0 - a0 mod d, d) } else produce (a0, d0))
     (\<lambda>x. yields
        (case x of (answer, divisor) \<Rightarrow>
           do {
             mod_base \<leftarrow> choice (filter (\<lambda>d. d \<noteq> divisor) [11, 13, 17, 19]);
             below \<leftarrow> randint 50 150;
             above \<leftarrow> randint 50 150;
             produce \<lparr>np_answer = answer, np_divisor = divisor, np_mod_base = mod_base, np_lo = max 1 (answer - below),
                   np_hi = answer + above\<rparr>
           })
        (\<lambda>p. meets p (np_answer p)))"
    by (rule yields_mono) (auto intro!: yields_bind yields_randint yields_choice yields_give mod_base_left simp: meets_def
      simp del: filter.simps)
qed auto

section \<open>Sums\<close>

lemma arithmetic_sum: "(\<Sum>i < n. a + int i * d) * 2 = int n * (a + (a + (int n - 1) * d))"
  by (induction n) (simp_all add: algebra_simps)

lemma series_total_sum: "0 \<le> n \<Longrightarrow> series_total a d n = (\<Sum>i < nat n. a + int i * d)"
  using arithmetic_sum [of a d "nat n"] by (simp add: series_total_def)

lemma squares_sum: "(\<Sum>i \<le> n. (int i)\<^sup>2) * 6 = int n * (int n + 1) * (2 * int n + 1)"
  by (induction n) (simp_all add: algebra_simps power2_eq_square)

lemma squares_total_sum: "0 \<le> n \<Longrightarrow> squares_total n = (\<Sum>i \<le> nat n. (int i)\<^sup>2)"
  using squares_sum [of "nat n"] by (simp add: squares_total_def)

section \<open>Answers that are not what the text asks for\<close>

definition draw_list :: "nat list \<Rightarrow> rng" where
  "draw_list ds = \<lparr>draws = (\<lambda>i. if i < length ds then ds ! i else 0), drawn = 0, empty_range = False\<rparr>"

lemma run_choice [simp]:
  "run_state (choice xs) r =
     (xs ! (draws r (drawn r) mod length xs), r\<lparr>drawn := Suc (drawn r), empty_range := empty_range r \<or> xs = []\<rparr>)"
  by (simp add: choice_def randbelow_def)

lemma number_task_solutions: "mt_solutions (number_task p) = [int_text (np_answer p)]"
  by (simp only: number_task_def make_task_def math_task.select_convs)

text \<open>102 is accepted, 201 is not, and both are divisible by 3, leave 3 by 11, have digit sum 3 and are in range.\<close>

lemma number_not_alone:
  "let p = fst (run_state number_puzzle (draw_list [2, 0, 0, 100, 100]))
   in meets p 201 \<and> mt_solutions (number_task p) = [''102'']"
proof -
  have "divisors_or_one [3, 4, 5, 6, 7, 8, 9] 102 = [3, 6]" by (simp add: divisors_or_one_def)
  then have "fst (run_state number_puzzle (draw_list [2, 0, 0, 100, 100])) =
        \<lparr>np_answer = 102, np_divisor = 3, np_mod_base = 11, np_lo = 1, np_hi = 252\<rparr>"
    by (simp add: number_puzzle_def draw_list_def)
  moreover have "digit_sum 102 = 3" "digit_sum 201 = 3" by (simp_all add: digit_sum_def digit_value_def digit_texts)
  ultimately show ?thesis by (simp add: meets_def number_task_solutions digit_texts)
qed

text \<open>The quotient of (11 - 2) by 2 is given as 4.\<close>

lemma quotient_not_exact:
  "mt_solutions (fst (run_state gen_order_of_operations (draw_list [2 ^ 53 - 1, 1, 0, 0]))) = [''4'']"
  by (simp add: digit_texts gen_order_of_operations_def draw_list_def random_below_def randbelow_def
      make_task_def)

text \<open>Dividing a negative number rounds it down, not toward zero as the step says.\<close>

lemma rounds_down:
  "fst (fst (run_state (chain_arithmetic_step (- 7, [])) (draw_list [3, 0]))) = - 4"
  by (simp add: chain_arithmetic_step_def draw_list_def chain_divisors_def)

text \<open>The digits of 10023 in rising order are read as 123, where 10023 is the least without a leading zero.\<close>

lemma leading_zeros_dropped: "smallest_arrangement 10023 = 123"
  by (simp add: smallest_arrangement_def digit_texts sorted_digits digits_int_def digit_value_def)

end
