(* ===== verification/Spec2Isabelle.thy ===== *)
theory Spec2Isabelle
  imports Board_Cases Economy_Props Court_Board Ledger_Db Gateway_Leak Reputation_Props Agents_Db_Props Gateway_Bids Disputes_Db Feedback_Db Worker_Props Math_Schedule
begin

text \<open>
  A verification development for the agent economy (the Python services under src/services and the agents under
  src/agents). Agents post tasks for a reward and bid on them at the Task Board; the reward is held in escrow by
  the Central Bank; the Court rules disputed tasks through judges; the platform agent signs what only the platform
  may do; Identity names the agents and verifies their tokens.

  \<^bold>\<open>Parts and theories.\<close>

  \<^item> Prelude_AE: results (an exception of service_commons/exceptions.py or a value), and_then and chain for calls that
    may raise, Python dictionaries in insertion order, the host (clock and uuid4 as streams read by position), the range
    of datetime. Json: JSON values, Python's equality on them, response bodies of errors. Py_Text: str.strip, join,
    find, int() and isoformat() as the services use them.
  \<^item> Central Bank. Ledger: in_memory_ledger_store.py, one definition per method of the store, on the record ledger;
    Ledger_Props: its invariant and reachability. Bank_Api: routers/accounts.py, routers/escrow.py,
    routers/helpers.py, health.py over the record ledger_store (services/protocol.py); Bank_Api_Props: the locale
    ledger_storage, interpreted on the in-memory store, and who may move money.
  \<^item> Task Board. Task_Store: in_memory_task_store.py behind the record store_ops (services/protocol.py). Tokens:
    token_validator.py and identity_client.py. Deadlines: deadline_evaluator.py and escrow_coordinator.py.
    Task_Manager: task_manager.py, each handler split where it awaits the bank (X_prepare, the call, X_commit).
    Assets: asset_manager.py on a file system of resolved paths, the requests board_request and their runs. Task_Spec,
    Task_Props, Task_Auth, Task_Board, Board_Cases: the lifecycle as a relation on rows (task_edge), that every
    request refines it (locale task_board over the locale task_storage, interpreted on the in-memory store), who may
    do what, and cases on concrete inputs. Task_Api: core/middleware.py and all routers; Api_Props: runs of HTTP requests
    refine runs of requests.
  \<^item> Bank_Client: clients/central_bank_client.py, with a network that loses a request, an answer or nothing
    (fates, read by position), calling the bank's endpoints. Economy, Economy_Props: Task Board, client and bank
    together; what the rows owe and what the ledger holds.
  \<^item> Court. Dispute_Store: in_memory_dispute_store.py behind the record dispute_ops, with the locale dispute_storage.
    Judges: judges/ and the votes of ruling_orchestrator.py. Court: ruling_orchestrator.py, dispute_service.py and the
    routers; a ruling is begin_ruling, deliberate and conclude_ruling, as other requests are served while it awaits, and
    a rebuttal, served in a thread, is admit_rebuttal and write_rebuttal. Court_Runs, Court_Props: interleaved runs,
    the lifecycle of a dispute and its record types, and what a late rebuttal does (late_rebuttal). Court_Board: the Court's
    platform agent and the Task Board's HTTP interface together.
  \<^item> Agent_Client: src/agents/src/base_agent: every call of BaseAgent's mixins and of PlatformAgent.
  \<^item> Database gateway, through which production stores everything (the stores above are kept for compatibility and
    tests). Sqlite: tables, constraints and transactions as sqlite3 has them. Gateway_Writer: schema.sql and every
    transaction of db_writer.py; Gateway_Reader: db_reader.py; Gateway_Api: helpers and routers. Gateway_Wp: weakest
    preconditions of statements inside a transaction; Gateway_Atomic, Gateway_Routes: what every transaction and route
    keeps; Gateway_Money, Gateway_Props: errors change nothing, the books balance; Gateway_Leak: a release with badly
    named constraints; Gateway_Bids: the number of bids.
  \<^item> The services' storage clients over the gateway. Db_Client: what they share; Iso_Parse: fromisoformat; Ledger_Db,
    Tasks_Db, Disputes_Db, Feedback_Db, Agents_Db: ledger_db_client.py, task_db_client.py, dispute_db_client.py,
    feedback_db_client.py, agent_db_client.py. Agents_Db_Props: Identity over the gateway answers as over memory (the
    locale of two storages that agree, interpreted on them).
  \<^item> Reputation, Reputation_Props: feedback, its SQLite store, sealing and its endpoints. Identity, Identity_Props:
    agents, tokens and signatures, with Base64 as the library decodes it.
  \<^item> Worker, Feeder, Worker_Props: the loops of src/agents/src/math_worker and task_feeder with their parsers, prompts
    and histories, and what they do at the Task Board.
  \<^item> Math task factory, src/tools/src/math_task_factory. Math_Tasks: types.py and the generators of levels 1 to 9 in
    factory.py, as programs of the state monad over random numbers; Math_Chains: chains.py, state_tracking.py and
    combined.py; Math_Puzzles: constraints.py, word_problems.py and large_arithmetic.py; Math_Factory: the tables,
    create and create_batch. Math_Props: rules for what a generator yields, that every generator makes a task of its
    kind, when the redrawing of a linear system ends; Math_Schedule: the constraint puzzles and their answers.

  \<^bold>\<open>Correspondence.\<close> A definition has the name of the method it translates (with a prefix where two services
  use the same name: mem_ for the in-memory stores, gw_ and rd_ for the gateway, db_, tdb_, ddb_, fdb_, adb_ for its
  clients, post_ for endpoints, client_, agent_ and platform_ for callers). A
  method takes the state and gives a result (Inl an exception, Inr a value) and the state. Rows are records, tables are
  dictionaries, times are microseconds since 1970, integers are unbounded as in Python and 64 bits wide in SQLite. The
  locks of the stores make a store method one step; where a handler awaits a call, or is served in a thread, its parts
  are definitions of their own, so that other requests can come between them. The properties of Task Board and bank
  together (Economy_Props) are about requests served one after another.

  \<^bold>\<open>Loops and fuel.\<close> Loops over lists are structural. The redrawing of a linear system may not end: redraw is a
  partial function with the value None for that, and system_settles says when it is. The workers' endless loops take a
  number of rounds, and what is proved of them holds for every number.

  \<^bold>\<open>What is assumed.\<close> uuid4 does not repeat (uuid_unique). Tokens: what Identity's verify-jws answers and what
  decoding a token part yields are parameters; where a property needs them to fit (tokens_faithful, signer_faithful,
  identity_plain) it says so. The network may lose requests and answers but invents none. Language models, Ed25519, the
  JWS library, JSON parsing of bytes, sleeping (others act meanwhile) and the shuffling of the feeder's tasks are
  parameters. Random numbers are a stream of which nothing is assumed.

  \<^bold>\<open>Limits.\<close> Floats appear where JSON carries them and otherwise not: the gateway's model does not store them, and the
  factory's decimals are numbers of tenths or hundredths. Texts are Latin-1 characters, those of the factory the bytes of
  UTF-8. Numeric text in INTEGER columns, columns of constraints other than as the schema spells them, the order the
  database gives rows of equal keys, and identifiers with reserved characters of URLs other than the slash are left
  out. fromisoformat is defined on the forms the services write.

  \<^bold>\<open>Not modelled.\<close> Start-up, configuration and logging (glue); the
  size and content-type middleware of the services other than the board; closing of clients. The Observatory
  (src/services/ui): read-only SQL over the gateway's database for its dashboards and JavaScript, whose queries use SQL
  the gateway does not (windows, dates, aggregates over floats). Command line entry points, the client of the language
  model (llm_client.py) and its use to rewrite the texts of tasks (llm_dressup.py).
\<close>

end
